(* ===== verification/Hexo_Prelude.thy ===== *)
theory Hexo_Prelude
  imports Main "HOL-Library.Word" "HOL-Library.Sublist" "HOL-Library.Signed_Division"
begin

text \<open>
  The shared layer of the development: the types every component uses (bytes, public keys,
  results), the pieces of the language's standard library the source relies on (decimal
  printing of integers, substring tests, truncating division, optional lookup with a default,
  array maps whose callback may throw), and the lemmas on them the component theories share.

  A JavaScript \<open>bigint\<close> is an \<open>int\<close>, a \<open>number\<close> that only ever holds a whole value is an
  \<open>int\<close> or \<open>nat\<close>, and a function that may throw returns a sum whose left side is the message
  of the thrown \<open>Error\<close>.
\<close>

section \<open>Collections of facts\<close>

named_theorems tick_simps "unfolding facts for the operator's step functions"
named_theorems js_simps "facts on the modelled pieces of the standard library"

section \<open>Types\<close>

type_synonym byte = "8 word"
type_synonym bytes = "byte list"
type_synonym pubkey = bytes
type_synonym 'a res = "string + 'a"

section \<open>Results\<close>

fun rbind :: "'a res \<Rightarrow> ('a \<Rightarrow> 'b res) \<Rightarrow> 'b res" where
  "rbind (Inl e) f = Inl e"
| "rbind (Inr x) f = f x"

fun isOk :: "'a res \<Rightarrow> bool" where
  "isOk (Inl _) = False"
| "isOk (Inr _) = True"

text \<open>\<open>xs.map(f)\<close> (or \<open>Promise.all(xs.map(f))\<close>) where the callback may throw: the first error wins.\<close>

fun mapRes :: "('a \<Rightarrow> 'b res) \<Rightarrow> 'a list \<Rightarrow> 'b list res" where
  "mapRes f [] = Inr []"
| "mapRes f (x # xs) =
    (case f x of Inl e \<Rightarrow> Inl e
     | Inr y \<Rightarrow> (case mapRes f xs of Inl e \<Rightarrow> Inl e | Inr ys \<Rightarrow> Inr (y # ys)))"

lemma isOk_iff: "isOk r \<longleftrightarrow> (\<exists>x. r = Inr x)"
  by (cases r) auto

lemma rbind_Inr_iff [js_simps]: "rbind r f = Inr y \<longleftrightarrow> (\<exists>x. r = Inr x \<and> f x = Inr y)"
  by (cases r) auto

lemma mapRes_Inr_iff: "mapRes f xs = Inr ys \<longleftrightarrow> list_all2 (\<lambda>x y. f x = Inr y) xs ys"
proof (induction xs arbitrary: ys)
  case Nil
  then show ?case by auto
next
  case (Cons x xs)
  have "mapRes f (x # xs) = Inr ys \<longleftrightarrow> (\<exists>z zs. f x = Inr z \<and> mapRes f xs = Inr zs \<and> ys = z # zs)"
    by (auto split: sum.splits)
  then show ?case by (auto simp: Cons.IH list_all2_Cons1)
qed

lemma mapRes_length: "mapRes f xs = Inr ys \<Longrightarrow> length ys = length xs"
  by (metis list_all2_lengthD mapRes_Inr_iff)

lemma mapRes_total: "(\<And>x. x \<in> set xs \<Longrightarrow> f x = Inr (g x)) \<Longrightarrow> mapRes f xs = Inr (map g xs)"
  by (induction xs) auto

section \<open>Maps and options\<close>

text \<open>\<open>m.get(k) ?? d\<close>.\<close>

definition getOr :: "('k \<rightharpoonup> 'v) \<Rightarrow> 'k \<Rightarrow> 'v \<Rightarrow> 'v" where
  "getOr m k d = (case m k of Some v \<Rightarrow> v | None \<Rightarrow> d)"

definition mapDelete :: "('k \<rightharpoonup> 'v) \<Rightarrow> 'k \<Rightarrow> ('k \<rightharpoonup> 'v)" where
  "mapDelete m k = m(k := None)"

text \<open>The keys of a JavaScript \<open>Map\<close> in insertion order.\<close>

definition firstOccurrences :: "'a list \<Rightarrow> 'a list" where
  "firstOccurrences xs = rev (remdups (rev xs))"

text \<open>\<open>a ?? b\<close> on an optional left operand.\<close>

fun orElse :: "'a option \<Rightarrow> 'a option \<Rightarrow> 'a option" where
  "orElse (Some x) y = Some x"
| "orElse None y = y"

lemma getOr_simps [simp]:
  "getOr (m(k \<mapsto> v)) k d = v"
  "k \<noteq> k' \<Longrightarrow> getOr (m(k' \<mapsto> v)) k d = getOr m k d"
  "getOr Map.empty k d = d"
  "getOr (mapDelete m k) k d = d"
  by (auto simp: getOr_def mapDelete_def)

lemma mapDelete_apply [simp]: "mapDelete m k j = (if j = k then None else m j)"
  by (simp add: mapDelete_def)

lemma dom_mapDelete [simp]: "dom (mapDelete m k) = dom m - {k}"
  by (auto simp: mapDelete_def)

lemma orElse_None_iff [simp]: "orElse a b = None \<longleftrightarrow> a = None \<and> b = None"
  by (cases a) auto

lemma orElse_not_None [simp]: "orElse a (Some b) \<noteq> None"
  by (cases a) auto

section \<open>Integers\<close>

text \<open>BigInt division truncates towards zero; on non-negative operands it is \<open>div\<close>.\<close>

definition bigDiv :: "int \<Rightarrow> int \<Rightarrow> int" where
  "bigDiv a b = a sdiv b"

lemma bigDiv_nonneg: "0 \<le> a \<Longrightarrow> 0 \<le> b \<Longrightarrow> bigDiv a b = a div b"
  by (cases "a = 0"; cases "b = 0") (auto simp: bigDiv_def signed_divide_int_def sgn_if)

lemma bigDiv_ge_0: "0 \<le> a \<Longrightarrow> 0 \<le> b \<Longrightarrow> 0 \<le> bigDiv a b"
  by (cases "b = 0") (auto simp: bigDiv_nonneg pos_imp_zdiv_nonneg_iff)

text \<open>\<open>Number.MAX_SAFE_INTEGER\<close>.\<close>

definition MAX_SAFE_INTEGER :: int where "MAX_SAFE_INTEGER = 9007199254740991"

definition imax :: "int \<Rightarrow> int \<Rightarrow> int" where
  "imax a b = (if a > b then a else b)"

lemma imax_eq [js_simps]: "imax a b = max a b"
  by (auto simp: imax_def)

section \<open>Strings\<close>

fun strIncludes :: "string \<Rightarrow> string \<Rightarrow> bool" where
  "strIncludes [] p = (p = [])"
| "strIncludes (c # s) p = (prefix p (c # s) \<or> strIncludes s p)"

lemma strIncludes_sublist: "strIncludes s p \<longleftrightarrow> sublist p s"
  by (induction s) (auto simp: sublist_Cons_right)

lemma strIncludes_refl [simp]: "strIncludes s s"
  by (simp add: strIncludes_sublist)

text \<open>\<open>xs.join(sep)\<close>.\<close>

fun joinWith :: "string \<Rightarrow> string list \<Rightarrow> string" where
  "joinWith sep [] = []"
| "joinWith sep [x] = x"
| "joinWith sep (x # xs) = x @ sep @ joinWith sep xs"

text \<open>\<open>s.split(sep)\<close> for a one-character separator, and \<open>s.padStart(n, "0")\<close>.\<close>

fun splitOn :: "char \<Rightarrow> string \<Rightarrow> string list" where
  "splitOn sep [] = [[]]"
| "splitOn sep (c # s) =
    (if c = sep then [] # splitOn sep s
     else (case splitOn sep s of [] \<Rightarrow> [[c]] | w # ws \<Rightarrow> (c # w) # ws))"

definition padStart :: "nat \<Rightarrow> string \<Rightarrow> string" where
  "padStart n s = replicate (n - length s) (CHR ''0'') @ s"

definition digitChar :: "nat \<Rightarrow> char" where
  "digitChar d = ''0123456789'' ! d"

definition digitVal :: "char \<Rightarrow> nat option" where
  "digitVal c = (let v = of_char c :: nat in if 48 \<le> v \<and> v \<le> 57 then Some (v - 48) else None)"

definition isDigit :: "char \<Rightarrow> bool" where "isDigit c = (digitVal c \<noteq> None)"

definition isWordChar :: "char \<Rightarrow> bool" where
  "isWordChar c = (let v = of_char c :: nat in isDigit c \<or> 65 \<le> v \<and> v \<le> 90 \<or> 97 \<le> v \<and> v \<le> 122 \<or> v = 95)"

definition lowerChar :: "char \<Rightarrow> char" where
  "lowerChar c = (let v = of_char c :: nat in if 65 \<le> v \<and> v \<le> 90 then char_of (v + 32) else c)"

text \<open>\<open>s.trim()\<close>, on ASCII text.\<close>

definition isSpace :: "char \<Rightarrow> bool" where
  "isSpace c = (let v = of_char c :: nat in v = 32 \<or> 9 \<le> v \<and> v \<le> 13)"

definition trimText :: "string \<Rightarrow> string" where
  "trimText s = rev (dropWhile isSpace (rev (dropWhile isSpace s)))"

text \<open>\<open>n.toString()\<close> for a non-negative integer, and the decimal reader it is inverse to.\<close>

fun showNat :: "nat \<Rightarrow> string" where
  "showNat n = (if n < 10 then [digitChar n] else showNat (n div 10) @ [digitChar (n mod 10)])"

declare showNat.simps [simp del]

definition showInt :: "int \<Rightarrow> string" where
  "showInt i = (if i < 0 then CHR ''-'' # showNat (nat (- i)) else showNat (nat i))"

fun readDigits :: "nat \<Rightarrow> string \<Rightarrow> nat option" where
  "readDigits a [] = Some a"
| "readDigits a (c # s) = (case digitVal c of None \<Rightarrow> None | Some d \<Rightarrow> readDigits (10 * a + d) s)"

lemma lt_10_cases: "(d::nat) < 10 \<Longrightarrow> d \<in> {0,1,2,3,4,5,6,7,8,9}"
  by auto

lemma digitVal_digitChar [simp]: "d < 10 \<Longrightarrow> digitVal (digitChar d) = Some d"
  by (drule lt_10_cases) (auto simp: digitVal_def digitChar_def)

lemma readDigits_append:
  "readDigits a (s @ t) = (case readDigits a s of None \<Rightarrow> None | Some b \<Rightarrow> readDigits b t)"
  by (induction s arbitrary: a) (auto split: option.splits)

lemma readDigits_showNat [simp]: "readDigits 0 (showNat n) = Some n"
proof (induction n rule: less_induct)
  case (less n)
  show ?case
  proof (cases "n < 10")
    case True
    then show ?thesis by (simp add: showNat.simps)
  next
    case False
    then have "n div 10 < n" by simp
    from less[OF this] False show ?thesis
      by (subst showNat.simps) (simp add: readDigits_append)
  qed
qed

lemma showNat_not_Nil [simp]: "showNat n \<noteq> []"
  by (subst showNat.simps) simp

lemma digits_showNat: "set (showNat n) \<subseteq> {c. isDigit c} \<and> showNat n \<noteq> []"
proof (induction n rule: less_induct)
  case (less n)
  have d: "isDigit (digitChar (n mod 10))" by (simp add: isDigit_def)
  show ?case
  proof (cases "n < 10")
    case True
    then show ?thesis using d by (subst showNat.simps) simp
  next
    case False
    then show ?thesis using less[of "n div 10"] d by (subst showNat.simps) auto
  qed
qed

lemma isDigit_not_space: "isDigit c \<Longrightarrow> \<not> isSpace c"
  by (auto simp: isDigit_def digitVal_def isSpace_def Let_def split: if_splits)

lemma trimText_id: "s \<noteq> [] \<Longrightarrow> \<not> isSpace (hd s) \<Longrightarrow> \<not> isSpace (last s) \<Longrightarrow> trimText s = s"
proof -
  assume s: "s \<noteq> []" "\<not> isSpace (hd s)" "\<not> isSpace (last s)"
  then have "dropWhile isSpace s = s" "dropWhile isSpace (rev s) = rev s"
    by (simp_all add: dropWhile_eq_self_iff hd_rev)
  then show ?thesis by (simp add: trimText_def)
qed

text \<open>Reading digits: the value of a text of digits, with any accumulator and any split.\<close>

lemma readDigits_acc:
  "list_all isDigit s \<Longrightarrow> \<exists>n. n < 10 ^ length s \<and> (\<forall>a. readDigits a s = Some (a * 10 ^ length s + n))"
proof (induction s)
  case (Cons c s)
  then obtain n d where n: "n < 10 ^ length s" "\<And>a. readDigits a s = Some (a * 10 ^ length s + n)"
      and d: "digitVal c = Some d" "d < 10"
    by (auto simp: isDigit_def digitVal_def Let_def split: if_splits)
  have "d * 10 ^ length s + n < 10 ^ length (c # s)"
  proof -
    have "d * 10 ^ length s + n < (d + 1) * 10 ^ length s" using n(1) by simp
    also have "\<dots> \<le> 10 * 10 ^ length s" using d(2) by (intro mult_right_mono) auto
    finally show ?thesis by simp
  qed
  then show ?case using n d by (intro exI[of _ "d * 10 ^ length s + n"]) (auto simp: algebra_simps)
qed simp

lemma readDigits_split:
  assumes "list_all isDigit (s @ t)" "readDigits 0 (s @ t) = Some n"
  shows "readDigits 0 s = Some (n div 10 ^ length t) \<and> readDigits 0 t = Some (n mod 10 ^ length t)"
proof -
  obtain x where x: "\<And>a. readDigits a s = Some (a * 10 ^ length s + x)" using readDigits_acc[of s] assms(1) by auto
  obtain y where y: "y < 10 ^ length t" "\<And>a. readDigits a t = Some (a * 10 ^ length t + y)"
    using readDigits_acc[of t] assms(1) by auto
  have "n = x * 10 ^ length t + y" using assms(2) by (simp add: readDigits_append x y)
  then show ?thesis using x y by simp
qed

lemma readDigits_zeros [simp]: "readDigits 0 (replicate k (CHR ''0'') @ s) = readDigits 0 s"
  by (induction k) (simp_all add: digitVal_def)

lemma isDigit_zero [simp]: "isDigit (CHR ''0'')"
  by (simp add: isDigit_def digitVal_def)

lemma isDigit_dot [simp]: "\<not> isDigit (CHR ''.'')" "\<not> isDigit (CHR '','')" "\<not> isDigit (CHR ''-'')"
  by (simp_all add: isDigit_def digitVal_def)

lemma showNat_digits: "list_all isDigit (showNat n)"
  using digits_showNat[of n] by (auto simp: list_all_iff)

lemma showNat_inj [simp]: "showNat m = showNat n \<longleftrightarrow> m = n"
  by (metis option.inject readDigits_showNat)

lemma digitChar_not_minus: "d < 10 \<Longrightarrow> digitChar d \<noteq> CHR ''-''"
  by (drule lt_10_cases) (auto simp: digitChar_def)

lemma digitVal_minus: "digitVal (CHR ''-'') = None"
  by (simp add: digitVal_def)

lemma showNat_not_minus: "showNat n \<noteq> CHR ''-'' # s"
proof
  assume "showNat n = CHR ''-'' # s"
  then have "readDigits 0 (CHR ''-'' # s) = Some n" by (metis readDigits_showNat)
  then show False by (simp add: digitVal_minus)
qed

lemma showInt_inj [simp]: "showInt i = showInt j \<longleftrightarrow> i = j"
  using showNat_not_minus by (auto simp: showInt_def) (metis showNat_not_minus)+

lemma splitOn_join:
  "ws \<noteq> [] \<Longrightarrow> (\<And>w. w \<in> set ws \<Longrightarrow> sep \<notin> set w) \<Longrightarrow> splitOn sep (joinWith [sep] ws) = ws"
proof (induction ws rule: induct_list012)
  case (2 w)
  have "sep \<notin> set w \<Longrightarrow> splitOn sep w = [w]" by (induction w) auto
  then show ?case using 2 by simp
next
  case (3 w v ws)
  have "sep \<notin> set w \<Longrightarrow> splitOn sep (w @ sep # rest) = w # splitOn sep rest" for rest by (induction w) auto
  then show ?case using 3 by simp
qed simp

section \<open>Lists\<close>

text \<open>\<open>xs.reduce((s, x) => x < s ? x : s)\<close>: the smallest element of a non-empty array.\<close>

fun minOf :: "int \<Rightarrow> int list \<Rightarrow> int" where
  "minOf s [] = s"
| "minOf s (x # xs) = minOf (if x < s then x else s) xs"

lemma minOf_le: "y \<in> set (s # xs) \<Longrightarrow> minOf s xs \<le> y"
proof (induction xs arbitrary: s y)
  case Nil
  then show ?case by simp
next
  case (Cons x xs)
  have *: "minOf t xs \<le> t" for t using Cons.IH by simp
  from Cons.prems show ?case
    using Cons.IH *[of x] *[of s] by (auto split: if_splits) (smt (verit, best))+
qed

lemma minOf_in: "minOf s xs \<in> set (s # xs)"
  by (induction xs arbitrary: s) (auto split: if_splits)

lemma sum_list_nonneg_int: "(\<And>x. x \<in> set xs \<Longrightarrow> 0 \<le> f x) \<Longrightarrow> 0 \<le> (\<Sum>x\<leftarrow>xs. (f x :: int))"
  by (rule sum_list_nonneg) auto

lemma sum_list_mono_int:
  "(\<And>x. x \<in> set xs \<Longrightarrow> f x \<le> (g x :: int)) \<Longrightarrow> (\<Sum>x\<leftarrow>xs. f x) \<le> (\<Sum>x\<leftarrow>xs. g x)"
  by (rule sum_list_mono) auto

end
