(* ===== verification/Chain_State.thy ===== *)
theory Chain_State
  imports Hexo_Prelude
begin

text \<open>
  The slice of on-chain state one operator tick reads (\<open>operator/chain-state.ts\<close>): the Pool,
  Epoch, Round and Player records, the numeric status codes, and the reader that takes
  \<open>unix_timestamp\<close> out of the Clock sysvar's bytes.
\<close>

section \<open>Status codes\<close>

definition EPOCH_OPEN :: int where "EPOCH_OPEN = 0"
definition EPOCH_REGISTERING :: int where "EPOCH_REGISTERING = 1"
definition EPOCH_DRAWING :: int where "EPOCH_DRAWING = 2"
definition EPOCH_DRAWN :: int where "EPOCH_DRAWN = 3"
definition EPOCH_PAID :: int where "EPOCH_PAID = 4"
definition EPOCH_ROLLED_OVER :: int where "EPOCH_ROLLED_OVER = 5"

definition ROUND_OPEN :: int where "ROUND_OPEN = 0"
definition ROUND_REQUESTED :: int where "ROUND_REQUESTED = 1"
definition ROUND_SETTLED :: int where "ROUND_SETTLED = 2"
definition ROUND_FORFEITED :: int where "ROUND_FORFEITED = 3"
definition ROUND_VOIDED :: int where "ROUND_VOIDED = 4"

lemmas epoch_status_defs =
  EPOCH_OPEN_def EPOCH_REGISTERING_def EPOCH_DRAWING_def EPOCH_DRAWN_def EPOCH_PAID_def
  EPOCH_ROLLED_OVER_def

lemmas round_status_defs =
  ROUND_OPEN_def ROUND_REQUESTED_def ROUND_SETTLED_def ROUND_FORFEITED_def ROUND_VOIDED_def

section \<open>Accounts\<close>

record pool_state =
  pl_address :: pubkey
  pl_admin :: pubkey
  pl_operator :: pubkey
  pl_acceptedMint :: pubkey
  pl_treasury :: pubkey
  pl_buybackReserve :: pubkey
  pl_house :: pubkey
  pl_vrfNetworkState :: pubkey
  pl_epochSeconds :: int
  pl_roundSeconds :: int
  pl_closeBuffer :: int
  pl_vrfTimeout :: int
  pl_registrationWindow :: int
  pl_payoutTimeout :: int
  pl_paused :: bool
  pl_currentEpochId :: int
  pl_nextRoundId :: int
  pl_openRoundId :: int
  pl_totalPrincipal :: int
  pl_shutdown :: bool
  pl_gamePaused :: bool
  pl_jackpotPaused :: bool

record epoch_state =
  ep_epochId :: int
  ep_startsAt :: int
  ep_endsAt :: int
  ep_status :: int
  ep_registeredCount :: int
  ep_jackpotAmount :: int
  ep_vrfSeed :: bytes
  ep_requestedAt :: int
  ep_target :: int
  ep_drawnAt :: int
  ep_registrationOpenedAt :: int

record round_state =
  rd_roundId :: int
  rd_endsAt :: int
  rd_status :: int
  rd_vrfSeed :: bytes
  rd_requestedAt :: int

record player_state =
  ps_entries :: int

section \<open>The Clock sysvar\<close>

text \<open>Little-endian reads and writes of machine integers, as \<open>Buffer\<close> does them.\<close>

fun leVal :: "bytes \<Rightarrow> int" where
  "leVal [] = 0"
| "leVal (b # bs) = uint b + 256 * leVal bs"

fun leBytes :: "nat \<Rightarrow> int \<Rightarrow> bytes" where
  "leBytes 0 v = []"
| "leBytes (Suc n) v = word_of_int (v mod 256) # leBytes n (v div 256)"

definition readBigInt64LE :: "bytes \<Rightarrow> nat \<Rightarrow> int" where
  "readBigInt64LE data off =
    (let u = leVal (take 8 (drop off data)) in if u < 2 ^ 63 then u else u - 2 ^ 64)"

definition clockUnixTimestamp :: "bytes option \<Rightarrow> int res" where
  "clockUnixTimestamp data =
    (case data of
       None \<Rightarrow> Inl ''clock sysvar account is missing or truncated''
     | Some d \<Rightarrow>
         if length d < 40 then Inl ''clock sysvar account is missing or truncated''
         else Inr (readBigInt64LE d 32))"

lemma length_leBytes [simp]: "length (leBytes n v) = n"
  by (induction n arbitrary: v) auto

lemma leVal_bounds: "0 \<le> leVal bs \<and> leVal bs < 256 ^ length bs"
proof (induction bs)
  case (Cons b bs)
  have "0 \<le> uint b" "uint b < 256" using uint_bounded[of b] by auto
  with Cons show ?case by auto
qed simp

lemma leVal_leBytes: "leVal (leBytes n v) = v mod 256 ^ n"
proof (induction n arbitrary: v)
  case (Suc n)
  have "uint (word_of_int (v mod 256) :: byte) = v mod 256"
    by (simp add: uint_word_of_int)
  with Suc show ?case
    by (simp add: mod_mult2_eq' zmod_zmult2_eq)
qed simp

lemma leBytes_leVal: "leBytes (length bs) (leVal bs) = bs"
proof (induction bs)
  case (Cons b bs)
  have b: "0 \<le> uint b" "uint b < 256" using uint_bounded[of b] by auto
  then have "(uint b + 256 * leVal bs) mod 256 = uint b" "(uint b + 256 * leVal bs) div 256 = leVal bs"
    by auto
  with Cons show ?case by simp
qed simp

lemma clockUnixTimestamp_ok_iff:
  "isOk (clockUnixTimestamp data) \<longleftrightarrow> (\<exists>d. data = Some d \<and> 40 \<le> length d)"
  by (auto simp: clockUnixTimestamp_def split: option.splits)

lemma clockUnixTimestamp_roundtrip:
  assumes "length pre = 32" "- (2 ^ 63) \<le> t" "t < 2 ^ 63"
  shows "clockUnixTimestamp (Some (pre @ leBytes 8 t @ post)) = Inr t"
proof -
  have "leVal (leBytes 8 t) = t mod 2 ^ 64" by (simp add: leVal_leBytes)
  moreover have "t mod 2 ^ 64 = (if 0 \<le> t then t else t + 2 ^ 64)"
    using assms by auto (smt (verit) mod_add_self2 mod_pos_pos_trivial)
  ultimately show ?thesis
    using assms by (auto simp: clockUnixTimestamp_def readBigInt64LE_def)
qed

end
