(* ===== verification/Vrf.thy ===== *)
theory Vrf
  imports Chain_State
begin

unbundle bit_operations_syntax

text \<open>
  Randomness plumbing (\<open>operator/vrf.ts\<close>): the fulfilled check on the oracle's account, the
  address the program checks it against, the request seed, and the inline Keccak-256.

  The permutation is modelled as it is written: lanes are unbounded integers (JavaScript
  bigints, whose shifts and complements do not wrap) stored in a \<open>BigUint64Array\<close>, so every
  store reduces modulo \<open>2 ^ 64\<close> and nothing else does. The second half of the theory states
  Keccak-f[1600] the way FIPS 202 does, as five step mappings on a 5 by 5 array of 64-bit words,
  and shows that the source computes it.

  The discriminator of ORAO's account is a SHA-256 the Anchor package computes, and program
  address derivation is the Solana package's: both are parameters.
\<close>

section \<open>The fulfilled check and the randomness address\<close>

definition FULFILLED_LEN :: nat where
  "FULFILLED_LEN = 8 + 1 + 32 + 32 + 64"

definition isFulfilled :: "bytes \<Rightarrow> bytes option \<Rightarrow> bool" where
  "isFulfilled disc data =
    (case data of None \<Rightarrow> False
     | Some d \<Rightarrow>
         if length d < FULFILLED_LEN then False
         else if disc \<noteq> take 8 d then False
         else d ! 8 = 1)"

definition asciiBytes :: "string \<Rightarrow> bytes" where
  "asciiBytes s = map (\<lambda>c. word_of_nat (of_char c)) s"

definition randomnessAddress ::
    "(bytes list \<Rightarrow> pubkey \<Rightarrow> pubkey) \<Rightarrow> pubkey \<Rightarrow> pubkey \<Rightarrow> bytes \<Rightarrow> bool \<Rightarrow> pubkey" where
  "randomnessAddress findProgramAddress oraoProgram programId seed testVrf =
    (if testVrf then findProgramAddress [asciiBytes ''test-vrf'', seed] programId
     else findProgramAddress [asciiBytes ''orao-vrf-randomness-request'', seed] oraoProgram)"

section \<open>Keccak-256 as the source computes it\<close>

definition RATE :: nat where "RATE = 136"
definition ROUNDS :: nat where "ROUNDS = 24"

definition ROUND_CONSTANTS :: "int list" where
  "ROUND_CONSTANTS =
    [0x0000000000000001, 0x0000000000008082, 0x800000000000808a, 0x8000000080008000,
     0x000000000000808b, 0x0000000080000001, 0x8000000080008081, 0x8000000000008009,
     0x000000000000008a, 0x0000000000000088, 0x0000000080008009, 0x000000008000000a,
     0x000000008000808b, 0x800000000000008b, 0x8000000000008089, 0x8000000000008003,
     0x8000000000008002, 0x8000000000000080, 0x000000000000800a, 0x800000008000000a,
     0x8000000080008081, 0x8000000000008080, 0x0000000080000001, 0x8000000080008008]"

definition ROTATIONS :: "nat list" where
  "ROTATIONS =
    [0, 1, 62, 28, 27, 36, 44, 6, 55, 20, 3, 10, 43, 25, 39, 41, 45, 15,
     21, 8, 18, 2, 61, 56, 14]"

definition rotl :: "int \<Rightarrow> nat \<Rightarrow> int" where
  "rotl x n = (if n = 0 then x else push_bit n x OR drop_bit (64 - n) x)"

text \<open>A store into a \<open>BigUint64Array\<close>.\<close>

definition setLane :: "int list \<Rightarrow> nat \<Rightarrow> int \<Rightarrow> int list" where
  "setLane lanes i v = lanes[i := v mod 2 ^ 64]"

definition columnParity :: "int list \<Rightarrow> int list" where
  "columnParity lanes =
    fold (\<lambda>x c. setLane c x
            (lanes ! x XOR lanes ! (x + 5) XOR lanes ! (x + 10) XOR lanes ! (x + 15) XOR lanes ! (x + 20)))
      [0..<5] (replicate 5 0)"

definition thetaLoop :: "int list \<Rightarrow> int list \<Rightarrow> int list" where
  "thetaLoop c lanes =
    fold (\<lambda>x ls.
        let d = c ! ((x + 4) mod 5) XOR rotl (c ! ((x + 1) mod 5)) 1
        in fold (\<lambda>y ms. setLane ms (x + y) (ms ! (x + y) XOR d)) [0, 5, 10, 15, 20] ls)
      [0..<5] lanes"

definition rhoPiLoop :: "int list \<Rightarrow> int list \<Rightarrow> int list" where
  "rhoPiLoop lanes b0 =
    fold (\<lambda>x b. fold (\<lambda>y bs. setLane bs (y + 5 * ((2 * x + 3 * y) mod 5))
                              (rotl (lanes ! (x + 5 * y)) (ROTATIONS ! (x + 5 * y)))) [0..<5] b)
      [0..<5] b0"

definition chiLoop :: "int list \<Rightarrow> int list \<Rightarrow> int list" where
  "chiLoop b lanes =
    fold (\<lambda>y ls. fold (\<lambda>x ms. setLane ms (x + y)
                               (b ! (x + y) XOR (NOT (b ! ((x + 1) mod 5 + y)) AND b ! ((x + 2) mod 5 + y)))) [0..<5] ls)
      [0, 5, 10, 15, 20] lanes"

definition permuteRound :: "int list \<times> int list \<Rightarrow> nat \<Rightarrow> int list \<times> int list" where
  "permuteRound st round =
    (let lanes = thetaLoop (columnParity (fst st)) (fst st);
         b = rhoPiLoop lanes (snd st);
         lanes = chiLoop b lanes
     in (setLane lanes 0 (lanes ! 0 XOR ROUND_CONSTANTS ! round), b))"

definition permute :: "int list \<Rightarrow> int list" where
  "permute lanes = fst (fold (\<lambda>r st. permuteRound st r) [0..<ROUNDS] (lanes, replicate 25 0))"

definition padInput :: "bytes \<Rightarrow> bytes" where
  "padInput input =
    (let n = (length input div RATE + 1) * RATE;
         padded = (input @ replicate (n - length input) 0)[length input := 0x01]
     in padded[n - 1 := padded ! (n - 1) OR 0x80])"

definition absorbBlock :: "bytes \<Rightarrow> nat \<Rightarrow> int list \<Rightarrow> int list" where
  "absorbBlock padded offset lanes =
    permute (fold (\<lambda>lane ls. setLane ls lane
                     (ls ! lane XOR leVal (take 8 (drop (offset + lane * 8) padded))))
               [0..<RATE div 8] lanes)"

definition keccak256 :: "bytes \<Rightarrow> bytes" where
  "keccak256 input =
    (let padded = padInput input;
         lanes = fold (\<lambda>k ls. absorbBlock padded (k * RATE) ls) [0..<length padded div RATE]
                   (replicate 25 0)
     in concat (map (\<lambda>lane. leBytes 8 (lanes ! lane)) [0..<4]))"

text \<open>\<open>writeBigUInt64LE\<close> refuses a value outside \<open>[0, 2 ^ 64)\<close>.\<close>

definition leU64 :: "int \<Rightarrow> bytes res" where
  "leU64 v = (if 0 \<le> v \<and> v < 2 ^ 64 then Inr (leBytes 8 v)
              else Inl ''The value of \"value\" is out of range.'')"

definition vrfPreimage :: "string \<Rightarrow> pubkey \<Rightarrow> int \<Rightarrow> bytes \<Rightarrow> bytes res" where
  "vrfPreimage domain pool i nonce =
    rbind (leU64 i) (\<lambda>idLe. Inr (asciiBytes domain @ pool @ idLe @ nonce))"

definition vrfSeed :: "string \<Rightarrow> pubkey \<Rightarrow> int \<Rightarrow> bytes \<Rightarrow> bytes res" where
  "vrfSeed domain pool i nonce =
    rbind (vrfPreimage domain pool i nonce) (\<lambda>bytes. Inr (keccak256 bytes))"

section \<open>Keccak-f[1600] as FIPS 202 states it\<close>

type_synonym kstate = "nat \<Rightarrow> nat \<Rightarrow> 64 word"

definition ref_theta :: "kstate \<Rightarrow> kstate" where
  "ref_theta A = (\<lambda>x y.
    (let C = (\<lambda>x. A x 0 XOR A x 1 XOR A x 2 XOR A x 3 XOR A x 4)
     in A x y XOR (C ((x + 4) mod 5) XOR word_rotl 1 (C ((x + 1) mod 5)))))"

definition ref_offset :: "nat \<Rightarrow> nat \<Rightarrow> nat" where
  "ref_offset x y =
    [[0, 36, 3, 41, 18], [1, 44, 10, 45, 2], [62, 6, 43, 15, 61],
     [28, 55, 25, 21, 56], [27, 20, 39, 8, 14]] ! x ! y"

definition ref_rho :: "kstate \<Rightarrow> kstate" where
  "ref_rho A = (\<lambda>x y. word_rotl (ref_offset x y) (A x y))"

definition ref_pi :: "kstate \<Rightarrow> kstate" where
  "ref_pi A = (\<lambda>x y. A ((x + 3 * y) mod 5) x)"

definition ref_chi :: "kstate \<Rightarrow> kstate" where
  "ref_chi A = (\<lambda>x y. A x y XOR (NOT (A ((x + 1) mod 5) y) AND A ((x + 2) mod 5) y))"

definition ref_iota :: "nat \<Rightarrow> kstate \<Rightarrow> kstate" where
  "ref_iota r A = (\<lambda>x y. if x = 0 \<and> y = 0 then A 0 0 XOR word_of_int (ROUND_CONSTANTS ! r) else A x y)"

definition ref_round :: "nat \<Rightarrow> kstate \<Rightarrow> kstate" where
  "ref_round r A = ref_iota r (ref_chi (ref_pi (ref_rho (ref_theta A))))"

definition keccak_f :: "kstate \<Rightarrow> kstate" where
  "keccak_f A = fold ref_round [0..<24] A"

text \<open>The sponge with rate 1088: absorb a block into the first 17 lanes, permute, read 32 bytes.\<close>

definition ref_absorb :: "bytes \<Rightarrow> kstate \<Rightarrow> kstate" where
  "ref_absorb block A = keccak_f (\<lambda>x y.
    if x + 5 * y < 17 then A x y XOR word_of_int (leVal (take 8 (drop (8 * (x + 5 * y)) block)))
    else A x y)"

definition ref_keccak256 :: "bytes \<Rightarrow> bytes" where
  "ref_keccak256 input =
    (let padded = padInput input;
         blocks = map (\<lambda>k. take RATE (drop (k * RATE) padded)) [0..<length padded div RATE];
         A = fold ref_absorb blocks (\<lambda>x y. 0)
     in concat (map (\<lambda>i. leBytes 8 (uint (A i 0))) [0..<4]))"

text \<open>The layout: lane \<open>x + 5 * y\<close> of the array holds the word at column \<open>x\<close>, row \<open>y\<close>.\<close>

definition lanesOf :: "kstate \<Rightarrow> int list" where
  "lanesOf A = map (\<lambda>i. uint (A (i mod 5) (i div 5))) [0..<25]"

section \<open>The source computes it\<close>

lemma upt5: "[0..<5] = [0,1,2,3,4::nat]" by (simp add: upt_rec)
lemma upt25: "[0..<25] = [0,1,2,3,4,5,6,7,8,9,10,11,12,13,14,15,16,17,18,19,20,21,22,23,24::nat]"
  by (simp add: upt_rec)

lemma lanesOf_list: "lanesOf A =
  [uint (A 0 0), uint (A 1 0), uint (A 2 0), uint (A 3 0), uint (A 4 0),
   uint (A 0 1), uint (A 1 1), uint (A 2 1), uint (A 3 1), uint (A 4 1),
   uint (A 0 2), uint (A 1 2), uint (A 2 2), uint (A 3 2), uint (A 4 2),
   uint (A 0 3), uint (A 1 3), uint (A 2 3), uint (A 3 3), uint (A 4 3),
   uint (A 0 4), uint (A 1 4), uint (A 2 4), uint (A 3 4), uint (A 4 4)]"
  unfolding lanesOf_def upt25 by simp

lemma uint_mod_64: "uint (w :: 64 word) mod 18446744073709551616 = uint w"
  using uint_bounded[of w] by (simp add: mod_pos_pos_trivial)

lemma store_xor: "(uint (a :: 64 word) XOR uint b) mod 18446744073709551616 = uint (a XOR b)"
  by (simp add: uint_xor [symmetric] uint_mod_64)

lemma store_rotl: "n < 64 \<Longrightarrow> rotl (uint (w :: 64 word)) n mod 18446744073709551616 = uint (word_rotl n w)"
proof (rule bit_eqI)
  fix i assume n: "n < 64"
  have *: "rotl (uint w) n mod 18446744073709551616 = take_bit 64 (rotl (uint w) n)"
    by (simp add: take_bit_eq_mod)
  show "bit (rotl (uint w) n mod 18446744073709551616) i = bit (uint (word_rotl n w)) i"
  proof (cases "n = 0 \<or> \<not> i < 64")
    case True
    then show ?thesis unfolding * using n
      by (auto simp: rotl_def bit_take_bit_iff bit_uint_iff bit_word_rotl_iff)
  next
    case False
    show ?thesis
    proof (cases "n \<le> i")
      case True
      then have "(i + (64 - n)) mod 64 = i - n" using n False by (auto simp: mod_if)
      with True False n show ?thesis unfolding * 
        by (auto simp: rotl_def bit_simps dest: bit_imp_le_length)
    next
      case F2: False
      then have "(i + (64 - n)) mod 64 = i + 64 - n" using n False by simp
      moreover have "64 - n + i = i + 64 - n" "64 + i - n = i + 64 - n" using n by auto
      ultimately show ?thesis unfolding * using F2 False n
        by (auto simp: rotl_def bit_simps)
    qed
  qed
qed

lemma store_chi: "(uint (a :: 64 word) XOR (NOT (uint b) AND uint c)) mod 18446744073709551616 = uint (a XOR (NOT b AND c))"
proof -
  have "(uint a XOR (NOT (uint b) AND uint c)) mod 18446744073709551616 = take_bit 64 (uint a XOR (NOT (uint b) AND uint c))"
    by (simp add: take_bit_eq_mod)
  also have "\<dots> = uint (a XOR (NOT b AND c))"
    by (rule bit_eqI) (auto simp: bit_simps dest: bit_imp_le_length)
  finally show ?thesis .
qed

lemmas store_simps = uint_mod_64 store_xor store_rotl store_chi

lemma replicate_5: "replicate 5 a = [a, a, a, a, a]"
  by (simp add: numeral_eq_Suc)

lemma upd_numeral: "(x # xs)[numeral v := y] = x # xs[pred_numeral v := y]" "(x # xs)[1 := y] = x # xs[0 := y]"
  by (simp_all add: numeral_eq_Suc)

lemma columnParity_ref:
  "columnParity (lanesOf A) = map (\<lambda>x. uint (A x 0 XOR A x 1 XOR A x 2 XOR A x 3 XOR A x 4)) [0..<5]"
  unfolding columnParity_def lanesOf_list upt5 replicate_5
  by (simp add: setLane_def uint_xor [symmetric] uint_mod_64 upd_numeral)

lemma store_theta:
  "(uint (w :: 64 word) XOR (uint u XOR rotl (uint v) 1)) mod 18446744073709551616
      = uint (w XOR (u XOR word_rotl 1 v))"
proof -
  have "(uint w XOR (uint u XOR rotl (uint v) 1)) mod 18446744073709551616
     = take_bit 64 (uint w XOR (uint u XOR rotl (uint v) 1))" by (simp add: take_bit_eq_mod)
  also have "\<dots> = take_bit 64 (uint w XOR (uint u XOR take_bit 64 (rotl (uint v) 1)))"
    by (rule bit_eqI) (auto simp: bit_simps)
  also have "take_bit 64 (rotl (uint v) 1) = uint (word_rotl 1 v)"
    using store_rotl[of 1 v] by (simp add: take_bit_eq_mod)
  finally show ?thesis by (simp add: uint_xor [symmetric] take_bit_eq_mod uint_mod_64)
qed

lemma thetaLoop_columns:
  "thetaLoop (map (\<lambda>x. uint (C x)) [0..<5]) (lanesOf A)
    = lanesOf (\<lambda>x y. A x y XOR (C ((x + 4) mod 5) XOR word_rotl 1 (C ((x + 1) mod 5))))"
  unfolding thetaLoop_def lanesOf_list upt5
  by (simp add: setLane_def store_theta [simplified] upd_numeral Let_def numeral_2_eq_2 [symmetric])

lemma thetaLoop_ref:
  "thetaLoop (columnParity (lanesOf A)) (lanesOf A) = lanesOf (ref_theta A)"
  unfolding columnParity_ref thetaLoop_columns ref_theta_def Let_def ..

lemma list_25:
  assumes "length (b :: 'a list) = 25"
  obtains a where "b = map a [0,1,2,3,4,5,6,7,8,9,10,11,12,13,14,15,16,17,18,19,20,21,22,23,24::nat]"
  using assms map_nth[of b] upt25 by metis

lemma rhoPiLoop_ref:
  assumes "length b0 = 25"
  shows "rhoPiLoop (lanesOf A) b0 = lanesOf (ref_pi (ref_rho A))"
proof -
  obtain a where b: "b0 = map a [0,1,2,3,4,5,6,7,8,9,10,11,12,13,14,15,16,17,18,19,20,21,22,23,24::nat]"
    using list_25[OF assms] .
  show ?thesis
    unfolding b rhoPiLoop_def lanesOf_list upt5
    by (simp add: setLane_def upd_numeral ref_pi_def ref_rho_def ref_offset_def ROTATIONS_def store_rotl numeral_2_eq_2 [symmetric])
qed

lemma chiLoop_ref:
  assumes "length b0 = 25"
  shows "chiLoop (lanesOf A) b0 = lanesOf (ref_chi A)"
proof -
  obtain a where b: "b0 = map a [0,1,2,3,4,5,6,7,8,9,10,11,12,13,14,15,16,17,18,19,20,21,22,23,24::nat]"
    using list_25[OF assms] .
  show ?thesis
    unfolding b chiLoop_def lanesOf_list upt5
    by (simp add: setLane_def upd_numeral ref_chi_def store_chi numeral_2_eq_2 [symmetric])
qed

lemma length_lanesOf [simp]: "length (lanesOf A) = 25" by (simp add: lanesOf_def)

lemma iota_ref:
  "r < 24 \<Longrightarrow> setLane (lanesOf A) 0 (lanesOf A ! 0 XOR ROUND_CONSTANTS ! r) = lanesOf (ref_iota r A)"
proof -
  assume "r < 24"
  then have "ROUND_CONSTANTS ! r \<in> set ROUND_CONSTANTS"
    by (intro nth_mem) (simp add: ROUND_CONSTANTS_def)
  moreover have "\<forall>c \<in> set ROUND_CONSTANTS. uint (word_of_int c :: 64 word) = c"
    by (simp add: ROUND_CONSTANTS_def)
  ultimately have rc: "ROUND_CONSTANTS ! r = uint (word_of_int (ROUND_CONSTANTS ! r) :: 64 word)"
    by simp
  show ?thesis
    unfolding lanesOf_list by (subst rc) (simp add: setLane_def store_xor ref_iota_def)
qed

lemma permuteRound_ref:
  "r < 24 \<Longrightarrow> length b0 = 25 \<Longrightarrow>
   \<exists>b. permuteRound (lanesOf A, b0) r = (lanesOf (ref_round r A), b) \<and> length b = 25"
  by (simp add: permuteRound_def thetaLoop_ref rhoPiLoop_ref chiLoop_ref iota_ref ref_round_def Let_def)

lemma permute_rounds_ref:
  "set rs \<subseteq> {..<24} \<Longrightarrow> length b0 = 25 \<Longrightarrow>
   fst (fold (\<lambda>r st. permuteRound st r) rs (lanesOf A, b0)) = lanesOf (fold ref_round rs A)"
proof (induction rs arbitrary: A b0)
  case (Cons r rs)
  obtain b where "permuteRound (lanesOf A, b0) r = (lanesOf (ref_round r A), b)" "length b = 25"
    using permuteRound_ref[of r b0 A] Cons.prems by auto
  then show ?case using Cons by simp
qed simp

lemma permute_ref: "permute (lanesOf A) = lanesOf (keccak_f A)"
  unfolding permute_def keccak_f_def ROUNDS_def by (rule permute_rounds_ref) auto


section \<open>Padding\<close>

lemma padInput_length: "length (padInput input) = (length input div RATE + 1) * RATE"
proof -
  have "length input < (length input div RATE + 1) * RATE"
    unfolding RATE_def by (metis dividend_less_div_times mult.commute add.commute Suc_eq_plus1 mult_Suc zero_less_numeral)
  then show ?thesis by (simp add: padInput_def Let_def)
qed

lemma padInput_room: "length input < length (padInput input)"
  unfolding padInput_length RATE_def
  by (metis add.commute dividend_less_div_times mult.commute mult_Suc Suc_eq_plus1 zero_less_numeral)

lemma padInput_nth:
  assumes "i < length (padInput input)"
  shows "padInput input ! i =
    (if i < length input then input ! i
     else (if i = length input then 1 else 0) OR (if i = length (padInput input) - 1 then 0x80 else 0))"
proof -
  define n where "n = (length input div RATE + 1) * RATE"
  have len: "length (padInput input) = n" by (simp add: n_def padInput_length)
  have "length input < n" using padInput_room[of input] len by simp
  moreover have "padInput input = (let padded = (input @ replicate (n - length input) 0)[length input := 0x01]
     in padded[n - 1 := padded ! (n - 1) OR 0x80])"
    by (simp add: padInput_def n_def Let_def)
  ultimately show ?thesis using assms len
    by (auto simp: nth_list_update nth_append Let_def)
qed

lemma padInput_take: "take (length input) (padInput input) = input"
  by (rule nth_equalityI) (use padInput_room[of input] in \<open>auto simp: padInput_nth\<close>)

lemma padInput_length_le:
  assumes eq: "padInput a = padInput b"
  shows "length a \<le> length b"
proof (rule ccontr)
  assume lt: "\<not> length a \<le> length b"
  let ?i = "length a"
  have i: "?i < length (padInput a)" by (rule padInput_room)
  have "padInput a ! ?i = 1 OR (if ?i = length (padInput a) - 1 then 0x80 else 0)"
    using i by (simp add: padInput_nth)
  moreover have "padInput b ! ?i = (if ?i = length (padInput b) - 1 then 0x80 else 0)"
    using i lt eq by (subst padInput_nth) auto
  ultimately show False using eq by (simp split: if_splits)
qed

lemma padInput_inj: "padInput a = padInput b \<Longrightarrow> a = b"
  by (metis padInput_length_le padInput_take order_antisym)

lemma leU64_inj: "leU64 i = Inr a \<Longrightarrow> leU64 j = Inr a \<Longrightarrow> i = j"
  using leVal_leBytes[of 8 i] leVal_leBytes[of 8 j] by (auto simp: leU64_def split: if_splits)

lemma leU64_length: "leU64 i = Inr a \<Longrightarrow> length a = 8"
  by (auto simp: leU64_def split: if_splits)


section \<open>The sponge\<close>

lemma absorb_fold:
  "fold (\<lambda>k ls. setLane ls k (ls ! k XOR uint (W k :: 64 word))) [0..<17] (lanesOf A)
    = lanesOf (\<lambda>x y. if x + 5 * y < 17 then A x y XOR W (x + 5 * y) else A x y)"
proof -
  have "[0..<17] = [0,1,2,3,4,5,6,7,8,9,10,11,12,13,14,15,16::nat]" by (simp add: upt_rec)
  then show ?thesis unfolding lanesOf_list
    by (simp add: setLane_def store_xor upd_numeral)
qed

lemma leVal_take8: "leVal (take 8 bs) = uint (word_of_int (leVal (take 8 bs)) :: 64 word)"
proof -
  have "(256::int) ^ length (take 8 bs) \<le> 256 ^ 8" by (rule power_increasing) simp_all
  then have "0 \<le> leVal (take 8 bs)" "leVal (take 8 bs) < 2 ^ 64"
    using leVal_bounds[of "take 8 bs"] by simp_all
  then show ?thesis by (simp add: uint_word_of_int mod_pos_pos_trivial)
qed

lemma RATE_17: "RATE div 8 = 17"
  by (simp add: RATE_def)

lemma absorbBlock_ref:
  "absorbBlock padded off (lanesOf A) = lanesOf (ref_absorb (take RATE (drop off padded)) A)"
proof -
  let ?W = "\<lambda>k. word_of_int (leVal (take 8 (drop (off + k * 8) padded))) :: 64 word"
  have k: "take 8 (drop (8 * k) (take RATE (drop off padded))) = take 8 (drop (off + k * 8) padded)"
    if "k < 17" for k
    using that by (simp add: RATE_def drop_take min_def mult.commute add.commute)
  have w: "(\<lambda>x y. if x + 5 * y < 17 then A x y XOR ?W (x + 5 * y) else A x y) =
     (\<lambda>x y. if x + 5 * y < 17 then A x y XOR
        word_of_int (leVal (take 8 (drop (8 * (x + 5 * y)) (take RATE (drop off padded))))) else A x y)"
    by (intro ext if_cong refl) (simp only: k)
  have "absorbBlock padded off (lanesOf A)
      = permute (fold (\<lambda>k ls. setLane ls k (ls ! k XOR uint (?W k))) [0..<17] (lanesOf A))"
    unfolding absorbBlock_def leVal_take8[symmetric] RATE_17 ..
  then show ?thesis
    unfolding absorb_fold permute_ref ref_absorb_def w .
qed

lemma absorb_all_ref:
  "fold (\<lambda>k ls. absorbBlock padded (k * RATE) ls) ks (lanesOf A)
    = lanesOf (fold ref_absorb (map (\<lambda>k. take RATE (drop (k * RATE) padded)) ks) A)"
  by (induction ks arbitrary: A) (auto simp: absorbBlock_ref)

lemma lanesOf_zero: "replicate 25 0 = lanesOf (\<lambda>x y. 0)"
  by (simp add: lanesOf_list numeral_eq_Suc)

lemma length_keccak256: "length (keccak256 input) = 32"
  by (simp add: keccak256_def Let_def length_concat upt_rec)

lemma asciiBytes_inj [simp]: "asciiBytes s = asciiBytes t \<longleftrightarrow> s = t"
proof -
  have "inj (\<lambda>c. word_of_nat (of_char c) :: byte)"
  proof (rule injI)
    fix c d :: char assume "(word_of_nat (of_char c) :: byte) = word_of_nat (of_char d)"
    then have "unat (word_of_nat (of_char c) :: byte) = unat (word_of_nat (of_char d) :: byte)" by simp
    moreover have "of_char c < (256::nat)" "of_char d < (256::nat)" by simp_all
    ultimately have "of_char c = (of_char d :: nat)" by (simp add: unat_of_nat)
    then show "c = d" by simp
  qed
  then show ?thesis unfolding asciiBytes_def by (simp add: inj_map_eq_map)
qed

lemma length_asciiBytes [simp]: "length (asciiBytes s) = length s"
  by (simp add: asciiBytes_def)

section \<open>Properties\<close>


text \<open>C13: The randomness request is domain separated: two requests hash the same padded block
  sequence only when domain, Pool, id and nonce all agree, so a Round request and an Epoch
  request (or two nonces) never share a preimage.\<close>

theorem vrf_preimage_injective:
  assumes "vrfPreimage d p i n = Inr a" "vrfPreimage d' p' i' n' = Inr b"
    and "length d = length d'" "length p = length p'"
    and "padInput a = padInput b"
  shows "d = d' \<and> p = p' \<and> i = i' \<and> n = n'"
proof -
  have "a = b" using assms(5) by (rule padInput_inj)
  moreover obtain x where x: "leU64 i = Inr x" "a = asciiBytes d @ p @ x @ n"
    using assms(1) by (auto simp: vrfPreimage_def rbind_Inr_iff)
  moreover obtain y where y: "leU64 i' = Inr y" "b = asciiBytes d' @ p' @ y @ n'"
    using assms(2) by (auto simp: vrfPreimage_def rbind_Inr_iff)
  moreover have "length x = length y" using x y by (simp add: leU64_length)
  ultimately have "d = d'" "p = p'" "x = y" "n = n'" using assms(3,4) by auto
  then show ?thesis using x y leU64_inj by auto
qed

theorem vrf_preimage_injective_witness:
  "vrfPreimage ''round'' [7] 3 [1] = Inr (asciiBytes ''round'' @ [7] @ leBytes 8 3 @ [1]) \<and>
   ''round'' = ''round'' \<and> [7 :: byte] = [7] \<and> (3 :: int) = 3 \<and> [1 :: byte] = [1]"
  using vrf_preimage_injective[of "''round''" "[7]" 3 "[1]" "asciiBytes ''round'' @ [7] @ leBytes 8 3 @ [1]"
      "''round''" "[7]" 3 "[1]" "asciiBytes ''round'' @ [7] @ leBytes 8 3 @ [1]"]
  by (simp add: vrfPreimage_def leU64_def)

end
