(* ===== verification/Instructions.thy ===== *)
theory Instructions
  imports Vrf
begin

text \<open>
  Program addresses (\<open>chain/pda.ts\<close>) and the instruction builders (\<open>operator/instructions.ts\<close>).

  An \<open>ix_env\<close> holds what a builder is constructed with (the program id, the operator, the
  \<open>test-vrf\<close> flag, the method table of the IDL) and the third-party functions it calls: program
  address derivation, base58 key parsing and associated token addresses. The nonce a randomness
  request draws is an argument. The Anchor package encodes a method call with its arguments and named
  accounts into a transaction instruction; the model keeps exactly that description, so two
  instructions are equal when the call, the arguments and every account are.
\<close>

section \<open>Environment and instructions\<close>

record ix_env =
  ie_hasMethod :: "string \<Rightarrow> bool"
  ie_programId :: pubkey
  ie_operator :: pubkey
  ie_testVrf :: bool
  ie_findProgramAddress :: "bytes list \<Rightarrow> pubkey \<Rightarrow> pubkey"
  ie_parseKey :: "string \<Rightarrow> pubkey res"
  ie_associatedToken :: "pubkey \<Rightarrow> pubkey \<Rightarrow> pubkey"
  ie_systemProgram :: pubkey
  ie_tokenProgram :: pubkey
  ie_oraoProgram :: pubkey
  ie_oraoTreasury :: pubkey

datatype ix_arg = BnArg int | BytesArg bytes

datatype instruction =
    Method string "ix_arg list" "(string \<times> pubkey) list"
  | CreateAta pubkey pubkey pubkey pubkey

section \<open>Addresses\<close>

definition poolAddress :: "ix_env \<Rightarrow> int \<Rightarrow> pubkey res" where
  "poolAddress env poolId =
    rbind (leU64 poolId) (\<lambda>i. Inr (ie_findProgramAddress env [asciiBytes ''pool'', i] (ie_programId env)))"

definition epochAddress :: "ix_env \<Rightarrow> pubkey \<Rightarrow> int \<Rightarrow> pubkey res" where
  "epochAddress env pool epochId =
    rbind (leU64 epochId) (\<lambda>i. Inr (ie_findProgramAddress env [asciiBytes ''epoch'', pool, i] (ie_programId env)))"

definition roundAddress :: "ix_env \<Rightarrow> pubkey \<Rightarrow> int \<Rightarrow> pubkey res" where
  "roundAddress env pool roundId =
    rbind (leU64 roundId) (\<lambda>i. Inr (ie_findProgramAddress env [asciiBytes ''round'', pool, i] (ie_programId env)))"

definition playerAddress :: "ix_env \<Rightarrow> pubkey \<Rightarrow> pubkey \<Rightarrow> pubkey" where
  "playerAddress env pool owner =
    ie_findProgramAddress env [asciiBytes ''player'', pool, owner] (ie_programId env)"

definition positionAddress :: "ix_env \<Rightarrow> pubkey \<Rightarrow> pubkey \<Rightarrow> pubkey" where
  "positionAddress env round owner =
    ie_findProgramAddress env [asciiBytes ''position'', round, owner] (ie_programId env)"

definition principalVaultAddress :: "ix_env \<Rightarrow> pubkey \<Rightarrow> pubkey" where
  "principalVaultAddress env pool =
    ie_findProgramAddress env [asciiBytes ''principal'', pool] (ie_programId env)"

definition jackpotVaultAddress :: "ix_env \<Rightarrow> pubkey \<Rightarrow> pubkey" where
  "jackpotVaultAddress env pool =
    ie_findProgramAddress env [asciiBytes ''jackpot'', pool] (ie_programId env)"

definition randomnessFor :: "ix_env \<Rightarrow> bytes \<Rightarrow> pubkey" where
  "randomnessFor env seed =
    randomnessAddress (ie_findProgramAddress env) (ie_oraoProgram env) (ie_programId env) seed (ie_testVrf env)"

section \<open>Builders\<close>

definition methodIx ::
    "ix_env \<Rightarrow> string \<Rightarrow> ix_arg list \<Rightarrow> (string \<times> pubkey) list \<Rightarrow> instruction res" where
  "methodIx env name args accounts =
    (if ie_hasMethod env name then Inr (Method name args accounts)
     else Inl (''instruction '' @ name @ '' is missing from the IDL; re-run sync-idl''))"

definition single :: "instruction res \<Rightarrow> instruction list res" where
  "single r = rbind r (\<lambda>i. Inr [i])"

definition beginEpoch :: "ix_env \<Rightarrow> pool_state \<Rightarrow> instruction list res" where
  "beginEpoch env pool =
    (let twoBehindId = (if pl_currentEpochId pool > 0 then pl_currentEpochId pool - 1 else 0) in
     if \<not> ie_hasMethod env ''beginEpoch'' then single (methodIx env ''beginEpoch'' [] [])
     else rbind (epochAddress env (pl_address pool) (pl_currentEpochId pool)) (\<lambda>cur.
          rbind (epochAddress env (pl_address pool) twoBehindId) (\<lambda>two.
          rbind (epochAddress env (pl_address pool) (pl_currentEpochId pool + 1)) (\<lambda>new.
            single (methodIx env ''beginEpoch'' []
              [(''operator'', ie_operator env), (''pool'', pl_address pool), (''currentEpoch'', cur),
               (''epochTwoBehind'', two), (''newEpoch'', new), (''systemProgram'', ie_systemProgram env)])))))"

definition register :: "ix_env \<Rightarrow> pool_state \<Rightarrow> int \<Rightarrow> pubkey list \<Rightarrow> instruction list res" where
  "register env pool epochId owners =
    mapRes (\<lambda>owner.
      if \<not> ie_hasMethod env ''register'' then methodIx env ''register'' [] []
      else rbind (epochAddress env (pl_address pool) epochId) (\<lambda>ep.
        methodIx env ''register'' []
          [(''pool'', pl_address pool), (''epoch'', ep), (''player'', playerAddress env (pl_address pool) owner)]))
      owners"

definition grantTickets :: "ix_env \<Rightarrow> pool_state \<Rightarrow> (string \<times> int) list \<Rightarrow> instruction list res" where
  "grantTickets env pool grants =
    mapRes (\<lambda>(referrer, amount).
      if \<not> ie_hasMethod env ''grantTickets'' then methodIx env ''grantTickets'' [] []
      else rbind (ie_parseKey env referrer) (\<lambda>key.
        methodIx env ''grantTickets'' [BnArg amount]
          [(''signer'', ie_operator env), (''pool'', pl_address pool),
           (''player'', playerAddress env (pl_address pool) key)]))
      grants"

definition withdrawPair :: "ix_env \<Rightarrow> pool_state \<Rightarrow> string \<Rightarrow> instruction list res" where
  "withdrawPair env pool entry =
    rbind (ie_parseKey env entry) (\<lambda>owner.
      let ownerToken = ie_associatedToken env (pl_acceptedMint pool) owner in
      rbind (methodIx env ''processWithdraw'' []
          [(''pool'', pl_address pool), (''player'', playerAddress env (pl_address pool) owner),
           (''acceptedMint'', pl_acceptedMint pool), (''ownerToken'', ownerToken),
           (''principalVault'', principalVaultAddress env (pl_address pool)),
           (''tokenProgram'', ie_tokenProgram env)]) (\<lambda>ix.
        Inr [CreateAta (ie_operator env) ownerToken owner (pl_acceptedMint pool), ix]))"

definition processWithdrawals :: "ix_env \<Rightarrow> pool_state \<Rightarrow> string list \<Rightarrow> instruction list res" where
  "processWithdrawals env pool owners =
    rbind (mapRes (withdrawPair env pool) owners) (\<lambda>batches. Inr (concat batches))"

definition closeRegistration :: "ix_env \<Rightarrow> bytes \<Rightarrow> pool_state \<Rightarrow> int \<Rightarrow> instruction list res" where
  "closeRegistration env nonce pool epochId =
    (if \<not> ie_hasMethod env ''closeRegistration'' then single (methodIx env ''closeRegistration'' [] [])
     else rbind (epochAddress env (pl_address pool) epochId) (\<lambda>ep.
          rbind (vrfSeed ''epoch'' (pl_address pool) epochId nonce) (\<lambda>seed.
            single (methodIx env ''closeRegistration'' [BytesArg nonce]
              [(''operator'', ie_operator env), (''pool'', pl_address pool), (''epoch'', ep),
               (''jackpotVault'', jackpotVaultAddress env (pl_address pool)),
               (''randomness'', randomnessFor env seed), (''vrfNetworkState'', pl_vrfNetworkState pool),
               (''vrfTreasury'', ie_oraoTreasury env), (''vrfProgram'', ie_oraoProgram env),
               (''systemProgram'', ie_systemProgram env)]))))"

definition draw :: "ix_env \<Rightarrow> pool_state \<Rightarrow> epoch_state \<Rightarrow> instruction list res" where
  "draw env pool epoch =
    (if \<not> ie_hasMethod env ''draw'' then single (methodIx env ''draw'' [] [])
     else rbind (epochAddress env (pl_address pool) (ep_epochId epoch)) (\<lambda>ep.
       single (methodIx env ''draw'' []
         [(''caller'', ie_operator env), (''pool'', pl_address pool), (''epoch'', ep),
          (''randomness'', randomnessFor env (ep_vrfSeed epoch))])))"

definition rolloverEpoch :: "ix_env \<Rightarrow> pool_state \<Rightarrow> epoch_state \<Rightarrow> instruction list res" where
  "rolloverEpoch env pool epoch =
    (if \<not> ie_hasMethod env ''rolloverEpoch'' then single (methodIx env ''rolloverEpoch'' [] [])
     else rbind (epochAddress env (pl_address pool) (ep_epochId epoch)) (\<lambda>ep.
       single (methodIx env ''rolloverEpoch'' []
         [(''caller'', ie_operator env), (''pool'', pl_address pool), (''epoch'', ep),
          (''randomness'', randomnessFor env (ep_vrfSeed epoch))])))"

definition payout :: "ix_env \<Rightarrow> pool_state \<Rightarrow> int \<Rightarrow> pubkey \<Rightarrow> instruction list res" where
  "payout env pool epochId winner =
    (if \<not> ie_hasMethod env ''payout'' then single (methodIx env ''payout'' [] [])
     else rbind (epochAddress env (pl_address pool) epochId) (\<lambda>ep.
       single (methodIx env ''payout'' []
         [(''pool'', pl_address pool), (''acceptedMint'', pl_acceptedMint pool), (''epoch'', ep),
          (''winner'', playerAddress env (pl_address pool) winner),
          (''jackpotVault'', jackpotVaultAddress env (pl_address pool)),
          (''principalVault'', principalVaultAddress env (pl_address pool)),
          (''treasury'', pl_treasury pool), (''buybackReserve'', pl_buybackReserve pool),
          (''tokenProgram'', ie_tokenProgram env)])))"

definition requestRoundRandomness ::
    "ix_env \<Rightarrow> bytes \<Rightarrow> pool_state \<Rightarrow> round_state \<Rightarrow> instruction list res" where
  "requestRoundRandomness env nonce pool round =
    (if \<not> ie_hasMethod env ''requestRoundRandomness'' then single (methodIx env ''requestRoundRandomness'' [] [])
     else rbind (roundAddress env (pl_address pool) (rd_roundId round)) (\<lambda>rd.
          rbind (vrfSeed ''round'' (pl_address pool) (rd_roundId round) nonce) (\<lambda>seed.
            single (methodIx env ''requestRoundRandomness'' [BytesArg nonce]
              [(''payer'', ie_operator env), (''pool'', pl_address pool), (''round'', rd),
               (''randomness'', randomnessFor env seed), (''vrfNetworkState'', pl_vrfNetworkState pool),
               (''vrfTreasury'', ie_oraoTreasury env), (''vrfProgram'', ie_oraoProgram env),
               (''systemProgram'', ie_systemProgram env)]))))"

definition settleRound :: "ix_env \<Rightarrow> pool_state \<Rightarrow> round_state \<Rightarrow> instruction list res" where
  "settleRound env pool round =
    (if \<not> ie_hasMethod env ''settleRound'' then single (methodIx env ''settleRound'' [] [])
     else rbind (roundAddress env (pl_address pool) (rd_roundId round)) (\<lambda>rd.
       single (methodIx env ''settleRound'' []
         [(''caller'', ie_operator env), (''pool'', pl_address pool), (''round'', rd),
          (''randomness'', randomnessFor env (rd_vrfSeed round)), (''house'', pl_house pool)])))"

definition voidRound :: "ix_env \<Rightarrow> pool_state \<Rightarrow> round_state \<Rightarrow> instruction list res" where
  "voidRound env pool round =
    (if \<not> ie_hasMethod env ''voidRound'' then single (methodIx env ''voidRound'' [] [])
     else rbind (roundAddress env (pl_address pool) (rd_roundId round)) (\<lambda>rd.
       single (methodIx env ''voidRound'' []
         [(''caller'', ie_operator env), (''pool'', pl_address pool), (''round'', rd),
          (''randomness'', randomnessFor env (rd_vrfSeed round))])))"

definition settlePositions ::
    "ix_env \<Rightarrow> pool_state \<Rightarrow> int \<Rightarrow> (string \<times> string) list \<Rightarrow> instruction list res" where
  "settlePositions env pool roundId positions =
    rbind (roundAddress env (pl_address pool) roundId) (\<lambda>rd.
      mapRes (\<lambda>(address, owner).
        rbind (ie_parseKey env owner) (\<lambda>key.
          if \<not> ie_hasMethod env ''settlePosition'' then methodIx env ''settlePosition'' [] []
          else rbind (ie_parseKey env address) (\<lambda>pos.
            methodIx env ''settlePosition'' []
              [(''pool'', pl_address pool), (''round'', rd),
               (''player'', playerAddress env (pl_address pool) key), (''owner'', key), (''position'', pos)])))
        positions)"

definition buyPosition ::
    "ix_env \<Rightarrow> pool_state \<Rightarrow> int \<Rightarrow> pubkey \<Rightarrow> int \<Rightarrow> int \<Rightarrow> instruction list res" where
  "buyPosition env pool roundId owner tiles stakePerTile =
    rbind (roundAddress env (pl_address pool) roundId) (\<lambda>rd.
      single (methodIx env ''buyPosition'' [BnArg tiles, BnArg stakePerTile]
        [(''owner'', owner), (''pool'', pl_address pool),
         (''player'', playerAddress env (pl_address pool) owner), (''round'', rd),
         (''position'', positionAddress env rd owner), (''systemProgram'', ie_systemProgram env)]))"

definition closeRound :: "ix_env \<Rightarrow> pool_state \<Rightarrow> int \<Rightarrow> instruction list res" where
  "closeRound env pool roundId =
    (if \<not> ie_hasMethod env ''closeRound'' then single (methodIx env ''closeRound'' [] [])
     else rbind (roundAddress env (pl_address pool) roundId) (\<lambda>rd.
       single (methodIx env ''closeRound'' []
         [(''pool'', pl_address pool), (''operator'', ie_operator env), (''round'', rd)])))"

definition createRound :: "ix_env \<Rightarrow> pool_state \<Rightarrow> int \<Rightarrow> int \<Rightarrow> instruction list res" where
  "createRound env pool startsAt endsAt =
    (if \<not> ie_hasMethod env ''createRound'' then single (methodIx env ''createRound'' [] [])
     else rbind (epochAddress env (pl_address pool) (pl_currentEpochId pool)) (\<lambda>ep.
          rbind (roundAddress env (pl_address pool) (pl_nextRoundId pool)) (\<lambda>rd.
            single (methodIx env ''createRound'' [BnArg startsAt, BnArg endsAt]
              [(''operator'', ie_operator env), (''pool'', pl_address pool), (''currentEpoch'', ep),
               (''round'', rd), (''systemProgram'', ie_systemProgram env)]))))"

section \<open>One call, one builder\<close>

text \<open>The calls a tick or the Sparring player makes on the builders, Pool and nonce aside.\<close>

datatype opcall =
    BeginEpoch
  | Register int "pubkey list"
  | GrantTickets "(string \<times> int) list"
  | ProcessWithdrawals "(string \<times> int) list"
  | CloseRegistration int
  | Draw epoch_state
  | RolloverEpoch epoch_state
  | Payout int pubkey
  | RequestRoundRandomness round_state
  | SettleRound round_state
  | VoidRound round_state
  | SettlePositions int "(string \<times> string) list"
  | CloseRound int
  | CreateRound int int
  | BuyPosition int pubkey int int

fun buildCall :: "ix_env \<Rightarrow> bytes \<Rightarrow> pool_state \<Rightarrow> opcall \<Rightarrow> instruction list res" where
  "buildCall env nonce pool BeginEpoch = beginEpoch env pool"
| "buildCall env nonce pool (Register e owners) = register env pool e owners"
| "buildCall env nonce pool (GrantTickets gs) = grantTickets env pool gs"
| "buildCall env nonce pool (ProcessWithdrawals es) = processWithdrawals env pool (map fst es)"
| "buildCall env nonce pool (CloseRegistration e) = closeRegistration env nonce pool e"
| "buildCall env nonce pool (Draw e) = draw env pool e"
| "buildCall env nonce pool (RolloverEpoch e) = rolloverEpoch env pool e"
| "buildCall env nonce pool (Payout e w) = payout env pool e w"
| "buildCall env nonce pool (RequestRoundRandomness r) = requestRoundRandomness env nonce pool r"
| "buildCall env nonce pool (SettleRound r) = settleRound env pool r"
| "buildCall env nonce pool (VoidRound r) = voidRound env pool r"
| "buildCall env nonce pool (SettlePositions r ps) = settlePositions env pool r ps"
| "buildCall env nonce pool (CloseRound r) = closeRound env pool r"
| "buildCall env nonce pool (CreateRound s e) = createRound env pool s e"
| "buildCall env nonce pool (BuyPosition r owner tiles stake) = buyPosition env pool r owner tiles stake"

text \<open>The name the tick reports for a call, the program's own instruction name.\<close>

fun opName :: "opcall \<Rightarrow> string" where
  "opName BeginEpoch = ''begin_epoch''"
| "opName (Register _ _) = ''register''"
| "opName (GrantTickets _) = ''grant_tickets''"
| "opName (ProcessWithdrawals _) = ''process_withdraw''"
| "opName (CloseRegistration _) = ''close_registration''"
| "opName (Draw _) = ''draw''"
| "opName (RolloverEpoch _) = ''rollover_epoch''"
| "opName (Payout _ _) = ''payout''"
| "opName (RequestRoundRandomness _) = ''request_round_randomness''"
| "opName (SettleRound _) = ''settle_round''"
| "opName (VoidRound _) = ''void_round''"
| "opName (SettlePositions _ _) = ''settle_position''"
| "opName (CloseRound _) = ''close_round''"
| "opName (CreateRound _ _) = ''create_round''"
| "opName (BuyPosition _ _ _ _) = ''buy_position''"

section \<open>Lemmas\<close>

lemmas builder_defs =
  beginEpoch_def register_def grantTickets_def processWithdrawals_def closeRegistration_def draw_def
  rolloverEpoch_def payout_def requestRoundRandomness_def settleRound_def voidRound_def
  settlePositions_def buyPosition_def closeRound_def createRound_def

fun accountsOf :: "instruction \<Rightarrow> (string \<times> pubkey) list" where
  "accountsOf (Method _ _ accounts) = accounts"
| "accountsOf (CreateAta payer ata owner mint) =
    [(''payer'', payer), (''associatedToken'', ata), (''owner'', owner), (''mint'', mint)]"

lemma single_Inr_iff [js_simps]: "single r = Inr is \<longleftrightarrow> (\<exists>i. r = Inr i \<and> is = [i])"
  by (auto simp: single_def rbind_Inr_iff)

lemma methodIx_Inr_iff [js_simps]:
  "methodIx env name args accounts = Inr i \<longleftrightarrow> ie_hasMethod env name \<and> i = Method name args accounts"
  by (auto simp: methodIx_def)

lemma length_concat_pairs: "list_all (\<lambda>l. length l = 2) xs \<Longrightarrow> length (concat xs) = 2 * length xs"
  by (induction xs) auto

lemma withdrawPair_length: "withdrawPair env pool entry = Inr is \<Longrightarrow> length is = 2"
  by (auto simp: withdrawPair_def rbind_Inr_iff Let_def)

lemma processWithdrawals_length:
  assumes "processWithdrawals env pool owners = Inr is"
  shows "length is = 2 * length owners"
proof -
  obtain bs where bs: "mapRes (withdrawPair env pool) owners = Inr bs" "is = concat bs"
    using assms unfolding processWithdrawals_def by (auto simp: rbind_Inr_iff)
  then have "list_all (\<lambda>l. length l = 2) bs"
    unfolding mapRes_Inr_iff list_all_length list_all2_conv_all_nth by (metis withdrawPair_length)
  then show ?thesis using bs mapRes_length[OF bs(1)] by (simp add: length_concat_pairs)
qed

text \<open>How many instructions one call puts into its transaction.\<close>

fun callSize :: "opcall \<Rightarrow> nat" where
  "callSize (Register e owners) = length owners"
| "callSize (GrantTickets gs) = length gs"
| "callSize (ProcessWithdrawals es) = 2 * length es"
| "callSize (SettlePositions r ps) = length ps"
| "callSize _ = 1"

lemma buildCall_size:
  assumes "buildCall env nonce pool call = Inr is"
  shows "length is = callSize call"
proof (cases call)
  case (ProcessWithdrawals es)
  with assms show ?thesis by (auto dest: processWithdrawals_length)
qed (use assms in \<open>auto simp: builder_defs rbind_Inr_iff single_Inr_iff Let_def
        dest!: mapRes_length split: if_splits\<close>)

end
