(* ===== verification/Tick.thy ===== *)
theory Tick
  imports Instructions
begin

text \<open>
  The operator's decision function (\<open>operator/tick.ts\<close>): the seven numbered steps with their
  sub-steps, run in order over a context, at most one transaction per tick.

  The context carries the chain snapshot, what the service remembers from the last tick, and the
  callbacks: reads of the Read model (each may reject), \<open>send\<close>, and the bookkeeping calls. The
  answer \<open>send\<close> gives may differ from call to call, so it also takes the number of sends made
  earlier in the tick. The mutable locals of \<open>decide\<close> are the fields of \<open>tick_acc\<close>, together with a
  trace of the externally visible calls in order. Each numbered step is a function from the context
  and that state to a control outcome: return a decision, fall through, or throw. \<open>warn\<close> only logs
  and is left out.
\<close>

section \<open>Constants\<close>

definition BATCH_SIZE :: nat where "BATCH_SIZE = 8"
definition REVEAL_SECONDS :: int where "REVEAL_SECONDS = 1"
definition SAFETY_INTERVAL_SECONDS :: int where "SAFETY_INTERVAL_SECONDS = 60"
definition WITHDRAW_BATCH_SIZE :: nat where "WITHDRAW_BATCH_SIZE = 4"
definition SHORT_VAULT :: string where "SHORT_VAULT = ''InsufficientVaultLiquidity''"

definition UNPAYABLE_WINNER :: "string list" where
  "UNPAYABLE_WINNER =
    [''AccountNotInitialized'', ''ConstraintTokenMint'', ''ConstraintTokenOwner'', ''AccountFrozen'',
     ''custom program error: 0x11'']"

definition cannotPayWinner :: "string \<Rightarrow> bool" where
  "cannotPayWinner message = list_ex (strIncludes message) UNPAYABLE_WINNER"

definition GRANT_CAP_EXCEEDED :: "string list" where
  "GRANT_CAP_EXCEEDED = [''DailyPlayerGrantCapExceeded'', ''DailyPoolGrantCapExceeded'']"

definition capExceeded :: "string \<Rightarrow> bool" where
  "capExceeded message = list_ex (strIncludes message) GRANT_CAP_EXCEEDED"

definition WITHDRAW_FAILURE_LIMIT :: nat where "WITHDRAW_FAILURE_LIMIT = 3"
definition EXPECTED_ERROR_REPEAT_LIMIT :: nat where "EXPECTED_ERROR_REPEAT_LIMIT = 3"
definition DRAWN_UNPAID_ALERT_SECONDS :: int where "DRAWN_UNPAID_ALERT_SECONDS = 300"
definition NO_PROGRESS_SLACK_SECONDS :: int where "NO_PROGRESS_SLACK_SECONDS = 300"

definition EXPECTED_ERRORS :: "string list" where
  "EXPECTED_ERRORS =
    [''AccountNotInitialized'', ''AlreadyRegistered'', ''EpochNotDrawing'', ''EpochNotDrawn'',
     ''EpochNotEnded'', ''EpochNotRegistering'', ''NothingPending'', ''NotPreviousEpoch'',
     ''PoolShutDown'', ''RandomnessAlreadyFulfilled'', ''RandomnessNotFulfilled'', ''RoundAlreadyOpen'',
     ''RoundNotEnded'', ''RoundNotOpen'', ''RoundNotRequested'', ''RoundNotSettled'',
     ''VrfTimeoutNotElapsed'', ''WithdrawalNotDue'']"

section \<open>Alert predicates\<close>

definition epochNoProgress :: "pool_state \<Rightarrow> epoch_state option \<Rightarrow> int \<Rightarrow> bool" where
  "epochNoProgress pool epoch now =
    (case epoch of None \<Rightarrow> False
     | Some e \<Rightarrow>
         if ep_status e = EPOCH_PAID \<or> ep_status e = EPOCH_ROLLED_OVER then False
         else now > ep_endsAt e + pl_registrationWindow pool + pl_vrfTimeout pool + NO_PROGRESS_SLACK_SECONDS)"

definition epochDrawnUnpaid :: "epoch_state option \<Rightarrow> int \<Rightarrow> bool" where
  "epochDrawnUnpaid epoch now =
    (case epoch of None \<Rightarrow> False
     | Some e \<Rightarrow> ep_status e = EPOCH_DRAWN \<and> now > ep_drawnAt e + DRAWN_UNPAID_ALERT_SECONDS)"

section \<open>State, context and outcome\<close>

record withdraw_state =
  ws_epochId :: int
  ws_singleMode :: bool
  ws_failures :: "string \<rightharpoonup> nat"
  ws_skipped :: "string set"

definition EMPTY_WITHDRAW_STATE :: "int \<Rightarrow> withdraw_state" where
  "EMPTY_WITHDRAW_STATE epochId =
    \<lparr>ws_epochId = epochId, ws_singleMode = False, ws_failures = Map.empty, ws_skipped = {}\<rparr>"

record register_check =
  rc_epochId :: int
  rc_empty :: bool

record indexer_cursor =
  cur_ageSeconds :: "int option"
  cur_updatedAt :: "int option"

record unsettled =
  un_address :: string
  un_owner :: string
  un_roundId :: int

record tick_context =
  cx_now :: int
  cx_pool :: pool_state
  cx_currentEpoch :: "epoch_state option"
  cx_previousEpoch :: "epoch_state option"
  cx_openRound :: "round_state option"
  cx_lastRound :: "round_state option"
  cx_ix :: "opcall \<Rightarrow> instruction list res"
  cx_parseKey :: "string \<Rightarrow> pubkey res"
  cx_toBase58 :: "pubkey \<Rightarrow> string"
  cx_lastRegisterCheck :: "register_check option"
  cx_lastWithdrawState :: "withdraw_state option"
  cx_indexerCursor :: indexer_cursor
  cx_indexerFreshThreshold :: int
  cx_lastExpectedErrors :: "string \<rightharpoonup> nat"
  cx_launchAt :: "int option"
  cx_fulfilled :: "bytes \<Rightarrow> bool res"
  cx_principalVaultBalance :: "int res"
  cx_duePendingWithdrawals :: "int \<Rightarrow> (string \<times> int) list res"
  cx_playersToRegister :: "int \<Rightarrow> string list res"
  cx_referralGrantsDue :: "int \<Rightarrow> (string \<times> int) list res"
  cx_markReferralGrantsSent :: "int \<Rightarrow> string list \<Rightarrow> string \<Rightarrow> unit res"
  cx_unsettledPositions :: "unsettled list res"
  cx_forgetPositions :: "string list \<Rightarrow> unit res"
  cx_roundsToClose :: "int list res"
  cx_forgetRound :: "int \<Rightarrow> unit res"
  cx_forgetRegistered :: "string list \<Rightarrow> unit res"
  cx_winner :: "int \<Rightarrow> int \<Rightarrow> string option res"
  cx_winnerOnChain :: "int \<Rightarrow> int \<Rightarrow> string option res"
  cx_send :: "nat \<Rightarrow> instruction list \<Rightarrow> string res"

record decision =
  d_action :: "string option"
  d_progress :: "(int \<times> int) option"
  d_registerCheck :: "register_check option"
  d_withdrawShortfall :: "int option"
  d_withdrawState :: "withdraw_state option"
  d_stepError :: "string option"
  d_expectedErrors :: "(string \<rightharpoonup> nat) option"
  d_indexerStale :: "bool option"
  d_epochNoProgress :: "bool option"
  d_drawnUnpaid :: "bool option"

record tick_outcome = decision +
  o_nextWakeAt :: int

definition NOTHING :: decision where
  "NOTHING = \<lparr>d_action = None, d_progress = None, d_registerCheck = None, d_withdrawShortfall = None,
     d_withdrawState = None, d_stepError = None, d_expectedErrors = None, d_indexerStale = None,
     d_epochNoProgress = None, d_drawnUnpaid = None\<rparr>"

text \<open>What a tick does to the world, in order.\<close>

datatype event =
    Sent opcall "string res"
  | ForgetPositions "string list"
  | ForgetRound int
  | ForgetRegistered "string list"
  | MarkGrants int "string list" string

record tick_acc =
  ac_stepError :: "string option"
  ac_expectedErrors :: "string \<rightharpoonup> nat"
  ac_expectedErrorsChanged :: bool
  ac_withdrawStateOut :: "withdraw_state option"
  ac_withdrawShortfall :: int
  ac_trace :: "event list"

datatype flow = Return decision | Next | Throw string

fun isSend :: "event \<Rightarrow> bool" where
  "isSend (Sent _ _) = True"
| "isSend _ = False"

fun isLanded :: "event \<Rightarrow> bool" where
  "isLanded (Sent _ r) = isOk r"
| "isLanded _ = False"

definition emit :: "event \<Rightarrow> tick_acc \<Rightarrow> tick_acc" where
  "emit e acc = acc\<lparr>ac_trace := ac_trace acc @ [e]\<rparr>"

section \<open>Deadlines\<close>

definition registrationClosesAt :: "pool_state \<Rightarrow> epoch_state \<Rightarrow> int" where
  "registrationClosesAt pool epoch =
    (let opened = (if ep_registrationOpenedAt epoch > ep_endsAt epoch
                   then ep_registrationOpenedAt epoch else ep_endsAt epoch)
     in opened + pl_registrationWindow pool)"

definition indexerFreshForClose :: "indexer_cursor \<Rightarrow> int \<Rightarrow> epoch_state \<Rightarrow> bool" where
  "indexerFreshForClose cursor threshold epoch =
    (case (cur_ageSeconds cursor, cur_updatedAt cursor) of
       (Some age, Some upd) \<Rightarrow> if age > threshold then False else upd \<ge> ep_endsAt epoch
     | _ \<Rightarrow> False)"

definition wakeCandidates :: "tick_context \<Rightarrow> bool \<Rightarrow> int list" where
  "wakeCandidates ctx acted =
    (let pool = cx_pool ctx; now = cx_now ctx in
      [now + SAFETY_INTERVAL_SECONDS]
      @ (if acted then [now] else [])
      @ (case cx_openRound ctx of None \<Rightarrow> [] | Some r \<Rightarrow>
           (if rd_status r = ROUND_OPEN
            then [rd_endsAt r - pl_closeBuffer pool, rd_endsAt r + pl_vrfTimeout pool] else [])
           @ (if rd_status r = ROUND_REQUESTED then [rd_requestedAt r + pl_vrfTimeout pool] else []))
      @ (case cx_currentEpoch ctx of None \<Rightarrow> [] | Some e \<Rightarrow> [ep_endsAt e])
      @ (case cx_previousEpoch ctx of None \<Rightarrow> [] | Some e \<Rightarrow>
           (if ep_status e = EPOCH_REGISTERING then [registrationClosesAt pool e] else [])
           @ (if ep_status e = EPOCH_DRAWING then [ep_requestedAt e + pl_vrfTimeout pool] else [])
           @ (if ep_status e = EPOCH_DRAWN then [ep_drawnAt e + pl_payoutTimeout pool] else []))
      @ (case cx_launchAt ctx of None \<Rightarrow> [] | Some t \<Rightarrow> if pl_currentEpochId pool = 0 then [t] else [])
      @ (case cx_lastRound ctx of None \<Rightarrow> [] | Some r \<Rightarrow>
           if pl_openRoundId pool = 0 \<and> rd_status r \<noteq> ROUND_VOIDED then [rd_endsAt r + REVEAL_SECONDS] else []))"

definition nextWakeAt :: "tick_context \<Rightarrow> bool \<Rightarrow> int" where
  "nextWakeAt ctx acted =
    (case filter (\<lambda>c. c \<ge> cx_now ctx) (wakeCandidates ctx acted) of
       [] \<Rightarrow> cx_now ctx
     | c # cs \<Rightarrow> minOf c cs)"

definition msUntilWake :: "int \<Rightarrow> int \<Rightarrow> int" where
  "msUntilWake now deadline =
    (let chainSeconds = deadline - now in min (max chainSeconds 0) SAFETY_INTERVAL_SECONDS * 1000)"

section \<open>The helpers of decide\<close>

definition finish :: "tick_context \<Rightarrow> tick_acc \<Rightarrow> decision \<Rightarrow> decision" where
  "finish ctx acc d =
    (let d1 = d\<lparr>d_epochNoProgress := Some (epochNoProgress (cx_pool ctx) (cx_previousEpoch ctx) (cx_now ctx)),
                d_drawnUnpaid := Some (epochDrawnUnpaid (cx_previousEpoch ctx) (cx_now ctx))\<rparr>;
         d2 = (if ac_stepError acc \<noteq> None then d1\<lparr>d_stepError := ac_stepError acc\<rparr> else d1);
         d3 = (if ac_expectedErrorsChanged acc then d2\<lparr>d_expectedErrors := Some (ac_expectedErrors acc)\<rparr> else d2)
     in if ac_withdrawStateOut acc \<noteq> None then d3\<lparr>d_withdrawState := ac_withdrawStateOut acc\<rparr> else d3)"

text \<open>\<open>await ctx.send(await ctx.ix.call(...))\<close>.\<close>

definition sendCall :: "tick_context \<Rightarrow> opcall \<Rightarrow> tick_acc \<Rightarrow> string res \<times> tick_acc" where
  "sendCall ctx call acc =
    (case cx_ix ctx call of
       Inl e \<Rightarrow> (Inl e, acc)
     | Inr ixs \<Rightarrow>
         (let r = cx_send ctx (length (filter isSend (ac_trace acc))) ixs
          in (r, emit (Sent call r) acc)))"

text \<open>A send whose failure aborts the tick and whose success returns the given decision.\<close>

definition sendOrThrow :: "tick_context \<Rightarrow> opcall \<Rightarrow> decision \<Rightarrow> tick_acc \<Rightarrow> flow \<times> tick_acc" where
  "sendOrThrow ctx call d acc =
    (case sendCall ctx call acc of
       (Inl e, acc') \<Rightarrow> (Throw e, acc')
     | (Inr _, acc') \<Rightarrow> (Return (finish ctx acc' d), acc'))"

definition recordStepError :: "string \<Rightarrow> tick_acc \<Rightarrow> tick_acc" where
  "recordStepError msg acc = acc\<lparr>ac_stepError := orElse (ac_stepError acc) (Some msg)\<rparr>"

definition attempt ::
    "string \<Rightarrow> (tick_acc \<Rightarrow> unit res \<times> tick_acc) \<Rightarrow> (tick_acc \<Rightarrow> unit res \<times> tick_acc)
      \<Rightarrow> tick_acc \<Rightarrow> bool res \<times> tick_acc" where
  "attempt key send alreadyGone acc =
    (case send acc of
       (Inr _, acc') \<Rightarrow>
         (Inr True,
          if key \<in> dom (ac_expectedErrors acc')
          then acc'\<lparr>ac_expectedErrors := mapDelete (ac_expectedErrors acc') key,
                    ac_expectedErrorsChanged := True\<rparr>
          else acc')
     | (Inl message, acc') \<Rightarrow>
         if message = ''AccountNotInitialized'' then
           (case alreadyGone acc' of (Inl e, acc'') \<Rightarrow> (Inl e, acc'') | (Inr _, acc'') \<Rightarrow> (Inr True, acc''))
         else if message \<in> set EXPECTED_ERRORS then
           (let count = getOr (ac_expectedErrors acc') key 0 + 1;
                acc'' = acc'\<lparr>ac_expectedErrors := (ac_expectedErrors acc')(key \<mapsto> count),
                             ac_expectedErrorsChanged := True\<rparr>
            in (Inr False,
                if count \<ge> EXPECTED_ERROR_REPEAT_LIMIT
                then recordStepError (key @ '' failed '' @ showNat count @ '' times in a row: '' @ message) acc''
                else acc''))
         else (Inr False, recordStepError (key @ '' failed: '' @ message) acc'))"

section \<open>Step 1: the open Round\<close>

definition stepRound :: "tick_context \<Rightarrow> tick_acc \<Rightarrow> flow \<times> tick_acc" where
  "stepRound ctx acc =
    (case cx_openRound ctx of
       None \<Rightarrow> (Next, acc)
     | Some r \<Rightarrow>
         let pool = cx_pool ctx; now = cx_now ctx in
         if rd_status r = ROUND_OPEN \<and> now > rd_endsAt r + pl_vrfTimeout pool then
           sendOrThrow ctx (VoidRound r) (NOTHING\<lparr>d_action := Some ''void_round''\<rparr>) acc
         else if rd_status r = ROUND_OPEN \<and> now \<ge> rd_endsAt r - pl_closeBuffer pool then
           sendOrThrow ctx (RequestRoundRandomness r)
             (NOTHING\<lparr>d_action := Some ''request_round_randomness''\<rparr>) acc
         else if rd_status r = ROUND_REQUESTED then
           (case cx_fulfilled ctx (rd_vrfSeed r) of
              Inl e \<Rightarrow> (Throw e, acc)
            | Inr True \<Rightarrow> sendOrThrow ctx (SettleRound r) (NOTHING\<lparr>d_action := Some ''settle_round''\<rparr>) acc
            | Inr False \<Rightarrow>
                if now > rd_requestedAt r + pl_vrfTimeout pool then
                  sendOrThrow ctx (VoidRound r) (NOTHING\<lparr>d_action := Some ''void_round''\<rparr>) acc
                else (Next, acc))
         else (Next, acc))"

section \<open>Steps 2 and 2c: the sweep and the closing of Rounds\<close>

definition forgetPositions :: "tick_context \<Rightarrow> string list \<Rightarrow> tick_acc \<Rightarrow> unit res \<times> tick_acc" where
  "forgetPositions ctx addresses acc =
    (cx_forgetPositions ctx addresses, emit (ForgetPositions addresses) acc)"

definition forgetRound :: "tick_context \<Rightarrow> int \<Rightarrow> tick_acc \<Rightarrow> unit res \<times> tick_acc" where
  "forgetRound ctx i acc = (cx_forgetRound ctx i, emit (ForgetRound i) acc)"

definition sendThen ::
    "tick_context \<Rightarrow> opcall \<Rightarrow> (tick_acc \<Rightarrow> unit res \<times> tick_acc) \<Rightarrow> tick_acc \<Rightarrow> unit res \<times> tick_acc" where
  "sendThen ctx call k acc =
    (case sendCall ctx call acc of (Inl e, acc') \<Rightarrow> (Inl e, acc') | (Inr _, acc') \<Rightarrow> k acc')"

definition returnIfSent ::
    "tick_context \<Rightarrow> string \<Rightarrow> bool res \<times> tick_acc \<Rightarrow> flow \<times> tick_acc" where
  "returnIfSent ctx action p =
    (case p of
       (Inl e, acc) \<Rightarrow> (Throw e, acc)
     | (Inr True, acc) \<Rightarrow> (Return (finish ctx acc (NOTHING\<lparr>d_action := Some action\<rparr>)), acc)
     | (Inr False, acc) \<Rightarrow> (Next, acc))"

definition sweepBatch :: "unsettled list \<Rightarrow> int \<Rightarrow> unsettled list" where
  "sweepBatch sweep roundId = take BATCH_SIZE (filter (\<lambda>p. un_roundId p = roundId) sweep)"

definition stepSweep :: "tick_context \<Rightarrow> tick_acc \<Rightarrow> flow \<times> tick_acc" where
  "stepSweep ctx acc =
    (case cx_unsettledPositions ctx of
       Inl e \<Rightarrow> (Throw e, acc)
     | Inr [] \<Rightarrow> (Next, acc)
     | Inr (first # rest) \<Rightarrow>
         let roundId = un_roundId first;
             batch = sweepBatch (first # rest) roundId;
             addresses = map un_address batch
         in returnIfSent ctx ''settle_position''
              (attempt (''settle_position:'' @ showInt roundId)
                 (sendThen ctx (SettlePositions roundId (map (\<lambda>p. (un_address p, un_owner p)) batch))
                    (forgetPositions ctx addresses))
                 (forgetPositions ctx addresses) acc))"

definition stepClose :: "tick_context \<Rightarrow> tick_acc \<Rightarrow> flow \<times> tick_acc" where
  "stepClose ctx acc =
    (case cx_roundsToClose ctx of
       Inl e \<Rightarrow> (Throw e, acc)
     | Inr [] \<Rightarrow> (Next, acc)
     | Inr (roundToClose # _) \<Rightarrow>
         returnIfSent ctx ''close_round''
           (attempt (''close_round:'' @ showInt roundToClose)
              (sendThen ctx (CloseRound roundToClose) (forgetRound ctx roundToClose))
              (forgetRound ctx roundToClose) acc))"

section \<open>Steps 3 and 3b: begin an Epoch, grant referral bonuses\<close>

definition launchReady :: "tick_context \<Rightarrow> bool" where
  "launchReady ctx = (case cx_launchAt ctx of None \<Rightarrow> True | Some t \<Rightarrow> cx_now ctx \<ge> t)"

definition epochEnded :: "tick_context \<Rightarrow> bool" where
  "epochEnded ctx =
    (pl_currentEpochId (cx_pool ctx) = 0 \<and> launchReady ctx \<or>
     (case cx_currentEpoch ctx of None \<Rightarrow> False | Some e \<Rightarrow> cx_now ctx \<ge> ep_endsAt e))"

definition previousDone :: "tick_context \<Rightarrow> bool" where
  "previousDone ctx =
    (case cx_previousEpoch ctx of None \<Rightarrow> True
     | Some e \<Rightarrow> ep_status e = EPOCH_PAID \<or> ep_status e = EPOCH_ROLLED_OVER)"

definition stepBeginEpoch :: "tick_context \<Rightarrow> tick_acc \<Rightarrow> flow \<times> tick_acc" where
  "stepBeginEpoch ctx acc =
    (let pool = cx_pool ctx in
     if \<not> pl_shutdown pool \<and> \<not> pl_jackpotPaused pool \<and> epochEnded ctx \<and> pl_openRoundId pool = 0
        \<and> previousDone ctx
     then sendOrThrow ctx BeginEpoch (NOTHING\<lparr>d_action := Some ''begin_epoch''\<rparr>) acc
     else (Next, acc))"

definition stepGrants :: "tick_context \<Rightarrow> tick_acc \<Rightarrow> flow \<times> tick_acc" where
  "stepGrants ctx acc =
    (case cx_currentEpoch ctx of
       None \<Rightarrow> (Next, acc)
     | Some e \<Rightarrow>
         if pl_shutdown (cx_pool ctx) \<or> pl_jackpotPaused (cx_pool ctx) then (Next, acc)
         else (case cx_referralGrantsDue ctx (ep_epochId e) of
             Inl err \<Rightarrow> (Throw err, acc)
           | Inr grants \<Rightarrow>
               if grants = [] then (Next, acc)
               else
                 let batch = take BATCH_SIZE grants;
                     fail = (\<lambda>cause a. if capExceeded cause then (Next, a) else (Throw cause, a))
                 in (case sendCall ctx (GrantTickets batch) acc of
                      (Inl cause, acc') \<Rightarrow> fail cause acc'
                    | (Inr sig, acc') \<Rightarrow>
                        let acc'' = emit (MarkGrants (ep_epochId e) (map fst batch) sig) acc'
                        in (case cx_markReferralGrantsSent ctx (ep_epochId e) (map fst batch) sig of
                             Inl cause \<Rightarrow> fail cause acc''
                           | Inr _ \<Rightarrow>
                               (Return (finish ctx acc'' (NOTHING\<lparr>d_action := Some ''grant_tickets''\<rparr>)), acc'')))))"

section \<open>Steps 4 and 4b: registration\<close>

definition stepRegister :: "tick_context \<Rightarrow> tick_acc \<Rightarrow> flow \<times> tick_acc" where
  "stepRegister ctx acc =
    (case cx_previousEpoch ctx of
       None \<Rightarrow> (Next, acc)
     | Some e \<Rightarrow>
         if pl_shutdown (cx_pool ctx) \<or> ep_status e \<noteq> EPOCH_REGISTERING then (Next, acc)
         else (case cx_playersToRegister ctx (ep_epochId e) of
             Inl err \<Rightarrow> (Throw err, acc)
           | Inr owners \<Rightarrow>
               if owners = [] then (Next, acc)
               else (case mapRes (cx_parseKey ctx) (take BATCH_SIZE owners) of
                   Inl err \<Rightarrow> (Throw err, acc)
                 | Inr batch \<Rightarrow>
                     (case sendCall ctx (Register (ep_epochId e) batch) acc of
                        (Inl err, acc') \<Rightarrow> (Throw err, acc')
                      | (Inr _, acc') \<Rightarrow>
                          let acc'' = emit (ForgetRegistered (take BATCH_SIZE owners)) acc'
                          in (case cx_forgetRegistered ctx (take BATCH_SIZE owners) of
                               Inl err \<Rightarrow> (Throw err, acc'')
                             | Inr _ \<Rightarrow>
                                 (Return (finish ctx acc'' (NOTHING\<lparr>d_action := Some ''register'',
                                    d_progress := Some (ep_registeredCount e,
                                                        ep_registeredCount e + int (length owners)),
                                    d_registerCheck := Some \<lparr>rc_epochId = ep_epochId e, rc_empty = False\<rparr>\<rparr>)),
                                  acc''))))))"

definition emptyLastTick :: "tick_context \<Rightarrow> epoch_state \<Rightarrow> bool" where
  "emptyLastTick ctx e =
    (case cx_lastRegisterCheck ctx of None \<Rightarrow> False
     | Some c \<Rightarrow> rc_epochId c = ep_epochId e \<and> rc_empty c)"

definition stepCloseRegistration :: "tick_context \<Rightarrow> tick_acc \<Rightarrow> flow \<times> tick_acc" where
  "stepCloseRegistration ctx acc =
    (case cx_previousEpoch ctx of
       None \<Rightarrow> (Next, acc)
     | Some e \<Rightarrow>
         let pool = cx_pool ctx;
             waiting = NOTHING\<lparr>d_registerCheck := Some \<lparr>rc_epochId = ep_epochId e, rc_empty = True\<rparr>\<rparr>
         in if pl_shutdown pool \<or> pl_jackpotPaused pool \<or> ep_status e \<noteq> EPOCH_REGISTERING then (Next, acc)
            else if \<not> emptyLastTick ctx e then (Return (finish ctx acc waiting), acc)
            else if cx_now ctx < registrationClosesAt pool e then (Return (finish ctx acc waiting), acc)
            else if \<not> indexerFreshForClose (cx_indexerCursor ctx) (cx_indexerFreshThreshold ctx) e then
              (Return (finish ctx acc (waiting\<lparr>d_indexerStale := Some True\<rparr>)), acc)
            else sendOrThrow ctx (CloseRegistration (ep_epochId e))
                   (NOTHING\<lparr>d_action := Some ''close_registration'', d_indexerStale := Some False\<rparr>) acc)"

section \<open>Steps 5 and 6: the draw and the payout\<close>

definition stepDraw :: "tick_context \<Rightarrow> tick_acc \<Rightarrow> flow \<times> tick_acc" where
  "stepDraw ctx acc =
    (case cx_previousEpoch ctx of
       None \<Rightarrow> (Next, acc)
     | Some e \<Rightarrow>
         if ep_status e \<noteq> EPOCH_DRAWING then (Next, acc)
         else
           let late = (if cx_now ctx > ep_requestedAt e + pl_vrfTimeout (cx_pool ctx)
                       then sendOrThrow ctx (RolloverEpoch e) (NOTHING\<lparr>d_action := Some ''rollover_epoch''\<rparr>) acc
                       else (Next, acc))
           in if pl_shutdown (cx_pool ctx) then late
              else (case cx_fulfilled ctx (ep_vrfSeed e) of
                     Inl err \<Rightarrow> (Throw err, acc)
                   | Inr True \<Rightarrow> sendOrThrow ctx (Draw e) (NOTHING\<lparr>d_action := Some ''draw''\<rparr>) acc
                   | Inr False \<Rightarrow> late))"

definition findWinner :: "tick_context \<Rightarrow> epoch_state \<Rightarrow> string option res" where
  "findWinner ctx e =
    (case cx_winner ctx (ep_epochId e) (ep_target e) of
       Inl err \<Rightarrow> Inl err
     | Inr (Some w) \<Rightarrow> Inr (Some w)
     | Inr None \<Rightarrow> cx_winnerOnChain ctx (ep_epochId e) (ep_target e))"

definition payoutTimedOut :: "tick_context \<Rightarrow> epoch_state \<Rightarrow> string option \<Rightarrow> bool" where
  "payoutTimedOut ctx e winner =
    (let isHouse = (winner = Some (cx_toBase58 ctx (pl_house (cx_pool ctx))));
         alertHasFired = (cx_now ctx > ep_drawnAt e + DRAWN_UNPAID_ALERT_SECONDS)
     in cx_now ctx > ep_drawnAt e + pl_payoutTimeout (cx_pool ctx) \<and> (isHouse \<or> alertHasFired))"

definition rolloverIfTimedOut ::
    "tick_context \<Rightarrow> epoch_state \<Rightarrow> string option \<Rightarrow> tick_acc \<Rightarrow> flow \<times> tick_acc" where
  "rolloverIfTimedOut ctx e winner acc =
    (if payoutTimedOut ctx e winner
     then sendOrThrow ctx (RolloverEpoch e) (NOTHING\<lparr>d_action := Some ''rollover_epoch''\<rparr>) acc
     else (Next, acc))"

text \<open>\<open>if (winner)\<close>: the empty string is falsy too.\<close>

definition stepPayout :: "tick_context \<Rightarrow> tick_acc \<Rightarrow> flow \<times> tick_acc" where
  "stepPayout ctx acc =
    (case cx_previousEpoch ctx of
       None \<Rightarrow> (Next, acc)
     | Some e \<Rightarrow>
         if ep_status e \<noteq> EPOCH_DRAWN then (Next, acc)
         else (case findWinner ctx e of
             Inl err \<Rightarrow> (Throw err, acc)
           | Inr winner \<Rightarrow>
               if winner = None \<or> winner = Some [] then rolloverIfTimedOut ctx e winner acc
               else
                 (case cx_parseKey ctx (the winner) of
                    Inl cause \<Rightarrow>
                      if cannotPayWinner cause then rolloverIfTimedOut ctx e winner acc else (Throw cause, acc)
                  | Inr key \<Rightarrow>
                      (case sendCall ctx (Payout (ep_epochId e) key) acc of
                         (Inr _, acc') \<Rightarrow>
                           (Return (finish ctx acc' (NOTHING\<lparr>d_action := Some ''payout''\<rparr>)), acc')
                       | (Inl cause, acc') \<Rightarrow>
                           if cannotPayWinner cause then rolloverIfTimedOut ctx e winner acc'
                           else (Throw cause, acc')))))"

section \<open>Step 6b: pending withdrawals\<close>

definition withdrawStateIn :: "tick_context \<Rightarrow> withdraw_state" where
  "withdrawStateIn ctx =
    (case cx_lastWithdrawState ctx of
       None \<Rightarrow> EMPTY_WITHDRAW_STATE (pl_currentEpochId (cx_pool ctx))
     | Some w \<Rightarrow> if ws_epochId w = pl_currentEpochId (cx_pool ctx) then w
                 else EMPTY_WITHDRAW_STATE (pl_currentEpochId (cx_pool ctx)))"

definition withdrawBatch :: "withdraw_state \<Rightarrow> (string \<times> int) list \<Rightarrow> (string \<times> int) list" where
  "withdrawBatch w due = (if ws_singleMode w then take 1 due else take WITHDRAW_BATCH_SIZE due)"

definition withdrawSucceeded ::
    "int \<Rightarrow> withdraw_state \<Rightarrow> (string \<times> int) list \<Rightarrow> (string \<times> int) list \<Rightarrow> withdraw_state" where
  "withdrawSucceeded epochId w due batch =
    \<lparr>ws_epochId = epochId,
     ws_singleMode = ws_singleMode w \<and> length due > length batch,
     ws_failures = fold (\<lambda>entry m. mapDelete m (fst entry)) batch (ws_failures w),
     ws_skipped = ws_skipped w\<rparr>"

definition withdrawOwnerFailed :: "int \<Rightarrow> withdraw_state \<Rightarrow> string \<Rightarrow> withdraw_state" where
  "withdrawOwnerFailed epochId w owner =
    (let count = getOr (ws_failures w) owner 0 + 1 in
     if count \<ge> WITHDRAW_FAILURE_LIMIT then
       \<lparr>ws_epochId = epochId, ws_singleMode = True, ws_failures = mapDelete (ws_failures w) owner,
        ws_skipped = insert owner (ws_skipped w)\<rparr>
     else
       \<lparr>ws_epochId = epochId, ws_singleMode = True, ws_failures = (ws_failures w)(owner \<mapsto> count),
        ws_skipped = ws_skipped w\<rparr>)"

definition withdrawFailed ::
    "tick_context \<Rightarrow> withdraw_state \<Rightarrow> (string \<times> int) list \<Rightarrow> string \<Rightarrow> tick_acc \<Rightarrow> flow \<times> tick_acc" where
  "withdrawFailed ctx w batch message acc =
    (if message = SHORT_VAULT then
       (let owed = (\<Sum>entry\<leftarrow>batch. snd entry) in
        case cx_principalVaultBalance ctx of
          Inl e \<Rightarrow> (Throw e, acc)
        | Inr held \<Rightarrow>
            (Next, acc\<lparr>ac_withdrawShortfall := (if owed > held then owed - held else 0),
                       ac_withdrawStateOut := Some w\<rparr>))
     else if \<not> ws_singleMode w then
       (Next, recordStepError (''withdrawal batch failed, retrying one at a time: '' @ message)
                (acc\<lparr>ac_withdrawStateOut := Some (w\<lparr>ws_singleMode := True\<rparr>)\<rparr>))
     else
       (case batch of
          [] \<Rightarrow> (Throw message, acc)
        | (owner, _) # _ \<Rightarrow>
            (Next, recordStepError (''withdrawal to '' @ owner @ '' failed: '' @ message)
               (acc\<lparr>ac_withdrawStateOut :=
                      Some (withdrawOwnerFailed (pl_currentEpochId (cx_pool ctx)) w owner)\<rparr>))))"

definition stepWithdraw :: "tick_context \<Rightarrow> tick_acc \<Rightarrow> flow \<times> tick_acc" where
  "stepWithdraw ctx acc =
    (let w = withdrawStateIn ctx; epochId = pl_currentEpochId (cx_pool ctx) in
     case cx_duePendingWithdrawals ctx epochId of
       Inl e \<Rightarrow> (Throw e, acc)
     | Inr rows \<Rightarrow>
         let due = filter (\<lambda>entry. fst entry \<notin> ws_skipped w) rows in
         if due = [] then (Next, acc\<lparr>ac_withdrawStateOut := Some w\<rparr>)
         else
           let batch = withdrawBatch w due in
           (case sendCall ctx (ProcessWithdrawals batch) acc of
              (Inr _, acc') \<Rightarrow>
                let acc'' = acc'\<lparr>ac_withdrawStateOut := Some (withdrawSucceeded epochId w due batch)\<rparr>
                in (Return (finish ctx acc'' (NOTHING\<lparr>d_action := Some ''process_withdraw'',
                                                     d_withdrawShortfall := Some 0\<rparr>)), acc'')
            | (Inl message, acc') \<Rightarrow> withdrawFailed ctx w batch message acc'))"

section \<open>Step 7: the next Round\<close>

definition revealDone :: "tick_context \<Rightarrow> bool" where
  "revealDone ctx =
    (case cx_lastRound ctx of None \<Rightarrow> True
     | Some r \<Rightarrow> rd_status r = ROUND_VOIDED \<or> cx_now ctx \<ge> rd_endsAt r + REVEAL_SECONDS)"

definition roundFits :: "tick_context \<Rightarrow> bool" where
  "roundFits ctx =
    (let pool = cx_pool ctx in
     pl_openRoundId pool = 0 \<and> \<not> pl_paused pool \<and> \<not> pl_gamePaused pool \<and>
     (case cx_currentEpoch ctx of None \<Rightarrow> False
      | Some e \<Rightarrow> cx_now ctx + pl_roundSeconds pool \<le> ep_endsAt e) \<and>
     revealDone ctx)"

definition stepCreateRound :: "tick_context \<Rightarrow> tick_acc \<Rightarrow> flow \<times> tick_acc" where
  "stepCreateRound ctx acc =
    (if roundFits ctx
     then sendOrThrow ctx (CreateRound (cx_now ctx) (cx_now ctx + pl_roundSeconds (cx_pool ctx)))
            (NOTHING\<lparr>d_action := Some ''create_round'',
                     d_withdrawShortfall := Some (ac_withdrawShortfall acc)\<rparr>) acc
     else (Return (finish ctx acc (NOTHING\<lparr>d_withdrawShortfall := Some (ac_withdrawShortfall acc)\<rparr>)), acc))"

section \<open>The whole tick\<close>

definition andThen ::
    "(tick_acc \<Rightarrow> flow \<times> tick_acc) \<Rightarrow> (tick_acc \<Rightarrow> flow \<times> tick_acc) \<Rightarrow> tick_acc \<Rightarrow> flow \<times> tick_acc" where
  "andThen s t acc = (case s acc of (Next, acc') \<Rightarrow> t acc' | r \<Rightarrow> r)"

definition initialAcc :: "tick_context \<Rightarrow> tick_acc" where
  "initialAcc ctx =
    \<lparr>ac_stepError = None, ac_expectedErrors = cx_lastExpectedErrors ctx, ac_expectedErrorsChanged = False,
     ac_withdrawStateOut = None, ac_withdrawShortfall = 0, ac_trace = []\<rparr>"

definition decideSteps :: "tick_context \<Rightarrow> (tick_acc \<Rightarrow> flow \<times> tick_acc) list" where
  "decideSteps ctx =
    [stepRound ctx, stepSweep ctx, stepClose ctx, stepBeginEpoch ctx, stepGrants ctx, stepRegister ctx,
     stepCloseRegistration ctx, stepDraw ctx, stepPayout ctx, stepWithdraw ctx, stepCreateRound ctx]"

definition decide :: "tick_context \<Rightarrow> flow \<times> tick_acc" where
  "decide ctx = foldr andThen (decideSteps ctx) (\<lambda>acc. (Next, acc)) (initialAcc ctx)"

definition runTick :: "tick_context \<Rightarrow> tick_outcome res \<times> event list" where
  "runTick ctx =
    (case decide ctx of
       (Return d, acc) \<Rightarrow>
         (Inr (decision.extend d \<lparr>o_nextWakeAt = nextWakeAt ctx (d_action d \<noteq> None)\<rparr>), ac_trace acc)
     | (Throw e, acc) \<Rightarrow> (Inl e, ac_trace acc)
     | (Next, acc) \<Rightarrow> (Inl [], ac_trace acc))"

end
