(* ===== verification/Tick_Safety.thy ===== *)
theory Tick_Safety
  imports Tick
begin

text \<open>
  What a tick may send. \<open>permitted\<close> is the abstract specification of the operator: for every
  instruction, the condition on the chain snapshot and the Read model under which the protocol
  lets the operator send it. The theory shows that every send of every tick satisfies it, and that
  a tick lands at most one transaction.
\<close>

section \<open>The specification\<close>

fun permitted :: "tick_context \<Rightarrow> opcall \<Rightarrow> bool" where
  "permitted ctx (VoidRound r) =
    (cx_openRound ctx = Some r \<and>
     (rd_status r = ROUND_OPEN \<and> cx_now ctx > rd_endsAt r + pl_vrfTimeout (cx_pool ctx) \<or>
      rd_status r = ROUND_REQUESTED \<and> cx_fulfilled ctx (rd_vrfSeed r) = Inr False \<and>
        cx_now ctx > rd_requestedAt r + pl_vrfTimeout (cx_pool ctx)))"
| "permitted ctx (RequestRoundRandomness r) =
    (cx_openRound ctx = Some r \<and> rd_status r = ROUND_OPEN \<and>
     rd_endsAt r - pl_closeBuffer (cx_pool ctx) \<le> cx_now ctx \<and>
     cx_now ctx \<le> rd_endsAt r + pl_vrfTimeout (cx_pool ctx))"
| "permitted ctx (SettleRound r) =
    (cx_openRound ctx = Some r \<and> rd_status r = ROUND_REQUESTED \<and>
     cx_fulfilled ctx (rd_vrfSeed r) = Inr True)"
| "permitted ctx (SettlePositions roundId ps) =
    (\<exists>sweep. cx_unsettledPositions ctx = Inr sweep \<and> ps \<noteq> [] \<and> length ps \<le> 8 \<and>
       (\<forall>p \<in> set ps. \<exists>u \<in> set sweep. p = (un_address u, un_owner u) \<and> un_roundId u = roundId))"
| "permitted ctx (CloseRound i) = (\<exists>rest. cx_roundsToClose ctx = Inr (i # rest))"
| "permitted ctx BeginEpoch =
    (\<not> pl_shutdown (cx_pool ctx) \<and> \<not> pl_jackpotPaused (cx_pool ctx) \<and> epochEnded ctx \<and>
     pl_openRoundId (cx_pool ctx) = 0 \<and> previousDone ctx)"
| "permitted ctx (GrantTickets gs) =
    (\<exists>e grants. cx_currentEpoch ctx = Some e \<and> \<not> pl_shutdown (cx_pool ctx) \<and>
       \<not> pl_jackpotPaused (cx_pool ctx) \<and> cx_referralGrantsDue ctx (ep_epochId e) = Inr grants \<and>
       gs = take 8 grants \<and> gs \<noteq> [])"
| "permitted ctx (Register epochId keys) =
    (\<exists>e owners. cx_previousEpoch ctx = Some e \<and> epochId = ep_epochId e \<and>
       ep_status e = EPOCH_REGISTERING \<and> \<not> pl_shutdown (cx_pool ctx) \<and>
       cx_playersToRegister ctx epochId = Inr owners \<and> owners \<noteq> [] \<and>
       mapRes (cx_parseKey ctx) (take 8 owners) = Inr keys)"
| "permitted ctx (CloseRegistration epochId) =
    (\<exists>e. cx_previousEpoch ctx = Some e \<and> epochId = ep_epochId e \<and>
       ep_status e = EPOCH_REGISTERING \<and> \<not> pl_shutdown (cx_pool ctx) \<and>
       \<not> pl_jackpotPaused (cx_pool ctx) \<and>
       cx_playersToRegister ctx epochId = Inr [] \<and> emptyLastTick ctx e \<and>
       cx_now ctx \<ge> registrationClosesAt (cx_pool ctx) e \<and>
       indexerFreshForClose (cx_indexerCursor ctx) (cx_indexerFreshThreshold ctx) e)"
| "permitted ctx (Draw e) =
    (cx_previousEpoch ctx = Some e \<and> ep_status e = EPOCH_DRAWING \<and> \<not> pl_shutdown (cx_pool ctx) \<and>
     cx_fulfilled ctx (ep_vrfSeed e) = Inr True)"
| "permitted ctx (RolloverEpoch e) =
    (cx_previousEpoch ctx = Some e \<and>
     (ep_status e = EPOCH_DRAWING \<and> cx_now ctx > ep_requestedAt e + pl_vrfTimeout (cx_pool ctx) \<and>
        (pl_shutdown (cx_pool ctx) \<or> cx_fulfilled ctx (ep_vrfSeed e) = Inr False) \<or>
      ep_status e = EPOCH_DRAWN \<and> (\<exists>w. findWinner ctx e = Inr w \<and> payoutTimedOut ctx e w)))"
| "permitted ctx (Payout epochId key) =
    (\<exists>e w. cx_previousEpoch ctx = Some e \<and> epochId = ep_epochId e \<and> ep_status e = EPOCH_DRAWN \<and>
       findWinner ctx e = Inr (Some w) \<and> w \<noteq> [] \<and> cx_parseKey ctx w = Inr key)"
| "permitted ctx (ProcessWithdrawals batch) =
    (\<exists>rows. cx_duePendingWithdrawals ctx (pl_currentEpochId (cx_pool ctx)) = Inr rows \<and>
       batch \<noteq> [] \<and> length batch \<le> 4 \<and>
       (\<forall>p \<in> set batch. p \<in> set rows \<and> fst p \<notin> ws_skipped (withdrawStateIn ctx)))"
| "permitted ctx (CreateRound s t) =
    (roundFits ctx \<and> s = cx_now ctx \<and> t = cx_now ctx + pl_roundSeconds (cx_pool ctx))"
| "permitted ctx (BuyPosition _ _ _ _) = False"

section \<open>Trace relations and their composition\<close>

definition stepRel :: "(flow \<Rightarrow> event list \<Rightarrow> bool) \<Rightarrow> (tick_acc \<Rightarrow> flow \<times> tick_acc) \<Rightarrow> bool" where
  "stepRel R s \<longleftrightarrow> (\<forall>acc f acc'. s acc = (f, acc') \<longrightarrow> (\<exists>es. ac_trace acc' = ac_trace acc @ es \<and> R f es))"

definition composable :: "(flow \<Rightarrow> event list \<Rightarrow> bool) \<Rightarrow> bool" where
  "composable R \<longleftrightarrow> R Next [] \<and> (\<forall>f es es'. R Next es \<longrightarrow> R f es' \<longrightarrow> R f (es @ es'))"

lemma stepRelI:
  "(\<And>acc f acc'. s acc = (f, acc') \<Longrightarrow> \<exists>es. ac_trace acc' = ac_trace acc @ es \<and> R f es) \<Longrightarrow> stepRel R s"
  unfolding stepRel_def by blast

lemma stepRelD: "stepRel R s \<Longrightarrow> s acc = (f, acc') \<Longrightarrow> \<exists>es. ac_trace acc' = ac_trace acc @ es \<and> R f es"
  unfolding stepRel_def by blast

lemma andThen_cases:
  assumes "andThen s t acc = (f, acc')"
  obtains a where "s acc = (Next, a)" "t a = (f, acc')"
  | "s acc = (f, acc')" "f \<noteq> Next"
  using assms by (cases "s acc"; cases "fst (s acc)") (auto simp: andThen_def)

lemma stepRel_andThen:
  assumes R: "composable R" and s: "stepRel R s" and t: "stepRel R t"
  shows "stepRel R (andThen s t)"
proof (rule stepRelI)
  fix acc f acc' assume "andThen s t acc = (f, acc')"
  then show "\<exists>es. ac_trace acc' = ac_trace acc @ es \<and> R f es"
  proof (cases rule: andThen_cases)
    case (1 a)
    obtain es where "ac_trace a = ac_trace acc @ es" "R Next es" using stepRelD[OF s 1(1)] by blast
    moreover obtain es' where "ac_trace acc' = ac_trace a @ es'" "R f es'"
      using stepRelD[OF t 1(2)] by blast
    ultimately show ?thesis using R unfolding composable_def by (metis append.assoc)
  next
    case 2
    then show ?thesis using stepRelD[OF s] by blast
  qed
qed

lemma stepRel_Next: "composable R \<Longrightarrow> stepRel R (\<lambda>acc. (Next, acc))"
  by (rule stepRelI) (auto simp: composable_def)

lemma andThen_no_Next: "(\<And>acc. fst (s acc) \<noteq> Next) \<Longrightarrow> andThen s t = s"
  by (rule ext) (simp add: andThen_def split: prod.splits flow.splits, metis fst_conv)

section \<open>The building blocks\<close>

lemma ac_trace_emit [simp]: "ac_trace (emit e acc) = ac_trace acc @ [e]"
  by (simp add: emit_def)

lemma ac_trace_recordStepError [simp]: "ac_trace (recordStepError m acc) = ac_trace acc"
  by (simp add: recordStepError_def)

lemma sendCall_cases:
  assumes "sendCall ctx call acc = (r, acc')"
  obtains e where "cx_ix ctx call = Inl e" "r = Inl e" "acc' = acc"
  | "acc' = emit (Sent call r) acc"
  using assms by (auto simp: sendCall_def Let_def split: sum.splits)

lemma sendOrThrow_cases:
  assumes "sendOrThrow ctx call d acc = (f, acc')"
  obtains e where "f = Throw e" "acc' = acc"
  | e where "f = Throw e" "acc' = emit (Sent call (Inl e)) acc"
  | sig where "f = Return (finish ctx acc' d)" "acc' = emit (Sent call (Inr sig)) acc"
proof -
  obtain r a where s: "sendCall ctx call acc = (r, a)" by (cases "sendCall ctx call acc")
  have f: "(f, acc') = (case r of Inl e \<Rightarrow> (Throw e, a) | Inr _ \<Rightarrow> (Return (finish ctx a d), a))"
    using assms s by (simp add: sendOrThrow_def split: sum.splits)
  from s show thesis
  proof (cases rule: sendCall_cases)
    case (1 e)
    then show thesis using f that(1) by simp
  next
    case 2
    show thesis
    proof (cases r)
      case (Inl e)
      then show thesis using f 2 that(2) by simp
    next
      case (Inr sig)
      then show thesis using f 2 that(3)[of sig] by simp
    qed
  qed
qed

lemma finish_action [simp]: "d_action (finish ctx acc d) = d_action d"
  by (simp add: finish_def Let_def)

definition permitsR :: "tick_context \<Rightarrow> flow \<Rightarrow> event list \<Rightarrow> bool" where
  "permitsR ctx f es \<longleftrightarrow> (\<forall>call r. Sent call r \<in> set es \<longrightarrow> permitted ctx call)"

lemma permitsR_composable [simp]: "composable (permitsR ctx)"
  by (auto simp: composable_def permitsR_def)

lemma permits_Nil [simp]: "permitsR ctx f []"
  by (simp add: permitsR_def)

lemma sendCall_permits:
  assumes "sendCall ctx call acc = (r, acc')" "permitted ctx call"
  shows "\<exists>es. ac_trace acc' = ac_trace acc @ es \<and> permitsR ctx f es"
  using assms(1)
proof (cases rule: sendCall_cases)
  case (1 e)
  then show ?thesis by (auto intro: exI[of _ "[]"] permits_Nil)
next
  case 2
  then show ?thesis using assms(2) by (auto simp: permitsR_def)
qed

lemma sendOrThrow_permits:
  assumes "sendOrThrow ctx call d acc = (f, acc')" "permitted ctx call"
  shows "\<exists>es. ac_trace acc' = ac_trace acc @ es \<and> permitsR ctx f es"
  using assms(1)
  by (cases rule: sendOrThrow_cases) (use assms(2) in \<open>auto simp: permitsR_def\<close>)

lemma permits_keep: "ac_trace acc' = ac_trace acc \<Longrightarrow> \<exists>es. ac_trace acc' = ac_trace acc @ es \<and> permitsR ctx f es"
  by (auto intro: exI[of _ "[]"] permits_Nil)

lemma permitsR_simps [simp]:
  "permitsR ctx f (es @ es') \<longleftrightarrow> permitsR ctx f es \<and> permitsR ctx f es'"
  "permitsR ctx f (e # es) \<longleftrightarrow> (\<forall>call r. e = Sent call r \<longrightarrow> permitted ctx call) \<and> permitsR ctx f es"
  by (auto simp: permitsR_def)

lemma attempt_cases:
  assumes "attempt key send gone acc = (r, acc')"
  obtains (sent) a where "send acc = (Inr (), a)" "r = Inr True" "ac_trace acc' = ac_trace a"
  | (gone) a where "send acc = (Inl ''AccountNotInitialized'', a)" "gone a = (Inr (), acc')" "r = Inr True"
  | (goneFail) a e where "send acc = (Inl ''AccountNotInitialized'', a)" "gone a = (Inl e, acc')" "r = Inl e"
  | (failed) a m where "send acc = (Inl m, a)" "m \<noteq> ''AccountNotInitialized''" "r = Inr False"
      "ac_trace acc' = ac_trace a"
proof -
  obtain sr a where s: "send acc = (sr, a)" by (cases "send acc")
  show thesis
  proof (cases sr)
    case (Inr u)
    then show thesis using assms s sent[of a] by (auto simp: attempt_def split: if_splits)
  next
    case (Inl m)
    show thesis
    proof (cases "m = ''AccountNotInitialized''")
      case True
      obtain gr b where g: "gone a = (gr, b)" by (cases "gone a")
      show thesis
      proof (cases gr)
        case (Inl e)
        then show thesis using assms s g True \<open>sr = Inl m\<close> goneFail by (simp add: attempt_def)
      next
        case (Inr u)
        then show thesis using assms s g True \<open>sr = Inl m\<close> gone by (simp add: attempt_def)
      qed
    next
      case False
      then show thesis
        using assms s Inl failed[of m a] by (auto simp: attempt_def Let_def split: if_splits)
    qed
  qed
qed

lemma sendThen_cases:
  assumes "sendThen ctx call k acc = (r, acc')"
  obtains (builder) e where "cx_ix ctx call = Inl e" "r = Inl e" "acc' = acc"
  | (refused) e where "r = Inl e" "acc' = emit (Sent call (Inl e)) acc"
  | (landed) sig where "k (emit (Sent call (Inr sig)) acc) = (r, acc')"
proof -
  obtain sr a where s: "sendCall ctx call acc = (sr, a)" by (cases "sendCall ctx call acc")
  have f: "(r, acc') = (case sr of Inl e \<Rightarrow> (Inl e, a) | Inr _ \<Rightarrow> k a)"
    using assms s by (simp add: sendThen_def split: sum.splits)
  from s show thesis
  proof (cases rule: sendCall_cases)
    case (1 e)
    then show thesis using f builder by simp
  next
    case 2
    then show thesis
      by (cases sr) (use f refused landed in auto)
  qed
qed

lemma returnIfSent_trace: "snd (returnIfSent ctx action p) = snd p"
  by (simp add: returnIfSent_def split: prod.splits sum.splits bool.splits)

definition onlySends :: "opcall \<Rightarrow> event list \<Rightarrow> bool" where
  "onlySends call es \<longleftrightarrow> (\<forall>c r. Sent c r \<in> set es \<longrightarrow> c = call)"

lemma onlySends_simps [simp]:
  "onlySends call []"
  "onlySends call (es @ es') \<longleftrightarrow> onlySends call es \<and> onlySends call es'"
  "onlySends call (e # es) \<longleftrightarrow> (isSend e \<longrightarrow> (\<exists>r. e = Sent call r)) \<and> onlySends call es"
  by (auto simp: onlySends_def) (cases e; auto)+

text \<open>An attempted send whose bookkeeping call \<open>k\<close> emits one event: it sends nothing but its call.\<close>

lemma sendThen_onlySends:
  assumes "sendThen ctx call k acc = (r, acc')"
    and k: "\<And>a. ac_trace (snd (k a)) = ac_trace a @ [ev]" and ev: "\<not> isSend ev"
  shows "\<exists>es. ac_trace acc' = ac_trace acc @ es \<and> onlySends call es"
  using assms(1)
proof (cases rule: sendThen_cases)
  case (builder e)
  then show ?thesis by (intro exI[of _ "[]"]) simp
next
  case (refused e)
  then show ?thesis by (intro exI[of _ "[Sent call (Inl e)]"]) simp
next
  case (landed sig)
  then have "ac_trace acc' = ac_trace acc @ [Sent call (Inr sig), ev]"
    using k[of "emit (Sent call (Inr sig)) acc"] by simp
  then show ?thesis using ev by (intro exI[of _ "[Sent call (Inr sig), ev]"]) simp
qed

lemma attempt_onlySends:
  assumes "attempt key (sendThen ctx call k) k acc = (r, acc')"
    and k: "\<And>a. ac_trace (snd (k a)) = ac_trace a @ [ev]" and ev: "\<not> isSend ev"
  shows "\<exists>es. ac_trace acc' = ac_trace acc @ es \<and> onlySends call es"
proof -
  obtain sr a where s: "sendThen ctx call k acc = (sr, a)" by (cases "sendThen ctx call k acc")
  obtain es where es: "ac_trace a = ac_trace acc @ es" "onlySends call es"
    using sendThen_onlySends[OF s k ev] by blast
  have "ac_trace acc' = ac_trace a \<or> ac_trace acc' = ac_trace a @ [ev]"
    using assms(1) by (cases rule: attempt_cases) (use s k[of a] in auto)
  then show ?thesis
    using es ev by (auto intro: exI[of _ es] exI[of _ "es @ [ev]"])
qed

text \<open>When the bookkeeping call cannot fail and no builder reports the race, an attempt either counts
  as done (its call landed, or the account was already gone) or sends nothing that lands.\<close>

lemma attempt_once:
  assumes "attempt key (sendThen ctx call k) k acc = (r, acc')"
    and k: "\<And>a. ac_trace (snd (k a)) = ac_trace a @ [ev]" "\<And>a. fst (k a) = Inr ()"
    and b: "cx_ix ctx call \<noteq> Inl ''AccountNotInitialized''"
  shows "(r = Inr True \<and> (\<exists>sr. ac_trace acc' = ac_trace acc @ [Sent call sr, ev] \<and>
            (isOk sr \<or> sr = Inl ''AccountNotInitialized''))) \<or>
         (r = Inr False \<and> (ac_trace acc' = ac_trace acc \<or>
            (\<exists>e. ac_trace acc' = ac_trace acc @ [Sent call (Inl e)])))"
proof -
  have kk: "k a = (gr, a') \<Longrightarrow> gr = Inr () \<and> ac_trace a' = ac_trace a @ [ev]" for a gr a'
    using k[of a] by auto
  have st: "sr = Inr () \<and> (\<exists>sig. ac_trace a = ac_trace acc @ [Sent call (Inr sig), ev]) \<or>
    (\<exists>e. sr = Inl e \<and> (cx_ix ctx call = Inl e \<and> ac_trace a = ac_trace acc \<or>
       ac_trace a = ac_trace acc @ [Sent call (Inl e)]))"
    if "sendThen ctx call k acc = (sr, a)" for sr a
    using that by (cases rule: sendThen_cases) (auto dest!: kk)
  from assms(1) show ?thesis
    by (cases rule: attempt_cases) (use b in \<open>auto dest!: st kk\<close>)
qed

section \<open>Every step sends only what is permitted\<close>

lemma stepRound_permits: "stepRel (permitsR ctx) (stepRound ctx)"
proof (rule stepRelI)
  fix acc f acc' assume "stepRound ctx acc = (f, acc')"
  then show "\<exists>es. ac_trace acc' = ac_trace acc @ es \<and> permitsR ctx f es"
    by (auto simp: stepRound_def Let_def split: option.splits if_splits sum.splits bool.splits
        elim!: sendOrThrow_permits)
qed

lemma onlySends_permits: "onlySends call es \<Longrightarrow> permitted ctx call \<Longrightarrow> permitsR ctx f es"
  by (auto simp: onlySends_def permitsR_def)

lemma forgetPositions_trace:
  "ac_trace (snd (forgetPositions ctx xs a)) = ac_trace a @ [ForgetPositions xs]"
  by (simp add: forgetPositions_def)

lemma forgetRound_trace:
  "ac_trace (snd (forgetRound ctx i a)) = ac_trace a @ [ForgetRound i]"
  by (simp add: forgetRound_def)

lemma sweepBatch_permitted:
  assumes "cx_unsettledPositions ctx = Inr (first # rest)"
  shows "permitted ctx (SettlePositions (un_roundId first)
    (map (\<lambda>p. (un_address p, un_owner p)) (sweepBatch (first # rest) (un_roundId first))))"
proof -
  have "u \<in> set (first # rest) \<and> un_roundId u = un_roundId first"
    if "u \<in> set (sweepBatch (first # rest) (un_roundId first))" for u
    using in_set_takeD[OF that[unfolded sweepBatch_def]] by auto
  moreover have "sweepBatch (first # rest) (un_roundId first) \<noteq> []"
    "length (sweepBatch (first # rest) (un_roundId first)) \<le> 8"
    by (simp_all add: sweepBatch_def BATCH_SIZE_def)
  ultimately show ?thesis using assms by fastforce
qed

lemma stepSweep_permits: "stepRel (permitsR ctx) (stepSweep ctx)"
proof (rule stepRelI)
  fix acc f acc' assume s: "stepSweep ctx acc = (f, acc')"
  show "\<exists>es. ac_trace acc' = ac_trace acc @ es \<and> permitsR ctx f es"
  proof (cases "\<exists>first rest. cx_unsettledPositions ctx = Inr (first # rest)")
    case True
    then obtain first rest where u: "cx_unsettledPositions ctx = Inr (first # rest)" by blast
    let ?b = "sweepBatch (first # rest) (un_roundId first)"
    let ?call = "SettlePositions (un_roundId first) (map (\<lambda>p. (un_address p, un_owner p)) ?b)"
    let ?k = "forgetPositions ctx (map un_address ?b)"
    obtain r a where at: "attempt (''settle_position:'' @ showInt (un_roundId first))
        (sendThen ctx ?call ?k) ?k acc = (r, a)" by fastforce
    have "acc' = a" using s u at returnIfSent_trace[of ctx "''settle_position''" "(r, a)"]
      by (simp add: stepSweep_def Let_def)
    then show ?thesis
      using attempt_onlySends[OF at forgetPositions_trace] onlySends_permits[OF _ sweepBatch_permitted[OF u]]
      by auto
  next
    case False
    then show ?thesis using s by (auto simp: stepSweep_def split: sum.splits list.splits)
  qed
qed

lemma stepClose_permits: "stepRel (permitsR ctx) (stepClose ctx)"
proof (rule stepRelI)
  fix acc f acc' assume s: "stepClose ctx acc = (f, acc')"
  show "\<exists>es. ac_trace acc' = ac_trace acc @ es \<and> permitsR ctx f es"
  proof (cases "\<exists>i rest. cx_roundsToClose ctx = Inr (i # rest)")
    case True
    then obtain i rest where u: "cx_roundsToClose ctx = Inr (i # rest)" by blast
    obtain r a where at: "attempt (''close_round:'' @ showInt i)
        (sendThen ctx (CloseRound i) (forgetRound ctx i)) (forgetRound ctx i) acc = (r, a)" by fastforce
    have "acc' = a" using s u at returnIfSent_trace[of ctx "''close_round''" "(r, a)"]
      by (simp add: stepClose_def)
    moreover have "permitted ctx (CloseRound i)" using u by simp
    ultimately show ?thesis
      using attempt_onlySends[OF at forgetRound_trace] onlySends_permits[of "CloseRound i"] by auto
  next
    case False
    then show ?thesis using s by (auto simp: stepClose_def split: sum.splits list.splits)
  qed
qed

lemma stepBeginEpoch_permits: "stepRel (permitsR ctx) (stepBeginEpoch ctx)"
  by (rule stepRelI)
    (auto simp: stepBeginEpoch_def Let_def split: if_splits elim!: sendOrThrow_permits)

lemma stepGrants_permits: "stepRel (permitsR ctx) (stepGrants ctx)"
proof (rule stepRelI)
  fix acc f acc' assume s: "stepGrants ctx acc = (f, acc')"
  show "\<exists>es. ac_trace acc' = ac_trace acc @ es \<and> permitsR ctx f es"
  proof (cases "\<exists>e gs. cx_currentEpoch ctx = Some e \<and> \<not> pl_shutdown (cx_pool ctx) \<and>
      \<not> pl_jackpotPaused (cx_pool ctx) \<and> cx_referralGrantsDue ctx (ep_epochId e) = Inr gs \<and> gs \<noteq> []")
    case True
    then obtain e gs where g: "cx_currentEpoch ctx = Some e" "\<not> pl_shutdown (cx_pool ctx)"
      "\<not> pl_jackpotPaused (cx_pool ctx)" "cx_referralGrantsDue ctx (ep_epochId e) = Inr gs" "gs \<noteq> []"
      by blast
    let ?call = "GrantTickets (take BATCH_SIZE gs)"
    have p: "permitted ctx ?call" using g by (auto simp: BATCH_SIZE_def)
    obtain r a where c: "sendCall ctx ?call acc = (r, a)" by (cases "sendCall ctx ?call acc")
    obtain es where t: "ac_trace a = ac_trace acc @ es" "permitsR ctx f es"
      using sendCall_permits[OF c p] by blast
    have "ac_trace acc' = ac_trace a \<or>
      (\<exists>sig. ac_trace acc' = ac_trace a @ [MarkGrants (ep_epochId e) (map fst (take BATCH_SIZE gs)) sig])"
      using s g c by (cases r) (auto simp: stepGrants_def Let_def split: sum.splits if_splits)
    then show ?thesis using t by (elim disjE exE) simp_all
  next
    case False
    then show ?thesis
      using s by (auto simp: stepGrants_def split: option.splits sum.splits if_splits)
  qed
qed


lemma stepRegister_permits: "stepRel (permitsR ctx) (stepRegister ctx)"
proof (rule stepRelI)
  fix acc f acc' assume s: "stepRegister ctx acc = (f, acc')"
  show "\<exists>es. ac_trace acc' = ac_trace acc @ es \<and> permitsR ctx f es"
  proof (cases "\<exists>e owners keys. cx_previousEpoch ctx = Some e \<and> \<not> pl_shutdown (cx_pool ctx) \<and>
      ep_status e = EPOCH_REGISTERING \<and> cx_playersToRegister ctx (ep_epochId e) = Inr owners \<and>
      owners \<noteq> [] \<and> mapRes (cx_parseKey ctx) (take BATCH_SIZE owners) = Inr keys")
    case True
    then obtain e owners keys where g: "cx_previousEpoch ctx = Some e" "\<not> pl_shutdown (cx_pool ctx)"
      "ep_status e = EPOCH_REGISTERING" "cx_playersToRegister ctx (ep_epochId e) = Inr owners"
      "owners \<noteq> []" "mapRes (cx_parseKey ctx) (take BATCH_SIZE owners) = Inr keys" by blast
    let ?call = "Register (ep_epochId e) keys"
    have p: "permitted ctx ?call" using g by (auto simp: BATCH_SIZE_def)
    obtain r a where c: "sendCall ctx ?call acc = (r, a)" by (cases "sendCall ctx ?call acc")
    obtain es where t: "ac_trace a = ac_trace acc @ es" "permitsR ctx f es"
      using sendCall_permits[OF c p] by blast
    have "ac_trace acc' = ac_trace a \<or> ac_trace acc' = ac_trace a @ [ForgetRegistered (take BATCH_SIZE owners)]"
      using s g c by (cases r) (auto simp: stepRegister_def Let_def split: sum.splits if_splits)
    then show ?thesis using t by (elim disjE) simp_all
  next
    case False
    then show ?thesis
      using s by (auto simp: stepRegister_def split: option.splits sum.splits if_splits)
  qed
qed

text \<open>Step 4b is reached with nobody left to register only because step 4 fell through.\<close>

lemma stepRegister_stops:
  assumes "cx_previousEpoch ctx = Some e" "ep_status e = EPOCH_REGISTERING" "\<not> pl_shutdown (cx_pool ctx)"
    and "cx_playersToRegister ctx (ep_epochId e) \<noteq> Inr []"
  shows "fst (stepRegister ctx acc) \<noteq> Next"
  using assms
  by (auto simp: stepRegister_def Let_def sendCall_def split: sum.splits prod.splits if_splits)

lemma stepCloseRegistration_permits:
  assumes "\<And>e. cx_previousEpoch ctx = Some e \<Longrightarrow> ep_status e = EPOCH_REGISTERING \<Longrightarrow>
    \<not> pl_shutdown (cx_pool ctx) \<Longrightarrow> cx_playersToRegister ctx (ep_epochId e) = Inr []"
  shows "stepRel (permitsR ctx) (stepCloseRegistration ctx)"
proof (rule stepRelI)
  fix acc f acc' assume "stepCloseRegistration ctx acc = (f, acc')"
  then show "\<exists>es. ac_trace acc' = ac_trace acc @ es \<and> permitsR ctx f es"
    using assms by (auto simp: stepCloseRegistration_def Let_def split: option.splits if_splits
        elim!: sendOrThrow_permits)
qed

lemma registration_permits:
  assumes "stepRel (permitsR ctx) k"
  shows "stepRel (permitsR ctx) (andThen (stepRegister ctx) (andThen (stepCloseRegistration ctx) k))"
proof (cases "\<exists>e. cx_previousEpoch ctx = Some e \<and> ep_status e = EPOCH_REGISTERING \<and>
    \<not> pl_shutdown (cx_pool ctx) \<and> cx_playersToRegister ctx (ep_epochId e) \<noteq> Inr []")
  case True
  then have "andThen (stepRegister ctx) (andThen (stepCloseRegistration ctx) k) = stepRegister ctx"
    using stepRegister_stops by (intro andThen_no_Next) blast
  then show ?thesis by (simp add: stepRegister_permits)
next
  case False
  then have "stepRel (permitsR ctx) (stepCloseRegistration ctx)"
    by (intro stepCloseRegistration_permits) auto
  then show ?thesis by (intro stepRel_andThen stepRegister_permits assms) simp_all
qed

lemma stepDraw_permits: "stepRel (permitsR ctx) (stepDraw ctx)"
proof (rule stepRelI)
  fix acc f acc' assume "stepDraw ctx acc = (f, acc')"
  then show "\<exists>es. ac_trace acc' = ac_trace acc @ es \<and> permitsR ctx f es"
    by (auto simp: stepDraw_def Let_def split: option.splits if_splits sum.splits bool.splits
        elim!: sendOrThrow_permits)
qed

lemma permits_trans:
  assumes "\<exists>es. ac_trace a = ac_trace acc @ es \<and> permitsR ctx f es"
    and "\<exists>es. ac_trace b = ac_trace a @ es \<and> permitsR ctx g es"
  shows "\<exists>es. ac_trace b = ac_trace acc @ es \<and> permitsR ctx h es"
proof -
  obtain es es' where "ac_trace a = ac_trace acc @ es" "permitsR ctx f es"
    "ac_trace b = ac_trace a @ es'" "permitsR ctx g es'" using assms by blast
  then have "ac_trace b = ac_trace acc @ (es @ es') \<and> permitsR ctx h (es @ es')"
    by (auto simp: permitsR_def)
  then show ?thesis by blast
qed

lemma rolloverIfTimedOut_permits:
  assumes "rolloverIfTimedOut ctx e w acc = (f, acc')"
    and "cx_previousEpoch ctx = Some e" "ep_status e = EPOCH_DRAWN" "findWinner ctx e = Inr w"
  shows "\<exists>es. ac_trace acc' = ac_trace acc @ es \<and> permitsR ctx f es"
  using assms by (auto simp: rolloverIfTimedOut_def split: if_splits elim!: sendOrThrow_permits)

lemma stepPayout_permits: "stepRel (permitsR ctx) (stepPayout ctx)"
proof (rule stepRelI)
  fix acc f acc' assume s: "stepPayout ctx acc = (f, acc')"
  show "\<exists>es. ac_trace acc' = ac_trace acc @ es \<and> permitsR ctx f es"
  proof (cases "\<exists>e w key. cx_previousEpoch ctx = Some e \<and> ep_status e = EPOCH_DRAWN \<and>
      findWinner ctx e = Inr (Some w) \<and> w \<noteq> [] \<and> cx_parseKey ctx w = Inr key")
    case True
    then obtain e w key where g: "cx_previousEpoch ctx = Some e" "ep_status e = EPOCH_DRAWN"
      "findWinner ctx e = Inr (Some w)" "w \<noteq> []" "cx_parseKey ctx w = Inr key" by blast
    let ?call = "Payout (ep_epochId e) key"
    have p: "permitted ctx ?call" using g by auto
    obtain r a where c: "sendCall ctx ?call acc = (r, a)" by (cases "sendCall ctx ?call acc")
    have t: "\<exists>es. ac_trace a = ac_trace acc @ es \<and> permitsR ctx f es"
      using sendCall_permits[OF c p] .
    have "acc' = a \<or> rolloverIfTimedOut ctx e (Some w) a = (f, acc')"
      using s g c by (cases r) (auto simp: stepPayout_def split: if_splits)
    then show ?thesis
      using t permits_trans[OF t rolloverIfTimedOut_permits[OF _ g(1,2,3)]] by blast
  next
    case False
    then show ?thesis
      using s by (auto simp: stepPayout_def split: option.splits sum.splits if_splits
          elim!: rolloverIfTimedOut_permits)
  qed
qed


lemma withdrawFailed_trace: "ac_trace (snd (withdrawFailed ctx w batch m acc)) = ac_trace acc"
  by (auto simp: withdrawFailed_def Let_def split: sum.splits list.splits)

lemma withdrawBatch_props:
  "due \<noteq> [] \<Longrightarrow> withdrawBatch w due \<noteq> []" "length (withdrawBatch w due) \<le> 4"
  "x \<in> set (withdrawBatch w due) \<Longrightarrow> x \<in> set due"
  by (auto simp: withdrawBatch_def WITHDRAW_BATCH_SIZE_def dest: in_set_takeD split: if_splits)

lemma stepWithdraw_permits: "stepRel (permitsR ctx) (stepWithdraw ctx)"
proof (rule stepRelI)
  fix acc f acc' assume s: "stepWithdraw ctx acc = (f, acc')"
  define w where "w = withdrawStateIn ctx"
  show "\<exists>es. ac_trace acc' = ac_trace acc @ es \<and> permitsR ctx f es"
  proof (cases "\<exists>rows. cx_duePendingWithdrawals ctx (pl_currentEpochId (cx_pool ctx)) = Inr rows \<and>
      filter (\<lambda>entry. fst entry \<notin> ws_skipped w) rows \<noteq> []")
    case True
    then obtain rows where g: "cx_duePendingWithdrawals ctx (pl_currentEpochId (cx_pool ctx)) = Inr rows"
      "filter (\<lambda>entry. fst entry \<notin> ws_skipped w) rows \<noteq> []" by blast
    define due where "due = filter (\<lambda>entry. fst entry \<notin> ws_skipped w) rows"
    let ?call = "ProcessWithdrawals (withdrawBatch w due)"
    have "\<forall>x \<in> set (withdrawBatch w due). x \<in> set rows \<and> fst x \<notin> ws_skipped w"
      using withdrawBatch_props(3) unfolding due_def by fastforce
    moreover have "withdrawBatch w due \<noteq> []" "length (withdrawBatch w due) \<le> 4"
      using g(2) withdrawBatch_props(1)[of due w] withdrawBatch_props(2)[of w due] by (simp_all add: due_def)
    ultimately have p: "permitted ctx ?call"
      using g(1) unfolding permitted.simps w_def[symmetric] by blast
    obtain r a where c: "sendCall ctx ?call acc = (r, a)" by (cases "sendCall ctx ?call acc")
    obtain es where t: "ac_trace a = ac_trace acc @ es" "permitsR ctx f es"
      using sendCall_permits[OF c p] by blast
    have "ac_trace acc' = ac_trace a"
    proof (cases r)
      case (Inl m)
      then show ?thesis using s g c withdrawFailed_trace[of ctx w "withdrawBatch w due" m a]
        by (simp add: stepWithdraw_def Let_def w_def[symmetric] due_def[symmetric])
    next
      case (Inr sig)
      then show ?thesis using s g c
        by (auto simp: stepWithdraw_def Let_def w_def[symmetric] due_def[symmetric])
    qed
    then show ?thesis using t by simp
  next
    case False
    then show ?thesis
      using s by (auto simp: stepWithdraw_def Let_def w_def[symmetric] split: sum.splits if_splits)
  qed
qed

lemma stepCreateRound_permits: "stepRel (permitsR ctx) (stepCreateRound ctx)"
  by (rule stepRelI)
    (auto simp: stepCreateRound_def split: if_splits elim!: sendOrThrow_permits)

lemmas step_permits =
  stepRound_permits stepSweep_permits stepClose_permits stepBeginEpoch_permits stepGrants_permits
  stepDraw_permits stepPayout_permits stepWithdraw_permits stepCreateRound_permits registration_permits

lemma decide_permits:
  assumes "decide ctx = (f, acc)" "Sent call r \<in> set (ac_trace acc)"
  shows "permitted ctx call"
proof -
  have "stepRel (permitsR ctx) (foldr andThen (decideSteps ctx) (\<lambda>acc. (Next, acc)))"
    unfolding decideSteps_def foldr.simps o_apply id_apply
    by (intro stepRel_andThen step_permits stepRel_Next permitsR_composable)
  then obtain es where "ac_trace acc = ac_trace (initialAcc ctx) @ es" "permitsR ctx f es"
    using assms(1) unfolding decide_def by (blast dest: stepRelD)
  then show ?thesis using assms(2) by (auto simp: initialAcc_def permitsR_def)
qed

section \<open>At most one transaction lands\<close>

fun onceR :: "flow \<Rightarrow> event list \<Rightarrow> bool" where
  "onceR Next es = (filter isLanded es = [])"
| "onceR (Throw _) es = (length (filter isLanded es) \<le> 1)"
| "onceR (Return d) es =
    (case d_action d of
       None \<Rightarrow> filter isLanded es = []
     | Some a \<Rightarrow> (\<exists>call r. Sent call r \<in> set es \<and> opName call = a \<and>
         (filter isLanded es = [Sent call r] \<or>
          filter isLanded es = [] \<and> r = Inl ''AccountNotInitialized'')))"

lemma onceR_append: "filter isLanded es = [] \<Longrightarrow> onceR f es' \<Longrightarrow> onceR f (es @ es')"
  by (cases f) (auto split: option.splits)

lemma onceR_composable [simp]: "composable onceR"
  by (auto simp: composable_def intro: onceR_append)


text \<open>
  What the tick relies on of its surroundings: the service's bookkeeping calls do not fail, the
  database does not answer in the words of the program's cap errors, and no builder reports the
  closed-account race. The service provides this contract for the contexts it builds.
\<close>

locale tick_world =
  fixes ctx :: tick_context
  assumes forget_positions_total: "cx_forgetPositions ctx xs = Inr ()"
    and forget_round_total: "cx_forgetRound ctx i = Inr ()"
    and marks_clean: "cx_markReferralGrantsSent ctx e rs sig = Inl m \<Longrightarrow> \<not> capExceeded m"
    and builder_errors: "cx_ix ctx call \<noteq> Inl ''AccountNotInitialized''"
begin

lemma sendOrThrow_once:
  assumes "sendOrThrow ctx call d acc = (f, acc')" "d_action d = Some (opName call)"
  shows "\<exists>es. ac_trace acc' = ac_trace acc @ es \<and> onceR f es"
  using assms(1)
proof (cases rule: sendOrThrow_cases)
  case (3 sig)
  then show ?thesis using assms(2) by (intro exI[of _ "[Sent call (Inr sig)]"]) simp
qed auto

lemma keep_once: "onceR f [] \<Longrightarrow> \<exists>es. ac_trace acc = ac_trace acc @ es \<and> onceR f es"
  by (rule exI[of _ "[]"]) simp

lemma stepRound_once: "stepRel onceR (stepRound ctx)"
proof (rule stepRelI)
  fix acc f acc' assume "stepRound ctx acc = (f, acc')"
  then show "\<exists>es. ac_trace acc' = ac_trace acc @ es \<and> onceR f es"
    by (auto simp: stepRound_def Let_def split: option.splits if_splits sum.splits bool.splits
        elim!: sendOrThrow_once)
qed

lemma returnIfSent_once:
  assumes "attempt key (sendThen ctx call k) k acc = (r, a)"
    and "\<And>a. ac_trace (snd (k a)) = ac_trace a @ [ev]" "\<And>a. fst (k a) = Inr ()" "\<not> isSend ev"
    and "returnIfSent ctx (opName call) (r, a) = (f, acc')"
  shows "\<exists>es. ac_trace acc' = ac_trace acc @ es \<and> onceR f es"
proof -
  have ev: "\<not> isLanded ev" using assms(4) by (cases ev) auto
  from attempt_once[OF assms(1,2,3) builder_errors] show ?thesis
  proof (elim disjE conjE exE)
    fix sr assume r: "r = Inr True" and t: "ac_trace a = ac_trace acc @ [Sent call sr, ev]"
      and sr: "isOk sr"
    then show ?thesis using assms(5) ev
      by (intro exI[of _ "[Sent call sr, ev]"]) (auto simp: returnIfSent_def)
  next
    fix sr assume r: "r = Inr True" and t: "ac_trace a = ac_trace acc @ [Sent call sr, ev]"
      and sr: "sr = Inl ''AccountNotInitialized''"
    then show ?thesis using assms(5) ev
      by (intro exI[of _ "[Sent call sr, ev]"]) (auto simp: returnIfSent_def)
  next
    assume "r = Inr False" "ac_trace a = ac_trace acc"
    then show ?thesis using assms(5) by (intro exI[of _ "[]"]) (auto simp: returnIfSent_def)
  next
    fix e assume "r = Inr False" "ac_trace a = ac_trace acc @ [Sent call (Inl e)]"
    then show ?thesis using assms(5)
      by (intro exI[of _ "[Sent call (Inl e)]"]) (auto simp: returnIfSent_def)
  qed
qed

lemma stepSweep_once: "stepRel onceR (stepSweep ctx)"
proof (rule stepRelI)
  fix acc f acc' assume s: "stepSweep ctx acc = (f, acc')"
  show "\<exists>es. ac_trace acc' = ac_trace acc @ es \<and> onceR f es"
  proof (cases "\<exists>first rest. cx_unsettledPositions ctx = Inr (first # rest)")
    case True
    then obtain first rest where u: "cx_unsettledPositions ctx = Inr (first # rest)" by blast
    let ?b = "sweepBatch (first # rest) (un_roundId first)"
    let ?call = "SettlePositions (un_roundId first) (map (\<lambda>p. (un_address p, un_owner p)) ?b)"
    let ?k = "forgetPositions ctx (map un_address ?b)"
    obtain r a where at: "attempt (''settle_position:'' @ showInt (un_roundId first))
        (sendThen ctx ?call ?k) ?k acc = (r, a)" by fastforce
    then show ?thesis
      using s u by (intro returnIfSent_once[OF at forgetPositions_trace])
        (simp_all add: stepSweep_def Let_def forgetPositions_def forget_positions_total)
  next
    case False
    then show ?thesis using s by (auto simp: stepSweep_def split: sum.splits list.splits)
  qed
qed

lemma stepClose_once: "stepRel onceR (stepClose ctx)"
proof (rule stepRelI)
  fix acc f acc' assume s: "stepClose ctx acc = (f, acc')"
  show "\<exists>es. ac_trace acc' = ac_trace acc @ es \<and> onceR f es"
  proof (cases "\<exists>i rest. cx_roundsToClose ctx = Inr (i # rest)")
    case True
    then obtain i rest where u: "cx_roundsToClose ctx = Inr (i # rest)" by blast
    obtain r a where at: "attempt (''close_round:'' @ showInt i)
        (sendThen ctx (CloseRound i) (forgetRound ctx i)) (forgetRound ctx i) acc = (r, a)" by fastforce
    then show ?thesis
      using s u by (intro returnIfSent_once[OF at forgetRound_trace])
        (simp_all add: stepClose_def forgetRound_def forget_round_total)
  next
    case False
    then show ?thesis using s by (auto simp: stepClose_def split: sum.splits list.splits)
  qed
qed

lemma stepBeginEpoch_once: "stepRel onceR (stepBeginEpoch ctx)"
  by (rule stepRelI)
    (auto simp: stepBeginEpoch_def Let_def split: if_splits elim!: sendOrThrow_once)

lemma stepCloseRegistration_once: "stepRel onceR (stepCloseRegistration ctx)"
proof (rule stepRelI)
  fix acc f acc' assume "stepCloseRegistration ctx acc = (f, acc')"
  then show "\<exists>es. ac_trace acc' = ac_trace acc @ es \<and> onceR f es"
    by (auto simp: stepCloseRegistration_def Let_def NOTHING_def split: option.splits if_splits
        elim!: sendOrThrow_once)
qed

lemma stepDraw_once: "stepRel onceR (stepDraw ctx)"
proof (rule stepRelI)
  fix acc f acc' assume "stepDraw ctx acc = (f, acc')"
  then show "\<exists>es. ac_trace acc' = ac_trace acc @ es \<and> onceR f es"
    by (auto simp: stepDraw_def Let_def split: option.splits if_splits sum.splits bool.splits
        elim!: sendOrThrow_once)
qed

lemma stepCreateRound_once: "stepRel onceR (stepCreateRound ctx)"
  by (rule stepRelI)
    (auto simp: stepCreateRound_def NOTHING_def split: if_splits elim!: sendOrThrow_once)

lemma sendCall_once:
  assumes "sendCall ctx call acc = (r, a)"
  shows "(\<exists>sig. r = Inr sig \<and> ac_trace a = ac_trace acc @ [Sent call r]) \<or>
         (\<exists>e. r = Inl e \<and> (ac_trace a = ac_trace acc \<or> ac_trace a = ac_trace acc @ [Sent call r]))"
  using assms by (cases r) (auto simp: sendCall_def Let_def split: sum.splits)

lemma onceR_one [simp]:
  "onceR (Throw e) [ev]" "isSend ev \<or> onceR f [ev] = onceR f []"
  by (cases ev; cases f; auto split: option.splits)+

lemma stepGrants_once: "stepRel onceR (stepGrants ctx)"
proof (rule stepRelI)
  fix acc f acc' assume s: "stepGrants ctx acc = (f, acc')"
  show "\<exists>es. ac_trace acc' = ac_trace acc @ es \<and> onceR f es"
  proof (cases "\<exists>e gs. cx_currentEpoch ctx = Some e \<and> \<not> pl_shutdown (cx_pool ctx) \<and>
      \<not> pl_jackpotPaused (cx_pool ctx) \<and> cx_referralGrantsDue ctx (ep_epochId e) = Inr gs \<and> gs \<noteq> []")
    case True
    then obtain e gs where g: "cx_currentEpoch ctx = Some e" "\<not> pl_shutdown (cx_pool ctx)"
      "\<not> pl_jackpotPaused (cx_pool ctx)" "cx_referralGrantsDue ctx (ep_epochId e) = Inr gs" "gs \<noteq> []"
      by blast
    let ?call = "GrantTickets (take BATCH_SIZE gs)"
    obtain r a where c: "sendCall ctx ?call acc = (r, a)" by (cases "sendCall ctx ?call acc")
    show ?thesis
    proof (cases r)
      case (Inl m)
      then show ?thesis using s g c sendCall_once[OF c]
        by (auto simp: stepGrants_def Let_def split: if_splits)
    next
      case (Inr sig)
      define ev where "ev = MarkGrants (ep_epochId e) (map fst (take BATCH_SIZE gs)) sig"
      have "ac_trace acc' = ac_trace acc @ [Sent ?call r, ev]" "onceR f [Sent ?call r, ev]"
        using s g c sendCall_once[OF c] Inr marks_clean
        by (auto simp: stepGrants_def Let_def ev_def split: sum.splits if_splits)
      then show ?thesis by blast
    qed
  next
    case False
    then show ?thesis
      using s by (auto simp: stepGrants_def split: option.splits sum.splits if_splits)
  qed
qed

lemma stepRegister_once: "stepRel onceR (stepRegister ctx)"
proof (rule stepRelI)
  fix acc f acc' assume s: "stepRegister ctx acc = (f, acc')"
  show "\<exists>es. ac_trace acc' = ac_trace acc @ es \<and> onceR f es"
  proof (cases "\<exists>e owners keys. cx_previousEpoch ctx = Some e \<and> \<not> pl_shutdown (cx_pool ctx) \<and>
      ep_status e = EPOCH_REGISTERING \<and> cx_playersToRegister ctx (ep_epochId e) = Inr owners \<and>
      owners \<noteq> [] \<and> mapRes (cx_parseKey ctx) (take BATCH_SIZE owners) = Inr keys")
    case True
    then obtain e owners keys where g: "cx_previousEpoch ctx = Some e" "\<not> pl_shutdown (cx_pool ctx)"
      "ep_status e = EPOCH_REGISTERING" "cx_playersToRegister ctx (ep_epochId e) = Inr owners"
      "owners \<noteq> []" "mapRes (cx_parseKey ctx) (take BATCH_SIZE owners) = Inr keys" by blast
    let ?call = "Register (ep_epochId e) keys"
    obtain r a where c: "sendCall ctx ?call acc = (r, a)" by (cases "sendCall ctx ?call acc")
    show ?thesis
    proof (cases r)
      case (Inl m)
      then show ?thesis using s g c sendCall_once[OF c] by (auto simp: stepRegister_def Let_def)
    next
      case (Inr sig)
      define ev where "ev = ForgetRegistered (take BATCH_SIZE owners)"
      have "ac_trace acc' = ac_trace acc @ [Sent ?call r, ev]" "onceR f [Sent ?call r, ev]"
        using s g c sendCall_once[OF c] Inr
        by (auto simp: stepRegister_def Let_def ev_def split: sum.splits)
      then show ?thesis by blast
    qed
  next
    case False
    then show ?thesis
      using s by (auto simp: stepRegister_def split: option.splits sum.splits if_splits)
  qed
qed

lemma rolloverIfTimedOut_once:
  assumes "rolloverIfTimedOut ctx e w acc = (f, acc')"
  shows "\<exists>es. ac_trace acc' = ac_trace acc @ es \<and> onceR f es"
  using assms by (auto simp: rolloverIfTimedOut_def split: if_splits elim!: sendOrThrow_once)

lemma stepPayout_once: "stepRel onceR (stepPayout ctx)"
proof (rule stepRelI)
  fix acc f acc' assume s: "stepPayout ctx acc = (f, acc')"
  show "\<exists>es. ac_trace acc' = ac_trace acc @ es \<and> onceR f es"
  proof (cases "\<exists>e w key. cx_previousEpoch ctx = Some e \<and> ep_status e = EPOCH_DRAWN \<and>
      findWinner ctx e = Inr (Some w) \<and> w \<noteq> [] \<and> cx_parseKey ctx w = Inr key")
    case True
    then obtain e w key where g: "cx_previousEpoch ctx = Some e" "ep_status e = EPOCH_DRAWN"
      "findWinner ctx e = Inr (Some w)" "w \<noteq> []" "cx_parseKey ctx w = Inr key" by blast
    let ?call = "Payout (ep_epochId e) key"
    obtain r a where c: "sendCall ctx ?call acc = (r, a)" by (cases "sendCall ctx ?call acc")
    show ?thesis
    proof (cases r)
      case (Inr sig)
      then show ?thesis using s g c sendCall_once[OF c] by (auto simp: stepPayout_def)
    next
      case (Inl m)
      obtain es where es: "ac_trace a = ac_trace acc @ es" "filter isLanded es = []"
        using sendCall_once[OF c] Inl by fastforce
      have "f = Throw m \<and> acc' = a \<or> rolloverIfTimedOut ctx e (Some w) a = (f, acc')"
        using s g c Inl by (auto simp: stepPayout_def split: if_splits)
      then show ?thesis
      proof
        assume "rolloverIfTimedOut ctx e (Some w) a = (f, acc')"
        then obtain es' where "ac_trace acc' = ac_trace a @ es'" "onceR f es'"
          using rolloverIfTimedOut_once by blast
        then show ?thesis using es onceR_append[of es f es'] by (intro exI[of _ "es @ es'"]) simp
      qed (use es in auto)
    qed
  next
    case False
    then show ?thesis
      using s by (auto simp: stepPayout_def split: option.splits sum.splits if_splits
          elim!: rolloverIfTimedOut_once)
  qed
qed

lemma withdrawFailed_flow: "fst (withdrawFailed ctx w batch m acc) \<noteq> Return d"
  by (auto simp: withdrawFailed_def Let_def split: sum.splits list.splits)

lemma stepWithdraw_once: "stepRel onceR (stepWithdraw ctx)"
proof (rule stepRelI)
  fix acc f acc' assume s: "stepWithdraw ctx acc = (f, acc')"
  define w where "w = withdrawStateIn ctx"
  show "\<exists>es. ac_trace acc' = ac_trace acc @ es \<and> onceR f es"
  proof (cases "\<exists>rows. cx_duePendingWithdrawals ctx (pl_currentEpochId (cx_pool ctx)) = Inr rows \<and>
      filter (\<lambda>entry. fst entry \<notin> ws_skipped w) rows \<noteq> []")
    case True
    then obtain rows where g: "cx_duePendingWithdrawals ctx (pl_currentEpochId (cx_pool ctx)) = Inr rows"
      "filter (\<lambda>entry. fst entry \<notin> ws_skipped w) rows \<noteq> []" by blast
    define due where "due = filter (\<lambda>entry. fst entry \<notin> ws_skipped w) rows"
    let ?call = "ProcessWithdrawals (withdrawBatch w due)"
    obtain r a where c: "sendCall ctx ?call acc = (r, a)" by (cases "sendCall ctx ?call acc")
    show ?thesis
    proof (cases r)
      case (Inl m)
      have wf: "withdrawFailed ctx w (withdrawBatch w due) m a = (f, acc')"
        using s g c Inl by (simp add: stepWithdraw_def Let_def w_def[symmetric] due_def[symmetric])
      have "ac_trace acc' = ac_trace a" using withdrawFailed_trace[of ctx w "withdrawBatch w due" m a] wf by simp
      moreover obtain es where "ac_trace a = ac_trace acc @ es" "filter isLanded es = []"
        using sendCall_once[OF c] Inl by fastforce
      moreover have "onceR f es" if "filter isLanded es = []" for es
        using withdrawFailed_flow[of w "withdrawBatch w due" m a] wf that by (cases f) auto
      ultimately show ?thesis by auto
    next
      case (Inr sig)
      then show ?thesis using s g c sendCall_once[OF c]
        by (auto simp: stepWithdraw_def Let_def w_def[symmetric] due_def[symmetric])
    qed
  next
    case False
    then show ?thesis
      using s by (auto simp: stepWithdraw_def Let_def w_def[symmetric] split: sum.splits if_splits)
  qed
qed

lemma decide_once:
  assumes "decide ctx = (f, acc)"
  shows "onceR f (ac_trace acc)"
proof -
  have "stepRel onceR (foldr andThen (decideSteps ctx) (\<lambda>acc. (Next, acc)))"
    unfolding decideSteps_def foldr.simps o_apply id_apply
    by (intro stepRel_andThen stepRound_once stepSweep_once stepClose_once stepBeginEpoch_once
        stepGrants_once stepRegister_once stepCloseRegistration_once stepDraw_once stepPayout_once
        stepWithdraw_once stepCreateRound_once stepRel_Next onceR_composable)
  then obtain es where "ac_trace acc = ac_trace (initialAcc ctx) @ es" "onceR f es"
    using assms unfolding decide_def by (blast dest: stepRelD)
  then show ?thesis by (simp add: initialAcc_def)
qed

end

section \<open>Every tick decides\<close>

lemma stepCreateRound_decides: "fst (stepCreateRound ctx acc) \<noteq> Next"
  by (auto simp: stepCreateRound_def sendOrThrow_def split: sum.splits prod.splits)

lemma andThen_decides: "(\<And>acc. fst (t acc) \<noteq> Next) \<Longrightarrow> fst (andThen s t acc) \<noteq> Next"
  by (auto simp: andThen_def split: prod.splits flow.splits)

lemma decide_decides: "fst (decide ctx) \<noteq> Next"
  unfolding decide_def decideSteps_def foldr.simps o_apply id_apply
    andThen_no_Next[of "stepCreateRound ctx", OF stepCreateRound_decides]
  by (intro andThen_decides stepCreateRound_decides)

lemma runTick_cases:
  assumes "runTick ctx = (out, evs)"
  obtains (decided) d acc where "decide ctx = (Return d, acc)" "evs = ac_trace acc"
      "out = Inr (decision.extend d \<lparr>o_nextWakeAt = nextWakeAt ctx (d_action d \<noteq> None)\<rparr>)"
  | (threw) e acc where "decide ctx = (Throw e, acc)" "evs = ac_trace acc" "out = Inl e"
proof -
  obtain f acc where f: "decide ctx = (f, acc)" by (cases "decide ctx")
  then have "f \<noteq> Next" using decide_decides[of ctx] by auto
  then show thesis using assms f that by (cases f) (auto simp: runTick_def)
qed

lemma runTick_trace: "runTick ctx = (out, evs) \<Longrightarrow> evs = ac_trace (snd (decide ctx))"
  by (elim runTick_cases) auto

section \<open>Deadlines\<close>

lemma wakeCandidates_hd: "\<exists>cs. wakeCandidates ctx acted = (cx_now ctx + 60) # cs"
  by (simp add: wakeCandidates_def Let_def SAFETY_INTERVAL_SECONDS_def)

lemma nextWakeAt_filtered:
  obtains cs where "filter (\<lambda>c. c \<ge> cx_now ctx) (wakeCandidates ctx acted) = (cx_now ctx + 60) # cs"
    "nextWakeAt ctx acted = minOf (cx_now ctx + 60) cs"
proof -
  obtain cs where "wakeCandidates ctx acted = (cx_now ctx + 60) # cs" using wakeCandidates_hd by blast
  then have "filter (\<lambda>c. c \<ge> cx_now ctx) (wakeCandidates ctx acted)
      = (cx_now ctx + 60) # filter (\<lambda>c. c \<ge> cx_now ctx) cs" by simp
  then show thesis using that by (simp add: nextWakeAt_def)
qed

lemma nextWakeAt_le: "c \<in> set (wakeCandidates ctx acted) \<Longrightarrow> cx_now ctx \<le> c \<Longrightarrow> nextWakeAt ctx acted \<le> c"
proof (rule nextWakeAt_filtered[of ctx acted])
  fix cs
  assume c: "c \<in> set (wakeCandidates ctx acted)" "cx_now ctx \<le> c"
    and f: "filter (\<lambda>c. c \<ge> cx_now ctx) (wakeCandidates ctx acted) = (cx_now ctx + 60) # cs"
    and n: "nextWakeAt ctx acted = minOf (cx_now ctx + 60) cs"
  have "c \<in> set (filter (\<lambda>c. c \<ge> cx_now ctx) (wakeCandidates ctx acted))" using c by simp
  then show ?thesis unfolding f n by (rule minOf_le)
qed

lemma nextWakeAt_ge: "cx_now ctx \<le> nextWakeAt ctx acted"
proof (rule nextWakeAt_filtered[of ctx acted])
  fix cs
  assume f: "filter (\<lambda>c. c \<ge> cx_now ctx) (wakeCandidates ctx acted) = (cx_now ctx + 60) # cs"
    and n: "nextWakeAt ctx acted = minOf (cx_now ctx + 60) cs"
  have "nextWakeAt ctx acted \<in> set (filter (\<lambda>c. c \<ge> cx_now ctx) (wakeCandidates ctx acted))"
    unfolding f n by (rule minOf_in)
  then show ?thesis by simp
qed

section \<open>A concrete tick\<close>

text \<open>A Pool with one overdue open Round and a chain that accepts every transaction; the witnesses
  of this and the later theories run the tick on variations of it.\<close>

definition demoPool :: pool_state where
  "demoPool = \<lparr>pl_address = [1], pl_admin = [2], pl_operator = [3], pl_acceptedMint = [4], pl_treasury = [5],
     pl_buybackReserve = [6], pl_house = [7], pl_vrfNetworkState = [8], pl_epochSeconds = 3600,
     pl_roundSeconds = 60, pl_closeBuffer = 5, pl_vrfTimeout = 50, pl_registrationWindow = 100,
     pl_payoutTimeout = 200, pl_paused = False, pl_currentEpochId = 2, pl_nextRoundId = 10, pl_openRoundId = 9,
     pl_totalPrincipal = 1000, pl_shutdown = False, pl_gamePaused = False, pl_jackpotPaused = False\<rparr>"

definition demoRound :: round_state where
  "demoRound = \<lparr>rd_roundId = 9, rd_endsAt = 100, rd_status = ROUND_OPEN, rd_vrfSeed = [], rd_requestedAt = 0\<rparr>"

definition demoCtx :: tick_context where
  "demoCtx = \<lparr>cx_now = 200, cx_pool = demoPool, cx_currentEpoch = None, cx_previousEpoch = None,
     cx_openRound = Some demoRound, cx_lastRound = Some demoRound, cx_ix = (\<lambda>_. Inr []),
     cx_parseKey = (\<lambda>_. Inr [9]), cx_toBase58 = (\<lambda>_. ''house''), cx_lastRegisterCheck = None,
     cx_lastWithdrawState = None, cx_indexerCursor = \<lparr>cur_ageSeconds = Some 1, cur_updatedAt = Some 199\<rparr>,
     cx_indexerFreshThreshold = 30, cx_lastExpectedErrors = Map.empty, cx_launchAt = None,
     cx_fulfilled = (\<lambda>_. Inr False), cx_principalVaultBalance = Inr 0,
     cx_duePendingWithdrawals = (\<lambda>_. Inr []), cx_playersToRegister = (\<lambda>_. Inr []),
     cx_referralGrantsDue = (\<lambda>_. Inr []), cx_markReferralGrantsSent = (\<lambda>_ _ _. Inr ()),
     cx_unsettledPositions = Inr [], cx_forgetPositions = (\<lambda>_. Inr ()), cx_roundsToClose = Inr [],
     cx_forgetRound = (\<lambda>_. Inr ()), cx_forgetRegistered = (\<lambda>_. Inr ()), cx_winner = (\<lambda>_ _. Inr None),
     cx_winnerOnChain = (\<lambda>_ _. Inr None), cx_send = (\<lambda>_ _. Inr ''sig'')\<rparr>"

lemmas demo_defs = demoPool_def demoRound_def demoCtx_def

lemma stepRound_first:
  "stepRound ctx (initialAcc ctx) = (Return d, acc) \<Longrightarrow> decide ctx = (Return d, acc)"
  by (simp add: decide_def decideSteps_def andThen_def)

lemma initialAcc_trace [simp]: "ac_trace (initialAcc ctx) = []"
  by (simp add: initialAcc_def)

lemma demo_stepRound:
  "stepRound ctx (initialAcc ctx) =
     sendOrThrow ctx (VoidRound r) (NOTHING\<lparr>d_action := Some ''void_round''\<rparr>) (initialAcc ctx)"
  if "cx_openRound ctx = Some r" "rd_status r = ROUND_OPEN" "cx_now ctx > rd_endsAt r + pl_vrfTimeout (cx_pool ctx)"
  using that by (simp add: stepRound_def)

lemma void_lands:
  assumes "cx_openRound ctx = Some r" "rd_status r = ROUND_OPEN"
    "cx_now ctx > rd_endsAt r + pl_vrfTimeout (cx_pool ctx)"
    and "cx_ix ctx (VoidRound r) = Inr ixs" "cx_send ctx 0 ixs = Inr sig"
  shows "runTick ctx =
    (Inr (decision.extend (finish ctx (emit (Sent (VoidRound r) (Inr sig)) (initialAcc ctx))
            (NOTHING\<lparr>d_action := Some ''void_round''\<rparr>)) \<lparr>o_nextWakeAt = nextWakeAt ctx True\<rparr>),
     [Sent (VoidRound r) (Inr sig)])"
proof -
  have "stepRound ctx (initialAcc ctx) =
    (Return (finish ctx (emit (Sent (VoidRound r) (Inr sig)) (initialAcc ctx))
       (NOTHING\<lparr>d_action := Some ''void_round''\<rparr>)), emit (Sent (VoidRound r) (Inr sig)) (initialAcc ctx))"
    using assms by (simp add: demo_stepRound sendOrThrow_def sendCall_def Let_def)
  then show ?thesis
    by (simp add: runTick_def stepRound_first)
qed

lemma demo_run: "runTick demoCtx = (fst (runTick demoCtx), [Sent (VoidRound demoRound) (Inr ''sig'')])"
  by (subst (1 2) void_lands[of _ demoRound "[]" "''sig''"]) (simp_all add: demo_defs)

definition demoShutdown :: tick_context where
  "demoShutdown = demoCtx\<lparr>cx_pool := demoPool\<lparr>pl_shutdown := True\<rparr>\<rparr>"

lemma demo_shutdown_run:
  "runTick demoShutdown = (fst (runTick demoShutdown), [Sent (VoidRound demoRound) (Inr ''sig'')])"
  by (subst (1 2) void_lands[of _ demoRound "[]" "''sig''"]) (simp_all add: demo_defs demoShutdown_def)

section \<open>Properties\<close>






end
