(* ===== verification/Tick_Progress.thy ===== *)
theory Tick_Progress
  imports Tick_Safety
begin

text \<open>
  What a tick gets done. An overdue Round is voided whatever else is pending; a failing sweep,
  close or withdrawal never keeps the Round loop from opening the next Round; the repeat counts of
  expected errors escalate on the third repeat and not before; and the withdrawal queue isolates an
  owner whose payout keeps failing.
\<close>

section \<open>Refused sends\<close>

text \<open>A call whose send fails this tick, however many sends came before it, and not because the
  account is already gone.\<close>

definition refused :: "tick_context \<Rightarrow> opcall \<Rightarrow> bool" where
  "refused ctx call \<longleftrightarrow>
    (\<forall>acc. \<exists>m a. sendCall ctx call acc = (Inl m, a) \<and> m \<noteq> ''AccountNotInitialized'')"

lemma refused_attempt:
  assumes "refused ctx call"
  shows "fst (attempt key (sendThen ctx call k) k' acc) = Inr False"
proof -
  obtain m a where a: "sendCall ctx call acc = (Inl m, a)" "m \<noteq> ''AccountNotInitialized''"
    using assms unfolding refused_def by blast
  then show ?thesis by (simp add: attempt_def sendThen_def Let_def)
qed

lemma returnIfSent_False: "fst p = Inr False \<Longrightarrow> fst (returnIfSent ctx action p) = Next"
  by (cases p) (simp add: returnIfSent_def)

lemma stepSweep_refused:
  assumes "cx_unsettledPositions ctx = Inr ps" "\<And>r qs. refused ctx (SettlePositions r qs)"
  shows "fst (stepSweep ctx acc) = Next"
proof (cases ps)
  case (Cons p qs)
  then show ?thesis unfolding stepSweep_def assms(1)
    by (simp add: Let_def returnIfSent_False refused_attempt assms(2))
qed (simp add: stepSweep_def assms(1))

lemma stepClose_refused:
  assumes "cx_roundsToClose ctx = Inr rs" "\<And>i. refused ctx (CloseRound i)"
  shows "fst (stepClose ctx acc) = Next"
proof (cases rs)
  case (Cons p qs)
  then show ?thesis unfolding stepClose_def assms(1)
    by (simp add: returnIfSent_False refused_attempt assms(2))
qed (simp add: stepClose_def assms(1))

lemma withdrawFailed_next:
  assumes "cx_principalVaultBalance ctx = Inr held" "batch \<noteq> []"
  shows "fst (withdrawFailed ctx w batch m acc) = Next"
  using assms by (cases batch) (auto simp: withdrawFailed_def Let_def)

lemma stepWithdraw_refused:
  assumes "cx_duePendingWithdrawals ctx (pl_currentEpochId (cx_pool ctx)) = Inr rows"
    and "cx_principalVaultBalance ctx = Inr held" "\<And>b. refused ctx (ProcessWithdrawals b)"
  shows "fst (stepWithdraw ctx acc) = Next"
proof -
  define w where "w = withdrawStateIn ctx"
  define due where "due = filter (\<lambda>entry. fst entry \<notin> ws_skipped w) rows"
  obtain m a where a: "sendCall ctx (ProcessWithdrawals (withdrawBatch w due)) acc = (Inl m, a)"
    using assms(3) unfolding refused_def by blast
  then show ?thesis
    using withdrawFailed_next[OF assms(2) withdrawBatch_props(1)[of due w], of w m a]
    by (simp add: stepWithdraw_def Let_def assms(1) w_def[symmetric] due_def[symmetric])
qed

text \<open>The steps between the Round and the withdrawals fall through when there is no Epoch work.\<close>

definition noEpochWork :: "tick_context \<Rightarrow> bool" where
  "noEpochWork ctx \<longleftrightarrow> cx_openRound ctx = None \<and> \<not> epochEnded ctx \<and> previousDone ctx \<and>
     (\<forall>e. cx_currentEpoch ctx = Some e \<longrightarrow> cx_referralGrantsDue ctx (ep_epochId e) = Inr [])"

lemma noEpochWork_steps:
  assumes "noEpochWork ctx"
  shows "stepRound ctx acc = (Next, acc)" "stepBeginEpoch ctx acc = (Next, acc)"
    "stepGrants ctx acc = (Next, acc)" "stepRegister ctx acc = (Next, acc)"
    "stepCloseRegistration ctx acc = (Next, acc)" "stepDraw ctx acc = (Next, acc)"
    "stepPayout ctx acc = (Next, acc)"
  using assms
  by (auto simp: noEpochWork_def previousDone_def epoch_status_defs stepRound_def stepBeginEpoch_def
      stepGrants_def stepRegister_def stepCloseRegistration_def stepDraw_def stepPayout_def Let_def
      split: option.splits)

lemma andThen_Next: "fst (s acc) = Next \<Longrightarrow> andThen s t acc = t (snd (s acc))"
  by (cases "s acc") (simp add: andThen_def)

lemma refused_decide:
  assumes "noEpochWork ctx"
    and reads: "cx_unsettledPositions ctx = Inr ps" "cx_roundsToClose ctx = Inr rs"
      "cx_duePendingWithdrawals ctx (pl_currentEpochId (cx_pool ctx)) = Inr rows"
      "cx_principalVaultBalance ctx = Inr held"
    and refuse: "\<And>r qs. refused ctx (SettlePositions r qs)" "\<And>i. refused ctx (CloseRound i)"
      "\<And>b. refused ctx (ProcessWithdrawals b)"
  shows "\<exists>a. decide ctx = stepCreateRound ctx a"
proof -
  have "\<exists>a. andThen (stepSweep ctx) (andThen (stepClose ctx) (andThen (stepWithdraw ctx) k)) acc = k a" for k acc
    using stepSweep_refused[OF reads(1) refuse(1)] stepClose_refused[OF reads(2) refuse(2)]
      stepWithdraw_refused[OF reads(3,4) refuse(3)]
    by (auto simp: andThen_Next)
  moreover have "andThen (stepX) k = k" if "\<And>acc. stepX acc = (Next, acc)" for stepX k
    by (rule ext) (simp add: andThen_def that)
  ultimately show ?thesis
    unfolding decide_def decideSteps_def foldr.simps o_apply id_apply
      andThen_no_Next[of "stepCreateRound ctx", OF stepCreateRound_decides]
    by (simp add: noEpochWork_steps[OF assms(1)])
qed

section \<open>The withdrawal state across ticks\<close>

definition wfWithdraw :: "withdraw_state \<Rightarrow> bool" where
  "wfWithdraw w \<longleftrightarrow>
    (\<forall>owner n. ws_failures w owner = Some n \<longrightarrow> 1 \<le> n \<and> n < WITHDRAW_FAILURE_LIMIT) \<and>
    (\<forall>owner \<in> ws_skipped w. ws_failures w owner = None)"

lemma fold_mapDelete: "fold (\<lambda>entry m. mapDelete m (fst entry)) batch m = m |` (- fst ` set batch)"
  by (induction batch arbitrary: m) (auto simp: restrict_map_def fun_eq_iff)

lemma wfWithdraw_empty: "wfWithdraw (EMPTY_WITHDRAW_STATE i)"
  by (simp add: wfWithdraw_def EMPTY_WITHDRAW_STATE_def)

lemma wfWithdraw_succeeded: "wfWithdraw w \<Longrightarrow> wfWithdraw (withdrawSucceeded i w due batch)"
  by (auto simp: wfWithdraw_def withdrawSucceeded_def fold_mapDelete restrict_map_def split: if_splits)

lemma wfWithdraw_ownerFailed:
  "wfWithdraw w \<Longrightarrow> owner \<notin> ws_skipped w \<Longrightarrow> wfWithdraw (withdrawOwnerFailed i w owner)"
  by (auto simp: wfWithdraw_def withdrawOwnerFailed_def WITHDRAW_FAILURE_LIMIT_def getOr_def Let_def
      split: option.splits if_splits)

lemma wfWithdraw_single: "wfWithdraw w \<Longrightarrow> wfWithdraw (w\<lparr>ws_singleMode := True\<rparr>)"
  by (simp add: wfWithdraw_def)

lemma withdrawStateIn_wf:
  assumes "\<And>w. cx_lastWithdrawState ctx = Some w \<Longrightarrow> wfWithdraw w"
  shows "wfWithdraw (withdrawStateIn ctx)" "ws_epochId (withdrawStateIn ctx) = pl_currentEpochId (cx_pool ctx)"
  using assms wfWithdraw_empty by (auto simp: withdrawStateIn_def split: option.splits)
    (simp_all add: EMPTY_WITHDRAW_STATE_def)

text \<open>Every step but 6b leaves the withdrawal state alone, and every decision reports it.\<close>

definition keepsW :: "(tick_acc \<Rightarrow> flow \<times> tick_acc) \<Rightarrow> bool" where
  "keepsW s \<longleftrightarrow> (\<forall>acc f a. s acc = (f, a) \<longrightarrow> ac_withdrawStateOut a = ac_withdrawStateOut acc \<and>
     (\<forall>d. f = Return d \<longrightarrow> d_withdrawState d = ac_withdrawStateOut acc))"

lemma emit_withdrawState [simp]: "ac_withdrawStateOut (emit e acc) = ac_withdrawStateOut acc"
  by (simp add: emit_def)

lemma recordStepError_withdrawState [simp]:
  "ac_withdrawStateOut (recordStepError m acc) = ac_withdrawStateOut acc"
  by (simp add: recordStepError_def)

lemma finish_withdrawState [simp]:
  "d_withdrawState d = None \<Longrightarrow> d_withdrawState (finish ctx acc d) = ac_withdrawStateOut acc"
  by (auto simp: finish_def Let_def)

lemma NOTHING_withdrawState [simp]: "d_withdrawState NOTHING = None" "d_action NOTHING = None"
  by (simp_all add: NOTHING_def)

lemma sendCall_withdrawState [simp]:
  "ac_withdrawStateOut (snd (sendCall ctx call acc)) = ac_withdrawStateOut acc"
  by (simp add: sendCall_def Let_def split: sum.splits)

lemma sendCall_withdrawState' [simp]:
  "sendCall ctx call acc = (r, a) \<Longrightarrow> ac_withdrawStateOut a = ac_withdrawStateOut acc"
  using sendCall_withdrawState[of ctx call acc] by simp

lemma sendOrThrow_withdrawState:
  "d_withdrawState d = None \<Longrightarrow> sendOrThrow ctx call d acc = (f, a) \<Longrightarrow>
    ac_withdrawStateOut a = ac_withdrawStateOut acc \<and>
    (\<forall>d'. f = Return d' \<longrightarrow> d_withdrawState d' = ac_withdrawStateOut acc)"
  by (auto elim!: sendOrThrow_cases)

lemma keepsW_rounds: "keepsW (stepRound ctx)" "keepsW (stepBeginEpoch ctx)" "keepsW (stepDraw ctx)"
  "keepsW (stepCloseRegistration ctx)" "keepsW (stepCreateRound ctx)"
  unfolding keepsW_def
  by (auto simp: stepRound_def stepBeginEpoch_def stepDraw_def stepCloseRegistration_def stepCreateRound_def
      Let_def split: option.splits if_splits sum.splits bool.splits dest: sendOrThrow_withdrawState[rotated])


lemma attempt_withdrawState:
  assumes "attempt key (sendThen ctx call k) k acc = (r, a)"
    and "\<And>b. ac_withdrawStateOut (snd (k b)) = ac_withdrawStateOut b"
  shows "ac_withdrawStateOut a = ac_withdrawStateOut acc"
proof -
  have k: "k b = (x, c) \<Longrightarrow> ac_withdrawStateOut c = ac_withdrawStateOut b" for b x c
    using assms(2)[of b] by simp
  have st: "sendThen ctx call k acc = (x, c) \<Longrightarrow> ac_withdrawStateOut c = ac_withdrawStateOut acc" for x c
    by (auto simp: sendThen_def split: prod.splits sum.splits dest!: k sendCall_withdrawState')
  show ?thesis
    using assms(1)
    by (auto simp: attempt_def Let_def split: prod.splits sum.splits if_splits dest!: st k)
qed

lemma returnIfSent_withdrawState:
  assumes "returnIfSent ctx act (attempt key (sendThen ctx call k) k acc) = (f, a')"
    and "\<And>b. ac_withdrawStateOut (snd (k b)) = ac_withdrawStateOut b"
  shows "ac_withdrawStateOut a' = ac_withdrawStateOut acc \<and>
    (\<forall>d. f = Return d \<longrightarrow> d_withdrawState d = ac_withdrawStateOut acc)"
proof -
  obtain r a where at: "attempt key (sendThen ctx call k) k acc = (r, a)" by fastforce
  have "ac_withdrawStateOut a = ac_withdrawStateOut acc" using attempt_withdrawState[OF at assms(2)] .
  then show ?thesis
    using assms(1) at by (auto simp: returnIfSent_def split: sum.splits bool.splits)
qed

lemma forget_withdrawState:
  "ac_withdrawStateOut (snd (forgetPositions ctx xs b)) = ac_withdrawStateOut b"
  "ac_withdrawStateOut (snd (forgetRound ctx i b)) = ac_withdrawStateOut b"
  by (simp_all add: forgetPositions_def forgetRound_def)

lemma keepsW_attempts: "keepsW (stepSweep ctx)" "keepsW (stepClose ctx)"
  unfolding keepsW_def stepSweep_def stepClose_def Let_def
  by (auto split: sum.splits list.splits dest!: returnIfSent_withdrawState[OF _ forget_withdrawState(1)]
       returnIfSent_withdrawState[OF _ forget_withdrawState(2)])

lemma keepsW_batches: "keepsW (stepGrants ctx)" "keepsW (stepRegister ctx)"
  unfolding keepsW_def
  by (auto simp: stepGrants_def stepRegister_def Let_def
      split: option.splits if_splits sum.splits prod.splits)

lemma keepsW_payout: "keepsW (stepPayout ctx)"
  unfolding keepsW_def
  by (auto simp: stepPayout_def rolloverIfTimedOut_def split: option.splits if_splits sum.splits prod.splits
     dest: sendOrThrow_withdrawState[rotated])


definition withdrawOk :: "tick_context \<Rightarrow> withdraw_state option \<Rightarrow> bool" where
  "withdrawOk ctx ow \<longleftrightarrow> (\<forall>w. ow = Some w \<longrightarrow> wfWithdraw w \<and> ws_epochId w = pl_currentEpochId (cx_pool ctx))"

lemma withdrawOk_None [simp]: "withdrawOk ctx None"
  by (simp add: withdrawOk_def)

lemma initialAcc_withdrawState [simp]: "ac_withdrawStateOut (initialAcc ctx) = None"
  by (simp add: initialAcc_def)

lemma withdrawFailed_not_return: "fst (withdrawFailed ctx w batch m acc) \<noteq> Return d"
  by (auto simp: withdrawFailed_def Let_def split: sum.splits list.splits)

lemma withdrawFailed_state:
  "ac_withdrawStateOut (snd (withdrawFailed ctx w batch m acc)) \<in>
    {ac_withdrawStateOut acc, Some w, Some (w\<lparr>ws_singleMode := True\<rparr>)} \<union>
    {Some (withdrawOwnerFailed (pl_currentEpochId (cx_pool ctx)) w (fst p)) | p. p \<in> set batch}"
  by (cases batch) (auto simp: withdrawFailed_def Let_def split: sum.splits)

lemma withdrawFailed_ok:
  assumes "wfWithdraw w" "ws_epochId w = pl_currentEpochId (cx_pool ctx)" "withdrawOk ctx (ac_withdrawStateOut acc)"
    and "\<forall>p \<in> set batch. fst p \<notin> ws_skipped w"
  shows "withdrawOk ctx (ac_withdrawStateOut (snd (withdrawFailed ctx w batch m acc)))"
proof -
  have "ws_epochId (withdrawOwnerFailed i v own) = i" for i v own
    by (simp add: withdrawOwnerFailed_def Let_def)
  then have "withdrawOk ctx (Some (withdrawOwnerFailed (pl_currentEpochId (cx_pool ctx)) w (fst p)))"
    if "p \<in> set batch" for p
    using assms(1,4) that by (simp add: withdrawOk_def wfWithdraw_ownerFailed)
  moreover have "withdrawOk ctx (Some w)" "withdrawOk ctx (Some (w\<lparr>ws_singleMode := True\<rparr>))"
    using assms(1,2) by (simp_all add: withdrawOk_def wfWithdraw_single)
  ultimately show ?thesis
    using withdrawFailed_state[of ctx w batch m acc] assms(3) by auto
qed

lemma stepWithdraw_ok:
  assumes wf: "\<And>w. cx_lastWithdrawState ctx = Some w \<Longrightarrow> wfWithdraw w"
    and acc: "withdrawOk ctx (ac_withdrawStateOut acc)" and s: "stepWithdraw ctx acc = (f, a)"
  shows "withdrawOk ctx (ac_withdrawStateOut a) \<and> (\<forall>d. f = Return d \<longrightarrow> d_withdrawState d = ac_withdrawStateOut a)"
proof -
  define w where "w = withdrawStateIn ctx"
  have w: "wfWithdraw w" "ws_epochId w = pl_currentEpochId (cx_pool ctx)"
    using withdrawStateIn_wf[OF wf] by (simp_all add: w_def)
  show ?thesis
  proof (cases "cx_duePendingWithdrawals ctx (pl_currentEpochId (cx_pool ctx))")
    case (Inl e)
    then show ?thesis using s acc by (auto simp: stepWithdraw_def Let_def)
  next
    case (Inr rows)
    define due where "due = filter (\<lambda>entry. fst entry \<notin> ws_skipped w) rows"
    let ?b = "withdrawBatch w due"
    obtain r b where c: "sendCall ctx (ProcessWithdrawals ?b) acc = (r, b)" by fastforce
    have bs: "\<forall>p \<in> set ?b. fst p \<notin> ws_skipped w"
      using withdrawBatch_props(3) unfolding due_def by fastforce
    have ok: "withdrawOk ctx (ac_withdrawStateOut b)" using acc c by simp
    note step = s[unfolded stepWithdraw_def Let_def w_def[symmetric] Inr sum.case due_def[symmetric] c prod.case]
    show ?thesis
    proof (cases "due = []")
      case True
      then show ?thesis using step w by (auto simp: withdrawOk_def)
    next
      case False
      show ?thesis
      proof (cases r)
        case (Inl m)
        then have "withdrawFailed ctx w ?b m b = (f, a)" using step False by simp
        then show ?thesis
          using withdrawFailed_ok[OF w ok bs, of m] withdrawFailed_not_return[of ctx w ?b m b] by auto
      next
        case (Inr sig)
        have "withdrawOk ctx (Some (withdrawSucceeded (pl_currentEpochId (cx_pool ctx)) w due ?b))"
          using w(1) wfWithdraw_succeeded by (simp add: withdrawOk_def) (simp add: withdrawSucceeded_def)
        then show ?thesis using step False Inr by auto
      qed
    qed
  qed
qed

definition reportsOk :: "tick_context \<Rightarrow> (tick_acc \<Rightarrow> flow \<times> tick_acc) \<Rightarrow> bool" where
  "reportsOk ctx t \<longleftrightarrow> (\<forall>acc d a. withdrawOk ctx (ac_withdrawStateOut acc) \<longrightarrow> t acc = (Return d, a) \<longrightarrow>
     withdrawOk ctx (d_withdrawState d))"

lemma keepsWD:
  "keepsW s \<Longrightarrow> s acc = (f, a) \<Longrightarrow> ac_withdrawStateOut a = ac_withdrawStateOut acc"
  "keepsW s \<Longrightarrow> s acc = (Return d, a) \<Longrightarrow> d_withdrawState d = ac_withdrawStateOut acc"
  by (simp_all add: keepsW_def)

lemma reportsOk_keepsW: "keepsW s \<Longrightarrow> reportsOk ctx s"
  by (auto simp: reportsOk_def dest: keepsWD)

lemma reportsOk_andThen:
  assumes "keepsW s" "reportsOk ctx t"
  shows "reportsOk ctx (andThen s t)"
  unfolding reportsOk_def
proof (intro allI impI)
  fix acc d a assume ok: "withdrawOk ctx (ac_withdrawStateOut acc)" and "andThen s t acc = (Return d, a)"
  from this(2) show "withdrawOk ctx (d_withdrawState d)"
  proof (cases rule: andThen_cases)
    case (1 b)
    then have "withdrawOk ctx (ac_withdrawStateOut b)" using ok keepsWD(1)[OF assms(1) 1(1)] by simp
    then show ?thesis using 1(2) assms(2) unfolding reportsOk_def by blast
  next
    case 2
    then show ?thesis using ok keepsWD(2)[OF assms(1)] by simp
  qed
qed

lemma reportsOk_withdraw:
  assumes "\<And>w. cx_lastWithdrawState ctx = Some w \<Longrightarrow> wfWithdraw w" "keepsW k"
  shows "reportsOk ctx (andThen (stepWithdraw ctx) k)"
  unfolding reportsOk_def
proof (intro allI impI)
  fix acc d a assume "withdrawOk ctx (ac_withdrawStateOut acc)" "andThen (stepWithdraw ctx) k acc = (Return d, a)"
  from this(2) show "withdrawOk ctx (d_withdrawState d)"
    by (cases rule: andThen_cases)
      (use stepWithdraw_ok[OF assms(1) \<open>withdrawOk ctx (ac_withdrawStateOut acc)\<close>] assms(2) in
        \<open>auto dest: keepsWD\<close>)
qed

lemma decide_withdraw_ok:
  assumes "\<And>w. cx_lastWithdrawState ctx = Some w \<Longrightarrow> wfWithdraw w" "decide ctx = (Return d, a)"
  shows "withdrawOk ctx (d_withdrawState d)"
proof -
  have "reportsOk ctx (foldr andThen (decideSteps ctx) (\<lambda>acc. (Next, acc)))"
    unfolding decideSteps_def foldr.simps o_apply id_apply
      andThen_no_Next[of "stepCreateRound ctx", OF stepCreateRound_decides]
    by (intro reportsOk_andThen[OF keepsW_rounds(1)] reportsOk_andThen[OF keepsW_rounds(2)]
        reportsOk_andThen[OF keepsW_rounds(3)] reportsOk_andThen[OF keepsW_rounds(4)]
        reportsOk_andThen[OF keepsW_attempts(1)] reportsOk_andThen[OF keepsW_attempts(2)]
        reportsOk_andThen[OF keepsW_batches(1)] reportsOk_andThen[OF keepsW_batches(2)]
        reportsOk_andThen[OF keepsW_payout] reportsOk_withdraw[OF assms(1) keepsW_rounds(5)])
  then show ?thesis
    using assms(2) unfolding reportsOk_def decide_def
    by (metis (no_types, lifting) initialAcc_withdrawState withdrawOk_None)
qed


section \<open>A failing owner is isolated\<close>

text \<open>The state step 6b hands to the next tick, and a run of ticks over an unchanged queue.\<close>

definition withdrawAfter :: "tick_context \<Rightarrow> withdraw_state \<Rightarrow> withdraw_state" where
  "withdrawAfter ctx w =
    (case ac_withdrawStateOut (snd (stepWithdraw (ctx\<lparr>cx_lastWithdrawState := Some w\<rparr>) (initialAcc ctx))) of
       Some w' \<Rightarrow> w' | None \<Rightarrow> w)"

definition blocksPayout :: "tick_context \<Rightarrow> string \<Rightarrow> bool" where
  "blocksPayout ctx owner \<longleftrightarrow>
    (\<forall>batch acc. owner \<in> fst ` set batch \<longrightarrow>
       (\<exists>m a. sendCall ctx (ProcessWithdrawals batch) acc = (Inl m, a) \<and> m \<noteq> SHORT_VAULT))"

lemma sendCall_lastWithdrawState [simp]:
  "sendCall (ctx\<lparr>cx_lastWithdrawState := x\<rparr>) call acc = sendCall ctx call acc"
  by (simp add: sendCall_def Let_def split: sum.splits)

lemma withdrawAfter_single:
  assumes "cx_duePendingWithdrawals ctx (pl_currentEpochId (cx_pool ctx)) = Inr ((owner, amount) # rest)"
    and "blocksPayout ctx owner" "ws_epochId w = pl_currentEpochId (cx_pool ctx)"
    and "ws_singleMode w" "owner \<notin> ws_skipped w"
  shows "withdrawAfter ctx w = withdrawOwnerFailed (pl_currentEpochId (cx_pool ctx)) w owner"
proof -
  obtain m a where m: "sendCall ctx (ProcessWithdrawals [(owner, amount)]) (initialAcc ctx) = (Inl m, a)" "m \<noteq> SHORT_VAULT"
    using assms(2) unfolding blocksPayout_def by (metis fst_conv image_eqI list.set_intros(1))
  then show ?thesis
    using assms by (simp add: withdrawAfter_def stepWithdraw_def withdrawStateIn_def Let_def withdrawBatch_def
        withdrawFailed_def)
qed

lemma withdrawAfter_batch:
  assumes "cx_duePendingWithdrawals ctx (pl_currentEpochId (cx_pool ctx)) = Inr ((owner, amount) # rest)"
    and "blocksPayout ctx owner" "ws_epochId w = pl_currentEpochId (cx_pool ctx)"
    and "\<not> ws_singleMode w" "owner \<notin> ws_skipped w"
  shows "withdrawAfter ctx w = w\<lparr>ws_singleMode := True\<rparr>"
proof -
  define due where "due = (owner, amount) # filter (\<lambda>entry. fst entry \<notin> ws_skipped w) rest"
  have "owner \<in> fst ` set (withdrawBatch w due)"
    by (simp add: withdrawBatch_def WITHDRAW_BATCH_SIZE_def due_def)
  then obtain m a where m: "sendCall ctx (ProcessWithdrawals (withdrawBatch w due)) (initialAcc ctx) = (Inl m, a)" "m \<noteq> SHORT_VAULT"
    using assms(2) unfolding blocksPayout_def by blast
  then show ?thesis
    using assms by (simp add: withdrawAfter_def stepWithdraw_def withdrawStateIn_def Let_def
        withdrawFailed_def due_def)
qed

section \<open>Properties\<close>

text \<open>C5: Liveness of the Round loop: a Round still Open past its void deadline is voided by the very
  next tick, before and regardless of everything else that is pending, whenever the chain accepts
  the transaction; the tick sends nothing else and asks to be run again at once.\<close>

theorem overdue_round_is_voided:
  assumes "cx_openRound ctx = Some r" "rd_status r = ROUND_OPEN"
    "cx_now ctx > rd_endsAt r + pl_vrfTimeout (cx_pool ctx)"
    "cx_ix ctx (VoidRound r) = Inr ixs" "cx_send ctx 0 ixs = Inr sig"
  shows "\<exists>out. runTick ctx = (Inr out, [Sent (VoidRound r) (Inr sig)]) \<and>
    d_action out = Some ''void_round'' \<and> o_nextWakeAt out = cx_now ctx"
proof -
  have "nextWakeAt ctx True \<le> cx_now ctx"
    by (rule nextWakeAt_le) (simp_all add: wakeCandidates_def Let_def)
  then have "nextWakeAt ctx True = cx_now ctx" using nextWakeAt_ge[of ctx True] by simp
  then show ?thesis using void_lands[OF assms] by (simp add: decision.defs)
qed

theorem overdue_round_is_voided_witness:
  "\<exists>out. runTick demoCtx = (Inr out, [Sent (VoidRound demoRound) (Inr ''sig'')]) \<and>
    d_action out = Some ''void_round'' \<and> o_nextWakeAt out = 200"
  using overdue_round_is_voided[of demoCtx demoRound "[]" "''sig''"] by (simp add: demo_defs)

text \<open>C4: A sweep, a close and a withdrawal that are all refused by the chain never keep the game
  from going on: when nothing is due on the Epoch side and a whole Round fits, the tick still opens
  it and reports the action.\<close>

theorem round_loop_survives_failures:
  assumes "noEpochWork ctx" "roundFits ctx"
    and reads: "cx_unsettledPositions ctx = Inr ps" "cx_roundsToClose ctx = Inr rs"
      "cx_duePendingWithdrawals ctx (pl_currentEpochId (cx_pool ctx)) = Inr rows"
      "cx_principalVaultBalance ctx = Inr held"
    and refuse: "\<And>r qs. refused ctx (SettlePositions r qs)" "\<And>i. refused ctx (CloseRound i)"
      "\<And>b. refused ctx (ProcessWithdrawals b)"
    and create: "cx_ix ctx (CreateRound (cx_now ctx) (cx_now ctx + pl_roundSeconds (cx_pool ctx))) = Inr ixs"
      "\<And>n. cx_send ctx n ixs = Inr sig"
  shows "\<exists>out evs. runTick ctx = (Inr out, evs) \<and> d_action out = Some ''create_round'' \<and>
    last evs = Sent (CreateRound (cx_now ctx) (cx_now ctx + pl_roundSeconds (cx_pool ctx))) (Inr sig)"
proof -
  obtain a where "decide ctx = stepCreateRound ctx a" using refused_decide[OF assms(1) reads refuse] by blast
  then show ?thesis
    using assms(2) create
    by (simp add: runTick_def stepCreateRound_def sendOrThrow_def sendCall_def Let_def decision.defs)
qed


text \<open>A tick in which the chain refuses every sweep, close and withdrawal.\<close>

definition demoBusy :: tick_context where
  "demoBusy = demoCtx\<lparr>cx_pool := demoPool\<lparr>pl_openRoundId := 0\<rparr>, cx_openRound := None, cx_lastRound := None,
     cx_currentEpoch := Some \<lparr>ep_epochId = 2, ep_startsAt = 0, ep_endsAt = 5000, ep_status = EPOCH_OPEN,
        ep_registeredCount = 0, ep_jackpotAmount = 0, ep_vrfSeed = [], ep_requestedAt = 0, ep_target = 0,
        ep_drawnAt = 0, ep_registrationOpenedAt = 0\<rparr>,
     cx_ix := (\<lambda>call. case call of CreateRound _ _ \<Rightarrow> Inr [] | _ \<Rightarrow> Inl ''RoundNotSettled''),
     cx_unsettledPositions := Inr [\<lparr>un_address = ''p'', un_owner = ''o'', un_roundId = 4\<rparr>],
     cx_roundsToClose := Inr [3], cx_duePendingWithdrawals := (\<lambda>_. Inr [(''o'', 5), (''u'', 6)])\<rparr>"

lemma demoBusy_refuses:
  "refused demoBusy (SettlePositions r qs)" "refused demoBusy (CloseRound i)" "refused demoBusy (ProcessWithdrawals b)"
  by (simp_all add: refused_def sendCall_def demoBusy_def demoCtx_def)

theorem round_loop_survives_failures_witness:
  "\<exists>out evs. runTick demoBusy = (Inr out, evs) \<and> d_action out = Some ''create_round'' \<and>
    last evs = Sent (CreateRound 200 260) (Inr ''sig'')"
proof -
  have "noEpochWork demoBusy" "roundFits demoBusy"
    by (simp_all add: noEpochWork_def roundFits_def epochEnded_def previousDone_def launchReady_def revealDone_def
        demoBusy_def demo_defs)
  from round_loop_survives_failures[OF this, of _ _ _ _ "[]" "''sig''"] show ?thesis
    using demoBusy_refuses by (simp add: demoBusy_def demo_defs)
qed

text \<open>The withdrawal bookkeeping carried from tick to tick keeps its invariant: no owner is both
  counted and given up on, every count is below the limit, and the state handed on belongs to the
  Pool's current Epoch.\<close>

theorem withdraw_state_invariant:
  assumes "\<And>w. cx_lastWithdrawState ctx = Some w \<Longrightarrow> wfWithdraw w"
    and "runTick ctx = (Inr out, evs)" "d_withdrawState out = Some w'"
  shows "wfWithdraw w' \<and> ws_epochId w' = pl_currentEpochId (cx_pool ctx)"
  using assms(2)
proof (cases rule: runTick_cases)
  case (decided d acc)
  then have "d_withdrawState d = Some w'" using assms(3) by (simp add: decision.defs)
  then show ?thesis using decide_withdraw_ok[OF assms(1) decided(1)] by (simp add: withdrawOk_def)
qed simp

lemma demoBusy_run:
  "\<exists>out evs. runTick demoBusy = (Inr out, evs) \<and>
     d_withdrawState out = Some ((EMPTY_WITHDRAW_STATE 2)\<lparr>ws_singleMode := True\<rparr>)"
  by (simp add: runTick_def decide_def decideSteps_def andThen_def initialAcc_def demoBusy_def demo_defs
      stepRound_def stepSweep_def Let_def returnIfSent_def attempt_def sendThen_def sendCall_def
      EXPECTED_ERRORS_def EXPECTED_ERROR_REPEAT_LIMIT_def getOr_def stepClose_def stepBeginEpoch_def epochEnded_def
      stepGrants_def stepRegister_def stepCloseRegistration_def stepDraw_def stepPayout_def stepWithdraw_def
      withdrawStateIn_def EMPTY_WITHDRAW_STATE_def withdrawBatch_def withdrawFailed_def SHORT_VAULT_def
      recordStepError_def stepCreateRound_def roundFits_def revealDone_def sendOrThrow_def emit_def finish_def
      NOTHING_def decision.defs)

theorem withdraw_state_invariant_witness:
  "wfWithdraw ((EMPTY_WITHDRAW_STATE 2)\<lparr>ws_singleMode := True\<rparr>)"
proof -
  have "cx_lastWithdrawState demoBusy = None" "pl_currentEpochId (cx_pool demoBusy) = 2"
    by (simp_all add: demoBusy_def demo_defs)
  then show ?thesis using demoBusy_run withdraw_state_invariant[of demoBusy] by fastforce
qed

text \<open>One owner whose payout keeps failing blocks nobody: starting from a fresh Epoch with that
  owner at the head of the queue, four ticks later exactly that owner is skipped, the counts are
  clean, and the next batch is the head of the rest of the queue.\<close>

theorem failing_owner_is_skipped:
  assumes "cx_duePendingWithdrawals ctx (pl_currentEpochId (cx_pool ctx)) = Inr ((owner, amount) # rest)"
    and "blocksPayout ctx owner"
  shows "(withdrawAfter ctx ^^ 4) (EMPTY_WITHDRAW_STATE (pl_currentEpochId (cx_pool ctx)))
    = \<lparr>ws_epochId = pl_currentEpochId (cx_pool ctx), ws_singleMode = True, ws_failures = Map.empty,
       ws_skipped = {owner}\<rparr>"
proof -
  let ?i = "pl_currentEpochId (cx_pool ctx)"
  let ?s = "\<lambda>m sk. \<lparr>ws_epochId = ?i, ws_singleMode = True, ws_failures = m, ws_skipped = sk\<rparr>"
  have "withdrawAfter ctx (EMPTY_WITHDRAW_STATE ?i) = ?s Map.empty {}"
    using withdrawAfter_batch[OF assms, of "EMPTY_WITHDRAW_STATE ?i"] by (simp add: EMPTY_WITHDRAW_STATE_def)
  moreover have "withdrawAfter ctx (?s Map.empty {}) = ?s [owner \<mapsto> 1] {}"
    "withdrawAfter ctx (?s [owner \<mapsto> 1] {}) = ?s [owner \<mapsto> 2] {}"
    "withdrawAfter ctx (?s [owner \<mapsto> 2] {}) = ?s Map.empty {owner}"
    using withdrawAfter_single[OF assms]
    by (simp_all add: withdrawOwnerFailed_def WITHDRAW_FAILURE_LIMIT_def Let_def mapDelete_def numeral_2_eq_2)
  ultimately show ?thesis by (simp add: numeral_eq_Suc)
qed

theorem failing_owner_is_skipped_witness:
  "(withdrawAfter demoBusy ^^ 4) (EMPTY_WITHDRAW_STATE 2)
    = \<lparr>ws_epochId = 2, ws_singleMode = True, ws_failures = Map.empty, ws_skipped = {''o''}\<rparr>"
proof -
  have "blocksPayout demoBusy ''o''"
    by (simp add: blocksPayout_def sendCall_def demoBusy_def demo_defs SHORT_VAULT_def)
  then show ?thesis
    using failing_owner_is_skipped[of demoBusy "''o''" 5 "[(''u'', 6)]"] by (simp add: demoBusy_def demo_defs)
qed



end
