(* ===== verification/Tables.thy ===== *)
theory Tables
  imports Hexo_Prelude
begin

text \<open>
  Database tables. A table is the list of its rows in scan order; a unique key is a function of a
  row. \<open>upsertRow\<close>, \<open>createIfAbsent\<close> (\<open>createMany\<close> with \<open>skipDuplicates\<close>), \<open>findUnique\<close>,
  \<open>updateRows\<close> and \<open>deleteRows\<close> are the Prisma calls the backend makes. The locale \<open>keyed_store\<close> states
  what a client may rely on, and every table of the Read model interprets it.
\<close>

definition findUnique :: "('r \<Rightarrow> 'k) \<Rightarrow> 'k \<Rightarrow> 'r list \<Rightarrow> 'r option" where
  "findUnique key k t = find (\<lambda>r. key r = k) t"

fun upsertRow :: "('r \<Rightarrow> 'k) \<Rightarrow> 'r \<Rightarrow> 'r list \<Rightarrow> 'r list" where
  "upsertRow key r [] = [r]"
| "upsertRow key r (x # t) = (if key x = key r then r # t else x # upsertRow key r t)"

definition createIfAbsent :: "('r \<Rightarrow> 'k) \<Rightarrow> 'r \<Rightarrow> 'r list \<Rightarrow> 'r list" where
  "createIfAbsent key r t = (if key r \<in> key ` set t then t else t @ [r])"

definition updateRows :: "('r \<Rightarrow> bool) \<Rightarrow> ('r \<Rightarrow> 'r) \<Rightarrow> 'r list \<Rightarrow> 'r list" where
  "updateRows p f t = map (\<lambda>r. if p r then f r else r) t"

definition deleteRows :: "('r \<Rightarrow> bool) \<Rightarrow> 'r list \<Rightarrow> 'r list" where
  "deleteRows p t = filter (\<lambda>r. \<not> p r) t"

definition uniqueBy :: "('r \<Rightarrow> 'k) \<Rightarrow> 'r list \<Rightarrow> bool" where
  "uniqueBy key t = distinct (map key t)"

section \<open>The contract\<close>

locale keyed_store =
  fixes key :: "'r \<Rightarrow> 'k"
    and put :: "'r \<Rightarrow> 't \<Rightarrow> 't"
    and get :: "'k \<Rightarrow> 't \<Rightarrow> 'r option"
    and rows :: "'t \<Rightarrow> 'r set"
    and ok :: "'t \<Rightarrow> bool"
  assumes get_put: "get k (put r t) = (if k = key r then Some r else get k t)"
    and put_ok: "ok t \<Longrightarrow> ok (put r t)"
    and get_row: "get k t = Some r \<Longrightarrow> key r = k \<and> r \<in> rows t"
    and row_get: "ok t \<Longrightarrow> r \<in> rows t \<Longrightarrow> get (key r) t = Some r"
begin

lemma put_same: "get (key r) (put r t) = Some r"
  by (simp add: get_put)

lemma put_idem: "get k (put r (put r t)) = get k (put r t)"
  by (simp add: get_put)

lemma rows_put:
  assumes "ok t"
  shows "rows (put r t) = {r} \<union> {x \<in> rows t. key x \<noteq> key r}"
proof (intro set_eqI iffI)
  fix x assume "x \<in> rows (put r t)"
  then have "get (key x) (put r t) = Some x" using row_get put_ok[OF assms] by blast
  then show "x \<in> {r} \<union> {x \<in> rows t. key x \<noteq> key r}"
  proof (cases "key x = key r")
    case True
    then show ?thesis using \<open>get (key x) (put r t) = Some x\<close> by (simp add: get_put)
  next
    case False
    then have "get (key x) t = Some x" using \<open>get (key x) (put r t) = Some x\<close> by (simp add: get_put)
    then have "x \<in> rows t" by (rule get_row[THEN conjunct2])
    then show ?thesis using False by simp
  qed
next
  fix x assume "x \<in> {r} \<union> {x \<in> rows t. key x \<noteq> key r}"
  then have "get (key x) (put r t) = Some x" using row_get[OF assms] by (auto simp: get_put)
  then show "x \<in> rows (put r t)" by (rule get_row[THEN conjunct2])
qed

lemma fold_put_get: "ok t \<Longrightarrow> get k (fold put rs t) =
    (case find (\<lambda>r. key r = k) (rev rs) of Some r \<Rightarrow> Some r | None \<Rightarrow> get k t)"
proof (induction rs arbitrary: t rule: rev_induct)
  case (snoc r rs)
  then show ?case by (auto simp: get_put)
qed simp

lemma fold_put_ok: "ok t \<Longrightarrow> ok (fold put rs t)"
  by (induction rs arbitrary: t) (auto intro: put_ok)

text \<open>Writing a batch twice is writing it once.\<close>

lemma fold_put_replay: "ok t \<Longrightarrow> get k (fold put rs (fold put rs t)) = get k (fold put rs t)"
  by (simp add: fold_put_get fold_put_ok split: option.splits)

end

section \<open>List tables satisfy it\<close>

lemma findUnique_upsert:
  "findUnique key k (upsertRow key r t) = (if k = key r then Some r else findUnique key k t)"
  unfolding findUnique_def by (induction t) auto

lemma keys_upsert: "key ` set (upsertRow key r t) = insert (key r) (key ` set t)"
  by (induction t) auto

lemma uniqueBy_upsert: "uniqueBy key t \<Longrightarrow> uniqueBy key (upsertRow key r t)"
  unfolding uniqueBy_def by (induction t) (auto simp flip: set_map, metis imageE image_eqI insertE keys_upsert set_map)

lemma findUnique_Some: "findUnique key k t = Some r \<Longrightarrow> key r = k \<and> r \<in> set t"
  unfolding findUnique_def find_Some_iff by auto

lemma findUnique_None: "findUnique key k t = None \<longleftrightarrow> k \<notin> key ` set t"
  unfolding findUnique_def find_None_iff by auto

lemma findUnique_row: "uniqueBy key t \<Longrightarrow> r \<in> set t \<Longrightarrow> findUnique key (key r) t = Some r"
  unfolding findUnique_def uniqueBy_def by (induction t) (auto simp: image_iff)

interpretation list_table: keyed_store key "upsertRow key" "findUnique key" set "uniqueBy key" for key
proof unfold_locales
  fix k t and r :: 'a
  show "findUnique key k (upsertRow key r t) = (if k = key r then Some r else findUnique key k t)"
    by (rule findUnique_upsert)
  show "uniqueBy key t \<Longrightarrow> uniqueBy key (upsertRow key r t)" by (rule uniqueBy_upsert)
  show "findUnique key k t = Some r \<Longrightarrow> key r = k \<and> r \<in> set t" by (rule findUnique_Some)
  show "uniqueBy key t \<Longrightarrow> r \<in> set t \<Longrightarrow> findUnique key (key r) t = Some r" by (rule findUnique_row)
qed

section \<open>Further facts\<close>

lemma uniqueBy_createIfAbsent: "uniqueBy key t \<Longrightarrow> uniqueBy key (createIfAbsent key r t)"
  by (auto simp: uniqueBy_def createIfAbsent_def)

lemma createIfAbsent_keeps: "x \<in> set t \<Longrightarrow> x \<in> set (createIfAbsent key r t)"
  by (simp add: createIfAbsent_def)

lemma find_append: "find P (xs @ ys) = (case find P xs of Some x \<Rightarrow> Some x | None \<Rightarrow> find P ys)"
  by (induction xs) auto

lemma createIfAbsent_get:
  "findUnique key k (createIfAbsent key r t) =
    (case findUnique key k t of Some x \<Rightarrow> Some x | None \<Rightarrow> if k = key r then Some r else None)"
proof (cases "key r \<in> key ` set t")
  case True
  then show ?thesis by (auto simp: createIfAbsent_def findUnique_None split: option.splits)
next
  case False
  then show ?thesis by (auto simp: createIfAbsent_def findUnique_def find_append split: option.splits)
qed

lemma uniqueBy_deleteRows: "uniqueBy key t \<Longrightarrow> uniqueBy key (deleteRows p t)"
  unfolding uniqueBy_def deleteRows_def by (rule distinct_map_filter)

lemma uniqueBy_updateRows: "(\<And>r. key (f r) = key r) \<Longrightarrow> uniqueBy key t \<Longrightarrow> uniqueBy key (updateRows p f t)"
proof -
  assume "\<And>r. key (f r) = key r"
  then have "map key (updateRows p f t) = map key t" by (simp add: updateRows_def)
  then show "uniqueBy key t \<Longrightarrow> uniqueBy key (updateRows p f t)" by (simp add: uniqueBy_def)
qed

end
