(* ===== verification/Decode.thy ===== *)
theory Decode
  imports Chain_State Tables
begin

text \<open>
  Translation between the chain's shapes and database rows (\<open>indexer/decode.ts\<close>): decoded values to
  JSON, event recognition, account rows, and the weight \<open>register\<close> would record.

  Anchor's decoded values are the datatype \<open>anchor_value\<close>; base58 encoding of a key is a parameter.
  A \<open>Decimal(40, 0)\<close> column holds a whole number and is an \<open>int\<close>.
\<close>

section \<open>Values and JSON\<close>

datatype anchor_value =
    AvNull
  | AvBN int
  | AvKey pubkey
  | AvBytes bytes
  | AvArray "anchor_value list"
  | AvObject "(string \<times> anchor_value) list"
  | AvBigint int
  | AvString string
  | AvNumber int
  | AvBool bool

datatype json =
    JString string
  | JNumber int
  | JBool bool
  | JNull
  | JArray "json list"
  | JObject "(string \<times> json) list"

primrec jsonify :: "(pubkey \<Rightarrow> string) \<Rightarrow> anchor_value \<Rightarrow> json" where
  "jsonify b58 AvNull = JNull"
| "jsonify b58 (AvBN n) = JString (showInt n)"
| "jsonify b58 (AvKey k) = JString (b58 k)"
| "jsonify b58 (AvBytes bs) = JArray (map (\<lambda>b. JNumber (uint b)) bs)"
| "jsonify b58 (AvArray xs) = JArray (map (jsonify b58) xs)"
| "jsonify b58 (AvObject fs) = JObject (map (map_prod id (jsonify b58)) fs)"
| "jsonify b58 (AvBigint n) = JString (showInt n)"
| "jsonify b58 (AvString s) = JString s"
| "jsonify b58 (AvNumber n) = JNumber n"
| "jsonify b58 (AvBool b) = JBool b"

text \<open>\<open>BigInt(text)\<close> on the decimal texts \<open>jsonify\<close> writes (and on the empty text, which reads as
  zero); any other text throws.\<close>

definition bigIntOf :: "string \<Rightarrow> int res" where
  "bigIntOf s =
    (let digits = (case s of c # t \<Rightarrow> if c = CHR ''-'' then t else s | [] \<Rightarrow> []);
         neg = (s \<noteq> [] \<and> hd s = CHR ''-'')
     in if s = [] then Inr 0
        else if digits = [] then Inl (''Cannot convert '' @ s @ '' to a BigInt'')
        else (case readDigits 0 digits of
                None \<Rightarrow> Inl (''Cannot convert '' @ s @ '' to a BigInt'')
              | Some n \<Rightarrow> Inr (if neg then - int n else int n)))"

record decoded_event =
  ev_name :: string
  ev_data :: json

text \<open>\<open>data[key]\<close> on a JSON object: a later duplicate of a key wins, as in \<open>Object.fromEntries\<close>.\<close>

definition jsonField :: "json \<Rightarrow> string \<Rightarrow> json option" where
  "jsonField j key = (case j of JObject fs \<Rightarrow> map_of (rev fs) key | _ \<Rightarrow> None)"

definition stringField :: "json \<Rightarrow> string \<Rightarrow> string option" where
  "stringField j key = (case jsonField j key of Some (JString s) \<Rightarrow> Some s | _ \<Rightarrow> None)"

definition declaredName :: "string \<Rightarrow> string" where
  "declaredName name =
    (case name of [] \<Rightarrow> []
     | c # rest \<Rightarrow>
         (let v = of_char c :: nat in (if 97 \<le> v \<and> v \<le> 122 then char_of (v - 32) else c) # rest))"

text \<open>\<open>parser.parseLogs\<close> is Anchor's; it yields the events in order or throws.\<close>

definition decodeEventLogs ::
    "(pubkey \<Rightarrow> string) \<Rightarrow> (string list \<Rightarrow> (string \<times> anchor_value) list res) \<Rightarrow> string list
      \<Rightarrow> decoded_event list res" where
  "decodeEventLogs b58 parseLogs logs =
    (case parseLogs logs of
       Inl _ \<Rightarrow> Inl (''cannot parse program logs: '' @ (case logs of [] \<Rightarrow> ''<empty>'' | l # _ \<Rightarrow> l))
     | Inr evs \<Rightarrow> Inr (map (\<lambda>(name, data). \<lparr>ev_name = declaredName name, ev_data = jsonify b58 data\<rparr>) evs))"

definition settledPosition :: "decoded_event \<Rightarrow> (string \<times> int) option res" where
  "settledPosition event =
    (if ev_name event \<noteq> ''PositionSettled'' then Inr None
     else (case (stringField (ev_data event) ''owner'', stringField (ev_data event) ''roundId'') of
             (Some owner, Some roundId) \<Rightarrow> rbind (bigIntOf roundId) (\<lambda>i. Inr (Some (owner, i)))
           | _ \<Rightarrow> Inr None))"

definition closedRound :: "decoded_event \<Rightarrow> int option res" where
  "closedRound event =
    (if ev_name event \<noteq> ''RoundClosed'' then Inr None
     else (case stringField (ev_data event) ''roundId'' of
             Some roundId \<Rightarrow> rbind (bigIntOf roundId) (\<lambda>i. Inr (Some i))
           | None \<Rightarrow> Inr None))"

section \<open>Accounts and rows\<close>

record decoded_pool =
  dp_poolId :: int
  dp_admin :: pubkey
  dp_operator :: pubkey
  dp_pendingAdmin :: pubkey
  dp_acceptedMint :: pubkey
  dp_pendingWithdrawals :: int
  dp_minJackpot :: int
  dp_epochSeconds :: int
  dp_epochAnchor :: int
  dp_roundSeconds :: int
  dp_closeBuffer :: int
  dp_minDeposit :: int
  dp_houseCutBps :: int
  dp_paused :: bool
  dp_currentEpochId :: int
  dp_currentEpochEndsAt :: int
  dp_previousEpochEndsAt :: int
  dp_totalPrincipal :: int
  dp_carryPot :: int
  dp_baseRateBps :: int
  dp_yieldBudget :: int
  dp_ticketsPerUsdc :: int
  dp_bonusCapBps :: int
  dp_bonusEpoch :: int
  dp_bonusGranted :: int
  dp_version :: int
  dp_shutdown :: bool
  dp_gamePaused :: bool
  dp_jackpotPaused :: bool

record pool_row =
  pr_address :: string
  pr_poolId :: int
  pr_admin :: string
  pr_operator :: string
  pr_pendingAdmin :: "string option"
  pr_mint :: string
  pr_pendingWithdrawals :: int
  pr_minJackpot :: int
  pr_epochSeconds :: int
  pr_epochAnchor :: int
  pr_roundSeconds :: int
  pr_closeBuffer :: int
  pr_minDeposit :: int
  pr_houseCutBps :: int
  pr_paused :: bool
  pr_currentEpochId :: int
  pr_currentEpochEndsAt :: int
  pr_previousEpochEndsAt :: int
  pr_totalPrincipal :: int
  pr_carryPot :: int
  pr_baseRateBps :: int
  pr_yieldBudget :: int
  pr_ticketsPerUsdc :: int
  pr_bonusCapBps :: int
  pr_bonusEpoch :: int
  pr_bonusGranted :: int
  pr_version :: int
  pr_shutdown :: bool
  pr_gamePaused :: bool
  pr_jackpotPaused :: bool
  pr_updatedSlot :: int

record decoded_epoch =
  de_epochId :: int
  de_startsAt :: int
  de_endsAt :: int
  de_status :: int
  de_registeredWeight :: int
  de_registeredCount :: int
  de_jackpotAmount :: int
  de_target :: int
  de_winner :: pubkey

record epoch_row =
  er_poolAddress :: string
  er_id :: int
  er_startsAt :: int
  er_endsAt :: int
  er_status :: int
  er_registeredWeight :: int
  er_registeredCount :: int
  er_jackpotAmount :: int
  er_target :: int
  er_winner :: "string option"

record decoded_round =
  dr_roundId :: int
  dr_epochId :: int
  dr_startsAt :: int
  dr_endsAt :: int
  dr_status :: int
  dr_tileTotals :: "int list"
  dr_pot :: int
  dr_houseCut :: int
  dr_winningTile :: int

record round_row =
  rr_poolAddress :: string
  rr_id :: int
  rr_epochId :: int
  rr_startsAt :: int
  rr_endsAt :: int
  rr_status :: int
  rr_pot :: int
  rr_houseCut :: int
  rr_winningTile :: "int option"
  rr_tileTotals :: "string list"
  rr_closed :: bool

record decoded_player =
  dy_owner :: pubkey
  dy_principal :: int
  dy_entries :: int
  dy_weightAcc :: int
  dy_lastUpdate :: int
  dy_epochId :: int
  dy_frozenWeight :: int
  dy_frozenEpoch :: int
  dy_regEpoch :: int
  dy_regStart :: int
  dy_regEnd :: int
  dy_isHouse :: bool
  dy_pendingWithdraw :: int
  dy_pendingEpoch :: int
  dy_principalAcc :: int
  dy_frozenPrincipalAcc :: int
  dy_yieldEpoch :: int
  dy_boughtEpoch :: int
  dy_boughtAmount :: int
  dy_bonusEpoch :: int
  dy_bonusGranted :: int

record player_row =
  py_poolAddress :: string
  py_owner :: string
  py_principal :: int
  py_entries :: int
  py_weightAcc :: int
  py_lastUpdate :: int
  py_epochId :: int
  py_frozenWeight :: int
  py_frozenEpoch :: int
  py_regEpoch :: int
  py_regStart :: int
  py_regEnd :: int
  py_isHouse :: bool
  py_pendingWithdraw :: int
  py_pendingEpoch :: int
  py_principalAcc :: int
  py_frozenPrincipalAcc :: int
  py_yieldEpoch :: int
  py_boughtEpoch :: int
  py_boughtAmount :: int
  py_bonusEpoch :: int
  py_bonusGranted :: int

record decoded_position =
  do_owner :: pubkey
  do_round :: pubkey
  do_tiles :: int
  do_stakePerTile :: int

record position_row =
  po_address :: string
  po_poolAddress :: string
  po_owner :: string
  po_roundId :: int
  po_tiles :: int
  po_stakePerTile :: int

definition isUnset :: "pubkey \<Rightarrow> bool" where
  "isUnset key = (key = replicate 32 0)"

definition poolRow :: "(pubkey \<Rightarrow> string) \<Rightarrow> pubkey \<Rightarrow> decoded_pool \<Rightarrow> int \<Rightarrow> pool_row" where
  "poolRow b58 address pool slot =
    \<lparr>pr_address = b58 address, pr_poolId = dp_poolId pool, pr_admin = b58 (dp_admin pool),
     pr_operator = b58 (dp_operator pool),
     pr_pendingAdmin = (if isUnset (dp_pendingAdmin pool) then None else Some (b58 (dp_pendingAdmin pool))),
     pr_mint = b58 (dp_acceptedMint pool), pr_pendingWithdrawals = dp_pendingWithdrawals pool,
     pr_minJackpot = dp_minJackpot pool, pr_epochSeconds = dp_epochSeconds pool,
     pr_epochAnchor = dp_epochAnchor pool, pr_roundSeconds = dp_roundSeconds pool,
     pr_closeBuffer = dp_closeBuffer pool, pr_minDeposit = dp_minDeposit pool,
     pr_houseCutBps = dp_houseCutBps pool, pr_paused = dp_paused pool,
     pr_currentEpochId = dp_currentEpochId pool, pr_currentEpochEndsAt = dp_currentEpochEndsAt pool,
     pr_previousEpochEndsAt = dp_previousEpochEndsAt pool, pr_totalPrincipal = dp_totalPrincipal pool,
     pr_carryPot = dp_carryPot pool, pr_baseRateBps = dp_baseRateBps pool,
     pr_yieldBudget = dp_yieldBudget pool, pr_ticketsPerUsdc = dp_ticketsPerUsdc pool,
     pr_bonusCapBps = dp_bonusCapBps pool, pr_bonusEpoch = dp_bonusEpoch pool,
     pr_bonusGranted = dp_bonusGranted pool, pr_version = dp_version pool, pr_shutdown = dp_shutdown pool,
     pr_gamePaused = dp_gamePaused pool, pr_jackpotPaused = dp_jackpotPaused pool, pr_updatedSlot = slot\<rparr>"

definition epochRow :: "(pubkey \<Rightarrow> string) \<Rightarrow> decoded_epoch \<Rightarrow> string \<Rightarrow> epoch_row" where
  "epochRow b58 epoch poolAddress =
    \<lparr>er_poolAddress = poolAddress, er_id = de_epochId epoch, er_startsAt = de_startsAt epoch,
     er_endsAt = de_endsAt epoch, er_status = de_status epoch,
     er_registeredWeight = de_registeredWeight epoch, er_registeredCount = de_registeredCount epoch,
     er_jackpotAmount = de_jackpotAmount epoch, er_target = de_target epoch,
     er_winner = (if isUnset (de_winner epoch) then None else Some (b58 (de_winner epoch)))\<rparr>"

definition TILE_DECIDED :: "int list" where
  "TILE_DECIDED = [ROUND_SETTLED, ROUND_FORFEITED]"

definition LIVE_ROUND_STATUSES :: "int list" where
  "LIVE_ROUND_STATUSES = [ROUND_OPEN, ROUND_REQUESTED]"

text \<open>The create input of a Round carries no \<open>closed\<close>; the column's default is false.\<close>

definition roundRow :: "decoded_round \<Rightarrow> string \<Rightarrow> round_row" where
  "roundRow round poolAddress =
    \<lparr>rr_poolAddress = poolAddress, rr_id = dr_roundId round, rr_epochId = dr_epochId round,
     rr_startsAt = dr_startsAt round, rr_endsAt = dr_endsAt round, rr_status = dr_status round,
     rr_pot = dr_pot round, rr_houseCut = dr_houseCut round,
     rr_winningTile = (if dr_status round \<in> set TILE_DECIDED then Some (dr_winningTile round) else None),
     rr_tileTotals = map showInt (dr_tileTotals round), rr_closed = False\<rparr>"

definition playerRow :: "(pubkey \<Rightarrow> string) \<Rightarrow> decoded_player \<Rightarrow> string \<Rightarrow> player_row" where
  "playerRow b58 player poolAddress =
    \<lparr>py_poolAddress = poolAddress, py_owner = b58 (dy_owner player), py_principal = dy_principal player,
     py_entries = dy_entries player, py_weightAcc = dy_weightAcc player, py_lastUpdate = dy_lastUpdate player,
     py_epochId = dy_epochId player, py_frozenWeight = dy_frozenWeight player,
     py_frozenEpoch = dy_frozenEpoch player, py_regEpoch = dy_regEpoch player,
     py_regStart = dy_regStart player, py_regEnd = dy_regEnd player, py_isHouse = dy_isHouse player,
     py_pendingWithdraw = dy_pendingWithdraw player, py_pendingEpoch = dy_pendingEpoch player,
     py_principalAcc = dy_principalAcc player, py_frozenPrincipalAcc = dy_frozenPrincipalAcc player,
     py_yieldEpoch = dy_yieldEpoch player, py_boughtEpoch = dy_boughtEpoch player,
     py_boughtAmount = dy_boughtAmount player, py_bonusEpoch = dy_bonusEpoch player,
     py_bonusGranted = dy_bonusGranted player\<rparr>"

definition positionRow ::
    "(pubkey \<Rightarrow> string) \<Rightarrow> pubkey \<Rightarrow> decoded_position \<Rightarrow> int \<Rightarrow> string \<Rightarrow> position_row" where
  "positionRow b58 address position roundId poolAddress =
    \<lparr>po_address = b58 address, po_poolAddress = poolAddress, po_owner = b58 (do_owner position),
     po_roundId = roundId, po_tiles = do_tiles position, po_stakePerTile = do_stakePerTile position\<rparr>"

section \<open>The registration weight\<close>

definition max0 :: "int \<Rightarrow> int" where
  "max0 v = (if v > 0 then v else 0)"

definition registrationWeight :: "player_row \<Rightarrow> epoch_row \<Rightarrow> int" where
  "registrationWeight player epoch =
    (if py_epochId player = er_id epoch then
       max0 (py_weightAcc player + py_entries player * max0 (er_endsAt epoch - py_lastUpdate player))
     else if py_epochId player > er_id epoch then
       (if py_frozenEpoch player = er_id epoch then max0 (py_frozenWeight player) else 0)
     else max0 (py_principal player * max0 (er_endsAt epoch - er_startsAt epoch)))"

section \<open>Lemmas\<close>

lemma max0_ge [simp]: "0 \<le> max0 v" and max0_id [simp]: "0 \<le> v \<Longrightarrow> max0 v = v"
  by (auto simp: max0_def)

lemma registrationWeight_nonneg: "0 \<le> registrationWeight player epoch"
  by (simp add: registrationWeight_def)

lemma bigIntOf_showInt [simp]: "bigIntOf (showInt i) = Inr i"
proof (cases "i < 0")
  case True
  then show ?thesis by (simp add: bigIntOf_def showInt_def)
next
  case False
  obtain c t where ct: "showNat (nat i) = c # t" by (cases "showNat (nat i)") auto
  moreover have "c \<noteq> CHR ''-''" using showNat_not_minus[of "nat i" t] ct by auto
  ultimately show ?thesis
    using False readDigits_showNat[of "nat i"] by (auto simp: bigIntOf_def showInt_def simp del: readDigits_showNat)
qed

text \<open>Every integer the program emits survives the trip through JSON, whatever its size.\<close>

lemma jsonify_int_roundtrip:
  "jsonify b58 (AvBN n) = JString s \<Longrightarrow> bigIntOf s = Inr n"
  by auto

lemma settledPosition_roundtrip:
  "settledPosition \<lparr>ev_name = ''PositionSettled'',
      ev_data = jsonify b58 (AvObject [(''owner'', AvKey k), (''roundId'', AvBN i)])\<rparr> = Inr (Some (b58 k, i))"
  by (simp add: settledPosition_def stringField_def jsonField_def)

lemma closedRound_roundtrip:
  "closedRound \<lparr>ev_name = ''RoundClosed'', ev_data = jsonify b58 (AvObject [(''roundId'', AvBN i)])\<rparr> = Inr (Some i)"
  by (simp add: closedRound_def stringField_def jsonField_def)

end
