(* ===== verification/Referral.thy ===== *)
theory Referral
  imports Hexo_Prelude "HOL-Library.Char_ord" "HOL-Library.List_Lexorder" "HOL-Library.Product_Lexorder"
begin

text \<open>
  Referrals: the qualification tracker (\<open>api/referral.ts\<close>), the daily bonus with its rate tiers, its
  pool-wide scale-down and the split of one grant across referees (\<open>api/referral-bonus.ts\<close>), and the
  paged response (\<open>api/referral-summary.ts\<close>). Amounts are atomic units as \<open>int\<close>; bigint division is
  \<open>bigDiv\<close>. A JavaScript sort is stable, so a sort by a comparator on keys is \<open>sort_key\<close>; strings
  compare by code unit.
\<close>

section \<open>The qualification tracker\<close>

definition REFERRAL_QUALIFY_PRINCIPAL :: int where "REFERRAL_QUALIFY_PRINCIPAL = 50000000"
definition DEFAULT_REFERRAL_QUALIFY_SECONDS :: int where "DEFAULT_REFERRAL_QUALIFY_SECONDS = 604800"

record qualification =
  q_principal :: int
  q_aboveSince :: "int option"

datatype principal_event =
    Deposited int
  | WithdrawRequested int
  | YieldCredited int
  | JackpotPaid int

fun nextPrincipal :: "int \<Rightarrow> principal_event \<Rightarrow> int" where
  "nextPrincipal previous (Deposited prin) = prin"
| "nextPrincipal previous (WithdrawRequested amount) =
    (let nxt = previous - amount in if nxt > 0 then nxt else 0)"
| "nextPrincipal previous (YieldCredited amount) = previous + amount"
| "nextPrincipal previous (JackpotPaid amount) = previous + amount"

definition applyReferralEvent :: "qualification \<Rightarrow> principal_event \<Rightarrow> int \<Rightarrow> qualification" where
  "applyReferralEvent state event blockTime =
    (let prin = nextPrincipal (q_principal state) event;
         above = (prin \<ge> REFERRAL_QUALIFY_PRINCIPAL)
     in if above \<and> q_aboveSince state = None then \<lparr>q_principal = prin, q_aboveSince = Some blockTime\<rparr>
        else if \<not> above \<and> q_aboveSince state \<noteq> None then \<lparr>q_principal = prin, q_aboveSince = None\<rparr>
        else \<lparr>q_principal = prin, q_aboveSince = q_aboveSince state\<rparr>)"

definition isQualified :: "int option \<Rightarrow> int \<Rightarrow> int \<Rightarrow> bool" where
  "isQualified aboveSince now qualifySeconds =
    (case aboveSince of None \<Rightarrow> False | Some t \<Rightarrow> now - t \<ge> qualifySeconds)"

definition daysToQualify :: "int option \<Rightarrow> int \<Rightarrow> int \<Rightarrow> int option" where
  "daysToQualify aboveSince now qualifySeconds =
    (case aboveSince of
       None \<Rightarrow> None
     | Some t \<Rightarrow>
         let remaining = qualifySeconds - (now - t) in
         if remaining \<le> 0 then Some 0 else Some (bigDiv (remaining + 86400 - 1) 86400))"

section \<open>The daily bonus\<close>

record rate_tier =
  rt_tier :: int
  rt_min :: int
  rt_max :: "int option"
  rt_rateBps :: int

definition RATE_TIERS :: "rate_tier list" where
  "RATE_TIERS =
    [\<lparr>rt_tier = 4, rt_min = 11, rt_max = None, rt_rateBps = 500\<rparr>,
     \<lparr>rt_tier = 3, rt_min = 6, rt_max = Some 10, rt_rateBps = 400\<rparr>,
     \<lparr>rt_tier = 2, rt_min = 3, rt_max = Some 5, rt_rateBps = 300\<rparr>,
     \<lparr>rt_tier = 1, rt_min = 1, rt_max = Some 2, rt_rateBps = 200\<rparr>]"

definition REFERRAL_BONUS_BASIS_CAP :: int where "REFERRAL_BONUS_BASIS_CAP = 2500000000"

record bonus_input =
  bi_referrer :: string
  bi_principal :: int
  bi_alreadyGrantedToday :: int
  bi_qualifiedReferralPrincipals :: "int list"

record referrer_bonus =
  rb_referrer :: string
  rb_amount :: int
  rb_uncapped :: int
  rb_qualifiedCount :: int
  rb_rateBps :: int

definition rateBpsFor :: "int \<Rightarrow> int" where
  "rateBpsFor qualifiedCount =
    (case find (\<lambda>t. qualifiedCount \<ge> rt_min t) RATE_TIERS of Some t \<Rightarrow> rt_rateBps t | None \<Rightarrow> 0)"

definition remainingGrantCap :: "int \<Rightarrow> int \<Rightarrow> int" where
  "remainingGrantCap prin alreadyGrantedToday =
    (let headroom = prin - alreadyGrantedToday in if headroom > 0 then headroom else 0)"

definition basisOf :: "int \<Rightarrow> int" where
  "basisOf prin = (if prin < REFERRAL_BONUS_BASIS_CAP then prin else REFERRAL_BONUS_BASIS_CAP)"

definition preScaleBonus :: "bonus_input \<Rightarrow> referrer_bonus" where
  "preScaleBonus inp =
    (let qualifiedCount = int (length (bi_qualifiedReferralPrincipals inp));
         rateBps = rateBpsFor qualifiedCount
     in if rateBps = 0 then
          \<lparr>rb_referrer = bi_referrer inp, rb_amount = 0, rb_uncapped = 0,
           rb_qualifiedCount = qualifiedCount, rb_rateBps = rateBps\<rparr>
        else
          let cap = remainingGrantCap (bi_principal inp) (bi_alreadyGrantedToday inp);
              basis = (\<Sum>p\<leftarrow>bi_qualifiedReferralPrincipals inp. basisOf p);
              raw = bigDiv (basis * rateBps) 10000;
              amount = (if raw < cap then raw else cap)
          in \<lparr>rb_referrer = bi_referrer inp, rb_amount = amount, rb_uncapped = raw,
              rb_qualifiedCount = qualifiedCount, rb_rateBps = rateBps\<rparr>)"

definition poolHeadroom :: "int \<Rightarrow> int \<Rightarrow> int \<Rightarrow> int" where
  "poolHeadroom totalPrincipal capBps alreadyGrantedThisEpoch =
    (let poolCap = bigDiv (totalPrincipal * capBps) 10000;
         headroom = poolCap - alreadyGrantedThisEpoch
     in if headroom > 0 then headroom else 0)"

definition computeBonuses :: "bonus_input list \<Rightarrow> int \<Rightarrow> int \<Rightarrow> int \<Rightarrow> referrer_bonus list" where
  "computeBonuses referrers totalPrincipal capBps alreadyGrantedThisEpoch =
    (let preScaled = filter (\<lambda>b. rb_amount b > 0) (map preScaleBonus referrers)
     in if preScaled = [] then []
        else
          let total = (\<Sum>b\<leftarrow>preScaled. rb_amount b);
              cap = poolHeadroom totalPrincipal capBps alreadyGrantedThisEpoch
          in if total \<le> cap then preScaled
             else filter (\<lambda>b. rb_amount b > 0)
                    (map (\<lambda>b. b\<lparr>rb_amount := bigDiv (rb_amount b * cap) total,
                                rb_uncapped := bigDiv (rb_uncapped b * cap) total\<rparr>) preScaled))"

section \<open>Splitting one grant\<close>

record share_weight =
  sw_referee :: string
  sw_weight :: int

record referee_share =
  rs_referee :: string
  rs_amount :: int

record share_floor =
  sf_referee :: string
  sf_amount :: int
  sf_remainder :: int

definition shareFloors :: "int \<Rightarrow> int \<Rightarrow> share_weight list \<Rightarrow> share_floor list" where
  "shareFloors grantAmount totalWeight weights =
    map (\<lambda>w. let numerator = grantAmount * sw_weight w in
              \<lparr>sf_referee = sw_referee w, sf_amount = bigDiv numerator totalWeight,
               sf_remainder = numerator smod totalWeight\<rparr>) weights"

fun handOut :: "share_floor list \<Rightarrow> int \<Rightarrow> (string \<rightharpoonup> int) \<Rightarrow> (string \<rightharpoonup> int)" where
  "handOut [] leftover amounts = amounts"
| "handOut (f # fs) leftover amounts =
    (if leftover \<le> 0 then amounts
     else handOut fs (leftover - 1) (amounts(sf_referee f \<mapsto> getOr amounts (sf_referee f) 0 + 1)))"

definition splitShares :: "int \<Rightarrow> share_weight list \<Rightarrow> referee_share list" where
  "splitShares grantAmount weights =
    (let totalWeight = (\<Sum>w\<leftarrow>weights. sw_weight w) in
     if grantAmount \<le> 0 \<or> totalWeight \<le> 0 then
       map (\<lambda>w. \<lparr>rs_referee = sw_referee w, rs_amount = 0\<rparr>) weights
     else
       let floors = shareFloors grantAmount totalWeight weights;
           leftover = grantAmount - (\<Sum>f\<leftarrow>floors. sf_amount f);
           byLargestRemainder = sort_key (\<lambda>f. (- sf_remainder f, sf_referee f)) floors;
           amounts = fold (\<lambda>f m. m(sf_referee f \<mapsto> sf_amount f)) floors Map.empty;
           handed = handOut byLargestRemainder leftover amounts
       in map (\<lambda>w. \<lparr>rs_referee = sw_referee w, rs_amount = getOr handed (sw_referee w) 0\<rparr>) weights)"

section \<open>Bands\<close>

record referral_band =
  bd_tier :: int
  bd_rateBps :: int
  bd_minCount :: int
  bd_maxCount :: "int option"

definition NO_BAND :: referral_band where
  "NO_BAND = \<lparr>bd_tier = 0, bd_rateBps = 0, bd_minCount = 0, bd_maxCount = Some 0\<rparr>"

definition bandOf :: "rate_tier \<Rightarrow> referral_band" where
  "bandOf t = \<lparr>bd_tier = rt_tier t, bd_rateBps = rt_rateBps t, bd_minCount = rt_min t, bd_maxCount = rt_max t\<rparr>"

definition bandForCount :: "int \<Rightarrow> referral_band \<times> referral_band option" where
  "bandForCount qualifiedCount =
    ((case find (\<lambda>t. qualifiedCount \<ge> rt_min t) RATE_TIERS of Some t \<Rightarrow> bandOf t | None \<Rightarrow> NO_BAND),
     map_option bandOf (find (\<lambda>t. rt_min t > qualifiedCount) (rev RATE_TIERS)))"

section \<open>The referrals page\<close>

definition maskWallet :: "string \<Rightarrow> string \<Rightarrow> string" where
  "maskWallet ellipsis wallet =
    (if length wallet \<le> 10 then wallet
     else take 4 wallet @ ellipsis @ drop (length wallet - 4) wallet)"

record referral_input =
  ri_referee :: string
  ri_aboveSince :: "int option"
  ri_boundAt :: int
  ri_bonusToday :: int

datatype referral_status = Qualified | Holding | Below

record referral_item =
  it_wallet :: string
  it_status :: referral_status
  it_daysLeft :: "int option"
  it_bonusToday :: int
  it_joinedAt :: int

record referrals_response =
  rp_referralCode :: "string option"
  rp_items :: "referral_item list"
  rp_nextCursor :: "string option"
  rp_qualifiedCount :: int
  rp_band :: referral_band
  rp_nextBand :: "referral_band option"
  rp_bonusToday :: "int \<times> int"

definition referralStatus :: "int option \<Rightarrow> int \<Rightarrow> int \<Rightarrow> referral_status" where
  "referralStatus aboveSince now qualifySeconds =
    (if isQualified aboveSince now qualifySeconds then Qualified
     else if aboveSince = None then Below else Holding)"

fun findIndex :: "('a \<Rightarrow> bool) \<Rightarrow> 'a list \<Rightarrow> nat option" where
  "findIndex P [] = None"
| "findIndex P (x # xs) = (if P x then Some 0 else map_option Suc (findIndex P xs))"

definition sortReferrals :: "referral_input list \<Rightarrow> referral_input list" where
  "sortReferrals rs = sort_key (\<lambda>r. (- ri_boundAt r, ri_referee r)) rs"

text \<open>\<open>findIndex(...) + 1\<close> is 0 when the cursor matches no row.\<close>

definition paginateReferrals ::
    "referral_input list \<Rightarrow> string option \<Rightarrow> nat \<Rightarrow> referral_input list \<times> string option" where
  "paginateReferrals referrals cursor limit =
    (let sorted = sortReferrals referrals;
         startIndex = (case cursor of None \<Rightarrow> 0
                       | Some c \<Rightarrow> (case findIndex (\<lambda>r. ri_referee r = c) sorted of None \<Rightarrow> 0 | Some i \<Rightarrow> i + 1));
         slice = take (limit + 1) (drop startIndex sorted);
         hasMore = length slice > limit;
         page = (if hasMore then take limit slice else slice)
     in (page, if hasMore then Some (ri_referee (last page)) else None))"

definition buildReferralsResponse ::
    "string \<Rightarrow> string option \<Rightarrow> referral_input list \<Rightarrow> int \<Rightarrow> int \<Rightarrow> int \<times> int \<Rightarrow> string option \<Rightarrow> nat
      \<Rightarrow> referrals_response" where
  "buildReferralsResponse ellipsis referralCode referrals now qualifySeconds bonusToday cursor limit =
    (let qualifiedCount = int (length (filter (\<lambda>r. isQualified (ri_aboveSince r) now qualifySeconds) referrals));
         (page, nextCursor) = paginateReferrals referrals cursor limit
     in \<lparr>rp_referralCode = referralCode,
         rp_items = map (\<lambda>r.
           let status = referralStatus (ri_aboveSince r) now qualifySeconds in
           \<lparr>it_wallet = maskWallet ellipsis (ri_referee r), it_status = status,
            it_daysLeft = (if status = Holding then daysToQualify (ri_aboveSince r) now qualifySeconds else None),
            it_bonusToday = ri_bonusToday r, it_joinedAt = ri_boundAt r\<rparr>) page,
         rp_nextCursor = nextCursor, rp_qualifiedCount = qualifiedCount,
         rp_band = fst (bandForCount qualifiedCount), rp_nextBand = snd (bandForCount qualifiedCount),
         rp_bonusToday = bonusToday\<rparr>)"

end
