(* ===== verification/Read_Model.thy ===== *)
theory Read_Model
  imports Decode Referral
begin

text \<open>
  The Read model: the database tables the indexer mirrors the chain into, and the queries the
  operator asks of it (\<open>indexer/indexer.service.ts\<close>, the \<open>IndexerQueries\<close> interface of
  \<open>operator/indexer-queries.ts\<close>, and the operator's own reads of the mirror), among them the daily
  referral bonus job, which records what it hands out before it hands it out.

  A table is the list of its rows; a query without \<open>orderBy\<close> returns rows in scan order. The wall
  clock, in seconds, is an argument.
\<close>

section \<open>Tables\<close>

record referral_row =
  rl_referee :: string
  rl_referrer :: string
  rl_code :: string
  rl_boundAt :: int
  rl_aboveSince :: "int option"
  rl_principal :: int

record grant_row =
  gr_poolAddress :: string
  gr_epochId :: int
  gr_referrer :: string
  gr_amount :: int
  gr_uncapped :: int
  gr_qualifiedCount :: int
  gr_rateBps :: int
  gr_txSig :: "string option"

record grant_share_row =
  gs_poolAddress :: string
  gs_epochId :: int
  gs_referrer :: string
  gs_referee :: string
  gs_amount :: int

record event_row =
  vr_slot :: int
  vr_signature :: string
  vr_index :: int
  vr_poolAddress :: string
  vr_name :: string
  vr_data :: json
  vr_blockTime :: "int option"

record cursor_row =
  cr_poolAddress :: string
  cr_lastSignature :: "string option"
  cr_lastSlot :: "int option"
  cr_updatedAt :: "int option"

record read_model =
  db_pools :: "pool_row list"
  db_epochs :: "epoch_row list"
  db_rounds :: "round_row list"
  db_players :: "player_row list"
  db_positions :: "position_row list"
  db_events :: "event_row list"
  db_cursors :: "cursor_row list"
  db_referrals :: "referral_row list"
  db_grants :: "grant_row list"
  db_shares :: "grant_share_row list"

definition epochKey :: "epoch_row \<Rightarrow> string \<times> int" where
  "epochKey r = (er_poolAddress r, er_id r)"

definition roundKey :: "round_row \<Rightarrow> string \<times> int" where
  "roundKey r = (rr_poolAddress r, rr_id r)"

definition playerKey :: "player_row \<Rightarrow> string \<times> string" where
  "playerKey r = (py_poolAddress r, py_owner r)"

definition grantKey :: "grant_row \<Rightarrow> string \<times> int \<times> string" where
  "grantKey r = (gr_poolAddress r, gr_epochId r, gr_referrer r)"

definition shareKey :: "grant_share_row \<Rightarrow> string \<times> int \<times> string \<times> string" where
  "shareKey r = (gs_poolAddress r, gs_epochId r, gs_referrer r, gs_referee r)"

definition eventKey :: "event_row \<Rightarrow> int \<times> string \<times> int" where
  "eventKey r = (vr_slot r, vr_signature r, vr_index r)"

section \<open>The operator's queries\<close>

definition getOpenRound :: "string \<Rightarrow> read_model \<Rightarrow> round_row option" where
  "getOpenRound pool db =
    (case sort_key (\<lambda>r. - rr_id r)
            (filter (\<lambda>r. rr_poolAddress r = pool \<and> rr_status r \<in> set LIVE_ROUND_STATUSES) (db_rounds db)) of
       [] \<Rightarrow> None | r # _ \<Rightarrow> Some r)"

definition getEpoch :: "string \<Rightarrow> int \<Rightarrow> read_model \<Rightarrow> epoch_row option" where
  "getEpoch pool i db = findUnique epochKey (pool, i) (db_epochs db)"

definition playersToRegister :: "string \<Rightarrow> int \<Rightarrow> read_model \<Rightarrow> string list" where
  "playersToRegister pool epochId db =
    (case getEpoch pool epochId db of
       None \<Rightarrow> []
     | Some epoch \<Rightarrow>
         map py_owner (filter (\<lambda>p. registrationWeight p epoch > 0)
           (filter (\<lambda>p. py_poolAddress p = pool \<and> py_regEpoch p \<noteq> epochId) (db_players db))))"

definition terminalRounds :: "string \<Rightarrow> read_model \<Rightarrow> round_row list" where
  "terminalRounds pool db =
    filter (\<lambda>r. rr_poolAddress r = pool \<and> rr_status r \<notin> set LIVE_ROUND_STATUSES) (db_rounds db)"

definition unsettledPositions :: "string \<Rightarrow> read_model \<Rightarrow> position_row list" where
  "unsettledPositions pool db =
    (let terminal = map rr_id (terminalRounds pool db) in
     if terminal = [] then []
     else filter (\<lambda>p. po_poolAddress p = pool \<and> po_roundId p \<in> set terminal) (db_positions db))"

definition roundsToClose :: "string \<Rightarrow> read_model \<Rightarrow> int list" where
  "roundsToClose pool db =
    (let rounds = map rr_id (sort_key rr_id (filter (\<lambda>r. \<not> rr_closed r) (terminalRounds pool db))) in
     if rounds = [] then []
     else
       let busy = map po_roundId
             (filter (\<lambda>p. po_poolAddress p = pool \<and> po_roundId p \<in> set rounds) (db_positions db))
       in filter (\<lambda>i. i \<notin> set busy) rounds)"

definition duePendingWithdrawals :: "string \<Rightarrow> int \<Rightarrow> read_model \<Rightarrow> (string \<times> int) list" where
  "duePendingWithdrawals pool currentEpochId db =
    map (\<lambda>p. (py_owner p, py_pendingWithdraw p))
      (sort_key py_pendingEpoch
        (filter (\<lambda>p. py_poolAddress p = pool \<and> py_pendingWithdraw p > 0 \<and> py_pendingEpoch p < currentEpochId)
          (db_players db)))"

definition winnerRow :: "string \<Rightarrow> int \<Rightarrow> int \<Rightarrow> read_model \<Rightarrow> string option" where
  "winnerRow pool epochId target db =
    map_option py_owner (find (\<lambda>p. py_poolAddress p = pool \<and> py_regEpoch p = epochId \<and>
      py_regStart p \<le> target \<and> py_regEnd p > target) (db_players db))"

definition winnerOnChain :: "(pubkey \<Rightarrow> string) \<Rightarrow> decoded_player list \<Rightarrow> int \<Rightarrow> int \<Rightarrow> string option" where
  "winnerOnChain b58 accounts epochId target =
    map_option (\<lambda>a. b58 (dy_owner a)) (find (\<lambda>a. dy_regEpoch a = epochId \<and> target \<ge> dy_regStart a \<and>
      target < dy_regEnd a) accounts)"

section \<open>The daily bonus job\<close>

definition referralsOf :: "read_model \<Rightarrow> string \<Rightarrow> referral_row list" where
  "referralsOf db referrer = filter (\<lambda>r. rl_referrer r = referrer) (db_referrals db)"

definition qualifiedRefs :: "read_model \<Rightarrow> string \<Rightarrow> int \<Rightarrow> int \<Rightarrow> referral_row list" where
  "qualifiedRefs db referrer now qualifySeconds =
    filter (\<lambda>r. isQualified (rl_aboveSince r) now qualifySeconds) (referralsOf db referrer)"

definition bonusInput :: "string \<Rightarrow> int \<Rightarrow> int \<Rightarrow> int \<Rightarrow> read_model \<Rightarrow> string \<Rightarrow> bonus_input" where
  "bonusInput pool epochId now qualifySeconds db referrer =
    (let player = findUnique playerKey (pool, referrer) (db_players db) in
     \<lparr>bi_referrer = referrer,
      bi_principal = (case player of Some p \<Rightarrow> py_principal p | None \<Rightarrow> 0),
      bi_alreadyGrantedToday =
        (case player of Some p \<Rightarrow> if py_bonusEpoch p = epochId then py_bonusGranted p else 0 | None \<Rightarrow> 0),
      bi_qualifiedReferralPrincipals = map rl_principal (qualifiedRefs db referrer now qualifySeconds)\<rparr>)"

definition shareWeights :: "read_model \<Rightarrow> string \<Rightarrow> int \<Rightarrow> int \<Rightarrow> share_weight list" where
  "shareWeights db referrer now qualifySeconds =
    map (\<lambda>r. \<lparr>sw_referee = rl_referee r, sw_weight = basisOf (rl_principal r)\<rparr>)
      (qualifiedRefs db referrer now qualifySeconds)"

definition epochGrants :: "string \<Rightarrow> int \<Rightarrow> read_model \<Rightarrow> grant_row list" where
  "epochGrants pool epochId db = filter (\<lambda>g. gr_poolAddress g = pool \<and> gr_epochId g = epochId) (db_grants db)"

definition epochTotal :: "string \<Rightarrow> int \<Rightarrow> read_model \<Rightarrow> int" where
  "epochTotal pool epochId db = (\<Sum>g\<leftarrow>epochGrants pool epochId db. gr_amount g)"

definition newBonuses :: "string \<Rightarrow> int \<Rightarrow> int \<Rightarrow> int \<Rightarrow> pool_row \<Rightarrow> read_model \<Rightarrow> referrer_bonus list" where
  "newBonuses pool epochId now qualifySeconds poolRec db =
    (let recorded = map gr_referrer (epochGrants pool epochId db);
         referrers = firstOccurrences (map rl_referrer (db_referrals db));
         inputs = map (bonusInput pool epochId now qualifySeconds db) referrers
     in computeBonuses (filter (\<lambda>i. bi_referrer i \<notin> set recorded) inputs)
          (pr_totalPrincipal poolRec) (pr_bonusCapBps poolRec) (epochTotal pool epochId db))"

definition recordBonuses :: "string \<Rightarrow> int \<Rightarrow> int \<Rightarrow> int \<Rightarrow> referrer_bonus list \<Rightarrow> read_model \<Rightarrow> read_model" where
  "recordBonuses pool epochId now qualifySeconds bonuses db =
    (let already = map gr_referrer (filter (\<lambda>g. gr_referrer g \<in> set (map rb_referrer bonuses)) (epochGrants pool epochId db));
         grants = fold (\<lambda>b t. createIfAbsent grantKey
             \<lparr>gr_poolAddress = pool, gr_epochId = epochId, gr_referrer = rb_referrer b, gr_amount = rb_amount b,
              gr_uncapped = rb_uncapped b, gr_qualifiedCount = rb_qualifiedCount b, gr_rateBps = rb_rateBps b,
              gr_txSig = None\<rparr> t) bonuses (db_grants db);
         shareRows = concat (map (\<lambda>b. map (\<lambda>s.
             \<lparr>gs_poolAddress = pool, gs_epochId = epochId, gs_referrer = rb_referrer b,
              gs_referee = rs_referee s, gs_amount = rs_amount s\<rparr>)
             (splitShares (rb_amount b) (shareWeights db (rb_referrer b) now qualifySeconds)))
           (filter (\<lambda>b. rb_referrer b \<notin> set already) bonuses));
         shares = fold (createIfAbsent shareKey) shareRows (db_shares db)
     in db\<lparr>db_grants := grants, db_shares := shares\<rparr>)"

definition pendingGrants :: "string \<Rightarrow> int \<Rightarrow> read_model \<Rightarrow> (string \<times> int) list" where
  "pendingGrants pool epochId db =
    map (\<lambda>g. (gr_referrer g, gr_amount g))
      (sort_key gr_referrer (filter (\<lambda>g. gr_txSig g = None) (epochGrants pool epochId db)))"

definition clampGrant :: "string \<Rightarrow> int \<Rightarrow> read_model \<Rightarrow> string \<times> int \<Rightarrow> (string \<times> int \<times> int) option" where
  "clampGrant pool epochId db g =
    (let player = findUnique playerKey (pool, fst g) (db_players db);
         onChain = (case player of Some p \<Rightarrow> py_bonusEpoch p = epochId | None \<Rightarrow> False)
     in if onChain then None
        else let cap = remainingGrantCap (case player of Some p \<Rightarrow> py_principal p | None \<Rightarrow> 0) 0
             in Some (fst g, snd g, if snd g < cap then snd g else cap))"

definition rescaleGrant :: "string \<Rightarrow> int \<Rightarrow> string \<times> int \<Rightarrow> read_model \<Rightarrow> read_model" where
  "rescaleGrant pool epochId g db =
    (let mine = (\<lambda>s. gs_poolAddress s = pool \<and> gs_epochId s = epochId \<and> gs_referrer s = fst g);
         db1 = db\<lparr>db_grants := updateRows (\<lambda>r. grantKey r = (pool, epochId, fst g)) (\<lambda>r. r\<lparr>gr_amount := snd g\<rparr>) (db_grants db)\<rparr>;
         shares = filter mine (db_shares db1)
     in if shares = [] then db1
        else
          let rescaled = splitShares (snd g) (map (\<lambda>s. \<lparr>sw_referee = gs_referee s, sw_weight = gs_amount s\<rparr>) shares)
          in db1\<lparr>db_shares := fold (\<lambda>s t. updateRows (\<lambda>r. shareKey r = (pool, epochId, fst g, rs_referee s))
                                              (\<lambda>r. r\<lparr>gs_amount := rs_amount s\<rparr>) t) rescaled (db_shares db1)\<rparr>)"

definition referralGrantsDue ::
    "string \<Rightarrow> int \<Rightarrow> int \<Rightarrow> int \<Rightarrow> read_model \<Rightarrow> (string \<times> int) list \<times> read_model" where
  "referralGrantsDue pool epochId now qualifySeconds db =
    (case findUnique pr_address pool (db_pools db) of
       None \<Rightarrow> ([], db)
     | Some poolRec \<Rightarrow>
         if db_referrals db = [] then ([], db)
         else
           let bonuses = newBonuses pool epochId now qualifySeconds poolRec db;
               db1 = (if bonuses \<noteq> [] then recordBonuses pool epochId now qualifySeconds bonuses db else db);
               clamped = List.map_filter (clampGrant pool epochId db) (pendingGrants pool epochId db1);
               changed = map (\<lambda>(r, old, new). (r, new)) (filter (\<lambda>(r, old, new). new \<noteq> old) clamped);
               due = map (\<lambda>(r, old, new). (r, new)) (filter (\<lambda>(r, old, new). \<not> new \<le> 0) clamped);
               db2 = fold (rescaleGrant pool epochId) changed db1
           in (due, db2))"

definition markReferralGrantsSent :: "string \<Rightarrow> int \<Rightarrow> string list \<Rightarrow> string \<Rightarrow> read_model \<Rightarrow> read_model" where
  "markReferralGrantsSent pool epochId referrers txSig db =
    db\<lparr>db_grants := updateRows (\<lambda>g. gr_poolAddress g = pool \<and> gr_epochId g = epochId \<and> gr_referrer g \<in> set referrers)
                      (\<lambda>g. g\<lparr>gr_txSig := Some txSig\<rparr>) (db_grants db)\<rparr>"

end
