(* ===== verification/Operator_Service.thy ===== *)
theory Operator_Service
  imports Tick_Progress Read_Model
begin

text \<open>
  The operator service (\<open>operator/operator.service.ts\<close>): it reads the chain and the Read model into
  a tick context, runs one tick, remembers across ticks what the tick told it, writes the
  \<open>OperatorState\<close> row, and schedules itself.

  An \<open>op_world\<close> is what one tick meets outside the service: account data, the decoders of the
  Anchor package, database answers, the transaction sender and the wall clock. An \<open>op_service\<close> holds
  the private fields of the class. Database reads that may reject carry a name; \<open>w_dbError\<close> says
  which of them do. What the bonus job writes to the database is in \<open>Read_Model\<close>.
\<close>

section \<open>Constants and state\<close>

definition SETTLED_MEMORY_MS :: int where "SETTLED_MEMORY_MS = 5 * 60000"
definition REGISTERED_MEMORY_MS :: int where "REGISTERED_MEMORY_MS = 24 * 60 * 60000"
definition SAFETY_INTERVAL_MS :: int where "SAFETY_INTERVAL_MS = SAFETY_INTERVAL_SECONDS * 1000"

record operator_state =
  os_lastTickAt :: "int option"
  os_nextWakeAt :: "int option"
  os_lastAction :: "string option"
  os_lastError :: "string option"
  os_registeredCount :: "int option"
  os_registeredTotal :: "int option"
  os_withdrawShortfall :: "int option"
  os_withdrawSkippedCount :: "nat option"
  os_registrationIndexerStale :: "bool option"
  os_lastSuccessAt :: "int option"
  os_epochNoProgress :: "bool option"
  os_drawnUnpaid :: "bool option"

definition NEW_OPERATOR_STATE :: operator_state where
  "NEW_OPERATOR_STATE =
    \<lparr>os_lastTickAt = None, os_nextWakeAt = None, os_lastAction = None, os_lastError = None,
     os_registeredCount = None, os_registeredTotal = None, os_withdrawShortfall = None,
     os_withdrawSkippedCount = None, os_registrationIndexerStale = None, os_lastSuccessAt = None,
     os_epochNoProgress = None, os_drawnUnpaid = None\<rparr>"

datatype token_read = TokenAmount int | TokenNotFound | TokenError string

datatype write_answer = WriteOk | ForeignKey | WriteError string

record op_world =
  w_env :: ix_env
  w_poolKey :: pubkey
  w_b58 :: "pubkey \<Rightarrow> string"
  w_disc :: bytes
  w_poolAndClock :: "(bytes option \<times> bytes option) res"
  w_accounts :: "pubkey list \<Rightarrow> bytes option list res"
  w_account :: "pubkey \<Rightarrow> bytes option res"
  w_decodePool :: "pubkey \<Rightarrow> bytes \<Rightarrow> pool_state res"
  w_decodeEpoch :: "bytes \<Rightarrow> epoch_state res"
  w_decodeRound :: "bytes \<Rightarrow> round_state res"
  w_playerAccounts :: "decoded_player list res"
  w_tokenAccount :: "pubkey \<Rightarrow> token_read"
  w_db :: read_model
  w_dbError :: "string \<Rightarrow> string option"
  w_nonce :: bytes
  w_send :: "nat \<Rightarrow> instruction list \<Rightarrow> string res"
  w_subscribe :: "string \<Rightarrow> int"
  w_wallMs :: int
  w_writeState :: "nat \<Rightarrow> write_answer"
  w_freshSeconds :: int
  w_launchAt :: "int option"
  w_qualifySeconds :: int

record op_service =
  sv_running :: bool
  sv_lastRegisterCheck :: "register_check option"
  sv_settled :: "string \<rightharpoonup> int"
  sv_closingRounds :: "int \<rightharpoonup> int"
  sv_registeredRecently :: "string \<rightharpoonup> int"
  sv_lastWithdrawState :: "withdraw_state option"
  sv_lastExpectedErrors :: "string \<rightharpoonup> nat"
  sv_shutdownAnnounced :: bool
  sv_randomnessWatch :: "(string \<times> int) option"
  sv_listeners :: "(string \<times> int) list"
  sv_sparringWakes :: nat
  sv_row :: "operator_state option"

record op_result = tick_outcome +
  o_waitMs :: int

definition NEW_SERVICE :: op_service where
  "NEW_SERVICE =
    \<lparr>sv_running = False, sv_lastRegisterCheck = None, sv_settled = Map.empty, sv_closingRounds = Map.empty,
     sv_registeredRecently = Map.empty, sv_lastWithdrawState = None, sv_lastExpectedErrors = Map.empty,
     sv_shutdownAnnounced = False, sv_randomnessWatch = None, sv_listeners = [], sv_sparringWakes = 0,
     sv_row = None\<rparr>"

section \<open>Reads\<close>

definition dbRead :: "op_world \<Rightarrow> string \<Rightarrow> 'a \<Rightarrow> 'a res" where
  "dbRead w query v = (case w_dbError w query of Some e \<Rightarrow> Inl e | None \<Rightarrow> Inr v)"

definition poolId58 :: "op_world \<Rightarrow> string" where
  "poolId58 w = w_b58 w (w_poolKey w)"

text \<open>One \<open>wanted.push(...)\<close>: the list grows and the index of the new entry is returned, or -1.\<close>

definition wantAccount :: "bool \<Rightarrow> pubkey res \<Rightarrow> pubkey list \<Rightarrow> (pubkey list \<times> nat option) res" where
  "wantAccount cond addr wanted =
    (if cond then rbind addr (\<lambda>a. Inr (wanted @ [a], Some (length wanted))) else Inr (wanted, None))"

definition accountAt :: "bytes option list \<Rightarrow> nat option \<Rightarrow> bytes option" where
  "accountAt infos index =
    (case index of None \<Rightarrow> None | Some i \<Rightarrow> if i < length infos then infos ! i else None)"

definition decodeOpt :: "(bytes \<Rightarrow> 'a res) \<Rightarrow> bytes option \<Rightarrow> 'a option res" where
  "decodeOpt decode data =
    (case data of None \<Rightarrow> Inr None | Some d \<Rightarrow> rbind (decode d) (\<lambda>x. Inr (Some x)))"

type_synonym cycle = "epoch_state option \<times> epoch_state option \<times> round_state option \<times> round_state option"

definition readCycle :: "op_world \<Rightarrow> pool_state \<Rightarrow> cycle res" where
  "readCycle w pool =
    rbind (wantAccount (pl_currentEpochId pool > 0) (epochAddress (w_env w) (w_poolKey w) (pl_currentEpochId pool)) [])
      (\<lambda>(w1, currentIndex).
    rbind (wantAccount (pl_currentEpochId pool > 1) (epochAddress (w_env w) (w_poolKey w) (pl_currentEpochId pool - 1)) w1)
      (\<lambda>(w2, previousIndex).
    rbind (wantAccount (pl_openRoundId pool > 0) (roundAddress (w_env w) (w_poolKey w) (pl_openRoundId pool)) w2)
      (\<lambda>(w3, roundIndex).
    rbind (wantAccount (pl_nextRoundId pool > 1) (roundAddress (w_env w) (w_poolKey w) (pl_nextRoundId pool - 1)) w3)
      (\<lambda>(wanted, lastRoundIndex).
    if wanted = [] then Inr (None, None, None, None)
    else rbind (w_accounts w wanted) (\<lambda>infos.
         rbind (decodeOpt (w_decodeEpoch w) (accountAt infos currentIndex)) (\<lambda>currentEpoch.
         rbind (decodeOpt (w_decodeEpoch w) (accountAt infos previousIndex)) (\<lambda>previousEpoch.
         rbind (decodeOpt (w_decodeRound w) (accountAt infos roundIndex)) (\<lambda>openRound.
         rbind (decodeOpt (w_decodeRound w) (accountAt infos lastRoundIndex)) (\<lambda>lastRound.
           Inr (currentEpoch, previousEpoch, openRound, lastRound))))))))))"

definition fulfilled :: "op_world \<Rightarrow> bytes \<Rightarrow> bool res" where
  "fulfilled w seed =
    rbind (w_account w (randomnessFor (w_env w) seed)) (\<lambda>data. Inr (isFulfilled (w_disc w) data))"

definition principalVaultBalance :: "op_world \<Rightarrow> int res" where
  "principalVaultBalance w =
    (let address = principalVaultAddress (w_env w) (w_poolKey w) in
     case w_tokenAccount w address of
       TokenAmount n \<Rightarrow> Inr n
     | TokenNotFound \<Rightarrow> Inl (''principal vault '' @ w_b58 w address @ '' does not exist; run bootstrap first'')
     | TokenError e \<Rightarrow> Inl e)"

definition indexerCursorInfo :: "op_world \<Rightarrow> indexer_cursor res" where
  "indexerCursorInfo w =
    rbind (dbRead w ''cursor'' (findUnique cr_poolAddress (poolId58 w) (db_cursors (w_db w)))) (\<lambda>cursor.
      Inr (case cursor of
             None \<Rightarrow> \<lparr>cur_ageSeconds = None, cur_updatedAt = None\<rparr>
           | Some c \<Rightarrow>
               (case cr_updatedAt c of
                  None \<Rightarrow> \<lparr>cur_ageSeconds = None, cur_updatedAt = None\<rparr>
                | Some u \<Rightarrow> \<lparr>cur_ageSeconds = Some (w_wallMs w div 1000 - u), cur_updatedAt = Some u\<rparr>)))"

definition toUnsettled :: "position_row \<Rightarrow> unsettled" where
  "toUnsettled p = \<lparr>un_address = po_address p, un_owner = po_owner p, un_roundId = po_roundId p\<rparr>"

section \<open>The tick context\<close>

definition buildContext :: "op_world \<Rightarrow> op_service \<Rightarrow> pool_state \<Rightarrow> int \<Rightarrow> cycle \<Rightarrow> indexer_cursor \<Rightarrow> tick_context" where
  "buildContext w s pool now cycle cursor =
    (let (currentEpoch, previousEpoch, openRound, lastRound) = cycle; me = poolId58 w in
     \<lparr>cx_now = now, cx_pool = pool, cx_currentEpoch = currentEpoch, cx_previousEpoch = previousEpoch,
      cx_openRound = openRound, cx_lastRound = lastRound,
      cx_ix = buildCall (w_env w) (w_nonce w) pool,
      cx_parseKey = ie_parseKey (w_env w), cx_toBase58 = w_b58 w,
      cx_lastRegisterCheck = sv_lastRegisterCheck s, cx_lastWithdrawState = sv_lastWithdrawState s,
      cx_indexerCursor = cursor, cx_indexerFreshThreshold = w_freshSeconds w,
      cx_lastExpectedErrors = sv_lastExpectedErrors s, cx_launchAt = w_launchAt w,
      cx_fulfilled = fulfilled w, cx_principalVaultBalance = principalVaultBalance w,
      cx_duePendingWithdrawals = (\<lambda>e. dbRead w ''duePendingWithdrawals'' (duePendingWithdrawals me e (w_db w))),
      cx_playersToRegister = (\<lambda>e. rbind (dbRead w ''playersToRegister'' (playersToRegister me e (w_db w)))
         (\<lambda>owners. Inr (filter (\<lambda>owner. owner \<notin> dom (sv_registeredRecently s)) owners))),
      cx_referralGrantsDue = (\<lambda>e. dbRead w ''referralGrantsDue''
         (fst (referralGrantsDue me e (w_wallMs w div 1000) (w_qualifySeconds w) (w_db w)))),
      cx_markReferralGrantsSent = (\<lambda>e referrers txSig. dbRead w ''markReferralGrantsSent'' ()),
      cx_unsettledPositions = rbind (dbRead w ''unsettledPositions'' (map toUnsettled (unsettledPositions me (w_db w))))
         (\<lambda>ps. Inr (filter (\<lambda>p. un_address p \<notin> dom (sv_settled s)) ps)),
      cx_forgetPositions = (\<lambda>_. Inr ()),
      cx_roundsToClose = rbind (dbRead w ''roundsToClose'' (roundsToClose me (w_db w)))
         (\<lambda>ids. Inr (filter (\<lambda>i. i \<notin> dom (sv_closingRounds s)) ids)),
      cx_forgetRound = (\<lambda>_. Inr ()),
      cx_forgetRegistered = (\<lambda>_. Inr ()),
      cx_winner = (\<lambda>e target. dbRead w ''winner'' (winnerRow me e target (w_db w))),
      cx_winnerOnChain = (\<lambda>e target. rbind (w_playerAccounts w) (\<lambda>as. Inr (winnerOnChain (w_b58 w) as e target))),
      cx_send = w_send w\<rparr>)"

definition readContext :: "op_world \<Rightarrow> op_service \<Rightarrow> tick_context res" where
  "readContext w s =
    rbind (w_poolAndClock w) (\<lambda>(poolInfo, clockInfo).
      case poolInfo of
        None \<Rightarrow> Inl (''pool '' @ poolId58 w @ '' does not exist; run bootstrap first'')
      | Some data \<Rightarrow>
          rbind (w_decodePool w (w_poolKey w) data) (\<lambda>pool.
          rbind (clockUnixTimestamp clockInfo) (\<lambda>now.
          rbind (readCycle w pool) (\<lambda>cycle.
          rbind (indexerCursorInfo w) (\<lambda>cursor.
            Inr (buildContext w s pool now cycle cursor))))))"

section \<open>Memory across ticks\<close>

text \<open>Entries older than the limit are dropped, then the new keys are stamped with the present.\<close>

definition remember :: "int \<Rightarrow> int \<Rightarrow> 'k list \<Rightarrow> ('k \<rightharpoonup> int) \<Rightarrow> ('k \<rightharpoonup> int)" where
  "remember limit now ks m =
    fold (\<lambda>k m. m(k \<mapsto> now)) ks
      (\<lambda>k. case m k of None \<Rightarrow> None | Some at \<Rightarrow> if now - at > limit then None else Some at)"

fun applyEvent :: "int \<Rightarrow> event \<Rightarrow> op_service \<Rightarrow> op_service" where
  "applyEvent now (ForgetPositions as) s = s\<lparr>sv_settled := remember SETTLED_MEMORY_MS now as (sv_settled s)\<rparr>"
| "applyEvent now (ForgetRound i) s = s\<lparr>sv_closingRounds := remember SETTLED_MEMORY_MS now [i] (sv_closingRounds s)\<rparr>"
| "applyEvent now (ForgetRegistered os) s =
    s\<lparr>sv_registeredRecently := remember REGISTERED_MEMORY_MS now os (sv_registeredRecently s)\<rparr>"
| "applyEvent now (MarkGrants _ _ _) s = s"
| "applyEvent now (Sent _ _) s = s"

definition syncRandomnessWatch :: "op_world \<Rightarrow> round_state option \<Rightarrow> op_service \<Rightarrow> op_service" where
  "syncRandomnessWatch w openRound s =
    (let wanted = (case openRound of None \<Rightarrow> None
                   | Some r \<Rightarrow> if rd_status r = ROUND_REQUESTED
                               then Some (w_b58 w (randomnessFor (w_env w) (rd_vrfSeed r))) else None)
     in if wanted = map_option fst (sv_randomnessWatch s) then s
        else
          let s1 = (case sv_randomnessWatch s of None \<Rightarrow> s
                    | Some (_, i) \<Rightarrow> s\<lparr>sv_listeners := filter (\<lambda>l. snd l \<noteq> i) (sv_listeners s),
                                      sv_randomnessWatch := None\<rparr>)
          in (case wanted of None \<Rightarrow> s1
              | Some a \<Rightarrow> s1\<lparr>sv_listeners := sv_listeners s1 @ [(a, w_subscribe w a)],
                             sv_randomnessWatch := Some (a, w_subscribe w a)\<rparr>))"

section \<open>The OperatorState row\<close>

definition stateFields :: "int \<Rightarrow> decision \<Rightarrow> string option \<Rightarrow> int \<Rightarrow> operator_state \<Rightarrow> operator_state" where
  "stateFields nowSeconds d err waitMs r =
    r\<lparr>os_lastTickAt := Some nowSeconds,
      os_nextWakeAt := Some (nowSeconds + (waitMs + 500) div 1000),
      os_lastError := err,
      os_lastSuccessAt := (if err = None then Some nowSeconds else os_lastSuccessAt r),
      os_lastAction := orElse (d_action d) (os_lastAction r),
      os_registeredCount := orElse (map_option fst (d_progress d)) (os_registeredCount r),
      os_registeredTotal := orElse (map_option snd (d_progress d)) (os_registeredTotal r),
      os_withdrawShortfall := orElse (d_withdrawShortfall d) (os_withdrawShortfall r),
      os_withdrawSkippedCount := orElse (map_option (\<lambda>x. card (ws_skipped x)) (d_withdrawState d)) (os_withdrawSkippedCount r),
      os_registrationIndexerStale := orElse (d_indexerStale d) (os_registrationIndexerStale r),
      os_epochNoProgress := orElse (d_epochNoProgress d) (os_epochNoProgress r),
      os_drawnUnpaid := orElse (d_drawnUnpaid d) (os_drawnUnpaid r)\<rparr>"

definition writeState ::
    "op_world \<Rightarrow> nat \<Rightarrow> decision \<Rightarrow> string option \<Rightarrow> int \<Rightarrow> op_service \<Rightarrow> unit res \<times> op_service" where
  "writeState w n d err waitMs s =
    (case w_writeState w n of
       WriteOk \<Rightarrow>
         (Inr (), s\<lparr>sv_row := Some (stateFields (w_wallMs w div 1000) d err waitMs
                                     (case sv_row s of Some r \<Rightarrow> r | None \<Rightarrow> NEW_OPERATOR_STATE))\<rparr>)
     | ForeignKey \<Rightarrow> (Inr (), s)
     | WriteError e \<Rightarrow> (Inl e, s))"

definition safeWriteState ::
    "op_world \<Rightarrow> nat \<Rightarrow> decision \<Rightarrow> string option \<Rightarrow> int \<Rightarrow> op_service \<Rightarrow> op_service" where
  "safeWriteState w n d err waitMs s = snd (writeState w n d err waitMs s)"

section \<open>One pass\<close>

definition withWait :: "tick_outcome \<Rightarrow> int \<Rightarrow> op_result" where
  "withWait o1 waitMs = tick_outcome.extend o1 \<lparr>o_waitMs = waitMs\<rparr>"

definition failedPass :: "op_world \<Rightarrow> nat \<Rightarrow> int \<Rightarrow> string \<Rightarrow> op_service \<Rightarrow> op_result \<times> op_service" where
  "failedPass w n now message s =
    (let nextWakeAt = now + SAFETY_INTERVAL_SECONDS;
         err = (if message \<in> set EXPECTED_ERRORS then None else Some message)
     in (withWait (decision.extend NOTHING \<lparr>o_nextWakeAt = nextWakeAt\<rparr>) SAFETY_INTERVAL_MS,
         safeWriteState w n NOTHING err SAFETY_INTERVAL_MS s))"

definition absorb :: "tick_outcome \<Rightarrow> op_service \<Rightarrow> op_service" where
  "absorb out s =
    s\<lparr>sv_lastRegisterCheck := orElse (d_registerCheck out) (sv_lastRegisterCheck s),
      sv_lastWithdrawState := orElse (d_withdrawState out) (sv_lastWithdrawState s),
      sv_lastExpectedErrors := (case d_expectedErrors out of Some m \<Rightarrow> m | None \<Rightarrow> sv_lastExpectedErrors s),
      sv_sparringWakes := sv_sparringWakes s + (if d_action out = Some ''create_round'' then 1 else 0)\<rparr>"

definition runOnce :: "op_world \<Rightarrow> op_service \<Rightarrow> op_result \<times> op_service" where
  "runOnce w s =
    (case readContext w s of
       Inl e \<Rightarrow> failedPass w 0 0 e s
     | Inr ctx \<Rightarrow>
         let s1 = (if pl_shutdown (cx_pool ctx) then s\<lparr>sv_shutdownAnnounced := True\<rparr> else s);
             (out, evs) = runTick ctx;
             s2 = fold (applyEvent (w_wallMs w)) evs s1
         in (case out of
               Inl e \<Rightarrow> failedPass w 0 (cx_now ctx) e s2
             | Inr o1 \<Rightarrow>
                 let s3 = absorb o1 (syncRandomnessWatch w (cx_openRound ctx) s2);
                     waitMs = msUntilWake (cx_now ctx) (o_nextWakeAt o1)
                 in (case writeState w 0 (decision.truncate o1) (d_stepError o1) waitMs s3 of
                       (Inr _, s4) \<Rightarrow> (withWait o1 waitMs, s4)
                     | (Inl e, s4) \<Rightarrow> failedPass w 1 (cx_now ctx) e s4)))"

text \<open>Single-flight: a call while a pass is in flight returns null at once.\<close>

definition opTick :: "op_world \<Rightarrow> op_service \<Rightarrow> op_result option \<times> op_service" where
  "opTick w s =
    (if sv_running s then (None, s)
     else let (r, s') = runOnce w (s\<lparr>sv_running := True\<rparr>) in (Some r, s'\<lparr>sv_running := False\<rparr>))"

section \<open>The scheduler\<close>

text \<open>
  The scheduling skeleton: whether a pass is in flight, the sleeps that are pending (each with its
  length), and whether the module was destroyed. \<open>trigger\<close> is \<open>runAndScheduleNext\<close> up to its first
  await (boot, the safety interval, \<open>wake()\<close>, a sleep that ended); \<open>complete\<close> is the end of the pass
  together with the \<open>setTimeout\<close> right after it, which no other task can come between.
\<close>

record sched =
  sc_running :: bool
  sc_sleeps :: "int list"
  sc_destroyed :: bool

inductive sched_step :: "sched \<Rightarrow> sched \<Rightarrow> bool" where
  trigger_start: "\<not> sc_running c \<Longrightarrow> sched_step c (c\<lparr>sc_sleeps := [], sc_running := True\<rparr>)"
| trigger_busy: "sc_running c \<Longrightarrow> sched_step c (c\<lparr>sc_sleeps := []\<rparr>)"
| complete: "sc_running c \<Longrightarrow> runOnce w s = (r, s') \<Longrightarrow>
    sched_step c (c\<lparr>sc_running := False, sc_sleeps := sc_sleeps c @ [o_waitMs r]\<rparr>)"
| destroy: "sched_step c (c\<lparr>sc_sleeps := [], sc_destroyed := True\<rparr>)"

inductive sched_reach :: "sched \<Rightarrow> bool" where
  boot: "sched_reach \<lparr>sc_running = True, sc_sleeps = [], sc_destroyed = False\<rparr>"
| step: "sched_reach c \<Longrightarrow> sched_step c c' \<Longrightarrow> sched_reach c'"

inductive_cases sched_stepE: "sched_step c c'"

end
