(* ===== verification/Referral_Laws.thy ===== *)
theory Referral_Laws
  imports Referral "HOL-Library.Multiset"
begin

text \<open>
  Laws of the referral arithmetic: the tracker computes the start of the current unbroken run above
  the threshold; the daily bonuses respect every referrer's own cap and the pool-wide cap; a split
  grant adds up exactly; bands and rates agree; following the page cursors visits every referral once.
\<close>

section \<open>The tracker\<close>

text \<open>The specification reads the whole history of (Principal, time): the clock started at the first
  entry of the last unbroken run at or above the threshold.\<close>

definition heldRun :: "(int \<times> int) list \<Rightarrow> (int \<times> int) list" where
  "heldRun hist = takeWhile (\<lambda>(p, t). p \<ge> REFERRAL_QUALIFY_PRINCIPAL) (rev hist)"

definition heldSince :: "(int \<times> int) list \<Rightarrow> int option" where
  "heldSince hist = (if heldRun hist = [] then None else Some (snd (last (heldRun hist))))"

fun principalHistory :: "int \<Rightarrow> (principal_event \<times> int) list \<Rightarrow> (int \<times> int) list" where
  "principalHistory p [] = []"
| "principalHistory p ((e, t) # es) = (let p' = nextPrincipal p e in (p', t) # principalHistory p' es)"

definition trackAll :: "qualification \<Rightarrow> (principal_event \<times> int) list \<Rightarrow> qualification" where
  "trackAll q es = fold (\<lambda>(e, t) q. applyReferralEvent q e t) es q"

definition trackerOk :: "qualification \<Rightarrow> bool" where
  "trackerOk q = ((q_aboveSince q \<noteq> None) = (q_principal q \<ge> REFERRAL_QUALIFY_PRINCIPAL))"

lemma applyReferralEvent_principal [simp]:
  "q_principal (applyReferralEvent q e t) = nextPrincipal (q_principal q) e"
  by (simp add: applyReferralEvent_def Let_def)

lemma applyReferralEvent_above:
  "trackerOk q \<Longrightarrow> q_aboveSince (applyReferralEvent q e t) =
    (if nextPrincipal (q_principal q) e \<ge> REFERRAL_QUALIFY_PRINCIPAL
     then Some (case q_aboveSince q of Some s \<Rightarrow> s | None \<Rightarrow> t) else None)"
  by (auto simp: applyReferralEvent_def Let_def trackerOk_def)

lemma trackerOk_apply: "trackerOk q \<Longrightarrow> trackerOk (applyReferralEvent q e t)"
  by (simp add: trackerOk_def[of "applyReferralEvent q e t"] applyReferralEvent_above)

lemma heldSince_snoc:
  "heldSince (hist @ [(p, t)]) =
    (if p \<ge> REFERRAL_QUALIFY_PRINCIPAL then Some (case heldSince hist of Some s \<Rightarrow> s | None \<Rightarrow> t) else None)"
  by (auto simp: heldSince_def heldRun_def)

lemma principalHistory_append:
  "principalHistory p (es @ fs) = principalHistory p es @ principalHistory (q_principal (trackAll \<lparr>q_principal = p, q_aboveSince = x\<rparr> es)) fs"
proof (induction es arbitrary: p x)
  case (Cons a es)
  obtain e t where a: "a = (e, t)" by (cases a)
  have "\<exists>y. applyReferralEvent \<lparr>q_principal = p, q_aboveSince = x\<rparr> e t = \<lparr>q_principal = nextPrincipal p e, q_aboveSince = y\<rparr>"
    by (metis applyReferralEvent_principal qualification.select_convs(1) qualification.surjective old.unit.exhaust)
  then obtain y where "applyReferralEvent \<lparr>q_principal = p, q_aboveSince = x\<rparr> e t = \<lparr>q_principal = nextPrincipal p e, q_aboveSince = y\<rparr>" by blast
  then show ?case using Cons.IH[of "nextPrincipal p e" y] by (simp add: a trackAll_def Let_def)
qed (simp add: trackAll_def)

lemma trackAll_heldSince:
  fixes q0 :: qualification
  assumes "q0 = \<lparr>q_principal = 0, q_aboveSince = None\<rparr>"
  shows "trackerOk (trackAll q0 es) \<and> q_aboveSince (trackAll q0 es) = heldSince (principalHistory 0 es)"
proof (induction es rule: rev_induct)
  case Nil
  then show ?case
    by (simp add: assms trackAll_def heldSince_def heldRun_def trackerOk_def REFERRAL_QUALIFY_PRINCIPAL_def)
next
  case (snoc a es)
  obtain e t where a: "a = (e, t)" by (cases a)
  have "trackAll q0 (es @ [a]) = applyReferralEvent (trackAll q0 es) e t" by (simp add: trackAll_def a)
  moreover have "principalHistory 0 (es @ [a]) =
      principalHistory 0 es @ [(nextPrincipal (q_principal (trackAll q0 es)) e, t)]"
    using principalHistory_append[of 0 es "[a]" None] by (simp add: a assms Let_def)
  ultimately show ?case using snoc by (simp add: trackerOk_apply applyReferralEvent_above heldSince_snoc)
qed

section \<open>Bonuses\<close>

definition inputOk :: "bonus_input \<Rightarrow> bool" where
  "inputOk inp \<longleftrightarrow> 0 \<le> bi_alreadyGrantedToday inp \<and> (\<forall>p \<in> set (bi_qualifiedReferralPrincipals inp). 0 \<le> p)"

lemma rateBpsFor_cases: "rateBpsFor n \<in> {0, 200, 300, 400, 500}"
  by (auto simp: rateBpsFor_def RATE_TIERS_def)

lemma preScale_bounds:
  assumes "inputOk inp"
  shows "rb_amount (preScaleBonus inp) \<le> remainingGrantCap (bi_principal inp) (bi_alreadyGrantedToday inp)"
    and "0 \<le> rb_amount (preScaleBonus inp)" and "rb_referrer (preScaleBonus inp) = bi_referrer inp"
    and "rb_amount (preScaleBonus inp) \<le> rb_uncapped (preScaleBonus inp)"
proof -
  have b: "0 \<le> (\<Sum>p\<leftarrow>bi_qualifiedReferralPrincipals inp. basisOf p)"
    using assms by (intro sum_list_nonneg_int) (auto simp: inputOk_def basisOf_def REFERRAL_BONUS_BASIS_CAP_def)
  have r: "0 \<le> rateBpsFor n" for n using rateBpsFor_cases[of n] by auto
  have c: "0 \<le> remainingGrantCap p a" for p a by (simp add: remainingGrantCap_def Let_def)
  note d = bigDiv_ge_0[OF mult_nonneg_nonneg[OF b r], of 10000]
  show "rb_amount (preScaleBonus inp) \<le> remainingGrantCap (bi_principal inp) (bi_alreadyGrantedToday inp)"
    "0 \<le> rb_amount (preScaleBonus inp)" "rb_referrer (preScaleBonus inp) = bi_referrer inp"
    "rb_amount (preScaleBonus inp) \<le> rb_uncapped (preScaleBonus inp)"
    using c d by (auto simp: preScaleBonus_def Let_def)
qed

text \<open>Scaling down by \<open>cap / tot\<close> with truncation never exceeds the cap.\<close>

lemma scaled_sum_le:
  assumes "\<forall>x \<in> set xs. 0 \<le> f x" "(\<Sum>x\<leftarrow>xs. f x) \<le> tot" "0 < tot" "0 \<le> (cap::int)"
  shows "(\<Sum>x\<leftarrow>xs. bigDiv (f x * cap) tot) \<le> cap"
proof -
  have "(\<Sum>x\<leftarrow>xs. bigDiv (f x * cap) tot) * tot \<le> (\<Sum>x\<leftarrow>xs. f x * cap)"
    unfolding sum_list_mult_const[symmetric]
  proof (rule sum_list_mono)
    fix x assume "x \<in> set xs"
    then have "bigDiv (f x * cap) tot = f x * cap div tot" using assms by (intro bigDiv_nonneg) auto
    then show "bigDiv (f x * cap) tot * tot \<le> f x * cap"
      using assms(3) by (simp add: minus_mod_eq_div_mult [symmetric])
  qed
  also have "\<dots> = (\<Sum>x\<leftarrow>xs. f x) * cap" by (simp add: sum_list_mult_const)
  also have "\<dots> \<le> tot * cap" using assms by (intro mult_right_mono) auto
  finally have "(\<Sum>x\<leftarrow>xs. bigDiv (f x * cap) tot) * tot \<le> cap * tot" by (simp add: mult.commute)
  then show ?thesis using assms(3) by simp
qed

lemma sum_list_filter_pos:
  "\<forall>x \<in> set xs. 0 \<le> f x \<Longrightarrow> (\<Sum>x\<leftarrow>filter (\<lambda>x. f x > 0) xs. (f x :: int)) = (\<Sum>x\<leftarrow>xs. f x)"
  by (induction xs) auto


lemma scaled_le: "0 \<le> a \<Longrightarrow> 0 \<le> cap \<Longrightarrow> cap \<le> tot \<Longrightarrow> 0 < tot \<Longrightarrow> bigDiv (a * cap) tot \<le> a"
proof -
  assume a: "0 \<le> a" "0 \<le> cap" "cap \<le> tot" "0 < tot"
  then have "a * cap div tot \<le> a * tot div tot" by (intro zdiv_mono1 mult_left_mono) auto
  then show ?thesis using a by (simp add: bigDiv_nonneg)
qed

lemma poolHeadroom_nonneg: "0 \<le> poolHeadroom t c g"
  by (simp add: poolHeadroom_def Let_def)

lemma computeBonuses_member:
  assumes "\<forall>inp \<in> set inputs. inputOk inp" "b \<in> set (computeBonuses inputs t c g)"
  shows "\<exists>inp \<in> set inputs. rb_referrer b = bi_referrer inp \<and> 0 < rb_amount b \<and>
    rb_amount b \<le> remainingGrantCap (bi_principal inp) (bi_alreadyGrantedToday inp)"
proof -
  define ps where "ps = filter (\<lambda>b. rb_amount b > 0) (map preScaleBonus inputs)"
  define tot where "tot = (\<Sum>b\<leftarrow>ps. rb_amount b)"
  define cap where "cap = poolHeadroom t c g"
  have pre: "\<exists>inp \<in> set inputs. rb_referrer x = bi_referrer inp \<and> 0 < rb_amount x \<and>
      rb_amount x \<le> remainingGrantCap (bi_principal inp) (bi_alreadyGrantedToday inp)" if "x \<in> set ps" for x
    using that assms(1) preScale_bounds unfolding ps_def by fastforce
  have tot: "0 < tot" if "ps \<noteq> []"
  proof -
    obtain y ys where y: "ps = y # ys" using \<open>ps \<noteq> []\<close> by (cases ps) auto
    have "0 \<le> (\<Sum>b\<leftarrow>ys. rb_amount b)" by (intro sum_list_nonneg_int) (use pre y in fastforce)
    moreover have "0 < rb_amount y" using pre[of y] y by auto
    ultimately show ?thesis by (simp add: tot_def y)
  qed
  consider "b \<in> set ps" | x where "x \<in> set ps" "\<not> tot \<le> cap" "rb_referrer b = rb_referrer x"
      "rb_amount b = bigDiv (rb_amount x * cap) tot" "0 < rb_amount b"
    using assms(2) unfolding computeBonuses_def Let_def ps_def[symmetric] tot_def[symmetric] cap_def[symmetric]
    by (auto split: if_splits)
  then show ?thesis
  proof cases
    case 1
    then show ?thesis by (rule pre)
  next
    case (2 x)
    obtain inp where inp: "inp \<in> set inputs" "rb_referrer x = bi_referrer inp" "0 < rb_amount x"
      "rb_amount x \<le> remainingGrantCap (bi_principal inp) (bi_alreadyGrantedToday inp)"
      using pre[OF 2(1)] by blast
    have "ps \<noteq> []" using 2(1) by auto
    then have "rb_amount b \<le> rb_amount x"
      unfolding 2(4) using 2(2) inp(3) tot poolHeadroom_nonneg[of t c g] by (intro scaled_le) (auto simp: cap_def)
    then show ?thesis using inp 2 by auto
  qed
qed

lemma computeBonuses_sum:
  assumes "\<forall>inp \<in> set inputs. inputOk inp"
  shows "(\<Sum>b\<leftarrow>computeBonuses inputs t c g. rb_amount b) \<le> poolHeadroom t c g"
proof -
  define ps where "ps = filter (\<lambda>b. rb_amount b > 0) (map preScaleBonus inputs)"
  define tot where "tot = (\<Sum>b\<leftarrow>ps. rb_amount b)"
  define cap where "cap = poolHeadroom t c g"
  have cap: "0 \<le> cap" by (simp add: cap_def poolHeadroom_nonneg)
  have pos: "\<forall>x \<in> set ps. 0 \<le> rb_amount x" by (auto simp: ps_def)
  have "(\<Sum>b\<leftarrow>filter (\<lambda>b. rb_amount b > 0) (map (\<lambda>b. b\<lparr>rb_amount := bigDiv (rb_amount b * cap) tot,
      rb_uncapped := bigDiv (rb_uncapped b * cap) tot\<rparr>) ps). rb_amount b) \<le> cap" if "\<not> tot \<le> cap"
  proof -
    have "0 < tot" using that cap by simp
    then have nn: "0 \<le> bigDiv (rb_amount x * cap) tot" if "x \<in> set ps" for x
      using pos cap that by (intro bigDiv_ge_0) auto
    then have "(\<Sum>b\<leftarrow>filter (\<lambda>b. rb_amount b > 0) (map (\<lambda>b. b\<lparr>rb_amount := bigDiv (rb_amount b * cap) tot,
      rb_uncapped := bigDiv (rb_uncapped b * cap) tot\<rparr>) ps). rb_amount b)
      = (\<Sum>b\<leftarrow>ps. bigDiv (rb_amount b * cap) tot)"
      by (subst sum_list_filter_pos) (auto simp: o_def)
    then show ?thesis using scaled_sum_le[OF pos, of tot cap] \<open>0 < tot\<close> cap by (simp add: tot_def)
  qed
  then show ?thesis
    unfolding computeBonuses_def Let_def ps_def[symmetric] tot_def[symmetric] cap_def[symmetric]
    using cap by (auto simp: tot_def)
qed

section \<open>Shares\<close>

lemma handOut_sum:
  assumes "distinct rs" "distinct (map sf_referee fs)" "set (map sf_referee fs) \<subseteq> set rs"
    and "0 \<le> left" "left \<le> int (length fs)"
  shows "(\<Sum>r\<leftarrow>rs. getOr (handOut fs left m) r 0) = (\<Sum>r\<leftarrow>rs. getOr m r 0) + left"
  using assms
proof (induction fs arbitrary: left m)
  case (Cons f fs)
  show ?case
  proof (cases "left \<le> 0")
    case False
    let ?m = "m(sf_referee f \<mapsto> getOr m (sf_referee f) 0 + 1)"
    have "(\<Sum>r\<leftarrow>rs. getOr ?m r 0) = (\<Sum>r\<leftarrow>rs. getOr m r 0) + 1"
    proof -
      have "(\<Sum>r\<leftarrow>rs. getOr ?m r 0) = (\<Sum>r\<leftarrow>rs. getOr m r 0 + (if r = sf_referee f then 1 else 0))"
        by (rule arg_cong[of _ _ sum_list], rule map_cong) (auto simp: getOr_def)
      also have "\<dots> = (\<Sum>r\<leftarrow>rs. getOr m r 0) + (\<Sum>r\<leftarrow>rs. if r = sf_referee f then 1 else 0)"
        by (rule sum_list_addf)
      also have "(\<Sum>r\<leftarrow>rs. if r = sf_referee f then 1 else 0) = (1::int)"
        using Cons.prems(1,3) by (simp add: sum_list_distinct_conv_sum_set)
      finally show ?thesis .
    qed
    moreover have "(\<Sum>r\<leftarrow>rs. getOr (handOut fs (left - 1) ?m) r 0) = (\<Sum>r\<leftarrow>rs. getOr ?m r 0) + (left - 1)"
      using Cons.prems False by (intro Cons.IH) auto
    ultimately show ?thesis using False by simp
  qed (use Cons.prems in simp)
qed simp


lemma floors_total:
  assumes "0 < (W::int)"
  shows "W * (\<Sum>w\<leftarrow>ws. (G * sw_weight w) div W) + (\<Sum>w\<leftarrow>ws. (G * sw_weight w) mod W)
    = G * (\<Sum>w\<leftarrow>ws. sw_weight w)"
proof (induction ws)
  case (Cons w ws)
  have "G * sw_weight w = W * (G * sw_weight w div W) + G * sw_weight w mod W" by simp
  with Cons show ?case by (simp add: algebra_simps)
qed simp

lemma mods_lt: "0 < (W::int) \<Longrightarrow> xs \<noteq> [] \<Longrightarrow> (\<Sum>x\<leftarrow>xs. f x mod W) < int (length xs) * W"
proof (induction xs)
  case (Cons x xs)
  have x: "f x mod W < W" using Cons.prems(1) by simp
  have "int (length (x # xs)) * W = W + int (length xs) * W" by (simp add: algebra_simps)
  moreover have "(\<Sum>x\<leftarrow>xs. f x mod W) \<le> int (length xs) * W"
    using Cons.IH Cons.prems(1) by (cases "xs = []") auto
  ultimately show ?case using x by simp
qed simp

lemma fold_amounts:
  assumes "distinct (map sf_referee fs)" "f \<in> set fs"
  shows "fold (\<lambda>f m. m(sf_referee f \<mapsto> sf_amount f)) fs m (sf_referee f) = Some (sf_amount f)"
  using assms
proof (induction fs arbitrary: m)
  case (Cons g gs)
  have keep: "r \<notin> sf_referee ` set hs \<Longrightarrow> fold (\<lambda>f m. m(sf_referee f \<mapsto> sf_amount f)) hs n r = n r" for r hs n
    by (induction hs arbitrary: n) auto
  show ?case
  proof (cases "f = g")
    case True
    then show ?thesis
      using keep[of "sf_referee g" gs "m(sf_referee g \<mapsto> sf_amount g)"] Cons.prems by (simp del: fun_upd_apply) simp
  next
    case False
    then show ?thesis using Cons by auto
  qed
qed simp

lemma splitShares_sum:
  assumes "distinct (map sw_referee ws)" "\<forall>w \<in> set ws. 0 \<le> sw_weight w"
    and G: "0 < G" and W: "0 < (\<Sum>w\<leftarrow>ws. sw_weight w)"
  shows "(\<Sum>s\<leftarrow>splitShares G ws. rs_amount s) = G"
proof -
  define W where "W = (\<Sum>w\<leftarrow>ws. sw_weight w)"
  define fs where "fs = shareFloors G W ws"
  define left where "left = G - (\<Sum>f\<leftarrow>fs. sf_amount f)"
  define m where "m = fold (\<lambda>f m. m(sf_referee f \<mapsto> sf_amount f)) fs (Map.empty :: string \<rightharpoonup> int)"
  define by_rem where "by_rem = sort_key (\<lambda>f. (- sf_remainder f, sf_referee f)) fs"
  have "0 < W" using W by (simp add: W_def)
  have refs: "map sf_referee fs = map sw_referee ws" by (simp add: fs_def shareFloors_def Let_def)
  have amounts: "map sf_amount fs = map (\<lambda>w. (G * sw_weight w) div W) ws"
    using assms(2) G \<open>0 < W\<close> by (simp add: fs_def shareFloors_def Let_def bigDiv_nonneg)
  have ne: "ws \<noteq> []" using W by auto
  let ?D = "\<Sum>w\<leftarrow>ws. (G * sw_weight w) div W" and ?M = "\<Sum>w\<leftarrow>ws. (G * sw_weight w) mod W"
  have sumD: "(\<Sum>f\<leftarrow>fs. sf_amount f) = ?D" by (simp add: amounts)
  have tot: "W * ?D + ?M = G * W" using floors_total[OF \<open>0 < W\<close>, of G ws] by (simp add: W_def[symmetric])
  have "0 \<le> ?M" using \<open>0 < W\<close> by (intro sum_list_nonneg_int) simp
  then have "W * ?D \<le> W * G" using tot by (simp add: mult.commute)
  then have l0: "0 \<le> left" using \<open>0 < W\<close> sumD by (simp add: left_def)
  have "W * left = ?M" using tot sumD by (simp add: left_def algebra_simps)
  also have "\<dots> < int (length ws) * W" using mods_lt[OF \<open>0 < W\<close> ne, of "\<lambda>w. G * sw_weight w"] .
  finally have l1: "left \<le> int (length by_rem)"
    using \<open>0 < W\<close> by (simp add: by_rem_def fs_def shareFloors_def mult.commute)
  have d: "distinct (map sf_referee by_rem)"
  proof -
    have "distinct (map sf_referee fs)" using assms(1) refs by simp
    moreover have "mset (map sf_referee by_rem) = mset (map sf_referee fs)" by (simp add: by_rem_def)
    ultimately show ?thesis using mset_eq_imp_distinct_iff by blast
  qed
  have sub: "set (map sf_referee by_rem) \<subseteq> set (map sw_referee ws)" 
    using arg_cong[OF refs, of set] by (simp add: by_rem_def)
  have "(\<Sum>r\<leftarrow>map sw_referee ws. getOr (handOut by_rem left m) r 0) = (\<Sum>r\<leftarrow>map sw_referee ws. getOr m r 0) + left"
    by (rule handOut_sum[OF assms(1) d sub l0 l1])
  also have "(\<Sum>r\<leftarrow>map sw_referee ws. getOr m r 0) = (\<Sum>f\<leftarrow>fs. sf_amount f)"
  proof -
    have "map (\<lambda>r. getOr m r 0) (map sf_referee fs) = map sf_amount fs"
      using fold_amounts[of fs _ Map.empty] assms(1)[folded refs] by (simp add: m_def getOr_def)
    then show ?thesis unfolding refs[symmetric] by (rule arg_cong)
  qed
  finally show ?thesis
    using G W unfolding splitShares_def Let_def W_def[symmetric] fs_def[symmetric] left_def[symmetric]
      m_def[symmetric] by_rem_def[symmetric]
    by (simp add: o_def left_def)
qed


lemma splitShares_referees: "map rs_referee (splitShares G ws) = map sw_referee ws"
  by (simp add: splitShares_def Let_def o_def)

section \<open>Pages\<close>

lemma findIndex_nth:
  "distinct (map f xs) \<Longrightarrow> i < length xs \<Longrightarrow> findIndex (\<lambda>x. f x = f (xs ! i)) xs = Some i"
proof (induction xs arbitrary: i)
  case (Cons x xs)
  show ?case
  proof (cases i)
    case (Suc j)
    then have "f (xs ! j) \<in> f ` set xs" using Cons.prems by simp
    then have "f x \<noteq> f (xs ! j)" using Cons.prems by auto
    then show ?thesis using Suc Cons by simp
  qed simp
qed simp

lemma sortReferrals_mset: "mset (sortReferrals rs) = mset rs"
  by (simp add: sortReferrals_def)

lemma sortReferrals_distinct: "distinct (map ri_referee rs) \<Longrightarrow> distinct (map ri_referee (sortReferrals rs))"
  using mset_eq_imp_distinct_iff[of "map ri_referee (sortReferrals rs)" "map ri_referee rs"]
  by (simp add: sortReferrals_mset)

text \<open>All pages, following the cursor each page hands out, with one call per referral at most.\<close>

fun pagesFrom :: "nat \<Rightarrow> referral_input list \<Rightarrow> string option \<Rightarrow> nat \<Rightarrow> referral_input list list" where
  "pagesFrom 0 rs cursor limit = []"
| "pagesFrom (Suc fuel) rs cursor limit =
    (case paginateReferrals rs cursor limit of
       (page, None) \<Rightarrow> [page]
     | (page, Some c) \<Rightarrow> page # pagesFrom fuel rs (Some c) limit)"

text \<open>The cursor that points behind the first \<open>k\<close> rows of the sorted list.\<close>

definition cursorAt :: "referral_input list \<Rightarrow> nat \<Rightarrow> string option" where
  "cursorAt srt k = (if k = 0 then None else Some (ri_referee (srt ! (k - 1))))"

lemma paginate_at:
  assumes "distinct (map ri_referee rs)" "k < length rs \<or> k = 0" "0 < limit"
  defines "srt \<equiv> sortReferrals rs"
  shows "paginateReferrals rs (cursorAt srt k) limit =
    (take limit (drop k srt),
     if k + limit < length rs then cursorAt srt (k + limit) else None)"
proof -
  have len: "length srt = length rs" by (simp add: srt_def sortReferrals_def)
  have start: "(case cursorAt srt k of None \<Rightarrow> 0
      | Some c \<Rightarrow> (case findIndex (\<lambda>r. ri_referee r = c) srt of None \<Rightarrow> 0 | Some i \<Rightarrow> i + 1)) = k"
    using assms(2) findIndex_nth[OF sortReferrals_distinct[OF assms(1)], of "k - 1"] len
    by (auto simp: cursorAt_def srt_def)
  have last: "ri_referee (last (take limit (drop k srt))) = ri_referee (srt ! (k + limit - 1))"
    if "k + limit < length rs"
  proof -
    have "take limit (drop k srt) \<noteq> []" using that len assms(3) by simp
    then have "last (take limit (drop k srt)) = take limit (drop k srt) ! (limit - 1)"
      using that len by (simp add: last_conv_nth)
    also have "\<dots> = srt ! (k + limit - 1)" using that len assms(3) by simp
    finally show ?thesis by simp
  qed
  have "paginateReferrals rs (cursorAt srt k) limit =
     (let slice = take (limit + 1) (drop k srt); hasMore = length slice > limit;
          page = (if hasMore then take limit slice else slice)
      in (page, if hasMore then Some (ri_referee (last page)) else None))"
    unfolding paginateReferrals_def Let_def srt_def[symmetric] start ..
  then show ?thesis
    using last len assms(3) by (auto simp: Let_def cursorAt_def min_def)
qed

lemma pagesFrom_concat:
  assumes "distinct (map ri_referee rs)" "0 < limit" "k < length rs \<or> k = 0" "length rs - k < fuel"
  shows "concat (pagesFrom fuel rs (cursorAt (sortReferrals rs) k) limit) = drop k (sortReferrals rs)"
  using assms(3,4)
proof (induction fuel arbitrary: k)
  case (Suc fuel)
  let ?s = "sortReferrals rs"
  have len: "length ?s = length rs" by (simp add: sortReferrals_def)
  note p = paginate_at[OF assms(1) Suc.prems(1) assms(2)]
  show ?case
  proof (cases "k + limit < length rs")
    case True
    have "cursorAt ?s (k + limit) = Some (ri_referee (?s ! (k + limit - 1)))"
      using assms(2) by (simp add: cursorAt_def)
    moreover have "concat (pagesFrom fuel rs (cursorAt ?s (k + limit)) limit) = drop (k + limit) ?s"
      using True Suc.prems assms(2) by (intro Suc.IH) auto
    moreover have "take limit (drop k ?s) @ drop (k + limit) ?s = drop k ?s"
      by (metis add.commute append_take_drop_id drop_drop)
    ultimately show ?thesis using True p by simp
  next
    case False
    then show ?thesis using p len by simp
  qed
qed simp


section \<open>Properties\<close>

text \<open>C11: The event-by-event tracker computes exactly what its documentation promises over a
  referee's whole history: the clock is the time of the first event of the last unbroken run at or
  above the threshold, and is unset below it, so a dip restarts it from zero.\<close>

theorem tracker_computes_held_since:
  "q_aboveSince (trackAll \<lparr>q_principal = 0, q_aboveSince = None\<rparr> es) = heldSince (principalHistory 0 es) \<and>
   (q_aboveSince (trackAll \<lparr>q_principal = 0, q_aboveSince = None\<rparr> es) \<noteq> None \<longleftrightarrow>
    q_principal (trackAll \<lparr>q_principal = 0, q_aboveSince = None\<rparr> es) \<ge> 50000000)"
  using trackAll_heldSince[OF refl, of es] unfolding trackerOk_def REFERRAL_QUALIFY_PRINCIPAL_def by blast

text \<open>The daily bonuses respect every cap at once: each referrer gets a positive amount within
  what their own Principal still allows today, and all of them together fit in what is left of the
  Pool's cap for the Epoch.\<close>

theorem bonuses_within_caps:
  assumes "\<forall>inp \<in> set inputs. inputOk inp"
  shows "(\<forall>b \<in> set (computeBonuses inputs t c g). \<exists>inp \<in> set inputs. rb_referrer b = bi_referrer inp \<and>
      0 < rb_amount b \<and> rb_amount b \<le> remainingGrantCap (bi_principal inp) (bi_alreadyGrantedToday inp)) \<and>
    (\<Sum>b\<leftarrow>computeBonuses inputs t c g. rb_amount b) \<le> poolHeadroom t c g"
  using computeBonuses_member[OF assms] computeBonuses_sum[OF assms] by blast

definition demoInputs :: "bonus_input list" where
  "demoInputs =
    [\<lparr>bi_referrer = ''A'', bi_principal = 9000000000, bi_alreadyGrantedToday = 0,
      bi_qualifiedReferralPrincipals = [60000000, 5000000000]\<rparr>,
     \<lparr>bi_referrer = ''B'', bi_principal = 7000000, bi_alreadyGrantedToday = 0,
      bi_qualifiedReferralPrincipals = [400000000]\<rparr>]"

theorem bonuses_within_caps_witness:
  "map rb_amount (computeBonuses demoInputs 1000000000 100 0) = [8797250, 1202749] \<and>
   (\<Sum>b\<leftarrow>computeBonuses demoInputs 1000000000 100 0. rb_amount b) \<le> poolHeadroom 1000000000 100 0"
proof -
  have "\<forall>inp \<in> set demoInputs. inputOk inp" by (simp add: demoInputs_def inputOk_def)
  from bonuses_within_caps[OF this, of 1000000000 100 0]
  have "(\<Sum>b\<leftarrow>computeBonuses demoInputs 1000000000 100 0. rb_amount b) \<le> poolHeadroom 1000000000 100 0" by blast
  moreover have "map rb_amount (computeBonuses demoInputs 1000000000 100 0) = [8797250, 1202749]" by code_simp
  ultimately show ?thesis by blast
qed

text \<open>Splitting a grant loses nothing and invents nothing: the shares of distinct referees add
  up to the grant exactly, and every referee gets a share, in the given order.\<close>

theorem shares_sum_to_grant:
  assumes "distinct (map sw_referee ws)" "\<forall>w \<in> set ws. 0 \<le> sw_weight w"
    and "0 < G" "0 < (\<Sum>w\<leftarrow>ws. sw_weight w)"
  shows "(\<Sum>s\<leftarrow>splitShares G ws. rs_amount s) = G \<and> map rs_referee (splitShares G ws) = map sw_referee ws"
  using splitShares_sum[OF assms] splitShares_referees by simp

definition demoWeights :: "share_weight list" where
  "demoWeights = [\<lparr>sw_referee = ''a'', sw_weight = 1\<rparr>, \<lparr>sw_referee = ''b'', sw_weight = 1\<rparr>,
     \<lparr>sw_referee = ''c'', sw_weight = 1\<rparr>]"

theorem shares_sum_to_grant_witness:
  "(\<Sum>s\<leftarrow>splitShares 10 demoWeights. rs_amount s) = 10 \<and> map rs_amount (splitShares 10 demoWeights) = [4, 3, 3]"
proof (rule conjI)
  show "(\<Sum>s\<leftarrow>splitShares 10 demoWeights. rs_amount s) = 10"
    using shares_sum_to_grant[of demoWeights 10] by (simp add: demoWeights_def)
  show "map rs_amount (splitShares 10 demoWeights) = [4, 3, 3]" by code_simp
qed

text \<open>The band shown to a referrer is the one they are paid by: its rate is the bonus rate, the
  count lies within its bounds, and the next band starts right above it.\<close>

theorem band_matches_rate:
  assumes "0 \<le> n"
  shows "bd_rateBps (fst (bandForCount n)) = rateBpsFor n \<and> bd_minCount (fst (bandForCount n)) \<le> n \<and>
    (case bd_maxCount (fst (bandForCount n)) of
       Some m \<Rightarrow> n \<le> m \<and> (\<exists>b. snd (bandForCount n) = Some b \<and> bd_minCount b = m + 1 \<and>
                             bd_tier b = bd_tier (fst (bandForCount n)) + 1)
     | None \<Rightarrow> snd (bandForCount n) = None)"
  using assms by (auto simp: bandForCount_def rateBpsFor_def RATE_TIERS_def bandOf_def NO_BAND_def)

theorem band_matches_rate_witness:
  "fst (bandForCount 4) = \<lparr>bd_tier = 2, bd_rateBps = 300, bd_minCount = 3, bd_maxCount = Some 5\<rparr> \<and>
   bd_rateBps (fst (bandForCount 4)) = rateBpsFor 4"
  using band_matches_rate[of 4] by (simp add: bandForCount_def RATE_TIERS_def bandOf_def)

text \<open>Following the cursors visits every referral exactly once, newest first: the pages, read
  one after the other from the first, concatenate to the whole sorted list, and the walk ends.\<close>

theorem pages_cover_all_referrals:
  assumes "distinct (map ri_referee rs)" "0 < limit"
  shows "concat (pagesFrom (length rs + 1) rs None limit) = sortReferrals rs \<and> mset (sortReferrals rs) = mset rs"
  using pagesFrom_concat[OF assms, of 0 "length rs + 1"] by (simp add: cursorAt_def sortReferrals_mset)

theorem pages_cover_all_referrals_witness:
  "concat (pagesFrom 4 [\<lparr>ri_referee = ''x'', ri_aboveSince = None, ri_boundAt = 5, ri_bonusToday = 0\<rparr>,
      \<lparr>ri_referee = ''y'', ri_aboveSince = Some 2, ri_boundAt = 9, ri_bonusToday = 1\<rparr>,
      \<lparr>ri_referee = ''z'', ri_aboveSince = None, ri_boundAt = 7, ri_bonusToday = 0\<rparr>] None 2)
   = sortReferrals [\<lparr>ri_referee = ''x'', ri_aboveSince = None, ri_boundAt = 5, ri_bonusToday = 0\<rparr>,
      \<lparr>ri_referee = ''y'', ri_aboveSince = Some 2, ri_boundAt = 9, ri_bonusToday = 1\<rparr>,
      \<lparr>ri_referee = ''z'', ri_aboveSince = None, ri_boundAt = 7, ri_bonusToday = 0\<rparr>]"
  using pages_cover_all_referrals[of "[\<lparr>ri_referee = ''x'', ri_aboveSince = None, ri_boundAt = 5, ri_bonusToday = 0\<rparr>,
      \<lparr>ri_referee = ''y'', ri_aboveSince = Some 2, ri_boundAt = 9, ri_bonusToday = 1\<rparr>,
      \<lparr>ri_referee = ''z'', ri_aboveSince = None, ri_boundAt = 7, ri_bonusToday = 0\<rparr>]" 2]
  by (simp add: numeral_eq_Suc)

end
