(* ===== verification/Read_Model_Laws.thy ===== *)
theory Read_Model_Laws
  imports Read_Model Referral_Laws
begin

text \<open>
  What the operator may rely on when it asks the Read model: who still has to register, which Rounds
  may be closed, who won, and that the bonus job never hands out more than the caps allow and never
  hands out the same grant twice.
\<close>

section \<open>Registration and Rounds\<close>

lemma playersToRegister_iff:
  "getEpoch pool epochId db = Some epoch \<Longrightarrow>
   owner \<in> set (playersToRegister pool epochId db) \<longleftrightarrow>
   (\<exists>p \<in> set (db_players db). py_poolAddress p = pool \<and> py_owner p = owner \<and> py_regEpoch p \<noteq> epochId \<and>
      registrationWeight p epoch > 0)"
  by (auto simp: playersToRegister_def)

lemma roundsToClose_iff:
  "i \<in> set (roundsToClose pool db) \<longleftrightarrow>
   (\<exists>r \<in> set (db_rounds db). rr_poolAddress r = pool \<and> rr_id r = i \<and> rr_status r \<notin> set LIVE_ROUND_STATUSES \<and>
      \<not> rr_closed r) \<and>
   \<not> (\<exists>p \<in> set (db_positions db). po_poolAddress p = pool \<and> po_roundId p = i)"
proof -
  define rounds where "rounds = map rr_id (sort_key rr_id (filter (\<lambda>r. \<not> rr_closed r) (terminalRounds pool db)))"
  have "i \<in> set (roundsToClose pool db) \<longleftrightarrow> i \<in> set rounds \<and>
      \<not> (\<exists>p \<in> set (db_positions db). po_poolAddress p = pool \<and> po_roundId p = i)"
    unfolding roundsToClose_def Let_def rounds_def[symmetric] by auto
  moreover have "i \<in> set rounds \<longleftrightarrow> (\<exists>r \<in> set (db_rounds db). rr_poolAddress r = pool \<and> rr_id r = i \<and>
      rr_status r \<notin> set LIVE_ROUND_STATUSES \<and> \<not> rr_closed r)"
    by (auto simp: rounds_def terminalRounds_def)
  ultimately show ?thesis by simp
qed

lemma roundsToClose_sorted: "sorted (roundsToClose pool db)"
proof -
  have "sorted (map rr_id (sort_key rr_id xs))" for xs by simp
  then show ?thesis by (simp add: roundsToClose_def Let_def sorted_filter[of id, simplified])
qed

lemma unsettled_not_closable:
  "p \<in> set (unsettledPositions pool db) \<Longrightarrow> po_roundId p \<notin> set (roundsToClose pool db)"
  by (auto simp: roundsToClose_iff unsettledPositions_def Let_def split: if_splits)

section \<open>The bonus job\<close>

lemma epochGrants_mem [simp]:
  "g \<in> set (epochGrants pool e db) \<longleftrightarrow> g \<in> set (db_grants db) \<and> gr_poolAddress g = pool \<and> gr_epochId g = e"
  by (auto simp: epochGrants_def)

lemma clampGrant_Some:
  "clampGrant pool e db g = Some (r, old, new) \<Longrightarrow> r = fst g \<and> old = snd g \<and> new \<le> old \<and>
    (0 < new \<longrightarrow> (\<exists>p. findUnique playerKey (pool, r) (db_players db) = Some p \<and> new \<le> py_principal p \<and>
       py_bonusEpoch p \<noteq> e))"
  by (auto simp: clampGrant_def Let_def remainingGrantCap_def split: if_splits option.splits)

lemma map_filter_mem: "y \<in> set (List.map_filter f xs) \<longleftrightarrow> (\<exists>x \<in> set xs. f x = Some y)"
  by (force simp: List.map_filter_def)

definition afterRecord :: "string \<Rightarrow> int \<Rightarrow> int \<Rightarrow> int \<Rightarrow> pool_row \<Rightarrow> read_model \<Rightarrow> read_model" where
  "afterRecord pool e now q pr db =
    (let bs = newBonuses pool e now q pr db in if bs \<noteq> [] then recordBonuses pool e now q bs db else db)"

definition clampedGrants :: "string \<Rightarrow> int \<Rightarrow> int \<Rightarrow> int \<Rightarrow> pool_row \<Rightarrow> read_model \<Rightarrow> (string \<times> int \<times> int) list" where
  "clampedGrants pool e now q pr db =
    List.map_filter (clampGrant pool e db) (pendingGrants pool e (afterRecord pool e now q pr db))"

lemma referralGrantsDue_eq:
  "findUnique pr_address pool (db_pools db) = Some pr \<Longrightarrow> db_referrals db \<noteq> [] \<Longrightarrow>
   referralGrantsDue pool e now q db =
    (map (\<lambda>(r, old, new). (r, new)) (filter (\<lambda>(r, old, new). \<not> new \<le> 0) (clampedGrants pool e now q pr db)),
     fold (rescaleGrant pool e) (map (\<lambda>(r, old, new). (r, new)) (filter (\<lambda>(r, old, new). new \<noteq> old)
        (clampedGrants pool e now q pr db))) (afterRecord pool e now q pr db))"
  by (simp add: referralGrantsDue_def clampedGrants_def afterRecord_def Let_def)

lemma referralGrantsDue_cases:
  assumes "referralGrantsDue pool e now q db = (due, db')"
  obtains (idle) "due = []" "db' = db"
  | (run) pr where "findUnique pr_address pool (db_pools db) = Some pr" "db_referrals db \<noteq> []"
      "due = map (\<lambda>(r, old, new). (r, new)) (filter (\<lambda>(r, old, new). \<not> new \<le> 0) (clampedGrants pool e now q pr db))"
      "db' = fold (rescaleGrant pool e) (map (\<lambda>(r, old, new). (r, new)) (filter (\<lambda>(r, old, new). new \<noteq> old)
        (clampedGrants pool e now q pr db))) (afterRecord pool e now q pr db)"
  using assms
proof (cases "findUnique pr_address pool (db_pools db)")
  case None
  then show ?thesis using assms idle by (simp add: referralGrantsDue_def)
next
  case (Some pr)
  show ?thesis
  proof (cases "db_referrals db = []")
    case True
    then show ?thesis using Some assms idle by (simp add: referralGrantsDue_def)
  next
    case False
    then show ?thesis using run[OF Some False] assms referralGrantsDue_eq[OF Some False, of e now q] by simp
  qed
qed

lemma due_sound:
  assumes "referralGrantsDue pool e now q db = (due, db')" "(r, a) \<in> set due"
  shows "0 < a \<and> (\<exists>p. findUnique playerKey (pool, r) (db_players db) = Some p \<and> a \<le> py_principal p \<and> py_bonusEpoch p \<noteq> e)"
  using assms(1)
proof (cases rule: referralGrantsDue_cases)
  case (run pr)
  then obtain old where o: "(r, old, a) \<in> set (clampedGrants pool e now q pr db)" "\<not> a \<le> 0" using assms(2) by auto
  then obtain g where "clampGrant pool e db g = Some (r, old, a)"
    by (auto simp: clampedGrants_def map_filter_mem)
  then show ?thesis using clampGrant_Some[of pool e db g r old a] o(2) by auto
qed (use assms(2) in simp)

lemma clamped_pending:
  "(r, old, new) \<in> set (clampedGrants pool e now q pr db) \<Longrightarrow>
   \<exists>g \<in> set (db_grants (afterRecord pool e now q pr db)). grantKey g = (pool, e, r) \<and> gr_txSig g = None \<and> gr_amount g = old \<and> new \<le> old"
  by (auto simp: clampedGrants_def map_filter_mem pendingGrants_def grantKey_def dest!: clampGrant_Some)


section \<open>Unique keys are kept\<close>

definition mkGrant :: "string \<Rightarrow> int \<Rightarrow> referrer_bonus \<Rightarrow> grant_row" where
  "mkGrant pool e b =
    \<lparr>gr_poolAddress = pool, gr_epochId = e, gr_referrer = rb_referrer b, gr_amount = rb_amount b,
     gr_uncapped = rb_uncapped b, gr_qualifiedCount = rb_qualifiedCount b, gr_rateBps = rb_rateBps b,
     gr_txSig = None\<rparr>"

lemma recordBonuses_grants:
  "db_grants (recordBonuses pool e now q bs db) = fold (\<lambda>b. createIfAbsent grantKey (mkGrant pool e b)) bs (db_grants db)"
  by (simp add: recordBonuses_def Let_def mkGrant_def)


lemma fold_createIfAbsent_unique: "uniqueBy key t \<Longrightarrow> uniqueBy key (fold (\<lambda>b. createIfAbsent key (f b)) bs t)"
  by (induction bs arbitrary: t) (auto simp: uniqueBy_createIfAbsent)

lemma fold_createIfAbsent_keeps: "g \<in> set t \<Longrightarrow> g \<in> set (fold (\<lambda>b. createIfAbsent key (f b)) bs t)"
  by (induction bs arbitrary: t) (auto simp: createIfAbsent_keeps)

lemma afterRecord_unique:
  "uniqueBy grantKey (db_grants db) \<Longrightarrow> uniqueBy grantKey (db_grants (afterRecord pool e now q pr db))"
  by (simp add: afterRecord_def Let_def recordBonuses_grants fold_createIfAbsent_unique)

lemma afterRecord_keeps:
  "g \<in> set (db_grants db) \<Longrightarrow> g \<in> set (db_grants (afterRecord pool e now q pr db))"
  by (simp add: afterRecord_def Let_def recordBonuses_grants fold_createIfAbsent_keeps)

lemma rescaleGrant_grants:
  "db_grants (rescaleGrant pool e g db) =
    updateRows (\<lambda>r. grantKey r = (pool, e, fst g)) (\<lambda>r. r\<lparr>gr_amount := snd g\<rparr>) (db_grants db)"
  by (simp add: rescaleGrant_def Let_def)

lemma grantKey_amount [simp]: "grantKey (r\<lparr>gr_amount := a\<rparr>) = grantKey r"
  by (simp add: grantKey_def)

lemma rescaleGrant_unique:
  "uniqueBy grantKey (db_grants db) \<Longrightarrow> uniqueBy grantKey (db_grants (rescaleGrant pool e g db))"
  unfolding rescaleGrant_grants by (rule uniqueBy_updateRows) simp_all

lemma fold_rescale_unique:
  "uniqueBy grantKey (db_grants db) \<Longrightarrow> uniqueBy grantKey (db_grants (fold (rescaleGrant pool e) gs db))"
  by (induction gs arbitrary: db) (auto simp: rescaleGrant_unique)

lemma referralGrantsDue_unique:
  assumes "referralGrantsDue pool e now q db = (due, db')" "uniqueBy grantKey (db_grants db)"
  shows "uniqueBy grantKey (db_grants db')"
  using assms(1)
  by (cases rule: referralGrantsDue_cases) (use assms(2) in \<open>auto simp: afterRecord_unique fold_rescale_unique\<close>)

text \<open>A grant once marked as sent is never handed back, whatever else changed in the meantime.\<close>

lemma sent_not_due:
  assumes "uniqueBy grantKey (db_grants db)" "g \<in> set (db_grants db)" "grantKey g = (pool, e, r)" "gr_txSig g \<noteq> None"
    and "referralGrantsDue pool e now q db = (due, db')"
  shows "r \<notin> fst ` set due"
  using assms(5)
proof (cases rule: referralGrantsDue_cases)
  case (run pr)
  show ?thesis
  proof
    assume "r \<in> fst ` set due"
    then obtain old new where "(r, old, new) \<in> set (clampedGrants pool e now q pr db)" using run(3) by auto
    then obtain h where h: "h \<in> set (db_grants (afterRecord pool e now q pr db))" "grantKey h = (pool, e, r)" "gr_txSig h = None"
      using clamped_pending by blast
    moreover have "g \<in> set (db_grants (afterRecord pool e now q pr db))" using assms(2) by (rule afterRecord_keeps)
    ultimately have "h = g"
      using list_table.row_get[OF afterRecord_unique[OF assms(1)], of h pool e now q pr]
        list_table.row_get[OF afterRecord_unique[OF assms(1)], of g pool e now q pr] assms(3) by simp
    then show False using h assms(4) by simp
  qed
qed simp

lemma due_recorded:
  assumes "referralGrantsDue pool e now q db = (due, db')" "r \<in> fst ` set due"
  shows "\<exists>g \<in> set (db_grants db'). grantKey g = (pool, e, r)"
  using assms(1)
proof (cases rule: referralGrantsDue_cases)
  case (run pr)
  obtain old new where "(r, old, new) \<in> set (clampedGrants pool e now q pr db)" using run(3) assms(2) by auto
  then have "(pool, e, r) \<in> grantKey ` set (db_grants (afterRecord pool e now q pr db))"
    using clamped_pending by force
  moreover have "map grantKey (db_grants (rescaleGrant pool e c d)) = map grantKey (db_grants d)" for c d
    by (simp add: rescaleGrant_grants updateRows_def)
  then have "grantKey ` set (db_grants (rescaleGrant pool e c d)) = grantKey ` set (db_grants d)" for c d
    by (metis set_map)
  then have "grantKey ` set (db_grants (fold (rescaleGrant pool e) cs d)) = grantKey ` set (db_grants d)" for cs d
    by (induction cs arbitrary: d) simp_all
  ultimately have "(pool, e, r) \<in> grantKey ` set (db_grants db')" unfolding run(4) by simp
  then show ?thesis by auto
qed (use assms(2) in simp)


section \<open>The Epoch's total\<close>

definition grantSum :: "string \<Rightarrow> int \<Rightarrow> grant_row list \<Rightarrow> int" where
  "grantSum pool e t = (\<Sum>g\<leftarrow>filter (\<lambda>g. gr_poolAddress g = pool \<and> gr_epochId g = e) t. gr_amount g)"

lemma epochTotal_grantSum: "epochTotal pool e db = grantSum pool e (db_grants db)"
  by (simp add: epochTotal_def epochGrants_def grantSum_def)

lemma grantSum_createIfAbsent: "0 \<le> gr_amount r \<Longrightarrow> grantSum pool e (createIfAbsent grantKey r t) \<le> grantSum pool e t + gr_amount r"
  by (auto simp: grantSum_def createIfAbsent_def)

lemma grantSum_fold_create:
  "(\<And>b. b \<in> set bs \<Longrightarrow> 0 \<le> gr_amount (f b)) \<Longrightarrow>
   grantSum pool e (fold (\<lambda>b. createIfAbsent grantKey (f b)) bs t) \<le> grantSum pool e t + (\<Sum>b\<leftarrow>bs. gr_amount (f b))"
proof (induction bs arbitrary: t)
  case (Cons b bs)
  have "grantSum pool e (fold (\<lambda>b. createIfAbsent grantKey (f b)) bs (createIfAbsent grantKey (f b) t))
      \<le> grantSum pool e (createIfAbsent grantKey (f b) t) + (\<Sum>b\<leftarrow>bs. gr_amount (f b))"
    using Cons by simp
  moreover have "grantSum pool e (createIfAbsent grantKey (f b) t) \<le> grantSum pool e t + gr_amount (f b)"
    using Cons.prems by (intro grantSum_createIfAbsent) simp
  ultimately show ?case by simp
qed simp

definition modelOk :: "string \<Rightarrow> read_model \<Rightarrow> bool" where
  "modelOk pool db \<longleftrightarrow> uniqueBy grantKey (db_grants db) \<and> (\<forall>r \<in> set (db_referrals db). 0 \<le> rl_principal r) \<and>
     (\<forall>p \<in> set (db_players db). 0 \<le> py_bonusGranted p)"

lemma bonusInput_ok: "modelOk pool db \<Longrightarrow> inputOk (bonusInput pool e now q db r)"
  by (auto simp: modelOk_def bonusInput_def inputOk_def qualifiedRefs_def referralsOf_def Let_def
      dest!: findUnique_Some split: option.splits)

lemma newBonuses_ok:
  assumes "modelOk pool db"
  shows "\<forall>b \<in> set (newBonuses pool e now q pr db). 0 < rb_amount b"
    and "(\<Sum>b\<leftarrow>newBonuses pool e now q pr db. rb_amount b)
      \<le> poolHeadroom (pr_totalPrincipal pr) (pr_bonusCapBps pr) (epochTotal pool e db)"
proof -
  define inputs where "inputs = filter (\<lambda>i. bi_referrer i \<notin> set (map gr_referrer (epochGrants pool e db)))
     (map (bonusInput pool e now q db) (firstOccurrences (map rl_referrer (db_referrals db))))"
  have ok: "\<forall>i \<in> set inputs. inputOk i" using bonusInput_ok[OF assms] by (auto simp: inputs_def)
  have "newBonuses pool e now q pr db = computeBonuses inputs (pr_totalPrincipal pr) (pr_bonusCapBps pr) (epochTotal pool e db)"
    by (simp add: newBonuses_def inputs_def Let_def)
  then show "\<forall>b \<in> set (newBonuses pool e now q pr db). 0 < rb_amount b"
    "(\<Sum>b\<leftarrow>newBonuses pool e now q pr db. rb_amount b)
      \<le> poolHeadroom (pr_totalPrincipal pr) (pr_bonusCapBps pr) (epochTotal pool e db)"
    using computeBonuses_member[OF ok] computeBonuses_sum[OF ok] by auto
qed

lemma afterRecord_total:
  assumes "modelOk pool db"
  shows "epochTotal pool e (afterRecord pool e now q pr db)
    \<le> max (epochTotal pool e db) (bigDiv (pr_totalPrincipal pr * pr_bonusCapBps pr) 10000)"
proof -
  let ?bs = "newBonuses pool e now q pr db"
  have "epochTotal pool e (afterRecord pool e now q pr db) \<le> epochTotal pool e db + (\<Sum>b\<leftarrow>?bs. rb_amount b)"
  proof (cases "?bs = []")
    case False
    then have "db_grants (afterRecord pool e now q pr db)
        = fold (\<lambda>b. createIfAbsent grantKey (mkGrant pool e b)) ?bs (db_grants db)"
      by (simp add: afterRecord_def recordBonuses_grants)
    moreover have "gr_amount (mkGrant pool e b) = rb_amount b" for b by (simp add: mkGrant_def)
    moreover have "0 \<le> rb_amount b" if "b \<in> set ?bs" for b
      using newBonuses_ok(1)[OF assms, of e now q pr] that by auto
    ultimately show ?thesis
      unfolding epochTotal_grantSum
      using grantSum_fold_create[of ?bs "mkGrant pool e" pool e "db_grants db"] by simp
  qed (simp add: afterRecord_def)
  then show ?thesis
    using newBonuses_ok(2)[OF assms, of e now q pr] by (auto simp: poolHeadroom_def Let_def split: if_splits)
qed

lemma grantSum_update:
  assumes "\<And>g. g \<in> set t \<Longrightarrow> grantKey g = (pool, e, r) \<Longrightarrow> a \<le> gr_amount g"
  shows "grantSum pool e (updateRows (\<lambda>g. grantKey g = (pool, e, r)) (\<lambda>g. g\<lparr>gr_amount := a\<rparr>) t) \<le> grantSum pool e t"
  using assms
proof (induction t)
  case (Cons g t)
  have "a \<le> gr_amount g" if "grantKey g = (pool, e, r)" using Cons.prems that by simp
  moreover have "grantSum pool e (updateRows (\<lambda>g. grantKey g = (pool, e, r)) (\<lambda>g. g\<lparr>gr_amount := a\<rparr>) t) \<le> grantSum pool e t"
    using Cons by simp
  ultimately show ?case by (auto simp: grantSum_def updateRows_def grantKey_def)
qed (simp add: updateRows_def)

lemma fold_rescale_total:
  assumes "distinct (map fst cs)"
    and "\<And>c g. c \<in> set cs \<Longrightarrow> g \<in> set (db_grants d) \<Longrightarrow> grantKey g = (pool, e, fst c) \<Longrightarrow> snd c \<le> gr_amount g"
  shows "epochTotal pool e (fold (rescaleGrant pool e) cs d) \<le> epochTotal pool e d"
  using assms
proof (induction cs arbitrary: d)
  case (Cons c cs)
  have "epochTotal pool e (rescaleGrant pool e c d) \<le> epochTotal pool e d"
    unfolding epochTotal_grantSum rescaleGrant_grants using Cons.prems(2) by (intro grantSum_update) simp
  moreover have "epochTotal pool e (fold (rescaleGrant pool e) cs (rescaleGrant pool e c d))
      \<le> epochTotal pool e (rescaleGrant pool e c d)"
  proof (rule Cons.IH)
    show "distinct (map fst cs)" using Cons.prems(1) by simp
    fix c' g assume c': "c' \<in> set cs" "g \<in> set (db_grants (rescaleGrant pool e c d))" "grantKey g = (pool, e, fst c')"
    then have "fst c' \<noteq> fst c" using Cons.prems(1) by (metis distinct.simps(2) image_eqI list.map(2) set_map)
    then have "g \<in> set (db_grants d)" using c' by (auto simp: rescaleGrant_grants updateRows_def split: if_splits)
    then show "snd c' \<le> gr_amount g" using Cons.prems(2) c' by simp
  qed
  ultimately show ?case by simp
qed simp


lemma clamped_distinct:
  assumes "uniqueBy grantKey (db_grants db)"
  shows "distinct (map fst (clampedGrants pool e now q pr db))"
proof -
  define t where "t = db_grants (afterRecord pool e now q pr db)"
  have u: "distinct (map grantKey t)"
    using afterRecord_unique[OF assms] by (simp add: t_def uniqueBy_def)
  have "distinct (map gr_referrer (filter (\<lambda>g. gr_poolAddress g = pool \<and> gr_epochId g = e) t))"
    using u by (auto simp: distinct_map inj_on_def grantKey_def)
  then have "distinct (map gr_referrer (filter (\<lambda>g. gr_txSig g = None)
      (filter (\<lambda>g. gr_poolAddress g = pool \<and> gr_epochId g = e) t)))" by (rule distinct_map_filter)
  then have d: "distinct (map fst (pendingGrants pool e (afterRecord pool e now q pr db)))"
    unfolding pendingGrants_def epochGrants_def t_def[symmetric]
    by (simp add: o_def distinct_map)
  have "distinct (map fst (List.map_filter (clampGrant pool e db) xs))" if "distinct (map fst xs)" for xs
    using that
  proof (induction xs)
    case (Cons x xs)
    have "fst y \<noteq> fst x" if mem: "y \<in> set (List.map_filter (clampGrant pool e db) xs)" for y
    proof -
      obtain z where "z \<in> set xs" "clampGrant pool e db z = Some y" using mem by (auto simp: map_filter_mem)
      then have "fst y = fst z" "fst z \<in> fst ` set xs"
        using clampGrant_Some[of pool e db z "fst y" "fst (snd y)" "snd (snd y)"] by simp_all
      moreover have "fst x \<notin> fst ` set xs" using Cons.prems by simp
      ultimately show ?thesis by metis
    qed
    then have "fst x \<notin> fst ` set (List.map_filter (clampGrant pool e db) xs)" by (metis imageE)
    moreover have "fst y = fst x" if "clampGrant pool e db x = Some y" for y
      using that clampGrant_Some[of pool e db x "fst y" "fst (snd y)" "snd (snd y)"] by simp
    ultimately show ?case using Cons
      by (cases "clampGrant pool e db x") (simp_all add: List.map_filter_simps)
  qed (simp add: List.map_filter_simps)
  then show ?thesis using d by (simp add: clampedGrants_def)
qed

lemma due_total:
  assumes ok: "modelOk pool db" and r: "referralGrantsDue pool e now q db = (due, db')"
    and pr: "findUnique pr_address pool (db_pools db) = Some pr"
  shows "epochTotal pool e db' \<le> max (epochTotal pool e db) (bigDiv (pr_totalPrincipal pr * pr_bonusCapBps pr) 10000)"
  using r
proof (cases rule: referralGrantsDue_cases)
  case (run pr')
  have uniq: "uniqueBy grantKey (db_grants db)" using ok by (simp add: modelOk_def)
  define ch where "ch = filter (\<lambda>(r, old, new). new \<noteq> old) (clampedGrants pool e now q pr db)"
  define cs where "cs = map (\<lambda>(r, old, new). (r, new)) ch"
  have "pr' = pr" using run(1) pr by simp
  then have db': "db' = fold (rescaleGrant pool e) cs (afterRecord pool e now q pr db)"
    using run(4) by (simp add: cs_def ch_def)
  have "map fst cs = map fst ch" by (simp add: cs_def o_def case_prod_beta)
  then have "distinct (map fst cs)"
    using clamped_distinct[OF uniq] by (simp add: ch_def distinct_map_filter)
  moreover have "snd c \<le> gr_amount g"
    if mem: "c \<in> set cs" and g: "g \<in> set (db_grants (afterRecord pool e now q pr db))" "grantKey g = (pool, e, fst c)" for c g
  proof -
    obtain old where "(fst c, old, snd c) \<in> set (clampedGrants pool e now q pr db)"
      using mem by (auto simp: cs_def ch_def)
    then obtain h where h: "h \<in> set (db_grants (afterRecord pool e now q pr db))" "grantKey h = (pool, e, fst c)" "snd c \<le> gr_amount h"
      using clamped_pending by blast
    then have "h = g"
      using list_table.row_get[OF afterRecord_unique[OF uniq], of h pool e now q pr]
        list_table.row_get[OF afterRecord_unique[OF uniq], of g pool e now q pr] g by simp
    then show ?thesis using h by simp
  qed
  ultimately have "epochTotal pool e db' \<le> epochTotal pool e (afterRecord pool e now q pr db)"
    unfolding db' by (intro fold_rescale_total) auto
  then show ?thesis using afterRecord_total[OF ok, of e now q pr] by simp
qed (simp add: epochTotal_grantSum)


section \<open>Concrete rows\<close>

definition demoB58 :: "pubkey \<Rightarrow> string" where
  "demoB58 k = (if k = [1] then ''A'' else if k = [2] then ''B'' else ''C'')"

definition demoAccount :: "pubkey \<Rightarrow> int \<Rightarrow> int \<Rightarrow> int \<Rightarrow> int \<Rightarrow> decoded_player" where
  "demoAccount k deposit reg s t =
    \<lparr>dy_owner = k, dy_principal = deposit, dy_entries = deposit, dy_weightAcc = 0, dy_lastUpdate = 0, dy_epochId = 3,
     dy_frozenWeight = 0, dy_frozenEpoch = 0, dy_regEpoch = reg, dy_regStart = s, dy_regEnd = t, dy_isHouse = False,
     dy_pendingWithdraw = 0, dy_pendingEpoch = 0, dy_principalAcc = 0, dy_frozenPrincipalAcc = 0, dy_yieldEpoch = 0,
     dy_boughtEpoch = 0, dy_boughtAmount = 0, dy_bonusEpoch = 0, dy_bonusGranted = 0\<rparr>"

definition demoAccounts :: "decoded_player list" where
  "demoAccounts = [demoAccount [1] 9000000 3 0 50, demoAccount [2] 60000000 2 0 0, demoAccount [3] 0 2 0 0]"

definition demoPoolRow :: pool_row where
  "demoPoolRow =
    \<lparr>pr_address = ''pool'', pr_poolId = 0, pr_admin = ''ad'', pr_operator = ''op'', pr_pendingAdmin = None,
     pr_mint = ''usdc'', pr_pendingWithdrawals = 0, pr_minJackpot = 1, pr_epochSeconds = 100, pr_epochAnchor = 0,
     pr_roundSeconds = 60, pr_closeBuffer = 5, pr_minDeposit = 1, pr_houseCutBps = 100, pr_paused = False,
     pr_currentEpochId = 3, pr_currentEpochEndsAt = 400, pr_previousEpochEndsAt = 300,
     pr_totalPrincipal = 69000000, pr_carryPot = 0, pr_baseRateBps = 0, pr_yieldBudget = 0,
     pr_ticketsPerUsdc = 1, pr_bonusCapBps = 100, pr_bonusEpoch = 0, pr_bonusGranted = 0, pr_version = 1,
     pr_shutdown = False, pr_gamePaused = False, pr_jackpotPaused = False, pr_updatedSlot = 0\<rparr>"

definition demoDb :: read_model where
  "demoDb = \<lparr>db_pools = [demoPoolRow],
     db_epochs = [\<lparr>er_poolAddress = ''pool'', er_id = 3, er_startsAt = 300, er_endsAt = 400, er_status = 0,
        er_registeredWeight = 0, er_registeredCount = 0, er_jackpotAmount = 0, er_target = 0, er_winner = None\<rparr>],
     db_rounds = [], db_players = map (\<lambda>a. playerRow demoB58 a ''pool'') demoAccounts, db_positions = [],
     db_events = [], db_cursors = [],
     db_referrals = [\<lparr>rl_referee = ''B'', rl_referrer = ''A'', rl_code = ''CODE'', rl_boundAt = 0,
        rl_aboveSince = Some 0, rl_principal = 60000000\<rparr>],
     db_grants = [], db_shares = []\<rparr>"

section \<open>Properties\<close>

text \<open>The registration list is exact: for a mirrored Epoch it holds precisely the owners of the
  Active pool's Players that are not registered for it and whose weight in it is positive; a
  zero-weight owner (the House, most often) is never returned, and nobody with weight is left out.\<close>

theorem players_to_register_exact:
  assumes "getEpoch pool epochId db = Some epoch"
  shows "owner \<in> set (playersToRegister pool epochId db) \<longleftrightarrow>
    (\<exists>p \<in> set (db_players db). py_poolAddress p = pool \<and> py_owner p = owner \<and> py_regEpoch p \<noteq> epochId \<and>
       registrationWeight p epoch > 0)"
  using playersToRegister_iff[OF assms] .

theorem players_to_register_exact_witness:
  "playersToRegister ''pool'' 3 demoDb = [''B''] \<and>
   (\<exists>p \<in> set (db_players demoDb). py_poolAddress p = ''pool'' \<and> py_owner p = ''B'' \<and> py_regEpoch p \<noteq> 3 \<and>
      registrationWeight p (hd (db_epochs demoDb)) > 0)"
proof -
  have r: "playersToRegister ''pool'' 3 demoDb = [''B'']" by code_simp
  have "getEpoch ''pool'' 3 demoDb = Some (hd (db_epochs demoDb))" by code_simp
  from players_to_register_exact[OF this, of "''B''"] r show ?thesis by simp
qed

text \<open>A Round handed to \<open>close_round\<close> is terminal, not yet closed, and holds no Position, so it
  is never one the sweep still owes a settlement; the list is in id order.\<close>

theorem closable_rounds_are_empty:
  "sorted (roundsToClose pool db) \<and>
   set (roundsToClose pool db) \<inter> po_roundId ` set (unsettledPositions pool db) = {} \<and>
   set (roundsToClose pool db) = {rr_id r | r. r \<in> set (db_rounds db) \<and> rr_poolAddress r = pool \<and>
      rr_status r \<notin> set LIVE_ROUND_STATUSES \<and> \<not> rr_closed r \<and>
      filter (\<lambda>p. po_poolAddress p = pool \<and> po_roundId p = rr_id r) (db_positions db) = []}"
proof -
  have "set (roundsToClose pool db) \<inter> po_roundId ` set (unsettledPositions pool db) = {}"
    using unsettled_not_closable by blast
  moreover have "set (roundsToClose pool db) = {rr_id r | r. r \<in> set (db_rounds db) \<and> rr_poolAddress r = pool \<and>
      rr_status r \<notin> set LIVE_ROUND_STATUSES \<and> \<not> rr_closed r \<and>
      filter (\<lambda>p. po_poolAddress p = pool \<and> po_roundId p = rr_id r) (db_positions db) = []}"
    (is "_ = ?S")
  proof (rule set_eqI)
    fix i show "i \<in> set (roundsToClose pool db) \<longleftrightarrow> i \<in> ?S"
      unfolding roundsToClose_iff mem_Collect_eq filter_empty_conv by metis
  qed
  ultimately show ?thesis by (intro conjI roundsToClose_sorted)
qed

text \<open>The winner the mirror names is the winner the chain scan names whenever the mirror is
  current, so the fallback never changes the answer; and when the registered intervals of the Epoch
  do not overlap, it is the owner of the one interval that holds the target.\<close>

theorem winner_lookup_agrees:
  assumes "db_players db = map (\<lambda>a. playerRow b58 a pool) accounts"
    and "\<And>a b. a \<in> set accounts \<Longrightarrow> b \<in> set accounts \<Longrightarrow> a \<noteq> b \<Longrightarrow> dy_regEpoch a = epochId \<Longrightarrow>
      dy_regEpoch b = epochId \<Longrightarrow> dy_regEnd a \<le> dy_regStart b \<or> dy_regEnd b \<le> dy_regStart a"
    and "a \<in> set accounts" "dy_regEpoch a = epochId" "dy_regStart a \<le> target" "target < dy_regEnd a"
  shows "winnerRow pool epochId target db = Some (b58 (dy_owner a)) \<and>
    winnerOnChain b58 accounts epochId target = Some (b58 (dy_owner a))"
proof -
  let ?P = "\<lambda>a. dy_regEpoch a = epochId \<and> target \<ge> dy_regStart a \<and> target < dy_regEnd a"
  have fm: "find Q (map f xs) = map_option f (find (Q \<circ> f) xs)" for Q and f :: "decoded_player \<Rightarrow> player_row" and xs
    by (induction xs) auto
  have same: "winnerRow pool epochId target db = winnerOnChain b58 accounts epochId target"
    by (simp add: winnerRow_def winnerOnChain_def assms(1) fm o_def playerRow_def option.map_comp)
  have "find ?P accounts \<noteq> None" using assms(3-6) by (auto simp: find_None_iff)
  then obtain b where b: "find ?P accounts = Some b" by blast
  then have "?P b" "b \<in> set accounts" by (auto simp: find_Some_iff)
  then have "b = a" using assms(2)[of a b] assms(3-6) by force
  then show ?thesis using same b by (simp add: winnerOnChain_def)
qed

theorem winner_lookup_agrees_witness:
  "winnerRow ''pool'' 3 20 demoDb = Some ''A'' \<and> winnerOnChain demoB58 demoAccounts 3 20 = Some ''A''"
proof -
  let ?a = "demoAccount [1] 9000000 3 0 50"
  have one: "c = ?a" if "c \<in> set demoAccounts" "dy_regEpoch c = 3" for c
    using that by (auto simp: demoAccounts_def demoAccount_def)
  have "db_players demoDb = map (\<lambda>a. playerRow demoB58 a ''pool'') demoAccounts" by (simp add: demoDb_def)
  moreover have "?a \<in> set demoAccounts" by (simp add: demoAccounts_def)
  moreover have "dy_regEpoch ?a = 3" "dy_regStart ?a \<le> 20" "20 < dy_regEnd ?a" "demoB58 (dy_owner ?a) = ''A''"
    by (simp_all add: demoAccount_def demoB58_def)
  ultimately show ?thesis
    using winner_lookup_agrees[of demoDb demoB58 "''pool''" demoAccounts 3 ?a 20] one by metis
qed

text \<open>C10: The bonus job never overspends: every amount it hands back is positive and within the
  referrer's current Principal, only for a referrer with a Player that was not granted on chain this
  Epoch, and all amounts recorded for the Epoch together stay within the Pool's cap (or within what
  was already recorded, when the cap has shrunk below it).\<close>

theorem grants_due_within_caps:
  assumes "modelOk pool db" "findUnique pr_address pool (db_pools db) = Some pr"
    and "referralGrantsDue pool e now q db = (due, db')"
  shows "(\<forall>(r, a) \<in> set due. 0 < a \<and> (\<exists>p. findUnique playerKey (pool, r) (db_players db) = Some p \<and>
      a \<le> py_principal p \<and> py_bonusEpoch p \<noteq> e)) \<and>
    epochTotal pool e db' \<le> max (epochTotal pool e db) (bigDiv (pr_totalPrincipal pr * pr_bonusCapBps pr) 10000)"
  using due_sound[OF assms(3)] due_total[OF assms(1,3,2)] by blast

theorem grants_due_within_caps_witness:
  "fst (referralGrantsDue ''pool'' 3 2000000 86400 demoDb) = [(''A'', 690000)] \<and>
   epochTotal ''pool'' 3 (snd (referralGrantsDue ''pool'' 3 2000000 86400 demoDb)) \<le> 690000"
proof -
  have "modelOk ''pool'' demoDb" "findUnique pr_address ''pool'' (db_pools demoDb) = Some demoPoolRow" by code_simp+
  from grants_due_within_caps[OF this, of 3 2000000 86400 "fst (referralGrantsDue ''pool'' 3 2000000 86400 demoDb)"
      "snd (referralGrantsDue ''pool'' 3 2000000 86400 demoDb)"]
  have "epochTotal ''pool'' 3 (snd (referralGrantsDue ''pool'' 3 2000000 86400 demoDb))
      \<le> max (epochTotal ''pool'' 3 demoDb) (bigDiv (pr_totalPrincipal demoPoolRow * pr_bonusCapBps demoPoolRow) 10000)"
    by simp
  moreover have "max (epochTotal ''pool'' 3 demoDb) (bigDiv (pr_totalPrincipal demoPoolRow * pr_bonusCapBps demoPoolRow) 10000) = 690000"
    by code_simp
  moreover have "fst (referralGrantsDue ''pool'' 3 2000000 86400 demoDb) = [(''A'', 690000)]" by code_simp
  ultimately show ?thesis by simp
qed

text \<open>No grant is paid twice: once a batch of grants has been marked as sent, no later call of the
  job for the same Epoch hands any of its referrers back, however the mirrored accounts, the referrals
  or the clock have changed, because the recorded row survives.\<close>

theorem no_double_grant:
  assumes "uniqueBy grantKey (db_grants db)" "referralGrantsDue pool e now q db = (due, db1)"
    and "set batch \<subseteq> fst ` set due" "db_grants db2 = db_grants (markReferralGrantsSent pool e batch sig db1)"
    and "referralGrantsDue pool e now' q' db2 = (due', db3)"
  shows "set batch \<inter> fst ` set due' = {}"
proof -
  have u1: "uniqueBy grantKey (db_grants db1)" using referralGrantsDue_unique[OF assms(2,1)] .
  have u2: "uniqueBy grantKey (db_grants db2)"
    unfolding assms(4) markReferralGrantsSent_def by (simp, rule uniqueBy_updateRows[OF _ u1]) (simp add: grantKey_def)
  have "r \<notin> fst ` set due'" if r: "r \<in> set batch" for r
  proof -
    obtain g where g: "g \<in> set (db_grants db1)" "grantKey g = (pool, e, r)"
      using due_recorded[OF assms(2), of r] assms(3) r by blast
    then have "g\<lparr>gr_txSig := Some sig\<rparr> \<in> set (db_grants db2)"
      using r unfolding assms(4) markReferralGrantsSent_def updateRows_def by (auto simp: grantKey_def image_iff intro!: bexI[of _ g])
    then show ?thesis using sent_not_due[OF u2 _ _ _ assms(5), of "g\<lparr>gr_txSig := Some sig\<rparr>" r] g(2) by (simp add: grantKey_def)
  qed
  then show ?thesis by blast
qed

theorem no_double_grant_witness:
  "fst (referralGrantsDue ''pool'' 3 2000000 86400 demoDb) = [(''A'', 690000)] \<and>
   ''A'' \<notin> fst ` set (fst (referralGrantsDue ''pool'' 3 2000009 86400
     (markReferralGrantsSent ''pool'' 3 [''A''] ''sig'' (snd (referralGrantsDue ''pool'' 3 2000000 86400 demoDb)))))"
proof -
  have u: "uniqueBy grantKey (db_grants demoDb)" by code_simp
  have f: "fst (referralGrantsDue ''pool'' 3 2000000 86400 demoDb) = [(''A'', 690000)]" by code_simp
  have sub: "set [''A''] \<subseteq> fst ` set (fst (referralGrantsDue ''pool'' 3 2000000 86400 demoDb))" by (simp add: f)
  have "set [''A''] \<inter> fst ` set (fst (referralGrantsDue ''pool'' 3 2000009 86400
     (markReferralGrantsSent ''pool'' 3 [''A''] ''sig'' (snd (referralGrantsDue ''pool'' 3 2000000 86400 demoDb))))) = {}"
    by (rule no_double_grant[OF u prod.collapse[symmetric] sub refl prod.collapse[symmetric]])
  then show ?thesis using f by simp
qed

end
