(* ===== verification/Operator_Laws.thy ===== *)
theory Operator_Laws
  imports Operator_Service Read_Model_Laws
begin

text \<open>
  What the operator service guarantees around the tick: it provides the surroundings the tick's
  one-transaction argument needs, it remembers long enough not to repeat itself, it turns every
  failure into a recorded state and a bounded sleep, it watches exactly the randomness it waits for,
  and it always has a next wake-up.
\<close>

section \<open>The service as the tick's surroundings\<close>

lemma leU64_error: "leU64 v = Inl m \<Longrightarrow> m \<noteq> ''AccountNotInitialized''"
  by (auto simp: leU64_def split: if_splits)

lemma rbind_Inl_iff: "rbind r f = Inl m \<longleftrightarrow> r = Inl m \<or> (\<exists>x. r = Inr x \<and> f x = Inl m)"
  by (cases r) auto

lemma mapRes_Inl: "mapRes f xs = Inl m \<Longrightarrow> \<exists>x \<in> set xs. f x = Inl m"
  by (induction xs) (auto split: sum.splits)

lemma address_errors:
  "epochAddress env pool i \<noteq> Inl ''AccountNotInitialized''" "roundAddress env pool i \<noteq> Inl ''AccountNotInitialized''"
  "methodIx env name args accounts \<noteq> Inl ''AccountNotInitialized''" "vrfSeed tag pool i nonce \<noteq> Inl ''AccountNotInitialized''"
  by (auto simp: epochAddress_def roundAddress_def methodIx_def vrfSeed_def vrfPreimage_def rbind_Inl_iff dest: leU64_error)

lemma buildCall_error:
  assumes "buildCall env nonce pool call = Inl ''AccountNotInitialized''"
  shows "\<exists>k. ie_parseKey env k = Inl ''AccountNotInitialized''"
  using assms
  by (cases call) (auto simp: builder_defs withdrawPair_def rbind_Inl_iff single_def address_errors Let_def
      dest!: mapRes_Inl split: if_splits)

lemma buildContext_sel [simp]:
  "cx_pool (buildContext w s pool now cycle cursor) = pool"
  "cx_now (buildContext w s pool now cycle cursor) = now"
  "cx_previousEpoch (buildContext w s pool now cycle cursor) = fst (snd cycle)"
  "cx_openRound (buildContext w s pool now cycle cursor) = fst (snd (snd cycle))"
  "cx_ix (buildContext w s pool now cycle cursor) = buildCall (w_env w) (w_nonce w) pool"
  "cx_send (buildContext w s pool now cycle cursor) = w_send w"
  "cx_lastRegisterCheck (buildContext w s pool now cycle cursor) = sv_lastRegisterCheck s"
  "cx_playersToRegister (buildContext w s pool now cycle cursor) =
     (\<lambda>e. rbind (dbRead w ''playersToRegister'' (playersToRegister (poolId58 w) e (w_db w)))
         (\<lambda>owners. Inr (filter (\<lambda>owner. owner \<notin> dom (sv_registeredRecently s)) owners)))"
  "cx_unsettledPositions (buildContext w s pool now cycle cursor) =
     rbind (dbRead w ''unsettledPositions'' (map toUnsettled (unsettledPositions (poolId58 w) (w_db w))))
         (\<lambda>ps. Inr (filter (\<lambda>p. un_address p \<notin> dom (sv_settled s)) ps))"
  "cx_indexerCursor (buildContext w s pool now cycle cursor) = cursor"
  "cx_indexerFreshThreshold (buildContext w s pool now cycle cursor) = w_freshSeconds w"
  "cx_markReferralGrantsSent (buildContext w s pool now cycle cursor) = (\<lambda>_ _ _. dbRead w ''markReferralGrantsSent'' ())"
  "cx_forgetPositions (buildContext w s pool now cycle cursor) = (\<lambda>_. Inr ())"
  "cx_forgetRound (buildContext w s pool now cycle cursor) = (\<lambda>_. Inr ())"
  by (cases cycle; simp add: buildContext_def Let_def)+

text \<open>What is assumed of the packages: parsing a base58 key and updating a row do not fail in the
  words of the program's own errors.\<close>

locale operator_env =
  fixes w :: op_world
  assumes parse_errors: "ie_parseKey (w_env w) k \<noteq> Inl ''AccountNotInitialized''"
    and mark_errors: "w_dbError w ''markReferralGrantsSent'' = Some m \<Longrightarrow> \<not> capExceeded m"

sublocale operator_env \<subseteq> svc: tick_world "buildContext w s pool now cycle cursor"
  for s pool now cycle cursor
proof
  show "cx_markReferralGrantsSent (buildContext w s pool now cycle cursor) e rs sig = Inl m \<Longrightarrow> \<not> capExceeded m" for e rs sig m
    using mark_errors by (auto simp: dbRead_def split: option.splits)
  show "cx_ix (buildContext w s pool now cycle cursor) call \<noteq> Inl ''AccountNotInitialized''" for call
    using buildCall_error[of "w_env w" "w_nonce w" pool call] parse_errors by auto
qed simp_all

lemma readContext_built:
  assumes "readContext w s = Inr ctx"
  obtains pool now cycle cursor where "ctx = buildContext w s pool now cycle cursor"
  using assms by (auto simp: readContext_def rbind_Inr_iff split: option.splits prod.splits)

context operator_env
begin

lemma pass_lands_once:
  assumes "readContext w s = Inr ctx" "runTick ctx = (out, evs)"
  shows "length (filter isLanded evs) \<le> 1 \<and>
    (\<forall>o1. out = Inr o1 \<longrightarrow> (case d_action o1 of
       None \<Rightarrow> filter isLanded evs = []
     | Some a \<Rightarrow> (\<exists>call r. Sent call r \<in> set evs \<and> opName call = a \<and>
          (filter isLanded evs = [Sent call r] \<or> filter isLanded evs = [] \<and> r = Inl ''AccountNotInitialized''))))"
proof -
  obtain pool now cycle cursor where ctx: "ctx = buildContext w s pool now cycle cursor"
    using readContext_built[OF assms(1)] .
  show ?thesis
    using assms(2)
  proof (cases rule: runTick_cases)
    case (decided d acc)
    have o: "onceR (Return d) evs" using svc.decide_once decided(1,2) unfolding ctx by blast
    moreover have "length (filter isLanded evs) \<le> 1"
      using o by (auto split: option.splits)
    ultimately show ?thesis using decided(3) by (simp add: decision.defs)
  next
    case (threw e acc)
    have "onceR (Throw e) evs" using svc.decide_once threw(1,2) unfolding ctx by blast
    then show ?thesis using threw(3) by simp
  qed
qed

end

lemma runTick_permits: "runTick ctx = (out, evs) \<Longrightarrow> Sent call r \<in> set evs \<Longrightarrow> permitted ctx call"
  using runTick_trace[of ctx out evs] decide_permits[of ctx "fst (decide ctx)" "snd (decide ctx)" call r]
  by (simp del: permitted.simps)

section \<open>Memory\<close>

lemma fold_stamp: "fold (\<lambda>k m. m(k \<mapsto> now)) ks m k = (if k \<in> set ks then Some now else m k)"
  by (induction ks arbitrary: m) auto

lemma remember_apply:
  "remember limit now ks m k = (if k \<in> set ks then Some now
     else (case m k of None \<Rightarrow> None | Some at \<Rightarrow> if now - at > limit then None else Some at))"
  by (simp add: remember_def fold_stamp)

text \<open>An entry stamped no earlier than \<open>t\<close> stays, stamped no earlier than \<open>t\<close>, through every call
  made between \<open>t\<close> and the limit past \<open>t\<close>.\<close>

definition since :: "int \<Rightarrow> ('k \<rightharpoonup> int) \<Rightarrow> 'k \<Rightarrow> bool" where
  "since t m k \<longleftrightarrow> (\<exists>at. m k = Some at \<and> t \<le> at)"

lemma since_remember:
  "since t m k \<Longrightarrow> t \<le> now \<Longrightarrow> now \<le> t + limit \<Longrightarrow> since t (remember limit now ks m) k"
  by (auto simp: since_def remember_apply)

lemma since_dom: "since t m k \<Longrightarrow> k \<in> dom m"
  by (auto simp: since_def)

lemma applyEvent_since:
  assumes "t \<le> now"
  shows "now \<le> t + SETTLED_MEMORY_MS \<Longrightarrow> since t (sv_settled s) a \<Longrightarrow> since t (sv_settled (applyEvent now ev s)) a"
    and "now \<le> t + SETTLED_MEMORY_MS \<Longrightarrow> since t (sv_closingRounds s) i \<Longrightarrow> since t (sv_closingRounds (applyEvent now ev s)) i"
    and "now \<le> t + REGISTERED_MEMORY_MS \<Longrightarrow> since t (sv_registeredRecently s) p \<Longrightarrow>
      since t (sv_registeredRecently (applyEvent now ev s)) p"
  using assms by (cases ev; auto intro: since_remember)+

lemma fold_applyEvent_since:
  assumes "t \<le> now" "now \<le> t + SETTLED_MEMORY_MS"
  shows "since t (sv_settled s) a \<Longrightarrow> since t (sv_settled (fold (applyEvent now) evs s)) a"
    and "since t (sv_closingRounds s) i \<Longrightarrow> since t (sv_closingRounds (fold (applyEvent now) evs s)) i"
  using assms by (induction evs arbitrary: s) (auto intro: applyEvent_since)

lemma fold_applyEvent_forgets:
  "ForgetPositions as \<in> set evs \<Longrightarrow> a \<in> set as \<Longrightarrow> since now (sv_settled (fold (applyEvent now) evs s)) a"
  "ForgetRound i \<in> set evs \<Longrightarrow> since now (sv_closingRounds (fold (applyEvent now) evs s)) i"
proof (induction evs arbitrary: s)
  case (Cons ev evs)
  {
    case 1
    have "since now (sv_settled (applyEvent now (ForgetPositions as) s)) a"
      using 1 by (simp add: since_def remember_apply)
    then show ?case using 1 Cons.IH(1) fold_applyEvent_since(1)[of now now] by (auto simp: SETTLED_MEMORY_MS_def)
  next
    case 2
    have "since now (sv_closingRounds (applyEvent now (ForgetRound i) s)) i"
      by (simp add: since_def remember_apply)
    then show ?case using 2 Cons.IH(2) fold_applyEvent_since(2)[of now now] by (auto simp: SETTLED_MEMORY_MS_def)
  }
qed simp_all

lemma writeState_memory [simp]:
  "sv_settled (snd (writeState w n d e ms s)) = sv_settled s"
  "sv_closingRounds (snd (writeState w n d e ms s)) = sv_closingRounds s"
  "sv_registeredRecently (snd (writeState w n d e ms s)) = sv_registeredRecently s"
  "sv_randomnessWatch (snd (writeState w n d e ms s)) = sv_randomnessWatch s"
  "sv_listeners (snd (writeState w n d e ms s)) = sv_listeners s"
  "sv_running (snd (writeState w n d e ms s)) = sv_running s"
  by (auto simp: writeState_def split: write_answer.splits)

lemma failedPass_memory [simp]:
  "sv_settled (snd (failedPass w n now m s)) = sv_settled s"
  "sv_closingRounds (snd (failedPass w n now m s)) = sv_closingRounds s"
  "sv_registeredRecently (snd (failedPass w n now m s)) = sv_registeredRecently s"
  "sv_randomnessWatch (snd (failedPass w n now m s)) = sv_randomnessWatch s"
  "sv_listeners (snd (failedPass w n now m s)) = sv_listeners s"
  by (simp_all add: failedPass_def safeWriteState_def Let_def)

lemma sync_memory [simp]:
  "sv_settled (syncRandomnessWatch w r s) = sv_settled s"
  "sv_closingRounds (syncRandomnessWatch w r s) = sv_closingRounds s"
  "sv_registeredRecently (syncRandomnessWatch w r s) = sv_registeredRecently s"
  by (auto simp: syncRandomnessWatch_def Let_def split: option.splits if_splits prod.splits)

lemma absorb_memory [simp]:
  "sv_settled (absorb out s) = sv_settled s" "sv_closingRounds (absorb out s) = sv_closingRounds s"
  "sv_registeredRecently (absorb out s) = sv_registeredRecently s"
  "sv_randomnessWatch (absorb out s) = sv_randomnessWatch s" "sv_listeners (absorb out s) = sv_listeners s"
  by (simp_all add: absorb_def)

text \<open>The shapes a pass can take.\<close>

lemma runOnce_cases:
  obtains (unread) e where "readContext w s = Inl e" "runOnce w s = failedPass w 0 0 e s"
  | (threw) ctx e evs s1 where "readContext w s = Inr ctx" "runTick ctx = (Inl e, evs)"
      "s1 = s\<lparr>sv_shutdownAnnounced := sv_shutdownAnnounced s \<or> pl_shutdown (cx_pool ctx)\<rparr>"
      "runOnce w s = failedPass w 0 (cx_now ctx) e (fold (applyEvent (w_wallMs w)) evs s1)"
  | (ran) ctx o1 evs s1 s3 where "readContext w s = Inr ctx" "runTick ctx = (Inr o1, evs)"
      "s1 = s\<lparr>sv_shutdownAnnounced := sv_shutdownAnnounced s \<or> pl_shutdown (cx_pool ctx)\<rparr>"
      "s3 = absorb o1 (syncRandomnessWatch w (cx_openRound ctx) (fold (applyEvent (w_wallMs w)) evs s1))"
      "runOnce w s = (case writeState w 0 (decision.truncate o1) (d_stepError o1)
            (msUntilWake (cx_now ctx) (o_nextWakeAt o1)) s3 of
          (Inr _, s4) \<Rightarrow> (withWait o1 (msUntilWake (cx_now ctx) (o_nextWakeAt o1)), s4)
        | (Inl e, s4) \<Rightarrow> failedPass w 1 (cx_now ctx) e s4)"
proof (cases "readContext w s")
  case (Inl e)
  then show thesis using unread by (simp add: runOnce_def)
next
  case (Inr ctx)
  obtain out evs where r: "runTick ctx = (out, evs)" by (cases "runTick ctx")
  have "(if pl_shutdown (cx_pool ctx) then s\<lparr>sv_shutdownAnnounced := True\<rparr> else s)
      = s\<lparr>sv_shutdownAnnounced := sv_shutdownAnnounced s \<or> pl_shutdown (cx_pool ctx)\<rparr>" by simp
  then show thesis
    using threw[OF Inr] ran[OF Inr] r Inr by (cases out) (auto simp: runOnce_def Let_def)
qed

lemma runOnce_since:
  assumes "t \<le> w_wallMs w" "w_wallMs w \<le> t + SETTLED_MEMORY_MS"
  shows "since t (sv_settled s) a \<Longrightarrow> since t (sv_settled (snd (runOnce w s))) a"
    and "since t (sv_closingRounds s) i \<Longrightarrow> since t (sv_closingRounds (snd (runOnce w s))) i"
proof -
  have "since t (sv_settled (snd (runOnce w s))) a" if "since t (sv_settled s) a"
  proof (cases rule: runOnce_cases[of w s])
    case (ran ctx o1 evs s1 s3)
    then show ?thesis using that fold_applyEvent_since(1)[OF assms, of s1 a evs]
      by (auto simp: writeState_def split: write_answer.splits)
  qed (use that fold_applyEvent_since(1)[OF assms] in auto)
  moreover have "since t (sv_closingRounds (snd (runOnce w s))) i" if "since t (sv_closingRounds s) i"
  proof (cases rule: runOnce_cases[of w s])
    case (ran ctx o1 evs s1 s3)
    then show ?thesis using that fold_applyEvent_since(2)[OF assms, of s1 i evs]
      by (auto simp: writeState_def split: write_answer.splits)
  qed (use that fold_applyEvent_since(2)[OF assms] in auto)
  ultimately show "since t (sv_settled s) a \<Longrightarrow> since t (sv_settled (snd (runOnce w s))) a"
    "since t (sv_closingRounds s) i \<Longrightarrow> since t (sv_closingRounds (snd (runOnce w s))) i" by blast+
qed

lemma runOnce_forgets:
  assumes "readContext w s = Inr ctx"
  shows "ForgetPositions as \<in> set (snd (runTick ctx)) \<Longrightarrow> a \<in> set as \<Longrightarrow> since (w_wallMs w) (sv_settled (snd (runOnce w s))) a"
proof (cases rule: runOnce_cases[of w s])
  case (ran ctx' o1 evs s1 s3)
  assume "ForgetPositions as \<in> set (snd (runTick ctx))" "a \<in> set as"
  then show ?thesis using ran assms fold_applyEvent_forgets(1)[of as evs a "w_wallMs w" s1]
    by (auto simp: writeState_def split: write_answer.splits)
qed (use assms fold_applyEvent_forgets(1) in auto)

definition runPasses :: "op_world list \<Rightarrow> op_service \<Rightarrow> op_service" where
  "runPasses ws s = fold (\<lambda>w s. snd (runOnce w s)) ws s"

lemma runPasses_since:
  assumes "\<forall>w \<in> set ws. t \<le> w_wallMs w \<and> w_wallMs w \<le> t + SETTLED_MEMORY_MS" "since t (sv_settled s) a"
  shows "since t (sv_settled (runPasses ws s)) a"
  using assms by (induction ws arbitrary: s) (auto simp: runPasses_def runOnce_since(1))

lemma context_unsettled:
  assumes "readContext w s = Inr ctx" "cx_unsettledPositions ctx = Inr ps" "p \<in> set ps"
  shows "un_address p \<notin> dom (sv_settled s)"
proof (rule readContext_built[OF assms(1)])
  fix pool now cycle cursor assume "ctx = buildContext w s pool now cycle cursor"
  then show ?thesis using assms(2,3) by (auto simp: rbind_Inr_iff)
qed

section \<open>Watching randomness\<close>

definition watchOk :: "op_service \<Rightarrow> bool" where
  "watchOk s \<longleftrightarrow> sv_listeners s = (case sv_randomnessWatch s of None \<Rightarrow> [] | Some l \<Rightarrow> [l])"

definition requestedAddress :: "op_world \<Rightarrow> round_state option \<Rightarrow> string option" where
  "requestedAddress w r = (case r of None \<Rightarrow> None | Some r \<Rightarrow>
     if rd_status r = ROUND_REQUESTED then Some (w_b58 w (randomnessFor (w_env w) (rd_vrfSeed r))) else None)"

lemma sync_watch:
  assumes "watchOk s"
  shows "watchOk (syncRandomnessWatch w r s) \<and>
    map_option fst (sv_randomnessWatch (syncRandomnessWatch w r s)) = requestedAddress w r"
proof -
  have "syncRandomnessWatch w r s = (if requestedAddress w r = map_option fst (sv_randomnessWatch s) then s
     else let s1 = (case sv_randomnessWatch s of None \<Rightarrow> s
                    | Some (_, i) \<Rightarrow> s\<lparr>sv_listeners := filter (\<lambda>l. snd l \<noteq> i) (sv_listeners s),
                                      sv_randomnessWatch := None\<rparr>)
          in (case requestedAddress w r of None \<Rightarrow> s1
              | Some a \<Rightarrow> s1\<lparr>sv_listeners := sv_listeners s1 @ [(a, w_subscribe w a)],
                             sv_randomnessWatch := Some (a, w_subscribe w a)\<rparr>))"
    unfolding syncRandomnessWatch_def requestedAddress_def Let_def by simp
  then show ?thesis using assms
    by (cases "sv_randomnessWatch s"; cases "requestedAddress w r") (auto simp: watchOk_def Let_def)
qed

lemma fold_applyEvent_watch [simp]:
  "sv_randomnessWatch (fold (applyEvent now) evs s) = sv_randomnessWatch s"
  "sv_listeners (fold (applyEvent now) evs s) = sv_listeners s"
proof -
  have "sv_randomnessWatch (applyEvent now ev s) = sv_randomnessWatch s \<and> sv_listeners (applyEvent now ev s) = sv_listeners s" for ev s
    by (cases ev) auto
  then show "sv_randomnessWatch (fold (applyEvent now) evs s) = sv_randomnessWatch s"
    "sv_listeners (fold (applyEvent now) evs s) = sv_listeners s" by (induction evs arbitrary: s) auto
qed

section \<open>Waits\<close>

lemma msUntilWake_bounds: "0 \<le> msUntilWake now d \<and> msUntilWake now d \<le> 60000"
  by (auto simp: msUntilWake_def SAFETY_INTERVAL_SECONDS_def Let_def)

lemma failedPass_wait [simp]: "o_waitMs (fst (failedPass w n now m s)) = 60000"
  by (simp add: failedPass_def withWait_def tick_outcome.defs decision.defs Let_def SAFETY_INTERVAL_MS_def SAFETY_INTERVAL_SECONDS_def)

lemma withWait_wait [simp]: "o_waitMs (withWait o1 ms) = ms"
  by (simp add: withWait_def tick_outcome.defs)

lemma runOnce_wait: "0 \<le> o_waitMs (fst (runOnce w s)) \<and> o_waitMs (fst (runOnce w s)) \<le> 60000"
proof (cases rule: runOnce_cases[of w s])
  case (ran ctx o1 evs s1 s3)
  then show ?thesis using msUntilWake_bounds
    by (auto simp: writeState_def split: write_answer.splits)
qed simp_all

lemma msUntilWake_round: "(msUntilWake now d + 500) div 1000 = msUntilWake now d div 1000"
  by (simp add: msUntilWake_def Let_def)

lemma failedPass_row:
  assumes "w_writeState w = (\<lambda>_. WriteOk)"
  shows "failedPass w n now m s =
    (withWait (decision.extend NOTHING \<lparr>o_nextWakeAt = now + 60\<rparr>) 60000,
     s\<lparr>sv_row := Some (stateFields (w_wallMs w div 1000) NOTHING (if m \<in> set EXPECTED_ERRORS then None else Some m) 60000
        (case sv_row s of Some r \<Rightarrow> r | None \<Rightarrow> NEW_OPERATOR_STATE))\<rparr>)"
  using assms by (simp add: failedPass_def safeWriteState_def writeState_def Let_def SAFETY_INTERVAL_SECONDS_def SAFETY_INTERVAL_MS_def)

lemma stateFields_sel [simp]:
  "os_lastTickAt (stateFields n d e ms r) = Some n" "os_lastError (stateFields n d e ms r) = e"
  "os_nextWakeAt (stateFields n d e ms r) = Some (n + (ms + 500) div 1000)"
  "os_lastSuccessAt (stateFields n d e ms r) = (if e = None then Some n else os_lastSuccessAt r)"
  by (simp_all add: stateFields_def)

lemma sched_inv:
  assumes "sched_reach c"
  shows "length (sc_sleeps c) \<le> 1 \<and> (\<forall>ms \<in> set (sc_sleeps c). 0 \<le> ms \<and> ms \<le> 60000) \<and>
    (sc_running c \<longrightarrow> sc_sleeps c = []) \<and> (sc_running c \<or> sc_destroyed c \<or> sc_sleeps c \<noteq> [])"
  using assms
proof induction
  case (step c c')
  from step.hyps(2) step.IH show ?case
  proof cases
    case (complete w s r s')
    then show ?thesis using step.IH runOnce_wait[of w s] by auto
  qed auto
qed simp

section \<open>A concrete service\<close>

definition demoEnv :: ix_env where
  "demoEnv = \<lparr>ie_hasMethod = (\<lambda>_. True), ie_programId = [1], ie_operator = [2], ie_testVrf = True,
     ie_findProgramAddress = (\<lambda>seeds _. concat seeds), ie_parseKey = (\<lambda>s. if s = ''?'' then Inl ''Invalid public key input'' else Inr (asciiBytes s)),
     ie_associatedToken = (\<lambda>m k. k), ie_systemProgram = [0], ie_tokenProgram = [6], ie_oraoProgram = [7],
     ie_oraoTreasury = [8]\<rparr>"

definition demoClock :: bytes where
  "demoClock = replicate 32 0 @ leBytes 8 200"

definition demoWorld :: op_world where
  "demoWorld = \<lparr>w_env = demoEnv, w_poolKey = [1], w_b58 = (\<lambda>_. ''pool''), w_disc = [], 
     w_poolAndClock = Inr (Some [], Some demoClock), w_accounts = (\<lambda>_. Inr [None, None, Some [], Some []]),
     w_account = (\<lambda>_. Inr None), w_decodePool = (\<lambda>_ _. Inr demoPool), w_decodeEpoch = (\<lambda>_. Inl ''no epoch''),
     w_decodeRound = (\<lambda>_. Inr demoRound), w_playerAccounts = Inr [], w_tokenAccount = (\<lambda>_. TokenAmount 0),
     w_db = demoDb, w_dbError = (\<lambda>_. None), w_nonce = [], w_send = (\<lambda>_ _. Inr ''sig''),
     w_subscribe = (\<lambda>_. 1), w_wallMs = 200000, w_writeState = (\<lambda>_. WriteOk), w_freshSeconds = 30,
     w_launchAt = None, w_qualifySeconds = 86400\<rparr>"

definition demoOpCtx :: tick_context where
  "demoOpCtx = buildContext demoWorld NEW_SERVICE demoPool 200 (None, None, Some demoRound, Some demoRound)
     \<lparr>cur_ageSeconds = None, cur_updatedAt = None\<rparr>"

interpretation demo: operator_env demoWorld
  by unfold_locales (simp_all add: demoWorld_def demoEnv_def)

lemma demo_readContext: "readContext demoWorld NEW_SERVICE = Inr demoOpCtx"
proof -
  have "clockUnixTimestamp (Some demoClock) = Inr 200" by code_simp
  moreover have "readCycle demoWorld demoPool = Inr (None, None, Some demoRound, Some demoRound)"
    by code_simp
  moreover have "indexerCursorInfo demoWorld = Inr \<lparr>cur_ageSeconds = None, cur_updatedAt = None\<rparr>" by code_simp
  moreover have "w_poolAndClock demoWorld = Inr (Some [], Some demoClock)"
    "w_decodePool demoWorld (w_poolKey demoWorld) [] = Inr demoPool" by (simp_all add: demoWorld_def)
  ultimately show ?thesis by (simp add: readContext_def demoOpCtx_def)
qed

lemma demo_op_ix: "\<exists>ixs. cx_ix demoOpCtx (VoidRound demoRound) = Inr ixs"
  by (simp add: demoOpCtx_def voidRound_def demoWorld_def demoEnv_def methodIx_def roundAddress_def leU64_def
      demoRound_def single_def)

lemma demo_op_void:
  "\<exists>o1. runTick demoOpCtx = (Inr o1, [Sent (VoidRound demoRound) (Inr ''sig'')])"
proof -
  obtain ixs where "cx_ix demoOpCtx (VoidRound demoRound) = Inr ixs" using demo_op_ix by blast
  then show ?thesis
    by (subst void_lands[of _ demoRound ixs "''sig''"])
      (simp_all add: demoOpCtx_def demoWorld_def demoRound_def demoPool_def)
qed

lemma demo_op_run: "runTick demoOpCtx = (fst (runTick demoOpCtx), [Sent (VoidRound demoRound) (Inr ''sig'')])"
  using demo_op_void by force

text \<open>A Pool before its first Epoch, with two unsettled Positions of two settled Rounds in the mirror.\<close>

definition demoSweep :: op_world where
  "demoSweep = demoWorld\<lparr>w_decodePool := (\<lambda>_ _. Inr (demoPool\<lparr>pl_currentEpochId := 0, pl_openRoundId := 0, pl_nextRoundId := 1\<rparr>)),
     w_db := demoDb\<lparr>
       db_rounds := map (\<lambda>i. \<lparr>rr_poolAddress = ''pool'', rr_id = i, rr_epochId = 1, rr_startsAt = 0, rr_endsAt = 9, rr_status = 2,
         rr_pot = 0, rr_houseCut = 0, rr_winningTile = Some 1, rr_tileTotals = [], rr_closed = False\<rparr>) [4, 5],
       db_positions :=
         [\<lparr>po_address = ''p'', po_poolAddress = ''pool'', po_owner = ''A'', po_roundId = 4, po_tiles = 1, po_stakePerTile = 1\<rparr>,
          \<lparr>po_address = ''q'', po_poolAddress = ''pool'', po_owner = ''B'', po_roundId = 5, po_tiles = 1, po_stakePerTile = 1\<rparr>]\<rparr>\<rparr>"

definition sweepCtx :: "op_service \<Rightarrow> tick_context" where
  "sweepCtx s = buildContext demoSweep s (demoPool\<lparr>pl_currentEpochId := 0, pl_openRoundId := 0, pl_nextRoundId := 1\<rparr>) 200
     (None, None, None, None) \<lparr>cur_ageSeconds = None, cur_updatedAt = None\<rparr>"

lemma sweep_readContext: "readContext demoSweep s = Inr (sweepCtx s)"
proof -
  have "clockUnixTimestamp (Some demoClock) = Inr 200" by code_simp
  moreover have "readCycle demoSweep (demoPool\<lparr>pl_currentEpochId := 0, pl_openRoundId := 0, pl_nextRoundId := 1\<rparr>)
      = Inr (None, None, None, None)" by code_simp
  moreover have "indexerCursorInfo demoSweep = Inr \<lparr>cur_ageSeconds = None, cur_updatedAt = None\<rparr>" by code_simp
  ultimately show ?thesis by (simp add: readContext_def sweepCtx_def demoSweep_def demoWorld_def)
qed

lemma sweep_lands:
  assumes "cx_openRound ctx = None" "cx_unsettledPositions ctx = Inr (u # us)" "\<forall>v \<in> set us. un_roundId v \<noteq> un_roundId u"
    and "cx_forgetPositions ctx [un_address u] = Inr ()"
    and "cx_ix ctx (SettlePositions (un_roundId u) [(un_address u, un_owner u)]) = Inr ixs" "cx_send ctx 0 ixs = Inr sig"
  shows "snd (runTick ctx) =
    [Sent (SettlePositions (un_roundId u) [(un_address u, un_owner u)]) (Inr sig), ForgetPositions [un_address u]]"
proof -
  have "sweepBatch (u # us) (un_roundId u) = [u]"
    using assms(3) by (simp add: sweepBatch_def BATCH_SIZE_def filter_empty_conv)
  then show ?thesis using assms
    by (simp add: runTick_def decide_def decideSteps_def andThen_def stepRound_def stepSweep_def
      Let_def returnIfSent_def attempt_def sendThen_def sendCall_def forgetPositions_def)
qed

lemma runOnce_settled:
  "readContext w s = Inr ctx \<Longrightarrow> sv_settled (snd (runOnce w s)) = sv_settled (fold (applyEvent (w_wallMs w)) (snd (runTick ctx))
     (s\<lparr>sv_shutdownAnnounced := sv_shutdownAnnounced s \<or> pl_shutdown (cx_pool ctx)\<rparr>))"
  by (cases rule: runOnce_cases[of w s]) (auto simp: writeState_def split: write_answer.splits)

lemma sweep_unsettled:
  "cx_unsettledPositions (sweepCtx s) = Inr (filter (\<lambda>u. un_address u \<notin> dom (sv_settled s))
     [\<lparr>un_address = ''p'', un_owner = ''A'', un_roundId = 4\<rparr>, \<lparr>un_address = ''q'', un_owner = ''B'', un_roundId = 5\<rparr>])"
proof -
  have "map toUnsettled (unsettledPositions (poolId58 demoSweep) (w_db demoSweep)) =
     [\<lparr>un_address = ''p'', un_owner = ''A'', un_roundId = 4\<rparr>, \<lparr>un_address = ''q'', un_owner = ''B'', un_roundId = 5\<rparr>]"
    by code_simp
  then show ?thesis by (simp add: sweepCtx_def dbRead_def demoSweep_def demoWorld_def)
qed

lemma sweep_run:
  assumes "cx_unsettledPositions (sweepCtx s) = Inr (u # us)" "\<forall>v \<in> set us. un_roundId v \<noteq> un_roundId u"
    and "un_roundId u \<in> {4, 5}" "un_owner u \<noteq> ''?''" "un_address u \<noteq> ''?''"
  shows "snd (runTick (sweepCtx s)) =
    [Sent (SettlePositions (un_roundId u) [(un_address u, un_owner u)]) (Inr ''sig''), ForgetPositions [un_address u]]"
proof -
  obtain ixs where "cx_ix (sweepCtx s) (SettlePositions (un_roundId u) [(un_address u, un_owner u)]) = Inr ixs"
    using assms(3-5) by (auto simp: sweepCtx_def settlePositions_def demoSweep_def demoWorld_def demoEnv_def methodIx_def
        roundAddress_def leU64_def Let_def)
  then show ?thesis using assms(1,2)
    by (intro sweep_lands) (simp_all add: sweepCtx_def demoSweep_def demoWorld_def)
qed

section \<open>Properties\<close>

text \<open>C2: One tick, one transaction: in a context the service builds, at most one send of a tick is
  accepted; a tick that reports an action sent exactly the instruction of that name (or found its
  account already gone), and a tick that reports none landed nothing. Key parsing and the database
  are only assumed not to fail in the words of the program's own errors.\<close>

theorem one_transaction_per_tick:
  assumes "\<And>k. ie_parseKey (w_env w) k \<noteq> Inl ''AccountNotInitialized''"
    and "\<And>m. w_dbError w ''markReferralGrantsSent'' = Some m \<Longrightarrow> \<not> capExceeded m"
    and "readContext w s = Inr ctx" "runTick ctx = (out, evs)"
  shows "length (filter isLanded evs) \<le> 1 \<and>
    (\<forall>o1. out = Inr o1 \<longrightarrow> (case d_action o1 of
       None \<Rightarrow> filter isLanded evs = []
     | Some a \<Rightarrow> (\<exists>call r. Sent call r \<in> set evs \<and> opName call = a \<and>
          (filter isLanded evs = [Sent call r] \<or> filter isLanded evs = [] \<and> r = Inl ''AccountNotInitialized''))))"
  by (rule operator_env.pass_lands_once[OF operator_env.intro[OF assms(1,2)] assms(3,4)])

theorem one_transaction_per_tick_witness:
  "readContext demoWorld NEW_SERVICE = Inr demoOpCtx \<and>
   snd (runTick demoOpCtx) = [Sent (VoidRound demoRound) (Inr ''sig'')] \<and>
   length (filter isLanded (snd (runTick demoOpCtx))) \<le> 1"
  using one_transaction_per_tick[OF demo.parse_errors demo.mark_errors demo_readContext demo_op_run]
    demo_readContext by (subst (1 2) demo_op_run) simp

text \<open>A Position settled by the service is not settled again while the mirror catches up: once a
  tick has told the service to forget an address, no tick's sweep includes it as long as the passes
  in between run within five minutes of that tick.\<close>

theorem settled_positions_not_resent:
  assumes "readContext w0 s = Inr ctx0" "ForgetPositions as \<in> set (snd (runTick ctx0))" "a \<in> set as"
    and "\<forall>w \<in> set ws. w_wallMs w0 \<le> w_wallMs w \<and> w_wallMs w \<le> w_wallMs w0 + 300000"
    and "readContext w' (runPasses (w0 # ws) s) = Inr ctx" "runTick ctx = (out, evs)"
    and "Sent (SettlePositions roundId ps) x \<in> set evs"
  shows "a \<notin> fst ` set ps"
proof -
  have "since (w_wallMs w0) (sv_settled (runPasses ws (snd (runOnce w0 s)))) a"
    using runPasses_since runOnce_forgets[OF assms(1-3)] assms(4) by (simp add: SETTLED_MEMORY_MS_def)
  then have gone: "a \<in> dom (sv_settled (runPasses (w0 # ws) s))"
    using since_dom by (fastforce simp: runPasses_def)
  have "permitted ctx (SettlePositions roundId ps)"
    using runTick_permits[OF assms(6,7)] .
  then show ?thesis using context_unsettled[OF assms(5)] gone by fastforce
qed

theorem settled_positions_not_resent_witness:
  "snd (runTick (sweepCtx NEW_SERVICE)) = [Sent (SettlePositions 4 [(''p'', ''A'')]) (Inr ''sig''), ForgetPositions [''p'']] \<and>
    snd (runTick (sweepCtx (runPasses [demoSweep] NEW_SERVICE))) =
      [Sent (SettlePositions 5 [(''q'', ''B'')]) (Inr ''sig''), ForgetPositions [''q'']] \<and> ''p'' \<notin> fst ` set [(''q'', ''B'')]"
proof -
  let ?s = "runPasses [demoSweep] NEW_SERVICE"
  have ns: "sv_settled NEW_SERVICE = Map.empty" by (simp add: NEW_SERVICE_def)
  have r0: "snd (runTick (sweepCtx NEW_SERVICE)) =
      [Sent (SettlePositions 4 [(''p'', ''A'')]) (Inr ''sig''), ForgetPositions [''p'']]"
    using sweep_run[OF sweep_unsettled[of NEW_SERVICE, simplified ns, simplified]] by simp
  have "sv_settled ?s = [''p'' \<mapsto> 200000]"
    using runOnce_settled[OF sweep_readContext[of NEW_SERVICE]]
    by (simp add: runPasses_def r0 remember_def ns) (simp add: demoSweep_def demoWorld_def)
  then have "cx_unsettledPositions (sweepCtx ?s) = Inr [\<lparr>un_address = ''q'', un_owner = ''B'', un_roundId = 5\<rparr>]"
    using sweep_unsettled[of ?s] by simp
  then have r1: "snd (runTick (sweepCtx ?s)) = [Sent (SettlePositions 5 [(''q'', ''B'')]) (Inr ''sig''), ForgetPositions [''q'']]"
    using sweep_run[of ?s] by simp
  have "''p'' \<notin> fst ` set [(''q'', ''B'')]"
    by (rule settled_positions_not_resent[where ws = "[]" and as = "[''p'']" and roundId = 5 and x = "Inr ''sig''",
        OF sweep_readContext[of NEW_SERVICE] _ _ _ sweep_readContext[of ?s] prod.collapse[symmetric]]) (simp_all add: r0 r1)
  then show ?thesis using r0 r1 by simp
qed

text \<open>C8: A failed pass is a recorded state, not a crash: whatever the chain, the decoders or the Read
  model do, when the database takes the write the row shows this tick, the next planned wake exactly
  the returned wait away, and the error: none for a lost race, the failure's message otherwise, and
  for a tick that ran its step error. After a failure the wait is the safety interval.\<close>

theorem pass_outcome_recorded:
  assumes "w_writeState w = (\<lambda>_. WriteOk)" "runOnce w s = (r, s')"
  shows "\<exists>row. sv_row s' = Some row \<and> os_lastTickAt row = Some (w_wallMs w div 1000) \<and>
    os_nextWakeAt row = Some (w_wallMs w div 1000 + o_waitMs r div 1000) \<and>
    (os_lastError row = None \<longrightarrow> os_lastSuccessAt row = Some (w_wallMs w div 1000)) \<and>
    (case rbind (readContext w s) (\<lambda>ctx. rbind (fst (runTick ctx)) (\<lambda>o1. Inr (ctx, o1))) of
       Inl e \<Rightarrow> o_waitMs r = 60000 \<and> os_lastError row = (if e \<in> set EXPECTED_ERRORS then None else Some e)
     | Inr (ctx, o1) \<Rightarrow> o_waitMs r = msUntilWake (cx_now ctx) (o_nextWakeAt o1) \<and> os_lastError row = d_stepError o1)"
proof (cases rule: runOnce_cases[of w s])
  case (unread e)
  then show ?thesis using assms by (auto simp: failedPass_row[OF assms(1)])
next
  case (threw ctx e evs s1)
  then show ?thesis using assms by (auto simp: failedPass_row[OF assms(1)])
next
  case (ran ctx o1 evs s1 s3)
  then show ?thesis using assms msUntilWake_round by (auto simp: writeState_def stateFields_def)
qed

theorem pass_outcome_recorded_witness:
  "\<exists>row. sv_row (snd (runOnce (demoWorld\<lparr>w_poolAndClock := Inl ''rpc down''\<rparr>) NEW_SERVICE)) = Some row \<and>
     os_lastError row = Some ''rpc down'' \<and> os_nextWakeAt row = Some 260"
proof -
  let ?w = "demoWorld\<lparr>w_poolAndClock := Inl ''rpc down''\<rparr>"
  have r: "readContext ?w NEW_SERVICE = Inl ''rpc down''" "''rpc down'' \<notin> set EXPECTED_ERRORS"
    by (simp_all add: readContext_def EXPECTED_ERRORS_def)
  have "w_writeState ?w = (\<lambda>_. WriteOk)" "w_wallMs ?w = 200000" by (simp_all add: demoWorld_def)
  with pass_outcome_recorded[OF this(1) prod.collapse[symmetric], of NEW_SERVICE] show ?thesis
    unfolding r by (auto simp: r)
qed

text \<open>C9: The scheduler never stalls and never doubles up: from boot on, whatever triggers arrive in
  whatever order, at most one sleep is pending, none while a pass is in flight, each at most the
  safety interval long; and until the module is destroyed either a pass is in flight or exactly one
  sleep is pending.\<close>

theorem scheduler_always_wakes:
  assumes "sched_reach c"
  shows "length (sc_sleeps c) \<le> 1 \<and> list_all (\<lambda>ms. 0 \<le> ms \<and> ms \<le> 60000) (sc_sleeps c) \<and>
    (sc_running c \<longrightarrow> sc_sleeps c = []) \<and>
    (\<not> sc_destroyed c \<longrightarrow> sc_running c \<noteq> (length (sc_sleeps c) = 1))"
  using sched_inv[OF assms] by (cases "sc_sleeps c") (auto simp: list_all_iff)

theorem scheduler_always_wakes_witness:
  "sched_reach \<lparr>sc_running = False, sc_sleeps = [60000], sc_destroyed = False\<rparr> \<and>
   False \<noteq> (length (sc_sleeps \<lparr>sc_running = False, sc_sleeps = [60000], sc_destroyed = False\<rparr>) = 1)"
proof -
  let ?w = "demoWorld\<lparr>w_poolAndClock := Inl ''rpc down''\<rparr>"
  let ?c = "\<lparr>sc_running = False, sc_sleeps = [60000], sc_destroyed = False\<rparr>"
  have "o_waitMs (fst (runOnce ?w NEW_SERVICE)) = 60000" by (simp add: runOnce_def readContext_def)
  then have r: "sched_reach ?c"
    using sched_reach.step[OF sched_reach.boot sched_step.complete[of _ ?w NEW_SERVICE "fst (runOnce ?w NEW_SERVICE)"
        "snd (runOnce ?w NEW_SERVICE)"]] by simp
  show ?thesis using scheduler_always_wakes[OF r] r by simp
qed

text \<open>Destroying the module while a pass is in flight does not end the scheduling: the pass still
  plans its next sleep afterwards, after an action a sleep of length zero.\<close>

theorem destroyed_service_wakes_again:
  "sched_reach \<lparr>sc_running = False, sc_sleeps = [o_waitMs (fst (runOnce w s))], sc_destroyed = True\<rparr>"
proof -
  let ?c = "\<lparr>sc_running = True, sc_sleeps = [], sc_destroyed = False\<rparr>"
  have "sched_reach (?c\<lparr>sc_sleeps := [], sc_destroyed := True\<rparr>)"
    using sched_reach.step[OF sched_reach.boot sched_step.destroy] .
  from sched_reach.step[OF this sched_step.complete[of _ w s "fst (runOnce w s)" "snd (runOnce w s)"]]
  show ?thesis by simp
qed

text \<open>The service listens to exactly the randomness it waits for: there is never a listener
  besides the recorded watch, and after a tick that ran, the watched address is that of the open
  Round's request, or nothing is watched when the Round is not waiting for randomness.\<close>

theorem watch_tracks_open_round:
  assumes "watchOk s" "runOnce w s = (r, s')"
  shows "watchOk s' \<and> (\<forall>ctx o1. readContext w s = Inr ctx \<and> fst (runTick ctx) = Inr o1 \<longrightarrow>
    map_option fst (sv_randomnessWatch s') = requestedAddress w (cx_openRound ctx))"
proof -
  have s': "s' = snd (runOnce w s)" using assms(2) by simp
  show ?thesis
  proof (cases rule: runOnce_cases[of w s])
    case (unread e)
    then show ?thesis using assms(1) by (simp add: watchOk_def s')
  next
    case (threw ctx e evs s1)
    then show ?thesis using assms(1) by (simp add: watchOk_def s')
  next
    case (ran ctx o1 evs s1 s3)
    let ?s2 = "fold (applyEvent (w_wallMs w)) evs s1"
    have "watchOk ?s2" using assms(1) ran(3) by (simp add: watchOk_def)
    note y = sync_watch[OF this, of w "cx_openRound ctx"]
    have same: "sv_listeners s' = sv_listeners s3" "sv_randomnessWatch s' = sv_randomnessWatch s3"
      unfolding s' ran(5) by (auto simp: writeState_def split: write_answer.splits)
    show ?thesis using y same ran(1,2,4) by (auto simp: watchOk_def)
  qed
qed

theorem watch_tracks_open_round_witness:
  "watchOk (snd (runOnce demoWorld NEW_SERVICE)) \<and> sv_randomnessWatch (snd (runOnce demoWorld NEW_SERVICE)) = None"
proof -
  have "watchOk NEW_SERVICE" by (simp add: watchOk_def NEW_SERVICE_def)
  note t = watch_tracks_open_round[OF this prod.collapse[symmetric], of demoWorld]
  have "\<exists>o1. fst (runTick demoOpCtx) = Inr o1"
    using demo_op_void by force
  moreover have "requestedAddress demoWorld (cx_openRound demoOpCtx) = None"
    by (simp add: requestedAddress_def demoOpCtx_def demoRound_def round_status_defs)
  ultimately show ?thesis using t demo_readContext by fastforce
qed

text \<open>The registration memory is not bound to an Epoch: when every owner the Read model still
  lists for the Epoch being registered is remembered from some earlier registration, however old,
  the tick registers nobody and, its other conditions met, closes registration.\<close>

theorem registration_closes_over_remembered_owners:
  assumes "ctx = buildContext w s pool now (cur, Some e, rnd, lst) cursor"
    and "ep_status e = EPOCH_REGISTERING" "\<not> pl_shutdown pool" "\<not> pl_jackpotPaused pool"
    and "w_dbError w ''playersToRegister'' = None"
    and "set (playersToRegister (poolId58 w) (ep_epochId e) (w_db w)) \<subseteq> dom (sv_registeredRecently s)"
    and "emptyLastTick ctx e" "registrationClosesAt pool e \<le> now" "indexerFreshForClose cursor (w_freshSeconds w) e"
  shows "andThen (stepRegister ctx) (stepCloseRegistration ctx) acc =
    sendOrThrow ctx (CloseRegistration (ep_epochId e))
      (NOTHING\<lparr>d_action := Some ''close_registration'', d_indexerStale := Some False\<rparr>) acc"
proof -
  have "filter (\<lambda>owner. owner \<notin> dom (sv_registeredRecently s)) (playersToRegister (poolId58 w) (ep_epochId e) (w_db w)) = []"
    using assms(6) by (auto simp: filter_empty_conv)
  then have "cx_playersToRegister ctx (ep_epochId e) = Inr []"
    using assms(1,5) by (simp add: dbRead_def)
  then have "stepRegister ctx acc = (Next, acc)"
    using assms(1-3) by (simp add: stepRegister_def)
  then show ?thesis using assms(1-4,7-9) by (simp add: andThen_def stepCloseRegistration_def Let_def)
qed

definition demoClosing :: epoch_state where
  "demoClosing = \<lparr>ep_epochId = 3, ep_startsAt = 0, ep_endsAt = 90, ep_status = EPOCH_REGISTERING, ep_registeredCount = 0,
     ep_jackpotAmount = 5, ep_vrfSeed = [], ep_requestedAt = 0, ep_target = 0, ep_drawnAt = 0, ep_registrationOpenedAt = 95\<rparr>"

definition demoForgetful :: op_service where
  "demoForgetful = NEW_SERVICE\<lparr>sv_registeredRecently := [''B'' \<mapsto> -90000000],
     sv_lastRegisterCheck := Some \<lparr>rc_epochId = 3, rc_empty = True\<rparr>\<rparr>"

definition demoStale :: tick_context where
  "demoStale = buildContext demoWorld demoForgetful demoPool 200 (None, Some demoClosing, None, None)
     \<lparr>cur_ageSeconds = Some 1, cur_updatedAt = Some 199\<rparr>"

theorem registration_closes_over_remembered_owners_witness:
  "playersToRegister (poolId58 demoWorld) 3 (w_db demoWorld) = [''B''] \<and>
   andThen (stepRegister demoStale) (stepCloseRegistration demoStale) (initialAcc demoStale) =
     sendOrThrow demoStale (CloseRegistration 3)
       (NOTHING\<lparr>d_action := Some ''close_registration'', d_indexerStale := Some False\<rparr>) (initialAcc demoStale)"
proof -
  have p: "playersToRegister (poolId58 demoWorld) 3 (w_db demoWorld) = [''B'']" by code_simp
  have "ep_epochId demoClosing = 3" "ep_status demoClosing = EPOCH_REGISTERING" "\<not> pl_shutdown demoPool" "\<not> pl_jackpotPaused demoPool"
    "w_dbError demoWorld ''playersToRegister'' = None" "registrationClosesAt demoPool demoClosing \<le> 200"
    by (simp_all add: demoClosing_def demoPool_def demoWorld_def registrationClosesAt_def)
  moreover have "set (playersToRegister (poolId58 demoWorld) 3 (w_db demoWorld)) \<subseteq> dom (sv_registeredRecently demoForgetful)"
    unfolding p by (simp add: demoForgetful_def)
  moreover have "emptyLastTick demoStale demoClosing"
    by (simp add: emptyLastTick_def demoStale_def demoForgetful_def demoClosing_def)
  moreover have "indexerFreshForClose \<lparr>cur_ageSeconds = Some 1, cur_updatedAt = Some 199\<rparr> (w_freshSeconds demoWorld) demoClosing"
    by (simp add: indexerFreshForClose_def demoWorld_def demoClosing_def)
  ultimately show ?thesis
    using registration_closes_over_remembered_owners[OF demoStale_def, of "initialAcc demoStale"] p by simp
qed

end
