(* ===== verification/Access.thy ===== *)
theory Access
  imports Read_Model
begin

text \<open>
  Invite and referral codes (\<open>api/invite-code.ts\<close>, \<open>api/referral-code.ts\<close>), the private-beta gate
  (\<open>api/access.controller.ts\<close>) and the referrals routes (\<open>api/referrals.controller.ts\<close>).

  A request body is a JSON value; a handler returns an HTTP error or a response together with the
  database after it. A thrown error rolls the transaction back, so an error carries no database.
  Random draws are a function from the draw's number to its value; key parsing, base58, hashing and
  Ed25519 verification are fields of the environment. Texts are ASCII.
\<close>

section \<open>Codes and messages\<close>

definition INVITE_CODE_ALPHABET :: string where
  "INVITE_CODE_ALPHABET = ''23456789ABCDEFGHJKLMNPQRSTUVWXYZ''"
definition INVITE_CODE_LENGTH :: nat where "INVITE_CODE_LENGTH = 8"
definition INVITE_CODE_MAX_USES :: int where "INVITE_CODE_MAX_USES = 1"
definition INVITE_CIRCULATION_CAP :: int where "INVITE_CIRCULATION_CAP = 50"
definition INVITE_REDEEM_GRANT_COUNT :: int where "INVITE_REDEEM_GRANT_COUNT = 2"

definition inviteGrantCount :: "int \<Rightarrow> int \<Rightarrow> int \<Rightarrow> int" where
  "inviteGrantCount circulation cap grantCount = max 0 (min grantCount (cap - circulation))"

text \<open>The \<open>k\<close>-th code generated from a supply of random draws below 32.\<close>

definition generateInviteCode :: "(nat \<Rightarrow> nat) \<Rightarrow> nat \<Rightarrow> string" where
  "generateInviteCode randomInt k =
    map (\<lambda>i. INVITE_CODE_ALPHABET ! randomInt (INVITE_CODE_LENGTH * k + i)) [0..<INVITE_CODE_LENGTH]"

definition upperChar :: "char \<Rightarrow> char" where
  "upperChar c = (let v = of_char c :: nat in if 97 \<le> v \<and> v \<le> 122 then char_of (v - 32) else c)"

definition normalizeInviteCode :: "string \<Rightarrow> string" where
  "normalizeInviteCode raw = map upperChar (trimText raw)"

definition accessMessage :: "string \<Rightarrow> string \<Rightarrow> string option \<Rightarrow> string" where
  "accessMessage wallet code referralCode =
    (case referralCode of
       None \<Rightarrow> ''HEXO access: '' @ wallet @ '' '' @ code
     | Some r \<Rightarrow> if r = [] then ''HEXO access: '' @ wallet @ '' '' @ code
                 else ''HEXO access: '' @ wallet @ '' '' @ code @ '' ref:'' @ r)"

definition applyReferralMessage :: "string \<Rightarrow> string \<Rightarrow> string" where
  "applyReferralMessage wallet code = ''HEXO apply referral: '' @ wallet @ '' '' @ code"

section \<open>Environment, tables and errors\<close>

datatype http_error =
    BadRequest string
  | NotFound string
  | Conflict string
  | Unauthorized string

type_synonym 'a http = "http_error + 'a"

record access_env =
  ae_parseKey :: "string \<Rightarrow> pubkey option"
  ae_toBase58 :: "pubkey \<Rightarrow> string"
  ae_decode58 :: "string \<Rightarrow> bytes option"
  ae_importKey :: "pubkey \<Rightarrow> bool"
  ae_verifyEd25519 :: "string \<Rightarrow> pubkey \<Rightarrow> bytes \<Rightarrow> bool option"
  ae_sha256 :: "string \<Rightarrow> bytes"
  ae_poolAddress :: string
  ae_inviteAdminKey :: "string option"
  ae_circulationCap :: int
  ae_redeemGrantCount :: int

record invite_row =
  ic_code :: string
  ic_ownerWallet :: "string option"
  ic_maxUses :: int
  ic_uses :: int
  ic_createdAt :: int

record redemption_row =
  id_wallet :: string
  id_code :: string
  id_redeemedAt :: int

record referral_code_row =
  rk_code :: string
  rk_owner :: string
  rk_createdAt :: int

record access_db =
  ab_invites :: "invite_row list"
  ab_redemptions :: "redemption_row list"
  ab_codes :: "referral_code_row list"
  ab_model :: read_model

fun hbind :: "'a http \<Rightarrow> ('a \<Rightarrow> 'b http) \<Rightarrow> 'b http" where
  "hbind (Inl e) f = Inl e"
| "hbind (Inr x) f = f x"

section \<open>Signatures\<close>

definition verifySignedMessage :: "access_env \<Rightarrow> pubkey \<Rightarrow> string \<Rightarrow> bytes \<Rightarrow> bool" where
  "verifySignedMessage env wallet message signature =
    (if \<not> ae_importKey env wallet then False
     else (case ae_verifyEd25519 env message wallet signature of None \<Rightarrow> False | Some b \<Rightarrow> b))"

definition verifyAccessSignature :: "access_env \<Rightarrow> pubkey \<Rightarrow> string \<Rightarrow> bytes \<Rightarrow> string option \<Rightarrow> bool" where
  "verifyAccessSignature env wallet code signature referralCode =
    verifySignedMessage env wallet (accessMessage (ae_toBase58 env wallet) code referralCode) signature"

definition verifyApplyReferralSignature :: "access_env \<Rightarrow> pubkey \<Rightarrow> string \<Rightarrow> bytes \<Rightarrow> bool" where
  "verifyApplyReferralSignature env wallet code signature =
    verifySignedMessage env wallet (applyReferralMessage (ae_toBase58 env wallet) code) signature"

section \<open>Referral codes\<close>

definition freshCode :: "access_db \<Rightarrow> string \<Rightarrow> bool" where
  "freshCode db code \<longleftrightarrow> findUnique ic_code code (ab_invites db) = None \<and> findUnique rk_code code (ab_codes db) = None"

text \<open>Draws until a code is in neither table; \<open>None\<close> is the loop that never ends.\<close>

partial_function (option) generateReferralCode :: "(nat \<Rightarrow> nat) \<Rightarrow> access_db \<Rightarrow> nat \<Rightarrow> string option" where
  "generateReferralCode randomInt db k =
    (let code = generateInviteCode randomInt k in
     if freshCode db code then Some code else generateReferralCode randomInt db (Suc k))"

definition ensureReferralCode :: "(nat \<Rightarrow> nat) \<Rightarrow> int \<Rightarrow> string \<Rightarrow> access_db \<Rightarrow> (string \<times> access_db) option" where
  "ensureReferralCode randomInt now owner db =
    (case findUnique rk_owner owner (ab_codes db) of
       Some owned \<Rightarrow> Some (rk_code owned, db)
     | None \<Rightarrow>
         (case generateReferralCode randomInt db 0 of
            None \<Rightarrow> None
          | Some code \<Rightarrow>
              Some (code, db\<lparr>ab_codes := ab_codes db @ [\<lparr>rk_code = code, rk_owner = owner, rk_createdAt = now\<rparr>]\<rparr>)))"

text \<open>\<open>bindReferral\<close> throws a unique-constraint violation when the referee is bound already.\<close>

definition bindReferral :: "string \<Rightarrow> int \<Rightarrow> string \<Rightarrow> string \<Rightarrow> string \<Rightarrow> access_db \<Rightarrow> access_db option" where
  "bindReferral poolAddress now referee referrer code db =
    (let player = findUnique playerKey (poolAddress, referee) (db_players (ab_model db));
         seeded = applyReferralEvent \<lparr>q_principal = 0, q_aboveSince = None\<rparr>
                    (Deposited (case player of Some p \<Rightarrow> py_principal p | None \<Rightarrow> 0)) now
     in if referee \<in> rl_referee ` set (db_referrals (ab_model db)) then None
        else Some (db\<lparr>ab_model := (ab_model db)\<lparr>db_referrals := db_referrals (ab_model db) @
               [\<lparr>rl_referee = referee, rl_referrer = referrer, rl_code = code, rl_boundAt = now,
                 rl_aboveSince = q_aboveSince seeded, rl_principal = q_principal seeded\<rparr>]\<rparr>\<rparr>))"

section \<open>Request bodies\<close>

definition parseWallet :: "access_env \<Rightarrow> string \<Rightarrow> pubkey http" where
  "parseWallet env raw =
    (case ae_parseKey env raw of
       None \<Rightarrow> Inl (BadRequest ''That is not a valid Solana wallet address.'') | Some k \<Rightarrow> Inr k)"

definition parseSignature :: "access_env \<Rightarrow> json \<Rightarrow> bytes http" where
  "parseSignature env body =
    (case stringField body ''signature'' of
       None \<Rightarrow> Inl (BadRequest ''Send a JSON body with a base58 `signature`.'')
     | Some raw \<Rightarrow>
         if raw = [] then Inl (BadRequest ''Send a JSON body with a base58 `signature`.'')
         else (case ae_decode58 env raw of
                 None \<Rightarrow> Inl (BadRequest ''`signature` must be base58.'')
               | Some s \<Rightarrow>
                   if length s \<noteq> 64 then Inl (BadRequest ''`signature` must be a 64-byte ed25519 signature.'')
                   else Inr s))"

definition parseWalletField :: "access_env \<Rightarrow> json \<Rightarrow> pubkey http" where
  "parseWalletField env body =
    (case stringField body ''wallet'' of
       None \<Rightarrow> Inl (BadRequest ''Send a JSON body with a `wallet` address.'')
     | Some raw \<Rightarrow> if raw = [] then Inl (BadRequest ''Send a JSON body with a `wallet` address.'') else parseWallet env raw)"

definition parseCodeField :: "string \<Rightarrow> json \<Rightarrow> string http" where
  "parseCodeField message body =
    (case stringField body ''code'' of
       None \<Rightarrow> Inl (BadRequest message)
     | Some raw \<Rightarrow> if trimText raw = [] then Inl (BadRequest message) else Inr (normalizeInviteCode raw))"

record redeem_body =
  bo_wallet :: pubkey
  bo_code :: string
  bo_signature :: bytes
  bo_referralCode :: "string option"

definition parseRedeemBody :: "access_env \<Rightarrow> json \<Rightarrow> redeem_body http" where
  "parseRedeemBody env body =
    hbind (parseWalletField env body) (\<lambda>wallet.
    hbind (parseCodeField ''Send a JSON body with an invite `code`.'' body) (\<lambda>code.
    hbind (parseSignature env body) (\<lambda>signature.
    hbind (case jsonField body ''referralCode'' of
             None \<Rightarrow> Inr None
           | Some JNull \<Rightarrow> Inr None
           | Some (JString r) \<Rightarrow>
               if trimText r = [] then Inl (BadRequest ''`referralCode` must be a non-empty string when present.'')
               else Inr (Some (normalizeInviteCode r))
           | Some _ \<Rightarrow> Inl (BadRequest ''`referralCode` must be a non-empty string when present.'')) (\<lambda>referralCode.
      Inr \<lparr>bo_wallet = wallet, bo_code = code, bo_signature = signature, bo_referralCode = referralCode\<rparr>))))"

definition parseApplyReferralBody :: "access_env \<Rightarrow> json \<Rightarrow> (pubkey \<times> string \<times> bytes) http" where
  "parseApplyReferralBody env body =
    hbind (parseWalletField env body) (\<lambda>wallet.
    hbind (parseCodeField ''Send a JSON body with a referral `code`.'' body) (\<lambda>code.
    hbind (parseSignature env body) (\<lambda>signature. Inr (wallet, code, signature))))"

definition MAX_INVITES_PER_REQUEST :: int where "MAX_INVITES_PER_REQUEST = 100"

definition jsonOr :: "json \<Rightarrow> string \<Rightarrow> json \<Rightarrow> json" where
  "jsonOr body key d = (case jsonField body key of None \<Rightarrow> d | Some JNull \<Rightarrow> d | Some v \<Rightarrow> v)"

definition parseCreateInvitesBody :: "access_env \<Rightarrow> json \<Rightarrow> (int \<times> string option \<times> int) http" where
  "parseCreateInvitesBody env body =
    hbind (case jsonOr body ''maxUses'' (JNumber INVITE_CODE_MAX_USES) of
             JNumber n \<Rightarrow> if n > MAX_SAFE_INTEGER \<or> n < 1
               then Inl (BadRequest ''`maxUses` must be a positive whole number when present.'') else Inr n
           | _ \<Rightarrow> Inl (BadRequest ''`maxUses` must be a positive whole number when present.'')) (\<lambda>maxUses.
    hbind (case jsonOr body ''count'' (JNumber 1) of
             JNumber n \<Rightarrow> if n < 1 \<or> n > MAX_INVITES_PER_REQUEST
               then Inl (BadRequest ''`count` must be a whole number from 1 to 100.'') else Inr n
           | _ \<Rightarrow> Inl (BadRequest ''`count` must be a whole number from 1 to 100.'')) (\<lambda>count.
    hbind (case jsonField body ''owner'' of
             None \<Rightarrow> Inr None
           | Some JNull \<Rightarrow> Inr None
           | Some (JString o1) \<Rightarrow> hbind (parseWallet env o1) (\<lambda>k. Inr (Some (ae_toBase58 env k)))
           | Some _ \<Rightarrow> Inl (BadRequest ''`owner` must be a wallet address.'')) (\<lambda>owner.
      Inr (maxUses, owner, count))))"

section \<open>The gate\<close>

definition sameKey :: "access_env \<Rightarrow> string \<Rightarrow> string \<Rightarrow> bool" where
  "sameKey env given expected = (ae_sha256 env given = ae_sha256 env expected)"

definition requireAdminKey :: "access_env \<Rightarrow> string option \<Rightarrow> unit http" where
  "requireAdminKey env key =
    (case ae_inviteAdminKey env of
       None \<Rightarrow> Inl (NotFound ''Not Found'')
     | Some expected \<Rightarrow>
         (case key of
            None \<Rightarrow> Inl (Unauthorized ''Missing or wrong `x-admin-key`.'')
          | Some given \<Rightarrow> if sameKey env given expected then Inr ()
                          else Inl (Unauthorized ''Missing or wrong `x-admin-key`.'')))"

definition getAccess :: "access_env \<Rightarrow> string \<Rightarrow> access_db \<Rightarrow> (bool \<times> string) http" where
  "getAccess env walletRaw db =
    hbind (parseWallet env walletRaw) (\<lambda>key.
      let wallet = ae_toBase58 env key in
      if findUnique id_wallet wallet (ab_redemptions db) \<noteq> None then Inr (True, ''invite code redeemed'')
      else if find (\<lambda>p. py_owner p = wallet) (db_players (ab_model db)) \<noteq> None then Inr (True, ''existing depositor'')
      else Inr (False, ''no invite code redeemed''))"

text \<open>\<open>createMany\<close> without \<open>skipDuplicates\<close>: one duplicate key fails the whole insert.\<close>

definition createInvites :: "invite_row list \<Rightarrow> access_db \<Rightarrow> access_db option" where
  "createInvites rows db =
    (if distinct (map ic_code (ab_invites db @ rows)) then Some (db\<lparr>ab_invites := ab_invites db @ rows\<rparr>) else None)"

definition circulationOf :: "access_db \<Rightarrow> int" where
  "circulationOf db = (\<Sum>r\<leftarrow>ab_invites db. ic_maxUses r) - (\<Sum>r\<leftarrow>ab_invites db. ic_uses r)"

definition mintInvites :: "(nat \<Rightarrow> nat) \<Rightarrow> string option \<Rightarrow> int \<Rightarrow> int \<Rightarrow> int \<Rightarrow> invite_row list" where
  "mintInvites randomInt owner maxUses now count =
    map (\<lambda>k. \<lparr>ic_code = generateInviteCode randomInt k, ic_ownerWallet = owner, ic_maxUses = maxUses, ic_uses = 0,
              ic_createdAt = now\<rparr>) [0..<nat count]"

definition chooseReferrer :: "string \<Rightarrow> string option \<Rightarrow> invite_row \<Rightarrow> access_db \<Rightarrow> (string \<times> string) option" where
  "chooseReferrer address referralCode invite db =
    (let bound = (case referralCode of None \<Rightarrow> None
                  | Some r \<Rightarrow> (case findUnique rk_code r (ab_codes db) of
                                 None \<Rightarrow> None
                               | Some owner \<Rightarrow> if rk_owner owner \<noteq> address then Some (rk_owner owner, r) else None))
     in case bound of Some b \<Rightarrow> Some b
        | None \<Rightarrow> (case ic_ownerWallet invite of
                     None \<Rightarrow> None
                   | Some o1 \<Rightarrow> if o1 \<noteq> address then Some (o1, ic_code invite) else None))"

definition ALREADY_REDEEMED :: string where
  "ALREADY_REDEEMED = ''This wallet has already redeemed an invite code.''"

definition redeemTx ::
    "access_env \<Rightarrow> (nat \<Rightarrow> nat) \<Rightarrow> int \<Rightarrow> string \<Rightarrow> string \<Rightarrow> string option \<Rightarrow> access_db \<Rightarrow> access_db http" where
  "redeemTx env randomInt now address code referralCode db =
    (if findUnique id_wallet address (ab_redemptions db) \<noteq> None then Inl (Conflict ALREADY_REDEEMED)
     else (case findUnique ic_code code (ab_invites db) of
       None \<Rightarrow> Inl (NotFound ''That invite code does not exist.'')
     | Some invite \<Rightarrow>
         if filter (\<lambda>r. ic_code r = code \<and> ic_uses r < ic_maxUses invite) (ab_invites db) = []
         then Inl (Conflict ''That invite code has no uses left.'')
         else
           let db1 = db\<lparr>ab_invites := updateRows (\<lambda>r. ic_code r = code \<and> ic_uses r < ic_maxUses invite)
                          (\<lambda>r. r\<lparr>ic_uses := ic_uses r + 1\<rparr>) (ab_invites db),
                        ab_redemptions := ab_redemptions db @
                          [\<lparr>id_wallet = address, id_code = code, id_redeemedAt = now\<rparr>]\<rparr>;
               bound = (if findUnique rl_referee address (db_referrals (ab_model db1)) \<noteq> None then None
                        else chooseReferrer address referralCode invite db1);
               db2 = (case bound of None \<Rightarrow> Some db1
                      | Some (referrer, c) \<Rightarrow> bindReferral (ae_poolAddress env) now address referrer c db1)
           in (case db2 of
                 None \<Rightarrow> Inl (Conflict ALREADY_REDEEMED)
               | Some d \<Rightarrow>
                   let grantCount = inviteGrantCount (circulationOf d) (ae_circulationCap env) (ae_redeemGrantCount env)
                   in if grantCount > 0
                      then (case createInvites (mintInvites randomInt (Some address) INVITE_CODE_MAX_USES now grantCount) d of
                              None \<Rightarrow> Inl (Conflict ALREADY_REDEEMED)
                            | Some d' \<Rightarrow> Inr d')
                      else Inr d)))"

definition redeem :: "access_env \<Rightarrow> (nat \<Rightarrow> nat) \<Rightarrow> int \<Rightarrow> json \<Rightarrow> access_db \<Rightarrow> access_db http" where
  "redeem env randomInt now body db =
    hbind (parseRedeemBody env body) (\<lambda>b.
      let address = ae_toBase58 env (bo_wallet b) in
      if \<not> verifyAccessSignature env (bo_wallet b) (bo_code b) (bo_signature b) (bo_referralCode b)
      then Inl (BadRequest (''That signature does not match \"'' @ accessMessage address (bo_code b) (bo_referralCode b) @ ''\".''))
      else redeemTx env randomInt now address (bo_code b) (bo_referralCode b) db)"

definition createInvitesRoute ::
    "access_env \<Rightarrow> (nat \<Rightarrow> nat) \<Rightarrow> int \<Rightarrow> string option \<Rightarrow> json \<Rightarrow> access_db \<Rightarrow> (string list \<times> access_db) option http" where
  "createInvitesRoute env randomInt now key body db =
    hbind (requireAdminKey env key) (\<lambda>_.
    hbind (parseCreateInvitesBody env body) (\<lambda>(maxUses, owner, count).
      let rows = mintInvites randomInt owner maxUses now count
      in Inr (case createInvites rows db of None \<Rightarrow> None | Some d \<Rightarrow> Some (map ic_code rows, d))))"

section \<open>The referrals routes\<close>

definition applyReferralTx :: "access_env \<Rightarrow> int \<Rightarrow> string \<Rightarrow> string \<Rightarrow> access_db \<Rightarrow> (bool \<times> string) \<times> access_db" where
  "applyReferralTx env now address code db =
    (if findUnique rl_referee address (db_referrals (ab_model db)) \<noteq> None
     then ((False, ''This wallet already has a Referrer.''), db)
     else (case findUnique rk_code code (ab_codes db) of
             None \<Rightarrow> ((False, ''That referral code does not exist.''), db)
           | Some rc \<Rightarrow>
               if rk_owner rc = address then ((False, ''You cannot apply your own referral code.''), db)
               else (case bindReferral (ae_poolAddress env) now address (rk_owner rc) code db of
                       None \<Rightarrow> ((False, ''This wallet already has a Referrer.''), db)
                     | Some d \<Rightarrow> ((True, ''referral applied''), d))))"

definition applyReferral :: "access_env \<Rightarrow> int \<Rightarrow> json \<Rightarrow> access_db \<Rightarrow> ((bool \<times> string) \<times> access_db) http" where
  "applyReferral env now body db =
    hbind (parseApplyReferralBody env body) (\<lambda>(wallet, code, signature).
      let address = ae_toBase58 env wallet in
      if \<not> verifyApplyReferralSignature env wallet code signature
      then Inl (BadRequest (''That signature does not match \"'' @ applyReferralMessage address code @ ''\".''))
      else Inr (applyReferralTx env now address code db))"

definition referralCodeFor :: "(nat \<Rightarrow> nat) \<Rightarrow> int \<Rightarrow> string \<Rightarrow> access_db \<Rightarrow> (string option \<times> access_db) option" where
  "referralCodeFor randomInt now wallet db =
    (case findUnique rk_owner wallet (ab_codes db) of
       Some owned \<Rightarrow> Some (Some (rk_code owned), db)
     | None \<Rightarrow>
         if findUnique id_wallet wallet (ab_redemptions db) = None then Some (None, db)
         else map_option (\<lambda>(c, d). (Some c, d)) (ensureReferralCode randomInt now wallet db))"

end
