(* ===== verification/Indexer.thy ===== *)
theory Indexer
  imports Access
begin

text \<open>
  Event ingest (\<open>indexer/indexer.service.ts\<close>, the event half): one transaction's finalized events are
  stored together with everything they imply, and the cursor advances in the same database
  transaction; the catch-up walk pages back to the cursor and replays what it has not seen, oldest
  first.

  Database operations work on \<open>access_db\<close>, which holds the Read model and the code tables. A result
  \<open>None\<close> is a loop that never ends (drawing referral codes, or paging through signatures), \<open>Inl\<close> a
  rejected promise. Parsing logs, the RPC calls and random draws are arguments.
\<close>

section \<open>Events\<close>

definition eventField :: "decoded_event \<Rightarrow> string \<Rightarrow> string option" where
  "eventField event key = stringField (ev_data event) key"

definition eventBool :: "decoded_event \<Rightarrow> string \<Rightarrow> bool option" where
  "eventBool event key = (case jsonField (ev_data event) key of Some (JBool b) \<Rightarrow> Some b | _ \<Rightarrow> None)"

definition ownerAmount ::
    "decoded_event \<Rightarrow> string \<Rightarrow> string \<Rightarrow> (int \<Rightarrow> principal_event) \<Rightarrow> (string \<times> principal_event) option res" where
  "ownerAmount event ownerKey amountKey mk =
    (case (eventField event ownerKey, eventField event amountKey) of
       (Some owner, Some amount) \<Rightarrow> rbind (bigIntOf amount) (\<lambda>a. Inr (Some (owner, mk a)))
     | _ \<Rightarrow> Inr None)"

definition principalEventOf :: "decoded_event \<Rightarrow> (string \<times> principal_event) option res" where
  "principalEventOf event =
    (if ev_name event = ''Deposited'' then ownerAmount event ''owner'' ''principal'' Deposited
     else if ev_name event = ''WithdrawRequested'' then ownerAmount event ''owner'' ''amount'' WithdrawRequested
     else if ev_name event = ''YieldCredited'' then ownerAmount event ''owner'' ''amount'' YieldCredited
     else if ev_name event = ''JackpotPaid'' \<and> eventBool event ''compounded'' = Some True
       then ownerAmount event ''winner'' ''amount'' JackpotPaid
     else Inr None)"

definition referralPrincipalEvents :: "decoded_event list \<Rightarrow> (string \<times> principal_event) list res" where
  "referralPrincipalEvents events =
    rbind (mapRes principalEventOf events) (\<lambda>xs. Inr (List.map_filter id xs))"

section \<open>Persisting one batch\<close>

record log_batch =
  lb_signature :: string
  lb_slot :: int
  lb_blockTime :: "int option"

definition eventRows :: "string \<Rightarrow> log_batch \<Rightarrow> decoded_event list \<Rightarrow> event_row list" where
  "eventRows pool batch events =
    map (\<lambda>(index, event). \<lparr>vr_slot = lb_slot batch, vr_signature = lb_signature batch, vr_index = int index,
           vr_poolAddress = pool, vr_name = ev_name event, vr_data = ev_data event,
           vr_blockTime = lb_blockTime batch\<rparr>) (enumerate 0 events)"

definition depositorsOf :: "decoded_event list \<Rightarrow> string list" where
  "depositorsOf events =
    firstOccurrences (List.map_filter (\<lambda>e. eventField e ''owner'') (filter (\<lambda>e. ev_name e = ''Deposited'') events))"

fun ensureCodes :: "(nat \<Rightarrow> nat \<Rightarrow> nat) \<Rightarrow> int \<Rightarrow> string list \<Rightarrow> access_db \<Rightarrow> access_db option" where
  "ensureCodes draws now [] db = Some db"
| "ensureCodes draws now (owner # owners) db =
    (case ensureReferralCode (draws (length owners)) now owner db of
       None \<Rightarrow> None | Some (_, d) \<Rightarrow> ensureCodes draws now owners d)"

definition trackStep :: "int \<Rightarrow> string \<times> principal_event \<Rightarrow> (string \<rightharpoonup> qualification) \<Rightarrow> (string \<rightharpoonup> qualification)" where
  "trackStep blockTime oe state =
    (case state (fst oe) of None \<Rightarrow> state
     | Some current \<Rightarrow> state(fst oe \<mapsto> applyReferralEvent current (snd oe) blockTime))"

definition trackReferrals :: "int \<Rightarrow> (string \<times> principal_event) list \<Rightarrow> referral_row list \<Rightarrow> referral_row list" where
  "trackReferrals blockTime evs referrals =
    (let referees = map fst evs;
         existing = filter (\<lambda>r. rl_referee r \<in> set referees) referrals;
         state0 = map_of (map (\<lambda>r. (rl_referee r, \<lparr>q_principal = rl_principal r, q_aboveSince = rl_aboveSince r\<rparr>)) existing);
         state = fold (trackStep blockTime) evs state0
     in map (\<lambda>r. case state (rl_referee r) of None \<Rightarrow> r
               | Some n \<Rightarrow> r\<lparr>rl_principal := q_principal n, rl_aboveSince := q_aboveSince n\<rparr>) referrals)"

definition advanceCursor :: "string \<Rightarrow> int \<Rightarrow> log_batch \<Rightarrow> cursor_row list \<Rightarrow> cursor_row list" where
  "advanceCursor pool now batch cursors =
    (let reached = (case findUnique cr_poolAddress pool cursors of None \<Rightarrow> None | Some c \<Rightarrow> cr_lastSlot c)
     in case reached of
          Some l \<Rightarrow>
            if l \<le> lb_slot batch
            then upsertRow cr_poolAddress \<lparr>cr_poolAddress = pool, cr_lastSignature = Some (lb_signature batch),
                   cr_lastSlot = Some (lb_slot batch), cr_updatedAt = Some now\<rparr> cursors
            else cursors
        | None \<Rightarrow> upsertRow cr_poolAddress \<lparr>cr_poolAddress = pool, cr_lastSignature = Some (lb_signature batch),
                   cr_lastSlot = Some (lb_slot batch), cr_updatedAt = Some now\<rparr> cursors)"

definition writeBatch ::
    "string \<Rightarrow> int \<Rightarrow> log_batch \<Rightarrow> decoded_event list \<Rightarrow> (string \<times> int) list \<Rightarrow> int list \<Rightarrow> read_model \<Rightarrow> read_model" where
  "writeBatch pool now batch events closed closedRounds m =
    m\<lparr>db_events := fold (createIfAbsent eventKey) (eventRows pool batch events) (db_events m),
      db_positions := deleteRows (\<lambda>p. po_poolAddress p = pool \<and> (po_owner p, po_roundId p) \<in> set closed) (db_positions m),
      db_rounds := updateRows (\<lambda>r. rr_poolAddress r = pool \<and> rr_id r \<in> set closedRounds) (\<lambda>r. r\<lparr>rr_closed := True\<rparr>) (db_rounds m)\<rparr>"

definition persist ::
    "string \<Rightarrow> int \<Rightarrow> (nat \<Rightarrow> nat \<Rightarrow> nat) \<Rightarrow> log_batch \<Rightarrow> decoded_event list \<Rightarrow> bool \<Rightarrow> access_db
      \<Rightarrow> (nat \<times> access_db) res option" where
  "persist pool now draws batch events advance db =
    (case (mapRes settledPosition events, mapRes closedRound events, referralPrincipalEvents events) of
       (Inr closed, Inr closedRounds, Inr referralEvents) \<Rightarrow>
         let m = ab_model db;
             m1 = writeBatch pool now batch events (List.map_filter id closed) (List.map_filter id closedRounds) m;
             created = length (db_events m1) - length (db_events m)
         in (case ensureCodes draws now (depositorsOf events) (db\<lparr>ab_model := m1\<rparr>) of
               None \<Rightarrow> None
             | Some d \<Rightarrow>
                 let m2 = ab_model d;
                     blockTime = (case lb_blockTime batch of Some t \<Rightarrow> t | None \<Rightarrow> now);
                     m3 = (if referralEvents \<noteq> [] \<and> created > 0
                           then m2\<lparr>db_referrals := trackReferrals blockTime referralEvents (db_referrals m2)\<rparr> else m2);
                     m4 = (if advance then m3\<lparr>db_cursors := advanceCursor pool now batch (db_cursors m3)\<rparr> else m3)
                 in Some (Inr (created, d\<lparr>ab_model := m4\<rparr>)))
     | (Inl e, _, _) \<Rightarrow> Some (Inl e)
     | (_, Inl e, _) \<Rightarrow> Some (Inl e)
     | (_, _, Inl e) \<Rightarrow> Some (Inl e))"

section \<open>Catching up\<close>

definition SIGNATURE_PAGE :: nat where "SIGNATURE_PAGE = 1000"

record signature_info =
  si_signature :: string
  si_slot :: int
  si_blockTime :: "int option"
  si_err :: bool

record chain_reads =
  ch_signatures :: "string option \<Rightarrow> signature_info list res"
  ch_logs :: "string \<Rightarrow> string list option res"
  ch_parse :: "string list \<Rightarrow> decoded_event list res"

definition findIndex :: "('a \<Rightarrow> bool) \<Rightarrow> 'a list \<Rightarrow> nat option" where
  "findIndex p xs = (if list_ex p xs then Some (length (takeWhile (\<lambda>x. \<not> p x) xs)) else None)"

partial_function (option) collectBacklog ::
    "chain_reads \<Rightarrow> string option \<Rightarrow> string option \<Rightarrow> signature_info list \<Rightarrow> signature_info list res option" where
  "collectBacklog ch lastSignature before backlog =
    (case ch_signatures ch before of
       Inl e \<Rightarrow> Some (Inl e)
     | Inr page \<Rightarrow>
         let reached = (case lastSignature of None \<Rightarrow> None
                        | Some s \<Rightarrow> if s = [] then None else findIndex (\<lambda>i. si_signature i = s) page);
             backlog' = backlog @ (case reached of None \<Rightarrow> page | Some n \<Rightarrow> take n page)
         in if reached \<noteq> None \<or> length page < SIGNATURE_PAGE then Some (Inr backlog')
            else collectBacklog ch lastSignature (Some (si_signature (last page))) backlog')"

definition ingestSignature ::
    "string \<Rightarrow> int \<Rightarrow> (nat \<Rightarrow> nat \<Rightarrow> nat) \<Rightarrow> chain_reads \<Rightarrow> signature_info \<Rightarrow> access_db \<Rightarrow> (bool \<times> access_db) res option" where
  "ingestSignature pool now draws ch info db =
    (let batch = \<lparr>lb_signature = si_signature info, lb_slot = si_slot info, lb_blockTime = si_blockTime info\<rparr>;
         stored = (\<lambda>r. map_option (\<lambda>x. rbind x (\<lambda>(_, d). Inr (True, d))) r)
     in if si_err info then stored (persist pool now draws batch [] True db)
        else (case ch_logs ch (si_signature info) of
                Inl e \<Rightarrow> Some (Inl e)
              | Inr None \<Rightarrow> Some (Inr (False, db))
              | Inr (Some logs) \<Rightarrow>
                  (case ch_parse ch logs of
                     Inl e \<Rightarrow> Some (Inl e)
                   | Inr events \<Rightarrow> stored (persist pool now draws batch events True db))))"

text \<open>The database is returned with a rejection too: the signatures before it are committed.\<close>

fun replayBacklog ::
    "string \<Rightarrow> int \<Rightarrow> (nat \<Rightarrow> nat \<Rightarrow> nat \<Rightarrow> nat) \<Rightarrow> chain_reads \<Rightarrow> signature_info list \<Rightarrow> access_db
      \<Rightarrow> (unit res \<times> access_db) option" where
  "replayBacklog pool now draws ch [] db = Some (Inr (), db)"
| "replayBacklog pool now draws ch (info # infos) db =
    (case ingestSignature pool now (draws (length infos)) ch info db of
       None \<Rightarrow> None
     | Some (Inl e) \<Rightarrow> Some (Inl e, db)
     | Some (Inr (False, d)) \<Rightarrow> Some (Inr (), d)
     | Some (Inr (True, d)) \<Rightarrow> replayBacklog pool now draws ch infos d)"

definition catchUpEvents ::
    "string \<Rightarrow> int \<Rightarrow> (nat \<Rightarrow> nat \<Rightarrow> nat \<Rightarrow> nat) \<Rightarrow> chain_reads \<Rightarrow> access_db \<Rightarrow> (unit res \<times> access_db) option" where
  "catchUpEvents pool now draws ch db =
    (let cursor = findUnique cr_poolAddress pool (db_cursors (ab_model db));
         lastSignature = (case cursor of None \<Rightarrow> None | Some c \<Rightarrow> cr_lastSignature c)
     in case collectBacklog ch lastSignature None [] of
          None \<Rightarrow> None
        | Some (Inl e) \<Rightarrow> Some (Inl e, db)
        | Some (Inr backlog) \<Rightarrow> replayBacklog pool now draws ch (rev backlog) db)"

text \<open>The live path: dropped before the first sweep and for a batch without events, and never moving
  the cursor.\<close>

definition liveLogs ::
    "string \<Rightarrow> int \<Rightarrow> (nat \<Rightarrow> nat \<Rightarrow> nat) \<Rightarrow> bool \<Rightarrow> log_batch \<Rightarrow> decoded_event list res \<Rightarrow> access_db
      \<Rightarrow> (unit res \<times> access_db) option" where
  "liveLogs pool now draws synced batch events db =
    (if \<not> synced then Some (Inr (), db)
     else (case events of
             Inl e \<Rightarrow> Some (Inl e, db)
           | Inr evs \<Rightarrow>
               if evs = [] then Some (Inr (), db)
               else (case persist pool now draws batch evs False db of
                       None \<Rightarrow> None
                     | Some (Inl e) \<Rightarrow> Some (Inl e, db)
                     | Some (Inr (_, d)) \<Rightarrow> Some (Inr (), d))))"

text \<open>The end of a tick whose sync succeeded: the catch-up walk, then the freshness stamp.\<close>

definition stampCursor :: "string \<Rightarrow> int \<Rightarrow> cursor_row list \<Rightarrow> cursor_row list" where
  "stampCursor pool now cursors =
    upsertRow cr_poolAddress
      (case findUnique cr_poolAddress pool cursors of
         Some c \<Rightarrow> c\<lparr>cr_updatedAt := Some now\<rparr>
       | None \<Rightarrow> \<lparr>cr_poolAddress = pool, cr_lastSignature = None, cr_lastSlot = None, cr_updatedAt = Some now\<rparr>) cursors"

definition ingestTick ::
    "string \<Rightarrow> int \<Rightarrow> (nat \<Rightarrow> nat \<Rightarrow> nat \<Rightarrow> nat) \<Rightarrow> chain_reads \<Rightarrow> access_db \<Rightarrow> (unit res \<times> access_db) option" where
  "ingestTick pool now draws ch db =
    (case catchUpEvents pool now draws ch db of
       None \<Rightarrow> None
     | Some (Inl e, d) \<Rightarrow> Some (Inl e, d)
     | Some (Inr _, d) \<Rightarrow>
         Some (Inr (), d\<lparr>ab_model := (ab_model d)\<lparr>db_cursors := stampCursor pool now (db_cursors (ab_model d))\<rparr>\<rparr>))"

end
