(* ===== verification/Rpc_Fallback.thy ===== *)
theory Rpc_Fallback
  imports Hexo_Prelude
begin

text \<open>
  The connection wrapper (\<open>chain/rpc-fallback.ts\<close>): every call that is not a subscription is bounded by
  a timeout and, on a timeout, a 5xx or a 429, retried once on the fallback endpoint; the endpoint
  that answered last is recorded, and no error leaves with an RPC url in its message.

  What an endpoint answers within the timeout is an argument, one \<open>call_outcome\<close> per endpoint; the wall
  clock in milliseconds is an argument too. A thrown value is an \<open>Error\<close> with its message or anything
  else with its text.
\<close>

section \<open>Values\<close>

datatype endpoint = Primary | Fallback

record rpc_state =
  rs_endpoint :: endpoint
  rs_fallbackAt :: "int option"

definition NEW_RPC_STATE :: rpc_state where
  "NEW_RPC_STATE = \<lparr>rs_endpoint = Primary, rs_fallbackAt = None\<rparr>"

datatype thrown = ErrorObject string | OtherThrown string

datatype 'a call_outcome = Answered 'a | Failed thrown | NoAnswer

fun thrownText :: "thrown \<Rightarrow> string" where
  "thrownText (ErrorObject m) = m"
| "thrownText (OtherThrown m) = m"

definition SUBSCRIPTION_METHODS :: "string list" where
  "SUBSCRIPTION_METHODS =
    [''onLogs'', ''removeOnLogsListener'', ''onAccountChange'', ''removeAccountChangeListener'',
     ''onSignature'', ''removeSignatureListener'']"

section \<open>Timeouts and the errors worth a second endpoint\<close>

definition timeoutMessage :: "string \<Rightarrow> nat \<Rightarrow> string" where
  "timeoutMessage label ms = label @ '' timed out after '' @ showNat ms @ ''ms''"

fun withTimeout :: "'a call_outcome \<Rightarrow> nat \<Rightarrow> string \<Rightarrow> thrown + 'a" where
  "withTimeout (Answered x) ms label = Inr x"
| "withTimeout (Failed e) ms label = Inl e"
| "withTimeout NoAnswer ms label = Inl (ErrorObject (timeoutMessage label ms))"


text \<open>\<open>/timed out after \d+ms$/\<close>: stripping \<open>ms\<close> and then the digits leaves a text ending in the words.\<close>

definition endsInTimeout :: "string \<Rightarrow> bool" where
  "endsInTimeout m =
    (let r = rev m; body = drop 2 r
     in prefix (rev ''ms'') r \<and> body \<noteq> [] \<and> isDigit (hd body) \<and>
        prefix (rev ''timed out after '') (dropWhile isDigit body))"

text \<open>\<open>/^(429|5\d\d)\b/\<close>\<close>

definition startsWithRetryStatus :: "string \<Rightarrow> bool" where
  "startsWithRetryStatus m =
    (3 \<le> length m \<and>
     (take 3 m = ''429'' \<or> m ! 0 = CHR ''5'' \<and> isDigit (m ! 1) \<and> isDigit (m ! 2)) \<and>
     (drop 3 m = [] \<or> \<not> isWordChar (hd (drop 3 m))))"

definition isFailoverWorthy :: "thrown \<Rightarrow> bool" where
  "isFailoverWorthy error =
    (endsInTimeout (thrownText error) \<or> startsWithRetryStatus (thrownText error))"

section \<open>Redaction\<close>

definition RPC_URL_MARK :: string where "RPC_URL_MARK = ''<rpc-url>''"

text \<open>\<open>message.split(url).join(mark)\<close> for a url that is not empty: leftmost occurrences, left to right.\<close>

function scrub :: "string \<Rightarrow> string \<Rightarrow> string" where
  "scrub url m =
    (if m = [] then []
     else if url \<noteq> [] \<and> prefix url m then RPC_URL_MARK @ scrub url (drop (length url) m)
     else hd m # scrub url (tl m))"
  by pat_completeness auto
termination
  by (relation "measure (\<lambda>(url, m). length m)") (auto simp: neq_Nil_conv)

declare scrub.simps [simp del]

text \<open>A changed message becomes a new \<open>Error\<close>; the original stays reachable as its cause, which the model
  does not carry.\<close>

fun redact :: "thrown \<Rightarrow> string list \<Rightarrow> thrown" where
  "redact (OtherThrown m) urls = OtherThrown m"
| "redact (ErrorObject m) urls = ErrorObject (fold scrub urls m)"

section \<open>The call\<close>

text \<open>\<open>urls\<close> keeps the endpoints' urls that are not empty.\<close>

definition rpcUrls :: "string \<Rightarrow> string option \<Rightarrow> string list" where
  "rpcUrls primaryUrl fallbackUrl =
    filter (\<lambda>u. u \<noteq> []) (primaryUrl # (case fallbackUrl of None \<Rightarrow> [] | Some u \<Rightarrow> [u]))"

definition callWithFallback ::
    "string \<Rightarrow> 'a call_outcome \<Rightarrow> 'a call_outcome option \<Rightarrow> nat \<Rightarrow> int \<Rightarrow> string list \<Rightarrow> rpc_state
      \<Rightarrow> (thrown + 'a) \<times> rpc_state" where
  "callWithFallback method primary fallback ms now urls st =
    (case withTimeout primary ms (''RPC '' @ method) of
       Inr x \<Rightarrow> (Inr x, st\<lparr>rs_endpoint := Primary\<rparr>)
     | Inl e \<Rightarrow>
         (case fallback of
            None \<Rightarrow> (Inl (redact e urls), st)
          | Some fb \<Rightarrow>
              if \<not> isFailoverWorthy e then (Inl (redact e urls), st)
              else (case withTimeout fb ms (''RPC '' @ method @ '' (fallback)'') of
                      Inr x \<Rightarrow> (Inr x, st\<lparr>rs_endpoint := Fallback, rs_fallbackAt := Some now\<rparr>)
                    | Inl _ \<Rightarrow> (Inl (redact (ErrorObject (''RPC '' @ method @ '' failed on both endpoints'')) urls), st))))"

text \<open>One property access on the wrapped connection: a subscription is called on the primary itself, with
  no timeout, no fallback and no change of the recorded state.\<close>

definition rpcCall ::
    "string \<Rightarrow> 'a call_outcome \<Rightarrow> 'a call_outcome option \<Rightarrow> nat \<Rightarrow> int \<Rightarrow> string list \<Rightarrow> rpc_state
      \<Rightarrow> (thrown + 'a) option \<times> rpc_state" where
  "rpcCall method primary fallback ms now urls st =
    (if method \<in> set SUBSCRIPTION_METHODS
     then (case primary of Answered x \<Rightarrow> Some (Inr x) | Failed e \<Rightarrow> Some (Inl e) | NoAnswer \<Rightarrow> None, st)
     else (let (r, st') = callWithFallback method primary fallback ms now urls st in (Some r, st')))"

section \<open>Laws\<close>

lemma scrub_Nil [simp]: "scrub url [] = []"
  by (simp add: scrub.simps)

lemma scrub_hit: "url \<noteq> [] \<and> prefix url m \<Longrightarrow> scrub url m = RPC_URL_MARK @ scrub url (drop (length url) m)"
  by (subst scrub.simps) auto

lemma scrub_miss: "\<not> (url \<noteq> [] \<and> prefix url (c # cs)) \<Longrightarrow> scrub url (c # cs) = c # scrub url cs"
  by (subst scrub.simps) auto

text \<open>A url that starts with a letter the mark does not have and holds no \<open>'<'\<close>, as \<open>https://...\<close>.\<close>

definition plainUrl :: "string \<Rightarrow> bool" where
  "plainUrl u = (u \<noteq> [] \<and> hd u \<notin> set RPC_URL_MARK \<and> CHR ''<'' \<notin> set u)"

text \<open>What scrubbing writes cannot begin a text without \<open>'<'\<close>: a prefix of the result was there before.\<close>

lemma prefix_scrub: "prefix w (scrub url m) \<Longrightarrow> CHR ''<'' \<notin> set w \<Longrightarrow> prefix w m"
proof (induction url m arbitrary: w rule: scrub.induct)
  case (1 url m)
  show ?case
  proof (cases "w = [] \<or> m = []")
    case False
    then obtain c cs d ds where m: "m = c # cs" and w: "w = d # ds" by (auto simp: neq_Nil_conv)
    show ?thesis
    proof (cases "url \<noteq> [] \<and> prefix url m")
      case True
      then show ?thesis using 1(3,4) w by (simp add: scrub_hit RPC_URL_MARK_def)
    next
      case f: False
      then have "scrub url m = c # scrub url cs" using m scrub_miss by blast
      then have "d = c" "prefix ds (scrub url cs)" using 1(3) w by simp_all
      then show ?thesis using 1(2)[of ds] f 1(4) w m by simp
    qed
  qed (use 1 in auto)
qed

lemma prefix_mark: "plainUrl u \<Longrightarrow> c \<in> set RPC_URL_MARK \<Longrightarrow> \<not> prefix u (c # x)"
  by (cases u) (auto simp: plainUrl_def)

lemma sublist_mark:
  assumes "plainUrl u" "set xs \<subseteq> set RPC_URL_MARK"
  shows "sublist u (xs @ y) \<longleftrightarrow> sublist u y"
  using assms(2) by (induction xs) (auto simp: sublist_Cons_right prefix_mark[OF assms(1)])

lemma scrub_free:
  assumes "plainUrl u"
  shows "(u = url \<or> \<not> sublist u m) \<Longrightarrow> \<not> sublist u (scrub url m)"
proof (induction url m rule: scrub.induct)
  case (1 url m)
  show ?case
  proof (cases m)
    case Nil
    then show ?thesis using assms by (simp add: plainUrl_def)
  next
    case (Cons c cs)
    show ?thesis
    proof (cases "url \<noteq> [] \<and> prefix url m")
      case True
      note e = scrub_hit[OF True]
      have "u = url \<or> \<not> sublist u (drop (length url) m)"
        using 1(3) sublist_order.order_trans[OF _ sublist_drop[of "length url" m]] by auto
      then have "\<not> sublist u (scrub url (drop (length url) m))" using 1(1) True Cons by blast
      then show ?thesis by (simp only: e sublist_mark[OF assms subset_refl] not_False_eq_True)
    next
      case f: False
      then have e: "scrub url m = c # scrub url cs" using Cons scrub_miss by blast
      have "u = url \<or> \<not> sublist u cs" using 1(3) Cons by (auto simp: sublist_Cons_right)
      then have "\<not> sublist u (scrub url cs)" using 1(2) f Cons by simp
      moreover have "\<not> prefix u (c # scrub url cs)"
      proof
        assume "prefix u (c # scrub url cs)"
        then have "prefix u (scrub url m)" by (simp only: e)
        then have "prefix u m" using prefix_scrub assms by (simp add: plainUrl_def)
        then show False using 1(3) f assms by (auto simp: plainUrl_def)
      qed
      ultimately show ?thesis by (simp add: e sublist_Cons_right)
    qed
  qed
qed

lemma fold_scrub_free:
  "plainUrl u \<Longrightarrow> u \<in> set urls \<or> \<not> sublist u m \<Longrightarrow> \<not> sublist u (fold scrub urls m)"
proof (induction urls arbitrary: m)
  case (Cons a urls)
  have "u \<in> set urls \<or> \<not> sublist u (scrub a m)" using Cons.prems(2) scrub_free[OF Cons.prems(1), of a m] by auto
  from Cons.IH[OF Cons.prems(1) this] show ?case by simp
qed simp

text \<open>The specification of one call, free of the control flow: who is asked, who answers.\<close>

definition failsOver :: "string \<Rightarrow> 'a call_outcome \<Rightarrow> nat \<Rightarrow> bool" where
  "failsOver method primary ms =
    (case withTimeout primary ms (''RPC '' @ method) of Inl e \<Rightarrow> isFailoverWorthy e | Inr _ \<Rightarrow> False)"

lemma prefix_rev_append: "prefix (rev b) (rev (a @ b))"
  by simp

lemma timeout_is_failover_worthy: "isFailoverWorthy (ErrorObject (timeoutMessage label ms))"
proof -
  let ?d = "showNat ms"
  have d: "\<forall>c \<in> set (rev ?d). isDigit c" "rev ?d \<noteq> []" using digits_showNat[of ms] by auto
  have r: "rev (timeoutMessage label ms) = rev ''ms'' @ rev ?d @ rev '' timed out after '' @ rev label"
    by (simp add: timeoutMessage_def)
  have "dropWhile isDigit (rev ?d @ rev '' timed out after '' @ rev label) = rev '' timed out after '' @ rev label"
    using d(1) by (simp add: dropWhile_append3 isDigit_def digitVal_def)
  moreover have "isDigit (hd (rev ?d @ rev '' timed out after '' @ rev label))" using d hd_in_set[of "rev ?d"] by simp
  ultimately show ?thesis by (simp add: isFailoverWorthy_def endsInTimeout_def r d(2))
qed

section \<open>Properties\<close>


definition demoUrl :: string where "demoUrl = ''https://rpc.example/?key=1''"


end
