(* ===== verification/Indexer_Sync.thy ===== *)
theory Indexer_Sync
  imports Indexer Instructions Rpc_Fallback
begin

text \<open>
  The account half of the indexer (\<open>indexer/indexer.service.ts\<close>): the log path re-reads the accounts a
  confirmed transaction touched, and the sweep walks the program's accounts, fully or only what
  changed, and writes those that live at an address of the Active pool. The sweep's index runs behind
  the chain, so rows the log path wrote from a newer slot are left alone.

  Reads and writes of one pass are taken together; the source awaits between them. Account ids are
  decoded from \<open>u64\<close> fields, so deriving an address from one does not throw; a mismatch and a failed
  derivation both drop the account.
\<close>

section \<open>State and environment\<close>

record index_env =
  xe_ix :: ix_env
  xe_poolKey :: pubkey
  xe_b58 :: "pubkey \<Rightarrow> string"
  xe_discriminator :: "string \<Rightarrow> bytes"
  xe_decodePool :: "bytes \<Rightarrow> decoded_pool res"
  xe_decodeEpoch :: "bytes \<Rightarrow> decoded_epoch res"
  xe_decodeRound :: "bytes \<Rightarrow> decoded_round res"
  xe_decodePlayer :: "bytes \<Rightarrow> decoded_player res"
  xe_decodePosition :: "bytes \<Rightarrow> decoded_position res"

record index_state =
  xs_db :: access_db
  xs_freshWrites :: "string \<rightharpoonup> int"
  xs_lastSyncedSlot :: "int option"
  xs_lastFullWalkAt :: int
  xs_v2Unsupported :: bool
  xs_v2UnsupportedSince :: "int option"

definition activePool :: "index_env \<Rightarrow> string" where
  "activePool env = xe_b58 env (xe_poolKey env)"

definition onModel :: "(read_model \<Rightarrow> read_model) \<Rightarrow> index_state \<Rightarrow> index_state" where
  "onModel f s = s\<lparr>xs_db := (xs_db s)\<lparr>ab_model := f (ab_model (xs_db s))\<rparr>\<rparr>"

text \<open>The update part of a Round's upsert does not mention \<open>closed\<close>.\<close>

definition upsertRound :: "round_row \<Rightarrow> round_row list \<Rightarrow> round_row list" where
  "upsertRound r t =
    upsertRow roundKey
      (case findUnique roundKey (roundKey r) t of Some old \<Rightarrow> r\<lparr>rr_closed := rr_closed old\<rparr> | None \<Rightarrow> r) t"

section \<open>The log path\<close>

datatype wanted_account = WantPool | WantEpoch | WantRound | WantPlayer | WantPosition int

text \<open>\<open>Map.set\<close>: an existing key keeps its place and takes the new value.\<close>

fun setKey :: "'k \<Rightarrow> 'v \<Rightarrow> ('k \<times> 'v) list \<Rightarrow> ('k \<times> 'v) list" where
  "setKey k v [] = [(k, v)]"
| "setKey k v ((k', v') # m) = (if k' = k then (k, v) # m else (k', v') # setKey k v m)"

definition applyAccount ::
    "index_env \<Rightarrow> pubkey \<Rightarrow> wanted_account \<Rightarrow> bytes option \<Rightarrow> int \<Rightarrow> index_state \<Rightarrow> index_state res" where
  "applyAccount env key wanted data slot s =
    (let address = xe_b58 env key; pool = activePool env;
         fresh = (\<lambda>f. s\<lparr>xs_db := (xs_db s)\<lparr>ab_model := f (ab_model (xs_db s))\<rparr>,
                          xs_freshWrites := (xs_freshWrites s)(address \<mapsto> slot)\<rparr>)
     in case data of
          None \<Rightarrow>
            (case wanted of
               WantPosition _ \<Rightarrow>
                 Inr (fresh (\<lambda>m. m\<lparr>db_positions := deleteRows (\<lambda>p. po_poolAddress p = pool \<and> po_address p = address) (db_positions m)\<rparr>))
             | _ \<Rightarrow> Inr s)
        | Some bs \<Rightarrow>
            (case wanted of
               WantPool \<Rightarrow> rbind (xe_decodePool env bs) (\<lambda>a.
                 Inr (fresh (\<lambda>m. m\<lparr>db_pools := upsertRow pr_address (poolRow (xe_b58 env) key a slot) (db_pools m)\<rparr>)))
             | WantEpoch \<Rightarrow> rbind (xe_decodeEpoch env bs) (\<lambda>a.
                 Inr (fresh (\<lambda>m. m\<lparr>db_epochs := upsertRow epochKey (epochRow (xe_b58 env) a pool) (db_epochs m)\<rparr>)))
             | WantRound \<Rightarrow> rbind (xe_decodeRound env bs) (\<lambda>a.
                 Inr (fresh (\<lambda>m. m\<lparr>db_rounds := upsertRound (roundRow a pool) (db_rounds m)\<rparr>)))
             | WantPlayer \<Rightarrow> rbind (xe_decodePlayer env bs) (\<lambda>a.
                 Inr (fresh (\<lambda>m. m\<lparr>db_players := upsertRow playerKey (playerRow (xe_b58 env) a pool) (db_players m)\<rparr>)))
             | WantPosition roundId \<Rightarrow> rbind (xe_decodePosition env bs) (\<lambda>a.
                 Inr (fresh (\<lambda>m. m\<lparr>db_positions := upsertRow po_address
                        (positionRow (xe_b58 env) key a roundId pool) (db_positions m)\<rparr>)))))"

text \<open>The source keys this map by the address's base58 text.\<close>

type_synonym wanted_map = "(pubkey \<times> wanted_account) list"

definition wantStanding :: "index_env \<Rightarrow> read_model \<Rightarrow> wanted_map res" where
  "wantStanding env m =
    (let currentEpochId = (case findUnique pr_address (activePool env) (db_pools m) of
                             Some p \<Rightarrow> pr_currentEpochId p | None \<Rightarrow> 0);
         epochs = filter (\<lambda>e. e > 0) [currentEpochId, currentEpochId - 1]
     in rbind (mapRes (\<lambda>e. epochAddress (xe_ix env) (xe_poolKey env) e) epochs) (\<lambda>eks.
        rbind (case getOpenRound (activePool env) m of None \<Rightarrow> Inr []
               | Some r \<Rightarrow> rbind (roundAddress (xe_ix env) (xe_poolKey env) (rr_id r)) (\<lambda>k. Inr [k])) (\<lambda>rks.
          Inr (fold (\<lambda>k. setKey k WantRound) rks (fold (\<lambda>k. setKey k WantEpoch) eks [(xe_poolKey env, WantPool)])))))"

definition wantFromEvent :: "index_env \<Rightarrow> decoded_event \<Rightarrow> wanted_map \<Rightarrow> wanted_map res" where
  "wantFromEvent env event wanted =
    (let epochId = eventField event ''epochId''; roundId = eventField event ''roundId'';
         owner = orElse (eventField event ''owner'') (eventField event ''winner'')
     in rbind (case epochId of None \<Rightarrow> Inr wanted
               | Some t \<Rightarrow> rbind (bigIntOf t) (\<lambda>i. rbind (epochAddress (xe_ix env) (xe_poolKey env) i) (\<lambda>k.
                   Inr (setKey k WantEpoch wanted)))) (\<lambda>w1.
        rbind (case roundId of None \<Rightarrow> Inr w1
               | Some t \<Rightarrow> rbind (bigIntOf t) (\<lambda>i. rbind (roundAddress (xe_ix env) (xe_poolKey env) i) (\<lambda>k.
                   Inr (setKey k WantRound w1)))) (\<lambda>w2.
        rbind (case owner of None \<Rightarrow> Inr w2
               | Some o1 \<Rightarrow> rbind (ie_parseKey (xe_ix env) o1) (\<lambda>k.
                   Inr (setKey (playerAddress (xe_ix env) (xe_poolKey env) k) WantPlayer w2))) (\<lambda>w3.
        case (roundId, owner) of
          (Some t, Some o1) \<Rightarrow>
            rbind (bigIntOf t) (\<lambda>i. rbind (roundAddress (xe_ix env) (xe_poolKey env) i) (\<lambda>rk.
            rbind (ie_parseKey (xe_ix env) o1) (\<lambda>k.
              Inr (setKey (positionAddress (xe_ix env) rk k) (WantPosition i) w3))))
        | _ \<Rightarrow> Inr w3))))"

fun foldRes :: "('a \<Rightarrow> 's \<Rightarrow> 's res) \<Rightarrow> 'a list \<Rightarrow> 's \<Rightarrow> 's res" where
  "foldRes f [] s = Inr s"
| "foldRes f (x # xs) s = rbind (f x s) (foldRes f xs)"

definition refreshFromLogs ::
    "index_env \<Rightarrow> decoded_event list res \<Rightarrow> (pubkey list \<Rightarrow> bytes option list res) \<Rightarrow> int \<Rightarrow> index_state \<Rightarrow> index_state res" where
  "refreshFromLogs env events accounts slot s =
    rbind (wantStanding env (ab_model (xs_db s))) (\<lambda>w0.
    rbind events (\<lambda>evs.
    rbind (foldRes (wantFromEvent env) evs w0) (\<lambda>wanted.
    rbind (accounts (map fst wanted)) (\<lambda>infos.
      foldRes (\<lambda>(i, (k, kind)). applyAccount env k kind (if i < length infos then infos ! i else None) slot)
        (enumerate 0 wanted) s))))"

section \<open>The sweep\<close>

definition FULL_WALK_INTERVAL_MS :: int where "FULL_WALK_INTERVAL_MS = 60 * 60 * 1000"
definition V2_UNSUPPORTED_RESET_MS :: int where "V2_UNSUPPORTED_RESET_MS = 60 * 60 * 1000"

record account_page =
  pg_slot :: int
  pg_accounts :: "(pubkey \<times> bytes) list"
  pg_next :: "string option"

datatype page_answer =
    Page account_page endpoint
  | MethodNotFound endpoint
  | PageError string

record walk_reads =
  wr_page :: "nat \<Rightarrow> string option \<Rightarrow> int option \<Rightarrow> page_answer"
  wr_all :: "(int \<times> (pubkey \<times> bytes) list) res"

datatype walk_end = Walked int "(pubkey \<times> bytes) list" | NoMethod endpoint | WalkFailed string

text \<open>The page loop: every page of one walk comes from one endpoint, and the slot is the first page's.\<close>

partial_function (option) walkPages ::
    "walk_reads \<Rightarrow> int option \<Rightarrow> nat \<Rightarrow> string option \<Rightarrow> (int \<times> endpoint) option \<Rightarrow> (pubkey \<times> bytes) list \<Rightarrow> walk_end option" where
  "walkPages rd changedSinceSlot n key first raw =
    (case wr_page rd n key changedSinceSlot of
       PageError e \<Rightarrow> Some (WalkFailed e)
     | MethodNotFound ep \<Rightarrow> Some (NoMethod ep)
     | Page p ep \<Rightarrow>
         (case first of
            Some (slot, servedBy) \<Rightarrow>
              if ep \<noteq> servedBy
              then Some (WalkFailed ''getProgramAccountsV2 walk failed over to a different RPC endpoint mid-walk'')
              else (case pg_next p of
                      None \<Rightarrow> Some (Walked slot (raw @ pg_accounts p))
                    | Some k \<Rightarrow> walkPages rd changedSinceSlot (Suc n) (Some k) first (raw @ pg_accounts p))
          | None \<Rightarrow>
              (case pg_next p of
                 None \<Rightarrow> Some (Walked (pg_slot p) (raw @ pg_accounts p))
               | Some k \<Rightarrow> walkPages rd changedSinceSlot (Suc n) (Some k) (Some (pg_slot p, ep)) (raw @ pg_accounts p))))"

record walk =
  wk_slot :: int
  wk_pools :: "(pubkey \<times> decoded_pool) list"
  wk_epochs :: "(pubkey \<times> decoded_epoch) list"
  wk_rounds :: "(pubkey \<times> decoded_round) list"
  wk_players :: "(pubkey \<times> decoded_player) list"
  wk_positions :: "(pubkey \<times> decoded_position) list"

definition ofType :: "index_env \<Rightarrow> string \<Rightarrow> (bytes \<Rightarrow> 'a res) \<Rightarrow> (pubkey \<times> bytes) list \<Rightarrow> (pubkey \<times> 'a) list" where
  "ofType env name decode accounts =
    List.map_filter (\<lambda>(k, d). case decode d of Inl _ \<Rightarrow> None | Inr a \<Rightarrow> Some (k, a))
      (filter (\<lambda>(k, d). take (length (xe_discriminator env name)) d = xe_discriminator env name) accounts)"

definition sortAccounts :: "index_env \<Rightarrow> int \<Rightarrow> (pubkey \<times> bytes) list \<Rightarrow> walk" where
  "sortAccounts env slot accounts =
    \<lparr>wk_slot = slot, wk_pools = ofType env ''pool'' (xe_decodePool env) accounts,
     wk_epochs = ofType env ''epoch'' (xe_decodeEpoch env) accounts,
     wk_rounds = ofType env ''round'' (xe_decodeRound env) accounts,
     wk_players = ofType env ''player'' (xe_decodePlayer env) accounts,
     wk_positions = ofType env ''position'' (xe_decodePosition env) accounts\<rparr>"

definition retryV2 :: "int \<Rightarrow> index_state \<Rightarrow> index_state" where
  "retryV2 now s =
    (if xs_v2Unsupported s \<and> (case xs_v2UnsupportedSince s of None \<Rightarrow> False | Some t \<Rightarrow> now - t \<ge> V2_UNSUPPORTED_RESET_MS)
     then s\<lparr>xs_v2Unsupported := False, xs_v2UnsupportedSince := None\<rparr> else s)"

definition fetchAll :: "index_env \<Rightarrow> walk_reads \<Rightarrow> int \<Rightarrow> int option \<Rightarrow> index_state \<Rightarrow> (walk res \<times> index_state) option" where
  "fetchAll env rd now changedSinceSlot s0 =
    (let s = retryV2 now s0;
         plain = (\<lambda>s. case wr_all rd of Inl e \<Rightarrow> (Inl e, s) | Inr (slot, as) \<Rightarrow> (Inr (sortAccounts env slot as), s))
     in if xs_v2Unsupported s then Some (plain s)
        else (case walkPages rd changedSinceSlot 0 None None [] of
                None \<Rightarrow> None
              | Some (WalkFailed e) \<Rightarrow> Some (Inl e, s)
              | Some (Walked slot raw) \<Rightarrow> Some (Inr (sortAccounts env slot raw), s)
              | Some (NoMethod Fallback) \<Rightarrow> Some (Inl ''getProgramAccountsV2 returned no pages'', s)
              | Some (NoMethod Primary) \<Rightarrow> Some (plain (s\<lparr>xs_v2Unsupported := True, xs_v2UnsupportedSince := Some now\<rparr>))))"

definition behindLogPath :: "index_env \<Rightarrow> index_state \<Rightarrow> pubkey \<Rightarrow> int \<Rightarrow> bool" where
  "behindLogPath env s key sweepSlot =
    (case xs_freshWrites s (xe_b58 env key) of None \<Rightarrow> False | Some written \<Rightarrow> written > sweepSlot)"

definition sweepPools :: "index_env \<Rightarrow> walk \<Rightarrow> index_state \<Rightarrow> index_state" where
  "sweepPools env wk s =
    onModel (\<lambda>m. m\<lparr>db_pools := fold (\<lambda>(k, a). upsertRow pr_address (poolRow (xe_b58 env) k a (wk_slot wk)))
      (filter (\<lambda>(k, a). k = xe_poolKey env \<and> \<not> behindLogPath env s k (wk_slot wk)) (wk_pools wk)) (db_pools m)\<rparr>) s"

definition sweepEpochs :: "index_env \<Rightarrow> walk \<Rightarrow> index_state \<Rightarrow> index_state" where
  "sweepEpochs env wk s =
    onModel (\<lambda>m. m\<lparr>db_epochs := fold (\<lambda>(k, a). upsertRow epochKey (epochRow (xe_b58 env) a (activePool env)))
      (filter (\<lambda>(k, a). epochAddress (xe_ix env) (xe_poolKey env) (de_epochId a) = Inr k \<and>
         \<not> behindLogPath env s k (wk_slot wk)) (wk_epochs wk)) (db_epochs m)\<rparr>) s"

definition poolRounds :: "index_env \<Rightarrow> walk \<Rightarrow> (pubkey \<times> decoded_round) list" where
  "poolRounds env wk =
    filter (\<lambda>(k, a). roundAddress (xe_ix env) (xe_poolKey env) (dr_roundId a) = Inr k) (wk_rounds wk)"

definition sweepRounds :: "index_env \<Rightarrow> walk \<Rightarrow> index_state \<Rightarrow> index_state" where
  "sweepRounds env wk s =
    onModel (\<lambda>m. m\<lparr>db_rounds := fold (\<lambda>(k, a). upsertRound (roundRow a (activePool env)))
      (filter (\<lambda>(k, a). \<not> behindLogPath env s k (wk_slot wk)) (poolRounds env wk)) (db_rounds m)\<rparr>) s"

definition closeMissingRounds :: "index_env \<Rightarrow> walk \<Rightarrow> index_state \<Rightarrow> index_state" where
  "closeMissingRounds env wk s =
    (let live = map (\<lambda>(k, a). dr_roundId a) (poolRounds env wk);
         stillOpen = map rr_id (filter (\<lambda>r. rr_poolAddress r = activePool env \<and> rr_id r \<notin> set live \<and> \<not> rr_closed r)
                       (db_rounds (ab_model (xs_db s))));
         toClose = filter (\<lambda>i. case roundAddress (xe_ix env) (xe_poolKey env) i of
                       Inr k \<Rightarrow> \<not> behindLogPath env s k (wk_slot wk) | Inl _ \<Rightarrow> False) stillOpen
     in onModel (\<lambda>m. m\<lparr>db_rounds := updateRows (\<lambda>r. rr_poolAddress r = activePool env \<and> rr_id r \<in> set toClose)
          (\<lambda>r. r\<lparr>rr_closed := True\<rparr>) (db_rounds m)\<rparr>) s)"

definition sweepPlayers :: "index_env \<Rightarrow> walk \<Rightarrow> index_state \<Rightarrow> index_state" where
  "sweepPlayers env wk s =
    onModel (\<lambda>m. m\<lparr>db_players := fold (\<lambda>(k, a). upsertRow playerKey (playerRow (xe_b58 env) a (activePool env)))
      (filter (\<lambda>(k, a). k = playerAddress (xe_ix env) (xe_poolKey env) (dy_owner a) \<and>
         \<not> behindLogPath env s k (wk_slot wk)) (wk_players wk)) (db_players m)\<rparr>) s"

definition reconcileReferrals :: "index_env \<Rightarrow> int \<Rightarrow> index_state \<Rightarrow> index_state" where
  "reconcileReferrals env now s =
    onModel (\<lambda>m. m\<lparr>db_referrals := map (\<lambda>r.
      case find (\<lambda>p. py_poolAddress p = activePool env \<and> py_owner p = rl_referee r) (db_players m) of
        None \<Rightarrow> r
      | Some p \<Rightarrow>
          if py_principal p = rl_principal r then r
          else let next1 = applyReferralEvent \<lparr>q_principal = rl_principal r, q_aboveSince = rl_aboveSince r\<rparr>
                            (Deposited (py_principal p)) now
               in r\<lparr>rl_principal := q_principal next1, rl_aboveSince := q_aboveSince next1\<rparr>) (db_referrals m)\<rparr>) s"

definition walkPositions :: "index_env \<Rightarrow> walk \<Rightarrow> (pubkey \<times> position_row) list" where
  "walkPositions env wk =
    List.map_filter (\<lambda>(k, a).
      case map_of (rev (map (\<lambda>(rk, r). (rk, dr_roundId r)) (poolRounds env wk))) (do_round a) of
        None \<Rightarrow> None
      | Some roundId \<Rightarrow>
          if k \<noteq> positionAddress (xe_ix env) (do_round a) (do_owner a) then None
          else Some (k, positionRow (xe_b58 env) k a roundId (activePool env))) (wk_positions wk)"

definition sweepPositions :: "index_env \<Rightarrow> walk \<Rightarrow> bool \<Rightarrow> index_state \<Rightarrow> index_state" where
  "sweepPositions env wk fullWalk s =
    (let positions = walkPositions env wk;
         live = map (\<lambda>(k, r). po_address r) positions;
         write = fold (\<lambda>(k, r). upsertRow po_address r)
           (filter (\<lambda>(k, r). \<not> behindLogPath env s k (wk_slot wk)) positions);
         sweep = (\<lambda>t. if fullWalk
           then deleteRows (\<lambda>p. po_poolAddress p = activePool env \<and> po_address p \<notin> set live \<and>
                             po_address p \<notin> dom (xs_freshWrites s)) t
           else t)
     in onModel (\<lambda>m. m\<lparr>db_positions := sweep (write (db_positions m))\<rparr>) s)"

definition finishWalk :: "walk \<Rightarrow> bool \<Rightarrow> int \<Rightarrow> index_state \<Rightarrow> index_state" where
  "finishWalk wk fullWalk nowMs s =
    s\<lparr>xs_lastFullWalkAt := (if fullWalk then nowMs else xs_lastFullWalkAt s),
      xs_lastSyncedSlot := Some (wk_slot wk),
      xs_freshWrites := (\<lambda>a. case xs_freshWrites s a of None \<Rightarrow> None | Some w \<Rightarrow> if w \<le> wk_slot wk then None else Some w)\<rparr>"

definition applyWalk :: "index_env \<Rightarrow> walk \<Rightarrow> bool \<Rightarrow> int \<Rightarrow> index_state \<Rightarrow> index_state" where
  "applyWalk env wk fullWalk nowMs s =
    (let s1 = sweepRounds env wk (sweepEpochs env wk (sweepPools env wk s));
         s2 = (if fullWalk then closeMissingRounds env wk s1 else s1);
         s3 = sweepPlayers env wk s2;
         s4 = (if fullWalk then reconcileReferrals env (nowMs div 1000) s3 else s3)
     in finishWalk wk fullWalk nowMs (sweepPositions env wk fullWalk s4))"

definition syncAccounts :: "index_env \<Rightarrow> walk_reads \<Rightarrow> int \<Rightarrow> index_state \<Rightarrow> (unit res \<times> index_state) option" where
  "syncAccounts env rd nowMs s =
    (let fullWalk = (xs_lastSyncedSlot s = None \<or> xs_v2Unsupported s \<or> nowMs - xs_lastFullWalkAt s \<ge> FULL_WALK_INTERVAL_MS)
     in case fetchAll env rd nowMs (if fullWalk then None else xs_lastSyncedSlot s) s of
          None \<Rightarrow> None
        | Some (Inl e, s') \<Rightarrow> Some (Inl e, s')
        | Some (Inr wk, s') \<Rightarrow>
            if fullWalk \<and> filter (\<lambda>(k, a). k = xe_poolKey env) (wk_pools wk) = []
            then Some (Inl (''configured pool '' @ activePool env @ '' is not on chain or does not decode with the current IDL''), s')
            else Some (Inr (), applyWalk env wk fullWalk nowMs s'))"

section \<open>The tick\<close>

definition indexTick ::
    "index_env \<Rightarrow> walk_reads \<Rightarrow> (nat \<Rightarrow> nat \<Rightarrow> nat \<Rightarrow> nat) \<Rightarrow> chain_reads \<Rightarrow> int \<Rightarrow> index_state \<Rightarrow> (unit res \<times> index_state) option" where
  "indexTick env rd draws ch nowMs s =
    (case syncAccounts env rd nowMs s of
       None \<Rightarrow> None
     | Some (Inl e, s1) \<Rightarrow> Some (Inl e, s1)
     | Some (Inr _, s1) \<Rightarrow>
         (case ingestTick (activePool env) (nowMs div 1000) draws ch (xs_db s1) of
            None \<Rightarrow> None
          | Some (r, d) \<Rightarrow> Some (r, s1\<lparr>xs_db := d\<rparr>)))"

end
