(* ===== verification/Access_Laws.thy ===== *)
theory Access_Laws
  imports Access
begin

text \<open>
  What the gate guarantees: a signature given for one request is good for no other, no sequence of
  requests spends a code more often than allowed, lets a wallet redeem or be referred twice, or makes
  a wallet its own referrer, and a redeem never pushes circulation over the cap.
\<close>

section \<open>Messages\<close>

lemma upperChar_not_lower: "\<not> (97 \<le> (of_char (upperChar c) :: nat) \<and> (of_char (upperChar c) :: nat) \<le> 122)"
  by (auto simp: upperChar_def Let_def)

lemma normalized_no_r: "CHR ''r'' \<notin> set (normalizeInviteCode raw)"
proof
  assume "CHR ''r'' \<in> set (normalizeInviteCode raw)"
  then obtain c where c: "upperChar c = CHR ''r''" by (auto simp: normalizeInviteCode_def)
  show False using upperChar_not_lower[of c] unfolding c by simp
qed

text \<open>A separator absent from the left parts splits a text in one way only.\<close>

lemma split_at_first: "c \<notin> set xs \<Longrightarrow> c \<notin> set ys \<Longrightarrow> xs @ c # us = ys @ c # vs \<Longrightarrow> xs = ys \<and> us = vs"
  by (induction xs arbitrary: ys) (auto simp: Cons_eq_append_conv)

definition accessTail :: "string \<Rightarrow> string option \<Rightarrow> string" where
  "accessTail code ref = (case ref of None \<Rightarrow> code | Some r \<Rightarrow> if r = [] then code else code @ '' ref:'' @ r)"

lemma accessMessage_tail: "accessMessage w c r = ''HEXO access: '' @ w @ CHR '' '' # accessTail c r"
  by (auto simp: accessMessage_def accessTail_def split: option.splits)

lemma accessTail_inj:
  assumes "CHR ''r'' \<notin> set c" "CHR ''r'' \<notin> set c'" "r \<noteq> Some []" "r' \<noteq> Some []"
    and "accessTail c r = accessTail c' r'"
  shows "c = c' \<and> r = r'"
proof (cases r; cases r')
  fix a b assume r: "r = Some a" "r' = Some b"
  then have "(c @ '' '') @ CHR ''r'' # (''ef:'' @ a) = (c' @ '' '') @ CHR ''r'' # (''ef:'' @ b)"
    using assms(3-5) by (simp add: accessTail_def)
  then have "c @ '' '' = c' @ '' '' \<and> ''ef:'' @ a = ''ef:'' @ b"
    using assms(1,2) by (intro split_at_first) auto
  then show ?thesis using r by simp
next
  fix b assume r: "r = None" "r' = Some b"
  then have "c = c' @ '' ref:'' @ b" using assms(4,5) by (simp add: accessTail_def)
  then show ?thesis using assms(1) by simp
next
  fix a assume r: "r = Some a" "r' = None"
  then have "c' = c @ '' ref:'' @ a" using assms(3,5) by (simp add: accessTail_def)
  then show ?thesis using assms(2) by simp
qed (use assms(5) in \<open>simp add: accessTail_def\<close>)

section \<open>Invariant\<close>

definition redemptionsOf :: "string \<Rightarrow> access_db \<Rightarrow> redemption_row list" where
  "redemptionsOf code db = filter (\<lambda>d. id_code d = code) (ab_redemptions db)"

text \<open>Every use of a code is a redemption of it, and every redemption is of a code that exists.\<close>

definition usesCounted :: "access_db \<Rightarrow> bool" where
  "usesCounted db \<longleftrightarrow> (\<forall>r \<in> set (ab_invites db). ic_uses r = int (length (redemptionsOf (ic_code r) db))) \<and>
     (\<forall>d \<in> set (ab_redemptions db). id_code d \<in> ic_code ` set (ab_invites db))"

definition accessOk :: "access_db \<Rightarrow> bool" where
  "accessOk db \<longleftrightarrow> uniqueBy ic_code (ab_invites db) \<and> uniqueBy id_wallet (ab_redemptions db) \<and>
     uniqueBy rk_owner (ab_codes db) \<and> uniqueBy rk_code (ab_codes db) \<and>
     uniqueBy rl_referee (db_referrals (ab_model db)) \<and>
     (\<forall>r \<in> set (ab_invites db). 0 \<le> ic_uses r \<and> ic_uses r \<le> ic_maxUses r) \<and>
     (\<forall>r \<in> set (db_referrals (ab_model db)). rl_referrer r \<noteq> rl_referee r) \<and> usesCounted db"

lemma usesCounted_cong:
  "ab_invites d = ab_invites db \<Longrightarrow> ab_redemptions d = ab_redemptions db \<Longrightarrow> usesCounted d = usesCounted db"
  by (simp add: usesCounted_def redemptionsOf_def)

lemma usesCounted_issue:
  assumes "usesCounted db" "distinct (map ic_code (ab_invites db @ rows))" "\<forall>r \<in> set rows. ic_uses r = 0"
  shows "usesCounted (db\<lparr>ab_invites := ab_invites db @ rows\<rparr>)"
proof -
  have zero: "redemptionsOf (ic_code r) db = []" if "r \<in> set rows" for r
  proof -
    have "ic_code r \<notin> ic_code ` set (ab_invites db)" using that assms(2) by (simp add: disjoint_iff) (metis imageI)
    then show ?thesis using assms(1) unfolding usesCounted_def redemptionsOf_def filter_empty_conv by metis
  qed
  have same: "redemptionsOf c (db\<lparr>ab_invites := ab_invites db @ rows\<rparr>) = redemptionsOf c db" for c
    by (simp add: redemptionsOf_def)
  show ?thesis
    unfolding usesCounted_def same
    using assms(1,3) zero by (auto simp: usesCounted_def)
qed

lemma uniqueBy_append1: "uniqueBy key t \<Longrightarrow> key r \<notin> key ` set t \<Longrightarrow> uniqueBy key (t @ [r])"
  by (auto simp: uniqueBy_def)

lemma bindReferral_Some:
  assumes "bindReferral pool now referee referrer code db = Some d"
  shows "ab_invites d = ab_invites db" "ab_redemptions d = ab_redemptions db" "ab_codes d = ab_codes db"
    "referee \<notin> rl_referee ` set (db_referrals (ab_model db))"
    "\<exists>r. db_referrals (ab_model d) = db_referrals (ab_model db) @ [r] \<and> rl_referee r = referee \<and> rl_referrer r = referrer \<and>
       rl_code r = code \<and> rl_boundAt r = now"
  using assms by (auto simp: bindReferral_def Let_def split: if_splits)

lemma bindReferral_ok:
  assumes "accessOk db" "bindReferral pool now referee referrer code db = Some d" "referrer \<noteq> referee"
  shows "accessOk d"
proof -
  note b = bindReferral_Some[OF assms(2)]
  obtain r where r: "db_referrals (ab_model d) = db_referrals (ab_model db) @ [r]" "rl_referee r = referee" "rl_referrer r = referrer"
    using b(5) by blast
  then have "uniqueBy rl_referee (db_referrals (ab_model d))"
    using assms(1) b(4) by (simp add: accessOk_def uniqueBy_append1)
  then show ?thesis using assms(1,3) b(1-3) r usesCounted_cong[OF b(1,2)] by (auto simp: accessOk_def)
qed

lemma chooseReferrer_other: "chooseReferrer address ref invite db = Some (referrer, c) \<Longrightarrow> referrer \<noteq> address"
  by (auto simp: chooseReferrer_def Let_def split: option.splits if_splits)

lemma createInvites_Some:
  "createInvites rows db = Some d \<Longrightarrow> d = db\<lparr>ab_invites := ab_invites db @ rows\<rparr> \<and> distinct (map ic_code (ab_invites db @ rows))"
  by (auto simp: createInvites_def split: if_splits)

lemma mintInvites_mem: "r \<in> set (mintInvites rnd owner maxUses now count) \<Longrightarrow> ic_uses r = 0 \<and> ic_maxUses r = maxUses"
  by (auto simp: mintInvites_def)

lemma createInvites_ok:
  assumes "accessOk db" "createInvites (mintInvites rnd owner maxUses now count) db = Some d" "0 \<le> maxUses"
  shows "accessOk d"
proof -
  let ?rows = "mintInvites rnd owner maxUses now count"
  have d: "d = db\<lparr>ab_invites := ab_invites db @ ?rows\<rparr>" "distinct (map ic_code (ab_invites db @ ?rows))"
    using createInvites_Some[OF assms(2)] by blast+
  have rows: "\<forall>r \<in> set ?rows. ic_uses r = 0 \<and> ic_maxUses r = maxUses" using mintInvites_mem by blast
  have "usesCounted d" unfolding d(1) using assms(1) d(2) rows by (intro usesCounted_issue) (simp_all add: accessOk_def)
  moreover have "uniqueBy ic_code (ab_invites d)" using d by (simp add: uniqueBy_def)
  ultimately show ?thesis using assms(1,3) rows unfolding d(1) by (simp add: accessOk_def ball_Un)
qed

text \<open>The database between spending the code and granting the quota.\<close>

definition spendCode :: "string \<Rightarrow> string \<Rightarrow> int \<Rightarrow> invite_row \<Rightarrow> access_db \<Rightarrow> access_db" where
  "spendCode address code now invite db =
    db\<lparr>ab_invites := updateRows (\<lambda>r. ic_code r = code \<and> ic_uses r < ic_maxUses invite) (\<lambda>r. r\<lparr>ic_uses := ic_uses r + 1\<rparr>) (ab_invites db),
       ab_redemptions := ab_redemptions db @ [\<lparr>id_wallet = address, id_code = code, id_redeemedAt = now\<rparr>]\<rparr>"

definition bindsStep ::
    "access_env \<Rightarrow> int \<Rightarrow> string \<Rightarrow> string \<Rightarrow> string option \<Rightarrow> invite_row \<Rightarrow> access_db \<Rightarrow> access_db \<Rightarrow> bool" where
  "bindsStep env now address code ref invite db d \<longleftrightarrow>
    d = spendCode address code now invite db \<and>
       (findUnique rl_referee address (db_referrals (ab_model db)) \<noteq> None \<or> chooseReferrer address ref invite d = None) \<or>
     (\<exists>referrer c. findUnique rl_referee address (db_referrals (ab_model db)) = None \<and>
        chooseReferrer address ref invite (spendCode address code now invite db) = Some (referrer, c) \<and>
        bindReferral (ae_poolAddress env) now address referrer c (spendCode address code now invite db) = Some d)"

definition quotaStep :: "access_env \<Rightarrow> (nat \<Rightarrow> nat) \<Rightarrow> int \<Rightarrow> string \<Rightarrow> access_db \<Rightarrow> access_db \<Rightarrow> bool" where
  "quotaStep env rnd now address d db' \<longleftrightarrow>
    inviteGrantCount (circulationOf d) (ae_circulationCap env) (ae_redeemGrantCount env) \<le> 0 \<and> db' = d \<or>
     0 < inviteGrantCount (circulationOf d) (ae_circulationCap env) (ae_redeemGrantCount env) \<and>
     createInvites (mintInvites rnd (Some address) 1 now
       (inviteGrantCount (circulationOf d) (ae_circulationCap env) (ae_redeemGrantCount env))) d = Some db'"

lemma redeemTx_cases:
  assumes "redeemTx env rnd now address code ref db = Inr db'"
  obtains invite d where "findUnique id_wallet address (ab_redemptions db) = None"
    "findUnique ic_code code (ab_invites db) = Some invite"
    "filter (\<lambda>r. ic_code r = code \<and> ic_uses r < ic_maxUses invite) (ab_invites db) \<noteq> []"
    "bindsStep env now address code ref invite db d"
    "quotaStep env rnd now address d db'"
proof -
  have f: "findUnique id_wallet address (ab_redemptions db) = None"
    using assms by (auto simp: redeemTx_def split: if_splits)
  moreover obtain invite where i: "findUnique ic_code code (ab_invites db) = Some invite"
    using assms f by (auto simp: redeemTx_def split: option.splits)
  moreover have u: "filter (\<lambda>r. ic_code r = code \<and> ic_uses r < ic_maxUses invite) (ab_invites db) \<noteq> []"
    using assms f i by (auto simp: redeemTx_def simp del: filter_empty_conv split: if_splits)
  define d1 where "d1 = spendCode address code now invite db"
  define bound where "bound = (if findUnique rl_referee address (db_referrals (ab_model d1)) \<noteq> None then None
     else chooseReferrer address ref invite d1)"
  define d2 where "d2 = (case bound of None \<Rightarrow> Some d1
     | Some (referrer, c) \<Rightarrow> bindReferral (ae_poolAddress env) now address referrer c d1)"
  have r: "(case d2 of None \<Rightarrow> Inl (Conflict ALREADY_REDEEMED)
     | Some d \<Rightarrow>
         let grantCount = inviteGrantCount (circulationOf d) (ae_circulationCap env) (ae_redeemGrantCount env)
         in if grantCount > 0
            then (case createInvites (mintInvites rnd (Some address) INVITE_CODE_MAX_USES now grantCount) d of
                    None \<Rightarrow> Inl (Conflict ALREADY_REDEEMED)
                  | Some d' \<Rightarrow> Inr d')
            else Inr d) = (Inr db' :: access_db http)"
    using assms f i u unfolding redeemTx_def d2_def bound_def d1_def spendCode_def Let_def
    by (simp del: filter_empty_conv)
  then obtain d where d: "d2 = Some d" by (cases d2) auto
  have model: "ab_model d1 = ab_model db" by (simp add: d1_def spendCode_def)
  show thesis
  proof (rule that[OF f i u])
    show "bindsStep env now address code ref invite db d"
      using d model unfolding bindsStep_def d2_def bound_def d1_def[symmetric] by (auto split: option.splits if_splits)
    show "quotaStep env rnd now address d db'"
      using r unfolding d by (auto simp: quotaStep_def Let_def INVITE_CODE_MAX_USES_def split: if_splits option.splits)
  qed
qed

lemma sum_updateRows_one:
  assumes "uniqueBy ic_code t" "findUnique ic_code code t = Some invite" "filter (\<lambda>r. ic_code r = code \<and> ic_uses r < ic_maxUses invite) t \<noteq> []"
  shows "(\<Sum>r\<leftarrow>updateRows (\<lambda>r. ic_code r = code \<and> ic_uses r < ic_maxUses invite) (\<lambda>r. r\<lparr>ic_uses := ic_uses r + 1\<rparr>) t. ic_uses r)
      = (\<Sum>r\<leftarrow>t. ic_uses r) + 1"
    and "(\<Sum>r\<leftarrow>updateRows (\<lambda>r. ic_code r = code \<and> ic_uses r < ic_maxUses invite) (\<lambda>r. r\<lparr>ic_uses := ic_uses r + 1\<rparr>) t. ic_maxUses r)
      = (\<Sum>r\<leftarrow>t. ic_maxUses r)"
proof -
  let ?P = "\<lambda>r. ic_code r = code \<and> ic_uses r < ic_maxUses invite"
  let ?f = "\<lambda>r. r\<lparr>ic_uses := ic_uses r + 1\<rparr>"
  have "(\<Sum>r\<leftarrow>updateRows ?P ?f t. ic_uses r) = (\<Sum>r\<leftarrow>t. ic_uses r) + int (length (filter ?P t))"
    by (induction t) (auto simp: updateRows_def)
  moreover have "length (filter (\<lambda>r. ic_code r = code) t) \<le> 1"
    using assms(1) unfolding uniqueBy_def
    by (induction t) (auto simp: filter_empty_conv image_iff)
  then have "length (filter ?P t) \<le> 1"
    by (rule le_trans[rotated]) (induction t, auto)
  ultimately show "(\<Sum>r\<leftarrow>updateRows ?P ?f t. ic_uses r) = (\<Sum>r\<leftarrow>t. ic_uses r) + 1"
    using assms(3) by (cases "filter ?P t") auto
  show "(\<Sum>r\<leftarrow>updateRows ?P ?f t. ic_maxUses r) = (\<Sum>r\<leftarrow>t. ic_maxUses r)"
    by (induction t) (auto simp: updateRows_def)
qed

lemma usesCounted_spend:
  assumes "usesCounted db" "uniqueBy ic_code (ab_invites db)" "findUnique ic_code code (ab_invites db) = Some invite"
    "filter (\<lambda>r. ic_code r = code \<and> ic_uses r < ic_maxUses invite) (ab_invites db) \<noteq> []"
  shows "usesCounted (spendCode address code now invite db)"
proof -
  obtain x where x: "x \<in> set (ab_invites db)" "ic_code x = code" "ic_uses x < ic_maxUses invite"
    using assms(4) by (auto simp: filter_empty_conv)
  have only: "r = x" if "r \<in> set (ab_invites db)" "ic_code r = code" for r
    using findUnique_row[OF assms(2) that(1)] findUnique_row[OF assms(2) x(1)] that(2) x(2) by simp
  let ?d = "spendCode address code now invite db"
  let ?f = "\<lambda>r. if ic_code r = code \<and> ic_uses r < ic_maxUses invite then r\<lparr>ic_uses := ic_uses r + 1\<rparr> else r"
  have uses: "ic_uses r = int (length (redemptionsOf (ic_code r) db))" if "r \<in> set (ab_invites db)" for r
    using assms(1) that unfolding usesCounted_def by blast
  have invites: "ab_invites ?d = map ?f (ab_invites db)" by (simp add: spendCode_def updateRows_def)
  have after: "redemptionsOf c ?d = redemptionsOf c db @ (if c = code then [\<lparr>id_wallet = address, id_code = code, id_redeemedAt = now\<rparr>] else [])" for c
    by (simp add: redemptionsOf_def spendCode_def)
  have "ic_uses (?f r) = int (length (redemptionsOf (ic_code (?f r)) ?d))" if r: "r \<in> set (ab_invites db)" for r
  proof (cases "ic_code r = code")
    case True
    then show ?thesis using only[OF r True] x(2,3) uses[OF r] by (simp add: after)
  qed (use uses[OF r] in \<open>simp add: after\<close>)
  then have "\<forall>r \<in> set (ab_invites ?d). ic_uses r = int (length (redemptionsOf (ic_code r) ?d))"
    unfolding invites set_map ball_simps by (intro ballI)
  moreover have codes: "ic_code ` set (ab_invites ?d) = ic_code ` set (ab_invites db)"
    unfolding invites set_map image_image by (intro image_cong) simp_all
  have "id_code e \<in> ic_code ` set (ab_invites db)" if "e \<in> set (ab_redemptions ?d)" for e
    using that assms(1) x(1,2) unfolding usesCounted_def spendCode_def by fastforce
  ultimately show ?thesis unfolding usesCounted_def codes by blast
qed

lemma spendCode_ok:
  assumes "accessOk db" "findUnique id_wallet address (ab_redemptions db) = None" "findUnique ic_code code (ab_invites db) = Some invite"
    "filter (\<lambda>r. ic_code r = code \<and> ic_uses r < ic_maxUses invite) (ab_invites db) \<noteq> []"
  shows "accessOk (spendCode address code now invite db)"
proof -
  have "uniqueBy id_wallet (ab_redemptions db @ [\<lparr>id_wallet = address, id_code = code, id_redeemedAt = now\<rparr>])"
    using assms(1,2) by (intro uniqueBy_append1) (auto simp: accessOk_def findUnique_None)
  moreover have "uniqueBy ic_code (ab_invites (spendCode address code now invite db))"
    using assms(1) by (simp add: spendCode_def accessOk_def uniqueBy_updateRows)
  moreover have "ic_maxUses r = ic_maxUses invite" if "r \<in> set (ab_invites db)" "ic_code r = code" for r
    using findUnique_row[of ic_code "ab_invites db" r] that assms(1,3) by (simp add: accessOk_def)
  then have "\<forall>r \<in> set (ab_invites (spendCode address code now invite db)). 0 \<le> ic_uses r \<and> ic_uses r \<le> ic_maxUses r"
    using assms(1) by (auto simp: spendCode_def accessOk_def updateRows_def)
  moreover have "usesCounted (spendCode address code now invite db)"
    using assms(1,3,4) by (intro usesCounted_spend) (simp_all add: accessOk_def)
  ultimately show ?thesis using assms(1) by (simp add: accessOk_def spendCode_def)
qed

lemma redeemTx_ok: "accessOk db \<Longrightarrow> redeemTx env rnd now address code ref db = Inr db' \<Longrightarrow> accessOk db'"
proof (erule redeemTx_cases)
  fix invite d
  assume ok: "accessOk db" and f: "findUnique id_wallet address (ab_redemptions db) = None"
    and i: "findUnique ic_code code (ab_invites db) = Some invite"
    and u: "filter (\<lambda>r. ic_code r = code \<and> ic_uses r < ic_maxUses invite) (ab_invites db) \<noteq> []"
    and d: "bindsStep env now address code ref invite db d"
    and db': "quotaStep env rnd now address d db'"
  have "accessOk d" using d spendCode_ok[OF ok f i u] bindReferral_ok chooseReferrer_other unfolding bindsStep_def by blast
  then show "accessOk db'" using db' createInvites_ok by (auto simp: quotaStep_def)
qed

lemma circulation_createInvites:
  assumes "createInvites (mintInvites rnd owner 1 now g) d = Some d'" "0 \<le> g"
  shows "circulationOf d' = circulationOf d + g"
proof -
  have "(\<Sum>r\<leftarrow>mintInvites rnd owner 1 now g. ic_maxUses r) = int (nat g)"
    "(\<Sum>r\<leftarrow>mintInvites rnd owner 1 now g. ic_uses r) = 0"
    by (simp_all add: mintInvites_def o_def sum_list_triv)
  then show ?thesis using createInvites_Some[OF assms(1)] assms(2) by (simp add: circulationOf_def)
qed

lemma redeemTx_circulation:
  assumes "accessOk db" "redeemTx env rnd now address code ref db = Inr db'"
  shows "circulationOf db' \<le> max (ae_circulationCap env) (circulationOf db - 1)"
  using assms(2)
proof (rule redeemTx_cases)
  fix invite d
  assume i: "findUnique ic_code code (ab_invites db) = Some invite"
    and u: "filter (\<lambda>r. ic_code r = code \<and> ic_uses r < ic_maxUses invite) (ab_invites db) \<noteq> []"
    and d: "bindsStep env now address code ref invite db d"
    and db': "quotaStep env rnd now address d db'"
  have "ab_invites d = ab_invites (spendCode address code now invite db)" using d bindReferral_Some(1) unfolding bindsStep_def by blast
  then have c: "circulationOf d = circulationOf db - 1"
    using sum_updateRows_one[OF _ i u] assms(1) by (simp add: circulationOf_def spendCode_def accessOk_def)
  show ?thesis
    using db' unfolding quotaStep_def
  proof
    let ?g = "inviteGrantCount (circulationOf d) (ae_circulationCap env) (ae_redeemGrantCount env)"
    assume g: "0 < ?g \<and> createInvites (mintInvites rnd (Some address) 1 now ?g) d = Some db'"
    then have "circulationOf db' = circulationOf d + ?g" using circulation_createInvites[of rnd "Some address" now ?g d db'] by simp
    moreover have "?g \<le> ae_circulationCap env - circulationOf d" using g by (auto simp: inviteGrantCount_def)
    ultimately show ?thesis by simp
  qed (use c in simp)
qed

section \<open>Referral codes\<close>

lemma generateReferralCode_fresh: "generateReferralCode rnd db k = Some c \<Longrightarrow> freshCode db c"
  by (rule generateReferralCode.raw_induct[where P = "\<lambda>rnd db k c. freshCode db c", rotated], assumption)
    (auto simp: Let_def split: if_splits)

lemma generateReferralCode_terminates:
  "freshCode db (generateInviteCode rnd n) \<Longrightarrow> k \<le> n \<Longrightarrow> generateReferralCode rnd db k \<noteq> None"
proof (induction "n - k" arbitrary: k)
  case 0
  then show ?case by (subst generateReferralCode.simps) (simp add: Let_def)
next
  case (Suc m)
  then have "generateReferralCode rnd db (Suc k) \<noteq> None" by simp
  then show ?case by (subst generateReferralCode.simps) (simp add: Let_def)
qed

lemma ensureReferralCode_ok:
  assumes "accessOk db" "ensureReferralCode rnd now owner db = Some (c, d)"
  shows "accessOk d"
proof (cases "findUnique rk_owner owner (ab_codes db)")
  case None
  then obtain code where g: "generateReferralCode rnd db 0 = Some code"
      "d = db\<lparr>ab_codes := ab_codes db @ [\<lparr>rk_code = code, rk_owner = owner, rk_createdAt = now\<rparr>]\<rparr>"
    using assms(2) by (auto simp: ensureReferralCode_def split: option.splits)
  have "code \<notin> rk_code ` set (ab_codes db)"
    using generateReferralCode_fresh[OF g(1)] by (simp add: freshCode_def findUnique_None)
  then show ?thesis
    using assms(1) g(2) None usesCounted_cong[of d db] by (simp add: accessOk_def uniqueBy_append1 findUnique_None)
qed (use assms in \<open>simp add: ensureReferralCode_def\<close>)

section \<open>Sequences of requests\<close>

inductive access_step :: "access_env \<Rightarrow> access_db \<Rightarrow> access_db \<Rightarrow> bool" for env where
  redeemed: "redeem env rnd now body db = Inr db' \<Longrightarrow> access_step env db db'"
| applied: "applyReferral env now body db = Inr (answer, db') \<Longrightarrow> access_step env db db'"
| issued: "createInvitesRoute env rnd now key body db = Inr (Some (codes, db')) \<Longrightarrow> access_step env db db'"
| minted: "referralCodeFor rnd now wallet db = Some (answer, db') \<Longrightarrow> access_step env db db'"
| deposited: "ensureReferralCode rnd now owner db = Some (c, db') \<Longrightarrow> access_step env db db'"
| mirrored: "map rl_referee (db_referrals m) = map rl_referee (db_referrals (ab_model db)) \<Longrightarrow>
    map rl_referrer (db_referrals m) = map rl_referrer (db_referrals (ab_model db)) \<Longrightarrow>
    access_step env db (db\<lparr>ab_model := m\<rparr>)"

inductive access_reach :: "access_env \<Rightarrow> access_db \<Rightarrow> bool" for env where
  empty: "access_reach env \<lparr>ab_invites = [], ab_redemptions = [], ab_codes = [],
     ab_model = m\<lparr>db_referrals := []\<rparr>\<rparr>"
| step: "access_reach env db \<Longrightarrow> access_step env db db' \<Longrightarrow> access_reach env db'"

inductive_cases access_stepE: "access_step env db db'"

lemma hbind_Inr_iff: "hbind r f = Inr y \<longleftrightarrow> (\<exists>x. r = Inr x \<and> f x = Inr y)"
  by (cases r) auto

lemma redeem_tx: "redeem env rnd now body db = Inr db' \<Longrightarrow> \<exists>a c r. redeemTx env rnd now a c r db = Inr db'"
  by (auto simp: redeem_def hbind_Inr_iff Let_def split: if_splits)

lemma applyReferralTx_ok: "accessOk db \<Longrightarrow> accessOk (snd (applyReferralTx env now address code db))"
proof -
  assume ok: "accessOk db"
  show ?thesis
  proof (cases "findUnique rk_code code (ab_codes db)")
    case (Some rc)
    then show ?thesis using ok bindReferral_ok[OF ok, of "ae_poolAddress env" now address "rk_owner rc" code]
      by (auto simp: applyReferralTx_def split: option.splits)
  qed (use ok in \<open>auto simp: applyReferralTx_def\<close>)
qed

lemma parse_maxUses: "parseCreateInvitesBody env body = Inr (maxUses, owner, count) \<Longrightarrow> 1 \<le> maxUses"
  by (auto simp: parseCreateInvitesBody_def hbind_Inr_iff split: json.splits if_splits option.splits)

lemma access_step_ok:
  assumes "accessOk db" "access_step env db db'"
  shows "accessOk db'"
  using assms(2)
proof cases
  case (redeemed rnd now body)
  then show ?thesis using redeem_tx redeemTx_ok[OF assms(1)] by blast
next
  case (applied now body answer)
  then obtain a c where "db' = snd (applyReferralTx env now a c db)"
    by (auto simp: applyReferral_def hbind_Inr_iff Let_def split: if_splits) (metis snd_conv)
  then show ?thesis using applyReferralTx_ok[OF assms(1)] by simp
next
  case (issued rnd now key body codes)
  then obtain maxUses owner count where p: "parseCreateInvitesBody env body = Inr (maxUses, owner, count)"
      "createInvites (mintInvites rnd owner maxUses now count) db = Some db'"
    by (auto simp: createInvitesRoute_def hbind_Inr_iff Let_def split: option.splits)
  then show ?thesis using createInvites_ok[OF assms(1) p(2)] parse_maxUses[OF p(1)] by simp
next
  case (minted rnd now wallet answer)
  then show ?thesis using assms(1) ensureReferralCode_ok[OF assms(1)]
    by (auto simp: referralCodeFor_def split: option.splits if_splits)
next
  case (deposited rnd now owner c)
  then show ?thesis using ensureReferralCode_ok[OF assms(1)] by blast
next
  case (mirrored m)
  have "(\<forall>r \<in> set (db_referrals n). rl_referrer r \<noteq> rl_referee r) \<longleftrightarrow>
      list_all2 (\<noteq>) (map rl_referrer (db_referrals n)) (map rl_referee (db_referrals n))" for n
    by (simp add: list_all2_map1 list_all2_map2 list_all2_same)
  then have "\<forall>r \<in> set (db_referrals m). rl_referrer r \<noteq> rl_referee r"
    using assms(1) mirrored(2,3) unfolding accessOk_def by metis
  then show ?thesis using assms(1) mirrored usesCounted_cong[of db' db] by (simp add: accessOk_def uniqueBy_def)
qed

lemma access_reach_ok: "access_reach env db \<Longrightarrow> accessOk db"
proof (induction rule: access_reach.induct)
  case (step db db')
  then show ?case using access_step_ok by blast
qed (simp add: accessOk_def uniqueBy_def usesCounted_def)

section \<open>Properties\<close>

definition demoAccess :: access_env where
  "demoAccess = \<lparr>ae_parseKey = (\<lambda>s. Some (map (\<lambda>c. word_of_nat (of_char c)) s)), ae_toBase58 = map (\<lambda>b. char_of (unat b)),
     ae_decode58 = (\<lambda>s. Some (replicate 64 0)), ae_importKey = (\<lambda>_. True), ae_verifyEd25519 = (\<lambda>m k s. Some True),
     ae_sha256 = map (\<lambda>c. word_of_nat (of_char c)), ae_poolAddress = ''pool'', ae_inviteAdminKey = Some ''key'', ae_circulationCap = 3,
     ae_redeemGrantCount = 2\<rparr>"

definition demoGate :: access_db where
  "demoGate = \<lparr>ab_invites = [\<lparr>ic_code = ''INVITEAA'', ic_ownerWallet = Some ''O'', ic_maxUses = 2, ic_uses = 0, ic_createdAt = 0\<rparr>],
     ab_redemptions = [], ab_codes = [],
     ab_model = \<lparr>db_pools = [], db_epochs = [], db_rounds = [], db_players = [], db_positions = [], db_events = [],
       db_cursors = [], db_referrals = [], db_grants = [], db_shares = []\<rparr>\<rparr>"

fun accepted :: "'a http \<Rightarrow> bool" where
  "accepted (Inr _) = True"
| "accepted (Inl _) = False"

definition demoDraws :: "nat \<Rightarrow> nat" where "demoDraws i = i mod 32"

definition demoEmpty :: access_db where
  "demoEmpty = \<lparr>ab_invites = [], ab_redemptions = [], ab_codes = [], ab_model = (ab_model demoGate)\<lparr>db_referrals := []\<rparr>\<rparr>"

text \<open>A signature is good for one request only: the text signed for a redeem determines the wallet,
  the invite code and the referral code (or its absence), whatever was typed before normalising, and
  it is never the text signed to apply a referral.\<close>

theorem signed_messages_unambiguous:
  assumes "CHR '' '' \<notin> set w" "CHR '' '' \<notin> set w'" "normalizeInviteCode r \<noteq> []" "normalizeInviteCode r' \<noteq> []"
    and "ref \<in> {None, Some (normalizeInviteCode r)}" "ref' \<in> {None, Some (normalizeInviteCode r')}"
  shows "(accessMessage w (normalizeInviteCode c) ref = accessMessage w' (normalizeInviteCode c') ref' \<longleftrightarrow>
      w = w' \<and> normalizeInviteCode c = normalizeInviteCode c' \<and> ref = ref') \<and>
    (applyReferralMessage w c = applyReferralMessage w' c' \<longleftrightarrow> w = w' \<and> c = c') \<and>
    accessMessage w c ref \<noteq> applyReferralMessage w' c'"
proof -
  have "w = w' \<and> normalizeInviteCode c = normalizeInviteCode c' \<and> ref = ref'"
    if "accessMessage w (normalizeInviteCode c) ref = accessMessage w' (normalizeInviteCode c') ref'"
  proof -
    have "w = w' \<and> accessTail (normalizeInviteCode c) ref = accessTail (normalizeInviteCode c') ref'"
      using that assms(1,2) unfolding accessMessage_tail by (intro split_at_first) auto
    then show ?thesis
      using accessTail_inj[OF normalized_no_r normalized_no_r, of ref ref' c c'] assms(3-6) by auto
  qed
  moreover have "w = w' \<and> c = c'" if "applyReferralMessage w c = applyReferralMessage w' c'"
    using split_at_first[OF assms(1,2), of c c'] that by (simp add: applyReferralMessage_def)
  moreover have "accessMessage w c ref \<noteq> applyReferralMessage w' c'"
    by (simp add: accessMessage_tail applyReferralMessage_def)
  ultimately show ?thesis by (intro conjI iffI) auto
qed

theorem signed_messages_unambiguous_witness:
  "accessMessage ''W'' (normalizeInviteCode '' ab ref:c '') None \<noteq>
   accessMessage ''W'' (normalizeInviteCode ''ab'') (Some (normalizeInviteCode ''c''))"
proof -
  have "normalizeInviteCode ''c'' = ''C''" by code_simp
  then show ?thesis
    using signed_messages_unambiguous[of "''W''" "''W''" "''c''" "''c''" None "Some (normalizeInviteCode ''c'')" "'' ab ref:c ''" "''ab''"]
    by simp
qed

text \<open>C14: The gate's books stay straight through every sequence of requests, deposits and mirror
  updates: codes and wallets stay unique, no code is spent more often than its maximum, its uses are the
  redemptions of it and every redemption is of a code that exists; every wallet redeems at most once, has at most one referrer and never itself.\<close>

theorem gate_invariant:
  assumes "access_reach env db"
  shows "accessOk db"
  using access_reach_ok[OF assms] .

theorem gate_invariant_witness:
  "\<exists>code db. createInvitesRoute demoAccess demoDraws 5 (Some ''key'') (JObject []) demoEmpty = Inr (Some ([code], db)) \<and> accessOk db"
proof -
  let ?r = "createInvitesRoute demoAccess demoDraws 5 (Some ''key'') (JObject []) demoEmpty"
  have "accepted ?r \<and> map_option (length \<circ> fst) (projr ?r) = Some 1" by code_simp
  then obtain codes db where r: "?r = Inr (Some (codes, db))" "length codes = 1" by (cases ?r) auto
  have "access_reach demoAccess demoEmpty" unfolding demoEmpty_def by (rule access_reach.empty)
  then have "access_reach demoAccess db" using access_step.issued[OF r(1)] by (rule access_reach.step)
  from gate_invariant[OF this] show ?thesis using r by (cases codes) auto
qed

text \<open>C15: A redeem spends exactly one use for a wallet that had not redeemed, and grants quota only up to
  the cap: circulation ends at most at the cap, or one below where it was when it was above.\<close>

theorem redeem_respects_cap:
  assumes "accessOk db" "redeemTx env rnd now address code ref db = Inr db'"
  shows "circulationOf db' \<le> max (ae_circulationCap env) (circulationOf db - 1) \<and>
    findUnique id_wallet address (ab_redemptions db) = None \<and>
    map id_wallet (ab_redemptions db') = map id_wallet (ab_redemptions db) @ [address]"
proof -
  have "findUnique id_wallet address (ab_redemptions db) = None \<and>
    map id_wallet (ab_redemptions db') = map id_wallet (ab_redemptions db) @ [address]"
    using assms(2)
  proof (rule redeemTx_cases)
    fix invite d
    assume f: "findUnique id_wallet address (ab_redemptions db) = None"
      and d: "bindsStep env now address code ref invite db d" and q: "quotaStep env rnd now address d db'"
    have "ab_redemptions d = ab_redemptions (spendCode address code now invite db)"
      using d bindReferral_Some(2) unfolding bindsStep_def by blast
    moreover have "ab_redemptions db' = ab_redemptions d"
      using q createInvites_Some by (fastforce simp: quotaStep_def)
    ultimately show ?thesis using f by (simp add: spendCode_def)
  qed
  then show ?thesis using redeemTx_circulation[OF assms] by blast
qed

theorem redeem_respects_cap_witness:
  "\<exists>db'. redeemTx demoAccess demoDraws 9 ''W'' ''INVITEAA'' None demoGate = Inr db' \<and> circulationOf db' \<le> 3 \<and>
     map id_wallet (ab_redemptions db') = [''W'']"
proof -
  have "accepted (redeemTx demoAccess demoDraws 9 ''W'' ''INVITEAA'' None demoGate)" by code_simp
  then obtain db' where r: "redeemTx demoAccess demoDraws 9 ''W'' ''INVITEAA'' None demoGate = Inr db'"
    by (cases "redeemTx demoAccess demoDraws 9 ''W'' ''INVITEAA'' None demoGate") auto
  have "accessOk demoGate" by code_simp
  from redeem_respects_cap[OF this r] r show ?thesis
    by (auto simp: demoGate_def demoAccess_def circulationOf_def)
qed

text \<open>Minting a referral code ends as soon as one drawn code is free in both tables, gives a code
  free in both, and later calls return the same code and change nothing.\<close>

theorem referral_code_minted_once:
  assumes "freshCode db (generateInviteCode rnd n)" "findUnique rk_owner owner (ab_codes db) = None"
  shows "\<exists>code d. ensureReferralCode rnd now owner db = Some (code, d) \<and> freshCode db code \<and>
    ensureReferralCode rnd' now' owner d = Some (code, d)"
proof -
  obtain code where g: "generateReferralCode rnd db 0 = Some code"
    using generateReferralCode_terminates[OF assms(1), of 0] by auto
  have "find (\<lambda>r. rk_owner r = owner) (ab_codes db) = None" using assms(2) by (simp add: findUnique_def)
  then show ?thesis
    using g assms(2) generateReferralCode_fresh[OF g]
    by (auto simp: ensureReferralCode_def findUnique_def find_append)
qed

theorem referral_code_minted_once_witness:
  "\<exists>code d. ensureReferralCode demoDraws 7 ''W'' demoGate = Some (code, d) \<and> freshCode demoGate code \<and>
    ensureReferralCode demoDraws 9 ''W'' d = Some (code, d)"
proof -
  have "freshCode demoGate (generateInviteCode demoDraws 0)" "findUnique rk_owner ''W'' (ab_codes demoGate) = None" by code_simp+
  from referral_code_minted_once[OF this] show ?thesis by blast
qed

end
