(* ===== verification/Indexer_Laws.thy ===== *)
theory Indexer_Laws
  imports Indexer Access_Laws
begin

text \<open>
  What event ingest guarantees: replaying a transaction changes nothing, the cursor never moves back
  and the live path never moves it, the catch-up walk finds exactly the signatures the cursor has not
  seen and stores every event of them, and a referee's tracked Principal follows that referee's own
  events in order.
\<close>

section \<open>Stored events\<close>

lemma keys_fold_create: "key ` set (fold (createIfAbsent key) rs t) = key ` set t \<union> key ` set rs"
proof (induction rs arbitrary: t)
  case (Cons r rs)
  have "key ` set (createIfAbsent key r t) = insert (key r) (key ` set t)" by (auto simp: createIfAbsent_def)
  then show ?case using Cons by auto
qed simp

lemma fold_create_present: "\<forall>r \<in> set rs. key r \<in> key ` set t \<Longrightarrow> fold (createIfAbsent key) rs t = t"
  by (induction rs) (auto simp: createIfAbsent_def)

lemma fold_create_keeps: "set t \<subseteq> set (fold (createIfAbsent key) rs t)"
proof (induction rs arbitrary: t)
  case (Cons r rs)
  have "set t \<subseteq> set (createIfAbsent key r t)" by (auto simp: createIfAbsent_def)
  then show ?case using Cons[of "createIfAbsent key r t"] by simp
qed simp

section \<open>Codes\<close>

lemma ensureReferralCode_frame:
  assumes "ensureReferralCode rnd now owner db = Some (c, d)"
  shows "ab_model d = ab_model db \<and> ab_invites d = ab_invites db \<and>
    rk_owner ` set (ab_codes d) = insert owner (rk_owner ` set (ab_codes db))"
proof (cases "findUnique rk_owner owner (ab_codes db)")
  case None
  then show ?thesis using assms by (auto simp: ensureReferralCode_def split: option.splits)
next
  case (Some r)
  then have "owner \<in> rk_owner ` set (ab_codes db)" using findUnique_Some by fastforce
  then show ?thesis using Some assms by (auto simp: ensureReferralCode_def)
qed

lemma ensureCodes_frame:
  "ensureCodes draws now owners db = Some d \<Longrightarrow>
   ab_model d = ab_model db \<and> rk_owner ` set (ab_codes d) = set owners \<union> rk_owner ` set (ab_codes db)"
proof (induction owners arbitrary: db)
  case (Cons owner owners)
  then obtain c d1 where e: "ensureReferralCode (draws (length owners)) now owner db = Some (c, d1)"
      "ensureCodes draws now owners d1 = Some d"
    by (auto split: option.splits)
  show ?case using ensureReferralCode_frame[OF e(1)] Cons.IH[OF e(2)] by auto
qed simp

lemma ensureCodes_present:
  "set owners \<subseteq> rk_owner ` set (ab_codes db) \<Longrightarrow> ensureCodes draws now owners db = Some db"
proof (induction owners)
  case (Cons owner owners)
  then obtain r where "findUnique rk_owner owner (ab_codes db) = Some r"
    using findUnique_None[of rk_owner owner "ab_codes db"] by (cases "findUnique rk_owner owner (ab_codes db)") auto
  then show ?case using Cons by (simp add: ensureReferralCode_def)
qed simp

section \<open>One batch\<close>

text \<open>Everything a successful call computes, named once.\<close>

lemma persist_cases:
  assumes "persist pool now draws batch events adv db = Some (Inr (n, db'))"
  obtains closed closedRounds refs d where
    "mapRes settledPosition events = Inr closed" "mapRes closedRound events = Inr closedRounds"
    "referralPrincipalEvents events = Inr refs"
    "ensureCodes draws now (depositorsOf events) (db\<lparr>ab_model := writeBatch pool now batch events
        (List.map_filter id closed) (List.map_filter id closedRounds) (ab_model db)\<rparr>) = Some d"
    "n = length (db_events (ab_model d)) - length (db_events (ab_model db))"
    "ab_codes db' = ab_codes d" "db_events (ab_model db') = db_events (ab_model d)"
    "db_cursors (ab_model db') = (if adv then advanceCursor pool now batch (db_cursors (ab_model db)) else db_cursors (ab_model db))"
    "db' = d\<lparr>ab_model := (ab_model db')\<rparr>"
    "ab_model db' = (ab_model d)\<lparr>db_referrals := db_referrals (ab_model db'), db_cursors := db_cursors (ab_model db')\<rparr>"
    "db_referrals (ab_model db') = (if refs \<noteq> [] \<and> n > 0
       then trackReferrals (case lb_blockTime batch of Some t \<Rightarrow> t | None \<Rightarrow> now) refs (db_referrals (ab_model db))
       else db_referrals (ab_model db))"
proof -
  obtain closed closedRounds refs where r: "mapRes settledPosition events = Inr closed"
      "mapRes closedRound events = Inr closedRounds" "referralPrincipalEvents events = Inr refs"
    using assms unfolding persist_def by (auto split: sum.splits)
  define m1 where "m1 = writeBatch pool now batch events (List.map_filter id closed) (List.map_filter id closedRounds) (ab_model db)"
  obtain d where d: "ensureCodes draws now (depositorsOf events) (db\<lparr>ab_model := m1\<rparr>) = Some d"
    using assms r unfolding persist_def m1_def Let_def by (auto split: option.splits)
  have m: "ab_model d = m1" using ensureCodes_frame[OF d] by simp
  have m1: "db_referrals m1 = db_referrals (ab_model db)" "db_cursors m1 = db_cursors (ab_model db)"
    by (simp_all add: m1_def writeBatch_def)
  define created where "created = length (db_events m1) - length (db_events (ab_model db))"
  define m3 where "m3 = (if refs \<noteq> [] \<and> created > 0 then m1\<lparr>db_referrals := trackReferrals
      (case lb_blockTime batch of Some t \<Rightarrow> t | None \<Rightarrow> now) refs (db_referrals m1)\<rparr> else m1)"
  define m4 where "m4 = (if adv then m3\<lparr>db_cursors := advanceCursor pool now batch (db_cursors m3)\<rparr> else m3)"
  have "persist pool now draws batch events adv db = Some (Inr (created, d\<lparr>ab_model := m4\<rparr>))"
    by (simp add: persist_def r Let_def m1_def[symmetric] d m created_def m3_def m4_def)
  then have n: "n = created" "db' = d\<lparr>ab_model := m4\<rparr>" using assms by auto
  show thesis
  proof (rule that[OF r d[unfolded m1_def]])
    show "n = length (db_events (ab_model d)) - length (db_events (ab_model db))" by (simp add: n created_def m)
  qed (use m1 in \<open>auto simp: n m m4_def m3_def\<close>)
qed

lemma writeBatch_again:
  "writeBatch pool now' batch events closed closedRounds (writeBatch pool now batch events closed closedRounds m)
   = writeBatch pool now batch events closed closedRounds m"
proof -
  let ?rows = "eventRows pool batch events"
  have "fold (createIfAbsent eventKey) ?rows (fold (createIfAbsent eventKey) ?rows (db_events m))
      = fold (createIfAbsent eventKey) ?rows (db_events m)"
    by (intro fold_create_present ballI) (simp only: keys_fold_create, blast)
  then show ?thesis
    by (simp add: writeBatch_def deleteRows_def updateRows_def o_def)
qed

lemma persist_again:
  assumes "persist pool now draws batch events adv db = Some (Inr (n, db1))"
  shows "persist pool now' draws' batch events adv' db1 = Some (Inr (0, db1\<lparr>ab_model := (ab_model db1)\<lparr>db_cursors :=
     (if adv' then advanceCursor pool now' batch (db_cursors (ab_model db1)) else db_cursors (ab_model db1))\<rparr>\<rparr>))"
  using assms
proof (rule persist_cases)
  fix closed closedRounds refs d
  assume r: "mapRes settledPosition events = Inr closed" "mapRes closedRound events = Inr closedRounds"
      "referralPrincipalEvents events = Inr refs"
    and d: "ensureCodes draws now (depositorsOf events) (db\<lparr>ab_model := writeBatch pool now batch events
        (List.map_filter id closed) (List.map_filter id closedRounds) (ab_model db)\<rparr>) = Some d"
    and codes: "ab_codes db1 = ab_codes d"
    and model: "ab_model db1 = (ab_model d)\<lparr>db_referrals := db_referrals (ab_model db1), db_cursors := db_cursors (ab_model db1)\<rparr>"
  let ?W = "writeBatch pool now batch events (List.map_filter id closed) (List.map_filter id closedRounds)"
  let ?W' = "writeBatch pool now' batch events (List.map_filter id closed) (List.map_filter id closedRounds)"
  have md: "ab_model d = ?W (ab_model db)" using ensureCodes_frame[OF d] by simp
  have "?W' (m\<lparr>db_referrals := x, db_cursors := y\<rparr>) = (?W' m)\<lparr>db_referrals := x, db_cursors := y\<rparr>" for m x y
    by (simp add: writeBatch_def)
  then have w: "?W' (ab_model db1) = ab_model db1"
    using model md writeBatch_again[of pool now' batch events _ _ now "ab_model db"] by metis
  have c: "ensureCodes draws' now' (depositorsOf events) db1 = Some db1"
    using ensureCodes_frame[OF d] codes by (intro ensureCodes_present) auto
  show ?thesis using r w c by (simp add: persist_def Let_def)
qed

section \<open>The cursor\<close>

definition cursorSlot :: "string \<Rightarrow> read_model \<Rightarrow> int option" where
  "cursorSlot pool m = (case findUnique cr_poolAddress pool (db_cursors m) of None \<Rightarrow> None | Some c \<Rightarrow> cr_lastSlot c)"

definition cursorSignature :: "string \<Rightarrow> read_model \<Rightarrow> string option" where
  "cursorSignature pool m = (case findUnique cr_poolAddress pool (db_cursors m) of None \<Rightarrow> None | Some c \<Rightarrow> cr_lastSignature c)"

lemma advanceCursor_find:
  "findUnique cr_poolAddress pool (advanceCursor pool now batch t) =
    (case findUnique cr_poolAddress pool t of
       Some c \<Rightarrow> (case cr_lastSlot c of
           Some l \<Rightarrow> if l \<le> lb_slot batch then Some \<lparr>cr_poolAddress = pool, cr_lastSignature = Some (lb_signature batch),
                   cr_lastSlot = Some (lb_slot batch), cr_updatedAt = Some now\<rparr> else Some c
         | None \<Rightarrow> Some \<lparr>cr_poolAddress = pool, cr_lastSignature = Some (lb_signature batch),
                   cr_lastSlot = Some (lb_slot batch), cr_updatedAt = Some now\<rparr>)
     | None \<Rightarrow> Some \<lparr>cr_poolAddress = pool, cr_lastSignature = Some (lb_signature batch),
                   cr_lastSlot = Some (lb_slot batch), cr_updatedAt = Some now\<rparr>)"
  by (auto simp: advanceCursor_def Let_def findUnique_upsert split: option.splits)

lemma persist_cursor:
  assumes "persist pool now draws batch events adv db = Some (Inr (n, db'))"
  shows "db_cursors (ab_model db') = (if adv then advanceCursor pool now batch (db_cursors (ab_model db)) else db_cursors (ab_model db))"
  using assms by (rule persist_cases)

lemma advance_slot:
  "cursorSlot pool m = Some l \<Longrightarrow> \<exists>l'. cursorSlot pool (m\<lparr>db_cursors := advanceCursor pool now batch (db_cursors m)\<rparr>) = Some l' \<and> l \<le> l'"
  by (auto simp: cursorSlot_def advanceCursor_find split: option.splits)

section \<open>Paging\<close>

text \<open>An RPC node serving pages of a fixed history, newest first.\<close>

definition servesHistory :: "chain_reads \<Rightarrow> signature_info list \<Rightarrow> bool" where
  "servesHistory ch hist \<longleftrightarrow> (\<forall>before. ch_signatures ch before = Inr (take SIGNATURE_PAGE
     (case before of None \<Rightarrow> hist | Some s \<Rightarrow> tl (dropWhile (\<lambda>i. si_signature i \<noteq> s) hist))))"

lemma tl_dropWhile: "distinct (map f (xs @ x # ys)) \<Longrightarrow> tl (dropWhile (\<lambda>i. f i \<noteq> f x) (xs @ x # ys)) = ys"
  by (induction xs) auto

lemma findIndex_Some: "findIndex p xs = Some n \<Longrightarrow> take n xs = takeWhile (\<lambda>x. \<not> p x) xs \<and> list_ex p xs"
  using takeWhile_eq_take[of "\<lambda>x. \<not> p x" xs] by (auto simp: findIndex_def split: if_splits)

lemma findIndex_None: "findIndex p xs = None \<longleftrightarrow> \<not> list_ex p xs"
  by (auto simp: findIndex_def)

lemma takeWhile_found: "list_ex p xs \<Longrightarrow> takeWhile (\<lambda>x. \<not> p x) (xs @ ys) = takeWhile (\<lambda>x. \<not> p x) xs"
  by (induction xs) auto

lemma takeWhile_not_found: "\<not> list_ex p xs \<Longrightarrow> takeWhile (\<lambda>x. \<not> p x) (xs @ ys) = xs @ takeWhile (\<lambda>x. \<not> p x) ys"
  by (induction xs) auto

lemma collectBacklog_from:
  assumes h: "servesHistory ch hist" "distinct (map si_signature hist)" "lastSig \<noteq> Some []"
    and "hist = seen @ rest" "before = (if seen = [] then None else Some (si_signature (last seen)))"
  shows "collectBacklog ch lastSig before acc = Some (Inr (acc @ takeWhile (\<lambda>i. Some (si_signature i) \<noteq> lastSig) rest))"
  using assms(4,5)
proof (induction rest arbitrary: seen before acc rule: measure_induct_rule[of length])
  case (less rest)
  let ?p = "\<lambda>i. Some (si_signature i) = lastSig"
  define page where "page = take SIGNATURE_PAGE rest"
  have "(case before of None \<Rightarrow> hist | Some s \<Rightarrow> tl (dropWhile (\<lambda>i. si_signature i \<noteq> s) hist)) = rest"
  proof (cases "seen = []")
    case False
    then have "hist = butlast seen @ last seen # rest" using less.prems(1) by simp
    then show ?thesis using tl_dropWhile[of si_signature "butlast seen" "last seen" rest] h(2) less.prems(2) False by simp
  qed (use less.prems in simp)
  then have pg: "ch_signatures ch before = Inr page" using h(1) by (simp add: servesHistory_def page_def)
  have rest: "rest = page @ drop SIGNATURE_PAGE rest" by (simp add: page_def)
  define reached where "reached = (case lastSig of None \<Rightarrow> None
     | Some s \<Rightarrow> if s = [] then None else findIndex (\<lambda>i. si_signature i = s) page)"
  have re: "reached = (if list_ex ?p page then findIndex ?p page else None)"
    using h(3) by (auto simp: reached_def findIndex_def list_ex_iff split: option.splits)
  have step: "collectBacklog ch lastSig before acc =
    (let backlog' = acc @ (case reached of None \<Rightarrow> page | Some n \<Rightarrow> take n page)
     in if reached \<noteq> None \<or> length page < SIGNATURE_PAGE then Some (Inr backlog')
        else collectBacklog ch lastSig (Some (si_signature (last page))) backlog')"
    by (subst collectBacklog.simps) (simp add: pg reached_def Let_def)
  show ?case
  proof (cases "list_ex ?p page")
    case True
    then obtain n where n: "findIndex ?p page = Some n" by (auto simp: findIndex_def)
    then have "take n page = takeWhile (\<lambda>i. \<not> ?p i) rest"
      using findIndex_Some[OF n] takeWhile_found[OF True, of "drop SIGNATURE_PAGE rest"] rest by metis
    then show ?thesis using step True n re by simp
  next
    case False
    then have tw: "takeWhile (\<lambda>i. \<not> ?p i) rest = page @ takeWhile (\<lambda>i. \<not> ?p i) (drop SIGNATURE_PAGE rest)"
      using takeWhile_not_found[OF False, of "drop SIGNATURE_PAGE rest"] rest by metis
    show ?thesis
    proof (cases "length page < SIGNATURE_PAGE")
      case True
      then have "drop SIGNATURE_PAGE rest = []" by (simp add: page_def)
      then show ?thesis using step False re True tw by simp
    next
      case full: False
      then have ne: "page \<noteq> []" by (auto simp: SIGNATURE_PAGE_def)
      have lt: "length (drop SIGNATURE_PAGE rest) < length rest" using full by (auto simp: page_def SIGNATURE_PAGE_def)
      have "collectBacklog ch lastSig (Some (si_signature (last page))) (acc @ page)
          = Some (Inr ((acc @ page) @ takeWhile (\<lambda>i. \<not> ?p i) (drop SIGNATURE_PAGE rest)))"
        using less.IH[OF lt, of "seen @ page" "Some (si_signature (last page))" "acc @ page"] less.prems(1) ne
        by (simp add: page_def)
      then show ?thesis using step False re full tw by simp
    qed
  qed
qed

section \<open>Replaying\<close>

definition readable :: "chain_reads \<Rightarrow> signature_info \<Rightarrow> bool" where
  "readable ch info \<longleftrightarrow> si_err info \<or> (\<exists>logs. ch_logs ch (si_signature info) = Inr (Some logs))"

definition batchOf :: "signature_info \<Rightarrow> log_batch" where
  "batchOf info = \<lparr>lb_signature = si_signature info, lb_slot = si_slot info, lb_blockTime = si_blockTime info\<rparr>"

lemma persist_events:
  assumes "persist pool now draws batch events adv db = Some (Inr (n, db'))"
  shows "set (db_events (ab_model db)) \<subseteq> set (db_events (ab_model db'))"
    "eventKey ` set (eventRows pool batch events) \<subseteq> eventKey ` set (db_events (ab_model db'))"
proof -
  obtain d closed closedRounds where d: "ensureCodes draws now (depositorsOf events) (db\<lparr>ab_model := writeBatch pool now batch events
        closed closedRounds (ab_model db)\<rparr>) = Some d" "db_events (ab_model db') = db_events (ab_model d)"
    using assms by (rule persist_cases)
  have "db_events (ab_model d) = fold (createIfAbsent eventKey) (eventRows pool batch events) (db_events (ab_model db))"
    using ensureCodes_frame[OF d(1)] by (simp add: writeBatch_def)
  then show "set (db_events (ab_model db)) \<subseteq> set (db_events (ab_model db'))"
    "eventKey ` set (eventRows pool batch events) \<subseteq> eventKey ` set (db_events (ab_model db'))"
    using d(2) fold_create_keeps[of "db_events (ab_model db)" eventKey] keys_fold_create[of eventKey] by auto
qed

definition eventsOf :: "chain_reads \<Rightarrow> signature_info \<Rightarrow> decoded_event list \<Rightarrow> bool" where
  "eventsOf ch info events \<longleftrightarrow> (if si_err info then events = []
     else \<exists>logs. ch_logs ch (si_signature info) = Inr (Some logs) \<and> ch_parse ch logs = Inr events)"

lemma eventsOf_unique: "eventsOf ch info events \<Longrightarrow> eventsOf ch info events' \<Longrightarrow> events = events'"
  by (auto simp: eventsOf_def split: if_splits)

lemma ingest_cases:
  assumes "ingestSignature pool now draws ch info db = Some (Inr (b, d))"
  obtains (consumed) events n where "b" "eventsOf ch info events" "persist pool now draws (batchOf info) events True db = Some (Inr (n, d))"
  | (unread) "\<not> b" "d = db" "\<not> readable ch info"
proof (cases "si_err info")
  case True
  then obtain n where "b" "persist pool now draws (batchOf info) [] True db = Some (Inr (n, d))"
    using assms by (auto simp: ingestSignature_def batchOf_def rbind_Inr_iff)
  then show thesis using consumed[of "[]"] True by (simp add: eventsOf_def)
next
  case False
  obtain l where l: "ch_logs ch (si_signature info) = Inr l" using assms False
    by (cases "ch_logs ch (si_signature info)") (simp_all add: ingestSignature_def)
  show thesis
  proof (cases l)
    case None
    then show thesis using unread assms False l by (simp add: ingestSignature_def readable_def)
  next
    case (Some logs)
    then obtain events where e: "ch_parse ch logs = Inr events" using assms False l
      by (cases "ch_parse ch logs") (simp_all add: ingestSignature_def)
    then obtain n where "b" "persist pool now draws (batchOf info) events True db = Some (Inr (n, d))"
      using assms False l Some by (auto simp: ingestSignature_def batchOf_def rbind_Inr_iff)
    then show thesis using consumed[of events] False l Some e by (simp add: eventsOf_def)
  qed
qed

lemma replay_stores:
  assumes "replayBacklog pool now draws ch infos db = Some (Inr (), d)" "\<forall>i \<in> set infos. readable ch i"
  shows "set (db_events (ab_model db)) \<subseteq> set (db_events (ab_model d)) \<and>
   (\<forall>i \<in> set infos. \<exists>events. eventsOf ch i events \<and>
      eventKey ` set (eventRows pool (batchOf i) events) \<subseteq> eventKey ` set (db_events (ab_model d)))"
  using assms
proof (induction infos arbitrary: db)
  case (Cons i infos)
  obtain b d1 where i: "ingestSignature pool now (draws (length infos)) ch i db = Some (Inr (b, d1))"
    using Cons.prems(1) by (auto split: option.splits sum.splits)
  from i show ?case
  proof (cases rule: ingest_cases)
    case (consumed events n)
    have r: "replayBacklog pool now draws ch infos d1 = Some (Inr (), d)" using Cons.prems(1) i consumed(1) by simp
    have IH: "set (db_events (ab_model d1)) \<subseteq> set (db_events (ab_model d))"
      "\<forall>i \<in> set infos. \<exists>events. eventsOf ch i events \<and>
         eventKey ` set (eventRows pool (batchOf i) events) \<subseteq> eventKey ` set (db_events (ab_model d))"
      using Cons.IH[OF r] Cons.prems(2) by auto
    note p = persist_events[OF consumed(3)]
    have "eventKey ` set (eventRows pool (batchOf i) events) \<subseteq> eventKey ` set (db_events (ab_model d))"
      using p(2) image_mono[OF IH(1), of eventKey] by (rule order_trans)
    then show ?thesis using consumed(2) IH p(1) by auto
  next
    case unread
    then show ?thesis using Cons.prems(2) by simp
  qed
qed simp

section \<open>Tracked Principal\<close>

definition trackOwn :: "int \<Rightarrow> (string \<times> principal_event) list \<Rightarrow> referral_row \<Rightarrow> referral_row" where
  "trackOwn blockTime evs r =
    (let q = fold (\<lambda>e q. applyReferralEvent q e blockTime) (map snd (filter (\<lambda>oe. fst oe = rl_referee r) evs))
               \<lparr>q_principal = rl_principal r, q_aboveSince = rl_aboveSince r\<rparr>
     in r\<lparr>rl_principal := q_principal q, rl_aboveSince := q_aboveSince q\<rparr>)"

lemma fold_trackStep:
  "fold (trackStep bt) evs st p = (case st p of None \<Rightarrow> None
     | Some q \<Rightarrow> Some (fold (\<lambda>e q. applyReferralEvent q e bt) (map snd (filter (\<lambda>oe. fst oe = p) evs)) q))"
proof (induction evs arbitrary: st)
  case (Cons oe evs)
  then show ?case by (cases "st (fst oe)") (auto simp: trackStep_def split: option.splits)
qed (simp split: option.splits)

lemma map_of_rows: "uniqueBy key t \<Longrightarrow> r \<in> set t \<Longrightarrow> map_of (map (\<lambda>r. (key r, f r)) t) (key r) = Some (f r)"
  unfolding uniqueBy_def by (induction t) (auto simp: image_iff)

lemma trackReferrals_own:
  assumes "uniqueBy rl_referee rs"
  shows "trackReferrals bt evs rs = map (trackOwn bt evs) rs"
proof -
  define existing where "existing = filter (\<lambda>r. rl_referee r \<in> set (map fst evs)) rs"
  define st where "st = map_of (map (\<lambda>r. (rl_referee r, \<lparr>q_principal = rl_principal r, q_aboveSince = rl_aboveSince r\<rparr>)) existing)"
  have u: "uniqueBy rl_referee existing"
    using assms unfolding existing_def uniqueBy_def by (rule distinct_map_filter)
  have "(case fold (trackStep bt) evs st (rl_referee r) of None \<Rightarrow> r
      | Some n \<Rightarrow> r\<lparr>rl_principal := q_principal n, rl_aboveSince := q_aboveSince n\<rparr>) = trackOwn bt evs r" if r: "r \<in> set rs" for r
  proof (cases "r \<in> set existing")
    case True
    then have "st (rl_referee r) = Some \<lparr>q_principal = rl_principal r, q_aboveSince = rl_aboveSince r\<rparr>"
      unfolding st_def by (rule map_of_rows[OF u])
    then show ?thesis by (simp add: fold_trackStep trackOwn_def Let_def)
  next
    case False
    then have no: "rl_referee r \<notin> fst ` set evs" using r by (simp add: existing_def)
    then have "st (rl_referee r) = None" by (force simp: st_def existing_def map_of_eq_None_iff image_iff)
    moreover have "filter (\<lambda>oe. fst oe = rl_referee r) evs = []" using no by (force simp: filter_empty_conv)
    ultimately show ?thesis by (simp add: fold_trackStep trackOwn_def)
  qed
  then show ?thesis unfolding trackReferrals_def Let_def existing_def[symmetric] st_def[symmetric]
    by (intro map_cong) simp_all
qed

section \<open>A concrete chain\<close>

definition demoHistory :: "signature_info list" where
  "demoHistory = [\<lparr>si_signature = ''B'', si_slot = 9, si_blockTime = Some 90, si_err = False\<rparr>,
     \<lparr>si_signature = ''A'', si_slot = 8, si_blockTime = Some 80, si_err = False\<rparr>]"

definition demoChain :: chain_reads where
  "demoChain = \<lparr>ch_signatures = (\<lambda>before. Inr (take SIGNATURE_PAGE
       (case before of None \<Rightarrow> demoHistory | Some s \<Rightarrow> tl (dropWhile (\<lambda>i. si_signature i \<noteq> s) demoHistory)))),
     ch_logs = (\<lambda>s. Inr (Some [s])),
     ch_parse = (\<lambda>logs. Inr [\<lparr>ev_name = ''YieldCredited'', ev_data = JObject [(''owner'', JString ''R''), (''amount'', JString ''7'')]\<rparr>])\<rparr>"

definition demoReferred :: access_db where
  "demoReferred = demoGate\<lparr>ab_model := (ab_model demoGate)\<lparr>db_referrals := [\<lparr>rl_referee = ''R'', rl_referrer = ''O'', rl_code = ''C'',
     rl_boundAt = 0, rl_aboveSince = None, rl_principal = 49999999\<rparr>]\<rparr>\<rparr>"

definition demoDraw2 :: "nat \<Rightarrow> nat \<Rightarrow> nat" where "demoDraw2 _ = demoDraws"
definition demoDraw3 :: "nat \<Rightarrow> nat \<Rightarrow> nat \<Rightarrow> nat" where "demoDraw3 _ = demoDraw2"

definition returned :: "'a res option \<Rightarrow> bool" where
  "returned r = (case r of Some (Inr _) \<Rightarrow> True | _ \<Rightarrow> False)"

lemma returnedE: "returned r \<Longrightarrow> (\<And>x. r = Some (Inr x) \<Longrightarrow> P) \<Longrightarrow> P"
  by (auto simp: returned_def split: option.splits sum.splits)

lemma demo_serves: "servesHistory demoChain demoHistory"
  by (simp add: servesHistory_def demoChain_def)

definition demoEvents :: "decoded_event list" where
  "demoEvents = [\<lparr>ev_name = ''YieldCredited'', ev_data = JObject [(''owner'', JString ''R''), (''amount'', JString ''7'')]\<rparr>]"

lemma demo_persist:
  obtains db' where "persist ''pool'' 100 demoDraw2 (batchOf (hd demoHistory)) demoEvents True demoReferred = Some (Inr (1, db'))"
proof -
  let ?p = "persist ''pool'' 100 demoDraw2 (batchOf (hd demoHistory)) demoEvents True demoReferred"
  have r: "returned ?p" "fst (projr (the ?p)) = 1" by code_simp+
  from r(1) obtain x where x: "?p = Some (Inr x)" by (rule returnedE)
  with r(2) have "fst x = 1" by (simp only: option.sel sum.sel)
  then have "x = (1, snd x)" by (metis prod.collapse)
  with x show thesis using that by metis
qed

section \<open>Properties\<close>

text \<open>C16: Replaying a transaction is a no-op: ingesting a stored batch again, on whichever path and with
  whatever clock, returns zero new events and changes no row of any table, except that the catch-up
  path may refresh the cursor.\<close>

theorem replay_is_noop:
  assumes "persist pool now draws batch events adv db = Some (Inr (n, db1))"
  shows "persist pool now' draws' batch events False db1 = Some (Inr (0, db1)) \<and>
    persist pool now' draws' batch events True db1 = Some (Inr (0, db1\<lparr>ab_model := (ab_model db1)\<lparr>db_cursors :=
      advanceCursor pool now' batch (db_cursors (ab_model db1))\<rparr>\<rparr>))"
  using persist_again[OF assms, of now' draws' False] persist_again[OF assms, of now' draws' True] by simp

theorem replay_is_noop_witness:
  "\<exists>db1. persist ''pool'' 100 demoDraw2 (batchOf (hd demoHistory)) demoEvents True demoReferred = Some (Inr (1, db1)) \<and>
     persist ''pool'' 900 demoDraw2 (batchOf (hd demoHistory)) demoEvents False db1 = Some (Inr (0, db1))"
proof (rule demo_persist)
  fix db1 assume p: "persist ''pool'' 100 demoDraw2 (batchOf (hd demoHistory)) demoEvents True demoReferred = Some (Inr (1, db1))"
  show ?thesis using p replay_is_noop[OF p, of 900 demoDraw2] by blast
qed

text \<open>The cursor only moves forward, and only for the catch-up walk: ingest never lowers the slot it
  has reached, and a live batch leaves it untouched.\<close>

theorem cursor_is_monotone:
  assumes "persist pool now draws batch events adv db = Some (Inr (n, db'))" "cursorSlot pool (ab_model db) = Some l"
  shows "(\<exists>l'. cursorSlot pool (ab_model db') = Some l' \<and> l \<le> l' \<and> (adv \<longrightarrow> lb_slot batch \<le> l')) \<and>
    (\<not> adv \<longrightarrow> db_cursors (ab_model db') = db_cursors (ab_model db))"
  using assms(2) unfolding cursorSlot_def persist_cursor[OF assms(1)]
  by (auto simp: advanceCursor_find split: option.splits)

definition demoCursor :: access_db where
  "demoCursor = demoReferred\<lparr>ab_model := (ab_model demoReferred)\<lparr>db_cursors := [\<lparr>cr_poolAddress = ''pool'',
     cr_lastSignature = Some ''A'', cr_lastSlot = Some 8, cr_updatedAt = Some 1\<rparr>]\<rparr>\<rparr>"

theorem cursor_is_monotone_witness:
  "\<exists>n db' l'. persist ''pool'' 100 demoDraw2 (batchOf (hd demoHistory)) [] True demoCursor = Some (Inr (n, db')) \<and>
     cursorSlot ''pool'' (ab_model db') = Some l' \<and> 8 \<le> l' \<and> 9 \<le> l'"
proof -
  let ?p = "persist ''pool'' 100 demoDraw2 (batchOf (hd demoHistory)) [] True demoCursor"
  have "returned ?p" by code_simp
  then obtain x where "?p = Some (Inr x)" by (rule returnedE)
  then obtain n db' where p: "?p = Some (Inr (n, db'))" by (metis prod.collapse)
  have "cursorSlot ''pool'' (ab_model demoCursor) = Some 8" "lb_slot (batchOf (hd demoHistory)) = 9" by code_simp+
  with cursor_is_monotone[OF p this(1)] p show ?thesis by auto
qed

text \<open>C17: The catch-up walk returns, however long the history is, with exactly the signatures newer than
  the cursor's, newest first, however many pages that takes; without a cursor, or with one the
  history no longer holds, with all of them.\<close>

theorem backlog_is_exact:
  assumes "servesHistory ch hist" "distinct (map si_signature hist)" "lastSig \<noteq> Some []"
  shows "collectBacklog ch lastSig None [] = Some (Inr (takeWhile (\<lambda>i. Some (si_signature i) \<noteq> lastSig) hist))"
  using collectBacklog_from[OF assms, of "[]" hist None "[]"] by simp

theorem backlog_is_exact_witness:
  "collectBacklog demoChain (Some ''A'') None [] = Some (Inr [hd demoHistory])"
  using backlog_is_exact[OF demo_serves, of "Some ''A''"] by (simp add: demoHistory_def)



text \<open>A referee's tracked Principal follows that referee's own events in order: ingesting a new
  batch moves every Referral row exactly by the fold of its own Principal-changing events of the batch,
  so a dip and a restore in one batch count as two crossings, and no other row moves.\<close>

theorem referrals_follow_own_events:
  assumes "persist pool now draws batch events adv db = Some (Inr (n, db'))" "0 < n"
    and "referralPrincipalEvents events = Inr refs" "uniqueBy rl_referee (db_referrals (ab_model db))"
  shows "db_referrals (ab_model db') =
    map (trackOwn (case lb_blockTime batch of Some t \<Rightarrow> t | None \<Rightarrow> now) refs) (db_referrals (ab_model db))"
proof -
  have "map (trackOwn t []) rs = rs" for t rs by (simp add: trackOwn_def map_idI)
  then show ?thesis
    using assms(1) trackReferrals_own[OF assms(4)] assms(2,3) by (elim persist_cases) (auto split: if_splits)
qed

theorem referrals_follow_own_events_witness:
  "\<exists>db'. persist ''pool'' 100 demoDraw2 (batchOf (hd demoHistory)) demoEvents True demoReferred = Some (Inr (1, db')) \<and>
     map (\<lambda>r. (rl_referee r, rl_principal r, rl_aboveSince r)) (db_referrals (ab_model db')) = [(''R'', 50000006, Some 90)]"
proof (rule demo_persist)
  fix db' assume p: "persist ''pool'' 100 demoDraw2 (batchOf (hd demoHistory)) demoEvents True demoReferred = Some (Inr (1, db'))"
  have r: "referralPrincipalEvents demoEvents = Inr [(''R'', YieldCredited 7)]" by code_simp
  have u: "uniqueBy rl_referee (db_referrals (ab_model demoReferred))" by code_simp
  have t: "map (\<lambda>r. (rl_referee r, rl_principal r, rl_aboveSince r)) (map (trackOwn 90 [(''R'', YieldCredited 7)])
      (db_referrals (ab_model demoReferred))) = [(''R'', 50000006, Some 90)]" by code_simp
  have b: "lb_blockTime (batchOf (hd demoHistory)) = Some 90" by code_simp
  have "db_referrals (ab_model db') = map (trackOwn 90 [(''R'', YieldCredited 7)]) (db_referrals (ab_model demoReferred))"
    using referrals_follow_own_events[OF p _ r u] by (simp only: b option.case less_numeral_extra)
  with p t show ?thesis by (intro exI[of _ db'] conjI) (simp_all only:)
qed

text \<open>A stalled backlog still looks fresh: when the oldest unseen transaction has no logs yet, the
  tick stores nothing and leaves the cursor where it was, but stamps the cursor's \<open>updatedAt\<close> with
  the present all the same.\<close>

theorem stalled_tick_looks_fresh:
  assumes "collectBacklog ch (cursorSignature pool (ab_model db)) None [] = Some (Inr (newer @ [info]))"
    and "\<not> si_err info" "ch_logs ch (si_signature info) = Inr None"
  shows "\<exists>d c. ingestTick pool now draws ch db = Some (Inr (), d) \<and> db_events (ab_model d) = db_events (ab_model db) \<and>
    findUnique cr_poolAddress pool (db_cursors (ab_model d)) = Some c \<and> cr_updatedAt c = Some now \<and>
    cursorSignature pool (ab_model d) = cursorSignature pool (ab_model db)"
proof -
  have "ingestSignature pool now (draws (length newer)) ch info db = Some (Inr (False, db))"
    using assms(2,3) by (simp add: ingestSignature_def Let_def)
  then have "replayBacklog pool now draws ch (rev (newer @ [info])) db = Some (Inr (), db)" by simp
  then have "catchUpEvents pool now draws ch db = Some (Inr (), db)"
    using assms(1) by (simp add: catchUpEvents_def Let_def cursorSignature_def)
  moreover have "cr_poolAddress c = pool" if "findUnique cr_poolAddress pool t = Some c" for c t
    using findUnique_Some[OF that] by simp
  then have "findUnique cr_poolAddress pool (db_cursors (ab_model db)) = Some c \<Longrightarrow> cr_poolAddress c = pool" for c .
  ultimately show ?thesis
    by (cases "findUnique cr_poolAddress pool (db_cursors (ab_model db))")
      (simp_all add: ingestTick_def stampCursor_def cursorSignature_def findUnique_upsert eq_commute[of pool])
qed

definition demoStalled :: chain_reads where
  "demoStalled = demoChain\<lparr>ch_logs := (\<lambda>_. Inr None)\<rparr>"

theorem stalled_tick_looks_fresh_witness:
  "\<exists>d c. ingestTick ''pool'' 100 demoDraw3 demoStalled demoReferred = Some (Inr (), d) \<and> db_events (ab_model d) = [] \<and>
    findUnique cr_poolAddress ''pool'' (db_cursors (ab_model d)) = Some c \<and> cr_updatedAt c = Some 100"
proof -
  have c: "cursorSignature ''pool'' (ab_model demoReferred) = None" "db_events (ab_model demoReferred) = []" by code_simp+
  have "servesHistory demoStalled demoHistory" by (simp add: servesHistory_def demoStalled_def demoChain_def)
  then have "collectBacklog demoStalled None None [] = Some (Inr demoHistory)"
    using collectBacklog_from[of demoStalled demoHistory None "[]" demoHistory None "[]"] by (simp add: demoHistory_def)
  then have "collectBacklog demoStalled (cursorSignature ''pool'' (ab_model demoReferred)) None []
      = Some (Inr ([hd demoHistory] @ [last demoHistory]))" by (simp add: c demoHistory_def)
  from stalled_tick_looks_fresh[OF this, of 100 demoDraw3] show ?thesis
    by (auto simp: demoStalled_def demoHistory_def c)
qed

end
