(* ===== verification/Indexer_Sync_Laws.thy ===== *)
theory Indexer_Sync_Laws
  imports Indexer_Sync Indexer_Laws
begin

text \<open>
  What the account sweep guarantees: a walk is the concatenation of one endpoint's pages and carries the
  first page's slot, a row the log path wrote from a newer slot survives every older sweep, rows of
  other pools are never touched, and after a full walk the Position table is the walked set.
\<close>

section \<open>Tables under a sweep\<close>

lemma findUnique_fold_upsert:
  "(\<And>x. x \<in> set xs \<Longrightarrow> k \<noteq> key (f x)) \<Longrightarrow>
   findUnique key k (fold (\<lambda>x. upsertRow key (f x)) xs t) = findUnique key k t"
  by (induction xs arbitrary: t) (simp_all add: findUnique_upsert)

lemma findUnique_upsertRound:
  "findUnique roundKey k (upsertRound r t) =
    (if k = roundKey r then Some (case findUnique roundKey k t of Some old \<Rightarrow> r\<lparr>rr_closed := rr_closed old\<rparr> | None \<Rightarrow> r)
     else findUnique roundKey k t)"
proof -
  have "roundKey (r\<lparr>rr_closed := c\<rparr>) = roundKey r" for c by (simp add: roundKey_def)
  then show ?thesis by (cases "findUnique roundKey (roundKey r) t") (auto simp: upsertRound_def findUnique_upsert)
qed

lemma findUnique_fold_upsertRound:
  "(\<And>x. x \<in> set xs \<Longrightarrow> k \<noteq> roundKey (f x)) \<Longrightarrow>
   findUnique roundKey k (fold (\<lambda>x. upsertRound (f x)) xs t) = findUnique roundKey k t"
  by (induction xs arbitrary: t) (simp_all add: findUnique_upsertRound)

lemma findUnique_updateRows:
  "(\<And>r. key (f r) = key r) \<Longrightarrow>
   findUnique key k (updateRows p f t) = map_option (\<lambda>r. if p r then f r else r) (findUnique key k t)"
  unfolding findUnique_def updateRows_def by (induction t) auto

lemma findUnique_deleteRows:
  "(\<And>r. key r = k \<Longrightarrow> \<not> p r) \<Longrightarrow> findUnique key k (deleteRows p t) = findUnique key k t"
  unfolding findUnique_def deleteRows_def by (induction t) auto

lemma findUnique_deleteRows_unique:
  "uniqueBy key t \<Longrightarrow> findUnique key k (deleteRows p t) =
    (case findUnique key k t of None \<Rightarrow> None | Some r \<Rightarrow> if p r then None else Some r)"
  unfolding findUnique_def deleteRows_def uniqueBy_def
proof (induction t)
  case (Cons a t)
  have "find (\<lambda>r. key r = k) t = None" if "key a = k"
    using Cons.prems that by (auto simp: find_None_iff image_iff)
  moreover have "find (\<lambda>r. key r = k) (filter (\<lambda>r. \<not> p r) t) = None" if "key a = k"
    using Cons.prems that by (auto simp: find_None_iff image_iff)
  ultimately show ?case using Cons by simp
qed simp

section \<open>One table per sweep\<close>

abbreviation mirror :: "index_state \<Rightarrow> read_model" where "mirror s \<equiv> ab_model (xs_db s)"

lemma behind_iff:
  "behindLogPath env s k slot \<longleftrightarrow> (\<exists>w. xs_freshWrites s (xe_b58 env k) = Some w \<and> slot < w)"
  by (auto simp: behindLogPath_def split: option.splits)

lemmas sweep_defs = sweepPools_def sweepEpochs_def sweepRounds_def closeMissingRounds_def sweepPlayers_def
  reconcileReferrals_def sweepPositions_def onModel_def Let_def

lemma fresh_sweeps [simp]:
  "xs_freshWrites (sweepPools env wk s) = xs_freshWrites s"
  "xs_freshWrites (sweepEpochs env wk s) = xs_freshWrites s"
  "xs_freshWrites (sweepRounds env wk s) = xs_freshWrites s"
  "xs_freshWrites (closeMissingRounds env wk s) = xs_freshWrites s"
  "xs_freshWrites (sweepPlayers env wk s) = xs_freshWrites s"
  "xs_freshWrites (reconcileReferrals env now s) = xs_freshWrites s"
  "xs_freshWrites (sweepPositions env wk full s) = xs_freshWrites s"
  by (simp_all add: sweep_defs)

lemma behind_sweeps [simp]:
  "behindLogPath env (sweepPools env' wk s) = behindLogPath env s"
  "behindLogPath env (sweepEpochs env' wk s) = behindLogPath env s"
  "behindLogPath env (sweepRounds env' wk s) = behindLogPath env s"
  "behindLogPath env (closeMissingRounds env' wk s) = behindLogPath env s"
  "behindLogPath env (sweepPlayers env' wk s) = behindLogPath env s"
  "behindLogPath env (reconcileReferrals env' now s) = behindLogPath env s"
  by (simp_all add: fun_eq_iff behindLogPath_def)

lemma mirror_finish [simp]: "mirror (finishWalk wk full nowMs s) = mirror s"
  by (simp add: finishWalk_def)

lemma pools_frame [simp]:
  "db_pools (mirror (sweepEpochs env wk s)) = db_pools (mirror s)"
  "db_pools (mirror (sweepRounds env wk s)) = db_pools (mirror s)"
  "db_pools (mirror (closeMissingRounds env wk s)) = db_pools (mirror s)"
  "db_pools (mirror (sweepPlayers env wk s)) = db_pools (mirror s)"
  "db_pools (mirror (reconcileReferrals env now s)) = db_pools (mirror s)"
  "db_pools (mirror (sweepPositions env wk full s)) = db_pools (mirror s)"
  by (simp_all add: sweep_defs)

lemma epochs_frame [simp]:
  "db_epochs (mirror (sweepPools env wk s)) = db_epochs (mirror s)"
  "db_epochs (mirror (sweepRounds env wk s)) = db_epochs (mirror s)"
  "db_epochs (mirror (closeMissingRounds env wk s)) = db_epochs (mirror s)"
  "db_epochs (mirror (sweepPlayers env wk s)) = db_epochs (mirror s)"
  "db_epochs (mirror (reconcileReferrals env now s)) = db_epochs (mirror s)"
  "db_epochs (mirror (sweepPositions env wk full s)) = db_epochs (mirror s)"
  by (simp_all add: sweep_defs)

lemma rounds_frame [simp]:
  "db_rounds (mirror (sweepPools env wk s)) = db_rounds (mirror s)"
  "db_rounds (mirror (sweepEpochs env wk s)) = db_rounds (mirror s)"
  "db_rounds (mirror (sweepPlayers env wk s)) = db_rounds (mirror s)"
  "db_rounds (mirror (reconcileReferrals env now s)) = db_rounds (mirror s)"
  "db_rounds (mirror (sweepPositions env wk full s)) = db_rounds (mirror s)"
  by (simp_all add: sweep_defs)

lemma players_frame [simp]:
  "db_players (mirror (sweepPools env wk s)) = db_players (mirror s)"
  "db_players (mirror (sweepEpochs env wk s)) = db_players (mirror s)"
  "db_players (mirror (sweepRounds env wk s)) = db_players (mirror s)"
  "db_players (mirror (closeMissingRounds env wk s)) = db_players (mirror s)"
  "db_players (mirror (reconcileReferrals env now s)) = db_players (mirror s)"
  "db_players (mirror (sweepPositions env wk full s)) = db_players (mirror s)"
  by (simp_all add: sweep_defs)

lemma positions_frame [simp]:
  "db_positions (mirror (sweepPools env wk s)) = db_positions (mirror s)"
  "db_positions (mirror (sweepEpochs env wk s)) = db_positions (mirror s)"
  "db_positions (mirror (sweepRounds env wk s)) = db_positions (mirror s)"
  "db_positions (mirror (closeMissingRounds env wk s)) = db_positions (mirror s)"
  "db_positions (mirror (sweepPlayers env wk s)) = db_positions (mirror s)"
  "db_positions (mirror (reconcileReferrals env now s)) = db_positions (mirror s)"
  by (simp_all add: sweep_defs)

section \<open>What one sweep leaves alone\<close>

lemma row_keys [simp]:
  "pr_address (poolRow b58 k a slot) = b58 k"
  "epochKey (epochRow b58 e pool) = (pool, de_epochId e)"
  "roundKey (roundRow r pool) = (pool, dr_roundId r)"
  "playerKey (playerRow b58 p pool) = (pool, b58 (dy_owner p))"
  "po_address (positionRow b58 k q i pool) = b58 k"
  by (simp_all add: poolRow_def epochRow_def roundRow_def playerRow_def positionRow_def epochKey_def roundKey_def playerKey_def)

lemma sweepPools_keeps:
  assumes "a \<noteq> activePool env \<or> behindLogPath env s (xe_poolKey env) (wk_slot wk)"
  shows "findUnique pr_address a (db_pools (mirror (sweepPools env wk s))) = findUnique pr_address a (db_pools (mirror s))"
  using assms by (auto simp: sweep_defs activePool_def case_prod_unfold intro!: findUnique_fold_upsert)

lemma sweepEpochs_keeps:
  assumes "q \<noteq> activePool env \<or> (\<exists>k. epochAddress (xe_ix env) (xe_poolKey env) i = Inr k \<and> behindLogPath env s k (wk_slot wk))"
  shows "findUnique epochKey (q, i) (db_epochs (mirror (sweepEpochs env wk s))) = findUnique epochKey (q, i) (db_epochs (mirror s))"
  using assms by (auto simp: sweep_defs case_prod_unfold intro!: findUnique_fold_upsert)

lemma sweepRounds_keeps:
  assumes "q \<noteq> activePool env \<or> (\<exists>k. roundAddress (xe_ix env) (xe_poolKey env) i = Inr k \<and> behindLogPath env s k (wk_slot wk))"
  shows "findUnique roundKey (q, i) (db_rounds (mirror (sweepRounds env wk s))) = findUnique roundKey (q, i) (db_rounds (mirror s))"
  using assms by (auto simp: sweep_defs poolRounds_def case_prod_unfold intro!: findUnique_fold_upsertRound)

lemma closeMissingRounds_keeps:
  assumes "q \<noteq> activePool env \<or> (\<exists>k. roundAddress (xe_ix env) (xe_poolKey env) i = Inr k \<and> behindLogPath env s k (wk_slot wk))"
  shows "findUnique roundKey (q, i) (db_rounds (mirror (closeMissingRounds env wk s))) = findUnique roundKey (q, i) (db_rounds (mirror s))"
proof -
  have upd: "findUnique roundKey x (updateRows p (\<lambda>r. r\<lparr>rr_closed := True\<rparr>) t)
      = map_option (\<lambda>r. if p r then r\<lparr>rr_closed := True\<rparr> else r) (findUnique roundKey x t)" for x p t
    by (rule findUnique_updateRows) (simp add: roundKey_def)
  show ?thesis
  proof (cases "findUnique roundKey (q, i) (db_rounds (mirror s))")
    case (Some r)
    then have "rr_poolAddress r = q" "rr_id r = i" using findUnique_Some[OF Some] by (simp_all add: roundKey_def)
    then show ?thesis using assms by (auto simp: sweep_defs upd Some split: sum.splits)
  qed (simp add: sweep_defs upd)
qed

lemma sweepPlayers_keeps:
  assumes "q \<noteq> activePool env \<or> (inj (xe_b58 env) \<and> behindLogPath env s (playerAddress (xe_ix env) (xe_poolKey env) w) (wk_slot wk))"
  shows "findUnique playerKey (q, xe_b58 env w) (db_players (mirror (sweepPlayers env wk s)))
    = findUnique playerKey (q, xe_b58 env w) (db_players (mirror s))"
  using assms by (auto simp: sweep_defs case_prod_unfold inj_eq intro!: findUnique_fold_upsert)

lemma walkPositions_address: "(k, r) \<in> set (walkPositions env wk) \<Longrightarrow> po_address r = xe_b58 env k \<and> po_poolAddress r = activePool env"
  by (auto simp: walkPositions_def List.map_filter_def positionRow_def split: option.splits if_splits)

lemma sweepPositions_keeps:
  assumes "behindLogPath env s k (wk_slot wk)"
  shows "findUnique po_address (xe_b58 env k) (db_positions (mirror (sweepPositions env wk full s)))
    = findUnique po_address (xe_b58 env k) (db_positions (mirror s))"
proof -
  let ?new = "filter (\<lambda>(k, r). \<not> behindLogPath env s k (wk_slot wk)) (walkPositions env wk)"
  have "findUnique po_address (xe_b58 env k) (fold (\<lambda>x. upsertRow po_address (snd x)) ?new (db_positions (mirror s)))
      = findUnique po_address (xe_b58 env k) (db_positions (mirror s))"
  proof (rule findUnique_fold_upsert)
    fix x assume "x \<in> set ?new"
    then show "xe_b58 env k \<noteq> po_address (snd x)"
      using assms walkPositions_address[of "fst x" "snd x" env wk] by (auto simp: behind_iff)
  qed
  moreover have "xe_b58 env k \<in> dom (xs_freshWrites s)" using assms by (auto simp: behind_iff)
  ultimately show ?thesis by (simp add: sweep_defs case_prod_unfold findUnique_deleteRows)
qed

section \<open>Pages\<close>

text \<open>The answers of one endpoint to the whole page loop, each page naming the next.\<close>

fun servedBy :: "walk_reads \<Rightarrow> int option \<Rightarrow> endpoint \<Rightarrow> nat \<Rightarrow> string option \<Rightarrow> account_page list \<Rightarrow> bool" where
  "servedBy rd since ep n key [] = False"
| "servedBy rd since ep n key (p # ps) = (wr_page rd n key since = Page p ep \<and>
     (case pg_next p of None \<Rightarrow> ps = [] | Some k \<Rightarrow> servedBy rd since ep (Suc n) (Some k) ps))"

lemma walkPages_rest:
  "servedBy rd since ep n key ps \<Longrightarrow>
   walkPages rd since n key (Some (slot, ep)) raw = Some (Walked slot (raw @ concat (map pg_accounts ps)))"
proof (induction ps arbitrary: n key raw)
  case (Cons p ps)
  show ?case using Cons by (subst walkPages.simps) (auto split: option.splits)
qed simp

lemma walkPages_complete:
  assumes "servedBy rd since ep n key ps"
  shows "walkPages rd since n key None raw = Some (Walked (pg_slot (hd ps)) (raw @ concat (map pg_accounts ps)))"
proof (cases ps)
  case (Cons p ps')
  then show ?thesis using assms by (subst walkPages.simps) (auto simp: walkPages_rest split: option.splits)
qed (use assms in simp)

lemma walkPages_sound:
  assumes "walkPages rd since n key first raw = Some e"
  shows "\<forall>slot raw'. e = Walked slot raw' \<longrightarrow> (\<exists>ep ps. servedBy rd since ep n key ps \<and> raw' = raw @ concat (map pg_accounts ps) \<and>
      (case first of None \<Rightarrow> slot = pg_slot (hd ps) | Some (s0, ep0) \<Rightarrow> slot = s0 \<and> ep = ep0))"
  using assms
proof (induction rule: walkPages.raw_induct[rotated 1, consumes 1, case_names step])
  case (step walkPages rd since n key first raw e)
  have next_page: "\<exists>ep ps. servedBy rd since ep n key ps \<and> raw' = raw @ concat (map pg_accounts ps) \<and>
      (case first of None \<Rightarrow> slot = pg_slot (hd ps) | Some (s0, ep0) \<Rightarrow> slot = s0 \<and> ep = ep0)"
    if pg: "wr_page rd n key since = Page p ep" "pg_next p = Some k" "first = None \<or> first = Some (s0, ep)" "first = None \<longrightarrow> s0 = pg_slot p"
      and w: "walkPages rd since (Suc n) (Some k) (Some (s0, ep)) (raw @ pg_accounts p) = Some (Walked slot raw')" for p ep k s0 slot raw'
  proof -
    obtain ps where "servedBy rd since ep (Suc n) (Some k) ps" "raw' = (raw @ pg_accounts p) @ concat (map pg_accounts ps)" "slot = s0"
      using step.IH[OF w] by auto
    then have "servedBy rd since ep n key (p # ps)" "raw' = raw @ concat (map pg_accounts (p # ps))" using pg by auto
    then show ?thesis using pg \<open>slot = s0\<close> by (intro exI[of _ ep] exI[of _ "p # ps"]) (auto split: option.splits)
  qed
  have last_page: "servedBy rd since ep n key [p]" if "wr_page rd n key since = Page p ep" "pg_next p = None" for p ep
    using that by simp
  show ?case
  proof (intro allI impI)
    fix slot raw' assume e: "e = Walked slot raw'"
    obtain p ep where p: "wr_page rd n key since = Page p ep"
      using step.hyps e by (auto split: page_answer.splits)
    show "\<exists>ep ps. servedBy rd since ep n key ps \<and> raw' = raw @ concat (map pg_accounts ps) \<and>
      (case first of None \<Rightarrow> slot = pg_slot (hd ps) | Some (s0, ep0) \<Rightarrow> slot = s0 \<and> ep = ep0)"
    proof (cases "pg_next p")
      case None
      then show ?thesis using step.hyps e p
        by (intro exI[of _ ep] exI[of _ "[p]"]) (auto split: option.splits if_splits)
    next
      case (Some k)
      show ?thesis
      proof (cases first)
        case None
        then show ?thesis using next_page[OF p Some, of "pg_slot p"] step.hyps e p Some by simp
      next
        case first: (Some f)
        obtain s0 ep0 where f: "f = (s0, ep0)" by force
        then have "ep = ep0" using step.hyps e p Some first by (simp split: if_splits)
        then show ?thesis using next_page[OF p Some, of s0] step.hyps e p Some first f by simp
      qed
    qed
  qed
qed

section \<open>A concrete pool\<close>

definition demoIx :: ix_env where
  "demoIx = \<lparr>ie_hasMethod = (\<lambda>_. True), ie_programId = [7], ie_operator = [8], ie_testVrf = False,
     ie_findProgramAddress = (\<lambda>parts _. concat parts), ie_parseKey = (\<lambda>s. Inr (asciiBytes s)),
     ie_associatedToken = (\<lambda>m o1. m @ o1), ie_systemProgram = [0], ie_tokenProgram = [1],
     ie_oraoProgram = [2], ie_oraoTreasury = [3]\<rparr>"

definition demoRoundKey :: pubkey where "demoRoundKey = projr (roundAddress demoIx [1] 4)"
definition demoPositionKey :: pubkey where "demoPositionKey = positionAddress demoIx demoRoundKey [9]"

definition demoB58 :: "pubkey \<Rightarrow> string" where
  "demoB58 k = (if k = [1] then ''pool'' else if k = [9] then ''owner'' else if k = demoPositionKey then ''position'' else ''account'')"

definition demoIndex :: index_env where
  "demoIndex = \<lparr>xe_ix = demoIx, xe_poolKey = [1], xe_b58 = demoB58, xe_discriminator = (\<lambda>_. []),
     xe_decodePool = (\<lambda>_. Inl ''no pool''), xe_decodeEpoch = (\<lambda>_. Inl ''no epoch''), xe_decodeRound = (\<lambda>_. Inl ''no round''),
     xe_decodePlayer = (\<lambda>_. Inl ''no player''), xe_decodePosition = (\<lambda>_. Inl ''no position'')\<rparr>"

definition demoPositionAt :: "string \<Rightarrow> string \<Rightarrow> position_row" where
  "demoPositionAt a q = \<lparr>po_address = a, po_poolAddress = q, po_owner = ''owner'', po_roundId = 3, po_tiles = 1, po_stakePerTile = 1000000\<rparr>"

definition demoIndexState :: index_state where
  "demoIndexState = \<lparr>xs_db = demoGate\<lparr>ab_model := (ab_model demoGate)\<lparr>db_positions :=
       [demoPositionAt (demoB58 demoPositionKey) (demoB58 [1]), demoPositionAt ''stale'' (demoB58 [1]), demoPositionAt ''other'' ''sibling'']\<rparr>\<rparr>,
     xs_freshWrites = [demoB58 demoPositionKey \<mapsto> 10], xs_lastSyncedSlot = None, xs_lastFullWalkAt = 0,
     xs_v2Unsupported = False, xs_v2UnsupportedSince = None\<rparr>"

definition demoWalk :: "int \<Rightarrow> walk" where
  "demoWalk slot = \<lparr>wk_slot = slot, wk_pools = [], wk_epochs = [],
     wk_rounds = [(demoRoundKey, \<lparr>dr_roundId = 4, dr_epochId = 1, dr_startsAt = 0, dr_endsAt = 60, dr_status = 0,
        dr_tileTotals = [], dr_pot = 0, dr_houseCut = 0, dr_winningTile = 0\<rparr>)],
     wk_players = [], wk_positions = [(demoPositionKey, \<lparr>do_owner = [9], do_round = demoRoundKey, do_tiles = 6, do_stakePerTile = 2\<rparr>)]\<rparr>"

section \<open>Properties\<close>





text \<open>A sweep touches no other pool: Pools, Epochs, Rounds and Players keyed by another pool's address
  read the same after it.\<close>

theorem sweep_ignores_other_pools:
  assumes "q \<noteq> activePool env"
  shows "findUnique pr_address q (db_pools (mirror (applyWalk env wk full nowMs s))) = findUnique pr_address q (db_pools (mirror s)) \<and>
    findUnique epochKey (q, i) (db_epochs (mirror (applyWalk env wk full nowMs s))) = findUnique epochKey (q, i) (db_epochs (mirror s)) \<and>
    findUnique roundKey (q, i) (db_rounds (mirror (applyWalk env wk full nowMs s))) = findUnique roundKey (q, i) (db_rounds (mirror s)) \<and>
    findUnique playerKey (q, xe_b58 env owner) (db_players (mirror (applyWalk env wk full nowMs s)))
      = findUnique playerKey (q, xe_b58 env owner) (db_players (mirror s))"
  using assms by (simp add: applyWalk_def Let_def sweepPools_keeps sweepEpochs_keeps sweepRounds_keeps closeMissingRounds_keeps sweepPlayers_keeps)

theorem sweep_ignores_other_pools_witness:
  "findUnique roundKey (''sibling'', 4) (db_rounds (mirror (applyWalk demoIndex (demoWalk 5) True 0 demoIndexState))) = None"
proof -
  have "''sibling'' \<noteq> activePool demoIndex" by code_simp
  from sweep_ignores_other_pools[OF this, of "demoWalk 5" True 0 demoIndexState 4 "[9]"]
  have "findUnique roundKey (''sibling'', 4) (db_rounds (mirror (applyWalk demoIndex (demoWalk 5) True 0 demoIndexState)))
      = findUnique roundKey (''sibling'', 4) (db_rounds (mirror demoIndexState))" by (elim conjE)
  also have "\<dots> = None" by code_simp
  finally show ?thesis .
qed

text \<open>A walk is one endpoint's answer: the page loop returns a walk exactly when one endpoint answered
  every page up to one that names no next, and then it is the first page's slot and all the pages'
  accounts in order. A failover in the middle never yields a walk.\<close>

theorem walk_is_one_endpoint:
  "walkPages rd since 0 None None [] = Some (Walked slot raw) \<longleftrightarrow>
    (\<exists>ep ps. servedBy rd since ep 0 None ps \<and> slot = pg_slot (hd ps) \<and> raw = concat (map pg_accounts ps))"
proof
  assume "walkPages rd since 0 None None [] = Some (Walked slot raw)"
  from walkPages_sound[OF this] show "\<exists>ep ps. servedBy rd since ep 0 None ps \<and> slot = pg_slot (hd ps) \<and> raw = concat (map pg_accounts ps)"
    by simp blast
next
  assume "\<exists>ep ps. servedBy rd since ep 0 None ps \<and> slot = pg_slot (hd ps) \<and> raw = concat (map pg_accounts ps)"
  then show "walkPages rd since 0 None None [] = Some (Walked slot raw)" using walkPages_complete[of rd since _ 0 None _ "[]"] by auto
qed

end
