(* ===== verification/Indexer_Jobs.thy ===== *)
theory Indexer_Jobs
  imports Hexo_Prelude
begin

text \<open>
  How the indexer's work is scheduled (\<open>indexer/indexer.service.ts\<close>): the tick that never overlaps itself, the
  account sync one walk at a time, the queue that makes the log subscriptions and the catch-up one writer, and the
  failure and socket lines of its log. What a walk or a task does to the database is the matter of \<open>Indexer\<close> and
  \<open>Indexer_Sync\<close>; here each is a step that ends well or with an error, at any time and in any interleaving.

  \<open>jb_at\<close> is where the tick awaits. \<open>jb_asked\<close>, \<open>jb_done\<close> and \<open>jb_walks\<close> record the run and decide nothing.
\<close>

section \<open>State\<close>

datatype task = Refresh nat | Live nat | Backlog

datatype awaiting = NotTicking | AtSync | AtPages | AtBacklog | AtStamp

datatype index_line = Failure string | Recovered | SocketLine string | SocketUnwatched

record jobs =
  jb_timer :: bool
  jb_subscribed :: bool
  jb_ticking :: bool
  jb_at :: awaiting
  jb_syncing :: bool
  jb_syncAgain :: bool
  jb_queue :: "task list"
  jb_lastFailure :: "string option"
  jb_socketState :: string
  jb_lines :: "index_line list"
  jb_asked :: "task list"
  jb_done :: "task list"
  jb_walks :: nat

section \<open>The log\<close>

definition noteFailure :: "string \<Rightarrow> string option \<Rightarrow> jobs \<Rightarrow> jobs" where
  "noteFailure scope error s =
    (let line = (case error of None \<Rightarrow> scope | Some message \<Rightarrow> scope @ '': '' @ message)
     in if jb_lastFailure s = Some line then s
        else s\<lparr>jb_lastFailure := Some line, jb_lines := jb_lines s @ [Failure line]\<rparr>)"

definition noteRecovery :: "jobs \<Rightarrow> jobs" where
  "noteRecovery s =
    (if jb_lastFailure s = None then s else s\<lparr>jb_lastFailure := None, jb_lines := jb_lines s @ [Recovered]\<rparr>)"

definition noteSocketState :: "string \<Rightarrow> jobs \<Rightarrow> jobs" where
  "noteSocketState state s =
    (if state = jb_socketState s then s else s\<lparr>jb_socketState := state, jb_lines := jb_lines s @ [SocketLine state]\<rparr>)"

text \<open>The states a socket event is noted as; without a handle on the socket, one warning and no events.\<close>

datatype socket_event = SocketOpen | SocketClose | SocketError

fun socketText :: "socket_event \<Rightarrow> string" where
  "socketText SocketOpen = ''connected''"
| "socketText SocketClose = ''disconnected, web3.js is reconnecting''"
| "socketText SocketError = ''errored, web3.js is reconnecting''"

section \<open>The queue and the walks\<close>

definition enqueue :: "task \<Rightarrow> jobs \<Rightarrow> jobs" where
  "enqueue t s = s\<lparr>jb_queue := jb_queue s @ [t], jb_asked := jb_asked s @ [t]\<rparr>"

definition startWalk :: "jobs \<Rightarrow> jobs" where
  "startWalk s = s\<lparr>jb_syncing := True, jb_syncAgain := False, jb_walks := jb_walks s + 1\<rparr>"

definition requestSync :: "jobs \<Rightarrow> jobs" where
  "requestSync s = (if jb_syncing s then s\<lparr>jb_syncAgain := True\<rparr> else startWalk s)"

section \<open>The tick\<close>

definition indexerTick :: "jobs \<Rightarrow> jobs" where
  "indexerTick s = (if jb_ticking s then s else requestSync (s\<lparr>jb_ticking := True, jb_at := AtSync\<rparr>))"

definition tickEnds :: "unit res \<Rightarrow> jobs \<Rightarrow> jobs" where
  "tickEnds r s =
    (case r of Inl e \<Rightarrow> noteFailure ''indexer tick failed'' (Some e) s | Inr _ \<Rightarrow> noteRecovery s)
      \<lparr>jb_ticking := False, jb_at := NotTicking\<rparr>"

text \<open>The walk in flight returns: an error ends the sync and the tick; otherwise the loop goes round when somebody
  asked meanwhile.\<close>

definition walkEnds :: "unit res \<Rightarrow> jobs \<Rightarrow> jobs" where
  "walkEnds r s =
    (case r of
       Inl e \<Rightarrow> tickEnds (Inl e) (s\<lparr>jb_syncing := False\<rparr>)
     | Inr _ \<Rightarrow> if jb_syncAgain s then startWalk s else s\<lparr>jb_syncing := False, jb_at := AtPages\<rparr>)"

text \<open>The catch-up has read the cursor and every page of signatures, and queues the whole backlog as one task.\<close>

definition pagesEnd :: "unit res \<Rightarrow> jobs \<Rightarrow> jobs" where
  "pagesEnd r s = (case r of Inl e \<Rightarrow> tickEnds (Inl e) s | Inr _ \<Rightarrow> enqueue Backlog (s\<lparr>jb_at := AtBacklog\<rparr>))"

text \<open>The task at the head of the queue settles. \<open>missing\<close> is the signature whose finalized logs the backlog could not
  read, which stops the backlog without an error.\<close>

definition taskEnds :: "string option \<Rightarrow> unit res \<Rightarrow> jobs \<Rightarrow> jobs" where
  "taskEnds missing r s =
    (case jb_queue s of
       [] \<Rightarrow> s
     | t # rest \<Rightarrow>
         (let s1 = s\<lparr>jb_queue := rest, jb_done := jb_done s @ [t]\<rparr> in
          case t of
            Refresh _ \<Rightarrow> (case r of Inl e \<Rightarrow> noteFailure ''log-triggered refresh failed'' (Some e) s1 | Inr _ \<Rightarrow> s1)
          | Live _ \<Rightarrow> (case r of Inl e \<Rightarrow> noteFailure ''live log ingest failed'' (Some e) s1 | Inr _ \<Rightarrow> s1)
          | Backlog \<Rightarrow>
              (case r of
                 Inl e \<Rightarrow> tickEnds (Inl e) s1
               | Inr _ \<Rightarrow>
                   (case missing of None \<Rightarrow> s1 | Some sig \<Rightarrow> noteFailure (''no finalized logs yet for '' @ sig) None s1)
                     \<lparr>jb_at := AtStamp\<rparr>)))"

text \<open>The cursor's freshness stamp is written, and the tick is over.\<close>

definition stampEnds :: "unit res \<Rightarrow> jobs \<Rightarrow> jobs" where
  "stampEnds r s = tickEnds r s"

section \<open>Subscriptions, start and stop\<close>

definition onSyncLogs :: "bool \<Rightarrow> nat \<Rightarrow> jobs \<Rightarrow> jobs" where
  "onSyncLogs err slot s = (if err then s else enqueue (Refresh slot) s)"

definition onLiveLogs :: "bool \<Rightarrow> nat \<Rightarrow> jobs \<Rightarrow> jobs" where
  "onLiveLogs err slot s = (if err then s else enqueue (Live slot) s)"

definition freshJobs :: jobs where
  "freshJobs = \<lparr>jb_timer = False, jb_subscribed = False, jb_ticking = False, jb_at = NotTicking, jb_syncing = False,
     jb_syncAgain = False, jb_queue = [], jb_lastFailure = None, jb_socketState = ''connected'', jb_lines = [],
     jb_asked = [], jb_done = [], jb_walks = 0\<rparr>"

definition watchSocket :: "bool \<Rightarrow> jobs \<Rightarrow> jobs" where
  "watchSocket handle s = (if handle then s else s\<lparr>jb_lines := jb_lines s @ [SocketUnwatched]\<rparr>)"

definition onModuleInit :: "bool \<Rightarrow> jobs" where
  "onModuleInit handle = (indexerTick ((watchSocket handle freshJobs)\<lparr>jb_subscribed := True\<rparr>))\<lparr>jb_timer := True\<rparr>"

definition onModuleDestroy :: "jobs \<Rightarrow> jobs" where
  "onModuleDestroy s = s\<lparr>jb_timer := False, jb_subscribed := False\<rparr>"

section \<open>Runs\<close>

text \<open>Something the indexer waits for answers.\<close>

inductive job_answer :: "jobs \<Rightarrow> jobs \<Rightarrow> bool" where
  walked: "jb_syncing s \<Longrightarrow> job_answer s (walkEnds r s)"
| paged: "jb_at s = AtPages \<Longrightarrow> job_answer s (pagesEnd r s)"
| settled: "jb_queue s \<noteq> [] \<Longrightarrow> job_answer s (taskEnds missing r s)"
| stamped: "jb_at s = AtStamp \<Longrightarrow> job_answer s (stampEnds r s)"

inductive job_step :: "jobs \<Rightarrow> jobs \<Rightarrow> bool" where
  answered: "job_answer s s' \<Longrightarrow> job_step s s'"
| fired: "jb_timer s \<Longrightarrow> job_step s (indexerTick s)"
| refreshed: "jb_subscribed s \<Longrightarrow> job_step s (onSyncLogs err slot s)"
| finalized: "jb_subscribed s \<Longrightarrow> job_step s (onLiveLogs err slot s)"
| socket: "job_step s (noteSocketState (socketText ev) s)"
| destroyed: "job_step s (onModuleDestroy s)"

inductive job_reach :: "jobs \<Rightarrow> bool" where
  boot: "job_reach (onModuleInit handle)"
| step: "job_reach s \<Longrightarrow> job_step s s' \<Longrightarrow> job_reach s'"

inductive_cases job_answerE: "job_answer s s'"
inductive_cases job_stepE: "job_step s s'"

section \<open>Invariant\<close>

definition spoken :: "index_line list \<Rightarrow> index_line list" where
  "spoken = filter (\<lambda>l. case l of Failure _ \<Rightarrow> True | Recovered \<Rightarrow> True | _ \<Rightarrow> False)"

definition socketLines :: "index_line list \<Rightarrow> string list" where
  "socketLines ls = List.map_filter (\<lambda>l. case l of SocketLine t \<Rightarrow> Some t | _ \<Rightarrow> None) ls"

text \<open>Reading \<open>Recovered\<close> as the state before the first line, no line repeats the one before it, and the last one is the
  state the indexer is in.\<close>

definition linesOk :: "jobs \<Rightarrow> bool" where
  "linesOk s \<longleftrightarrow>
    distinct_adj (Recovered # spoken (jb_lines s)) \<and>
    last (Recovered # spoken (jb_lines s)) = (case jb_lastFailure s of None \<Rightarrow> Recovered | Some l \<Rightarrow> Failure l) \<and>
    distinct_adj (''connected'' # socketLines (jb_lines s)) \<and> last (''connected'' # socketLines (jb_lines s)) = jb_socketState s"

definition tickOk :: "jobs \<Rightarrow> bool" where
  "tickOk s \<longleftrightarrow>
    (jb_ticking s \<longleftrightarrow> jb_at s \<noteq> NotTicking) \<and> (jb_syncing s \<longleftrightarrow> jb_at s = AtSync) \<and> \<not> jb_syncAgain s \<and>
    count_list (jb_queue s) Backlog = (if jb_at s = AtBacklog then 1 else 0) \<and>
    jb_asked s = jb_done s @ jb_queue s"

lemma spoken_simps [simp]:
  "spoken [] = []" "spoken (a @ b) = spoken a @ spoken b" "spoken [Failure l] = [Failure l]" "spoken [Recovered] = [Recovered]"
  "spoken [SocketLine t] = []" "spoken [SocketUnwatched] = []"
  by (simp_all add: spoken_def)

lemma socketLines_simps [simp]:
  "socketLines [] = []" "socketLines (a @ b) = socketLines a @ socketLines b" "socketLines [Failure l] = []"
  "socketLines [Recovered] = []" "socketLines [SocketLine t] = [t]" "socketLines [SocketUnwatched] = []"
  by (simp_all add: socketLines_def map_filter_def)

lemma distinct_adj_snoc: "distinct_adj (x # xs) \<Longrightarrow> last (x # xs) \<noteq> y \<Longrightarrow> distinct_adj (x # xs @ [y])"
  using distinct_adj_append_iff[of "x # xs" "[y]"] by simp

lemma linesOk_noteFailure: "linesOk s \<Longrightarrow> linesOk (noteFailure scope e s)"
  by (auto simp: linesOk_def noteFailure_def Let_def intro!: distinct_adj_snoc split: option.splits)

lemma linesOk_noteRecovery: "linesOk s \<Longrightarrow> linesOk (noteRecovery s)"
  by (auto simp: linesOk_def noteRecovery_def intro!: distinct_adj_snoc split: option.splits)

lemma linesOk_noteSocketState: "linesOk s \<Longrightarrow> linesOk (noteSocketState t s)"
  by (auto simp: linesOk_def noteSocketState_def intro!: distinct_adj_snoc)

lemma linesOk_frame [simp]:
  "linesOk (s\<lparr>jb_timer := b\<rparr>) = linesOk s" "linesOk (s\<lparr>jb_subscribed := b\<rparr>) = linesOk s" "linesOk (s\<lparr>jb_ticking := b\<rparr>) = linesOk s"
  "linesOk (s\<lparr>jb_at := a\<rparr>) = linesOk s" "linesOk (s\<lparr>jb_syncing := b\<rparr>) = linesOk s" "linesOk (s\<lparr>jb_syncAgain := b\<rparr>) = linesOk s"
  "linesOk (s\<lparr>jb_queue := ts\<rparr>) = linesOk s" "linesOk (s\<lparr>jb_asked := ts\<rparr>) = linesOk s" "linesOk (s\<lparr>jb_done := ts\<rparr>) = linesOk s"
  "linesOk (s\<lparr>jb_walks := n\<rparr>) = linesOk s"
  by (simp_all add: linesOk_def)

lemma linesOk_steps [simp]: "linesOk (enqueue t s) = linesOk s" "linesOk (startWalk s) = linesOk s" "linesOk (requestSync s) = linesOk s"
  by (simp_all add: enqueue_def startWalk_def requestSync_def)

lemma note_frame [simp]:
  "jb_timer (noteFailure sc e s) = jb_timer s" "jb_timer (noteRecovery s) = jb_timer s"
  "jb_ticking (noteFailure sc e s) = jb_ticking s" "jb_ticking (noteRecovery s) = jb_ticking s" "jb_ticking (noteSocketState t s) = jb_ticking s"
  "jb_at (noteFailure sc e s) = jb_at s" "jb_at (noteRecovery s) = jb_at s" "jb_at (noteSocketState t s) = jb_at s"
  "jb_syncing (noteFailure sc e s) = jb_syncing s" "jb_syncing (noteRecovery s) = jb_syncing s" "jb_syncing (noteSocketState t s) = jb_syncing s"
  "jb_syncAgain (noteFailure sc e s) = jb_syncAgain s" "jb_syncAgain (noteRecovery s) = jb_syncAgain s" "jb_syncAgain (noteSocketState t s) = jb_syncAgain s"
  "jb_queue (noteFailure sc e s) = jb_queue s" "jb_queue (noteRecovery s) = jb_queue s" "jb_queue (noteSocketState t s) = jb_queue s"
  "jb_asked (noteFailure sc e s) = jb_asked s" "jb_asked (noteRecovery s) = jb_asked s" "jb_asked (noteSocketState t s) = jb_asked s"
  "jb_done (noteFailure sc e s) = jb_done s" "jb_done (noteRecovery s) = jb_done s" "jb_done (noteSocketState t s) = jb_done s"
  by (simp_all add: noteFailure_def noteRecovery_def noteSocketState_def Let_def)

lemma tickEnds_frame [simp]:
  "jb_ticking (tickEnds r s) = False" "jb_at (tickEnds r s) = NotTicking" "jb_syncing (tickEnds r s) = jb_syncing s"
  "jb_syncAgain (tickEnds r s) = jb_syncAgain s" "jb_queue (tickEnds r s) = jb_queue s" "jb_asked (tickEnds r s) = jb_asked s"
  "jb_done (tickEnds r s) = jb_done s"
  by (simp_all add: tickEnds_def split: sum.splits)

lemma linesOk_tickEnds: "linesOk s \<Longrightarrow> linesOk (tickEnds r s)"
  using linesOk_noteFailure[of s "''indexer tick failed''"] linesOk_noteRecovery[of s]
  by (cases r) (simp_all add: tickEnds_def)

lemma linesOk_taskEnds: "linesOk s \<Longrightarrow> linesOk (taskEnds missing r s)"
proof (cases "jb_queue s")
  case (Cons t rest)
  let ?s = "s\<lparr>jb_queue := rest, jb_done := jb_done s @ [t]\<rparr>"
  assume "linesOk s"
  then have ok: "linesOk ?s" by simp
  show ?thesis
    using ok linesOk_noteFailure[OF ok] linesOk_tickEnds[OF ok]
    by (auto simp: taskEnds_def Cons Let_def split: task.splits sum.splits option.splits)
qed (simp add: taskEnds_def)

lemma job_answer_ok:
  assumes "tickOk s" "linesOk s" "job_answer s s'"
  shows "tickOk s' \<and> linesOk s'"
  using assms(3)
proof cases
  case (walked r)
  have "linesOk s'" using walked(1) linesOk_tickEnds assms(2) by (cases r) (simp_all add: walkEnds_def)
  moreover have "tickOk s'" using walked assms(1) by (cases r) (auto simp: walkEnds_def tickOk_def)
  ultimately show ?thesis by blast
next
  case (paged r)
  then have "linesOk s'" using linesOk_tickEnds[OF assms(2)] assms(2) by (cases r) (simp_all add: pagesEnd_def)
  moreover have "tickOk s'" using paged assms(1) by (cases r) (auto simp: pagesEnd_def enqueue_def tickOk_def)
  ultimately show ?thesis by blast
next
  case (settled missing r)
  obtain t rest where q: "jb_queue s = t # rest" using settled(2) by (cases "jb_queue s") auto
  have "tickOk s'" using assms(1) settled(1) q
    by (cases t; cases r) (auto simp: taskEnds_def tickOk_def Let_def split: option.splits if_splits)
  then show ?thesis using linesOk_taskEnds[OF assms(2)] settled(1) by simp
next
  case (stamped r)
  then show ?thesis using assms(1) linesOk_tickEnds[OF assms(2)] by (auto simp: stampEnds_def tickOk_def)
qed

lemma indexerTick_ok: "tickOk s \<Longrightarrow> linesOk s \<Longrightarrow> tickOk (indexerTick s) \<and> linesOk (indexerTick s)"
  by (auto simp: indexerTick_def requestSync_def startWalk_def tickOk_def)

lemma job_step_ok:
  assumes "tickOk s" "linesOk s" "job_step s s'"
  shows "tickOk s' \<and> linesOk s'"
  using assms(3)
proof cases
  case answered
  then show ?thesis using job_answer_ok[OF assms(1,2)] by blast
next
  case fired
  then show ?thesis using indexerTick_ok[OF assms(1,2)] by blast
next
  case (refreshed err slot)
  then show ?thesis using assms(1,2) by (auto simp: onSyncLogs_def enqueue_def tickOk_def)
next
  case (finalized err slot)
  then show ?thesis using assms(1,2) by (auto simp: onLiveLogs_def enqueue_def tickOk_def)
next
  case (socket ev)
  then show ?thesis using assms(1) linesOk_noteSocketState[OF assms(2)] by (simp add: tickOk_def)
next
  case destroyed
  then show ?thesis using assms(1,2) by (simp add: onModuleDestroy_def tickOk_def)
qed

lemma boot_ok: "tickOk (onModuleInit handle) \<and> linesOk (onModuleInit handle)"
  by (auto simp: onModuleInit_def watchSocket_def freshJobs_def indexerTick_def requestSync_def startWalk_def tickOk_def linesOk_def)

lemma job_reach_ok: "job_reach s \<Longrightarrow> tickOk s \<and> linesOk s"
proof (induction rule: job_reach.induct)
  case (boot handle)
  show ?case by (rule boot_ok)
next
  case (step s s')
  then show ?case using job_step_ok by blast
qed

section \<open>Progress\<close>

fun awaits :: "awaiting \<Rightarrow> nat" where
  "awaits NotTicking = 0"
| "awaits AtSync = 5"
| "awaits AtPages = 4"
| "awaits AtBacklog = 2"
| "awaits AtStamp = 1"

definition workLeft :: "jobs \<Rightarrow> nat" where
  "workLeft s = awaits (jb_at s) + length (jb_queue s)"

lemma job_answer_works:
  assumes "tickOk s" "job_answer s s'"
  shows "workLeft s' < workLeft s"
  using assms(2)
proof cases
  case (walked r)
  then show ?thesis using assms(1) by (cases r) (auto simp: walkEnds_def workLeft_def tickOk_def)
next
  case (paged r)
  then show ?thesis by (cases r) (auto simp: pagesEnd_def enqueue_def workLeft_def)
next
  case (settled missing r)
  obtain t rest where q: "jb_queue s = t # rest" using settled(2) by (cases "jb_queue s") auto
  have "t = Backlog \<Longrightarrow> jb_at s = AtBacklog" using assms(1) q by (auto simp: tickOk_def split: if_splits)
  then show ?thesis using settled(1) q
    by (cases t; cases r) (auto simp: taskEnds_def workLeft_def Let_def split: option.splits)
next
  case (stamped r)
  then show ?thesis by (auto simp: stampEnds_def workLeft_def)
qed

lemma idle_when_nothing_answers:
  assumes "tickOk s" "\<nexists>s'. job_answer s s'"
  shows "\<not> jb_ticking s \<and> jb_queue s = [] \<and> jb_done s = jb_asked s"
proof -
  have q: "jb_queue s = []" using assms(2) job_answer.settled by blast
  have "jb_at s \<noteq> AtSync" using assms(1,2) job_answer.walked unfolding tickOk_def by blast
  moreover have "jb_at s \<noteq> AtPages" "jb_at s \<noteq> AtStamp" using assms(2) job_answer.paged job_answer.stamped by blast+
  moreover have "jb_at s \<noteq> AtBacklog" using assms(1) q by (auto simp: tickOk_def)
  ultimately have "jb_at s = NotTicking" by (cases "jb_at s") auto
  then show ?thesis using assms(1) q by (auto simp: tickOk_def)
qed

section \<open>Properties\<close>

text \<open>Whatever arrives and however it interleaves: ticks never overlap and never queue, one backlog at most waits for the
  writer, tasks run one at a time in the order they were asked for, none lost and none twice even when some fail, and
  no second walk is ever asked for while one is in flight.\<close>

theorem indexer_has_one_writer:
  assumes "job_reach s"
  shows "jb_asked s = jb_done s @ jb_queue s \<and> count_list (jb_queue s) Backlog \<le> 1 \<and>
    (jb_syncing s \<longrightarrow> jb_ticking s) \<and> \<not> jb_syncAgain s"
  using job_reach_ok[OF assms] by (auto simp: tickOk_def)

definition demoJobs :: jobs where
  "demoJobs = onSyncLogs False 7 (pagesEnd (Inr ()) (walkEnds (Inr ()) (onLiveLogs False 3 (onModuleInit True))))"

lemma demoJobs_reach: "job_reach demoJobs"
proof -
  have "job_reach (onLiveLogs False 3 (onModuleInit True))"
    by (rule job_reach.step[OF job_reach.boot[of True] job_step.finalized]) code_simp
  then have "job_reach (walkEnds (Inr ()) (onLiveLogs False 3 (onModuleInit True)))"
    by (rule job_reach.step) (intro job_step.answered job_answer.walked, code_simp)
  then have "job_reach (pagesEnd (Inr ()) (walkEnds (Inr ()) (onLiveLogs False 3 (onModuleInit True))))"
    by (rule job_reach.step) (intro job_step.answered job_answer.paged, code_simp)
  then show ?thesis unfolding demoJobs_def
    by (rule job_reach.step) (intro job_step.refreshed, code_simp)
qed

theorem indexer_has_one_writer_witness:
  "jb_asked demoJobs = [Live 3, Backlog, Refresh 7] \<and> jb_asked demoJobs = jb_done demoJobs @ jb_queue demoJobs"
  using indexer_has_one_writer[OF demoJobs_reach] by (simp, code_simp)

text \<open>The log says each thing once: no failure line repeats the failure before it, a recovery follows a failure, and a
  socket line is a change of the socket's state.\<close>

theorem log_says_each_thing_once:
  assumes "job_reach s"
  shows "distinct_adj (Recovered # spoken (jb_lines s)) \<and> distinct_adj (''connected'' # socketLines (jb_lines s))"
  using job_reach_ok[OF assms] by (simp add: linesOk_def)

theorem log_says_each_thing_once_witness: "distinct_adj (Recovered # spoken (jb_lines demoJobs))"
  using log_says_each_thing_once[OF demoJobs_reach] by blast

text \<open>Once no more logs arrive, a bounded number of answers, good or bad, ends the tick and empties the queue: every task
  that was asked for has then run.\<close>

theorem indexer_comes_to_rest:
  assumes "job_reach s" "(job_answer ^^ n) s s'"
  shows "n \<le> workLeft s \<and> ((\<nexists>s''. job_answer s' s'') \<longrightarrow> \<not> jb_ticking s' \<and> jb_queue s' = [] \<and> jb_done s' = jb_asked s')"
proof -
  have "n + workLeft s' \<le> workLeft s \<and> tickOk s' \<and> linesOk s'" using assms(2)
  proof (induction n arbitrary: s')
    case 0
    then show ?case using job_reach_ok[OF assms(1)] by simp
  next
    case (Suc n)
    then obtain u where u: "(job_answer ^^ n) s u" "job_answer u s'" by auto
    then show ?case using Suc.IH[OF u(1)] job_answer_ok[OF _ _ u(2)] job_answer_works[OF _ u(2)] by fastforce
  qed
  then show ?thesis using idle_when_nothing_answers[of s'] by simp
qed

theorem indexer_comes_to_rest_witness: "1 \<le> workLeft demoJobs"
proof -
  have "jb_queue demoJobs \<noteq> []" by code_simp
  then have "(job_answer ^^ 1) demoJobs (taskEnds None (Inr ()) demoJobs)" by (subst relpowp_1) (rule job_answer.settled)
  from indexer_comes_to_rest[OF demoJobs_reach this] show ?thesis by blast
qed

text \<open>A tick whose backlog stops at a transaction it cannot read still ends with the line that says the indexer has
  recovered, though it stands where it stood.\<close>

lemma stalled_tick_says_recovered:
  assumes "jb_queue s = Backlog # rest" "jb_lastFailure s = None"
  shows "jb_lines (stampEnds (Inr ()) (taskEnds (Some sig) (Inr ()) s)) =
    jb_lines s @ [Failure (''no finalized logs yet for '' @ sig), Recovered]"
  using assms by (simp add: taskEnds_def stampEnds_def tickEnds_def noteFailure_def noteRecovery_def Let_def)

end
