(* ===== verification/Api.thy ===== *)
theory Api
  imports Operator_Service Access Rpc_Fallback Complex_Main
begin

text \<open>
  The read API (\<open>api/api.service.ts\<close>, \<open>api/api.controller.ts\<close>): Weight and odds, the served chain
  time, the cached chain reads, and the routes' answers, all from the Read model of the Active pool.

  A request is one step: it takes one reading of the wall clock and one answer per chain read it may
  make (\<open>api_reads\<close>), and returns its answer with the service's new state. A cached read keeps its
  settled result. SOL balances are exact quotients of lamports. Rows carry \<open>Decimal\<close> columns as
  integers; a \<open>Date\<close> is its milliseconds.
\<close>

section \<open>Figures\<close>

definition FEED_NAMES :: "string list" where
  "FEED_NAMES = [''Deposited'', ''Withdrawn'', ''PositionBought'', ''RoundSettled'', ''JackpotPaid'', ''EpochRolledOver'']"

definition RPC_PROBE_TTL_MS :: int where "RPC_PROBE_TTL_MS = 300000"
definition CHAIN_CLOCK_TTL_MS :: int where "CHAIN_CLOCK_TTL_MS = 30000"
definition JACKPOT_BALANCE_TTL_MS :: int where "JACKPOT_BALANCE_TTL_MS = 15000"
definition BALANCES_TTL_MS :: int where "BALANCES_TTL_MS = 15000"

definition weightAt :: "player_row \<Rightarrow> int \<Rightarrow> int \<Rightarrow> int \<Rightarrow> int" where
  "weightAt player epochId epochStart instant =
    (if py_frozenEpoch player = epochId then py_frozenWeight player
     else if py_epochId player = epochId then
       (let elapsed = instant - py_lastUpdate player
        in if elapsed \<le> 0 then py_weightAcc player else py_weightAcc player + py_entries player * elapsed)
     else if py_epochId player < epochId then
       (let elapsed = instant - epochStart in if elapsed \<le> 0 then 0 else py_principal player * elapsed)
     else 0)"

definition ifCurrentEpoch :: "int \<Rightarrow> int \<Rightarrow> int \<Rightarrow> int" where
  "ifCurrentEpoch counterEpoch currentEpochId value = (if counterEpoch = currentEpochId then value else 0)"

definition oneDayYieldCost :: "int \<Rightarrow> int \<Rightarrow> int" where
  "oneDayYieldCost totalPrincipal baseRateBps = bigDiv (totalPrincipal * baseRateBps) (10000 * 365)"

definition poolBonusCap :: "int \<Rightarrow> int \<Rightarrow> int" where
  "poolBonusCap totalPrincipal bonusCapBps = bigDiv (totalPrincipal * bonusCapBps) 10000"

definition principalOut :: "int \<Rightarrow> int \<Rightarrow> int \<Rightarrow> int \<Rightarrow> int" where
  "principalOut totalPrincipal pendingWithdrawals yieldBudget vaultAmount =
    (let owed = totalPrincipal + pendingWithdrawals + yieldBudget
     in if owed > vaultAmount then owed - vaultAmount else 0)"

definition padStart2 :: "string \<Rightarrow> string" where
  "padStart2 s = replicate (2 - length s) (CHR ''0'') @ s"

definition oddsPercent :: "int \<Rightarrow> int \<Rightarrow> string" where
  "oddsPercent weight whole =
    (if whole \<le> 0 \<or> weight \<le> 0 then ''0.00''
     else let basisPoints = bigDiv (weight * 10000) whole
          in showInt (bigDiv basisPoints 100) @ ''.'' @ padStart2 (showInt (basisPoints smod 100)))"

definition isLetter :: "char \<Rightarrow> bool" where
  "isLetter c = (let v = of_char c :: nat in 65 \<le> v \<and> v \<le> 90 \<or> 97 \<le> v \<and> v \<le> 122)"

definition operatorErrorCode :: "string option \<Rightarrow> string option" where
  "operatorErrorCode message =
    (case message of None \<Rightarrow> None
     | Some m \<Rightarrow> if m \<noteq> [] \<and> list_all isLetter m then Some m else Some ''OPERATOR_TICK_FAILED'')"

section \<open>Weights\<close>

record live_weight =
  lw_player :: player_row
  lw_liveWeight :: int
  lw_drawWeight :: int

definition weightsFrom :: "player_row list \<Rightarrow> epoch_row \<Rightarrow> int \<Rightarrow> live_weight list \<times> int" where
  "weightsFrom players epoch instant =
    (let weights = map (\<lambda>p. \<lparr>lw_player = p, lw_liveWeight = weightAt p (er_id epoch) (er_startsAt epoch) instant,
                            lw_drawWeight = weightAt p (er_id epoch) (er_startsAt epoch) (er_endsAt epoch)\<rparr>) players
     in (weights, sum_list (map lw_drawWeight weights)))"

record player_dto = player_row +
  pd_liveWeight :: int
  pd_odds :: string

definition playerDto :: "live_weight \<Rightarrow> int \<Rightarrow> player_dto" where
  "playerDto entry whole =
    player_row.extend (lw_player entry)
      (player_dto.fields (lw_liveWeight entry) (oddsPercent (lw_drawWeight entry) whole))"

record ticket_extras =
  te_boughtToday :: int
  te_buyAllowanceLeft :: int
  te_grantedToday :: int

definition playerTicketExtras :: "player_row \<Rightarrow> int \<Rightarrow> ticket_extras" where
  "playerTicketExtras player currentEpochId =
    (let boughtToday = ifCurrentEpoch (py_boughtEpoch player) currentEpochId (py_boughtAmount player)
     in \<lparr>te_boughtToday = boughtToday,
         te_buyAllowanceLeft = (if py_principal player > boughtToday then py_principal player - boughtToday else 0),
         te_grantedToday = ifCurrentEpoch (py_bonusEpoch player) currentEpochId (py_bonusGranted player)\<rparr>)"

record drawing_progress =
  dp_epoch :: int
  dp_registeredCount :: int
  dp_eligible :: nat
  dp_status :: int

definition isDrawing :: "epoch_row \<Rightarrow> bool" where
  "isDrawing e = (er_status e = EPOCH_REGISTERING \<or> er_status e = EPOCH_DRAWING)"

definition drawingProgressFrom :: "epoch_row option \<Rightarrow> player_row list \<Rightarrow> drawing_progress option" where
  "drawingProgressFrom previous players =
    (case previous of None \<Rightarrow> None
     | Some e \<Rightarrow>
         if \<not> isDrawing e then None
         else Some \<lparr>dp_epoch = er_id e, dp_registeredCount = er_registeredCount e,
                    dp_eligible = length (filter (\<lambda>p. weightAt p (er_id e) (er_startsAt e) (er_endsAt e) > 0) players),
                    dp_status = er_status e\<rparr>)"

record round_summary =
  rm_id :: int
  rm_epochId :: int
  rm_startsAt :: int
  rm_endsAt :: int
  rm_status :: int
  rm_pot :: int
  rm_houseCut :: int

definition summarizeRound :: "round_row \<Rightarrow> round_summary" where
  "summarizeRound r =
    \<lparr>rm_id = rr_id r, rm_epochId = rr_epochId r, rm_startsAt = rr_startsAt r, rm_endsAt = rr_endsAt r,
     rm_status = rr_status r, rm_pot = rr_pot r, rm_houseCut = rr_houseCut r\<rparr>"

section \<open>Chain reads and their caches\<close>

record rpc_health =
  rh_ok :: bool
  rh_slot :: "int option"
  rh_endpoint :: endpoint
  rh_fallbackAt :: "int option"

record chain_balances =
  cb_vaultLiquidity :: "int option"
  cb_operatorSol :: "rat option"
  cb_sparringSol :: "rat option"

definition LAMPORTS_PER_SOL :: int where "LAMPORTS_PER_SOL = 1000000000"

text \<open>\<open>ar_balances\<close> is the vault's unpacked amount and the two fee payers' lamports, each absent when its
  account is.\<close>

record api_reads =
  ar_nowMs :: int
  ar_slot :: "int res"
  ar_rpc :: rpc_state
  ar_clock :: "bytes option res"
  ar_clockMs :: int
  ar_jackpot :: "int res"
  ar_balances :: "(int option \<times> int option \<times> int option) res"
  ar_priorityFee :: "pubkey list \<Rightarrow> int"

record api_service =
  as_probe :: "(int \<times> rpc_health) option"
  as_clock :: "(int \<times> (int \<times> int) res) option"
  as_jackpot :: "(int \<times> int) option"
  as_balances :: "(int \<times> chain_balances) option"
  as_lastServed :: int

definition NEW_API :: api_service where
  "NEW_API = \<lparr>as_probe = None, as_clock = None, as_jackpot = None, as_balances = None, as_lastServed = 0\<rparr>"

record api_config =
  ac_ix :: ix_env
  ac_poolKey :: pubkey
  ac_b58 :: "pubkey \<Rightarrow> string"
  ac_parseKey :: "string \<Rightarrow> pubkey option"
  ac_solWarn :: rat
  ac_sparring :: bool
  ac_launchAt :: "string option"

definition apiPool :: "api_config \<Rightarrow> string" where "apiPool cfg = ac_b58 cfg (ac_poolKey cfg)"

definition cachedRead :: "(int \<times> 'a) option \<Rightarrow> int \<Rightarrow> int \<Rightarrow> 'a \<Rightarrow> int \<times> 'a" where
  "cachedRead cache nowMs ttlMs fetched =
    (case cache of Some (t, r) \<Rightarrow> if nowMs - t > ttlMs then (nowMs, fetched) else (t, r) | None \<Rightarrow> (nowMs, fetched))"

definition probeRpc :: "api_reads \<Rightarrow> rpc_health" where
  "probeRpc rd =
    (case ar_slot rd of
       Inr slot \<Rightarrow> \<lparr>rh_ok = True, rh_slot = Some slot, rh_endpoint = rs_endpoint (ar_rpc rd), rh_fallbackAt = rs_fallbackAt (ar_rpc rd)\<rparr>
     | Inl _ \<Rightarrow> \<lparr>rh_ok = False, rh_slot = None, rh_endpoint = rs_endpoint (ar_rpc rd), rh_fallbackAt = rs_fallbackAt (ar_rpc rd)\<rparr>)"

definition rpcHealth :: "api_reads \<Rightarrow> api_service \<Rightarrow> rpc_health \<times> api_service" where
  "rpcHealth rd s =
    (let c = cachedRead (as_probe s) (ar_nowMs rd) RPC_PROBE_TTL_MS (probeRpc rd) in (snd c, s\<lparr>as_probe := Some c\<rparr>))"

text \<open>A rejected clock read stays cached for its window; rejected balances do not.\<close>

definition chainClock :: "api_reads \<Rightarrow> api_service \<Rightarrow> (int \<times> int) res \<times> api_service" where
  "chainClock rd s =
    (let fetched = rbind (ar_clock rd) (\<lambda>d. rbind (clockUnixTimestamp d) (\<lambda>v. Inr (v, ar_clockMs rd)));
         c = cachedRead (as_clock s) (ar_nowMs rd) CHAIN_CLOCK_TTL_MS fetched
     in (snd c, s\<lparr>as_clock := Some c\<rparr>))"

definition chainNow :: "api_reads \<Rightarrow> api_service \<Rightarrow> int res \<times> api_service" where
  "chainNow rd s = (case chainClock rd s of (r, s') \<Rightarrow> (rbind r (\<lambda>x. Inr (fst x)), s'))"

definition extrapolatedChainNow :: "api_reads \<Rightarrow> api_service \<Rightarrow> int res \<times> api_service" where
  "extrapolatedChainNow rd s =
    (case chainClock rd s of
       (Inl e, s') \<Rightarrow> (Inl e, s')
     | (Inr (value, observedAt), s') \<Rightarrow>
         let elapsedSeconds = max 0 ((ar_nowMs rd - observedAt) div 1000);
             extrapolated = value + elapsedSeconds;
             served = (if extrapolated > as_lastServed s' then extrapolated else as_lastServed s')
         in (Inr served, s'\<lparr>as_lastServed := served\<rparr>))"

definition cachedJackpotBalance :: "api_reads \<Rightarrow> api_service \<Rightarrow> int res \<times> api_service" where
  "cachedJackpotBalance rd s =
    (case as_jackpot s of
       Some (t, v) \<Rightarrow>
         if ar_nowMs rd - t > JACKPOT_BALANCE_TTL_MS
         then (ar_jackpot rd, s\<lparr>as_jackpot := (case ar_jackpot rd of Inr x \<Rightarrow> Some (ar_nowMs rd, x) | Inl _ \<Rightarrow> None)\<rparr>)
         else (Inr v, s)
     | None \<Rightarrow> (ar_jackpot rd, s\<lparr>as_jackpot := (case ar_jackpot rd of Inr x \<Rightarrow> Some (ar_nowMs rd, x) | Inl _ \<Rightarrow> None)\<rparr>))"

definition liveJackpot :: "epoch_row \<Rightarrow> api_reads \<Rightarrow> api_service \<Rightarrow> int \<times> api_service" where
  "liveJackpot epoch rd s =
    (if er_status epoch \<noteq> EPOCH_OPEN then (er_jackpotAmount epoch, s)
     else (case cachedJackpotBalance rd s of
             (Inr v, s') \<Rightarrow> (v, s') | (Inl _, s') \<Rightarrow> (er_jackpotAmount epoch, s')))"

definition balancesOf :: "api_config \<Rightarrow> int option \<times> int option \<times> int option \<Rightarrow> chain_balances" where
  "balancesOf cfg infos =
    (case infos of (vault, fees, sparring) \<Rightarrow>
      let sol = (\<lambda>l. case l of None \<Rightarrow> 0 | Some n \<Rightarrow> of_int n / of_int LAMPORTS_PER_SOL)
      in \<lparr>cb_vaultLiquidity = vault, cb_operatorSol = Some (sol fees),
          cb_sparringSol = (if \<not> ac_sparring cfg then None else Some (sol sparring))\<rparr>)"

definition chainBalances :: "api_config \<Rightarrow> api_reads \<Rightarrow> api_service \<Rightarrow> chain_balances \<times> api_service" where
  "chainBalances cfg rd s =
    (let expired = (case as_balances s of None \<Rightarrow> True | Some (t, _) \<Rightarrow> ar_nowMs rd - t > BALANCES_TTL_MS)
     in if \<not> expired then (snd (the (as_balances s)), s)
        else (case ar_balances rd of
                Inl _ \<Rightarrow> (\<lparr>cb_vaultLiquidity = None, cb_operatorSol = None, cb_sparringSol = None\<rparr>, s\<lparr>as_balances := None\<rparr>)
              | Inr infos \<Rightarrow> (balancesOf cfg infos, s\<lparr>as_balances := Some (ar_nowMs rd, balancesOf cfg infos)\<rparr>)))"

end
