(* ===== verification/Api_Routes.thy ===== *)
theory Api_Routes
  imports Api
begin

text \<open>
  The routes of \<open>api/api.service.ts\<close> and the parameter parsers of \<open>api/api.controller.ts\<close>. A route reads
  one snapshot of the database (the Read model and the pool's operator row) and answers with a value, an
  HTTP error or an internal one. The \<open>limit\<close> of a list arrives already parsed.

  The raw SQL reads sum event fields: a field's text is cast to a number, a missing field is null and
  left out of a sum, and a text that is no number fails the query.
\<close>

datatype api_error = Http http_error | Internal string

type_synonym 'a answer = "api_error + 'a"

fun abind :: "'a answer \<Rightarrow> ('a \<Rightarrow> 'b answer) \<Rightarrow> 'b answer" where
  "abind (Inl e) f = Inl e"
| "abind (Inr x) f = f x"

fun orInternal :: "'a res \<Rightarrow> 'a answer" where
  "orInternal (Inl e) = Inl (Internal e)"
| "orInternal (Inr x) = Inr x"

record api_db =
  ad_model :: read_model
  ad_operator :: "operator_state option"

section \<open>Parameters\<close>

definition MAX_OWNERS :: nat where "MAX_OWNERS = 25"

definition parseRoundId :: "string \<Rightarrow> int http" where
  "parseRoundId raw =
    (case (if raw = [] then None else readDigits 0 raw) of
       None \<Rightarrow> Inl (BadRequest ''A round id is a whole number, for example 12.'')
     | Some n \<Rightarrow> Inr (int n))"

definition parseOwner :: "api_config \<Rightarrow> string \<Rightarrow> string http" where
  "parseOwner cfg raw =
    (case ac_parseKey cfg raw of
       None \<Rightarrow> Inl (BadRequest ''That is not a valid Solana wallet address.'')
     | Some k \<Rightarrow> Inr (ac_b58 cfg k))"

fun mapHttp :: "('a \<Rightarrow> 'b http) \<Rightarrow> 'a list \<Rightarrow> 'b list http" where
  "mapHttp f [] = Inr []"
| "mapHttp f (x # xs) = hbind (f x) (\<lambda>y. hbind (mapHttp f xs) (\<lambda>ys. Inr (y # ys)))"

definition parseOwners :: "api_config \<Rightarrow> string option \<Rightarrow> string list http" where
  "parseOwners cfg raw =
    (let trimmed = (case raw of None \<Rightarrow> [] | Some s \<Rightarrow> trimText s)
     in if trimmed = [] then Inl (BadRequest ''`owners` must be a comma-separated list of wallet addresses.'')
        else hbind (mapHttp (\<lambda>e. parseOwner cfg (trimText e)) (splitOn (CHR '','') trimmed)) (\<lambda>owners.
          if length owners > MAX_OWNERS
          then Inl (BadRequest (''`owners` accepts at most '' @ showNat MAX_OWNERS @ '' addresses.''))
          else Inr owners))"

section \<open>Rows\<close>

definition requirePool :: "api_config \<Rightarrow> read_model \<Rightarrow> pool_row answer" where
  "requirePool cfg m =
    (case findUnique pr_address (apiPool cfg) (db_pools m) of
       None \<Rightarrow> Inl (Http (NotFound ''The pool is not indexed yet. Try again in a few seconds.''))
     | Some p \<Rightarrow> Inr p)"

definition NO_EPOCH :: api_error where
  "NO_EPOCH = Http (NotFound ''The current epoch is not indexed yet. Try again in a few seconds.'')"

definition currentEpochOf :: "api_config \<Rightarrow> pool_row \<Rightarrow> read_model \<Rightarrow> epoch_row option" where
  "currentEpochOf cfg pool m = getEpoch (apiPool cfg) (pr_currentEpochId pool) m"

definition poolPlayers :: "api_config \<Rightarrow> read_model \<Rightarrow> player_row list" where
  "poolPlayers cfg m = filter (\<lambda>p. py_poolAddress p = apiPool cfg) (db_players m)"

definition getPool ::
    "api_config \<Rightarrow> read_model \<Rightarrow> (pool_row \<times> epoch_row option \<times> round_summary option) answer" where
  "getPool cfg m =
    abind (requirePool cfg m) (\<lambda>pool.
      Inr (pool, currentEpochOf cfg pool m, map_option summarizeRound (getOpenRound (apiPool cfg) m)))"

definition getEpochs :: "api_config \<Rightarrow> nat \<Rightarrow> read_model \<Rightarrow> epoch_row list" where
  "getEpochs cfg limit m =
    take limit (sort_key (\<lambda>e. - er_id e) (filter (\<lambda>e. er_poolAddress e = apiPool cfg) (db_epochs m)))"

definition getRounds :: "api_config \<Rightarrow> nat \<Rightarrow> read_model \<Rightarrow> round_row list" where
  "getRounds cfg limit m =
    take limit (sort_key (\<lambda>r. - rr_id r) (filter (\<lambda>r. rr_poolAddress r = apiPool cfg) (db_rounds m)))"

definition getRound :: "api_config \<Rightarrow> int \<Rightarrow> read_model \<Rightarrow> round_row answer" where
  "getRound cfg i m =
    (case findUnique roundKey (apiPool cfg, i) (db_rounds m) of
       None \<Rightarrow> Inl (Http (NotFound (''No round '' @ showInt i @ ''. Check the round id and retry.'')))
     | Some r \<Rightarrow> Inr r)"

definition drawingProgress :: "api_config \<Rightarrow> pool_row \<Rightarrow> read_model \<Rightarrow> drawing_progress option" where
  "drawingProgress cfg pool m =
    (if pr_currentEpochId pool \<le> 0 then None
     else (let previous = getEpoch (apiPool cfg) (pr_currentEpochId pool - 1) m;
               needsPlayers = (case previous of None \<Rightarrow> False | Some e \<Rightarrow> isDrawing e)
           in drawingProgressFrom previous (if needsPlayers then poolPlayers cfg m else [])))"

definition getCurrentEpoch ::
    "api_config \<Rightarrow> api_reads \<Rightarrow> read_model \<Rightarrow> api_service \<Rightarrow> (epoch_row \<times> drawing_progress option) answer \<times> api_service" where
  "getCurrentEpoch cfg rd m s =
    (case requirePool cfg m of
       Inl e \<Rightarrow> (Inl e, s)
     | Inr pool \<Rightarrow>
         (case currentEpochOf cfg pool m of
            None \<Rightarrow> (Inl NO_EPOCH, s)
          | Some epoch \<Rightarrow>
              (case liveJackpot epoch rd s of (j, s') \<Rightarrow>
                (Inr (epoch\<lparr>er_jackpotAmount := j\<rparr>, drawingProgress cfg pool m), s'))))"

section \<open>Players\<close>

definition liveWeights ::
    "api_config \<Rightarrow> api_reads \<Rightarrow> read_model \<Rightarrow> api_service \<Rightarrow> (live_weight list \<times> int) answer \<times> api_service" where
  "liveWeights cfg rd m s =
    (case requirePool cfg m of
       Inl e \<Rightarrow> (Inl e, s)
     | Inr pool \<Rightarrow>
         (case currentEpochOf cfg pool m of
            None \<Rightarrow> (Inl NO_EPOCH, s)
          | Some epoch \<Rightarrow>
              (case chainNow rd s of (r, s') \<Rightarrow>
                (abind (orInternal r) (\<lambda>t. Inr (weightsFrom (poolPlayers cfg m) epoch t)), s'))))"

definition jsonText :: "json \<Rightarrow> string option" where
  "jsonText j =
    (case j of JString s \<Rightarrow> Some s | JNumber n \<Rightarrow> Some (showInt n) | JBool b \<Rightarrow> Some (if b then ''true'' else ''false'')
     | JNull \<Rightarrow> None | _ \<Rightarrow> Some [])"

definition eventText :: "event_row \<Rightarrow> string \<Rightarrow> string option" where
  "eventText e key = (case jsonField (vr_data e) key of None \<Rightarrow> None | Some j \<Rightarrow> jsonText j)"

text \<open>\<open>(data->>'key')::numeric\<close> over whole numbers: null stays null, an empty text is an error.\<close>

definition sqlNumber :: "event_row \<Rightarrow> string \<Rightarrow> int option res" where
  "sqlNumber e key =
    (case eventText e key of
       None \<Rightarrow> Inr None
     | Some t \<Rightarrow> if t = [] then Inl ''invalid input syntax for type numeric'' else rbind (bigIntOf t) (\<lambda>n. Inr (Some n)))"

definition poolEvents :: "string \<Rightarrow> string list \<Rightarrow> read_model \<Rightarrow> event_row list" where
  "poolEvents pool names m = filter (\<lambda>e. vr_poolAddress e = pool \<and> vr_name e \<in> set names) (db_events m)"

definition sqlSum :: "int option list \<Rightarrow> int" where
  "sqlSum xs = sum_list (List.map_filter id xs)"

definition playerYieldStats :: "api_config \<Rightarrow> string \<Rightarrow> int \<Rightarrow> read_model \<Rightarrow> (int \<times> int) res" where
  "playerYieldStats cfg owner yieldEpoch m =
    (let rows = filter (\<lambda>e. eventText e ''owner'' = Some owner) (poolEvents (apiPool cfg) [''YieldCredited''] m)
     in rbind (mapRes (\<lambda>e. sqlNumber e ''amount'') rows) (\<lambda>amounts.
        rbind (mapRes (\<lambda>e. sqlNumber e ''epochId'') rows) (\<lambda>epochs.
          Inr (sqlSum amounts, sqlSum (map fst (filter (\<lambda>(_, x). x = Some yieldEpoch) (zip amounts epochs)))))))"

definition getPlayer ::
    "api_config \<Rightarrow> api_reads \<Rightarrow> string \<Rightarrow> read_model \<Rightarrow> api_service
      \<Rightarrow> (player_dto \<times> ticket_extras \<times> int \<times> int) answer \<times> api_service" where
  "getPlayer cfg rd owner m s =
    (case liveWeights cfg rd m s of (r, s') \<Rightarrow>
      (abind r (\<lambda>(weights, whole).
         case find (\<lambda>w. py_owner (lw_player w) = owner) weights of
           None \<Rightarrow> Inl (Http (NotFound ''No Player account for that wallet yet. Deposit to open one.''))
         | Some mine \<Rightarrow>
             abind (requirePool cfg m) (\<lambda>pool.
             abind (orInternal (playerYieldStats cfg owner (py_yieldEpoch (lw_player mine)) m)) (\<lambda>(toDate, lastEpoch).
               Inr (playerDto mine whole, playerTicketExtras (lw_player mine) (pr_currentEpochId pool), toDate, lastEpoch)))), s'))"

record leader =
  ld_owner :: string
  ld_principal :: int
  ld_entries :: int
  ld_isHouse :: bool
  ld_liveWeight :: int
  ld_odds :: string

definition leaderKey :: "live_weight \<Rightarrow> int \<times> bool \<times> string" where
  "leaderKey w = (- lw_drawWeight w, py_isHouse (lw_player w), py_owner (lw_player w))"

definition rankLeaders :: "nat \<Rightarrow> live_weight list \<times> int \<Rightarrow> leader list" where
  "rankLeaders limit ws =
    map (\<lambda>w. \<lparr>ld_owner = py_owner (lw_player w), ld_principal = py_principal (lw_player w),
              ld_entries = py_entries (lw_player w), ld_isHouse = py_isHouse (lw_player w),
              ld_liveWeight = lw_liveWeight w, ld_odds = oddsPercent (lw_drawWeight w) (snd ws)\<rparr>)
      (take limit (sort_key leaderKey (fst ws)))"

definition getLeaderboard ::
    "api_config \<Rightarrow> api_reads \<Rightarrow> nat \<Rightarrow> read_model \<Rightarrow> api_service \<Rightarrow> leader list answer \<times> api_service" where
  "getLeaderboard cfg rd limit m s =
    (case liveWeights cfg rd m s of (r, s') \<Rightarrow> (abind r (\<lambda>ws. Inr (rankLeaders limit ws)), s'))"

section \<open>Events\<close>

definition isPositiveNumeral :: "string \<Rightarrow> bool" where
  "isPositiveNumeral s = (s \<noteq> [] \<and> hd s \<noteq> CHR ''0'' \<and> list_all isDigit s)"

definition isFeedEvent :: "event_row \<Rightarrow> bool" where
  "isFeedEvent e =
    (vr_name e \<in> set FEED_NAMES \<or>
     vr_name e = ''PositionSettled'' \<and> (case eventText e ''reward'' of None \<Rightarrow> False | Some t \<Rightarrow> isPositiveNumeral t))"

definition getFeed :: "api_config \<Rightarrow> nat \<Rightarrow> string option \<Rightarrow> read_model \<Rightarrow> event_row list" where
  "getFeed cfg limit owner m =
    take limit (sort_key (\<lambda>e. (- vr_slot e, - vr_index e))
      (filter (\<lambda>e. vr_poolAddress e = apiPool cfg \<and> isFeedEvent e \<and>
         (case owner of None \<Rightarrow> True
          | Some o1 \<Rightarrow> eventText e ''owner'' = Some o1 \<or> eventText e ''winner'' = Some o1)) (db_events m)))"

definition roundsPlayed :: "api_config \<Rightarrow> string \<Rightarrow> read_model \<Rightarrow> nat" where
  "roundsPlayed cfg owner m =
    length (remdups (List.map_filter (\<lambda>e. eventText e ''roundId'')
      (filter (\<lambda>e. eventText e ''owner'' = Some owner) (poolEvents (apiPool cfg) [''PositionBought''] m))))"

definition getPositionCounts :: "api_config \<Rightarrow> string list \<Rightarrow> read_model \<Rightarrow> (string \<rightharpoonup> nat)" where
  "getPositionCounts cfg owners m = map_of (map (\<lambda>owner. (owner, roundsPlayed cfg owner m)) owners)"

definition lastEpochYieldShortfall :: "api_config \<Rightarrow> int \<Rightarrow> read_model \<Rightarrow> int res" where
  "lastEpochYieldShortfall cfg currentEpochId m =
    (if currentEpochId \<le> 0 then Inr 0
     else let rows = poolEvents (apiPool cfg) [''YieldCredited''] m
          in rbind (mapRes (\<lambda>e. sqlNumber e ''epochId'') rows) (\<lambda>epochs.
             rbind (mapRes (\<lambda>(e, _). sqlNumber e ''shortfall'')
                      (filter (\<lambda>(_, x). x = Some (currentEpochId - 1)) (zip rows epochs))) (\<lambda>amounts.
               Inr (sqlSum amounts))))"

section \<open>Status\<close>

record api_status =
  st_operator :: "operator_state option"
  st_lastSlot :: "int option"
  st_lastSignature :: "string option"
  st_ageSeconds :: "int option"
  st_rpc :: rpc_health
  st_pendingWithdrawals :: int
  st_vaultLiquidity :: "int option"
  st_withdrawShortfall :: int
  st_withdrawSkippedCount :: nat
  st_registrationIndexerStale :: bool
  st_operatorSol :: "rat option"
  st_operatorSolLow :: "bool option"
  st_sparringSol :: "rat option"
  st_sparringSolLow :: "bool option"
  st_shutdown :: bool
  st_principalOut :: "int option"

text \<open>The operator row as served: \<open>Date\<close>s in milliseconds, a code for the error.\<close>

definition servedOperator :: "operator_state \<Rightarrow> operator_state" where
  "servedOperator r =
    r\<lparr>os_lastTickAt := map_option (\<lambda>t. t * 1000) (os_lastTickAt r),
      os_nextWakeAt := map_option (\<lambda>t. t * 1000) (os_nextWakeAt r),
      os_lastSuccessAt := map_option (\<lambda>t. t * 1000) (os_lastSuccessAt r),
      os_lastError := operatorErrorCode (os_lastError r)\<rparr>"

definition statusFrom ::
    "operator_state option \<Rightarrow> cursor_row option \<Rightarrow> rpc_health \<Rightarrow> pool_row option \<Rightarrow> chain_balances \<Rightarrow> rat \<Rightarrow> int \<Rightarrow> api_status" where
  "statusFrom operator cursor rpc pool balances solWarn nowMs =
    (let now = nowMs div 1000
     in \<lparr>st_operator = map_option servedOperator operator,
         st_lastSlot = (case cursor of None \<Rightarrow> None | Some c \<Rightarrow> cr_lastSlot c),
         st_lastSignature = (case cursor of None \<Rightarrow> None | Some c \<Rightarrow> cr_lastSignature c),
         st_ageSeconds = (case cursor of None \<Rightarrow> None | Some c \<Rightarrow> map_option (\<lambda>t. now - t) (cr_updatedAt c)),
         st_rpc = rpc,
         st_pendingWithdrawals = (case pool of None \<Rightarrow> 0 | Some p \<Rightarrow> pr_pendingWithdrawals p),
         st_vaultLiquidity = cb_vaultLiquidity balances,
         st_withdrawShortfall = (case operator of None \<Rightarrow> 0 | Some r \<Rightarrow> (case os_withdrawShortfall r of None \<Rightarrow> 0 | Some x \<Rightarrow> x)),
         st_withdrawSkippedCount = (case operator of None \<Rightarrow> 0 | Some r \<Rightarrow> (case os_withdrawSkippedCount r of None \<Rightarrow> 0 | Some x \<Rightarrow> x)),
         st_registrationIndexerStale = (case operator of None \<Rightarrow> False | Some r \<Rightarrow> os_registrationIndexerStale r = Some True),
         st_operatorSol = cb_operatorSol balances,
         st_operatorSolLow = map_option (\<lambda>x. x < solWarn) (cb_operatorSol balances),
         st_sparringSol = cb_sparringSol balances,
         st_sparringSolLow = map_option (\<lambda>x. x < solWarn) (cb_sparringSol balances),
         st_shutdown = (case pool of None \<Rightarrow> False | Some p \<Rightarrow> pr_shutdown p),
         st_principalOut = (case (pool, cb_vaultLiquidity balances) of
             (Some p, Some v) \<Rightarrow> Some (principalOut (pr_totalPrincipal p) (pr_pendingWithdrawals p) (pr_yieldBudget p) v)
           | _ \<Rightarrow> None)\<rparr>)"

record yield_status =
  yl_yieldBudget :: int
  yl_yieldShortfall :: int
  yl_bonusGrantedToday :: int
  yl_bonusCap :: int
  yl_yieldBudgetLow :: bool

definition yieldStatus :: "api_config \<Rightarrow> pool_row option \<Rightarrow> read_model \<Rightarrow> yield_status res" where
  "yieldStatus cfg pool m =
    (case pool of
       None \<Rightarrow> Inr \<lparr>yl_yieldBudget = 0, yl_yieldShortfall = 0, yl_bonusGrantedToday = 0, yl_bonusCap = 0, yl_yieldBudgetLow = False\<rparr>
     | Some p \<Rightarrow>
         rbind (lastEpochYieldShortfall cfg (pr_currentEpochId p) m) (\<lambda>shortfall.
           Inr \<lparr>yl_yieldBudget = pr_yieldBudget p, yl_yieldShortfall = shortfall,
                yl_bonusGrantedToday = ifCurrentEpoch (pr_bonusEpoch p) (pr_currentEpochId p) (pr_bonusGranted p),
                yl_bonusCap = poolBonusCap (pr_totalPrincipal p) (pr_bonusCapBps p),
                yl_yieldBudgetLow = (pr_yieldBudget p < oneDayYieldCost (pr_totalPrincipal p) (pr_baseRateBps p))\<rparr>))"

record full_status = api_status +
  fs_yield :: yield_status
  fs_launchAt :: "string option"
  fs_epochEndsAt :: "int option"
  fs_epochStatus :: "int option"
  fs_jackpotAmount :: "int option"
  fs_minJackpot :: int

definition poolCursor :: "api_config \<Rightarrow> read_model \<Rightarrow> cursor_row option" where
  "poolCursor cfg m = findUnique cr_poolAddress (apiPool cfg) (db_cursors m)"

definition getStatus ::
    "api_config \<Rightarrow> api_reads \<Rightarrow> api_db \<Rightarrow> api_service \<Rightarrow> full_status answer \<times> api_service" where
  "getStatus cfg rd db s =
    (let m = ad_model db;
         pool = findUnique pr_address (apiPool cfg) (db_pools m);
         (rpc, s1) = rpcHealth rd s;
         (balances, s2) = chainBalances cfg rd s1;
         epoch = (case pool of None \<Rightarrow> None | Some p \<Rightarrow> currentEpochOf cfg p m);
         st = statusFrom (ad_operator db) (poolCursor cfg m) rpc pool balances (ac_solWarn cfg) (ar_nowMs rd)
     in case yieldStatus cfg pool m of
          Inl e \<Rightarrow> (Inl (Internal e), s2)
        | Inr y \<Rightarrow>
            (let (jackpot, s3) = (case epoch of None \<Rightarrow> (None, s2)
                                  | Some e \<Rightarrow> (case liveJackpot e rd s2 of (j, s3) \<Rightarrow> (Some j, s3)))
             in (Inr (api_status.extend st
                   (full_status.fields y
                     (case pool of Some p \<Rightarrow> if pr_currentEpochId p > 0 then None else ac_launchAt cfg | None \<Rightarrow> ac_launchAt cfg)
                     (map_option er_endsAt epoch) (map_option er_status epoch) jackpot
                     (case pool of None \<Rightarrow> 0 | Some p \<Rightarrow> pr_minJackpot p))), s3)))"

section \<open>State\<close>

record api_snapshot =
  sp_pool :: pool_row
  sp_epoch :: "epoch_row option"
  sp_previousEpoch :: "epoch_row option"
  sp_openRound :: "round_row option"
  sp_players :: "player_row list"
  sp_round :: "round_row option"
  sp_position :: "position_row option"

definition readSnapshot :: "api_config \<Rightarrow> string option \<Rightarrow> int option \<Rightarrow> read_model \<Rightarrow> api_snapshot answer" where
  "readSnapshot cfg owner roundId m =
    abind (requirePool cfg m) (\<lambda>pool.
      let previous = (if pr_currentEpochId pool \<le> 0 then None else getEpoch (apiPool cfg) (pr_currentEpochId pool - 1) m);
          openRound = getOpenRound (apiPool cfg) m;
          needsPlayers = (owner \<noteq> None \<or> (case previous of None \<Rightarrow> False | Some e \<Rightarrow> isDrawing e));
          tracked = orElse roundId (map_option rr_id openRound)
      in Inr \<lparr>sp_pool = pool, sp_epoch = currentEpochOf cfg pool m, sp_previousEpoch = previous, sp_openRound = openRound,
              sp_players = (if needsPlayers then poolPlayers cfg m else []),
              sp_round = (case tracked of None \<Rightarrow> None | Some i \<Rightarrow> findUnique roundKey (apiPool cfg, i) (db_rounds m)),
              sp_position = (case (owner, tracked) of
                  (Some o1, Some i) \<Rightarrow> find (\<lambda>p. po_poolAddress p = apiPool cfg \<and> po_owner p = o1 \<and> po_roundId p = i) (db_positions m)
                | _ \<Rightarrow> None)\<rparr>)"

record api_state =
  sa_pool :: pool_row
  sa_currentEpoch :: "(epoch_row \<times> drawing_progress option) option"
  sa_openRound :: "round_summary option"
  sa_round :: "round_row option"
  sa_player :: "player_dto option"
  sa_position :: "(int \<times> int) option"
  sa_status :: api_status
  sa_chainTime :: int
  sa_priorityFee :: int
  sa_launchAt :: "string option"

definition hotWritableAccounts :: "api_config \<Rightarrow> api_snapshot \<Rightarrow> pubkey list res" where
  "hotWritableAccounts cfg sp =
    (let pool = ac_poolKey cfg
     in rbind (case sp_openRound sp of None \<Rightarrow> Inr [] | Some r \<Rightarrow> rbind (roundAddress (ac_ix cfg) pool (rr_id r)) (\<lambda>k. Inr [k])) (\<lambda>rounds.
          Inr ([pool, principalVaultAddress (ac_ix cfg) pool, jackpotVaultAddress (ac_ix cfg) pool] @ rounds)))"

text \<open>The viewer's entry: weighed with everybody's while an Epoch exists, weightless before the first.\<close>

definition viewerEntry :: "api_snapshot \<Rightarrow> live_weight list \<Rightarrow> string option \<Rightarrow> live_weight option" where
  "viewerEntry sp weights owner =
    (case owner of None \<Rightarrow> None
     | Some o1 \<Rightarrow>
         (case find (\<lambda>w. py_owner (lw_player w) = o1) weights of
            Some w \<Rightarrow> Some w
          | None \<Rightarrow>
              if sp_epoch sp \<noteq> None then None
              else map_option (\<lambda>p. \<lparr>lw_player = p, lw_liveWeight = 0, lw_drawWeight = 0\<rparr>)
                     (find (\<lambda>p. py_owner p = o1) (sp_players sp))))"

definition getState ::
    "api_config \<Rightarrow> api_reads \<Rightarrow> string option \<Rightarrow> int option \<Rightarrow> api_db \<Rightarrow> api_service \<Rightarrow> api_state answer \<times> api_service" where
  "getState cfg rd owner roundId db s =
    (case readSnapshot cfg owner roundId (ad_model db) of
       Inl e \<Rightarrow> (Inl e, s)
     | Inr sp \<Rightarrow>
         if sp_epoch sp = None \<and> pr_currentEpochId (sp_pool sp) > 0 then (Inl NO_EPOCH, s)
         else (case hotWritableAccounts cfg sp of
           Inl e \<Rightarrow> (Inl (Internal e), s)
         | Inr hot \<Rightarrow>
             (let (jackpot, s1) = (case sp_epoch sp of None \<Rightarrow> (0, s) | Some e \<Rightarrow> liveJackpot e rd s);
                  (rpc, s2) = rpcHealth rd s1;
                  (clock, s3) = extrapolatedChainNow rd s2;
                  (balances, s4) = chainBalances cfg rd s3
              in case clock of
                   Inl e \<Rightarrow> (Inl (Internal e), s4)
                 | Inr chainTime \<Rightarrow>
                     (let (weights, whole) = (case sp_epoch sp of None \<Rightarrow> ([], 0) | Some e \<Rightarrow> weightsFrom (sp_players sp) e chainTime)
                      in (Inr \<lparr>sa_pool = sp_pool sp,
                               sa_currentEpoch = map_option (\<lambda>e. (e\<lparr>er_jackpotAmount := jackpot\<rparr>,
                                 drawingProgressFrom (sp_previousEpoch sp) (sp_players sp))) (sp_epoch sp),
                               sa_openRound = map_option summarizeRound (sp_openRound sp),
                               sa_round = sp_round sp,
                               sa_player = map_option (\<lambda>w. playerDto w whole) (viewerEntry sp weights owner),
                               sa_position = map_option (\<lambda>p. (po_tiles p, po_stakePerTile p)) (sp_position sp),
                               sa_status = statusFrom (ad_operator db) (poolCursor cfg (ad_model db)) rpc (Some (sp_pool sp))
                                             balances (ac_solWarn cfg) (ar_nowMs rd),
                               sa_chainTime = chainTime,
                               sa_priorityFee = ar_priorityFee rd hot,
                               sa_launchAt = (if sp_epoch sp = None then ac_launchAt cfg else None)\<rparr>, s4)))))"

end
