(* ===== verification/Js_Number.thy ===== *)
theory Js_Number
  imports Complex_Main Hexo_Prelude
begin

text \<open>
  The language's numbers as far as the command lines and the environment rest on them: \<open>Number(text)\<close>
  (the grammar of numeric literals and the rounding of what they denote to binary64), and
  \<open>Number.isSafeInteger\<close>. A finite number is the rational it denotes; the two zeros are one, as no
  caller tells them apart.
\<close>

section \<open>Values\<close>

datatype js_number = NaN | Infinite bool | Finite rat

fun bitLength :: "nat \<Rightarrow> nat" where
  "bitLength n = (if n = 0 then 0 else 1 + bitLength (n div 2))"

declare bitLength.simps [simp del]

definition pow2 :: "int \<Rightarrow> rat" where
  "pow2 k = (if 0 \<le> k then 2 ^ nat k else 1 / 2 ^ nat (- k))"

section \<open>Rounding\<close>

text \<open>The integer nearest to a rational, ties to the even one.\<close>

definition roundHalfEven :: "rat \<Rightarrow> int" where
  "roundHalfEven q =
    (let f = \<lfloor>q\<rfloor>; r = q - of_int f
     in if r < 1 / 2 \<or> r = 1 / 2 \<and> even f then f else f + 1)"

text \<open>The exponent of the binade that holds a positive rational: \<open>2 ^ binade q \<le> q < 2 ^ (binade q + 1)\<close>.\<close>

definition binade :: "rat \<Rightarrow> int" where
  "binade q =
    (let (n, d) = quotient_of q; e = int (bitLength (nat n)) - int (bitLength (nat d))
     in if pow2 e \<le> q then e else e - 1)"

definition toDouble :: "rat \<Rightarrow> js_number" where
  "toDouble q =
    (if q = 0 then Finite 0
     else let ulp = pow2 (max (- 1074) (binade \<bar>q\<bar> - 52));
              v = of_int (roundHalfEven (\<bar>q\<bar> / ulp)) * ulp
          in if pow2 1024 \<le> v then Infinite (q < 0) else Finite (if q < 0 then - v else v))"

section \<open>Reading a number\<close>

definition exponentOf :: "string \<Rightarrow> int option" where
  "exponentOf r =
    (case r of [] \<Rightarrow> Some 0
     | c # t \<Rightarrow>
         if c \<noteq> CHR ''e'' \<and> c \<noteq> CHR ''E'' then None
         else let negative = prefix ''-'' t; ds = (if prefix ''-'' t \<or> prefix ''+'' t then drop 1 t else t)
              in if ds = [] then None
                 else map_option (\<lambda>n. if negative then - int n else int n) (readDigits 0 ds))"

definition unsignedDecimal :: "string \<Rightarrow> rat option" where
  "unsignedDecimal s =
    (let whole = takeWhile isDigit s; rest = dropWhile isDigit s;
         dotted = prefix ''.'' rest;
         frac = (if dotted then takeWhile isDigit (drop 1 rest) else []);
         tail = (if dotted then dropWhile isDigit (drop 1 rest) else rest)
     in if whole @ frac = [] then None
        else case (readDigits 0 (whole @ frac), exponentOf tail) of
               (Some n, Some e) \<Rightarrow>
                 (let k = e - int (length frac)
                  in Some (if 0 \<le> k then of_nat n * 10 ^ nat k else of_nat n / 10 ^ nat (- k)))
             | _ \<Rightarrow> None)"

definition hexVal :: "char \<Rightarrow> nat option" where
  "hexVal c =
    (let v = of_char c :: nat
     in if isDigit c then digitVal c
        else if 97 \<le> v \<and> v \<le> 102 then Some (v - 87)
        else if 65 \<le> v \<and> v \<le> 70 then Some (v - 55) else None)"

fun readRadix :: "nat \<Rightarrow> nat \<Rightarrow> string \<Rightarrow> nat option" where
  "readRadix b a [] = Some a"
| "readRadix b a (c # s) =
    (case hexVal c of None \<Rightarrow> None | Some d \<Rightarrow> if d < b then readRadix b (b * a + d) s else None)"

definition radixOf :: "string \<Rightarrow> nat option" where
  "radixOf t =
    (if length t < 2 \<or> t ! 0 \<noteq> CHR ''0'' then None
     else if t ! 1 \<in> {CHR ''x'', CHR ''X''} then Some 16
     else if t ! 1 \<in> {CHR ''o'', CHR ''O''} then Some 8
     else if t ! 1 \<in> {CHR ''b'', CHR ''B''} then Some 2 else None)"

definition numberOf :: "string \<Rightarrow> js_number" where
  "numberOf s =
    (let t = trimText s
     in if t = [] then Finite 0
        else case radixOf t of
          Some b \<Rightarrow>
            (if drop 2 t = [] then NaN
             else case readRadix b 0 (drop 2 t) of None \<Rightarrow> NaN | Some n \<Rightarrow> toDouble (of_nat n))
        | None \<Rightarrow>
            (let negative = prefix ''-'' t; u = (if prefix ''-'' t \<or> prefix ''+'' t then drop 1 t else t)
             in if u = ''Infinity'' then Infinite negative
                else case unsignedDecimal u of None \<Rightarrow> NaN
                     | Some q \<Rightarrow> toDouble (if negative then - q else q)))"

text \<open>The value where \<open>Number.isSafeInteger\<close> holds.\<close>

definition safeInteger :: "js_number \<Rightarrow> int option" where
  "safeInteger x =
    (case x of Finite q \<Rightarrow>
       (if q = of_int \<lfloor>q\<rfloor> \<and> \<bar>\<lfloor>q\<rfloor>\<bar> \<le> MAX_SAFE_INTEGER then Some \<lfloor>q\<rfloor> else None)
     | _ \<Rightarrow> None)"

section \<open>The rounding is exact where it can be, and monotone\<close>

lemma bitLength_bounds: "0 < n \<Longrightarrow> 2 ^ (bitLength n - 1) \<le> n \<and> n < 2 ^ bitLength n \<and> 0 < bitLength n"
proof (induction n rule: less_induct)
  case (less n)
  show ?case
  proof (cases "n div 2 = 0")
    case True
    with less.prems have "n = 1" by auto
    then show ?thesis by (simp add: bitLength.simps[of "Suc 0"] bitLength.simps[of 0])
  next
    case False
    with less.IH[of "n div 2"] less.prems
    have h: "2 ^ (bitLength (n div 2) - 1) \<le> n div 2" "n div 2 < 2 ^ bitLength (n div 2)" "0 < bitLength (n div 2)" by auto
    obtain b where b: "bitLength (n div 2) = Suc b" using h(3) gr0_implies_Suc by blast
    have "bitLength n = Suc (Suc b)" using less.prems b by (subst bitLength.simps) simp
    have "2 ^ b \<le> n div 2" "n div 2 < 2 * 2 ^ b" using h b by simp_all
    then have "2 * 2 ^ b \<le> n" "n < 4 * 2 ^ b" by linarith+
    with \<open>bitLength n = _\<close> show ?thesis by simp
  qed
qed

lemma pow2_pos [simp]: "0 < pow2 k"
  by (simp add: pow2_def)

lemma pow2_add: "pow2 (a + b) = pow2 a * pow2 b"
  by (auto simp: pow2_def power_add[symmetric] nat_add_distrib[symmetric] field_simps)

lemma pow2_nat: "pow2 (int n) = 2 ^ n" and pow2_neg_nat: "pow2 (- int n) = 1 / 2 ^ n"
  by (auto simp: pow2_def)

lemma pow2_mono: "a \<le> b \<Longrightarrow> pow2 a \<le> pow2 b"
proof -
  assume "a \<le> b"
  then have "pow2 b = pow2 a * 2 ^ nat (b - a)" using pow2_add[of a "b - a"] by (simp add: pow2_def[of "b - a"])
  then show ?thesis using mult_left_mono[of 1 "2 ^ nat (b - a)" "pow2 a"] by simp
qed

lemma pow2_less_cancel: "pow2 a < pow2 b \<Longrightarrow> a < b"
  using pow2_mono[of b a] by linarith

lemma binade_bounds: "0 < q \<Longrightarrow> pow2 (binade q) \<le> q \<and> q < pow2 (binade q + 1)"
proof -
  assume q: "0 < q"
  obtain n d where nd: "quotient_of q = (n, d)" by force
  have d: "0 < d" using quotient_of_denom_pos[OF nd] .
  have qe: "q = of_int n / of_int d" using quotient_of_div[OF nd] .
  then have n: "0 < n" using q d by (simp add: zero_less_divide_iff)
  define a where "a = bitLength (nat n)"
  define b where "b = bitLength (nat d)"
  have A: "(2::nat) ^ (a - 1) \<le> nat n" "nat n < 2 ^ a" "0 < a" using bitLength_bounds[of "nat n"] n by (simp_all add: a_def)
  have B: "(2::nat) ^ (b - 1) \<le> nat d" "nat d < 2 ^ b" "0 < b" using bitLength_bounds[of "nat d"] d by (simp_all add: b_def)
  have nat_rat: "rat_of_nat (nat x) = of_int x" if "0 < x" for x using that by simp
  have A': "pow2 (int a - 1) \<le> of_int n" "of_int n < pow2 (int a)"
    using A of_nat_le_iff[of "2 ^ (a - 1)" "nat n", where ?'a = rat] of_nat_less_iff[of "nat n" "2 ^ a", where ?'a = rat] n
    by (simp_all add: pow2_def nat_diff_distrib)
  have B': "pow2 (int b - 1) \<le> of_int d" "of_int d < pow2 (int b)"
    using B of_nat_le_iff[of "2 ^ (b - 1)" "nat d", where ?'a = rat] of_nat_less_iff[of "nat d" "2 ^ b", where ?'a = rat] d
    by (simp_all add: pow2_def nat_diff_distrib)
  define e where "e = int a - int b"
  have dr: "0 < rat_of_int d" using d by simp
  have "pow2 (e - 1) * of_int d \<le> pow2 (e - 1) * pow2 (int b)" using B'(2) by (intro mult_left_mono) (auto simp: less_imp_le)
  also have "\<dots> = pow2 (int a - 1)" by (simp add: pow2_add[symmetric] e_def)
  finally have lo: "pow2 (e - 1) \<le> q" using A'(1) dr unfolding qe by (simp add: pos_le_divide_eq)
  have "pow2 (int a) = pow2 (e + 1) * pow2 (int b - 1)" by (simp add: pow2_add[symmetric] e_def)
  also have "\<dots> \<le> pow2 (e + 1) * of_int d" using B'(1) by (intro mult_left_mono) (auto simp: less_imp_le)
  finally have hi: "q < pow2 (e + 1)" using A'(2) dr unfolding qe by (simp add: pos_divide_less_eq)
  have "binade q = (if pow2 e \<le> q then e else e - 1)"
    by (simp add: binade_def nd Let_def e_def a_def b_def)
  then show ?thesis using lo hi by auto
qed

lemma binade_le: "0 < q \<Longrightarrow> q < pow2 (k + 1) \<Longrightarrow> binade q \<le> k"
  using binade_bounds[of q] pow2_less_cancel[of "binade q" "k + 1"] by fastforce

lemma binade_ge: "0 < q \<Longrightarrow> pow2 k \<le> q \<Longrightarrow> k \<le> binade q"
  using binade_bounds[of q] pow2_less_cancel[of k "binade q + 1"] by fastforce

lemma roundHalfEven_int [simp]: "roundHalfEven (of_int i) = i"
  by (simp add: roundHalfEven_def)

lemma roundHalfEven_near: "\<bar>of_int (roundHalfEven q) - q\<bar> \<le> 1 / 2"
proof -
  have "of_int \<lfloor>q\<rfloor> \<le> q" "q < of_int \<lfloor>q\<rfloor> + 1" by linarith+
  then show ?thesis by (auto simp: roundHalfEven_def Let_def abs_le_iff)
qed

lemma roundHalfEven_ge: "of_int i \<le> q \<Longrightarrow> i \<le> roundHalfEven q"
  by (auto simp: roundHalfEven_def Let_def le_floor_iff add_increasing2)

lemma roundHalfEven_le: "q \<le> of_int i \<Longrightarrow> roundHalfEven q \<le> i"
proof -
  assume q: "q \<le> of_int i"
  show ?thesis
  proof (cases "q = of_int i")
    case False
    then have "\<lfloor>q\<rfloor> < i" using q by (simp add: floor_less_iff)
    then show ?thesis by (auto simp: roundHalfEven_def Let_def)
  qed simp
qed

text \<open>Unit in the last place of what a rational rounds to.\<close>

definition ulpOf :: "rat \<Rightarrow> rat" where
  "ulpOf q = pow2 (max (- 1074) (binade \<bar>q\<bar> - 52))"

lemma toDouble_cases:
  assumes "q \<noteq> 0"
  obtains m where "m = roundHalfEven (\<bar>q\<bar> / ulpOf q)"
    "toDouble q = (if pow2 1024 \<le> of_int m * ulpOf q then Infinite (q < 0)
       else Finite (if q < 0 then - (of_int m * ulpOf q) else of_int m * ulpOf q))"
  using assms by (auto simp: toDouble_def ulpOf_def Let_def)

text \<open>Rounding errs by at most half a unit in the last place.\<close>

lemma toDouble_near:
  assumes "toDouble q = Finite v"
  shows "\<bar>v - q\<bar> \<le> ulpOf q / 2"
proof (cases "q = 0")
  case True
  then show ?thesis using assms by (simp add: toDouble_def ulpOf_def less_imp_le)
next
  case False
  obtain m where m: "m = roundHalfEven (\<bar>q\<bar> / ulpOf q)"
      "toDouble q = (if pow2 1024 \<le> of_int m * ulpOf q then Infinite (q < 0)
         else Finite (if q < 0 then - (of_int m * ulpOf q) else of_int m * ulpOf q))"
    using toDouble_cases[OF False] .
  have u: "0 < ulpOf q" by (simp add: ulpOf_def)
  have "\<bar>of_int m - \<bar>q\<bar> / ulpOf q\<bar> * ulpOf q \<le> 1 / 2 * ulpOf q"
    using roundHalfEven_near[of "\<bar>q\<bar> / ulpOf q"] u m(1) by (intro mult_right_mono) (simp_all add: less_imp_le)
  moreover have "of_int m * ulpOf q - \<bar>q\<bar> = (of_int m - \<bar>q\<bar> / ulpOf q) * ulpOf q" using u by (simp add: field_simps)
  ultimately have "\<bar>of_int m * ulpOf q - \<bar>q\<bar>\<bar> \<le> ulpOf q / 2" using u by (simp add: abs_mult)
  moreover have "v = (if q < 0 then - (of_int m * ulpOf q) else of_int m * ulpOf q)"
    using assms m(2) by (simp split: if_splits)
  ultimately show ?thesis by (auto simp: abs_if split: if_splits)
qed

lemma toDouble_int:
  assumes "\<bar>i\<bar> \<le> 2 ^ 53"
  shows "toDouble (of_int i) = Finite (of_int i)"
proof (cases "i = 0")
  case False
  define q :: rat where "q = of_int i"
  have q: "q \<noteq> 0" "0 < \<bar>q\<bar>" using False by (simp_all add: q_def)
  have small: "\<bar>q\<bar> \<le> 2 ^ 53" using assms unfolding q_def by (metis of_int_abs of_int_le_iff of_int_numeral of_int_power)
  have "\<exists>k. \<bar>q\<bar> = of_int k * ulpOf q"
  proof (cases "\<bar>q\<bar> = 2 ^ 53")
    case True
    then have "binade \<bar>q\<bar> = 53"
      using binade_le[of "\<bar>q\<bar>" 53] binade_ge[of "\<bar>q\<bar>" 53] by (simp add: pow2_def)
    then have "ulpOf q = 2" by (simp add: ulpOf_def pow2_def)
    then show ?thesis using True by (intro exI[of _ "2 ^ 52"]) simp
  next
    case False
    then have "\<bar>q\<bar> < pow2 (52 + 1)" using small by (simp add: pow2_def)
    then have b: "binade \<bar>q\<bar> \<le> 52" using q by (intro binade_le)
    have "1 \<le> \<bar>i\<bar>" using \<open>i \<noteq> 0\<close> by linarith
    then have "(1::rat) \<le> of_int \<bar>i\<bar>" by (simp only: of_int_1_le_iff)
    then have "pow2 0 \<le> \<bar>q\<bar>" by (simp add: q_def pow2_def)
    then have "0 \<le> binade \<bar>q\<bar>" using q by (intro binade_ge)
    with b obtain n :: nat where n: "ulpOf q = 1 / 2 ^ n"
      using pow2_neg_nat[of "nat (52 - binade \<bar>q\<bar>)"] by (simp add: ulpOf_def max_def)
    then show ?thesis by (intro exI[of _ "\<bar>i\<bar> * 2 ^ n"]) (simp add: q_def)
  qed
  then obtain k where k: "\<bar>q\<bar> = of_int k * ulpOf q" by blast
  have "0 < ulpOf q" by (simp add: ulpOf_def)
  then have u: "ulpOf q \<noteq> 0" by simp
  have kq: "roundHalfEven (\<bar>q\<bar> / ulpOf q) = k" using u by (simp add: k)
  have "pow2 54 \<le> pow2 1024" by (rule pow2_mono) simp
  with small have "\<not> pow2 1024 \<le> \<bar>q\<bar>" by (simp add: pow2_def[of 54])
  obtain m where m: "m = roundHalfEven (\<bar>q\<bar> / ulpOf q)"
      "toDouble q = (if pow2 1024 \<le> of_int m * ulpOf q then Infinite (q < 0)
         else Finite (if q < 0 then - (of_int m * ulpOf q) else of_int m * ulpOf q))"
    using toDouble_cases[OF q(1)] .
  have "of_int m * ulpOf q = \<bar>q\<bar>" using m(1) kq k by simp
  then have "toDouble q = Finite (if q < 0 then - \<bar>q\<bar> else \<bar>q\<bar>)"
    unfolding m(2) using \<open>\<not> pow2 1024 \<le> \<bar>q\<bar>\<close> by simp
  then have "toDouble q = Finite q" by (simp add: abs_if split: if_splits)
  then show ?thesis by (simp add: q_def)
qed (simp add: toDouble_def)

lemma toDouble_big:
  assumes "2 ^ 53 \<le> q"
  shows "case toDouble q of Finite v \<Rightarrow> 2 ^ 53 \<le> v | Infinite neg \<Rightarrow> \<not> neg | NaN \<Rightarrow> False"
proof -
  have q: "0 < q" using assms by (rule less_le_trans[rotated]) simp
  then have q0: "q \<noteq> 0" by simp
  have "pow2 53 \<le> q" using assms by (simp add: pow2_def)
  then have b: "53 \<le> binade q" using q by (intro binade_ge)
  then have u: "ulpOf q = pow2 (binade q - 52)" using q by (simp add: ulpOf_def)
  have "pow2 52 * ulpOf q = pow2 (binade q)" by (simp add: u pow2_add[symmetric])
  then have "pow2 52 * ulpOf q \<le> q" using binade_bounds[OF q] by simp
  then have "of_int (2 ^ 52) \<le> \<bar>q\<bar> / ulpOf q" using q by (simp add: u pos_le_divide_eq pow2_def[of 52])
  then have m: "2 ^ 52 \<le> roundHalfEven (\<bar>q\<bar> / ulpOf q)" by (rule roundHalfEven_ge)
  then have "(2::rat) ^ 52 \<le> of_int (roundHalfEven (\<bar>q\<bar> / ulpOf q))"
    by (metis of_int_le_iff of_int_numeral of_int_power)
  moreover have "2 \<le> ulpOf q" using pow2_mono[of 1 "binade q - 52"] b by (simp add: u pow2_def[of 1])
  ultimately have "2 ^ 52 * 2 \<le> of_int (roundHalfEven (\<bar>q\<bar> / ulpOf q)) * ulpOf q"
    by (intro mult_mono) auto
  then have big: "2 ^ 53 \<le> of_int (roundHalfEven (\<bar>q\<bar> / ulpOf q)) * ulpOf q" by simp
  obtain m where m: "m = roundHalfEven (\<bar>q\<bar> / ulpOf q)"
      "toDouble q = (if pow2 1024 \<le> of_int m * ulpOf q then Infinite (q < 0)
         else Finite (if q < 0 then - (of_int m * ulpOf q) else of_int m * ulpOf q))"
    using toDouble_cases[OF q0] .
  have "\<not> q < 0" using q by simp
  then show ?thesis unfolding m(2) using big m(1) by simp
qed

section \<open>Reading whole numbers\<close>

lemma safeInteger_Finite: "safeInteger (Finite (of_int i)) = (if \<bar>i\<bar> \<le> MAX_SAFE_INTEGER then Some i else None)"
  by (simp add: safeInteger_def)

lemma safeInteger_Some: "safeInteger x = Some i \<longleftrightarrow> x = Finite (of_int i) \<and> \<bar>i\<bar> \<le> MAX_SAFE_INTEGER"
  by (auto simp: safeInteger_def split: js_number.splits if_splits)

lemma safeInteger_toDouble:
  assumes "0 \<le> i"
  shows "safeInteger (toDouble (of_int i)) = (if i \<le> MAX_SAFE_INTEGER then Some i else None)"
proof (cases "i \<le> 2 ^ 53")
  case True
  then show ?thesis using assms by (simp add: toDouble_int safeInteger_Finite)
next
  case False
  then have "(2::int) ^ 53 \<le> i" by simp
  then have "(2::rat) ^ 53 \<le> of_int i" by (metis of_int_le_iff of_int_numeral of_int_power)
  from toDouble_big[OF this] have "safeInteger (toDouble (of_int i)) = None"
    by (auto simp: safeInteger_def MAX_SAFE_INTEGER_def split: js_number.splits if_splits)
  then show ?thesis using False by (simp add: MAX_SAFE_INTEGER_def)
qed

text \<open>A text of digits is read as the number it spells, and is a safe integer exactly when that number is.\<close>

lemma digits_trim: "list_all isDigit s \<Longrightarrow> trimText s = s"
proof (cases "s = []")
  case False
  moreover assume "list_all isDigit s"
  ultimately show ?thesis by (intro trimText_id) (simp_all add: list_all_iff isDigit_not_space)
qed (simp add: trimText_def)

lemma isDigit_signs [simp]: "\<not> isDigit (CHR ''+'')" "\<not> isDigit (CHR ''x'')" "\<not> isDigit (CHR ''X'')"
    "\<not> isDigit (CHR ''o'')" "\<not> isDigit (CHR ''O'')" "\<not> isDigit (CHR ''b'')" "\<not> isDigit (CHR ''B'')"
    "\<not> isDigit (CHR ''I'')" "\<not> isDigit (CHR ''e'')" "\<not> isDigit (CHR ''E'')"
  by (simp_all add: isDigit_def digitVal_def)

lemma numberOf_digits:
  assumes "list_all isDigit s" "s \<noteq> []" "readDigits 0 s = Some n"
  shows "numberOf s = toDouble (of_nat n)"
proof -
  obtain c t where c: "s = c # t" "isDigit c" using assms by (cases s) auto
  have "radixOf s = None"
  proof (cases t)
    case (Cons d u)
    then have "isDigit d" using assms(1) c(1) by simp
    then show ?thesis using Cons c(1) by (auto simp: radixOf_def)
  qed (simp add: radixOf_def c(1))
  moreover have "s \<noteq> ''Infinity''" "\<not> prefix ''-'' s" "\<not> prefix ''+'' s" using c by (auto simp: prefix_def)
  moreover have tw: "takeWhile isDigit s = s" and dw: "dropWhile isDigit s = []"
    using assms(1) by (simp_all add: list_all_iff takeWhile_eq_all_conv)
  have "unsignedDecimal s = Some (of_nat n)"
    unfolding unsignedDecimal_def tw dw Let_def using assms(2,3) by (simp add: exponentOf_def)
  ultimately show ?thesis using assms by (simp add: numberOf_def digits_trim Let_def)
qed

lemma safeInteger_digits:
  assumes "list_all isDigit s" "s \<noteq> []" "readDigits 0 s = Some n"
  shows "safeInteger (numberOf s) = (if int n \<le> MAX_SAFE_INTEGER then Some (int n) else None)"
  using safeInteger_toDouble[of "int n"] by (simp add: numberOf_digits[OF assms])

lemma safeInteger_showNat:
  "safeInteger (numberOf (showNat n)) = (if int n \<le> MAX_SAFE_INTEGER then Some (int n) else None)"
  by (rule safeInteger_digits) (simp_all add: showNat_digits)

end
