(* ===== verification/Http_Routes.thy ===== *)
theory Http_Routes
  imports Api_Routes Referral Js_Number
begin

text \<open>
  The routes as a request reaches them: the query parameters of \<open>api/api.controller.ts\<close> in front of the routes
  of \<open>Api_Routes\<close>, the referrals page of \<open>api/referrals.controller.ts\<close>, the list of invites of
  \<open>api/access.controller.ts\<close>, and the error reports of \<open>api/error-report.controller.ts\<close> with the browser's
  side of them (\<open>web/src/errorReport.ts\<close>).

  A query parameter is its text, or \<open>None\<close> when it is absent. A number in a query is read as the language reads
  it (\<open>Js_Number\<close>). Dates stay in seconds, as the database holds them.
\<close>

section \<open>Query parameters\<close>

definition MAX_LIMIT :: nat where "MAX_LIMIT = 100"

text \<open>The value where \<open>Number.isInteger\<close> holds.\<close>

definition integerOf :: "js_number \<Rightarrow> int option" where
  "integerOf x = (case x of Finite q \<Rightarrow> if q = of_int \<lfloor>q\<rfloor> then Some \<lfloor>q\<rfloor> else None | _ \<Rightarrow> None)"

definition parseLimit :: "string option \<Rightarrow> nat \<Rightarrow> nat http" where
  "parseLimit raw fallback =
    (case raw of None \<Rightarrow> Inr fallback
     | Some s \<Rightarrow>
         (case integerOf (numberOf s) of
            None \<Rightarrow> Inl (BadRequest ''`limit` must be a whole number of 1 or more.'')
          | Some n \<Rightarrow> if n < 1 then Inl (BadRequest ''`limit` must be a whole number of 1 or more.'')
                      else Inr (nat (min n (int MAX_LIMIT)))))"

definition MAX_REFERRALS_PAGE_SIZE :: nat where "MAX_REFERRALS_PAGE_SIZE = 200"

definition parseReferralsLimit :: "string option \<Rightarrow> nat option" where
  "parseReferralsLimit raw =
    (case raw of None \<Rightarrow> None
     | Some s \<Rightarrow>
         (case integerOf (numberOf s) of None \<Rightarrow> None
          | Some n \<Rightarrow> if n > 0 then Some (nat (min n (int MAX_REFERRALS_PAGE_SIZE))) else None))"

section \<open>The read routes\<close>

fun withParsed :: "'a http \<Rightarrow> ('a \<Rightarrow> 'b answer) \<Rightarrow> 'b answer" where
  "withParsed (Inl e) f = Inl (Http e)"
| "withParsed (Inr x) f = f x"

definition epochsRoute :: "api_config \<Rightarrow> string option \<Rightarrow> read_model \<Rightarrow> epoch_row list answer" where
  "epochsRoute cfg limit m = withParsed (parseLimit limit 20) (\<lambda>n. Inr (getEpochs cfg n m))"

definition roundsRoute :: "api_config \<Rightarrow> string option \<Rightarrow> read_model \<Rightarrow> round_row list answer" where
  "roundsRoute cfg limit m = withParsed (parseLimit limit 50) (\<lambda>n. Inr (getRounds cfg n m))"

definition roundRoute :: "api_config \<Rightarrow> string \<Rightarrow> read_model \<Rightarrow> round_row answer" where
  "roundRoute cfg i m = withParsed (parseRoundId i) (\<lambda>n. getRound cfg n m)"

definition playerRoute ::
    "api_config \<Rightarrow> api_reads \<Rightarrow> string \<Rightarrow> read_model \<Rightarrow> api_service
      \<Rightarrow> (player_dto \<times> ticket_extras \<times> int \<times> int) answer \<times> api_service" where
  "playerRoute cfg rd owner m s =
    (case parseOwner cfg owner of Inl e \<Rightarrow> (Inl (Http e), s) | Inr o1 \<Rightarrow> getPlayer cfg rd o1 m s)"

definition leaderboardRoute ::
    "api_config \<Rightarrow> api_reads \<Rightarrow> string option \<Rightarrow> read_model \<Rightarrow> api_service \<Rightarrow> leader list answer \<times> api_service" where
  "leaderboardRoute cfg rd limit m s =
    (case parseLimit limit 20 of Inl e \<Rightarrow> (Inl (Http e), s) | Inr n \<Rightarrow> getLeaderboard cfg rd n m s)"

text \<open>An empty \<open>owner\<close> is falsy and counts as none.\<close>

definition ownerParam :: "api_config \<Rightarrow> string option \<Rightarrow> string option http" where
  "ownerParam cfg owner =
    (case owner of None \<Rightarrow> Inr None
     | Some s \<Rightarrow> if s = [] then Inr None else hbind (parseOwner cfg s) (\<lambda>o1. Inr (Some o1)))"

definition feedRoute :: "api_config \<Rightarrow> string option \<Rightarrow> string option \<Rightarrow> read_model \<Rightarrow> event_row list http" where
  "feedRoute cfg limit owner m =
    hbind (parseLimit limit 50) (\<lambda>n. hbind (ownerParam cfg owner) (\<lambda>o1. Inr (getFeed cfg n o1 m)))"

definition countsRoute :: "api_config \<Rightarrow> string option \<Rightarrow> read_model \<Rightarrow> (string \<rightharpoonup> nat) http" where
  "countsRoute cfg owners m = hbind (parseOwners cfg owners) (\<lambda>os. Inr (getPositionCounts cfg os m))"

definition roundParam :: "string option \<Rightarrow> int option http" where
  "roundParam r = (case r of None \<Rightarrow> Inr None | Some s \<Rightarrow> hbind (parseRoundId s) (\<lambda>i. Inr (Some i)))"

definition stateRoute ::
    "api_config \<Rightarrow> api_reads \<Rightarrow> string option \<Rightarrow> string option \<Rightarrow> api_db \<Rightarrow> api_service \<Rightarrow> api_state answer \<times> api_service" where
  "stateRoute cfg rd owner roundText db s =
    (case hbind (ownerParam cfg owner) (\<lambda>o1. hbind (roundParam roundText) (\<lambda>r. Inr (o1, r))) of
       Inl e \<Rightarrow> (Inl (Http e), s)
     | Inr (o1, r) \<Rightarrow> getState cfg rd o1 r db s)"

section \<open>The referrals page\<close>

definition DEFAULT_REFERRALS_PAGE_SIZE :: nat where "DEFAULT_REFERRALS_PAGE_SIZE = 50"

definition bonusGrant :: "string \<Rightarrow> int option \<Rightarrow> string \<Rightarrow> read_model \<Rightarrow> grant_row option" where
  "bonusGrant pool epochId referrer m =
    (case epochId of None \<Rightarrow> None
     | Some e \<Rightarrow> findUnique (\<lambda>g. (gr_poolAddress g, gr_epochId g, gr_referrer g)) (pool, e, referrer) (db_grants m))"

definition referralShares :: "string \<Rightarrow> int option \<Rightarrow> string \<Rightarrow> read_model \<Rightarrow> (string \<rightharpoonup> int)" where
  "referralShares pool epochId referrer m =
    (case epochId of None \<Rightarrow> Map.empty
     | Some e \<Rightarrow> map_of (rev (map (\<lambda>s. (gs_referee s, gs_amount s))
         (filter (\<lambda>s. gs_poolAddress s = pool \<and> gs_epochId s = e \<and> gs_referrer s = referrer) (db_shares m)))))"

definition referralInputs :: "string \<Rightarrow> string \<Rightarrow> read_model \<Rightarrow> referral_input list" where
  "referralInputs pool wallet m =
    (let epochId = map_option pr_currentEpochId (findUnique pr_address pool (db_pools m));
         shares = referralShares pool epochId wallet m
     in map (\<lambda>r. \<lparr>ri_referee = rl_referee r, ri_aboveSince = rl_aboveSince r, ri_boundAt = rl_boundAt r,
                     ri_bonusToday = (case shares (rl_referee r) of None \<Rightarrow> 0 | Some a \<Rightarrow> a)\<rparr>)
          (filter (\<lambda>r. rl_referrer r = wallet) (db_referrals m)))"

definition grantToday :: "string \<Rightarrow> string \<Rightarrow> read_model \<Rightarrow> int \<times> int" where
  "grantToday pool wallet m =
    (case bonusGrant pool (map_option pr_currentEpochId (findUnique pr_address pool (db_pools m))) wallet m of
       None \<Rightarrow> (0, 0) | Some g \<Rightarrow> (gr_amount g, gr_uncapped g))"

text \<open>\<open>None\<close> is the draw of a code that never ends.\<close>

definition getReferrals ::
    "access_env \<Rightarrow> (nat \<Rightarrow> nat) \<Rightarrow> int \<Rightarrow> string \<Rightarrow> int \<Rightarrow> string \<Rightarrow> string option \<Rightarrow> string option \<Rightarrow> access_db
      \<Rightarrow> (referrals_response \<times> access_db) option http" where
  "getReferrals env randomInt nowMs ellipsis qualifySeconds walletRaw cursorRaw limitRaw db =
    hbind (parseWallet env walletRaw) (\<lambda>key.
      let wallet = ae_toBase58 env key; now = nowMs div 1000; pool = ae_poolAddress env; m = ab_model db in
      Inr (case referralCodeFor randomInt now wallet db of
             None \<Rightarrow> None
           | Some (code, db') \<Rightarrow>
               Some (buildReferralsResponse ellipsis code (referralInputs pool wallet m) now qualifySeconds (grantToday pool wallet m)
                       cursorRaw (case parseReferralsLimit limitRaw of None \<Rightarrow> DEFAULT_REFERRALS_PAGE_SIZE | Some n \<Rightarrow> n), db')))"

section \<open>The list of invites\<close>

record invite_listing =
  li_code :: string
  li_owner :: "string option"
  li_maxUses :: int
  li_uses :: int
  li_createdAt :: int
  li_redeemed :: bool
  li_redemptions :: "(string \<times> int) list"

fun byCode :: "(string \<rightharpoonup> (string \<times> int) list) \<Rightarrow> redemption_row list \<Rightarrow> (string \<rightharpoonup> (string \<times> int) list)" where
  "byCode t [] = t"
| "byCode t (r # rs) =
    byCode (t(id_code r \<mapsto> (case t (id_code r) of None \<Rightarrow> [] | Some xs \<Rightarrow> xs) @ [(id_wallet r, id_redeemedAt r)])) rs"

text \<open>Newest first; codes made in the same second keep the table's order.\<close>

definition listInvites :: "access_env \<Rightarrow> string option \<Rightarrow> access_db \<Rightarrow> invite_listing list http" where
  "listInvites env key db =
    hbind (requireAdminKey env key) (\<lambda>_.
      let t = byCode Map.empty (ab_redemptions db) in
      Inr (map (\<lambda>c. \<lparr>li_code = ic_code c, li_owner = ic_ownerWallet c, li_maxUses = ic_maxUses c, li_uses = ic_uses c,
                       li_createdAt = ic_createdAt c, li_redeemed = ic_maxUses c \<le> ic_uses c,
                       li_redemptions = (case t (ic_code c) of None \<Rightarrow> [] | Some xs \<Rightarrow> xs)\<rparr>)
             (sort_key (\<lambda>c. - ic_createdAt c) (ab_invites db))))"

section \<open>Error reports\<close>

definition MAX_LEN :: nat where "MAX_LEN = 2000"

record error_report =
  xr_code :: string
  xr_message :: string
  xr_signature :: "string option"
  xr_wallet :: "string option"
  xr_page :: "string option"

definition optionalString :: "json option \<Rightarrow> string option" where
  "optionalString v = (case v of Some (JString s) \<Rightarrow> if s \<noteq> [] then Some (take MAX_LEN s) else None | _ \<Rightarrow> None)"

definition parseErrorReport :: "json \<Rightarrow> error_report http" where
  "parseErrorReport body =
    (case stringField body ''code'' of
       None \<Rightarrow> Inl (BadRequest ''Send a JSON body with a `code` string.'')
     | Some code \<Rightarrow>
         if code = [] then Inl (BadRequest ''Send a JSON body with a `code` string.'')
         else (case stringField body ''message'' of
                 None \<Rightarrow> Inl (BadRequest ''Send a JSON body with a `message` string.'')
               | Some message \<Rightarrow>
                   if message = [] then Inl (BadRequest ''Send a JSON body with a `message` string.'')
                   else Inr \<lparr>xr_code = take 200 code, xr_message = take MAX_LEN message,
                              xr_signature = optionalString (jsonField body ''signature''),
                              xr_wallet = optionalString (jsonField body ''wallet''),
                              xr_page = optionalString (jsonField body ''page'')\<rparr>))"

text \<open>The line logged and the table after it.\<close>

definition createErrorReport :: "json \<Rightarrow> error_report list \<Rightarrow> (string \<times> error_report list) http" where
  "createErrorReport body t =
    hbind (parseErrorReport body) (\<lambda>r. Inr (''error report '' @ xr_code r @ '': '' @ xr_message r, t @ [r]))"

text \<open>What the browser posts: \<open>JSON.stringify\<close> leaves out a field that is undefined.\<close>

definition currentPage :: "(string \<times> string) option \<Rightarrow> string option" where
  "currentPage location = (case location of None \<Rightarrow> None | Some (hash, path) \<Rightarrow> Some (if hash \<noteq> [] then hash else path))"

definition reportBody :: "error_report \<Rightarrow> json" where
  "reportBody r =
    (let given = (\<lambda>k v. case v of None \<Rightarrow> [] | Some s \<Rightarrow> [(k, JString s)]) in
     JObject ([(''code'', JString (xr_code r)), (''message'', JString (xr_message r))] @
       given ''signature'' (xr_signature r) @ given ''wallet'' (xr_wallet r) @ given ''page'' (xr_page r)))"

end
