(* ===== verification/Http_Routes_Laws.thy ===== *)
theory Http_Routes_Laws
  imports Http_Routes Access_Laws Referral_Laws
begin

text \<open>
  What a request can rely on: bounded answers, pages that list every referral once (and what their cursors
  disclose), a list of invites that agrees with the books of the gate, and error reports that arrive as they
  were sent.
\<close>

section \<open>Limits\<close>

lemma integerOf_Finite [simp]: "integerOf (Finite (of_int i)) = Some i"
  by (simp add: integerOf_def)

lemma integerOf_showNat: "int n \<le> MAX_SAFE_INTEGER \<Longrightarrow> integerOf (numberOf (showNat n)) = Some (int n)"
proof -
  assume "int n \<le> MAX_SAFE_INTEGER"
  then have "safeInteger (numberOf (showNat n)) = Some (int n)" by (simp add: safeInteger_showNat)
  then have "numberOf (showNat n) = Finite (of_int (int n))" unfolding safeInteger_Some by blast
  then show ?thesis by (simp only: integerOf_Finite)
qed

lemma parseLimit_showNat: "1 \<le> n \<Longrightarrow> int n \<le> MAX_SAFE_INTEGER \<Longrightarrow> parseLimit (Some (showNat n)) d = Inr (min n MAX_LIMIT)"
  by (simp add: parseLimit_def integerOf_showNat min_def)

lemma parseLimit_bounded: "parseLimit raw d = Inr n \<Longrightarrow> 1 \<le> d \<Longrightarrow> d \<le> MAX_LIMIT \<Longrightarrow> 1 \<le> n \<and> n \<le> MAX_LIMIT"
  by (auto simp: parseLimit_def MAX_LIMIT_def split: option.splits if_splits)

lemma withParsed_Inr: "withParsed r f = Inr y \<longleftrightarrow> (\<exists>x. r = Inr x \<and> f x = Inr y)"
  by (cases r) auto

text \<open>No query, however it is written, makes a list route answer with more than a hundred rows.\<close>

theorem list_routes_are_bounded:
  "case epochsRoute cfg limit m of Inr es \<Rightarrow> length es \<le> 100 | Inl _ \<Rightarrow> True"
  "case roundsRoute cfg limit m of Inr rs \<Rightarrow> length rs \<le> 100 | Inl _ \<Rightarrow> True"
  "case feedRoute cfg limit owner m of Inr vs \<Rightarrow> length vs \<le> 100 | Inl _ \<Rightarrow> True"
  "case fst (leaderboardRoute cfg rd limit m s) of Inr ls \<Rightarrow> length ls \<le> 100 | Inl _ \<Rightarrow> True"
proof -
  have b: "n \<le> 100" if "parseLimit limit d = Inr n" "d \<in> {20, 50}" for n d
    using parseLimit_bounded[OF that(1)] that(2) by (auto simp: MAX_LIMIT_def)
  show "case epochsRoute cfg limit m of Inr es \<Rightarrow> length es \<le> 100 | Inl _ \<Rightarrow> True"
    by (cases "parseLimit limit 20") (auto simp: epochsRoute_def getEpochs_def dest!: b)
  show "case roundsRoute cfg limit m of Inr rs \<Rightarrow> length rs \<le> 100 | Inl _ \<Rightarrow> True"
    by (cases "parseLimit limit 50") (auto simp: roundsRoute_def getRounds_def dest!: b)
  show "case feedRoute cfg limit owner m of Inr vs \<Rightarrow> length vs \<le> 100 | Inl _ \<Rightarrow> True"
    by (cases "parseLimit limit 50"; cases "ownerParam cfg owner") (auto simp: feedRoute_def getFeed_def dest!: b)
  show "case fst (leaderboardRoute cfg rd limit m s) of Inr ls \<Rightarrow> length ls \<le> 100 | Inl _ \<Rightarrow> True"
  proof (cases "parseLimit limit 20")
    case (Inr n)
    obtain r s' where l: "liveWeights cfg rd m s = (r, s')" by fastforce
    show ?thesis using Inr l b[OF Inr]
      by (cases r) (auto simp: leaderboardRoute_def getLeaderboard_def rankLeaders_def)
  qed (simp add: leaderboardRoute_def)
qed

section \<open>Pages of referrals\<close>

text \<open>A client that follows the cursor from page to page.\<close>

fun pagedWalk ::
    "nat \<Rightarrow> (string option \<Rightarrow> access_db \<Rightarrow> (referrals_response \<times> access_db) option http) \<Rightarrow> string option \<Rightarrow> access_db
      \<Rightarrow> referrals_response list" where
  "pagedWalk 0 ask cursor db = []"
| "pagedWalk (Suc n) ask cursor db =
    (case ask cursor db of
       Inr (Some (r, db')) \<Rightarrow>
         r # (case rp_nextCursor r of None \<Rightarrow> [] | Some c \<Rightarrow> pagedWalk n ask (Some c) db')
     | _ \<Rightarrow> [])"

definition itemOf :: "string \<Rightarrow> int \<Rightarrow> int \<Rightarrow> referral_input \<Rightarrow> referral_item" where
  "itemOf ellipsis now qualifySeconds r =
    (let status = referralStatus (ri_aboveSince r) now qualifySeconds in
     \<lparr>it_wallet = maskWallet ellipsis (ri_referee r), it_status = status,
      it_daysLeft = (if status = Holding then daysToQualify (ri_aboveSince r) now qualifySeconds else None),
      it_bonusToday = ri_bonusToday r, it_joinedAt = ri_boundAt r\<rparr>)"

lemma response_items:
  "rp_items (buildReferralsResponse ell code rs now q bonus cursor limit) =
     map (itemOf ell now q) (fst (paginateReferrals rs cursor limit))"
  "rp_nextCursor (buildReferralsResponse ell code rs now q bonus cursor limit) = snd (paginateReferrals rs cursor limit)"
  by (simp_all add: buildReferralsResponse_def itemOf_def Let_def split: prod.split)

lemma referralCodeFor_settles:
  assumes "referralCodeFor rnd now w db = Some (c, d)"
  shows "referralCodeFor rnd now w d = Some (c, d) \<and> ab_model d = ab_model db"
proof (cases "findUnique rk_owner w (ab_codes db)")
  case None
  show ?thesis
  proof (cases "findUnique id_wallet w (ab_redemptions db) = None")
    case False
    then obtain code where c: "c = Some code" "ensureReferralCode rnd now w db = Some (code, d)"
      using assms None by (auto simp: referralCodeFor_def)
    then have "d = db\<lparr>ab_codes := ab_codes db @ [\<lparr>rk_code = code, rk_owner = w, rk_createdAt = now\<rparr>]\<rparr>"
      using None by (auto simp: ensureReferralCode_def split: option.splits)
    moreover from this have "findUnique rk_owner w (ab_codes d) = Some \<lparr>rk_code = code, rk_owner = w, rk_createdAt = now\<rparr>"
      using None by (simp add: findUnique_def find_append)
    ultimately show ?thesis using c(1) by (simp add: referralCodeFor_def)
  qed (use assms None in \<open>simp add: referralCodeFor_def\<close>)
qed (use assms in \<open>auto simp: referralCodeFor_def\<close>)

lemma pagedWalk_pages:
  assumes ask: "\<And>cursor d. ab_model d = ab_model db \<Longrightarrow> P d \<Longrightarrow>
      \<exists>r d'. ask cursor d = Inr (Some (r, d')) \<and> rp_items r = map f (fst (paginateReferrals rs cursor limit)) \<and>
        rp_nextCursor r = snd (paginateReferrals rs cursor limit) \<and> ab_model d' = ab_model db \<and> P d'"
    and "ab_model d = ab_model db" "P d"
  shows "map rp_items (pagedWalk n ask cursor d) = map (map f) (pagesFrom n rs cursor limit)"
  using assms(2,3)
proof (induction n arbitrary: cursor d)
  case (Suc n)
  obtain r d' where r: "ask cursor d = Inr (Some (r, d'))" "rp_items r = map f (fst (paginateReferrals rs cursor limit))"
      "rp_nextCursor r = snd (paginateReferrals rs cursor limit)" "ab_model d' = ab_model db" "P d'"
    using ask[OF Suc.prems] by blast
  show ?case
    using r Suc.IH[OF r(4,5)] by (cases "paginateReferrals rs cursor limit"; cases "snd (paginateReferrals rs cursor limit)") simp_all
qed simp

lemma referralInputs_distinct: "uniqueBy rl_referee (db_referrals m) \<Longrightarrow> distinct (map ri_referee (referralInputs pool w m))"
  by (simp add: referralInputs_def uniqueBy_def Let_def o_def distinct_map_filter)

lemma referralsLimit_positive: "0 < (case parseReferralsLimit raw of None \<Rightarrow> DEFAULT_REFERRALS_PAGE_SIZE | Some n \<Rightarrow> n)"
  by (auto simp: parseReferralsLimit_def DEFAULT_REFERRALS_PAGE_SIZE_def MAX_REFERRALS_PAGE_SIZE_def split: option.splits)

text \<open>Whatever limit the query asks for, following the cursors of a wallet's page lists each of its referrals exactly
  once, newest first, with the wallet masked; the first request may mint the wallet's code, and nothing else changes.\<close>

theorem referral_pages_list_everybody:
  assumes "accessOk db" "ae_parseKey env raw = Some key" "referralCodeFor rnd (nowMs div 1000) (ae_toBase58 env key) db \<noteq> None"
  defines "rows \<equiv> referralInputs (ae_poolAddress env) (ae_toBase58 env key) (ab_model db)"
  shows "concat (map rp_items (pagedWalk (length rows + 1)
      (\<lambda>cursor. getReferrals env rnd nowMs ell q raw cursor limit) None db)) =
    map (itemOf ell (nowMs div 1000) q) (sortReferrals rows) \<and>
    mset (map ri_referee rows) = mset (map rl_referee (filter (\<lambda>r. rl_referrer r = ae_toBase58 env key) (db_referrals (ab_model db))))"
proof -
  let ?w = "ae_toBase58 env key" and ?now = "nowMs div 1000"
  let ?n = "case parseReferralsLimit limit of None \<Rightarrow> DEFAULT_REFERRALS_PAGE_SIZE | Some n \<Rightarrow> n"
  let ?P = "\<lambda>d. referralCodeFor rnd ?now ?w d \<noteq> None"
  have "\<exists>r d'. getReferrals env rnd nowMs ell q raw cursor limit d = Inr (Some (r, d')) \<and>
      rp_items r = map (itemOf ell ?now q) (fst (paginateReferrals rows cursor ?n)) \<and>
      rp_nextCursor r = snd (paginateReferrals rows cursor ?n) \<and> ab_model d' = ab_model db \<and> ?P d'"
    if model: "ab_model d = ab_model db" and P: "?P d" for cursor d
  proof -
    obtain c d' where c: "referralCodeFor rnd ?now ?w d = Some (c, d')" using P by auto
    have "parseWallet env raw = Inr key" using assms(2) by (simp add: parseWallet_def)
    then show ?thesis
      using c model referralCodeFor_settles[OF c] by (simp add: getReferrals_def Let_def response_items rows_def)
  qed
  then have "map rp_items (pagedWalk (length rows + 1) (\<lambda>cursor. getReferrals env rnd nowMs ell q raw cursor limit) None db) =
      map (map (itemOf ell ?now q)) (pagesFrom (length rows + 1) rows None ?n)"
    using assms(3) by (intro pagedWalk_pages[where P = ?P and db = db]) auto
  moreover have "distinct (map ri_referee rows)"
    using assms(1) unfolding rows_def accessOk_def by (intro referralInputs_distinct) blast
  then have "concat (pagesFrom (length rows + 1) rows None ?n) = sortReferrals rows"
    using pagesFrom_concat[of rows ?n 0 "length rows + 1"] referralsLimit_positive by (simp add: cursorAt_def)
  ultimately show ?thesis
    by (simp add: map_concat[symmetric] rows_def referralInputs_def Let_def o_def)
qed

definition pagedGate :: access_db where
  "pagedGate = demoGate\<lparr>ab_redemptions := [\<lparr>id_wallet = ''W'', id_code = ''INVITEAA'', id_redeemedAt = 5\<rparr>],
     ab_invites := [\<lparr>ic_code = ''INVITEAA'', ic_ownerWallet = None, ic_maxUses = 2, ic_uses = 1, ic_createdAt = 0\<rparr>],
     ab_model := (ab_model demoGate)\<lparr>db_referrals :=
       [\<lparr>rl_referee = ''R1'', rl_referrer = ''W'', rl_code = ''C'', rl_boundAt = 7, rl_aboveSince = None, rl_principal = 0\<rparr>,
        \<lparr>rl_referee = ''R2'', rl_referrer = ''W'', rl_code = ''C'', rl_boundAt = 9, rl_aboveSince = Some 9, rl_principal = 60000000\<rparr>]\<rparr>\<rparr>"

theorem referral_pages_list_everybody_witness:
  "map it_wallet (concat (map rp_items (pagedWalk 3
      (\<lambda>cursor. getReferrals demoAccess demoDraws 20000 [] 604800 ''W'' cursor (Some ''1'')) None pagedGate))) = [''R2'', ''R1'']"
proof -
  let ?rows = "referralInputs ''pool'' ''W'' (ab_model pagedGate)"
  have ok: "accessOk pagedGate" by code_simp
  have key: "ae_parseKey demoAccess ''W'' = Some [87]" "ae_toBase58 demoAccess [87] = ''W''" by code_simp+
  have "freshCode pagedGate (generateInviteCode demoDraws 0)" by code_simp
  then have "generateReferralCode demoDraws pagedGate 0 \<noteq> None" using generateReferralCode_terminates[of pagedGate demoDraws 0 0] by auto
  then have code: "referralCodeFor demoDraws (20000 div 1000) (ae_toBase58 demoAccess [87]) pagedGate \<noteq> None"
    unfolding key(2) by (auto simp: referralCodeFor_def ensureReferralCode_def split: option.splits)
  have rows: "map (it_wallet \<circ> itemOf [] 20 604800) (sortReferrals ?rows) = [''R2'', ''R1'']" "length ?rows = 2"
    by code_simp+
  have pool: "ae_poolAddress demoAccess = ''pool''" by (simp add: demoAccess_def)
  show ?thesis
    using referral_pages_list_everybody[OF ok key(1) code, of "[]" 604800 "Some ''1''"] rows
    unfolding key(2) pool by (simp add: numeral_3_eq_3)
qed

text \<open>The rows mask the referee's wallet; the cursor to the next page is the wallet itself, in full.\<close>

lemma cursor_discloses_wallet:
  assumes "rp_nextCursor (buildReferralsResponse ell code rs now q bonus cursor limit) = Some c" "0 < limit"
  shows "\<exists>r \<in> set rs. c = ri_referee r \<and>
    it_wallet (last (rp_items (buildReferralsResponse ell code rs now q bonus cursor limit))) = maskWallet ell c"
proof -
  obtain page where p: "paginateReferrals rs cursor limit = (page, Some c)"
    using assms(1) unfolding response_items by (cases "paginateReferrals rs cursor limit") auto
  then have "page \<noteq> []" "c = ri_referee (last page)" "set page \<subseteq> set (sortReferrals rs)"
    using assms(2) by (auto simp: paginateReferrals_def Let_def dest!: in_set_takeD in_set_dropD split: if_splits)
  moreover from this have "last page \<in> set rs"
    using last_in_set[of page] mset_eq_setD[OF sortReferrals_mset[of rs]] by blast
  ultimately show ?thesis unfolding response_items p by (auto simp: last_map itemOf_def Let_def)
qed

section \<open>The list of invites\<close>

lemma byCode_get: "byCode t rs c =
    (if filter (\<lambda>r. id_code r = c) rs = [] then t c
     else Some ((case t c of None \<Rightarrow> [] | Some xs \<Rightarrow> xs) @
       map (\<lambda>r. (id_wallet r, id_redeemedAt r)) (filter (\<lambda>r. id_code r = c) rs)))"
  by (induction rs arbitrary: t) (simp_all split: option.splits)

lemma listed_redemptions:
  "(case byCode Map.empty (ab_redemptions db) c of None \<Rightarrow> [] | Some xs \<Rightarrow> xs) =
     map (\<lambda>r. (id_wallet r, id_redeemedAt r)) (redemptionsOf c db)"
  by (simp add: byCode_get redemptionsOf_def)

lemma redemptions_by_code:
  assumes "distinct cs" "\<forall>d \<in> set ds. id_code d \<in> set cs"
  shows "mset (concat (map (\<lambda>c. filter (\<lambda>d. id_code d = c) ds) cs)) = mset ds"
  using assms
proof (induction cs arbitrary: ds)
  case (Cons c cs)
  have "mset (concat (map (\<lambda>c'. filter (\<lambda>d. id_code d = c') (filter (\<lambda>d. id_code d \<noteq> c) ds)) cs)) = mset (filter (\<lambda>d. id_code d \<noteq> c) ds)"
    using Cons.prems by (intro Cons.IH) auto
  moreover have "map (\<lambda>c'. filter (\<lambda>d. id_code d = c') (filter (\<lambda>d. id_code d \<noteq> c) ds)) cs = map (\<lambda>c'. filter (\<lambda>d. id_code d = c') ds) cs"
    using Cons.prems(1) by (intro map_cong refl) (auto intro!: filter_cong)
  moreover have "mset (filter (\<lambda>d. id_code d = c) ds) + mset (filter (\<lambda>d. id_code d \<noteq> c) ds) = mset ds"
    by (induction ds) auto
  ultimately show ?case by (simp del: filter_filter mset_filter)
qed simp

text \<open>After any sequence of requests, the list the admin reads is the whole truth: every code with as many
  redemptions as uses, never more than it may have, flagged exactly when it is spent, and every redemption under
  the one code it spent.\<close>

theorem invite_list_is_the_books:
  assumes "access_reach env db" "listInvites env key db = Inr ls"
  shows "(\<forall>l \<in> set ls. int (length (li_redemptions l)) = li_uses l \<and> li_uses l \<le> li_maxUses l \<and>
      (li_redeemed l \<longleftrightarrow> li_uses l = li_maxUses l)) \<and>
    mset (map li_code ls) = mset (map ic_code (ab_invites db)) \<and>
    mset (concat (map li_redemptions ls)) = mset (map (\<lambda>r. (id_wallet r, id_redeemedAt r)) (ab_redemptions db))"
proof -
  have ok: "accessOk db" by (rule access_reach_ok[OF assms(1)])
  let ?cs = "sort_key (\<lambda>c. - ic_createdAt c) (ab_invites db)"
  let ?pair = "\<lambda>r. (id_wallet r, id_redeemedAt r)"
  have ls: "ls = map (\<lambda>c. \<lparr>li_code = ic_code c, li_owner = ic_ownerWallet c, li_maxUses = ic_maxUses c, li_uses = ic_uses c,
      li_createdAt = ic_createdAt c, li_redeemed = ic_maxUses c \<le> ic_uses c,
      li_redemptions = map ?pair (redemptionsOf (ic_code c) db)\<rparr>) ?cs"
    using assms(2) by (auto simp: listInvites_def hbind_Inr_iff Let_def listed_redemptions)
  have "\<forall>l \<in> set ls. int (length (li_redemptions l)) = li_uses l \<and> li_uses l \<le> li_maxUses l \<and> (li_redeemed l \<longleftrightarrow> li_uses l = li_maxUses l)"
    using ok unfolding ls by (fastforce simp: accessOk_def usesCounted_def)
  moreover have "map li_code ls = map ic_code ?cs" by (simp add: ls)
  moreover have "concat (map li_redemptions ls) =
      map ?pair (concat (map (\<lambda>c. filter (\<lambda>d. id_code d = c) (ab_redemptions db)) (map ic_code ?cs)))"
    by (simp add: ls map_concat o_def redemptionsOf_def)
  moreover have "distinct (map ic_code ?cs)"
    using ok mset_eq_imp_distinct_iff[of "map ic_code ?cs" "map ic_code (ab_invites db)"] by (simp add: accessOk_def uniqueBy_def)
  then have "mset (concat (map (\<lambda>c. filter (\<lambda>d. id_code d = c) (ab_redemptions db)) (map ic_code ?cs))) = mset (ab_redemptions db)"
    using ok by (intro redemptions_by_code) (auto simp: accessOk_def usesCounted_def)
  ultimately show ?thesis by simp
qed

definition demoListed :: access_db where
  "demoListed = demoEmpty\<lparr>ab_invites := [\<lparr>ic_code = ''23456789'', ic_ownerWallet = None, ic_maxUses = 1, ic_uses = 0, ic_createdAt = 5\<rparr>]\<rparr>"

theorem invite_list_is_the_books_witness:
  "\<exists>l. listInvites demoAccess (Some ''key'') demoListed = Inr [l] \<and> li_redemptions l = [] \<and> \<not> li_redeemed l"
proof -
  have "access_reach demoAccess demoEmpty" unfolding demoEmpty_def by (rule access_reach.empty)
  moreover have "createInvitesRoute demoAccess demoDraws 5 (Some ''key'') (JObject []) demoEmpty = Inr (Some ([''23456789''], demoListed))"
    by code_simp
  ultimately have r: "access_reach demoAccess demoListed" by (blast intro: access_reach.step access_step.issued)
  obtain l where l: "listInvites demoAccess (Some ''key'') demoListed = Inr [l]" "li_uses l = 0" "li_maxUses l = 1"
    by (force simp: listInvites_def requireAdminKey_def sameKey_def demoAccess_def demoListed_def)
  from invite_list_is_the_books[OF r l(1)] l(2,3) have "length (li_redemptions l) = 0" "\<not> li_redeemed l" by auto
  then show ?thesis using l by blast
qed

section \<open>Error reports\<close>

text \<open>A report the browser posts is stored as it was meant, cut to the lengths the backend keeps; only a report
  without a code or a message is turned away.\<close>

lemma report_fields:
  "jsonField (reportBody r) ''code'' = Some (JString (xr_code r))"
  "jsonField (reportBody r) ''message'' = Some (JString (xr_message r))"
  "jsonField (reportBody r) ''signature'' = map_option JString (xr_signature r)"
  "jsonField (reportBody r) ''wallet'' = map_option JString (xr_wallet r)"
  "jsonField (reportBody r) ''page'' = map_option JString (xr_page r)"
  by (auto simp: reportBody_def jsonField_def Let_def split: option.splits)

definition keptText :: "string option \<Rightarrow> string option" where
  "keptText v = (case v of None \<Rightarrow> None | Some s \<Rightarrow> if s = [] then None else Some (take 2000 s))"

theorem error_report_arrives:
  "parseErrorReport (reportBody r) =
    (if xr_code r = [] then Inl (BadRequest ''Send a JSON body with a `code` string.'')
     else if xr_message r = [] then Inl (BadRequest ''Send a JSON body with a `message` string.'')
     else Inr \<lparr>xr_code = take 200 (xr_code r), xr_message = take 2000 (xr_message r), xr_signature = keptText (xr_signature r),
               xr_wallet = keptText (xr_wallet r), xr_page = keptText (xr_page r)\<rparr>)"
  by (auto simp: parseErrorReport_def stringField_def report_fields optionalString_def keptText_def MAX_LEN_def
      split: option.splits)

end
