(* ===== verification/Chain_Service.thy ===== *)
theory Chain_Service
  imports Complex_Main Rpc_Fallback Js_Number "HOL-Library.Char_ord" "HOL-Library.List_Lexorder"
begin

text \<open>
  Sending transactions (\<open>chain/chain.service.ts\<close>) and pricing them (\<open>chain/priority-fee.ts\<close>): the fee
  estimate and its cache, the simulated compute limit, the send with its signature watch and
  rebroadcasts, and the verdict when the watch times out.

  A \<open>send_world\<close> holds what the chain and the libraries answer during one send. Fees are whole
  microlamports; a provider's estimate is a rational number. The product with \<open>COMPUTE_UNIT_MARGIN\<close> is
  the binary64 one, written out below.
\<close>

section \<open>Priority fee\<close>

datatype helius_answer = HeliusThrows | HeliusError | HeliusNoNumber | HeliusEstimate rat

definition mathRound :: "rat \<Rightarrow> int" where "mathRound x = \<lfloor>x + 1 / 2\<rfloor>"

definition heliusPriorityFeeEstimate :: "helius_answer \<Rightarrow> int \<Rightarrow> int option" where
  "heliusPriorityFeeEstimate answer maxFee =
    (case answer of
       HeliusEstimate x \<Rightarrow> Some (min (mathRound x) maxFee)
     | _ \<Rightarrow> None)"

text \<open>\<open>Math.ceil(0.75 * n)\<close> is exact: three quarters of a length.\<close>

definition p75PriorityFeeMicroLamports :: "int list \<Rightarrow> int \<Rightarrow> int" where
  "p75PriorityFeeMicroLamports samples maxFee =
    (let nonZero = sort (filter (\<lambda>f. f > 0) samples);
         n = length nonZero
     in if n = 0 then 0
        else min (nonZero ! min (n - 1) ((3 * n + 3) div 4 - 1)) maxFee)"

definition estimatePriorityFee :: "helius_answer \<Rightarrow> int list res \<Rightarrow> int \<Rightarrow> int" where
  "estimatePriorityFee helius samples maxFee =
    (case heliusPriorityFeeEstimate helius maxFee of
       Some f \<Rightarrow> f
     | None \<Rightarrow> (case samples of Inl _ \<Rightarrow> 0 | Inr xs \<Rightarrow> p75PriorityFeeMicroLamports xs maxFee))"

definition PRIORITY_FEE_TTL_MS :: int where "PRIORITY_FEE_TTL_MS = 10000"

type_synonym fee_cache = "string \<rightharpoonup> int \<times> int"

definition priorityFeeMicroLamports ::
    "(pubkey \<Rightarrow> string) \<Rightarrow> (pubkey list \<Rightarrow> int) \<Rightarrow> int \<Rightarrow> pubkey list \<Rightarrow> fee_cache \<Rightarrow> int \<times> fee_cache" where
  "priorityFeeMicroLamports b58 estimate nowMs writable cache =
    (let key = joinWith '','' (sort (map b58 writable));
         fresh = (let f = estimate writable in (f, cache(key \<mapsto> (nowMs, f))))
     in case cache key of
          Some (t, f) \<Rightarrow> if nowMs - t \<le> PRIORITY_FEE_TTL_MS then (f, cache) else fresh
        | None \<Rightarrow> fresh)"

text \<open>Every writable account across the instructions, first mention first.\<close>

definition writableAccountsOf :: "(pubkey \<times> bool) list list \<Rightarrow> pubkey list" where
  "writableAccountsOf instructions =
    firstOccurrences (map fst (filter snd (concat instructions)))"

section \<open>Compute limit\<close>

definition MAX_COMPUTE_UNIT_LIMIT :: int where "MAX_COMPUTE_UNIT_LIMIT = 1400000"

text \<open>\<open>COMPUTE_UNIT_MARGIN\<close> is the double next to 1.1, a 53-bit integer over \<open>2^52\<close>.\<close>

definition COMPUTE_UNIT_MARGIN_52 :: int where "COMPUTE_UNIT_MARGIN_52 = 4953959590107546"

text \<open>The nearest 53-bit value, ties to the even one.\<close>

definition roundTo53 :: "int \<Rightarrow> int" where
  "roundTo53 x =
    (let s = bitLength (nat x) - 53; q = x div 2 ^ s; r = x mod 2 ^ s
     in if s = 0 then x
        else (if 2 * r > 2 ^ s \<or> 2 * r = 2 ^ s \<and> odd q then q + 1 else q) * 2 ^ s)"

definition withMargin :: "int \<Rightarrow> int" where
  "withMargin units = - ((- roundTo53 (units * COMPUTE_UNIT_MARGIN_52)) div 2 ^ 52)"

datatype simulation = SimThrows | SimError string | SimNoUnits | SimUnits int

definition computeUnitLimit :: "simulation \<Rightarrow> int option" where
  "computeUnitLimit sim = (case sim of SimUnits u \<Rightarrow> Some (withMargin u) | _ \<Rightarrow> None)"

section \<open>Sending\<close>

definition CONFIRM_TIMEOUT_MS :: nat where "CONFIRM_TIMEOUT_MS = 30000"
definition REBROADCAST_INTERVAL_MS :: nat where "REBROADCAST_INTERVAL_MS = 2000"

datatype budget_ix = SetPrice int | SetLimit int

record signed_tx =
  tx_raw :: bytes
  tx_signature :: string

datatype watch_end = WatchTimeout | Notified "string option"

record send_world =
  sw_blockhash :: "(string \<times> int) res"
  sw_fee :: int
  sw_simulate :: simulation
  sw_sign :: "budget_ix list \<Rightarrow> string \<Rightarrow> int \<Rightarrow> signed_tx"
  sw_sendRaw :: "unit res"
  sw_watch :: watch_end
  sw_intervals :: nat
  sw_status :: "string option option res"
  sw_height :: "int res"

text \<open>What leaves the process, in order.\<close>

datatype wire = Subscribe string | Cancel string | Broadcast bytes bool

definition confirmVerdict :: "send_world \<Rightarrow> string \<Rightarrow> int \<Rightarrow> unit res" where
  "confirmVerdict w signature lastValid =
    (case sw_watch w of
       Notified (Some err) \<Rightarrow> Inl (''transaction '' @ signature @ '' failed: '' @ err)
     | Notified None \<Rightarrow> Inr ()
     | WatchTimeout \<Rightarrow>
         (case sw_status w of
            Inl e \<Rightarrow> Inl e
          | Inr (Some (Some err)) \<Rightarrow> Inl (''transaction '' @ signature @ '' failed: '' @ err)
          | Inr (Some None) \<Rightarrow> Inr ()
          | Inr None \<Rightarrow>
              (case sw_height w of
                 Inl e \<Rightarrow> Inl e
               | Inr h \<Rightarrow>
                   if h > lastValid
                   then Inl (''transaction '' @ signature @ '' expired: block height '' @ showInt h @
                             '' passed the blockhash's last valid height '' @ showInt lastValid)
                   else Inl (''transaction '' @ signature @ '' still pending after '' @ showNat CONFIRM_TIMEOUT_MS @
                             ''ms; the blockhash has not expired yet''))))"

definition sendSigned :: "send_world \<Rightarrow> signed_tx \<Rightarrow> int \<Rightarrow> unit res \<times> wire list" where
  "sendSigned w tx lastValid =
    (let opened = [Subscribe (tx_signature tx), Broadcast (tx_raw tx) False]
     in case sw_sendRaw w of
          Inl e \<Rightarrow> (Inl e, opened @ [Cancel (tx_signature tx)])
        | Inr _ \<Rightarrow>
            (confirmVerdict w (tx_signature tx) lastValid,
             opened @ replicate (sw_intervals w) (Broadcast (tx_raw tx) True) @
             (if sw_watch w = WatchTimeout then [Cancel (tx_signature tx)] else [])))"

text \<open>Anchor's own translation of an error, then the IDL's table by code.\<close>

datatype translated = AnchorNamed string | WithCode int string | Untranslated string

definition mapSendError :: "(string \<Rightarrow> translated) \<Rightarrow> (int \<rightharpoonup> string) \<Rightarrow> string \<Rightarrow> string" where
  "mapSendError translateError errorNames cause =
    (case translateError cause of
       AnchorNamed name \<Rightarrow> name
     | WithCode code message \<Rightarrow> (case errorNames code of Some name \<Rightarrow> if name = [] then message else name | None \<Rightarrow> message)
     | Untranslated message \<Rightarrow> message)"

definition chainSend :: "(string \<Rightarrow> string) \<Rightarrow> send_world \<Rightarrow> string res \<times> wire list" where
  "chainSend mapError w =
    (case sw_blockhash w of
       Inl e \<Rightarrow> (Inl (mapError e), [])
     | Inr (blockhash, lastValid) \<Rightarrow>
         let budget = SetPrice (sw_fee w) # (case computeUnitLimit (sw_simulate w) of None \<Rightarrow> [] | Some u \<Rightarrow> [SetLimit u]);
             tx = sw_sign w budget blockhash lastValid
         in (case sendSigned w tx lastValid of
               (Inl e, wires) \<Rightarrow> (Inl (mapError e), wires)
             | (Inr _, wires) \<Rightarrow> (Inr (tx_signature tx), wires)))"

section \<open>The observed clock\<close>

definition lastObservedChainTime :: "(int \<times> int) option \<Rightarrow> int \<Rightarrow> int option" where
  "lastObservedChainTime reading nowMs =
    (case reading of None \<Rightarrow> None
     | Some (value, observedAtMs) \<Rightarrow> Some (value + max 0 (nowMs - observedAtMs) div 1000))"

section \<open>Laws of rounding\<close>

lemma bitLength_le: "n < 2 ^ k \<Longrightarrow> bitLength n \<le> k"
proof (induction k arbitrary: n)
  case (Suc k)
  then have "n div 2 < 2 ^ k" by simp
  from Suc.IH[OF this] show ?case by (cases "n = 0") (simp_all add: bitLength.simps[of n])
qed (simp add: bitLength.simps)

lemma roundTo53_error:
  assumes "0 \<le> x" "x < 2 ^ (53 + k)"
  shows "\<bar>roundTo53 x - x\<bar> \<le> 2 ^ k"
proof -
  define s where "s = bitLength (nat x) - 53"
  have "nat x < 2 ^ (53 + k)" using assms by (simp add: nat_less_iff)
  then have "s \<le> k" using bitLength_le unfolding s_def by fastforce
  then have le: "(2::int) ^ s \<le> 2 ^ k" by simp
  define P :: int where "P = 2 ^ s"
  define q r where "q = x div P" and "r = x mod P"
  have "x = q * P + r" unfolding q_def r_def by (simp only: div_mult_mod_eq)
  moreover have "0 \<le> r" "r < P" unfolding r_def P_def by simp_all
  moreover have "roundTo53 x \<in> {x, q * P, (q + 1) * P}"
    by (auto simp: roundTo53_def Let_def s_def[symmetric] P_def[symmetric] q_def)
  ultimately have "\<bar>roundTo53 x - x\<bar> \<le> P" by (auto simp: algebra_simps)
  then show ?thesis using le unfolding P_def by linarith
qed

lemma ceiling_bounds: "(y::int) \<le> (- ((- y) div 2 ^ 52)) * 2 ^ 52 \<and> (- ((- y) div 2 ^ 52)) * 2 ^ 52 < y + 2 ^ 52"
proof -
  have "- y = ((- y) div 2 ^ 52) * 2 ^ 52 + (- y) mod 2 ^ 52" by simp
  moreover have "0 \<le> (- y) mod 2 ^ 52" "(- y) mod 2 ^ 52 < (2::int) ^ 52" by simp_all
  ultimately show ?thesis by linarith
qed

section \<open>Properties\<close>

text \<open>The compute limit covers what was measured: for any measurement a simulation can report, the limit
  is at least 1.1 times the units and less than one unit more than that rounded up, binary rounding
  included.\<close>

theorem compute_limit_has_margin:
  assumes "0 \<le> units" "units \<le> MAX_COMPUTE_UNIT_LIMIT"
  shows "computeUnitLimit (SimUnits units) = Some (withMargin units) \<and>
    11 * units \<le> 10 * withMargin units \<and> 10 * withMargin units \<le> 11 * units + 10"
proof -
  define x where "x = units * COMPUTE_UNIT_MARGIN_52"
  have "0 \<le> x" using assms by (simp add: x_def COMPUTE_UNIT_MARGIN_52_def)
  moreover have "x \<le> 1400000 * 4953959590107546"
    using assms unfolding x_def COMPUTE_UNIT_MARGIN_52_def MAX_COMPUTE_UNIT_LIMIT_def by (intro mult_mono) auto
  then have "x < 2 ^ (53 + 21)" by simp
  ultimately have e: "\<bar>roundTo53 x - x\<bar> \<le> 2 ^ 21" by (rule roundTo53_error)
  have "10 * x = 11 * units * 2 ^ 52 + 4 * units" by (simp add: x_def COMPUTE_UNIT_MARGIN_52_def)
  then show ?thesis
    using e ceiling_bounds[of "roundTo53 x"] assms
    by (simp add: computeUnitLimit_def withMargin_def x_def[symmetric] MAX_COMPUTE_UNIT_LIMIT_def abs_le_iff)
qed

theorem compute_limit_has_margin_witness:
  "11 * 30001 \<le> 10 * withMargin 30001 \<and> 10 * withMargin 30001 \<le> 11 * 30001 + 10"
  using compute_limit_has_margin[of 30001] by (simp add: MAX_COMPUTE_UNIT_LIMIT_def)

text \<open>The fallback price is the 75th percentile of the paid samples, under the cap: at least three
  quarters of them are no higher and fewer than three quarters are lower; without a paid sample it
  is zero, and no estimate whatever exceeds the cap.\<close>

theorem price_is_capped_percentile:
  assumes "paid = filter (\<lambda>f. f > 0) samples"
  shows "(if paid = [] then p75PriorityFeeMicroLamports samples maxFee = 0
      else \<exists>p \<in> set paid. p75PriorityFeeMicroLamports samples maxFee = min p maxFee \<and>
        3 * length paid \<le> 4 * length (filter (\<lambda>f. f \<le> p) paid) \<and>
        4 * length (filter (\<lambda>f. f < p) paid) < 3 * length paid) \<and>
    (0 \<le> maxFee \<longrightarrow> estimatePriorityFee helius (Inr samples) maxFee \<le> maxFee)"
proof -
  define srt where "srt = sort paid"
  define n where "n = length paid"
  define i where "i = min (n - 1) ((3 * n + 3) div 4 - 1)"
  have eq: "p75PriorityFeeMicroLamports samples maxFee = (if n = 0 then 0 else min (srt ! i) maxFee)"
    unfolding p75PriorityFeeMicroLamports_def assms[symmetric] srt_def n_def i_def Let_def by (simp only: length_sort)
  have len: "length srt = n" "sorted srt" by (simp_all add: srt_def n_def)
  have count: "length (filter P paid) = length (filter P srt)" for P
    by (simp add: srt_def filter_sort)
  have cap: "estimatePriorityFee helius (Inr samples) maxFee \<le> maxFee" if "0 \<le> maxFee"
    using that by (auto simp: estimatePriorityFee_def heliusPriorityFeeEstimate_def eq split: helius_answer.splits)
  show ?thesis
  proof (cases "paid = []")
    case False
    then have n: "0 < n" by (simp add: n_def)
    then have i: "i < n" "3 * n \<le> 4 * (i + 1)" "4 * i < 3 * n" by (auto simp: i_def)
    have mono: "a \<le> b \<Longrightarrow> b < n \<Longrightarrow> srt ! a \<le> srt ! b" for a b
      using sorted_nth_mono[OF len(2), of a b] len(1) by simp
    have cut: "length (filter P srt) = length (filter P (take k srt)) + length (filter P (drop k srt))" for P k
      by (metis append_take_drop_id filter_append length_append)
    let ?p = "srt ! i"
    have "i + 1 \<le> length (filter (\<lambda>f. f \<le> ?p) srt)"
    proof -
      have "filter (\<lambda>f. f \<le> ?p) (take (i + 1) srt) = take (i + 1) srt"
        using len(2) i(1) len(1) by (intro filter_True) (auto simp: in_set_conv_nth less_Suc_eq_le mono)
      then show ?thesis using cut[of "\<lambda>f. f \<le> ?p" "i + 1"] i(1) len(1) by simp
    qed
    moreover have "length (filter (\<lambda>f. f < ?p) srt) \<le> i"
    proof -
      have "filter (\<lambda>f. f < ?p) (drop i srt) = []"
        using len(2) i(1) len(1) by (auto simp: filter_empty_conv in_set_conv_nth not_less mono)
      then show ?thesis
        using cut[of "\<lambda>f. f < ?p" i] length_filter_le[of "\<lambda>f. f < ?p" "take i srt"] i(1) len(1) by simp
    qed
    moreover have "?p \<in> set paid" using i(1) len(1) nth_mem[of i srt] by (simp add: srt_def)
    ultimately show ?thesis using False cap i n eq by (auto simp: count n_def[symmetric] intro!: bexI[of _ ?p])
  qed (use cap eq in \<open>simp add: n_def\<close>)
qed

theorem price_is_capped_percentile_witness:
  "p75PriorityFeeMicroLamports [0, 5, 900, 7] 100 = 100 \<and> estimatePriorityFee HeliusError (Inr [0, 5, 900, 7]) 100 \<le> 100"
  using price_is_capped_percentile[OF refl, of "[0, 5, 900, 7]" 100 HeliusError]
  by (simp add: p75PriorityFeeMicroLamports_def insort_key_def)

definition landed :: "send_world \<Rightarrow> bool" where
  "landed w = (sw_watch w = Notified None \<or> sw_watch w = WatchTimeout \<and> sw_status w = Inr (Some None))"

lemma confirmVerdict_ok: "confirmVerdict w signature lastValid = Inr () \<longleftrightarrow> landed w"
  by (auto simp: confirmVerdict_def landed_def split: watch_end.splits sum.splits option.splits)

text \<open>C21: A send tells the truth and never signs twice: it reports a signature only when the chain said that
  very transaction landed without error, it watches before it broadcasts, and every broadcast of it,
  resends included, carries the same signed bytes.\<close>

theorem send_is_honest:
  assumes "chainSend mapError w = (r, wires)"
  shows "(\<exists>raw. \<forall>b \<in> set wires. \<forall>bs retry. b = Broadcast bs retry \<longrightarrow> bs = raw) \<and>
    (wires \<noteq> [] \<longrightarrow> (\<exists>s. hd wires = Subscribe s)) \<and>
    (\<forall>signature. r = Inr signature \<longrightarrow> hd wires = Subscribe signature \<and> sw_sendRaw w = Inr () \<and> landed w) \<and>
    (sw_sendRaw w = Inr () \<and> landed w \<and> isOk (sw_blockhash w) \<longrightarrow> isOk r)"
proof (cases "sw_blockhash w")
  case (Inl e)
  then show ?thesis using assms by (auto simp: chainSend_def)
next
  case (Inr b)
  obtain blockhash lastValid where b: "b = (blockhash, lastValid)" by force
  define tx where "tx = sw_sign w (SetPrice (sw_fee w) # (case computeUnitLimit (sw_simulate w) of None \<Rightarrow> [] | Some u \<Rightarrow> [SetLimit u])) blockhash lastValid"
  have e: "chainSend mapError w = (case sendSigned w tx lastValid of
      (Inl e, wires) \<Rightarrow> (Inl (mapError e), wires) | (Inr _, wires) \<Rightarrow> (Inr (tx_signature tx), wires))"
    unfolding tx_def using Inr b by (simp add: chainSend_def Let_def cong: sum.case_cong)
  show ?thesis
  proof (cases "sw_sendRaw w")
    case (Inl err)
    then show ?thesis using assms Inr b by (auto simp: e sendSigned_def)
  next
    case send: (Inr u)
    have "r = Inr (tx_signature tx) \<longleftrightarrow> landed w" "isOk r \<longleftrightarrow> landed w" "r = Inr x \<Longrightarrow> x = tx_signature tx"
      and w: "wires = [Subscribe (tx_signature tx), Broadcast (tx_raw tx) False] @ replicate (sw_intervals w) (Broadcast (tx_raw tx) True) @
             (if sw_watch w = WatchTimeout then [Cancel (tx_signature tx)] else [])" for x
      using assms send confirmVerdict_ok[of w "tx_signature tx" lastValid]
      by (auto simp: e sendSigned_def Let_def split: sum.splits)
    then show ?thesis using send Inr by auto
  qed
qed

definition demoSend :: send_world where
  "demoSend = \<lparr>sw_blockhash = Inr (''H'', 100), sw_fee = 7, sw_simulate = SimUnits 1000,
    sw_sign = (\<lambda>budget blockhash lastValid. \<lparr>tx_raw = [1, 2], tx_signature = ''S''\<rparr>), sw_sendRaw = Inr (),
    sw_watch = WatchTimeout, sw_intervals = 2, sw_status = Inr (Some None), sw_height = Inr 90\<rparr>"

theorem send_is_honest_witness:
  "chainSend id demoSend = (Inr ''S'', [Subscribe ''S'', Broadcast [1, 2] False, Broadcast [1, 2] True,
    Broadcast [1, 2] True, Cancel ''S'']) \<and> landed demoSend"
proof -
  have run: "chainSend id demoSend = (Inr ''S'', [Subscribe ''S'', Broadcast [1, 2] False, Broadcast [1, 2] True,
    Broadcast [1, 2] True, Cancel ''S''])"
    by (simp add: chainSend_def demoSend_def sendSigned_def Let_def confirmVerdict_def numeral_2_eq_2)
  show ?thesis using send_is_honest[OF run] run by simp
qed

end
