(* ===== verification/Api_Laws.thy ===== *)
theory Api_Laws
  imports Api_Routes Read_Model_Laws
begin

text \<open>
  What the read API guarantees: displayed odds are the exact shares, rounded down; the served chain time
  never runs backwards; the leaderboard does not depend on the order the database returned; the draw
  progress counts exactly the players the operator registers; and what a failed clock read costs.
\<close>

section \<open>Odds\<close>

lemma padStart2_digits:
  assumes "n < 100"
  shows "length (padStart2 (showNat n)) = 2 \<and> readDigits a (padStart2 (showNat n)) = Some (100 * a + n)"
proof (cases "n < 10")
  case True
  then have "showNat n = [digitChar n]" by (simp add: showNat.simps)
  moreover have "digitVal (CHR ''0'') = Some 0" using digitVal_digitChar[of 0] by (simp add: digitChar_def)
  ultimately show ?thesis using True by (simp add: padStart2_def)
next
  case False
  then have "n div 10 < 10" "n mod 10 < 10" using assms by auto
  moreover have "showNat n = [digitChar (n div 10), digitChar (n mod 10)]"
    using False calculation by (simp add: showNat.simps[of n] showNat.simps[of "n div 10"])
  ultimately show ?thesis using div_mult_mod_eq[of n 10] by (simp add: padStart2_def algebra_simps)
qed

lemma showNat_no_dot: "CHR ''.'' \<notin> set (showNat n)"
proof
  assume "CHR ''.'' \<in> set (showNat n)"
  then have "isDigit (CHR ''.'')" using digits_showNat[of n] by auto
  then show False by (simp add: isDigit_def digitVal_def)
qed

definition basisPoints :: "int \<Rightarrow> int \<Rightarrow> int" where
  "basisPoints weight whole = (if whole \<le> 0 \<or> weight \<le> 0 then 0 else weight * 10000 div whole)"

lemma oddsPercent_shape:
  "oddsPercent weight whole = showNat (nat (basisPoints weight whole) div 100) @ ''.'' @
     padStart2 (showNat (nat (basisPoints weight whole) mod 100))"
proof (cases "whole \<le> 0 \<or> weight \<le> 0")
  case False
  define b where "b = weight * 10000 div whole"
  have b: "0 \<le> b" using False by (simp add: b_def pos_imp_zdiv_nonneg_iff)
  have "bigDiv (weight * 10000) whole = b" using False by (simp add: bigDiv_nonneg b_def)
  moreover have "bigDiv b 100 = b div 100" "b smod 100 = b mod 100"
    using b by (simp_all add: bigDiv_nonneg sgn_if signed_modulo_int_def)
  moreover have "nat (b div 100) = nat b div 100" "nat (b mod 100) = nat b mod 100"
    using b by (simp_all add: nat_div_distrib nat_mod_distrib)
  moreover have "\<not> b div 100 < 0" "\<not> b mod 100 < 0" using b by (simp_all add: pos_imp_zdiv_nonneg_iff not_less)
  ultimately show ?thesis using False b
    by (simp add: oddsPercent_def Let_def basisPoints_def b_def[symmetric] showInt_def)
qed (simp add: oddsPercent_def basisPoints_def showNat.simps padStart2_def digitChar_def)

lemma basisPoints_bounds:
  assumes "0 \<le> weight" "weight \<le> whole" "0 < whole"
  shows "0 \<le> basisPoints weight whole" "basisPoints weight whole \<le> 10000"
    "basisPoints weight whole * whole \<le> weight * 10000" "weight * 10000 < (basisPoints weight whole + 1) * whole"
proof -
  have e: "basisPoints weight whole = weight * 10000 div whole"
    using assms by (cases "weight = 0") (auto simp: basisPoints_def)
  show "0 \<le> basisPoints weight whole" using assms by (simp add: e pos_imp_zdiv_nonneg_iff)
  have m: "weight * 10000 = basisPoints weight whole * whole + (weight * 10000) mod whole" unfolding e by simp
  moreover have "0 \<le> (weight * 10000) mod whole" "(weight * 10000) mod whole < whole" using assms by simp_all
  ultimately show le: "basisPoints weight whole * whole \<le> weight * 10000"
    and "weight * 10000 < (basisPoints weight whole + 1) * whole" by (simp_all add: algebra_simps)
  have "basisPoints weight whole * whole \<le> 10000 * whole" using le assms by linarith
  then show "basisPoints weight whole \<le> 10000" using assms(3) by simp
qed

section \<open>The served clock\<close>

lemma extrapolated_serves:
  assumes "extrapolatedChainNow rd s = (Inr t, s')"
  shows "as_lastServed s \<le> t \<and> as_lastServed s' = t"
  using assms
  by (auto simp: extrapolatedChainNow_def chainClock_def Let_def split: sum.splits prod.splits if_splits)

lemma extrapolated_fails:
  assumes "extrapolatedChainNow rd s = (Inl e, s')"
  shows "as_lastServed s' = as_lastServed s"
  using assms
  by (auto simp: extrapolatedChainNow_def chainClock_def Let_def split: sum.splits prod.splits if_splits)

lemma lastServed_frames [simp]:
  "as_lastServed (snd (liveJackpot e rd s)) = as_lastServed s"
  "as_lastServed (snd (rpcHealth rd s)) = as_lastServed s"
  "as_lastServed (snd (chainBalances cfg rd s)) = as_lastServed s"
  by (auto simp: liveJackpot_def cachedJackpotBalance_def rpcHealth_def chainBalances_def Let_def
      split: option.splits sum.splits prod.splits)

definition isOk' :: "'a answer \<Rightarrow> bool" where "isOk' r = (case r of Inl _ \<Rightarrow> False | Inr _ \<Rightarrow> True)"

lemma isOk'_simps [simp]: "\<not> isOk' (Inl e)" "isOk' (Inr x)"
  by (simp_all add: isOk'_def)

text \<open>What \<open>getState\<close> does with the service: the four chain reads, in order.\<close>

definition stateReads :: "api_config \<Rightarrow> api_reads \<Rightarrow> epoch_row option \<Rightarrow> api_service \<Rightarrow> int res \<times> api_service" where
  "stateReads cfg rd epoch s =
    (let s1 = (case epoch of None \<Rightarrow> s | Some e \<Rightarrow> snd (liveJackpot e rd s));
         s2 = snd (rpcHealth rd s1);
         (clock, s3) = extrapolatedChainNow rd s2
     in (clock, snd (chainBalances cfg rd s3)))"

lemma getState_reads:
  assumes g: "getState cfg rd owner roundId db s = (r, s')"
  shows "(s' = s \<and> \<not> isOk' r) \<or>
    (\<exists>sp. readSnapshot cfg owner roundId (ad_model db) = Inr sp \<and> s' = snd (stateReads cfg rd (sp_epoch sp) s) \<and>
      (case r of Inl _ \<Rightarrow> \<not> isOk (fst (stateReads cfg rd (sp_epoch sp) s))
       | Inr st \<Rightarrow> fst (stateReads cfg rd (sp_epoch sp) s) = Inr (sa_chainTime st)))"
proof (cases "readSnapshot cfg owner roundId (ad_model db)")
  case (Inl e)
  then show ?thesis using g by (auto simp: getState_def)
next
  case (Inr sp)
  note snapshot = Inr
  show ?thesis
  proof (cases "sp_epoch sp = None \<and> pr_currentEpochId (sp_pool sp) > 0")
    case True
    then show ?thesis using g snapshot by (auto simp: getState_def)
  next
    case False
    show ?thesis
    proof (cases "hotWritableAccounts cfg sp")
      case (Inl e)
      then show ?thesis using g snapshot False by (auto simp: getState_def)
    next
      case (Inr hot)
      obtain jackpot s1 where j: "(case sp_epoch sp of None \<Rightarrow> (0, s) | Some e \<Rightarrow> liveJackpot e rd s) = (jackpot, s1)"
        by (cases "case sp_epoch sp of None \<Rightarrow> (0, s) | Some e \<Rightarrow> liveJackpot e rd s")
      obtain rpc s2 where h: "rpcHealth rd s1 = (rpc, s2)" by (cases "rpcHealth rd s1")
      obtain clock s3 where c: "extrapolatedChainNow rd s2 = (clock, s3)" by (cases "extrapolatedChainNow rd s2")
      obtain balances s4 where b: "chainBalances cfg rd s3 = (balances, s4)" by (cases "chainBalances cfg rd s3")
      have "(case sp_epoch sp of None \<Rightarrow> s | Some e \<Rightarrow> snd (liveJackpot e rd s)) = s1"
        using j by (cases "sp_epoch sp") auto
      then have sr: "stateReads cfg rd (sp_epoch sp) s = (clock, s4)"
        by (simp add: stateReads_def h c b)
      have "s' = s4 \<and> (case r of Inl _ \<Rightarrow> \<not> isOk clock | Inr st \<Rightarrow> clock = Inr (sa_chainTime st))"
        using g by (cases clock) (auto simp: getState_def snapshot False Inr j h c b split: prod.splits)
      then show ?thesis using snapshot sr by (cases r) auto
    qed
  qed
qed

section \<open>Eligibility\<close>

definition accruing :: "player_row \<Rightarrow> bool" where
  "accruing p = (0 \<le> py_weightAcc p \<and> 0 \<le> py_entries p \<and> 0 \<le> py_principal p \<and> 0 \<le> py_frozenWeight p \<and>
     py_frozenEpoch p < py_epochId p)"

lemma weightAt_registration:
  assumes "accruing p"
  shows "weightAt p (er_id e) (er_startsAt e) (er_endsAt e) = registrationWeight p e"
proof -
  have nn: "0 \<le> a \<Longrightarrow> 0 \<le> a * max0 b" for a b :: int by (simp add: max0_def)
  have m: "0 \<le> x \<Longrightarrow> max0 x = x" for x by (simp add: max0_def)
  show ?thesis
  proof (cases "py_epochId p = er_id e")
    case True
    have "max0 (py_weightAcc p + py_entries p * max0 (er_endsAt e - py_lastUpdate p))
        = py_weightAcc p + py_entries p * max0 (er_endsAt e - py_lastUpdate p)"
      using assms by (intro m add_nonneg_nonneg nn) (simp_all add: accruing_def)
    then show ?thesis using True assms by (simp add: weightAt_def registrationWeight_def Let_def accruing_def) (simp add: max0_def)
  next
    case False
    have "max0 (py_principal p * max0 (er_endsAt e - er_startsAt e)) = py_principal p * max0 (er_endsAt e - er_startsAt e)"
      using assms by (intro m nn) (simp add: accruing_def)
    then show ?thesis using False assms m by (auto simp: weightAt_def registrationWeight_def Let_def accruing_def) (simp_all add: max0_def)
  qed
qed

section \<open>Properties\<close>

text \<open>Displayed odds are the exact shares rounded down: for a Weight within a positive total the text
  reads back, its dot dropped, as the whole number of hundredths of a percent in the share, always with
  two decimals, and it never exceeds 100.00.\<close>

theorem odds_read_back:
  assumes "0 \<le> weight" "weight \<le> whole" "0 < whole"
  shows "\<exists>n whole_part frac. oddsPercent weight whole = whole_part @ ''.'' @ frac \<and> length frac = 2 \<and>
    CHR ''.'' \<notin> set whole_part \<and> readDigits 0 (whole_part @ frac) = Some n \<and> n \<le> 10000 \<and>
    int n * whole \<le> weight * 10000 \<and> weight * 10000 < (int n + 1) * whole"
proof -
  define n where "n = nat (basisPoints weight whole)"
  note b = basisPoints_bounds[OF assms]
  have "readDigits 0 (showNat (n div 100) @ padStart2 (showNat (n mod 100))) = Some n"
    using padStart2_digits[of "n mod 100" "n div 100"] by (simp add: readDigits_append)
  then show ?thesis
    using b padStart2_digits[of "n mod 100" 0] showNat_no_dot
    by (intro exI[of _ n] exI[of _ "showNat (n div 100)"] exI[of _ "padStart2 (showNat (n mod 100))"])
      (auto simp: oddsPercent_shape n_def)
qed

theorem odds_read_back_witness: "oddsPercent 1 3 = ''33.33'' \<and> readDigits 0 (''33'' @ ''33'') = Some 3333"
proof -
  obtain n a f where n: "oddsPercent 1 3 = a @ ''.'' @ f" "length f = 2" "CHR ''.'' \<notin> set a" "readDigits 0 (a @ f) = Some n"
      "int n * 3 \<le> 1 * 10000" "1 * 10000 < (int n + 1) * 3"
    using odds_read_back[of 1 3] by auto
  have o1: "oddsPercent 1 3 = ''33.33''" by code_simp
  have "n = 3333" using n(5,6) by simp
  moreover have "a = ''33''" "f = ''33''"
    using n(1-3) o1 by (auto simp: append_eq_Cons_conv Cons_eq_append_conv)
  ultimately show ?thesis using n(4) o1 by simp
qed

text \<open>The chain times a run of \<open>/state\<close> requests serves, failed requests left out.\<close>

fun servedTimes :: "api_config \<Rightarrow> (api_reads \<times> string option \<times> int option \<times> api_db) list \<Rightarrow> api_service \<Rightarrow> int list" where
  "servedTimes cfg [] s = []"
| "servedTimes cfg ((rd, owner, roundId, db) # reqs) s =
    (case getState cfg rd owner roundId db s of
       (Inl _, s') \<Rightarrow> servedTimes cfg reqs s' | (Inr st, s') \<Rightarrow> sa_chainTime st # servedTimes cfg reqs s')"

lemma getState_time:
  assumes "getState cfg rd owner roundId db s = (r, s')"
  shows "(case r of Inl _ \<Rightarrow> as_lastServed s' = as_lastServed s
      | Inr st \<Rightarrow> as_lastServed s \<le> sa_chainTime st \<and> as_lastServed s' = sa_chainTime st)"
proof -
  have "case fst (stateReads cfg rd epoch s) of
      Inl _ \<Rightarrow> as_lastServed (snd (stateReads cfg rd epoch s)) = as_lastServed s
    | Inr t \<Rightarrow> as_lastServed s \<le> t \<and> as_lastServed (snd (stateReads cfg rd epoch s)) = t" for epoch
  proof -
    define s2 where "s2 = snd (rpcHealth rd (case epoch of None \<Rightarrow> s | Some e \<Rightarrow> snd (liveJackpot e rd s)))"
    have l: "as_lastServed s2 = as_lastServed s" by (simp add: s2_def split: option.splits)
    obtain clock s3 where c: "extrapolatedChainNow rd s2 = (clock, s3)" by force
    have "stateReads cfg rd epoch s = (clock, snd (chainBalances cfg rd s3))"
      using c by (simp add: stateReads_def s2_def Let_def)
    then show ?thesis using c l extrapolated_serves[of rd s2] extrapolated_fails[of rd s2] by (auto split: sum.splits)
  qed
  note reads = this
  from getState_reads[OF assms] show ?thesis
  proof (elim disjE exE conjE)
    fix sp assume "s' = snd (stateReads cfg rd (sp_epoch sp) s)" "case r of Inl _ \<Rightarrow> \<not> isOk (fst (stateReads cfg rd (sp_epoch sp) s))
       | Inr st \<Rightarrow> fst (stateReads cfg rd (sp_epoch sp) s) = Inr (sa_chainTime st)"
    then show ?thesis using reads[of "sp_epoch sp"]
      by (cases r; cases "fst (stateReads cfg rd (sp_epoch sp) s)") auto
  qed (auto split: sum.splits)
qed

text \<open>Served chain time never runs backwards: over any run of \<open>/state\<close> requests, whatever the chain and
  the caches answered and however the wall clock moved, the times served are in ascending order.\<close>
theorem chain_time_monotone: "sorted (servedTimes cfg reqs s)"
proof -
  have "sorted (servedTimes cfg reqs s) \<and> (\<forall>t \<in> set (servedTimes cfg reqs s). as_lastServed s \<le> t)"
  proof (induction reqs arbitrary: s)
    case (Cons q reqs)
    obtain rd owner roundId db where q: "q = (rd, owner, roundId, db)" by (metis prod_cases4)
    obtain r s' where g: "getState cfg rd owner roundId db s = (r, s')" by force
    show ?case using getState_time[OF g] Cons.IH[of s'] by (cases r) (fastforce simp: q g)+
  qed simp
  then show ?thesis ..
qed

text \<open>The leaderboard does not depend on the database's order: for distinct owners any two scan orders
  give the same ranking, by Weight at the draw, the House last among equals, then by address.\<close>

theorem leaderboard_is_deterministic:
  assumes "mset ws = mset ws'" "distinct (map (py_owner \<circ> lw_player) ws)"
  shows "rankLeaders limit (ws, whole) = rankLeaders limit (ws', whole) \<and>
    sorted (map leaderKey (sort_key leaderKey ws))"
proof -
  have "inj_on leaderKey (set ws)"
    using assms(2) by (auto simp: leaderKey_def distinct_map inj_on_def)
  then have "sort_key leaderKey ws = sort_key leaderKey ws'"
    using assms(1) by (intro sort_key_inj_key_eq) simp_all
  then show ?thesis by (simp add: rankLeaders_def take_map)
qed

text \<open>The draw's progress bar can fill: when accruing Players are indexed, the eligible count served
  for the drawing Epoch is the number of registered Players with Weight plus exactly those the operator
  still lists for registration.\<close>

theorem eligible_is_registered_plus_listed:
  assumes "\<forall>p \<in> set (db_players m). accruing p" "getEpoch (apiPool cfg) i m = Some e" "isDrawing e" "er_id e = i"
  shows "\<exists>d. drawingProgressFrom (Some e) (poolPlayers cfg m) = Some d \<and>
    dp_eligible d = length (filter (\<lambda>p. py_regEpoch p = i \<and> registrationWeight p e > 0) (poolPlayers cfg m)) +
      length (playersToRegister (apiPool cfg) i m)"
proof -
  have f: "length (filter P xs) = length (filter (\<lambda>x. Q x \<and> P x) xs) + length (filter (\<lambda>x. \<not> Q x \<and> P x) xs)"
    for P Q :: "player_row \<Rightarrow> bool" and xs by (induction xs) auto
  have w: "filter (\<lambda>p. weightAt p (er_id e) (er_startsAt e) (er_endsAt e) > 0) (poolPlayers cfg m)
      = filter (\<lambda>p. registrationWeight p e > 0) (poolPlayers cfg m)"
    using assms(1) weightAt_registration by (intro filter_cong) (auto simp: poolPlayers_def)
  have l: "length (playersToRegister (apiPool cfg) i m)
      = length (filter (\<lambda>p. py_regEpoch p \<noteq> i \<and> registrationWeight p e > 0) (poolPlayers cfg m))"
    using assms(2) by (simp add: playersToRegister_def poolPlayers_def conj_ac)
  show ?thesis using assms(3) l f[of "\<lambda>p. registrationWeight p e > 0" "poolPlayers cfg m" "\<lambda>p. py_regEpoch p = i"]
    by (simp add: drawingProgressFrom_def w)
qed

text \<open>One failed clock read takes \<open>/state\<close> down for its whole window: while a rejected read is cached,
  every request that gets past the database fails with it, however healthy the chain has become.\<close>

theorem failed_clock_sticks:
  assumes "as_clock s = Some (t, Inl e)" "ar_nowMs rd - t \<le> CHAIN_CLOCK_TTL_MS"
    and "readSnapshot cfg owner roundId (ad_model db) = Inr sp"
    and "\<not> (sp_epoch sp = None \<and> pr_currentEpochId (sp_pool sp) > 0)" "isOk (hotWritableAccounts cfg sp)"
  shows "fst (getState cfg rd owner roundId db s) = Inl (Internal e)"
proof -
  obtain hot where hot: "hotWritableAccounts cfg sp = Inr hot" using assms(5) by (cases "hotWritableAccounts cfg sp") auto
  obtain jackpot s1 where j: "(case sp_epoch sp of None \<Rightarrow> (0, s) | Some e \<Rightarrow> liveJackpot e rd s) = (jackpot, s1)"
    by (cases "case sp_epoch sp of None \<Rightarrow> (0, s) | Some e \<Rightarrow> liveJackpot e rd s")
  have "as_clock s1 = as_clock s"
    using j by (auto simp: liveJackpot_def cachedJackpotBalance_def split: option.splits if_splits sum.splits prod.splits)
  moreover obtain rpc s2 where h: "rpcHealth rd s1 = (rpc, s2)" by (cases "rpcHealth rd s1")
  ultimately have "as_clock s2 = Some (t, Inl e)" using assms(1) by (auto simp: rpcHealth_def Let_def)
  then have "fst (extrapolatedChainNow rd s2) = Inl e"
    using assms(2) by (simp add: extrapolatedChainNow_def chainClock_def cachedRead_def Let_def)
  then obtain s3 where c: "extrapolatedChainNow rd s2 = (Inl e, s3)" by (cases "extrapolatedChainNow rd s2") auto
  obtain balances s4 where b: "chainBalances cfg rd s3 = (balances, s4)" by (cases "chainBalances cfg rd s3")
  show ?thesis using assms(3,4) by (auto simp: getState_def hot j h c b)
qed

section \<open>A concrete pool\<close>

definition demoApi :: api_config where
  "demoApi = \<lparr>ac_ix = \<lparr>ie_hasMethod = (\<lambda>_. True), ie_programId = [7], ie_operator = [8], ie_testVrf = False,
       ie_findProgramAddress = (\<lambda>parts _. concat parts), ie_parseKey = (\<lambda>s. Inr (asciiBytes s)),
       ie_associatedToken = (\<lambda>a b. a @ b), ie_systemProgram = [0], ie_tokenProgram = [1],
       ie_oraoProgram = [2], ie_oraoTreasury = [3]\<rparr>,
     ac_poolKey = [1], ac_b58 = (\<lambda>_. ''pool''), ac_parseKey = (\<lambda>_. None), ac_solWarn = 1, ac_sparring = False, ac_launchAt = None\<rparr>"

definition demoRow :: "string \<Rightarrow> int \<Rightarrow> int \<Rightarrow> bool \<Rightarrow> player_row" where
  "demoRow owner prin regEpoch house =
    \<lparr>py_poolAddress = ''pool'', py_owner = owner, py_principal = prin, py_entries = prin, py_weightAcc = 0,
     py_lastUpdate = 0, py_epochId = 1, py_frozenWeight = 0, py_frozenEpoch = 0, py_regEpoch = regEpoch, py_regStart = 0,
     py_regEnd = 0, py_isHouse = house, py_pendingWithdraw = 0, py_pendingEpoch = 0, py_principalAcc = 0,
     py_frozenPrincipalAcc = 0, py_yieldEpoch = 0, py_boughtEpoch = 0, py_boughtAmount = 0, py_bonusEpoch = 0, py_bonusGranted = 0\<rparr>"

definition demoEpochRow :: "int \<Rightarrow> int \<Rightarrow> epoch_row" where
  "demoEpochRow i status = \<lparr>er_poolAddress = ''pool'', er_id = i, er_startsAt = 0, er_endsAt = 100, er_status = status,
     er_registeredWeight = 0, er_registeredCount = 1, er_jackpotAmount = 5, er_target = 0, er_winner = None\<rparr>"

definition demoModel :: read_model where
  "demoModel = demoDb\<lparr>db_pools := [demoPoolRow\<lparr>pr_currentEpochId := 2\<rparr>], db_epochs := [demoEpochRow 1 EPOCH_REGISTERING, demoEpochRow 2 EPOCH_REGISTERING],
     db_rounds := [], db_players := [demoRow ''a'' 3 1 False, demoRow ''b'' 4 0 False, demoRow ''c'' 0 0 True]\<rparr>"

definition demoReads :: "int \<Rightarrow> api_reads" where
  "demoReads nowMs = \<lparr>ar_nowMs = nowMs, ar_slot = Inr 9, ar_rpc = NEW_RPC_STATE, ar_clock = Inl ''429'', ar_clockMs = nowMs,
     ar_jackpot = Inr 5, ar_balances = Inl ''429'', ar_priorityFee = (\<lambda>_. 0)\<rparr>"

theorem leaderboard_is_deterministic_witness:
  "map ld_owner (rankLeaders 3 (map (\<lambda>p. \<lparr>lw_player = p, lw_liveWeight = 0, lw_drawWeight = 0\<rparr>)
      [demoRow ''h'' 1 0 True, demoRow ''b'' 1 0 False, demoRow ''a'' 1 0 False], 0)) = [''a'', ''b'', ''h'']"
proof -
  let ?w = "\<lambda>p. \<lparr>lw_player = p, lw_liveWeight = 0, lw_drawWeight = 0\<rparr>"
  let ?x = "map ?w [demoRow ''h'' 1 0 True, demoRow ''b'' 1 0 False, demoRow ''a'' 1 0 False]"
  let ?y = "map ?w [demoRow ''a'' 1 0 False, demoRow ''b'' 1 0 False, demoRow ''h'' 1 0 True]"
  have "mset ?x = mset ?y" by simp
  moreover have "distinct (map (py_owner \<circ> lw_player) ?x)" by (simp add: demoRow_def)
  ultimately have "rankLeaders 3 (?x, 0) = rankLeaders 3 (?y, 0)" by (rule leaderboard_is_deterministic[THEN conjunct1])
  moreover have "map ld_owner (rankLeaders 3 (?y, 0)) = [''a'', ''b'', ''h'']" by code_simp
  ultimately show ?thesis by (simp only:)
qed

theorem eligible_is_registered_plus_listed_witness:
  "\<exists>d. drawingProgressFrom (Some (demoEpochRow 1 EPOCH_REGISTERING)) (poolPlayers demoApi demoModel) = Some d \<and> dp_eligible d = 1 + 1"
proof -
  have "\<forall>p \<in> set (db_players demoModel). accruing p" "getEpoch (apiPool demoApi) 1 demoModel = Some (demoEpochRow 1 EPOCH_REGISTERING)"
      "isDrawing (demoEpochRow 1 EPOCH_REGISTERING)" "er_id (demoEpochRow 1 EPOCH_REGISTERING) = 1" by code_simp+
  note e = eligible_is_registered_plus_listed[OF this]
  have "length (filter (\<lambda>p. py_regEpoch p = 1 \<and> registrationWeight p (demoEpochRow 1 EPOCH_REGISTERING) > 0) (poolPlayers demoApi demoModel)) = 1"
      "length (playersToRegister (apiPool demoApi) 1 demoModel) = 1" by code_simp+
  with e show ?thesis by simp
qed

theorem failed_clock_sticks_witness:
  "fst (getState demoApi (demoReads 20000) None None \<lparr>ad_model = demoModel, ad_operator = None\<rparr>
      (NEW_API\<lparr>as_clock := Some (1000, Inl ''429'')\<rparr>)) = Inl (Internal ''429'')"
proof -
  have c: "as_clock (NEW_API\<lparr>as_clock := Some (1000, Inl ''429'')\<rparr>) = Some (1000, Inl ''429'')"
    "ar_nowMs (demoReads 20000) - 1000 \<le> CHAIN_CLOCK_TTL_MS" by code_simp+
  let ?sp = "readSnapshot demoApi None None (ad_model \<lparr>ad_model = demoModel, ad_operator = None\<rparr>)"
  have "isOk' ?sp" by code_simp
  then obtain sp where sp: "?sp = Inr sp" by (cases ?sp) auto
  have "case ?sp of Inr sp \<Rightarrow> sp_epoch sp \<noteq> None \<and> isOk (hotWritableAccounts demoApi sp) | Inl _ \<Rightarrow> False" by code_simp
  then have "\<not> (sp_epoch sp = None \<and> pr_currentEpochId (sp_pool sp) > 0)" "isOk (hotWritableAccounts demoApi sp)"
    unfolding sp by simp_all
  from failed_clock_sticks[OF c sp this] show ?thesis .
qed

end
