(* ===== verification/Alerts.thy ===== *)
theory Alerts
  imports Api_Laws
begin

text \<open>
  The alerts endpoint (\<open>api/alerts.controller.ts\<close>): nineteen conditions over \<open>/status\<close> and the recent
  events, answered with 200 when none holds and 503 with the list otherwise. The wall clock is read once per request.
\<close>

section \<open>Conditions\<close>

datatype alert_code =
    OPERATOR_SOL_LOW | OPERATOR_STALE | RPC_DOWN | RPC_FALLBACK_ACTIVE | INDEXER_STALE | WITHDRAW_SHORTFALL
  | ROUND_VOIDED_RECENTLY | EPOCH_ROLLED_OVER_RECENTLY | WITHDRAW_OWNERS_SKIPPED | REGISTRATION_INDEXER_STALE
  | OPERATOR_SOL_READ_FAILED | OPERATOR_FAILING | EPOCH_NO_PROGRESS | DRAWN_UNPAID | YIELD_BUDGET_LOW
  | SPARRING_SOL_LOW | JACKPOT_LOW_NEAR_CLOSE | PRINCIPAL_OUT_NEAR_CLOSE | WITHDRAW_FORECAST_SHORT

record alert =
  al_code :: alert_code
  al_message :: string

definition RPC_FALLBACK_RECENT_MS :: int where "RPC_FALLBACK_RECENT_MS = 10 * 60 * 1000"
definition VOID_OR_ROLLOVER_RECENT_S :: int where "VOID_OR_ROLLOVER_RECENT_S = 60 * 60"
definition OPERATOR_FAILING_SECONDS :: nat where "OPERATOR_FAILING_SECONDS = 5 * 60"
definition NEAR_CLOSE_SECONDS :: int where "NEAR_CLOSE_SECONDS = 60 * 60"

text \<open>\<open>number | null\<close> where the number may be \<open>Infinity\<close>.\<close>

datatype failing_for = NotFailing | FailingFor int | FailingForever

record alert_inputs =
  ai_operatorSolLow :: "bool option"
  ai_tickAgeSeconds :: "int option"
  ai_shutdown :: bool
  ai_rpcOk :: bool
  ai_rpcFallbackAgeMs :: "int option"
  ai_indexerAgeSeconds :: "int option"
  ai_withdrawShortfall :: int
  ai_roundVoidedRecently :: bool
  ai_epochRolledOverRecently :: bool
  ai_withdrawSkippedCount :: nat
  ai_registrationIndexerStale :: bool
  ai_operatorFailingSeconds :: failing_for
  ai_epochNoProgress :: bool
  ai_drawnUnpaid :: bool
  ai_yieldBudgetLow :: bool
  ai_sparringSolLow :: "bool option"
  ai_secondsToEpochClose :: "int option"
  ai_jackpotAmount :: "int option"
  ai_minJackpot :: int
  ai_principalOut :: "int option"
  ai_pendingWithdrawals :: int
  ai_vaultLiquidity :: "int option"

record alert_thresholds =
  th_tickStaleSeconds :: nat
  th_indexerStaleSeconds :: nat

fun exceeds :: "int option \<Rightarrow> int \<Rightarrow> bool" where
  "exceeds None k = False"
| "exceeds (Some x) k = (x > k)"

fun failsLonger :: "failing_for \<Rightarrow> int \<Rightarrow> bool" where
  "failsLonger NotFailing k = False"
| "failsLonger (FailingFor x) k = (x > k)"
| "failsLonger FailingForever k = True"

definition pushIf :: "bool \<Rightarrow> alert_code \<Rightarrow> string \<Rightarrow> alert list \<Rightarrow> alert list" where
  "pushIf c code message alerts = (if c then alerts @ [\<lparr>al_code = code, al_message = message\<rparr>] else alerts)"

definition nearClose :: "alert_inputs \<Rightarrow> bool" where
  "nearClose i = (case ai_secondsToEpochClose i of None \<Rightarrow> False | Some x \<Rightarrow> 0 \<le> x \<and> x \<le> NEAR_CLOSE_SECONDS)"

definition evaluateAlerts :: "alert_inputs \<Rightarrow> alert_thresholds \<Rightarrow> alert list" where
  "evaluateAlerts i t =
    (let a01 = pushIf (ai_operatorSolLow i = Some True) OPERATOR_SOL_LOW
           ''The operator's SOL balance is below OPERATOR_SOL_WARN.'' [];
         a02 = pushIf (ai_operatorSolLow i = None) OPERATOR_SOL_READ_FAILED
           ''The operator's SOL balance could not be read.'' a01;
         a03 = pushIf (\<not> ai_shutdown i \<and> exceeds (ai_tickAgeSeconds i) (int (th_tickStaleSeconds t))) OPERATOR_STALE
           (''The operator has not ticked in over '' @ showNat (th_tickStaleSeconds t) @ ''s.'') a02;
         a04 = pushIf (failsLonger (ai_operatorFailingSeconds i) (int OPERATOR_FAILING_SECONDS)) OPERATOR_FAILING
           (''The operator has not completed a tick without error in over '' @ showNat OPERATOR_FAILING_SECONDS @ ''s.'') a03;
         a05 = pushIf (\<not> ai_rpcOk i) RPC_DOWN ''The primary RPC is not responding.'' a04;
         a06 = pushIf (case ai_rpcFallbackAgeMs i of None \<Rightarrow> False | Some x \<Rightarrow> x < RPC_FALLBACK_RECENT_MS) RPC_FALLBACK_ACTIVE
           ''The backend failed over to the fallback RPC in the last 10 minutes.'' a05;
         a07 = pushIf (exceeds (ai_indexerAgeSeconds i) (int (th_indexerStaleSeconds t))) INDEXER_STALE
           (''The indexer cursor has not advanced in over '' @ showNat (th_indexerStaleSeconds t) @ ''s.'') a06;
         a08 = pushIf (ai_withdrawShortfall i > 0) WITHDRAW_SHORTFALL
           ''The principal vault fell short of a pending withdrawal on the last tick.'' a07;
         a09 = pushIf (ai_roundVoidedRecently i) ROUND_VOIDED_RECENTLY ''A round voided in the last hour.'' a08;
         a10 = pushIf (ai_epochRolledOverRecently i) EPOCH_ROLLED_OVER_RECENTLY
           ''An epoch rolled over without paying out in the last hour.'' a09;
         a11 = pushIf (ai_withdrawSkippedCount i > 0) WITHDRAW_OWNERS_SKIPPED
           (showNat (ai_withdrawSkippedCount i) @ '' owner(s) skipped after repeated withdrawal failures this epoch.'') a10;
         a12 = pushIf (ai_registrationIndexerStale i) REGISTRATION_INDEXER_STALE
           ''close_registration is withheld: the indexer cursor is stale or behind the epoch's end.'' a11;
         a13 = pushIf (ai_epochNoProgress i) EPOCH_NO_PROGRESS
           ''The epoch has not reached a terminal status within its expected deadline.'' a12;
         a14 = pushIf (ai_drawnUnpaid i) DRAWN_UNPAID
           ''The epoch drew a winner more than a few minutes ago and it is still unpaid.'' a13;
         a15 = pushIf (ai_yieldBudgetLow i) YIELD_BUDGET_LOW
           ''The yield budget is below the cost of one epoch's Base yield.'' a14;
         a16 = pushIf (ai_sparringSolLow i = Some True) SPARRING_SOL_LOW
           ''The sparring player's SOL balance is below OPERATOR_SOL_WARN.'' a15;
         a17 = pushIf (nearClose i \<and> (case ai_jackpotAmount i of None \<Rightarrow> False | Some j \<Rightarrow> j < ai_minJackpot i)) JACKPOT_LOW_NEAR_CLOSE
           ''The jackpot vault is below min_jackpot inside the last hour before close.'' a16;
         a18 = pushIf (nearClose i \<and> exceeds (ai_principalOut i) 0) PRINCIPAL_OUT_NEAR_CLOSE
           ''Principal is still out of the vault inside the last hour before close.'' a17
     in pushIf (case ai_vaultLiquidity i of None \<Rightarrow> False | Some v \<Rightarrow> ai_pendingWithdrawals i > v) WITHDRAW_FORECAST_SHORT
          ''Due pending withdrawals are forecast to exceed vault liquidity.'' a18)"

section \<open>The route\<close>

definition recentVoidOrRollover :: "api_config \<Rightarrow> int \<Rightarrow> read_model \<Rightarrow> bool \<times> bool" where
  "recentVoidOrRollover cfg nowMs m =
    (let cutoff = nowMs div 1000 - VOID_OR_ROLLOVER_RECENT_S;
         rows = filter (\<lambda>e. case vr_blockTime e of None \<Rightarrow> False | Some b \<Rightarrow> b \<ge> cutoff)
                  (poolEvents (apiPool cfg) [''RoundVoided'', ''EpochRolledOver''] m)
     in (list_ex (\<lambda>e. vr_name e = ''RoundVoided'') rows, list_ex (\<lambda>e. vr_name e = ''EpochRolledOver'') rows))"

definition alertInputs :: "full_status \<Rightarrow> bool \<times> bool \<Rightarrow> int \<Rightarrow> alert_inputs" where
  "alertInputs st recent nowMs =
    (let now = nowMs div 1000;
         op = st_operator st;
         lastError = (case op of None \<Rightarrow> None | Some r \<Rightarrow> os_lastError r);
         lastSuccessAt = (case op of None \<Rightarrow> None | Some r \<Rightarrow> os_lastSuccessAt r)
     in \<lparr>ai_operatorSolLow = st_operatorSolLow st,
         ai_tickAgeSeconds = (case op of None \<Rightarrow> None | Some r \<Rightarrow> map_option (\<lambda>ms. now - ms div 1000) (os_lastTickAt r)),
         ai_shutdown = st_shutdown st, ai_rpcOk = rh_ok (st_rpc st),
         ai_rpcFallbackAgeMs = map_option (\<lambda>ms. nowMs - ms) (rh_fallbackAt (st_rpc st)),
         ai_indexerAgeSeconds = st_ageSeconds st, ai_withdrawShortfall = st_withdrawShortfall st,
         ai_roundVoidedRecently = fst recent, ai_epochRolledOverRecently = snd recent,
         ai_withdrawSkippedCount = st_withdrawSkippedCount st,
         ai_registrationIndexerStale = st_registrationIndexerStale st,
         ai_operatorFailingSeconds = (if lastError = None then NotFailing
           else (case lastSuccessAt of None \<Rightarrow> FailingForever | Some ms \<Rightarrow> FailingFor (now - ms div 1000))),
         ai_epochNoProgress = (case op of None \<Rightarrow> False | Some r \<Rightarrow> os_epochNoProgress r = Some True),
         ai_drawnUnpaid = (case op of None \<Rightarrow> False | Some r \<Rightarrow> os_drawnUnpaid r = Some True),
         ai_yieldBudgetLow = yl_yieldBudgetLow (fs_yield st),
         ai_sparringSolLow = st_sparringSolLow st,
         ai_secondsToEpochClose = (case (fs_epochStatus st, fs_epochEndsAt st) of
             (Some status, Some endsAt) \<Rightarrow> if status = EPOCH_OPEN then Some (endsAt - now) else None | _ \<Rightarrow> None),
         ai_jackpotAmount = fs_jackpotAmount st, ai_minJackpot = fs_minJackpot st,
         ai_principalOut = st_principalOut st, ai_pendingWithdrawals = st_pendingWithdrawals st,
         ai_vaultLiquidity = st_vaultLiquidity st\<rparr>)"

datatype alerts_answer = AlertsOk | AlertsActive "alert list" | AlertsFailed api_error

definition getAlerts ::
    "api_config \<Rightarrow> alert_thresholds \<Rightarrow> api_reads \<Rightarrow> api_db \<Rightarrow> api_service \<Rightarrow> alerts_answer \<times> api_service" where
  "getAlerts cfg t rd db s =
    (case getStatus cfg rd db s of
       (Inl e, s') \<Rightarrow> (AlertsFailed e, s')
     | (Inr st, s') \<Rightarrow>
         (let alerts = evaluateAlerts (alertInputs st (recentVoidOrRollover cfg (ar_nowMs rd) (ad_model db)) (ar_nowMs rd)) t
          in (if alerts = [] then AlertsOk else AlertsActive alerts, s')))"

section \<open>What raises what\<close>

definition ALERT_ORDER :: "alert_code list" where
  "ALERT_ORDER = [OPERATOR_SOL_LOW, OPERATOR_SOL_READ_FAILED, OPERATOR_STALE, OPERATOR_FAILING, RPC_DOWN, RPC_FALLBACK_ACTIVE,
     INDEXER_STALE, WITHDRAW_SHORTFALL, ROUND_VOIDED_RECENTLY, EPOCH_ROLLED_OVER_RECENTLY, WITHDRAW_OWNERS_SKIPPED,
     REGISTRATION_INDEXER_STALE, EPOCH_NO_PROGRESS, DRAWN_UNPAID, YIELD_BUDGET_LOW, SPARRING_SOL_LOW,
     JACKPOT_LOW_NEAR_CLOSE, PRINCIPAL_OUT_NEAR_CLOSE, WITHDRAW_FORECAST_SHORT]"

fun raised :: "alert_inputs \<Rightarrow> alert_thresholds \<Rightarrow> alert_code \<Rightarrow> bool" where
  "raised i t OPERATOR_SOL_LOW = (ai_operatorSolLow i = Some True)"
| "raised i t OPERATOR_SOL_READ_FAILED = (ai_operatorSolLow i = None)"
| "raised i t OPERATOR_STALE = (\<not> ai_shutdown i \<and> exceeds (ai_tickAgeSeconds i) (int (th_tickStaleSeconds t)))"
| "raised i t OPERATOR_FAILING = failsLonger (ai_operatorFailingSeconds i) 300"
| "raised i t RPC_DOWN = (\<not> ai_rpcOk i)"
| "raised i t RPC_FALLBACK_ACTIVE = (\<exists>x. ai_rpcFallbackAgeMs i = Some x \<and> x < 600000)"
| "raised i t INDEXER_STALE = exceeds (ai_indexerAgeSeconds i) (int (th_indexerStaleSeconds t))"
| "raised i t WITHDRAW_SHORTFALL = (ai_withdrawShortfall i > 0)"
| "raised i t ROUND_VOIDED_RECENTLY = ai_roundVoidedRecently i"
| "raised i t EPOCH_ROLLED_OVER_RECENTLY = ai_epochRolledOverRecently i"
| "raised i t WITHDRAW_OWNERS_SKIPPED = (ai_withdrawSkippedCount i > 0)"
| "raised i t REGISTRATION_INDEXER_STALE = ai_registrationIndexerStale i"
| "raised i t EPOCH_NO_PROGRESS = ai_epochNoProgress i"
| "raised i t DRAWN_UNPAID = ai_drawnUnpaid i"
| "raised i t YIELD_BUDGET_LOW = ai_yieldBudgetLow i"
| "raised i t SPARRING_SOL_LOW = (ai_sparringSolLow i = Some True)"
| "raised i t JACKPOT_LOW_NEAR_CLOSE = (nearClose i \<and> (\<exists>j. ai_jackpotAmount i = Some j \<and> j < ai_minJackpot i))"
| "raised i t PRINCIPAL_OUT_NEAR_CLOSE = (nearClose i \<and> exceeds (ai_principalOut i) 0)"
| "raised i t WITHDRAW_FORECAST_SHORT = (\<exists>v. ai_vaultLiquidity i = Some v \<and> ai_pendingWithdrawals i > v)"

lemma codes_pushIf: "map al_code (pushIf c code message alerts) = map al_code alerts @ (if c then [code] else [])"
  by (simp add: pushIf_def)

lemma filter_step: "filter P (c # cs) = (if P c then [c] else []) @ filter P cs"
  by simp

lemma codes_evaluate: "map al_code (evaluateAlerts i t) = filter (raised i t) ALERT_ORDER"
  unfolding evaluateAlerts_def ALERT_ORDER_def Let_def codes_pushIf
  by (simp only: filter_step append_assoc raised.simps list.map filter.simps append_Nil append_Nil2
      OPERATOR_FAILING_SECONDS_def RPC_FALLBACK_RECENT_MS_def) (auto split: option.split)

section \<open>Properties\<close>

lemma operatorErrorCode_None: "operatorErrorCode m = None \<longleftrightarrow> m = None"
  by (auto simp: operatorErrorCode_def split: option.splits)

lemma getAlerts_ok:
  assumes "getAlerts cfg t rd db s = (AlertsOk, s')"
  obtains st where "getStatus cfg rd db s = (Inr st, s')"
    "\<And>c. \<not> raised (alertInputs st (recentVoidOrRollover cfg (ar_nowMs rd) (ad_model db)) (ar_nowMs rd)) t c"
proof -
  obtain st where st: "getStatus cfg rd db s = (Inr st, s')"
      "evaluateAlerts (alertInputs st (recentVoidOrRollover cfg (ar_nowMs rd) (ad_model db)) (ar_nowMs rd)) t = []"
    using assms by (auto simp: getAlerts_def Let_def split: prod.splits sum.splits if_splits)
  have "filter (raised (alertInputs st (recentVoidOrRollover cfg (ar_nowMs rd) (ad_model db)) (ar_nowMs rd)) t) ALERT_ORDER = []"
    using st(2) codes_evaluate by (metis list.map_disc_iff)
  moreover have "c \<in> set ALERT_ORDER" for c by (cases c) (simp_all add: ALERT_ORDER_def)
  ultimately show thesis using that st(1) by (metis filter_empty_conv)
qed

lemma getStatus_status:
  assumes "getStatus cfg rd db s = (Inr st, s')"
    and "rpcHealth rd s = (rpc, s1)" "chainBalances cfg rd s1 = (balances, s2)"
    and "findUnique pr_address (apiPool cfg) (db_pools (ad_model db)) = Some p"
  shows "api_status.truncate st = statusFrom (ad_operator db) (poolCursor cfg (ad_model db)) rpc (Some p) balances (ac_solWarn cfg) (ar_nowMs rd)"
  using assms(1) by (auto simp: getStatus_def Let_def assms(2-4) api_status.defs full_status.defs split: sum.splits prod.splits option.splits)

lemma recentVoidOrRollover_quiet:
  assumes "e \<in> set (poolEvents (apiPool cfg) [''RoundVoided'', ''EpochRolledOver''] m)" "vr_blockTime e = Some b"
    and "\<not> fst (recentVoidOrRollover cfg nowMs m)" "\<not> snd (recentVoidOrRollover cfg nowMs m)"
  shows "b < nowMs div 1000 - VOID_OR_ROLLOVER_RECENT_S"
proof (rule ccontr)
  assume "\<not> ?thesis"
  then have "e \<in> set (filter (\<lambda>e. case vr_blockTime e of None \<Rightarrow> False | Some b \<Rightarrow> b \<ge> nowMs div 1000 - VOID_OR_ROLLOVER_RECENT_S)
      (poolEvents (apiPool cfg) [''RoundVoided'', ''EpochRolledOver''] m))" using assms(1,2) by simp
  moreover have "vr_name e = ''RoundVoided'' \<or> vr_name e = ''EpochRolledOver''" using assms(1) by (auto simp: poolEvents_def)
  ultimately show False using assms(3,4) by (simp add: recentVoidOrRollover_def Let_def list_ex_iff)
qed

text \<open>A quiet \<open>/alerts\<close> means what it says: when it answers 200 for an indexed pool with an operator row,
  the operator's last tick succeeded within five minutes, ticks are fresh unless the pool is shut down,
  the RPC answers, the operator's SOL was read and is at or above the warning level, the vault, when
  read, covers every pending withdrawal, nothing is short, skipped or drawn and unpaid, and no Round
  was voided and no Epoch rolled over in the last hour.\<close>

theorem quiet_alerts_mean_healthy:
  assumes quiet: "getAlerts cfg t rd db s = (AlertsOk, s')" and r: "ad_operator db = Some r"
    and p: "findUnique pr_address (apiPool cfg) (db_pools (ad_model db)) = Some p"
    and reads: "rpcHealth rd s = (rpc, s1)" "chainBalances cfg rd s1 = (balances, s2)"
    and now: "now = ar_nowMs rd div 1000"
  shows "(os_lastError r = None \<or> (\<exists>x. os_lastSuccessAt r = Some x \<and> now - x \<le> 300)) \<and>
    (pr_shutdown p \<or> (\<forall>x. os_lastTickAt r = Some x \<longrightarrow> now - x \<le> int (th_tickStaleSeconds t))) \<and>
    rh_ok rpc \<and> (\<exists>x. cb_operatorSol balances = Some x \<and> ac_solWarn cfg \<le> x) \<and>
    (\<forall>v. cb_vaultLiquidity balances = Some v \<longrightarrow> pr_pendingWithdrawals p \<le> v) \<and>
    (\<forall>x. os_withdrawShortfall r = Some x \<longrightarrow> x \<le> 0) \<and> (\<forall>x. os_withdrawSkippedCount r = Some x \<longrightarrow> x = 0) \<and>
    os_drawnUnpaid r \<noteq> Some True \<and>
    (\<forall>e \<in> set (poolEvents (apiPool cfg) [''RoundVoided'', ''EpochRolledOver''] (ad_model db)). \<forall>b.
       vr_blockTime e = Some b \<longrightarrow> b < now - VOID_OR_ROLLOVER_RECENT_S)"
proof -
  from quiet obtain st where st: "getStatus cfg rd db s = (Inr st, s')"
    and calm: "\<And>c. \<not> raised (alertInputs st (recentVoidOrRollover cfg (ar_nowMs rd) (ad_model db)) (ar_nowMs rd)) t c"
    by (rule getAlerts_ok) blast
  define S where "S = statusFrom (Some r) (poolCursor cfg (ad_model db)) rpc (Some p) balances (ac_solWarn cfg) (ar_nowMs rd)"
  have S: "api_status.truncate st = S" using getStatus_status[OF st reads p] by (simp add: r S_def)
  have f: "st_operator st = st_operator S" "st_operatorSolLow st = st_operatorSolLow S" "st_shutdown st = st_shutdown S"
    "st_rpc st = st_rpc S" "st_withdrawShortfall st = st_withdrawShortfall S" "st_withdrawSkippedCount st = st_withdrawSkippedCount S"
    "st_pendingWithdrawals st = st_pendingWithdrawals S" "st_vaultLiquidity st = st_vaultLiquidity S"
    by (simp_all add: S[symmetric] api_status.defs)
  note raw = f S_def statusFrom_def servedOperator_def alertInputs_def Let_def
  have 1: "os_lastError r = None \<or> (\<exists>x. os_lastSuccessAt r = Some x \<and> now - x \<le> 300)"
    using calm[of OPERATOR_FAILING] by (auto simp: raw now operatorErrorCode_None split: option.splits if_splits)
  have 2: "pr_shutdown p \<or> (\<forall>x. os_lastTickAt r = Some x \<longrightarrow> now - x \<le> int (th_tickStaleSeconds t))"
    using calm[of OPERATOR_STALE] by (auto simp: raw now split: option.splits)
  have 3: "rh_ok rpc" using calm[of RPC_DOWN] by (simp add: raw)
  have 4: "\<exists>x. cb_operatorSol balances = Some x \<and> ac_solWarn cfg \<le> x"
    using calm[of OPERATOR_SOL_LOW] calm[of OPERATOR_SOL_READ_FAILED] by (cases "cb_operatorSol balances") (auto simp: raw)
  have 5: "\<forall>v. cb_vaultLiquidity balances = Some v \<longrightarrow> pr_pendingWithdrawals p \<le> v"
    using calm[of WITHDRAW_FORECAST_SHORT] by (auto simp: raw)
  have 6: "\<forall>x. os_withdrawShortfall r = Some x \<longrightarrow> x \<le> 0" using calm[of WITHDRAW_SHORTFALL] by (auto simp: raw split: option.splits)
  have 7: "\<forall>x. os_withdrawSkippedCount r = Some x \<longrightarrow> x = 0" using calm[of WITHDRAW_OWNERS_SKIPPED] by (auto simp: raw split: option.splits)
  have 8: "os_drawnUnpaid r \<noteq> Some True" using calm[of DRAWN_UNPAID] by (auto simp: raw)
  have 9: "\<forall>e \<in> set (poolEvents (apiPool cfg) [''RoundVoided'', ''EpochRolledOver''] (ad_model db)). \<forall>b.
       vr_blockTime e = Some b \<longrightarrow> b < now - VOID_OR_ROLLOVER_RECENT_S"
    using calm[of ROUND_VOIDED_RECENTLY] calm[of EPOCH_ROLLED_OVER_RECENTLY]
    by (auto simp: raw now dest: recentVoidOrRollover_quiet)
  from 1 2 3 4 5 6 7 8 9 show ?thesis by blast
qed

definition demoHealthy :: api_reads where
  "demoHealthy = (demoReads 200000)\<lparr>ar_balances := Inr (Some 10, Some 5000000000, None)\<rparr>"

definition demoTicked :: operator_state where
  "demoTicked = NEW_OPERATOR_STATE\<lparr>os_lastTickAt := Some 190, os_lastSuccessAt := Some 190\<rparr>"

definition demoStatusDb :: api_db where
  "demoStatusDb = \<lparr>ad_model = demoModel\<lparr>db_pools := [demoPoolRow\<lparr>pr_currentEpochId := 2, pr_pendingWithdrawals := 10,
       pr_yieldBudget := 1000000000\<rparr>]\<rparr>, ad_operator = Some demoTicked\<rparr>"

fun isQuiet :: "alerts_answer \<Rightarrow> bool" where
  "isQuiet AlertsOk = True"
| "isQuiet _ = False"

theorem quiet_alerts_mean_healthy_witness:
  "isQuiet (fst (getAlerts demoApi \<lparr>th_tickStaleSeconds = 60, th_indexerStaleSeconds = 60\<rparr> demoHealthy demoStatusDb NEW_API)) \<and>
    (\<forall>x. os_lastTickAt demoTicked = Some x \<longrightarrow> 200 - x \<le> 60)"
proof -
  let ?t = "\<lparr>th_tickStaleSeconds = 60, th_indexerStaleSeconds = 60\<rparr>"
  let ?a = "getAlerts demoApi ?t demoHealthy demoStatusDb NEW_API"
  have q: "isQuiet (fst ?a)" by code_simp
  then obtain s' where a: "?a = (AlertsOk, s')" by (cases ?a; cases "fst ?a") auto
  let ?p = "findUnique pr_address (apiPool demoApi) (db_pools (ad_model demoStatusDb))"
  have "?p \<noteq> None \<and> \<not> pr_shutdown (the ?p)" by code_simp
  then obtain p where p: "?p = Some p" "\<not> pr_shutdown p" by auto
  have r: "ad_operator demoStatusDb = Some demoTicked" by (simp add: demoStatusDb_def)
  have now: "200 = ar_nowMs demoHealthy div 1000" by code_simp
  obtain rpc s1 where h: "rpcHealth demoHealthy NEW_API = (rpc, s1)" by (cases "rpcHealth demoHealthy NEW_API")
  obtain balances s2 where b: "chainBalances demoApi demoHealthy s1 = (balances, s2)" by (cases "chainBalances demoApi demoHealthy s1")
  have "pr_shutdown p \<or> (\<forall>x. os_lastTickAt demoTicked = Some x \<longrightarrow> 200 - x \<le> int (th_tickStaleSeconds ?t))"
    by (rule quiet_alerts_mean_healthy[OF a r p(1) h b now, THEN conjunct2, THEN conjunct1])
  then show ?thesis using p(2) q by simp
qed

end
