(* ===== verification/Services.thy ===== *)
theory Services
  imports Access Instructions Complex_Main
begin

text \<open>
  The small services around the core: the Sparring player (\<open>operator/sparring.ts\<close>), the devnet faucet
  (\<open>api/faucet.controller.ts\<close>), the liveness probe (\<open>health/health.controller.ts\<close>) and the boot guards
  (\<open>boot-guard.ts\<close>). Chain and library answers are arguments; a handler is one step.
\<close>

section \<open>The Sparring player\<close>

definition STAKE_PER_TILE :: int where "STAKE_PER_TILE = 1000000"
definition TILES :: nat where "TILES = 36"
definition ALL_TILES :: int where "ALL_TILES = 2 ^ TILES - 1"
definition SPARRING_MARGIN :: int where "SPARRING_MARGIN = 2"

record sparring_context =
  sc_now :: int
  sc_pool :: pool_state
  sc_openRound :: "round_state option"
  sc_owner :: pubkey
  sc_entries :: int
  sc_hasPosition :: bool

text \<open>The transaction it sends, if any; the answer to the send decides the rest.\<close>

definition playSparring :: "ix_env \<Rightarrow> sparring_context \<Rightarrow> instruction list option res" where
  "playSparring ix ctx =
    (case sc_openRound ctx of
       None \<Rightarrow> Inr None
     | Some r \<Rightarrow>
         if rd_status r \<noteq> ROUND_OPEN then Inr None
         else if sc_hasPosition ctx then Inr None
         else if sc_now ctx > rd_endsAt r - pl_closeBuffer (sc_pool ctx) - SPARRING_MARGIN then Inr None
         else if sc_entries ctx < STAKE_PER_TILE * int TILES then Inr None
         else rbind (buyPosition ix (sc_pool ctx) (rd_roundId r) (sc_owner ctx) ALL_TILES STAKE_PER_TILE) (\<lambda>i. Inr (Some i)))"

definition isLostRace :: "string \<Rightarrow> bool" where
  "isLostRace message = (message \<in> {''RoundClosed'', ''RoundNotOpen''} \<or> strIncludes message ''already in use'')"

record sparring_world =
  sg_poolClockPlayer :: "(bytes option \<times> bytes option \<times> bytes option) res"
  sg_roundPosition :: "pubkey \<Rightarrow> pubkey \<Rightarrow> (bytes option \<times> bytes option) res"
  sg_decodePool :: "bytes \<Rightarrow> pool_state res"
  sg_decodeRound :: "bytes \<Rightarrow> round_state res"
  sg_decodePlayerEntries :: "bytes \<Rightarrow> int res"
  sg_send :: "instruction list \<Rightarrow> string res"

text \<open>One pass: what was sent, and whether a position was bought.\<close>

definition playOnce :: "ix_env \<Rightarrow> pubkey \<Rightarrow> pubkey \<Rightarrow> sparring_world \<Rightarrow> instruction list list \<times> bool res" where
  "playOnce ix poolKey owner w =
    (case sg_poolClockPlayer w of
       Inl e \<Rightarrow> ([], Inl e)
     | Inr (None, _, _) \<Rightarrow> ([], Inr False)
     | Inr (Some _, _, None) \<Rightarrow> ([], Inr False)
     | Inr (Some poolData, clock, Some playerData) \<Rightarrow>
         (case sg_decodePool w poolData of
            Inl e \<Rightarrow> ([], Inl e)
          | Inr pool \<Rightarrow>
              if pl_openRoundId pool = 0 then ([], Inr False)
              else (case rbind (roundAddress ix poolKey (pl_openRoundId pool)) (\<lambda>roundKey.
                      rbind (sg_roundPosition w roundKey (positionAddress ix roundKey owner)) (\<lambda>(roundInfo, positionInfo).
                      rbind (clockUnixTimestamp clock) (\<lambda>now.
                      rbind (case roundInfo of None \<Rightarrow> Inr None | Some d \<Rightarrow> rbind (sg_decodeRound w d) (\<lambda>r. Inr (Some r))) (\<lambda>openRound.
                      rbind (sg_decodePlayerEntries w playerData) (\<lambda>entries.
                        playSparring ix \<lparr>sc_now = now, sc_pool = pool, sc_openRound = openRound, sc_owner = owner,
                          sc_entries = entries, sc_hasPosition = (positionInfo \<noteq> None)\<rparr>))))) of
                    Inl e \<Rightarrow> ([], Inl e)
                  | Inr None \<Rightarrow> ([], Inr False)
                  | Inr (Some ixs) \<Rightarrow> ([ixs], rbind (sg_send w ixs) (\<lambda>_. Inr True)))))"

datatype sparring_log = LogDebug string | LogError string | LogBought | LogNothing

text \<open>\<open>tick\<close>: off without a keypair, skipped while a pass runs, and never throwing.\<close>

definition sparringTick ::
    "ix_env \<Rightarrow> pubkey \<Rightarrow> pubkey option \<Rightarrow> sparring_world \<Rightarrow> bool \<Rightarrow> instruction list list \<times> sparring_log \<times> bool" where
  "sparringTick ix poolKey keypair w running =
    (case keypair of
       None \<Rightarrow> ([], LogNothing, running)
     | Some owner \<Rightarrow>
         if running then ([], LogNothing, running)
         else (case playOnce ix poolKey owner w of
                 (sent, Inr b) \<Rightarrow> (sent, if b then LogBought else LogNothing, False)
               | (sent, Inl m) \<Rightarrow> (sent, if isLostRace m then LogDebug (''skipped: '' @ m)
                                         else LogError (''sparring play failed: '' @ m), False)))"

section \<open>The faucet\<close>

datatype faucet_error = FaucetHttp http_error | TooManyRequests string int | ServiceUnavailable string

record faucet_env =
  fe_parseKey :: "string \<Rightarrow> pubkey option"
  fe_onCurve :: "pubkey \<Rightarrow> bool"
  fe_b58 :: "pubkey \<Rightarrow> string"
  fe_mint :: pubkey
  fe_operator :: pubkey
  fe_amount :: int
  fe_interval :: int
  fe_tokenAccount :: "pubkey \<Rightarrow> pubkey"

record faucet_claim =
  fm_owner :: string
  fm_lastClaimAt :: int

record faucet_state =
  fs_isMintAuthority :: bool
  fs_claims :: "faucet_claim list"

definition faucetBoot :: "faucet_env \<Rightarrow> pubkey option res \<Rightarrow> faucet_state \<Rightarrow> faucet_state" where
  "faucetBoot env mintAuthority st =
    (case mintAuthority of
       Inl _ \<Rightarrow> st
     | Inr a \<Rightarrow> st\<lparr>fs_isMintAuthority := (a = Some (fe_operator env))\<rparr>)"

definition parseFaucetOwner :: "faucet_env \<Rightarrow> json \<Rightarrow> faucet_error + pubkey" where
  "parseFaucetOwner env body =
    (case stringField body ''owner'' of
       None \<Rightarrow> Inl (FaucetHttp (BadRequest ''Send a JSON body with an `owner` wallet address.''))
     | Some raw \<Rightarrow>
         if raw = [] then Inl (FaucetHttp (BadRequest ''Send a JSON body with an `owner` wallet address.''))
         else (case fe_parseKey env raw of
                 None \<Rightarrow> Inl (FaucetHttp (BadRequest ''That is not a valid Solana wallet address.''))
               | Some owner \<Rightarrow>
                   if \<not> fe_onCurve env owner
                   then Inl (FaucetHttp (BadRequest ''That address cannot hold tokens. Connect a wallet and try again.''))
                   else Inr owner))"

record faucet_receipt =
  fr_owner :: string
  fr_tokenAccount :: string
  fr_amount :: int
  fr_signature :: string
  fr_nextRequestAt :: int

text \<open>The mint is sent only on the last path; \<open>send\<close> is the chain's answer to it.\<close>

datatype faucet_ix =
    CreateAtaIdempotent pubkey pubkey pubkey pubkey
  | MintTo pubkey pubkey pubkey int

definition faucetRequest ::
    "faucet_env \<Rightarrow> (faucet_ix list \<Rightarrow> string res) \<Rightarrow> int \<Rightarrow> json \<Rightarrow> faucet_state \<Rightarrow> (faucet_error + faucet_receipt) \<times> faucet_state" where
  "faucetRequest env send nowMs body st =
    (if \<not> fs_isMintAuthority st then (Inl (FaucetHttp (NotFound ''There is no faucet on this network.'')), st)
     else (case parseFaucetOwner env body of
             Inl e \<Rightarrow> (Inl e, st)
           | Inr owner \<Rightarrow>
               (let address = fe_b58 env owner; now = nowMs div 1000;
                    wait = (case findUnique fm_owner address (fs_claims st) of
                              None \<Rightarrow> None
                            | Some c \<Rightarrow> if now - fm_lastClaimAt c < fe_interval env
                                       then Some (fe_interval env - (now - fm_lastClaimAt c)) else None)
                in case wait of
                     Some s \<Rightarrow>
                       (Inl (TooManyRequests (''This wallet already received hexUSDC. Try again in '' @
                          showInt (- ((- s) div 60)) @ '' minute(s).'') s), st)
                   | None \<Rightarrow>
                       (case send [CreateAtaIdempotent (fe_operator env) (fe_tokenAccount env owner) owner (fe_mint env),
                                    MintTo (fe_mint env) (fe_tokenAccount env owner) (fe_operator env) (fe_amount env)] of
                          Inl _ \<Rightarrow> (Inl (ServiceUnavailable ''The faucet could not send hexUSDC right now. Try again in a minute.''), st)
                        | Inr signature \<Rightarrow>
                            (Inr \<lparr>fr_owner = address, fr_tokenAccount = fe_b58 env (fe_tokenAccount env owner),
                                  fr_amount = fe_amount env, fr_signature = signature, fr_nextRequestAt = now + fe_interval env\<rparr>,
                             st\<lparr>fs_claims := upsertRow fm_owner \<lparr>fm_owner = address, fm_lastClaimAt = now\<rparr> (fs_claims st)\<rparr>)))))"

section \<open>Liveness\<close>

definition OPERATOR_SOL_HEALTH_TTL_MS :: int where "OPERATOR_SOL_HEALTH_TTL_MS = 30000"

datatype health = HealthOk | HealthDegraded

definition operatorHealthStatus :: "rat option \<Rightarrow> rat \<Rightarrow> health" where
  "operatorHealthStatus operatorSol warnBelowSol =
    (case operatorSol of None \<Rightarrow> HealthOk | Some x \<Rightarrow> if x < warnBelowSol then HealthDegraded else HealthOk)"

definition operatorSolBalance :: "int option res \<Rightarrow> int \<Rightarrow> (int \<times> rat) option \<Rightarrow> rat option \<times> (int \<times> rat) option" where
  "operatorSolBalance account nowMs cache =
    (let fresh = (case account of
           Inl _ \<Rightarrow> (None, None)
         | Inr l \<Rightarrow> (let sol = (case l of None \<Rightarrow> 0 | Some n \<Rightarrow> of_int n / 1000000000) in (Some sol, Some (nowMs, sol))))
     in case cache of
          None \<Rightarrow> fresh
        | Some (t, sol) \<Rightarrow> if nowMs - t > OPERATOR_SOL_HEALTH_TTL_MS then fresh else (Some sol, cache))"

definition healthz :: "rat \<Rightarrow> int option res \<Rightarrow> int \<Rightarrow> (int \<times> rat) option \<Rightarrow> (health \<times> rat option) \<times> (int \<times> rat) option" where
  "healthz warn account nowMs cache =
    (case operatorSolBalance account nowMs cache of (sol, cache') \<Rightarrow> ((operatorHealthStatus sol warn, sol), cache'))"

section \<open>Boot guards\<close>

datatype cluster = Devnet | MainnetBeta

fun clusterName :: "cluster \<Rightarrow> string" where
  "clusterName Devnet = ''devnet''"
| "clusterName MainnetBeta = ''mainnet-beta''"

fun CLUSTER_GENESIS_HASHES :: "cluster \<Rightarrow> string" where
  "CLUSTER_GENESIS_HASHES Devnet = ''EtWTRABZaYq6iMfeYKouRu166VU2xqa1wcaWoxPkrZBG''"
| "CLUSTER_GENESIS_HASHES MainnetBeta = ''5eykt4UsFv8P8NJdTREpY1vzqKqZKvdpKuc147dw2N9d''"

definition assertClusterMatchesGenesis :: "cluster \<Rightarrow> string \<Rightarrow> unit res" where
  "assertClusterMatchesGenesis c genesisHash =
    (let expected = CLUSTER_GENESIS_HASHES c
     in if genesisHash \<noteq> expected
        then Inl (''CLUSTER='' @ clusterName c @ '' does not match RPC_URL's genesis hash '' @ genesisHash @
                  '' (expected '' @ expected @ '' for '' @ clusterName c @ ''); check RPC_URL'')
        else Inr ())"

definition assertAcceptedMintMatchesPool :: "string \<Rightarrow> string \<Rightarrow> unit res" where
  "assertAcceptedMintMatchesPool configuredMint poolMint =
    (if configuredMint \<noteq> poolMint
     then Inl (''ACCEPTED_MINT '' @ configuredMint @ '' does not match the Pool's mint '' @ poolMint) else Inr ())"

definition assertPoolRowsBelongToProgram :: "ix_env \<Rightarrow> (pubkey \<Rightarrow> string) \<Rightarrow> (string \<times> int) list \<Rightarrow> unit res" where
  "assertPoolRowsBelongToProgram ix b58 rows =
    rbind (mapRes (\<lambda>(a, i). rbind (poolAddress ix i) (\<lambda>k. Inr (b58 k \<noteq> a, a, i))) rows) (\<lambda>checked.
      let foreign = map snd (filter fst checked)
      in if foreign = [] then Inr ()
         else Inl (''Postgres has Pool row(s) that are not PDAs of PROGRAM_ID '' @ b58 (ie_programId ix) @ '': '' @
           joinWith '', '' (map (\<lambda>(a, i). a @ '' (poolId '' @ showInt i @ '')'') foreign) @
           ''; wrong DATABASE_URL or PROGRAM_ID for this deployment''))"

record boot_deps =
  bd_genesisHash :: "string res"
  bd_poolAccount :: "bytes option res"
  bd_decodeMint :: "bytes \<Rightarrow> string res"
  bd_acceptedMint :: string
  bd_cluster :: cluster
  bd_rows :: "(string \<times> int) list res"

definition runBootGuards :: "ix_env \<Rightarrow> (pubkey \<Rightarrow> string) \<Rightarrow> boot_deps \<Rightarrow> unit res" where
  "runBootGuards ix b58 d =
    rbind (bd_genesisHash d) (\<lambda>genesis.
    rbind (assertClusterMatchesGenesis (bd_cluster d) genesis) (\<lambda>_.
    rbind (bd_poolAccount d) (\<lambda>info.
    rbind (case info of None \<Rightarrow> Inr ()
           | Some data \<Rightarrow> rbind (bd_decodeMint d data) (\<lambda>m. assertAcceptedMintMatchesPool (bd_acceptedMint d) m)) (\<lambda>_.
    rbind (bd_rows d) (\<lambda>rows. assertPoolRowsBelongToProgram ix b58 rows)))))"

section \<open>Laws of the Sparring player\<close>

lemma buyPosition_shape:
  "buyPosition ix pool roundId owner tiles stake = Inr is \<Longrightarrow>
    \<exists>rd. roundAddress ix (pl_address pool) roundId = Inr rd \<and>
      is = [Method ''buyPosition'' [BnArg tiles, BnArg stake]
        [(''owner'', owner), (''pool'', pl_address pool), (''player'', playerAddress ix (pl_address pool) owner),
         (''round'', rd), (''position'', positionAddress ix rd owner), (''systemProgram'', ie_systemProgram ix)]]"
  by (auto simp: buyPosition_def js_simps)

lemma ALL_TILES_bits: "bit ALL_TILES t \<longleftrightarrow> t < TILES"
  by (auto simp: ALL_TILES_def bit_mask_iff simp flip: mask_eq_exp_minus_1)

text \<open>The Sparring player never overreaches: what it sends is one purchase, by its own wallet, of all 36
  tiles at the fixed stake, made only while the Round is open and two seconds short of the close
  buffer, only without a Position of its own, and only when its Tickets cover all 36 stakes.\<close>

theorem sparring_never_overreaches:
  assumes "playSparring ix ctx = Inr (Some is)"
  shows "\<exists>r accounts. sc_openRound ctx = Some r \<and> rd_status r = ROUND_OPEN \<and> \<not> sc_hasPosition ctx \<and>
    sc_now ctx + 2 \<le> rd_endsAt r - pl_closeBuffer (sc_pool ctx) \<and>
    (\<Sum>t \<in> {t. t < TILES \<and> bit ALL_TILES t}. STAKE_PER_TILE) \<le> sc_entries ctx \<and> card {t. t < TILES \<and> bit ALL_TILES t} = 36 \<and>
    is = [Method ''buyPosition'' [BnArg ALL_TILES, BnArg STAKE_PER_TILE] accounts] \<and>
    (''owner'', sc_owner ctx) \<in> set accounts"
proof -
  have tiles: "{t. t < TILES \<and> bit ALL_TILES t} = {..<36}" by (auto simp: ALL_TILES_bits TILES_def)
  obtain r where r: "sc_openRound ctx = Some r" using assms by (auto simp: playSparring_def split: option.splits)
  then have g: "rd_status r = ROUND_OPEN" "\<not> sc_hasPosition ctx"
      "sc_now ctx + 2 \<le> rd_endsAt r - pl_closeBuffer (sc_pool ctx)" "STAKE_PER_TILE * int TILES \<le> sc_entries ctx"
      "buyPosition ix (sc_pool ctx) (rd_roundId r) (sc_owner ctx) ALL_TILES STAKE_PER_TILE = Inr is"
    using assms by (auto simp: playSparring_def SPARRING_MARGIN_def js_simps split: if_splits)
  show ?thesis using r g buyPosition_shape[OF g(5)] unfolding tiles by (auto simp: TILES_def)
qed

definition sparringIx :: ix_env where
  "sparringIx = \<lparr>ie_hasMethod = (\<lambda>_. True), ie_programId = [1], ie_operator = [2], ie_testVrf = False,
    ie_findProgramAddress = (\<lambda>seeds p. concat seeds), ie_parseKey = (\<lambda>s. Inr []), ie_associatedToken = (\<lambda>m x. x),
    ie_systemProgram = [3], ie_tokenProgram = [4], ie_oraoProgram = [5], ie_oraoTreasury = [6]\<rparr>"

definition sparringCtx :: sparring_context where
  "sparringCtx = \<lparr>sc_now = 93,
    sc_pool = \<lparr>pl_address = [1], pl_admin = [2], pl_operator = [3], pl_acceptedMint = [4], pl_treasury = [5],
      pl_buybackReserve = [6], pl_house = [7], pl_vrfNetworkState = [8], pl_epochSeconds = 3600,
      pl_roundSeconds = 60, pl_closeBuffer = 5, pl_vrfTimeout = 50, pl_registrationWindow = 100,
      pl_payoutTimeout = 200, pl_paused = False, pl_currentEpochId = 2, pl_nextRoundId = 10, pl_openRoundId = 9,
      pl_totalPrincipal = 1000, pl_shutdown = False, pl_gamePaused = False, pl_jackpotPaused = False\<rparr>,
    sc_openRound = Some \<lparr>rd_roundId = 9, rd_endsAt = 100, rd_status = ROUND_OPEN, rd_vrfSeed = [], rd_requestedAt = 0\<rparr>,
    sc_owner = [7], sc_entries = 36000000, sc_hasPosition = False\<rparr>"

lemma sparringCtx_plays: "\<exists>is. playSparring sparringIx sparringCtx = Inr (Some is)"
  by (simp add: playSparring_def sparringCtx_def SPARRING_MARGIN_def STAKE_PER_TILE_def TILES_def buyPosition_def
      roundAddress_def leU64_def methodIx_def sparringIx_def single_def)

theorem sparring_never_overreaches_witness:
  "\<exists>is. playSparring sparringIx sparringCtx = Inr (Some is) \<and> (\<exists>accounts.
    is = [Method ''buyPosition'' [BnArg ALL_TILES, BnArg STAKE_PER_TILE] accounts] \<and> (''owner'', [7]) \<in> set accounts)"
proof -
  obtain "is" where run: "playSparring sparringIx sparringCtx = Inr (Some is)" using sparringCtx_plays by blast
  have "sc_owner sparringCtx = [7]" by (simp add: sparringCtx_def)
  then show ?thesis using sparring_never_overreaches[OF run] run by auto
qed

text \<open>A pass ends with the flag down, sends at most one transaction, and none while another pass runs.\<close>

theorem sparring_pass_is_single:
  "(case sparringTick ix poolKey keypair w running of
      (sent, note, running') \<Rightarrow> length sent \<le> 1 \<and> (running' \<longrightarrow> running \<and> sent = []) \<and>
        (running \<or> keypair = None \<longrightarrow> sent = []) \<and> (note = LogBought \<longrightarrow> length sent = 1))"
proof -
  have "length (fst (playOnce ix poolKey owner w)) \<le> 1" for owner
    by (auto simp: playOnce_def Let_def split: sum.splits option.splits prod.splits)
  moreover have "snd (playOnce ix poolKey owner w) = Inr True \<Longrightarrow> length (fst (playOnce ix poolKey owner w)) = 1" for owner
    by (auto simp: playOnce_def Let_def split: sum.splits option.splits prod.splits if_splits)
  ultimately show ?thesis
    by (auto simp: sparringTick_def split: option.splits prod.splits sum.splits) (metis fst_conv snd_conv)+
qed

section \<open>Laws of the faucet\<close>

text \<open>The faucet's life: a failed boot read, a request at any clock reading with any chain answer. The hist holds
  each wallet that was sent a mint with the second it was asked at, newest first.\<close>

inductive faucetRun :: "faucet_env \<Rightarrow> faucet_state \<times> (string \<times> int) list \<Rightarrow> bool" for env where
  start: "faucetRun env (faucetBoot env authority \<lparr>fs_isMintAuthority = False, fs_claims = []\<rparr>, [])"
| granted: "faucetRun env (st, hist) \<Longrightarrow> faucetRequest env send nowMs body st = (Inr receipt, st') \<Longrightarrow>
    faucetRun env (st', (fr_owner receipt, nowMs div 1000) # hist)"
| refused: "faucetRun env (st, hist) \<Longrightarrow> faucetRequest env send nowMs body st = (Inl e, st') \<Longrightarrow> faucetRun env (st', hist)"

lemma faucet_refusal_costs_nothing: "faucetRequest env send nowMs body st = (Inl e, st') \<Longrightarrow> st' = st"
  by (auto simp: faucetRequest_def Let_def split: if_splits sum.splits option.splits)

lemma faucet_grant:
  assumes "faucetRequest env send nowMs body st = (Inr receipt, st')"
  shows "fs_isMintAuthority st"
    and "st' = st\<lparr>fs_claims := upsertRow fm_owner \<lparr>fm_owner = fr_owner receipt, fm_lastClaimAt = nowMs div 1000\<rparr> (fs_claims st)\<rparr>"
    and "findUnique fm_owner (fr_owner receipt) (fs_claims st) = Some c \<Longrightarrow> fm_lastClaimAt c + fe_interval env \<le> nowMs div 1000"
    and "fr_amount receipt = fe_amount env"
  using assms by (auto simp: faucetRequest_def Let_def split: if_splits sum.splits option.splits)

text \<open>Every wallet of the hist has a claim at least as late as each of its mints.\<close>

definition claimsCover :: "faucet_env \<Rightarrow> faucet_state \<times> (string \<times> int) list \<Rightarrow> bool" where
  "claimsCover env c = (\<forall>(a, t) \<in> set (snd c). \<exists>r. findUnique fm_owner a (fs_claims (fst c)) = Some r \<and> t \<le> fm_lastClaimAt r)"

fun spaced :: "int \<Rightarrow> (string \<times> int) list \<Rightarrow> bool" where
  "spaced gap [] = True"
| "spaced gap ((a, t) # hist) = ((\<forall>(b, u) \<in> set hist. b = a \<longrightarrow> u + gap \<le> t) \<and> spaced gap hist)"

lemma faucetRun_inv: "faucetRun env c \<Longrightarrow> 0 \<le> fe_interval env \<Longrightarrow> claimsCover env c \<and> spaced (fe_interval env) (snd c)"
proof (induction rule: faucetRun.induct)
  case (granted st hist send nowMs body receipt st')
  note g = faucet_grant[OF granted.hyps(2)]
  have IH: "claimsCover env (st, hist)" "spaced (fe_interval env) hist" using granted by auto
  have late: "u + fe_interval env \<le> nowMs div 1000" if "(fr_owner receipt, u) \<in> set hist" for u
    using IH(1) that g(3) by (fastforce simp: claimsCover_def)
  have "claimsCover env (st', (fr_owner receipt, nowMs div 1000) # hist)"
    using IH(1) late granted.prems unfolding g(2) by (fastforce simp: claimsCover_def findUnique_upsert)
  then show ?case using IH(2) late by auto
next
  case (refused st hist send nowMs body e st')
  then show ?case using faucet_refusal_costs_nothing by fastforce
qed (simp add: claimsCover_def)

lemma spaced_suffix: "spaced gap (xs @ ys) \<Longrightarrow> spaced gap ys"
  by (induction xs) auto

text \<open>The faucet keeps its pace: in any history of requests, whatever the clock, the senders and the chain
  did, two mints to one wallet are never closer together than the interval.\<close>

theorem faucet_keeps_pace:
  assumes "faucetRun env (st, before @ (a, t) # between @ (a, u) # older)" "0 \<le> fe_interval env"
  shows "u + fe_interval env \<le> t"
proof -
  have "spaced (fe_interval env) ((a, t) # between @ (a, u) # older)"
    using faucetRun_inv[OF assms] spaced_suffix by fastforce
  then show ?thesis by simp
qed

definition demoFaucet :: faucet_env where
  "demoFaucet = \<lparr>fe_parseKey = (\<lambda>_. Some [9]), fe_onCurve = (\<lambda>_. True), fe_b58 = (\<lambda>_. ''W''), fe_mint = [1],
    fe_operator = [2], fe_amount = 1000, fe_interval = 60, fe_tokenAccount = id\<rparr>"

definition demoBody :: json where "demoBody = JObject [(''owner'', JString ''W'')]"

definition demoFaucetState :: "faucet_claim list \<Rightarrow> faucet_state" where
  "demoFaucetState claims = \<lparr>fs_isMintAuthority = True, fs_claims = claims\<rparr>"

lemma demoFaucet_grants:
  "\<exists>receipt. fr_owner receipt = ''W'' \<and>
    faucetRequest demoFaucet (\<lambda>_. Inr ''S'') 100000 demoBody (demoFaucetState []) =
      (Inr receipt, demoFaucetState [\<lparr>fm_owner = ''W'', fm_lastClaimAt = 100\<rparr>])"
  "\<exists>receipt. fr_owner receipt = ''W'' \<and>
    faucetRequest demoFaucet (\<lambda>_. Inr ''S'') 160000 demoBody (demoFaucetState [\<lparr>fm_owner = ''W'', fm_lastClaimAt = 100\<rparr>]) =
      (Inr receipt, demoFaucetState [\<lparr>fm_owner = ''W'', fm_lastClaimAt = 160\<rparr>])"
  by (simp_all add: faucetRequest_def demoFaucet_def demoBody_def demoFaucetState_def parseFaucetOwner_def
      stringField_def jsonField_def findUnique_def Let_def)

lemma demoFaucet_run: "\<exists>st. faucetRun demoFaucet (st, [(''W'', 160), (''W'', 100)])"
proof -
  have "faucetBoot demoFaucet (Inr (Some [2])) \<lparr>fs_isMintAuthority = False, fs_claims = []\<rparr> = demoFaucetState []"
    by (simp add: faucetBoot_def demoFaucet_def demoFaucetState_def)
  then have run: "faucetRun demoFaucet (demoFaucetState [], [])" by (metis faucetRun.start)
  obtain r1 r2 where r: "fr_owner r1 = ''W''" "fr_owner r2 = ''W''"
      "faucetRequest demoFaucet (\<lambda>_. Inr ''S'') 100000 demoBody (demoFaucetState []) =
        (Inr r1, demoFaucetState [\<lparr>fm_owner = ''W'', fm_lastClaimAt = 100\<rparr>])"
      "faucetRequest demoFaucet (\<lambda>_. Inr ''S'') 160000 demoBody (demoFaucetState [\<lparr>fm_owner = ''W'', fm_lastClaimAt = 100\<rparr>]) =
        (Inr r2, demoFaucetState [\<lparr>fm_owner = ''W'', fm_lastClaimAt = 160\<rparr>])"
    using demoFaucet_grants by blast
  from faucetRun.granted[OF faucetRun.granted[OF run r(3)] r(4)] r(1,2) show ?thesis by auto
qed

theorem faucet_keeps_pace_witness:
  "\<exists>st. faucetRun demoFaucet (st, [(''W'', 160), (''W'', 100)]) \<and> 100 + fe_interval demoFaucet \<le> 160"
proof -
  obtain st where run: "faucetRun demoFaucet (st, [] @ (''W'', 160) # [] @ (''W'', 100) # [])" using demoFaucet_run by auto
  have "0 \<le> fe_interval demoFaucet" by (simp add: demoFaucet_def)
  from faucet_keeps_pace[OF run this] run show ?thesis by auto
qed

section \<open>Laws of the boot guards\<close>

text \<open>A process that boots is on its own cluster, Pool and program: when the guards pass, the node's genesis
  hash is the cluster's, an existing Pool holds the configured mint, and every mirrored row's address
  is the Pool address its own id derives.\<close>

theorem guarded_boot_is_consistent:
  assumes "runBootGuards ix b58 d = Inr ()"
  shows "bd_genesisHash d = Inr (CLUSTER_GENESIS_HASHES (bd_cluster d)) \<and>
    (\<forall>data. bd_poolAccount d = Inr (Some data) \<longrightarrow> bd_decodeMint d data = Inr (bd_acceptedMint d)) \<and>
    (\<exists>rows. bd_rows d = Inr rows \<and> (\<forall>(a, i) \<in> set rows. \<exists>k. poolAddress ix i = Inr k \<and> b58 k = a))"
proof -
  have genesis: "bd_genesisHash d = Inr (CLUSTER_GENESIS_HASHES (bd_cluster d))"
    using assms by (auto simp: runBootGuards_def js_simps assertClusterMatchesGenesis_def Let_def split: if_splits)
  have mint: "bd_decodeMint d data = Inr (bd_acceptedMint d)" if "bd_poolAccount d = Inr (Some data)" for data
    using assms that by (auto simp: runBootGuards_def js_simps assertAcceptedMintMatchesPool_def split: if_splits)
  obtain rows where rows: "bd_rows d = Inr rows" "assertPoolRowsBelongToProgram ix b58 rows = Inr ()"
    using assms by (auto simp: runBootGuards_def js_simps)
  then obtain checked where
      c: "list_all2 (\<lambda>x y. \<exists>k. poolAddress ix (snd x) = Inr k \<and> (b58 k \<noteq> fst x, x) = y) rows checked"
      "filter fst checked = []"
    by (auto simp: assertPoolRowsBelongToProgram_def js_simps mapRes_Inr_iff Let_def split_beta split: if_splits)
  then have "\<forall>(a, i) \<in> set rows. \<exists>k. poolAddress ix i = Inr k \<and> b58 k = a"
    by (induction rule: list_all2_induct) (auto split: if_splits)
  then show ?thesis using genesis mint rows by auto
qed

definition demoBoot :: boot_deps where
  "demoBoot = \<lparr>bd_genesisHash = Inr (CLUSTER_GENESIS_HASHES Devnet), bd_poolAccount = Inr (Some [1]),
    bd_decodeMint = (\<lambda>_. Inr ''M''), bd_acceptedMint = ''M'', bd_cluster = Devnet, bd_rows = Inr [(''P'', 3)]\<rparr>"

theorem guarded_boot_is_consistent_witness:
  "runBootGuards sparringIx (\<lambda>_. ''P'') demoBoot = Inr () \<and> bd_decodeMint demoBoot [1] = Inr ''M''"
proof -
  have run: "runBootGuards sparringIx (\<lambda>_. ''P'') demoBoot = Inr ()"
    by (simp add: runBootGuards_def demoBoot_def assertClusterMatchesGenesis_def assertAcceptedMintMatchesPool_def
        assertPoolRowsBelongToProgram_def poolAddress_def leU64_def)
  have "bd_poolAccount demoBoot = Inr (Some [1])" "bd_acceptedMint demoBoot = ''M''" by (simp_all add: demoBoot_def)
  then show ?thesis using guarded_boot_is_consistent[OF run] run by auto
qed

end
