(* ===== verification/Board.thy ===== *)
theory Board
  imports Hexo_Prelude
begin

text \<open>
  What the game screen derives from a Round: tiles and masks (\<open>web/src/lib/protocol.ts\<close>), phases,
  countdowns, rewards and the auto-round rule (\<open>web/src/engine.ts\<close>), the chain clock
  (\<open>web/src/clock.ts\<close>, \<open>web/src/useChainClock.ts\<close>), the launch countdown (\<open>web/src/launch.ts\<close>) and the
  tabs (\<open>web/src/tabs.ts\<close>). \<open>labelStatus\<close>, which rests on the language's general text-to-number rule,
  is left out.
\<close>

section \<open>Tiles\<close>

definition TILE_COUNT :: nat where "TILE_COUNT = 36"

definition tileOf :: "string \<Rightarrow> nat option" where
  "tileOf part =
    (let piece = trimText part
     in if piece = [] \<or> \<not> list_all isDigit piece then None
        else (case readDigits 0 piece of None \<Rightarrow> None | Some t \<Rightarrow> if t < TILE_COUNT then Some t else None))"

fun tilesOf :: "string list \<Rightarrow> nat list option" where
  "tilesOf [] = Some []"
| "tilesOf (p # ps) =
    (case tileOf p of None \<Rightarrow> None
     | Some t \<Rightarrow> (case tilesOf ps of None \<Rightarrow> None | Some ts \<Rightarrow> Some (t # ts)))"

definition tilesToMask :: "string \<Rightarrow> int option" where
  "tilesToMask s =
    (let trimmed = trimText s
     in if trimmed = [] then None
        else (case tilesOf (splitOn (CHR '','') trimmed) of None \<Rightarrow> None
              | Some seen \<Rightarrow> Some (fold (\<lambda>t m. or m (push_bit t 1)) (firstOccurrences seen) 0)))"

definition maskToTiles :: "int \<Rightarrow> nat list" where
  "maskToTiles m = filter (\<lambda>t. and (drop_bit t m) 1 \<noteq> 0) [0..<TILE_COUNT]"

definition popcount :: "int \<Rightarrow> nat" where
  "popcount m = fold (\<lambda>t n. if and (drop_bit t m) 1 \<noteq> 0 then n + 1 else n) [0..<TILE_COUNT] 0"

definition tileGridLabel :: "nat \<Rightarrow> string" where
  "tileGridLabel tile = ''row '' @ showNat (tile div 6 + 1) @ '', col '' @ showNat (tile mod 6 + 1)"

section \<open>Rounds\<close>

datatype phase = Idle | Mine | Locked | Settling | Awaiting

record round_like =
  wr_roundId :: int
  wr_epochId :: int
  wr_startsAt :: int
  wr_endsAt :: int
  wr_status :: int
  wr_winningTile :: nat
  wr_pot :: int
  wr_houseCut :: int
  wr_tileTotals :: "int list"

record position_like =
  wp_tiles :: int
  wp_stakePerTile :: int

definition W_OPEN :: int where "W_OPEN = 0"
definition W_REQUESTED :: int where "W_REQUESTED = 1"
definition W_SETTLED :: int where "W_SETTLED = 2"
definition W_FORFEITED :: int where "W_FORFEITED = 3"
definition W_VOIDED :: int where "W_VOIDED = 4"

definition roundKey :: "int \<Rightarrow> string" where "roundKey roundId = showInt roundId"

definition buyClosesAt :: "round_like \<Rightarrow> int \<Rightarrow> int" where
  "buyClosesAt r bufferSeconds =
    (let close = wr_endsAt r - bufferSeconds in if close > wr_startsAt r then close else wr_startsAt r)"

definition isRevealed :: "round_like \<Rightarrow> bool" where
  "isRevealed r = (wr_status r = W_SETTLED \<or> wr_status r = W_FORFEITED)"

definition phaseFor :: "round_like option \<Rightarrow> int \<Rightarrow> int \<Rightarrow> phase" where
  "phaseFor round0 now bufferSeconds =
    (case round0 of
       None \<Rightarrow> Idle
     | Some r \<Rightarrow>
         if now < buyClosesAt r bufferSeconds then Mine
         else if now < wr_endsAt r then Locked
         else if isRevealed r \<or> wr_status r = W_VOIDED then Awaiting
         else Settling)"

definition idleBoardLabel :: "bool \<Rightarrow> bool \<Rightarrow> bool \<Rightarrow> string option" where
  "idleBoardLabel roundOpen epochStarted gamePaused =
    (if roundOpen then None
     else if \<not> epochStarted then Some ''STARTS SOON''
     else if gamePaused then Some ''GAME PAUSED'' else None)"

datatype reveal_decision = Fire | Wait | NothingToReveal

definition decideReveal :: "round_like option \<Rightarrow> string set \<Rightarrow> reveal_decision" where
  "decideReveal remembered played =
    (case remembered of
       None \<Rightarrow> Wait
     | Some r \<Rightarrow> if roundKey (wr_roundId r) \<in> played then NothingToReveal else Fire)"

definition covers :: "int \<Rightarrow> nat \<Rightarrow> bool" where
  "covers m tile = (and (drop_bit tile m) 1 = 1)"

definition expectedReward :: "round_like \<Rightarrow> position_like \<Rightarrow> int" where
  "expectedReward r p =
    (if wr_status r \<noteq> W_SETTLED then 0
     else if \<not> covers (wp_tiles p) (wr_winningTile r) then 0
     else let winningTotal = (if wr_winningTile r < length (wr_tileTotals r) then wr_tileTotals r ! wr_winningTile r else 0)
          in if winningTotal = 0 then 0
             else bigDiv ((wr_pot r - wr_houseCut r) * wp_stakePerTile p) winningTotal)"

definition roundSecondsLeft :: "round_like \<Rightarrow> int \<Rightarrow> int \<Rightarrow> int" where
  "roundSecondsLeft r bufferSeconds now =
    (if phaseFor (Some r) now bufferSeconds \<noteq> Mine then 0 else buyClosesAt r bufferSeconds - now)"

definition displayTile :: "nat \<Rightarrow> nat" where "displayTile tile = tile + 1"

definition timerText :: "int \<Rightarrow> string" where
  "timerText seconds =
    padStart 2 (showInt (seconds div 60)) @ '':'' @ padStart 2 (showInt (min 59 (seconds smod 60)))"

definition hmText :: "int \<Rightarrow> string" where
  "hmText seconds =
    (let total0 = (if seconds > 0 then seconds else 0);
         hh = bigDiv total0 3600; mm = bigDiv (total0 smod 3600) 60
     in padStart 2 (showInt hh) @ '':'' @ padStart 2 (showInt mm))"

definition dhmsParts :: "int \<Rightarrow> string list" where
  "dhmsParts seconds =
    (let total0 = (if seconds > 0 then seconds else 0)
     in map (\<lambda>n. padStart 2 (showInt n))
          [bigDiv total0 86400, bigDiv (total0 smod 86400) 3600, bigDiv (total0 smod 3600) 60, total0 smod 60])"

record remembered_board =
  rb_tiles :: "nat list"
  rb_stake :: int

datatype auto_decision = Place "nat list" int | Skip string

definition decideAutoRound :: "remembered_board option \<Rightarrow> int \<Rightarrow> phase \<Rightarrow> bool \<Rightarrow> auto_decision" where
  "decideAutoRound board entries phase0 hasPosition =
    (case board of
       None \<Rightarrow> Skip ''no remembered board''
     | Some b \<Rightarrow>
         if rb_tiles b = [] then Skip ''remembered board has no tiles''
         else if rb_stake b \<le> 0 then Skip ''remembered stake is zero''
         else if hasPosition then Skip ''position already placed this round''
         else if phase0 \<noteq> Mine then Skip ''round is not open for positions''
         else if rb_stake b * int (length (rb_tiles b)) > entries then Skip ''stake exceeds Entries''
         else Place (rb_tiles b) (rb_stake b))"

section \<open>The chain clock\<close>

text \<open>Monotonic instants are whole milliseconds.\<close>

record clock_sync =
  ck_chainTimeSeconds :: int
  ck_syncedAtMs :: int

definition syncChainClock :: "int \<Rightarrow> int \<Rightarrow> clock_sync" where
  "syncChainClock t nowMs = \<lparr>ck_chainTimeSeconds = t, ck_syncedAtMs = nowMs\<rparr>"

definition chainTimeNow :: "clock_sync \<Rightarrow> int \<Rightarrow> int" where
  "chainTimeNow sync nowMs = ck_chainTimeSeconds sync + (nowMs - ck_syncedAtMs sync) div 1000"

definition needsResync :: "clock_sync \<Rightarrow> int \<Rightarrow> int \<Rightarrow> int \<Rightarrow> bool" where
  "needsResync sync servedSeconds nowMs toleranceSeconds =
    (let local = chainTimeNow sync nowMs;
         apart = (if local > servedSeconds then local - servedSeconds else servedSeconds - local)
     in apart \<ge> toleranceSeconds)"

definition RESYNC_TOLERANCE_SECONDS :: int where "RESYNC_TOLERANCE_SECONDS = 3"

text \<open>The hook: \<open>anchoredRoundRef\<close> starts null, as \<open>roundId\<close> may be.\<close>

record clock_hook =
  ch_sync :: "clock_sync option"
  ch_anchoredRound :: "int option"
  ch_now :: "int option"

definition clockServed :: "int option \<Rightarrow> int option \<Rightarrow> int \<Rightarrow> clock_hook \<Rightarrow> clock_hook" where
  "clockServed chainTimeSeconds roundId nowMs h =
    (case chainTimeSeconds of
       None \<Rightarrow> h
     | Some t \<Rightarrow>
         if (case ch_sync h of None \<Rightarrow> False
             | Some sync \<Rightarrow> roundId = ch_anchoredRound h \<and> \<not> needsResync sync t nowMs RESYNC_TOLERANCE_SECONDS)
         then h
         else \<lparr>ch_sync = Some (syncChainClock t nowMs), ch_anchoredRound = roundId, ch_now = Some t\<rparr>)"

definition clockTick :: "int \<Rightarrow> clock_hook \<Rightarrow> clock_hook" where
  "clockTick nowMs h =
    (case ch_sync h of None \<Rightarrow> h | Some sync \<Rightarrow> h\<lparr>ch_now := Some (chainTimeNow sync nowMs)\<rparr>)"

section \<open>The launch countdown and the prize card\<close>

text \<open>\<open>launchAt\<close> is the parsed date in milliseconds.\<close>

record launch_countdown =
  lc_scheduled :: bool
  lc_remaining :: "int option"

definition launchCountdown :: "int option \<Rightarrow> int option \<Rightarrow> launch_countdown" where
  "launchCountdown launchAtMs now =
    (case launchAtMs of
       None \<Rightarrow> \<lparr>lc_scheduled = False, lc_remaining = None\<rparr>
     | Some ms \<Rightarrow>
         (case now of
            None \<Rightarrow> \<lparr>lc_scheduled = True, lc_remaining = None\<rparr>
          | Some n \<Rightarrow> (let remaining = ms div 1000 - n
                      in \<lparr>lc_scheduled = True, lc_remaining = Some (if remaining > 0 then remaining else 0)\<rparr>)))"

definition EM_DASH :: string where "EM_DASH = [CHR 0xE2, CHR 0x80, CHR 0x94]"

definition launchCountdownLabel :: "launch_countdown \<Rightarrow> string" where
  "launchCountdownLabel c =
    (if \<not> lc_scheduled c then ''Coming soon''
     else (case lc_remaining c of
             None \<Rightarrow> ''First draw in '' @ EM_DASH
           | Some s \<Rightarrow> ''First draw in '' @ joinWith '':'' (dhmsParts s)))"

datatype prize_card = CardLaunch | CardPaused | CardLive

definition prizeCardState :: "bool \<Rightarrow> bool \<Rightarrow> bool \<Rightarrow> bool \<Rightarrow> prize_card" where
  "prizeCardState gated hasEpoch jackpotPaused scheduled =
    (if gated \<or> \<not> hasEpoch \<and> scheduled then CardLaunch
     else if \<not> hasEpoch then CardLive
     else if jackpotPaused then CardPaused else CardLive)"

section \<open>Tabs\<close>

datatype tab = HOME | MINE | DASHBOARD | VAULT | DAILY_DRAW | LEADERBOARD | REFERRALS | ABOUT

definition HASH_TABS :: "(string \<times> tab) list" where
  "HASH_TABS = [(''home'', HOME), (''play'', MINE), (''earn'', DASHBOARD), (''deposit'', VAULT),
    (''draw'', DAILY_DRAW), (''ranks'', LEADERBOARD), (''referrals'', REFERRALS), (''about'', ABOUT)]"

text \<open>The property names every plain object inherits. Indexing \<open>HASH_TABS\<close> finds them too, and what it finds
  then is no tab.\<close>

definition INHERITED :: "string list" where
  "INHERITED = [''constructor'', ''__proto__'', ''__defineGetter__'', ''__defineSetter__'', ''__lookupGetter__'',
    ''__lookupSetter__'', ''hasOwnProperty'', ''isPrototypeOf'', ''propertyIsEnumerable'', ''toLocaleString'',
    ''toString'', ''valueOf'']"

datatype tab_value = IsTab tab | InheritedValue string

definition tabFromHash :: "string \<Rightarrow> tab_value" where
  "tabFromHash hash =
    (let key = map lowerChar (if prefix ''#'' hash then drop 1 hash else hash)
     in case map_of HASH_TABS key of
          Some t \<Rightarrow> IsTab t
        | None \<Rightarrow> if key \<in> set INHERITED then InheritedValue key else IsTab HOME)"

definition TAB_HASHES :: "tab \<Rightarrow> string option" where
  "TAB_HASHES t = map_of (rev (map (\<lambda>(h, u). (u, h)) HASH_TABS)) t"

definition hashForTab :: "tab \<Rightarrow> string" where
  "hashForTab t = ''#'' @ (case TAB_HASHES t of Some h \<Rightarrow> h | None \<Rightarrow> ''undefined'')"

definition playLock :: "bool \<Rightarrow> int \<Rightarrow> string option" where
  "playLock gameGated entries =
    (if gameGated then Some ''Coming soon'' else if entries = 0 then Some ''Deposit first to play'' else None)"

end
