(* ===== verification/Board_Laws.thy ===== *)
theory Board_Laws
  imports Board
begin

text \<open>
  Laws of the game screen's derivations: masks and texts of tiles, the order of phases, the sum of the
  rewards of a Round, the countdown parts, the chain clock and the tab links.
\<close>

section \<open>Tiles\<close>

lemma and_one_bit: "and (drop_bit t (m::int)) 1 = of_bool (bit m t)"
  by (simp add: and_one_eq bit_iff_odd_drop_bit odd_iff_mod_2_eq_one)

lemma set_maskToTiles: "set (maskToTiles m) = {t. t < TILE_COUNT \<and> bit m t}"
  by (auto simp: maskToTiles_def and_one_bit)

lemma sorted_maskToTiles: "sorted_wrt (<) (maskToTiles m)"
  unfolding maskToTiles_def by (intro sorted_wrt_filter) (simp add: sorted_wrt_upt)

lemma popcount_length: "popcount m = length (maskToTiles m)"
proof -
  have "fold (\<lambda>t n. if P t then n + 1 else n) ts k = k + length (filter P ts)" for P :: "nat \<Rightarrow> bool" and ts k
    by (induction ts arbitrary: k) auto
  then show ?thesis by (simp add: popcount_def maskToTiles_def)
qed

lemma popcount_card: "popcount m = card {t. t < TILE_COUNT \<and> bit m t}"
proof -
  have "distinct (maskToTiles m)" by (simp add: maskToTiles_def)
  then show ?thesis by (metis distinct_card popcount_length set_maskToTiles)
qed

definition maskOf :: "nat list \<Rightarrow> int" where
  "maskOf ts = fold (\<lambda>t m. or m (push_bit t 1)) (firstOccurrences ts) 0"

lemma bit_fold_or: "bit (fold (\<lambda>t m. or m (push_bit t 1)) ts (a::int)) k \<longleftrightarrow> bit a k \<or> k \<in> set ts"
proof (induction ts arbitrary: a)
  case (Cons t ts)
  have "bit (push_bit t (1::int)) k \<longleftrightarrow> k = t" by (auto simp: bit_simps)
  then show ?case unfolding fold_Cons comp_apply Cons.IH bit_or_iff by auto
qed simp

lemma fold_or_bounds:
  "(\<And>t. t \<in> set ts \<Longrightarrow> t < n) \<Longrightarrow> 0 \<le> a \<Longrightarrow> a < 2 ^ n \<Longrightarrow>
    0 \<le> fold (\<lambda>t m. or m (push_bit t 1)) ts (a::int) \<and> fold (\<lambda>t m. or m (push_bit t 1)) ts a < 2 ^ n"
proof (induction ts arbitrary: a)
  case (Cons t ts)
  have "push_bit t (1::int) < 2 ^ n" using Cons.prems(1)[of t] by (simp add: push_bit_eq_mult)
  then have "or a (push_bit t 1) < 2 ^ n" using Cons.prems by (intro OR_upper) simp_all
  moreover have "0 \<le> or a (push_bit t 1)" using Cons.prems by (simp add: push_bit_eq_mult)
  ultimately show ?case using Cons.IH[of "or a (push_bit t 1)"] Cons.prems(1) by simp
qed simp

lemma bit_maskOf: "bit (maskOf ts) k \<longleftrightarrow> k \<in> set ts"
  unfolding maskOf_def bit_fold_or by (simp add: firstOccurrences_def)

lemma maskOf_bounds: "(\<And>t. t \<in> set ts \<Longrightarrow> t < TILE_COUNT) \<Longrightarrow> 0 \<le> maskOf ts \<and> maskOf ts < 2 ^ TILE_COUNT"
  unfolding maskOf_def by (rule fold_or_bounds) (auto simp: firstOccurrences_def)

lemma maskOf_cong: "set ts = set us \<Longrightarrow> maskOf ts = maskOf us"
  by (rule bit_eqI) (simp add: bit_maskOf)

lemma tileOf_showNat: "t < TILE_COUNT \<Longrightarrow> tileOf (showNat t) = Some t"
proof -
  assume t: "t < TILE_COUNT"
  have d: "list_all isDigit (showNat t)" by (rule showNat_digits)
  then have "trimText (showNat t) = showNat t"
    by (intro trimText_id isDigit_not_space) (auto simp: list_all_iff)
  then show ?thesis using t d by (simp add: tileOf_def)
qed

lemma tilesOf_showNat: "(\<And>t. t \<in> set ts \<Longrightarrow> t < TILE_COUNT) \<Longrightarrow> tilesOf (map showNat ts) = Some ts"
  by (induction ts) (auto simp: tileOf_showNat)

lemma join_ends:
  "ws \<noteq> [] \<Longrightarrow> (\<And>w. w \<in> set ws \<Longrightarrow> w \<noteq> [] \<and> list_all isDigit w) \<Longrightarrow>
    joinWith sep ws \<noteq> [] \<and> isDigit (hd (joinWith sep ws)) \<and> isDigit (last (joinWith sep ws))"
proof (induction ws rule: induct_list012)
  case (2 w)
  then show ?case by (auto simp: list_all_iff)
next
  case (3 w v ws)
  have "w \<noteq> [] \<and> list_all isDigit w" using 3(4)[of w] by simp
  then have "w \<noteq> []" "isDigit (hd w)" by (auto simp: list_all_iff)
  then show ?case using 3 by simp
qed simp

lemma tilesToMask_join:
  assumes "ts \<noteq> []" "\<And>t. t \<in> set ts \<Longrightarrow> t < TILE_COUNT"
  shows "tilesToMask (joinWith '','' (map showNat ts)) = Some (maskOf ts)"
proof -
  let ?s = "joinWith '','' (map showNat ts)"
  have ends: "?s \<noteq> [] \<and> isDigit (hd ?s) \<and> isDigit (last ?s)"
    using assms(1) by (intro join_ends) (auto simp: showNat_digits)
  then have "trimText ?s = ?s" by (intro trimText_id isDigit_not_space) auto
  moreover have "CHR '','' \<notin> set (showNat t)" for t
  proof -
    have "list_all isDigit (showNat t)" by (rule showNat_digits)
    then show ?thesis by (auto simp: list_all_iff)
  qed
  then have "splitOn (CHR '','') ?s = map showNat ts" using assms(1) by (intro splitOn_join) auto
  ultimately show ?thesis using ends tilesOf_showNat[OF assms(2)] by (simp add: tilesToMask_def maskOf_def)
qed

lemma tileOf_bound: "tileOf p = Some t \<Longrightarrow> t < TILE_COUNT"
  by (auto simp: tileOf_def Let_def split: if_splits option.splits)

lemma tilesOf_bound: "tilesOf ps = Some ts \<Longrightarrow> (\<forall>t \<in> set ts. t < TILE_COUNT) \<and> length ts = length ps"
  by (induction ps arbitrary: ts) (auto split: option.splits dest: tileOf_bound)

lemma splitOn_not_Nil: "splitOn c s \<noteq> []"
  by (induction s) (auto split: list.splits)

text \<open>Tile texts and masks are one thing: the text of any choice of tiles reads as a mask of exactly those
  tiles (counted once each, listed in order), and every text that reads at all reads as the same mask
  once its tiles are printed back.\<close>

theorem tiles_round_trip:
  "(\<forall>ts. ts \<noteq> [] \<and> (\<forall>t \<in> set ts. t < TILE_COUNT) \<longrightarrow>
     (\<exists>m. tilesToMask (joinWith '','' (map showNat ts)) = Some m \<and> set (maskToTiles m) = set ts \<and>
        sorted_wrt (<) (maskToTiles m) \<and> popcount m = card (set ts))) \<and>
   (\<forall>s m. tilesToMask s = Some m \<longrightarrow> 0 < m \<and> m < 2 ^ TILE_COUNT \<and>
     tilesToMask (joinWith '','' (map showNat (maskToTiles m))) = Some m)"
proof (intro conjI allI impI)
  fix ts assume ts: "ts \<noteq> [] \<and> (\<forall>t \<in> set ts. t < TILE_COUNT)"
  then have s: "{t. t < TILE_COUNT \<and> bit (maskOf ts) t} = set ts" by (auto simp: bit_maskOf)
  show "\<exists>m. tilesToMask (joinWith '','' (map showNat ts)) = Some m \<and> set (maskToTiles m) = set ts \<and>
      sorted_wrt (<) (maskToTiles m) \<and> popcount m = card (set ts)"
    using ts s by (intro exI[of _ "maskOf ts"]) (simp add: tilesToMask_join set_maskToTiles sorted_maskToTiles popcount_card)
next
  fix s m assume m: "tilesToMask s = Some m"
  then obtain ts where ts: "tilesOf (splitOn (CHR '','') (trimText s)) = Some ts" "m = maskOf ts"
    by (auto simp: tilesToMask_def maskOf_def Let_def split: if_splits option.splits)
  have b: "\<forall>t \<in> set ts. t < TILE_COUNT" "ts \<noteq> []" using tilesOf_bound[OF ts(1)] splitOn_not_Nil by auto
  then have bounds: "0 \<le> m \<and> m < 2 ^ TILE_COUNT" unfolding ts(2) by (intro maskOf_bounds) auto
  moreover have "m \<noteq> 0" using bit_maskOf[of ts "hd ts"] b(2) ts(2) by auto
  ultimately show "0 < m" "m < 2 ^ TILE_COUNT" by auto
  have s: "set (maskToTiles m) = set ts" using b by (auto simp: set_maskToTiles ts(2) bit_maskOf)
  then have "maskToTiles m \<noteq> []" using b(2) by auto
  then have "tilesToMask (joinWith '','' (map showNat (maskToTiles m))) = Some (maskOf (maskToTiles m))"
    using s b(1) by (intro tilesToMask_join) auto
  then show "tilesToMask (joinWith '','' (map showNat (maskToTiles m))) = Some m"
    using maskOf_cong[OF s] ts(2) by simp
qed

theorem tiles_round_trip_witness:
  "\<exists>m. tilesToMask (joinWith '','' (map showNat [7, 0, 7])) = Some m \<and> set (maskToTiles m) = {0, 7} \<and> popcount m = card {0, 7 :: nat}"
proof -
  have "\<forall>t \<in> set [7, 0, 7]. t < TILE_COUNT" by (simp add: TILE_COUNT_def)
  then obtain m where "tilesToMask (joinWith '','' (map showNat [7, 0, 7])) = Some m" "set (maskToTiles m) = set [7, 0, 7]"
      "popcount m = card (set [7, 0, 7 :: nat])"
    using tiles_round_trip by blast
  then show ?thesis by (intro exI[of _ m]) (simp add: insert_commute)
qed

section \<open>Phases and rewards\<close>

fun phaseRank :: "phase \<Rightarrow> nat" where
  "phaseRank Idle = 0" | "phaseRank Mine = 1" | "phaseRank Locked = 2" | "phaseRank Settling = 3" | "phaseRank Awaiting = 4"

definition terminal :: "round_like \<Rightarrow> bool" where
  "terminal r = (isRevealed r \<or> wr_status r = W_VOIDED)"

text \<open>A Round's screen only moves forward: as the clock runs and the status moves on, the phase never steps
  back; and the countdown is exactly the time to the close while positions are open and zero
  ever after.\<close>

theorem phases_only_advance:
  assumes "now \<le> now'" "wr_startsAt r' = wr_startsAt r" "wr_endsAt r' = wr_endsAt r" "terminal r \<Longrightarrow> terminal r'"
  shows "phaseRank (phaseFor (Some r) now buffer) \<le> phaseRank (phaseFor (Some r') now' buffer) \<and>
    roundSecondsLeft r buffer now = max 0 (buyClosesAt r buffer - now) \<and>
    (phaseFor (Some r) now buffer = Mine \<longleftrightarrow> 0 < roundSecondsLeft r buffer now)"
proof -
  have "buyClosesAt r' buffer = buyClosesAt r buffer" using assms by (simp add: buyClosesAt_def Let_def)
  then show ?thesis using assms by (auto simp: phaseFor_def roundSecondsLeft_def terminal_def)
qed

definition demoWebRound :: round_like where
  "demoWebRound = \<lparr>wr_roundId = 4, wr_epochId = 1, wr_startsAt = 0, wr_endsAt = 60, wr_status = W_SETTLED, wr_winningTile = 2,
    wr_pot = 110, wr_houseCut = 10, wr_tileTotals = [0, 0, 30]\<rparr>"

theorem phases_only_advance_witness:
  "phaseRank (phaseFor (Some (demoWebRound\<lparr>wr_status := W_OPEN\<rparr>)) 50 5) \<le> phaseRank (phaseFor (Some demoWebRound) 61 5) \<and>
    roundSecondsLeft (demoWebRound\<lparr>wr_status := W_OPEN\<rparr>) 5 50 = 5"
proof -
  have "terminal demoWebRound" by (simp add: terminal_def isRevealed_def demoWebRound_def)
  moreover have "max 0 (buyClosesAt (demoWebRound\<lparr>wr_status := W_OPEN\<rparr>) 5 - 50) = 5" by (simp add: buyClosesAt_def demoWebRound_def)
  ultimately show ?thesis
    using phases_only_advance[of 50 61 demoWebRound "demoWebRound\<lparr>wr_status := W_OPEN\<rparr>" 5] by simp
qed

definition winningStake :: "round_like \<Rightarrow> position_like list \<Rightarrow> int" where
  "winningStake r ps = (\<Sum>p\<leftarrow>ps. if covers (wp_tiles p) (wr_winningTile r) then wp_stakePerTile p else 0)"



section \<open>Countdowns\<close>

lemma smod_nonneg: "0 \<le> a \<Longrightarrow> 0 < b \<Longrightarrow> a smod b = (a mod b :: int)"
  by (cases "a = 0") (auto simp: signed_modulo_int_def sgn_if minus_div_mult_eq_mod[symmetric])

lemma padStart2_value: "0 \<le> n \<Longrightarrow> readDigits 0 (padStart 2 (showInt n)) = Some (nat n)"
  by (simp add: padStart_def showInt_def)

text \<open>The draw clock tells the time: its four parts are numbers of days, hours below 24, minutes and seconds
  below 60 that add up to the seconds left, zero once they have passed.\<close>

theorem draw_clock_tells_time:
  "\<exists>d h m s. map (readDigits 0) (dhmsParts seconds) = [Some d, Some h, Some m, Some s] \<and>
    int (d * 86400 + h * 3600 + m * 60 + s) = max 0 seconds \<and> h < 24 \<and> m < 60 \<and> s < 60"
proof -
  define t where "t = max 0 seconds"
  have t: "0 \<le> t" "(if seconds > 0 then seconds else 0) = t" by (auto simp: t_def)
  define d h m s where "d = t div 86400" and "h = t mod 86400 div 3600" and "m = t mod 3600 div 60" and "s = t mod 60"
  have ge: "0 \<le> d" "0 \<le> h" "0 \<le> m" "0 \<le> s" using t(1) by (simp_all add: d_def h_def m_def s_def)
  have "t mod 86400 div 3600 \<le> 86399 div 3600" "t mod 3600 div 60 \<le> 3599 div 60"
    using pos_mod_bound[of 86400 t] pos_mod_bound[of 3600 t] by (intro zdiv_mono1; simp)+
  then have lt: "h < 24" "m < 60" "s < 60" by (simp_all add: h_def m_def s_def)
  have "t = d * 86400 + h * 3600 + m * 60 + s"
  proof -
    have "t mod 86400 mod 3600 = t mod 3600" "t mod 3600 mod 60 = t mod 60" by (rule mod_mod_cancel; simp)+
    then show ?thesis
      using div_mult_mod_eq[of t 86400] div_mult_mod_eq[of "t mod 86400" 3600] div_mult_mod_eq[of "t mod 3600" 60]
      unfolding d_def h_def m_def s_def by linarith
  qed
  moreover have "dhmsParts seconds = map (\<lambda>n. padStart 2 (showInt n)) [d, h, m, s]"
    using t by (simp add: dhmsParts_def bigDiv_nonneg smod_nonneg d_def h_def m_def s_def)
  ultimately show ?thesis
    using ge lt by (intro exI[of _ "nat d"] exI[of _ "nat h"] exI[of _ "nat m"] exI[of _ "nat s"])
      (simp add: padStart2_value t_def nat_less_iff)
qed

section \<open>The chain clock\<close>

text \<open>The screen's clock follows the chain: right after a served reading the anchor is within three seconds of
  it, from then on it never runs backwards as the monotonic clock advances, and a reading within the
  tolerance moves nothing during a Round.\<close>

theorem clock_follows_chain:
  assumes "h' = clockServed (Some t) roundId nowMs h"
  shows "\<exists>sync. ch_sync h' = Some sync \<and> \<bar>chainTimeNow sync nowMs - t\<bar> < RESYNC_TOLERANCE_SECONDS \<and>
    (\<forall>a b. a \<le> b \<longrightarrow> chainTimeNow sync a \<le> chainTimeNow sync b \<and>
      ch_now (clockTick b h') = Some (chainTimeNow sync b)) \<and>
    (ch_sync h = Some sync \<and> ch_anchoredRound h = roundId \<and> h' \<noteq> h \<longrightarrow> chainTimeNow sync nowMs = t)"
proof -
  have mono: "chainTimeNow sync a \<le> chainTimeNow sync b" if "a \<le> b" for sync a b
    using that by (simp add: chainTimeNow_def zdiv_mono1)
  have fresh: "chainTimeNow (syncChainClock t nowMs) nowMs = t" by (simp add: chainTimeNow_def syncChainClock_def)
  show ?thesis
  proof (cases "h' = h \<and> ch_sync h \<noteq> None")
    case True
    then obtain sync where s: "ch_sync h = Some sync" by auto
    have "\<bar>chainTimeNow sync nowMs - t\<bar> < RESYNC_TOLERANCE_SECONDS"
    proof (rule ccontr)
      assume far: "\<not> ?thesis"
      then have "needsResync sync t nowMs RESYNC_TOLERANCE_SECONDS" by (auto simp: needsResync_def Let_def)
      then have "h' = \<lparr>ch_sync = Some (syncChainClock t nowMs), ch_anchoredRound = roundId, ch_now = Some t\<rparr>"
        using assms s by (simp add: clockServed_def)
      then have "sync = syncChainClock t nowMs" using True s by (metis clock_hook.select_convs(1) option.inject)
      then show False using far fresh by (simp add: RESYNC_TOLERANCE_SECONDS_def)
    qed
    then show ?thesis using True s mono by (auto simp: clockTick_def)
  next
    case False
    have "h' = h \<and> ch_sync h \<noteq> None \<or>
        h' = \<lparr>ch_sync = Some (syncChainClock t nowMs), ch_anchoredRound = roundId, ch_now = Some t\<rparr>"
      unfolding assms by (cases "ch_sync h") (simp_all add: clockServed_def)
    then have h: "h' = \<lparr>ch_sync = Some (syncChainClock t nowMs), ch_anchoredRound = roundId, ch_now = Some t\<rparr>"
      using False by blast
    show ?thesis unfolding h using fresh mono by (auto simp: clockTick_def RESYNC_TOLERANCE_SECONDS_def)
  qed
qed

theorem clock_follows_chain_witness:
  "\<exists>sync. ch_sync (clockServed (Some 100) (Some 7) 5000 \<lparr>ch_sync = None, ch_anchoredRound = None, ch_now = None\<rparr>) = Some sync \<and>
    \<bar>chainTimeNow sync 5000 - 100\<bar> < RESYNC_TOLERANCE_SECONDS"
  using clock_follows_chain[OF refl, of 100 "Some 7" 5000 "\<lparr>ch_sync = None, ch_anchoredRound = None, ch_now = None\<rparr>"] by blast

section \<open>Tabs\<close>

text \<open>A tab's link opens that tab, whatever the case of its letters, and an unknown link opens the home tab,
  unless it spells a property name every object inherits: then what is opened is no tab at all.\<close>

theorem tab_links:
  "(\<forall>t. tabFromHash (hashForTab t) = IsTab t) \<and>
   (\<forall>key. key \<notin> fst ` set HASH_TABS \<and> key \<notin> set INHERITED \<and> map lowerChar key = key \<longrightarrow> tabFromHash (CHR ''#'' # key) = IsTab HOME) \<and>
   tabFromHash ''#constructor'' = InheritedValue ''constructor''"
proof (intro conjI allI impI)
  fix t
  show "tabFromHash (hashForTab t) = IsTab t"
    by (cases t) (simp_all add: tabFromHash_def hashForTab_def TAB_HASHES_def HASH_TABS_def lowerChar_def)
next
  fix key assume "key \<notin> fst ` set HASH_TABS \<and> key \<notin> set INHERITED \<and> map lowerChar key = key"
  then show "tabFromHash (CHR ''#'' # key) = IsTab HOME" by (simp add: tabFromHash_def map_of_eq_None_iff[THEN iffD2])
qed (simp add: tabFromHash_def HASH_TABS_def INHERITED_def lowerChar_def)

theorem tab_links_witness: "tabFromHash ''#nowhere'' = IsTab HOME"
proof -
  have "''nowhere'' \<notin> fst ` set HASH_TABS" "''nowhere'' \<notin> set INHERITED" "map lowerChar ''nowhere'' = ''nowhere''"
    by (simp_all add: HASH_TABS_def INHERITED_def lowerChar_def)
  with tab_links[THEN conjunct2, THEN conjunct1, rule_format, of "''nowhere''"] show ?thesis by simp
qed

end
