(* ===== verification/Money.thy ===== *)
theory Money
  imports Decode
begin

text \<open>
  The browser's money path: \<open>web/src/lib/money.ts\<close> (printing and reading atomic amounts, previews of a
  withdrawal), \<open>web/src/buyTickets.ts\<close> (the worth of a purchase) and \<open>web/src/shutdown.ts\<close>.
  An amount is a \<open>bigint\<close>, so an \<open>int\<close>; \<open>decimals\<close> is a whole \<open>number\<close>, negative ones included.
  \<open>apyFromBaseRateBps\<close> is floating point display and is left out.
\<close>

section \<open>Printing and reading amounts\<close>

definition invalidDecimals :: "int \<Rightarrow> string" where
  "invalidDecimals decimals = ''invalid decimals: '' @ showInt decimals"

definition signText :: "bool \<Rightarrow> string" where
  "signText negative = (if negative then ''-'' else [])"

definition padEnd :: "nat \<Rightarrow> string \<Rightarrow> string" where
  "padEnd n s = s @ replicate (n - length s) (CHR ''0'')"

definition formatAtomic :: "int \<Rightarrow> int \<Rightarrow> string res" where
  "formatAtomic v decimals =
    (if decimals < 0 then Inl (invalidDecimals decimals)
     else let negative = v < 0; digits = showInt (if negative then - v else v); d = nat decimals
          in if d = 0 then Inr (if negative then ''-'' @ digits else digits)
             else if length digits \<le> d then Inr (signText negative @ ''0.'' @ padStart d digits)
             else Inr (signText negative @ take (length digits - d) digits @ ''.'' @ drop (length digits - d) digits))"

text \<open>The text before and after the first dot; no dot, no fraction.\<close>

definition beforeDot :: "string \<Rightarrow> string" where "beforeDot s = takeWhile (\<lambda>c. c \<noteq> CHR ''.'') s"
definition afterDot :: "string \<Rightarrow> string" where "afterDot s = drop 1 (dropWhile (\<lambda>c. c \<noteq> CHR ''.'') s)"

definition formatAtomic2 :: "int \<Rightarrow> int \<Rightarrow> string res" where
  "formatAtomic2 v decimals =
    rbind (formatAtomic v decimals) (\<lambda>full.
      let negative = prefix ''-'' full;
          unsigned = (if negative then drop 1 full else full)
      in Inr (signText negative @ beforeDot unsigned @ ''.'' @ take 2 (afterDot unsigned @ ''00'')))"

text \<open>\<open>/\B(?=(\d{3})+(?!\d))/g\<close>: a comma goes before a run of digits of a length divisible by three, where
  the character before the run and its first digit are both word characters (or neither is).\<close>

fun insertCommas :: "bool \<Rightarrow> string \<Rightarrow> string" where
  "insertCommas wordBefore [] = []"
| "insertCommas wordBefore (c # s) =
    (let run = length (takeWhile isDigit (c # s))
     in (if wordBefore = isWordChar c \<and> 0 < run \<and> run mod 3 = 0 then '','' else []) @ c # insertCommas (isWordChar c) s)"

definition formatMoney2 :: "int \<Rightarrow> int \<Rightarrow> string res" where
  "formatMoney2 v decimals =
    rbind (formatAtomic2 v decimals) (\<lambda>t. Inr (insertCommas False (beforeDot t) @ dropWhile (\<lambda>c. c \<noteq> CHR ''.'') t))"

definition clampDecimals :: "string \<Rightarrow> nat \<Rightarrow> string" where
  "clampDecimals s places =
    (let clean = filter (\<lambda>c. isDigit c \<or> c = CHR ''.'') s
     in if CHR ''.'' \<notin> set clean then clean
        else beforeDot clean @ ''.'' @ take places (filter (\<lambda>c. c \<noteq> CHR ''.'') (afterDot clean)))"

text \<open>\<open>/^\d+(\.\d+)?$/\<close>.\<close>

definition isDecimalText :: "string \<Rightarrow> bool" where
  "isDecimalText raw =
    (let whole = takeWhile isDigit raw; rest = dropWhile isDigit raw
     in whole \<noteq> [] \<and> (rest = [] \<or> hd rest = CHR ''.'' \<and> tl rest \<noteq> [] \<and> list_all isDigit (tl rest)))"

definition parseAtomic :: "string \<Rightarrow> int \<Rightarrow> int option res" where
  "parseAtomic s decimals =
    (if decimals < 0 then Inl (invalidDecimals decimals)
     else let raw = trimText s; whole = beforeDot raw; frac = afterDot raw
          in if \<not> isDecimalText raw then Inr None
             else if length frac > nat decimals then Inr None
             else rbind (bigIntOf (whole @ padEnd (nat decimals) frac)) (\<lambda>n. Inr (Some n)))"

text \<open>The ellipsis is one character to the browser, three bytes here.\<close>

definition ELLIPSIS :: string where "ELLIPSIS = [CHR 0xE2, CHR 0x80, CHR 0xA6]"

definition formatAddress :: "string \<Rightarrow> string" where
  "formatAddress address =
    (if length address \<le> 12 then address else take 4 address @ ELLIPSIS @ drop (length address - 4) address)"

section \<open>Previews\<close>

definition addCapped :: "int \<Rightarrow> int \<Rightarrow> int option \<Rightarrow> int" where
  "addCapped current step cap =
    (let nextAmount = current + step in case cap of None \<Rightarrow> nextAmount | Some c \<Rightarrow> if nextAmount > c then c else nextAmount)"

definition previewWithdraw :: "int \<Rightarrow> int \<Rightarrow> int" where
  "previewWithdraw entries amount = (if entries > amount then entries - amount else 0)"

datatype pending_kind = PkPending | PkDue | PkProcessing

datatype pending_withdrawal = NoWithdrawal | Withdrawal pending_kind int int

definition pendingWithdrawal :: "int \<Rightarrow> int \<Rightarrow> int option \<Rightarrow> bool \<Rightarrow> bool \<Rightarrow> pending_withdrawal" where
  "pendingWithdrawal amount pendingEpoch currentEpoch payoutSent shutdown =
    (if amount \<le> 0 then NoWithdrawal
     else if payoutSent then Withdrawal PkProcessing amount pendingEpoch
     else let due = shutdown \<or> (case currentEpoch of None \<Rightarrow> False | Some e \<Rightarrow> e > pendingEpoch)
          in Withdrawal (if due then PkDue else PkPending) amount pendingEpoch)"

section \<open>Buying Tickets\<close>

definition SHUTDOWN_REASON :: string where "SHUTDOWN_REASON = ''pool is closed''"

definition ticketsFromUsdc :: "int \<Rightarrow> int \<Rightarrow> int" where
  "ticketsFromUsdc amountAtomic ticketsPerUsdc = amountAtomic * ticketsPerUsdc"

definition drawValue :: "int \<Rightarrow> int \<Rightarrow> int \<Rightarrow> int" where
  "drawValue tickets secondsLeft epochSeconds =
    (if epochSeconds \<le> 0 \<or> tickets \<le> 0 then 0
     else let clamped = (if secondsLeft \<le> 0 then 0 else if secondsLeft > epochSeconds then epochSeconds else secondsLeft)
          in bigDiv (tickets * clamped) epochSeconds)"

definition buyDisabledReason :: "bool \<Rightarrow> bool \<Rightarrow> int \<Rightarrow> int \<Rightarrow> string option" where
  "buyDisabledReason paused shutdown principal0 allowanceLeft =
    (if shutdown then Some SHUTDOWN_REASON
     else if paused then Some ''pool is paused''
     else if principal0 \<le> 0 then Some ''deposit first''
     else if allowanceLeft \<le> 0 then Some ''today's buy allowance is spent''
     else None)"

datatype shutdown_step = NothingToWithdraw | ProcessOnly | RequestAndProcess int

definition shutdownWithdrawStep :: "int \<Rightarrow> int \<Rightarrow> shutdown_step" where
  "shutdownWithdrawStep requestAmount pendingWithdraw =
    (if requestAmount > 0 then RequestAndProcess requestAmount
     else if pendingWithdraw > 0 then ProcessOnly
     else NothingToWithdraw)"

section \<open>The Buy Tickets widget\<close>

record buy_options =
  bu_program :: bool
  bu_owner :: bool
  bu_pool :: "int option"
  bu_paused :: bool
  bu_shutdown :: bool
  bu_principal :: int
  bu_allowanceLeft :: "int option"
  bu_secondsLeft :: int
  bu_epochSeconds :: int

record buy_view =
  bv_amount :: "int option"
  bv_tickets :: int
  bv_drawValue :: int
  bv_disabledReason :: "string option"
  bv_canSubmit :: bool

definition widgetDisabledReason :: "buy_options \<Rightarrow> string option" where
  "widgetDisabledReason opt =
    (if \<not> bu_owner opt then Some ''connect a wallet''
     else if bu_shutdown opt \<or> bu_paused opt \<or> bu_principal opt \<le> 0 \<or> bu_allowanceLeft opt \<noteq> None
     then buyDisabledReason (bu_paused opt) (bu_shutdown opt) (bu_principal opt)
       (case bu_allowanceLeft opt of None \<Rightarrow> 0 | Some a \<Rightarrow> a)
     else Some (''loading'' @ ELLIPSIS))"

definition buyView :: "buy_options \<Rightarrow> string \<Rightarrow> bool \<Rightarrow> buy_view res" where
  "buyView opt amountText busy =
    rbind (parseAtomic amountText 6) (\<lambda>amount.
      let tickets = (case amount of None \<Rightarrow> 0 | Some a \<Rightarrow> ticketsFromUsdc a (case bu_pool opt of None \<Rightarrow> 0 | Some t \<Rightarrow> t));
          reason = widgetDisabledReason opt
      in Inr \<lparr>bv_amount = amount, bv_tickets = tickets, bv_drawValue = drawValue tickets (bu_secondsLeft opt) (bu_epochSeconds opt),
        bv_disabledReason = reason,
        bv_canSubmit = (\<not> busy \<and> reason = None \<and>
          (case (amount, bu_allowanceLeft opt) of (Some a, Some left) \<Rightarrow> a > 0 \<and> a \<le> left | _ \<Rightarrow> False) \<and>
          bu_program opt \<and> bu_owner opt \<and> bu_pool opt \<noteq> None)\<rparr>)"

section \<open>Laws of amounts\<close>

lemma bigIntOf_digits:
  assumes "list_all isDigit s" "s \<noteq> []" "readDigits 0 s = Some n"
  shows "bigIntOf s = Inr (int n)"
proof -
  obtain c t where s: "s = c # t" using assms(2) by (cases s) auto
  then have "c \<noteq> CHR ''-''" using assms(1) by auto
  then show ?thesis using assms(3) by (simp add: bigIntOf_def s)
qed

lemma digits_no_dot: "list_all isDigit s \<Longrightarrow> CHR ''.'' \<notin> set s" "list_all isDigit s \<Longrightarrow> CHR '','' \<notin> set s"
  by (auto simp: list_all_iff)

lemma dot_split [simp]:
  "CHR ''.'' \<notin> set w \<Longrightarrow> beforeDot (w @ CHR ''.'' # f) = w"
  "CHR ''.'' \<notin> set w \<Longrightarrow> afterDot (w @ CHR ''.'' # f) = f"
  "CHR ''.'' \<notin> set w \<Longrightarrow> beforeDot w = w"
  "CHR ''.'' \<notin> set w \<Longrightarrow> afterDot w = []"
proof -
  assume w: "CHR ''.'' \<notin> set w"
  then have t: "takeWhile (\<lambda>c. c \<noteq> CHR ''.'') (w @ x) = w @ takeWhile (\<lambda>c. c \<noteq> CHR ''.'') x"
      "dropWhile (\<lambda>c. c \<noteq> CHR ''.'') (w @ x) = dropWhile (\<lambda>c. c \<noteq> CHR ''.'') x" for x
    by (auto simp: takeWhile_append dropWhile_append)
  have "dropWhile (\<lambda>c. c \<noteq> CHR ''.'') w = []" "takeWhile (\<lambda>c. c \<noteq> CHR ''.'') w = w"
      using w by (auto simp: dropWhile_eq_Nil_conv takeWhile_eq_all_conv)
  note d = this
  show "beforeDot (w @ CHR ''.'' # f) = w" "afterDot (w @ CHR ''.'' # f) = f"
    using t[of "CHR ''.'' # f"] by (simp_all add: beforeDot_def afterDot_def)
  show "beforeDot w = w" "afterDot w = []" unfolding beforeDot_def afterDot_def d by simp_all
qed

text \<open>A decimal text: digits, and a dot with more digits unless the fraction is empty.\<close>

definition decimalText :: "string \<Rightarrow> string \<Rightarrow> string" where
  "decimalText w f = w @ (if f = [] then [] else CHR ''.'' # f)"

lemma isDecimalText_iff:
  "isDecimalText raw \<longleftrightarrow> (\<exists>w f. list_all isDigit w \<and> w \<noteq> [] \<and> list_all isDigit f \<and> raw = decimalText w f)"
proof
  assume r: "isDecimalText raw"
  let ?w = "takeWhile isDigit raw" and ?r = "dropWhile isDigit raw"
  have w: "list_all isDigit ?w" by (auto simp: list_all_iff dest: set_takeWhileD)
  have w': "?w \<noteq> []" using r unfolding isDecimalText_def Let_def by blast
  have "\<exists>f. list_all isDigit f \<and> ?r = (if f = [] then [] else CHR ''.'' # f)"
    using r by (cases ?r) (auto simp: isDecimalText_def Let_def)
  then obtain f where f: "list_all isDigit f" "?r = (if f = [] then [] else CHR ''.'' # f)" by blast
  have "raw = ?w @ ?r" by (rule takeWhile_dropWhile_id[symmetric])
  also have "\<dots> = decimalText ?w f" unfolding decimalText_def by (rule arg_cong[OF f(2)])
  finally show "\<exists>w f. list_all isDigit w \<and> w \<noteq> [] \<and> list_all isDigit f \<and> raw = decimalText w f"
    using w w' f(1) by blast
next
  assume "\<exists>w f. list_all isDigit w \<and> w \<noteq> [] \<and> list_all isDigit f \<and> raw = decimalText w f"
  then obtain w f where d: "list_all isDigit w" "w \<noteq> []" "list_all isDigit f" "raw = decimalText w f" by blast
  have w: "\<forall>x \<in> set w. isDigit x" using d(1) by (simp add: list_all_iff)
  have "takeWhile isDigit raw = w \<and> dropWhile isDigit raw = (if f = [] then [] else CHR ''.'' # f)"
  proof (cases "f = []")
    case True
    have "takeWhile isDigit w = w" "dropWhile isDigit w = []" using w by (auto simp: takeWhile_eq_all_conv)
    then show ?thesis using d(4) True by (simp add: decimalText_def)
  next
    case False
    have "takeWhile isDigit (w @ CHR ''.'' # f) = w" "dropWhile isDigit (w @ CHR ''.'' # f) = CHR ''.'' # f"
      using w by (simp_all add: takeWhile_append2 dropWhile_append2)
    then show ?thesis using d(4) False by (simp add: decimalText_def)
  qed
  then have "takeWhile isDigit raw = w" "dropWhile isDigit raw = (if f = [] then [] else CHR ''.'' # f)" by blast+
  then show "isDecimalText raw" unfolding isDecimalText_def Let_def using d(2,3) by (cases "f = []") simp_all
qed

lemma decimalText_parts:
  assumes "list_all isDigit w" "w \<noteq> []" "list_all isDigit f"
  shows "beforeDot (decimalText w f) = w" "afterDot (decimalText w f) = f" "trimText (decimalText w f) = decimalText w f"
proof -
  show "beforeDot (decimalText w f) = w" "afterDot (decimalText w f) = f"
    using digits_no_dot(1)[OF assms(1)] by (simp_all add: decimalText_def)
  have "hd (decimalText w f) = hd w" "last (decimalText w f) = last (if f = [] then w else f)"
    using assms(2) by (simp_all add: decimalText_def)
  moreover have "isDigit (hd w)" "isDigit (last (if f = [] then w else f))"
    using assms by (auto simp: list_all_iff)
  ultimately show "trimText (decimalText w f) = decimalText w f"
    using assms(2) isDigit_not_space by (intro trimText_id) (auto simp: decimalText_def)
qed

lemma digits_value:
  assumes "list_all isDigit w" "list_all isDigit f"
  obtains W F where "readDigits 0 w = Some W" "readDigits 0 f = Some F" "F < 10 ^ length f"
    "readDigits 0 (w @ f @ replicate k (CHR ''0'')) = Some ((W * 10 ^ length f + F) * 10 ^ k)"
proof -
  obtain W where W: "\<And>a. readDigits a w = Some (a * 10 ^ length w + W)" using readDigits_acc[OF assms(1)] by auto
  obtain F where F: "F < 10 ^ length f" "\<And>a. readDigits a f = Some (a * 10 ^ length f + F)" using readDigits_acc[OF assms(2)] by auto
  have z: "readDigits a (replicate k (CHR ''0'')) = Some (a * 10 ^ k)" for a
    by (induction k arbitrary: a) (simp_all add: digitVal_def)
  show ?thesis using that W F by (simp add: readDigits_append z)
qed

text \<open>Reading a decimal text of at most the mint's precision.\<close>

lemma parseAtomic_decimal:
  assumes "list_all isDigit w" "w \<noteq> []" "list_all isDigit f" "length f \<le> d"
    "readDigits 0 w = Some W" "readDigits 0 f = Some F"
  shows "parseAtomic (decimalText w f) (int d) = Inr (Some (int ((W * 10 ^ length f + F) * 10 ^ (d - length f))))"
proof -
  note parts = decimalText_parts[OF assms(1-3)]
  have dec: "isDecimalText (decimalText w f)" using assms isDecimalText_iff by blast
  obtain W' F' where v: "readDigits 0 w = Some W'" "readDigits 0 f = Some F'"
      "readDigits 0 (w @ f @ replicate (d - length f) (CHR ''0'')) = Some ((W' * 10 ^ length f + F') * 10 ^ (d - length f))"
    using digits_value[OF assms(1,3), of "d - length f"] by metis
  have "list_all isDigit (w @ f @ replicate (d - length f) (CHR ''0''))" using assms by (auto simp: list_all_iff)
  from bigIntOf_digits[OF this _ v(3)] assms(2)
  have "bigIntOf (w @ padEnd d f) = Inr (int ((W' * 10 ^ length f + F') * 10 ^ (d - length f)))" by (simp add: padEnd_def)
  then show ?thesis using parts dec v(1,2) assms by (simp add: parseAtomic_def)
qed

text \<open>What printing a non-negative amount yields: the whole part and exactly \<open>decimals\<close> digits of fraction.\<close>

lemma formatAtomic_decimal:
  assumes "0 \<le> v"
  obtains w f where "formatAtomic v (int d) = Inr (decimalText w f)" "list_all isDigit w" "w \<noteq> []" "list_all isDigit f"
    "length f = d" "readDigits 0 w = Some (nat v div 10 ^ d)" "readDigits 0 f = Some (nat v mod 10 ^ d)"
proof -
  define ds where "ds = showNat (nat v)"
  have ds: "list_all isDigit ds" "ds \<noteq> []" "readDigits 0 ds = Some (nat v)" by (simp_all add: ds_def showNat_digits)
  have si: "showInt v = ds" using assms by (simp add: showInt_def ds_def)
  show ?thesis
  proof (cases "length ds \<le> d")
    case True
    define f where "f = padStart d ds"
    have f: "list_all isDigit f" "length f = d" "readDigits 0 f = Some (nat v)"
      using ds True by (auto simp: f_def padStart_def list_all_iff)
    have "nat v < 10 ^ d" using readDigits_acc[OF f(1)] f by auto
    moreover have "0 < d" using True ds(2) by (cases ds) auto
    ultimately show ?thesis
      using that[of "''0''" f] f True assms si
      by (auto simp: formatAtomic_def decimalText_def signText_def f_def[symmetric] digitVal_def)
  next
    case False
    define w f where "w = take (length ds - d) ds" and "f = drop (length ds - d) ds"
    have wf: "ds = w @ f" "length f = d" "w \<noteq> []" using False by (auto simp: w_def f_def)
    have "list_all isDigit w" "list_all isDigit f" using ds(1) wf(1) by simp_all
    moreover have "readDigits 0 w = Some (nat v div 10 ^ d)" "readDigits 0 f = Some (nat v mod 10 ^ d)"
      using readDigits_split[of w f "nat v"] ds wf by simp_all
    moreover have "formatAtomic v (int d) = Inr (decimalText w f)"
      using False assms si wf by (auto simp: formatAtomic_def decimalText_def signText_def Let_def simp flip: w_def f_def)
    ultimately show ?thesis using that wf by blast
  qed
qed

lemma minus_not_decimal: "\<not> isDecimalText (trimText (CHR ''-'' # s))"
proof -
  have "trimText (CHR ''-'' # s) = [] \<or> hd (trimText (CHR ''-'' # s)) = CHR ''-''"
  proof -
    have "\<not> isSpace (CHR ''-'')" by (simp add: isSpace_def)
    then show ?thesis by (auto simp: trimText_def dropWhile_append hd_rev split: list.splits)
  qed
  then show ?thesis by (cases "trimText (CHR ''-'' # s)") (auto simp: isDecimalText_def Let_def)
qed

section \<open>Properties\<close>

text \<open>Amounts survive the round trip: every amount of zero or more prints, at any precision, as a text that
  reads back as exactly that amount, and a negative one prints as a text the reader rejects.\<close>

theorem atomic_round_trip:
  "\<exists>s. formatAtomic v (int d) = Inr s \<and> parseAtomic s (int d) = Inr (if 0 \<le> v then Some v else None)"
proof (cases "0 \<le> v")
  case True
  from formatAtomic_decimal[OF True, of d] obtain w f where
    wf: "formatAtomic v (int d) = Inr (decimalText w f)" "list_all isDigit w" "w \<noteq> []" "list_all isDigit f"
    "length f = d" "readDigits 0 w = Some (nat v div 10 ^ d)" "readDigits 0 f = Some (nat v mod 10 ^ d)" by blast
  have "nat v div 10 ^ d * 10 ^ d + nat v mod 10 ^ d = nat v" by (rule div_mult_mod_eq)
  then have "parseAtomic (decimalText w f) (int d) = Inr (Some (int (nat v)))"
    using parseAtomic_decimal[OF wf(2-4) _ wf(6,7), of d] wf(5) by (simp del: of_nat_add of_nat_mult div_mult_mod_eq)
  then have "parseAtomic (decimalText w f) (int d) = Inr (Some v)" using True by simp
  then show ?thesis using wf(1) True by auto
next
  case False
  then have "\<exists>s. formatAtomic v (int d) = Inr (CHR ''-'' # s)" by (auto simp: formatAtomic_def signText_def Let_def)
  then show ?thesis using False minus_not_decimal by (auto simp: parseAtomic_def Let_def)
qed

text \<open>Reading is exact: an accepted text is digits with at most \<open>decimals\<close> of them after a dot, and the
  amount times a power of ten is the number the digits spell, with nothing rounded off.\<close>

theorem parse_is_exact:
  assumes "parseAtomic s (int d) = Inr (Some v)"
  shows "\<exists>w f n. trimText s = decimalText w f \<and> list_all isDigit (w @ f) \<and> w \<noteq> [] \<and> length f \<le> d \<and>
    readDigits 0 (w @ f) = Some n \<and> v = int (n * 10 ^ (d - length f))"
proof -
  have dec: "isDecimalText (trimText s)" using assms by (auto simp: parseAtomic_def Let_def split: if_splits)
  then obtain w f where wf: "list_all isDigit w" "w \<noteq> []" "list_all isDigit f" "trimText s = decimalText w f"
    using isDecimalText_iff by blast
  note parts = decimalText_parts[OF wf(1-3)]
  have "length f \<le> d" using assms wf(4) parts by (auto simp: parseAtomic_def Let_def split: if_splits)
  moreover obtain W F where v: "readDigits 0 w = Some W" "readDigits 0 f = Some F"
      "readDigits 0 (w @ f @ replicate 0 (CHR ''0'')) = Some ((W * 10 ^ length f + F) * 10 ^ 0)"
    using digits_value[OF wf(1,3), of 0] by metis
  moreover have "parseAtomic s (int d) = parseAtomic (decimalText w f) (int d)"
    using wf(4) parts(3) by (simp add: parseAtomic_def)
  ultimately show ?thesis
    using parseAtomic_decimal[OF wf(1-3) \<open>length f \<le> d\<close> v(1,2)] assms wf
    by (intro exI[of _ w] exI[of _ f] exI[of _ "W * 10 ^ length f + F"]) auto
qed

theorem parse_is_exact_witness: "parseAtomic '' 1.5'' 1 = Inr (Some 15) \<and> (\<exists>w f. trimText '' 1.5'' = decimalText w f)"
proof -
  have "parseAtomic '' 1.5'' (int 1) = Inr (Some 15)" by code_simp
  from parse_is_exact[OF this] this show ?thesis by auto
qed

lemma insertCommas_filter: "filter (\<lambda>c. c \<noteq> CHR '','') (insertCommas b s) = filter (\<lambda>c. c \<noteq> CHR '','') s"
  by (induction b s rule: insertCommas.induct) (auto simp: Let_def)

lemma formatAtomic2_decimal:
  assumes "0 \<le> v"
  obtains w g where "formatAtomic2 v (int d) = Inr (decimalText w g)" "list_all isDigit w" "w \<noteq> []" "list_all isDigit g"
    "length g = 2" "readDigits 0 w = Some (nat v div 10 ^ d)" "readDigits 0 g = Some (nat v mod 10 ^ d * 100 div 10 ^ d)"
proof -
  from formatAtomic_decimal[OF assms, of d] obtain w f where
    wf: "formatAtomic v (int d) = Inr (decimalText w f)" "list_all isDigit w" "w \<noteq> []" "list_all isDigit f"
    "length f = d" "readDigits 0 w = Some (nat v div 10 ^ d)" "readDigits 0 f = Some (nat v mod 10 ^ d)" by blast
  note parts = decimalText_parts[OF wf(2-4)]
  define g where "g = take 2 (f @ ''00'')"
  have g: "list_all isDigit g" "length g = 2" "g \<noteq> []" using wf(4) by (auto simp: g_def list_all_iff dest: in_set_takeD)
  have neg: "\<not> prefix ''-'' (decimalText w f)" using wf(2,3) by (cases w) (auto simp: decimalText_def)
  then have s: "formatAtomic2 v (int d) = Inr (decimalText w g)"
  proof -
    have "formatAtomic2 v (int d) = Inr (beforeDot (decimalText w f) @ ''.'' @ take 2 (afterDot (decimalText w f) @ ''00''))"
      using wf(1) neg by (simp add: formatAtomic2_def signText_def Let_def)
    then show ?thesis using g(3) by (simp only: parts g_def[symmetric]) (simp add: decimalText_def)
  qed
  have G: "readDigits 0 g = Some (nat v mod 10 ^ d * 100 div 10 ^ d)"
  proof -
    have "list_all isDigit (f @ ''00'')" using wf(4) by simp
    moreover have "readDigits 0 (f @ ''00'') = Some (nat v mod 10 ^ d * 100)"
      using wf(7) by (simp add: readDigits_append digitVal_def)
    moreover have "f @ ''00'' = g @ drop 2 (f @ ''00'')" unfolding g_def by (rule append_take_drop_id[symmetric])
    moreover have "length (drop 2 (f @ ''00'')) = d" using wf(5) by simp
    ultimately show ?thesis using readDigits_split[of g "drop 2 (f @ ''00'')"] by metis
  qed
  show thesis using that[OF s wf(2,3) g(1,2) wf(6) G] .
qed

lemma hundredths: "n div 10 ^ d * 100 + n mod 10 ^ d * 100 div 10 ^ d = n * 100 div (10 ^ d :: nat)"
proof -
  have "(n div 10 ^ d * 10 ^ d + n mod 10 ^ d) * 100 = (n div 10 ^ d * 100) * 10 ^ d + n mod 10 ^ d * 100"
    by (simp only: distrib_right mult.assoc mult.commute[of "10 ^ d" 100])
  then have "n * 100 = (n div 10 ^ d * 100) * 10 ^ d + n mod 10 ^ d * 100" by (simp only: div_mult_mod_eq)
  then show ?thesis by simp
qed

text \<open>The screen never shows more than there is: the two-decimals text of an amount reads back as the amount
  truncated to hundredths, and the text with thousands separators is that text with commas put in.\<close>

theorem display_truncates:
  assumes "0 \<le> v"
  shows "\<exists>s t. formatAtomic2 v (int d) = Inr s \<and> parseAtomic s 2 = Inr (Some (v * 100 div 10 ^ d)) \<and>
    formatMoney2 v (int d) = Inr t \<and> filter (\<lambda>c. c \<noteq> CHR '','') t = s"
proof -
  obtain w g where s: "formatAtomic2 v (int d) = Inr (decimalText w g)" and wf: "list_all isDigit w" "w \<noteq> []"
    and g: "list_all isDigit g" "length g = 2" and W: "readDigits 0 w = Some (nat v div 10 ^ d)"
    and G: "readDigits 0 g = Some (nat v mod 10 ^ d * 100 div 10 ^ d)" by (rule formatAtomic2_decimal[OF assms])
  have "parseAtomic (decimalText w g) (int 2) = Inr (Some (int (nat v div 10 ^ d * 100 + nat v mod 10 ^ d * 100 div 10 ^ d)))"
    using parseAtomic_decimal[OF wf(1,2) g(1) _ W G, of 2] g(2) by simp
  moreover have "nat v div 10 ^ d * 100 + nat v mod 10 ^ d * 100 div 10 ^ d = nat v * 100 div 10 ^ d" by (rule hundredths)
  moreover have "int (nat v * 100 div 10 ^ d) = v * 100 div 10 ^ d" using assms by (simp add: zdiv_int)
  ultimately have p: "parseAtomic (decimalText w g) 2 = Inr (Some (v * 100 div 10 ^ d))" by simp
  have "filter (\<lambda>c. c \<noteq> CHR '','') (decimalText w g) = decimalText w g"
    using digits_no_dot(2) wf(1) g(1) by (intro filter_True) (auto simp: decimalText_def split: if_splits)
  moreover have "beforeDot (decimalText w g) @ dropWhile (\<lambda>c. c \<noteq> CHR ''.'') (decimalText w g) = decimalText w g"
    by (simp add: beforeDot_def)
  ultimately have "filter (\<lambda>c. c \<noteq> CHR '','') (insertCommas False (beforeDot (decimalText w g)) @
      dropWhile (\<lambda>c. c \<noteq> CHR ''.'') (decimalText w g)) = decimalText w g"
    by (metis filter_append insertCommas_filter)
  then have "\<exists>t. formatMoney2 v (int d) = Inr t \<and> filter (\<lambda>c. c \<noteq> CHR '','') t = decimalText w g"
    unfolding formatMoney2_def s by (simp only: rbind.simps sum.inject) blast
  then show ?thesis using s p by blast
qed

theorem display_truncates_witness:
  "\<exists>s. formatAtomic2 1999976543 6 = Inr s \<and> parseAtomic s 2 = Inr (Some 199997)"
  using display_truncates[of 1999976543 6] by auto

text \<open>The buy button never asks for the impossible: when it can be pressed, the typed amount is positive and
  within today's allowance, the Pool is neither paused nor closed, the Player has Principal, and the
  worth in tonight's draw is no more than the Tickets bought.\<close>

theorem buy_button_is_sound:
  assumes "buyView opt amountText busy = Inr view" "bv_canSubmit view"
    "bu_pool opt = Some ticketsPerUsdc" "0 \<le> ticketsPerUsdc"
  shows "\<exists>amount left. parseAtomic amountText 6 = Inr (Some amount) \<and> bu_allowanceLeft opt = Some left \<and>
    0 < amount \<and> amount \<le> left \<and> 0 < bu_principal opt \<and> \<not> bu_paused opt \<and> \<not> bu_shutdown opt \<and> \<not> busy \<and>
    bv_tickets view = amount * ticketsPerUsdc \<and> 0 \<le> bv_drawValue view \<and> bv_drawValue view \<le> bv_tickets view"
proof -
  obtain amount left where a: "parseAtomic amountText 6 = Inr (Some amount)" "bu_allowanceLeft opt = Some left"
      "0 < amount" "amount \<le> left" "widgetDisabledReason opt = None" "\<not> busy" "bv_tickets view = amount * ticketsPerUsdc"
      "bv_drawValue view = drawValue (bv_tickets view) (bu_secondsLeft opt) (bu_epochSeconds opt)"
    using assms by (auto simp: buyView_def js_simps Let_def ticketsFromUsdc_def split: option.splits)
  have "0 < bu_principal opt \<and> \<not> bu_paused opt \<and> \<not> bu_shutdown opt"
    using a(5) by (auto simp: widgetDisabledReason_def buyDisabledReason_def split: if_splits)
  moreover have "0 \<le> drawValue t s e \<and> drawValue t s e \<le> t" if "0 \<le> t" for t s e
  proof -
    define c where "c = (if s \<le> 0 then 0 else if s > e then e else s)"
    show ?thesis
    proof (cases "e \<le> 0 \<or> t \<le> 0")
      case False
      then have "0 \<le> c" "c \<le> e" "0 < e" "0 < t" by (auto simp: c_def)
      then have "0 \<le> t * c" "t * c \<le> t * e" by (simp_all add: mult_left_mono)
      moreover from this have "t * c div e \<le> t * e div e" using \<open>0 < e\<close> by (intro zdiv_mono1)
      ultimately have "0 \<le> t * c div e" "t * c div e \<le> t" using \<open>0 < e\<close> by (simp_all add: pos_imp_zdiv_nonneg_iff)
      then show ?thesis using False \<open>0 < e\<close> \<open>0 \<le> t * c\<close> by (auto simp: drawValue_def bigDiv_nonneg c_def[symmetric] Let_def)
    qed (use that in \<open>auto simp: drawValue_def\<close>)
  qed
  moreover have "0 \<le> bv_tickets view" using a(3,7) assms(4) by simp
  ultimately show ?thesis using a by auto
qed

definition demoBuy :: buy_options where
  "demoBuy = \<lparr>bu_program = True, bu_owner = True, bu_pool = Some 10, bu_paused = False, bu_shutdown = False,
    bu_principal = 100, bu_allowanceLeft = Some 9000000, bu_secondsLeft = 30, bu_epochSeconds = 60\<rparr>"

theorem buy_button_is_sound_witness:
  "\<exists>view. buyView demoBuy ''5'' False = Inr view \<and> bv_canSubmit view \<and> bv_drawValue view \<le> bv_tickets view"
proof -
  have p: "parseAtomic ''5'' 6 = Inr (Some 5000000)"
    using parseAtomic_decimal[of "''5''" "[]" 6 5 0] by (simp add: decimalText_def isDigit_def digitVal_def)
  have "\<exists>view. buyView demoBuy ''5'' False = Inr view \<and> bv_canSubmit view"
    by (simp add: buyView_def p demoBuy_def widgetDisabledReason_def buyDisabledReason_def Let_def)
  then obtain view where v: "buyView demoBuy ''5'' False = Inr view" "bv_canSubmit view" by blast
  have "bu_pool demoBuy = Some 10" by (simp add: demoBuy_def)
  from buy_button_is_sound[OF v this] v show ?thesis by auto
qed

end
