(* ===== verification/Web_Send.thy ===== *)
theory Web_Send
  imports Complex_Main Chain_Service Money Instructions
begin

text \<open>
  Sending a Player's transaction from the browser: the Pool it is built against
  (\<open>web/src/read.ts\<close>), the builders, the send and the resolution of an unknown outcome
  (\<open>web/src/actions.ts\<close>, addresses from \<open>web/src/chain.ts\<close>), the copy shown for a failure
  (\<open>web/src/playerErrors.ts\<close>) and the two money flows of the Vault (\<open>web/src/screens/Vault.tsx\<close>:
  \<open>run\<close> and \<open>payOutNow\<close>).

  A \<open>web_env\<close> holds the libraries: the address derivation, the BN encoder, the associated token address,
  the JSON printer and the IDL. A \<open>web_chain\<close> holds what the wallet and the RPC answer to one send, the
  \<open>k\<close>-th poll of a signature included. A rejected promise is \<open>Inl\<close> with its message.
\<close>

section \<open>The Pool\<close>

definition PRIORITY_FEE_FLOOR_MICROLAMPORTS :: int where "PRIORITY_FEE_FLOOR_MICROLAMPORTS = 1000"
definition PRIORITY_FEE_CEILING_MICROLAMPORTS :: int where "PRIORITY_FEE_CEILING_MICROLAMPORTS = 50000"

definition safePriorityFee :: "js_number \<Rightarrow> int" where
  "safePriorityFee raw =
    (let v = (case raw of Finite x \<Rightarrow> if of_int \<lfloor>x\<rfloor> = x \<and> x \<ge> 0 then \<lfloor>x\<rfloor> else 0 | _ \<Rightarrow> 0)
     in min (max v PRIORITY_FEE_FLOOR_MICROLAMPORTS) PRIORITY_FEE_CEILING_MICROLAMPORTS)"

record web_env =
  we_hasMethod :: "string \<Rightarrow> bool"
  we_programId :: pubkey
  we_findProgramAddress :: "bytes list \<Rightarrow> pubkey \<Rightarrow> pubkey"
  we_le8 :: "int \<Rightarrow> bytes res"
  we_associatedToken :: "pubkey \<Rightarrow> pubkey \<Rightarrow> pubkey"
  we_systemProgram :: pubkey
  we_tokenProgram :: pubkey
  we_parseKey :: "string \<Rightarrow> pubkey res"
  we_b58 :: "pubkey \<Rightarrow> string"
  we_stringify :: "json \<Rightarrow> string"
  we_idlErrors :: "(string \<times> int \<times> string) list"

record pool_dto =
  pd_address :: string
  pd_mint :: string
  pd_closeBuffer :: string
  pd_minDeposit :: string
  pd_houseCutBps :: int
  pd_paused :: bool
  pd_epochSeconds :: string
  pd_baseRateBps :: int
  pd_ticketsPerUsdc :: int

record pool_like =
  po_address :: pubkey
  po_acceptedMint :: pubkey
  po_closeBuffer :: int
  po_minDeposit :: int
  po_houseCutBps :: int
  po_paused :: bool
  po_epochSeconds :: int
  po_baseRateBps :: int
  po_ticketsPerUsdc :: int
  po_priorityFee :: int

text \<open>The left of the inner sum is the refusal.\<close>

definition poolFromDto :: "web_env \<Rightarrow> pool_dto \<Rightarrow> js_number \<Rightarrow> pubkey \<Rightarrow> (string + pool_like) res" where
  "poolFromDto env dto fee expected =
    rbind (we_parseKey env (pd_address dto)) (\<lambda>address.
      if address \<noteq> expected
      then Inr (Inl (''Pool address does not match this app's configuration (expected '' @ we_b58 env expected @ '').''))
      else rbind (we_parseKey env (pd_mint dto)) (\<lambda>mint.
           rbind (bigIntOf (pd_closeBuffer dto)) (\<lambda>closeBuffer.
           rbind (bigIntOf (pd_minDeposit dto)) (\<lambda>minDeposit.
           rbind (bigIntOf (pd_epochSeconds dto)) (\<lambda>epochSeconds.
             Inr (Inr \<lparr>po_address = address, po_acceptedMint = mint, po_closeBuffer = closeBuffer,
               po_minDeposit = minDeposit, po_houseCutBps = pd_houseCutBps dto, po_paused = pd_paused dto,
               po_epochSeconds = epochSeconds, po_baseRateBps = pd_baseRateBps dto,
               po_ticketsPerUsdc = pd_ticketsPerUsdc dto, po_priorityFee = safePriorityFee fee\<rparr>))))))"

section \<open>Text searches\<close>

text \<open>\<open>/p/i.test(s)\<close> for a plain lower-case text \<open>p\<close>.\<close>

definition includesIgnoringCase :: "string \<Rightarrow> string \<Rightarrow> bool" where
  "includesIgnoringCase s p = strIncludes (map lowerChar s) p"

definition isMissingTokenAccount :: "string \<Rightarrow> bool" where
  "isMissingTokenAccount message = includesIgnoringCase message ''could not find account''"

definition walletBalanceRead :: "int res \<Rightarrow> int option" where
  "walletBalanceRead answer =
    (case answer of Inr amount \<Rightarrow> Some amount
     | Inl message \<Rightarrow> if isMissingTokenAccount message then Some 0 else None)"

definition MIN_SOL_LAMPORTS :: int where "MIN_SOL_LAMPORTS = 3000000"

definition needsSolWarning :: "int option \<Rightarrow> bool \<Rightarrow> bool" where
  "needsSolWarning lamports sponsored =
    (\<not> (sponsored \<or> (case lamports of None \<Rightarrow> True | Some l \<Rightarrow> l \<ge> MIN_SOL_LAMPORTS)))"

section \<open>Instructions\<close>

definition wmethod :: "web_env \<Rightarrow> string \<Rightarrow> unit res" where
  "wmethod env name =
    (if we_hasMethod env name then Inr ()
     else Inl (''IDL has no instruction \"'' @ name @ ''\" (re-run sync-idl)''))"

definition pda :: "web_env \<Rightarrow> bytes list \<Rightarrow> pubkey" where
  "pda env seeds = we_findProgramAddress env seeds (we_programId env)"

definition wEpochAddress :: "web_env \<Rightarrow> pubkey \<Rightarrow> int \<Rightarrow> pubkey res" where
  "wEpochAddress env pool epochId = rbind (we_le8 env epochId) (\<lambda>i. Inr (pda env [asciiBytes ''epoch'', pool, i]))"

definition wRoundAddress :: "web_env \<Rightarrow> pubkey \<Rightarrow> int \<Rightarrow> pubkey res" where
  "wRoundAddress env pool roundId = rbind (we_le8 env roundId) (\<lambda>i. Inr (pda env [asciiBytes ''round'', pool, i]))"

definition wPlayerAddress :: "web_env \<Rightarrow> pubkey \<Rightarrow> pubkey \<Rightarrow> pubkey" where
  "wPlayerAddress env pool owner = pda env [asciiBytes ''player'', pool, owner]"

definition wPositionAddress :: "web_env \<Rightarrow> pubkey \<Rightarrow> pubkey \<Rightarrow> pubkey" where
  "wPositionAddress env round0 owner = pda env [asciiBytes ''position'', round0, owner]"

definition wPrincipalVault :: "web_env \<Rightarrow> pubkey \<Rightarrow> pubkey" where
  "wPrincipalVault env pool = pda env [asciiBytes ''principal'', pool]"

definition wJackpotVault :: "web_env \<Rightarrow> pubkey \<Rightarrow> pubkey" where
  "wJackpotVault env pool = pda env [asciiBytes ''jackpot'', pool]"

definition ataIx :: "web_env \<Rightarrow> pool_like \<Rightarrow> pubkey \<Rightarrow> instruction" where
  "ataIx env pool o1 = CreateAta o1 (we_associatedToken env (po_acceptedMint pool) o1) o1 (po_acceptedMint pool)"

definition depositIxs :: "web_env \<Rightarrow> pool_like \<Rightarrow> pubkey \<Rightarrow> int \<Rightarrow> instruction list res" where
  "depositIxs env pool o1 amount =
    rbind (wmethod env ''deposit'') (\<lambda>_.
      Inr [ataIx env pool o1, Method ''deposit'' [BnArg amount]
        [(''owner'', o1), (''pool'', po_address pool), (''player'', wPlayerAddress env (po_address pool) o1),
         (''acceptedMint'', po_acceptedMint pool), (''ownerToken'', we_associatedToken env (po_acceptedMint pool) o1),
         (''principalVault'', wPrincipalVault env (po_address pool)), (''tokenProgram'', we_tokenProgram env),
         (''systemProgram'', we_systemProgram env)]])"

definition buyTicketsIxs :: "web_env \<Rightarrow> pool_like \<Rightarrow> pubkey \<Rightarrow> int \<Rightarrow> instruction list res" where
  "buyTicketsIxs env pool o1 amount =
    rbind (wmethod env ''buyTickets'') (\<lambda>_.
      Inr [Method ''buyTickets'' [BnArg amount]
        [(''owner'', o1), (''pool'', po_address pool), (''player'', wPlayerAddress env (po_address pool) o1),
         (''acceptedMint'', po_acceptedMint pool), (''ownerToken'', we_associatedToken env (po_acceptedMint pool) o1),
         (''jackpotVault'', wJackpotVault env (po_address pool)), (''tokenProgram'', we_tokenProgram env)]])"

definition requestWithdrawIxs :: "web_env \<Rightarrow> pool_like \<Rightarrow> pubkey \<Rightarrow> int \<Rightarrow> instruction list res" where
  "requestWithdrawIxs env pool o1 amount =
    rbind (wmethod env ''requestWithdraw'') (\<lambda>_.
      Inr [Method ''requestWithdraw'' [BnArg amount]
        [(''owner'', o1), (''pool'', po_address pool), (''player'', wPlayerAddress env (po_address pool) o1)]])"

definition processWithdrawMethod :: "web_env \<Rightarrow> pool_like \<Rightarrow> pubkey \<Rightarrow> instruction" where
  "processWithdrawMethod env pool o1 =
    Method ''processWithdraw'' []
      [(''pool'', po_address pool), (''player'', wPlayerAddress env (po_address pool) o1),
       (''acceptedMint'', po_acceptedMint pool), (''ownerToken'', we_associatedToken env (po_acceptedMint pool) o1),
       (''principalVault'', wPrincipalVault env (po_address pool)), (''tokenProgram'', we_tokenProgram env)]"

definition processWithdrawIxs :: "web_env \<Rightarrow> pool_like \<Rightarrow> pubkey \<Rightarrow> instruction list res" where
  "processWithdrawIxs env pool o1 =
    rbind (wmethod env ''processWithdraw'') (\<lambda>_. Inr [ataIx env pool o1, processWithdrawMethod env pool o1])"

definition shutdownWithdrawIxs :: "web_env \<Rightarrow> pool_like \<Rightarrow> pubkey \<Rightarrow> int \<Rightarrow> int \<Rightarrow> instruction list res" where
  "shutdownWithdrawIxs env pool o1 requestAmount pendingWithdraw =
    (case shutdownWithdrawStep requestAmount pendingWithdraw of
       NothingToWithdraw \<Rightarrow> Inl ''nothing to withdraw''
     | ProcessOnly \<Rightarrow> processWithdrawIxs env pool o1
     | RequestAndProcess amount \<Rightarrow>
         rbind (requestWithdrawIxs env pool o1 amount) (\<lambda>req.
         rbind (processWithdrawIxs env pool o1) (\<lambda>pay. Inr (req @ pay))))"

definition buyPositionIxs :: "web_env \<Rightarrow> pool_like \<Rightarrow> pubkey \<Rightarrow> int \<Rightarrow> int \<Rightarrow> int \<Rightarrow> instruction list res" where
  "buyPositionIxs env pool o1 roundId tilesMask stakePerTile =
    rbind (wRoundAddress env (po_address pool) roundId) (\<lambda>rd.
    rbind (wmethod env ''buyPosition'') (\<lambda>_.
      Inr [Method ''buyPosition'' [BnArg tilesMask, BnArg stakePerTile]
        [(''owner'', o1), (''pool'', po_address pool), (''player'', wPlayerAddress env (po_address pool) o1),
         (''round'', rd), (''position'', wPositionAddress env rd o1), (''systemProgram'', we_systemProgram env)]]))"

definition settlePositionIxs :: "web_env \<Rightarrow> pool_like \<Rightarrow> pubkey \<Rightarrow> int \<Rightarrow> instruction list res" where
  "settlePositionIxs env pool o1 roundId =
    rbind (wRoundAddress env (po_address pool) roundId) (\<lambda>rd.
    rbind (wmethod env ''settlePosition'') (\<lambda>_.
      Inr [Method ''settlePosition'' []
        [(''pool'', po_address pool), (''round'', rd), (''player'', wPlayerAddress env (po_address pool) o1),
         (''owner'', o1), (''position'', wPositionAddress env rd o1)]]))"

definition registerIxs :: "web_env \<Rightarrow> pool_like \<Rightarrow> pubkey \<Rightarrow> int \<Rightarrow> instruction list res" where
  "registerIxs env pool o1 epochId =
    rbind (wmethod env ''register'') (\<lambda>_.
    rbind (wEpochAddress env (po_address pool) epochId) (\<lambda>ep.
      Inr [Method ''register'' []
        [(''pool'', po_address pool), (''epoch'', ep), (''player'', wPlayerAddress env (po_address pool) o1)]]))"

section \<open>Errors inside answers\<close>

text \<open>Truthiness of an \<open>err\<close> field: null and the empty values are false.\<close>

fun truthy :: "json \<Rightarrow> bool" where
  "truthy JNull = False"
| "truthy (JBool b) = b"
| "truthy (JNumber n) = (n \<noteq> 0)"
| "truthy (JString s) = (s \<noteq> [])"
| "truthy _ = True"

definition customErrorCode :: "json \<Rightarrow> int option" where
  "customErrorCode err =
    (case jsonField err ''InstructionError'' of
       Some (JArray [_, kind]) \<Rightarrow> (case jsonField kind ''Custom'' of Some (JNumber code) \<Rightarrow> Some code | _ \<Rightarrow> None)
     | _ \<Rightarrow> None)"

definition isShortOfSol :: "json \<Rightarrow> string list option \<Rightarrow> bool" where
  "isShortOfSol err logs =
    (err = JString ''AccountNotFound'' \<or>
     (case logs of None \<Rightarrow> False | Some ls \<Rightarrow> list_ex (prefix ''Transfer: insufficient lamports'') ls))"

section \<open>Sending\<close>

definition FALLBACK_COMPUTE_UNITS_PER_INSTRUCTION :: int where "FALLBACK_COMPUTE_UNITS_PER_INSTRUCTION = 200000"

datatype web_simulation = ProbeThrows | Probed json "int option" "string list option"

datatype compute_sizing = SizedUnits int | SizedError json

definition fallbackUnits :: "nat \<Rightarrow> int" where
  "fallbackUnits n = min MAX_COMPUTE_UNIT_LIMIT (FALLBACK_COMPUTE_UNITS_PER_INSTRUCTION * int n)"

definition sizeCompute :: "web_simulation \<Rightarrow> nat \<Rightarrow> bool \<Rightarrow> compute_sizing" where
  "sizeCompute sim n sponsored =
    (case sim of
       ProbeThrows \<Rightarrow> SizedUnits (fallbackUnits n)
     | Probed err units logs \<Rightarrow>
         if truthy err \<and> \<not> (sponsored \<and> isShortOfSol err logs) then SizedError err
         else if truthy err then SizedUnits (fallbackUnits n)
         else (case units of None \<Rightarrow> SizedUnits (fallbackUnits n) | Some u \<Rightarrow> SizedUnits (withMargin u)))"

datatype send_result = Landed string | Expired | UnknownOutcome string int | SendFailed "int option" string

datatype confirmation = ConfirmValue json | ConfirmExpired | ConfirmThrows string

datatype sig_status = NoStatus | SigStatus json string

record web_tx =
  wt_blockhash :: string
  wt_lastValid :: int
  wt_feePayer :: pubkey
  wt_price :: int
  wt_limit :: int
  wt_instructions :: "instruction list"

record web_chain =
  wc_blockhash :: "(string \<times> int) res"
  wc_simulate :: "instruction list \<Rightarrow> web_simulation"
  wc_sponsor :: "(web_tx \<Rightarrow> string res) option"
  wc_wallet :: "(web_tx \<Rightarrow> bytes res) option"
  wc_sendRaw :: "bytes \<Rightarrow> string res"
  wc_confirm :: "string \<Rightarrow> confirmation"
  wc_status :: "nat \<Rightarrow> sig_status res"
  wc_height :: "nat \<Rightarrow> int res"

text \<open>Handing a transaction to the wallet: the sponsored path, or sign and broadcast.\<close>

definition broadcastThrough :: "web_chain \<Rightarrow> web_tx \<Rightarrow> string res \<times> web_tx list" where
  "broadcastThrough w tx =
    (case wc_sponsor w of
       Some send \<Rightarrow> (send tx, [tx])
     | None \<Rightarrow>
         (case wc_wallet w of
            None \<Rightarrow> (Inl ''wallet cannot sign transactions'', [])
          | Some sign \<Rightarrow> (rbind (sign tx) (wc_sendRaw w), [tx])))"

definition confirmedResult :: "web_env \<Rightarrow> web_chain \<Rightarrow> int \<Rightarrow> string \<Rightarrow> send_result" where
  "confirmedResult env w lastValid signature =
    (case wc_confirm w signature of
       ConfirmValue err \<Rightarrow> if truthy err then SendFailed (customErrorCode err) (we_stringify env err) else Landed signature
     | ConfirmExpired \<Rightarrow> Expired
     | ConfirmThrows _ \<Rightarrow> UnknownOutcome signature lastValid)"

text \<open>The answer and the transactions the wallet was asked to sign.\<close>

definition sendMany :: "web_env \<Rightarrow> web_chain \<Rightarrow> pubkey \<Rightarrow> instruction list \<Rightarrow> int \<Rightarrow> send_result res \<times> web_tx list" where
  "sendMany env w o1 instructions fee =
    (case wc_blockhash w of
       Inl e \<Rightarrow> (Inl e, [])
     | Inr (blockhash, lastValid) \<Rightarrow>
         (case sizeCompute (wc_simulate w instructions) (length instructions) (wc_sponsor w \<noteq> None) of
            SizedError err \<Rightarrow> (Inr (SendFailed (customErrorCode err) (we_stringify env err)), [])
          | SizedUnits units \<Rightarrow>
              (case broadcastThrough w \<lparr>wt_blockhash = blockhash, wt_lastValid = lastValid, wt_feePayer = o1,
                      wt_price = fee, wt_limit = units, wt_instructions = instructions\<rparr> of
                 (sent, asked) \<Rightarrow> (rbind sent (\<lambda>signature. Inr (confirmedResult env w lastValid signature)), asked))))"

text \<open>The six actions: build, then send at the Pool's fee.\<close>

definition sendIxs :: "web_env \<Rightarrow> web_chain \<Rightarrow> pool_like \<Rightarrow> pubkey \<Rightarrow> instruction list res \<Rightarrow> send_result res \<times> web_tx list" where
  "sendIxs env w pool o1 ixs =
    (case ixs of Inl e \<Rightarrow> (Inl e, []) | Inr instructions \<Rightarrow> sendMany env w o1 instructions (po_priorityFee pool))"

text \<open>The poll; an answer \<open>None\<close> is a poll that never ends.\<close>

partial_function (option) resolveUnknownSend ::
    "web_env \<Rightarrow> web_chain \<Rightarrow> string \<Rightarrow> int \<Rightarrow> nat \<Rightarrow> send_result res option" where
  "resolveUnknownSend env w signature lastValid k =
    (case wc_status w k of
       Inl e \<Rightarrow> Some (Inl e)
     | Inr (SigStatus err level) \<Rightarrow>
         if truthy err then Some (Inr (SendFailed (customErrorCode err) (we_stringify env err)))
         else if level = ''confirmed'' \<or> level = ''finalized'' then Some (Inr (Landed signature))
         else (case wc_height w k of
                 Inl e \<Rightarrow> Some (Inl e)
               | Inr h \<Rightarrow> if h > lastValid then Some (Inr Expired)
                          else resolveUnknownSend env w signature lastValid (Suc k))
     | Inr NoStatus \<Rightarrow>
         (case wc_height w k of
            Inl e \<Rightarrow> Some (Inl e)
          | Inr h \<Rightarrow> if h > lastValid then Some (Inr Expired)
                     else resolveUnknownSend env w signature lastValid (Suc k)))"

definition awaitSendResult :: "web_env \<Rightarrow> web_chain \<Rightarrow> send_result \<Rightarrow> send_result res option" where
  "awaitSendResult env w result =
    (case result of
       UnknownOutcome signature lastValid \<Rightarrow> resolveUnknownSend env w signature lastValid 0
     | _ \<Rightarrow> Some (Inr result))"

section \<open>Copy for failures\<close>

definition GENERIC :: string where "GENERIC = ''Something went wrong. Try again in a moment.''"
definition NOTHING_PENDING_CODE :: int where "NOTHING_PENDING_CODE = 6038"
definition EXPIRED_TEXT :: string where "EXPIRED_TEXT = ''Transaction expired. Try again.''"

definition HAND_WRITTEN :: "(int \<times> string) list" where
  "HAND_WRITTEN =
    [(6001, ''The pool is paused right now. Try again once it reopens.''),
     (6003, ''Enter an amount greater than zero.''),
     (6005, ''You don't have enough Tickets for that.''),
     (6012, ''This round is closed to new plays. Wait for the next one.''),
     (6036, ''The vault is being topped up. Try the payout again in a few minutes.''),
     (NOTHING_PENDING_CODE, ''Already paid out. Refreshing your balance.''),
     (6042, ''Today's draw hasn't closed registration yet. Try again in a moment.''),
     (6051, ''This pool is closed. Withdrawals still work; nothing else does.''),
     (6058, ''The game is paused right now. Try again once it restarts.''),
     (6059, ''The daily draw is paused, so Tickets can't be bought right now.'')]"

text \<open>The IDL's errors: name, code, message. A later entry of a code or a name wins, as in a \<open>Map\<close>.\<close>

definition decodeErrorCode :: "web_env \<Rightarrow> int \<Rightarrow> string" where
  "decodeErrorCode env code =
    (case map_of HAND_WRITTEN code of
       Some t \<Rightarrow> t
     | None \<Rightarrow> (case map_of (rev (map (\<lambda>(_, c, m). (c, m)) (we_idlErrors env))) code of Some m \<Rightarrow> m | None \<Rightarrow> GENERIC))"

text \<open>The first place where a lower-case text stands, whatever the case, with optional blanks, a second text
  and then a run of characters of one kind after it: that run.\<close>

fun groupAfter :: "string \<Rightarrow> string \<Rightarrow> (char \<Rightarrow> bool) \<Rightarrow> string \<Rightarrow> string option" where
  "groupAfter p q ok [] = None"
| "groupAfter p q ok (c # s) =
    (let low = map lowerChar (c # s);
         rest = dropWhile isSpace (drop (length p) (c # s));
         run = takeWhile ok (drop (length q) rest)
     in if prefix p low \<and> prefix q (map lowerChar rest) \<and> run \<noteq> [] then Some run else groupAfter p q ok s)"

definition isHexDigit :: "char \<Rightarrow> bool" where
  "isHexDigit c = (let v = of_char c :: nat in isDigit c \<or> 65 \<le> v \<and> v \<le> 70 \<or> 97 \<le> v \<and> v \<le> 102)"

definition hexValue :: "char \<Rightarrow> int" where
  "hexValue c = (let v = int (of_char c) in if v \<le> 57 then v - 48 else if v \<le> 70 then v - 55 else v - 87)"

definition readHex :: "string \<Rightarrow> int" where
  "readHex s = fold (\<lambda>c a. 16 * a + hexValue c) s 0"

definition readDecimal :: "string \<Rightarrow> int" where
  "readDecimal s = (case readDigits 0 s of Some n \<Rightarrow> int n | None \<Rightarrow> 0)"

text \<open>A whole name of the IDL: the leftmost word boundary where one stands, the first of the table there.\<close>

definition nameAt :: "string list \<Rightarrow> string \<Rightarrow> string option" where
  "nameAt names s =
    find (\<lambda>n. prefix n s \<and>
      (let rest = drop (length n) s; before = (n \<noteq> [] \<and> isWordChar (last n))
       in before \<noteq> (rest \<noteq> [] \<and> isWordChar (hd rest)))) names"

fun firstName :: "string list \<Rightarrow> bool \<Rightarrow> string \<Rightarrow> string option" where
  "firstName names wordBefore [] = None"
| "firstName names wordBefore (c # s) =
    (case (if wordBefore \<noteq> isWordChar c then nameAt names (c # s) else None) of
       Some n \<Rightarrow> Some n
     | None \<Rightarrow> firstName names (isWordChar c) s)"

definition extractCode :: "web_env \<Rightarrow> string \<Rightarrow> int option" where
  "extractCode env s =
    (case groupAfter ''error number:'' [] isDigit s of
       Some d \<Rightarrow> Some (readDecimal d)
     | None \<Rightarrow>
         (case groupAfter ''\"custom\":'' [] isDigit s of
            Some d \<Rightarrow> Some (readDecimal d)
          | None \<Rightarrow>
              (case groupAfter ''custom program error:'' ''0x'' isHexDigit s of
                 Some h \<Rightarrow> Some (readHex h)
               | None \<Rightarrow>
                   (case firstName (firstOccurrences (map fst (we_idlErrors env))) False s of
                      None \<Rightarrow> None
                    | Some n \<Rightarrow> map_of (rev (map (\<lambda>(n, c, _). (n, c)) (we_idlErrors env))) n))))"

definition decodePlayerError :: "web_env \<Rightarrow> string \<Rightarrow> string" where
  "decodePlayerError env s = (case extractCode env s of None \<Rightarrow> GENERIC | Some code \<Rightarrow> decodeErrorCode env code)"

definition failureReason :: "int option option \<Rightarrow> string" where
  "failureReason failed =
    (case failed of
       None \<Rightarrow> ''expired''
     | Some None \<Rightarrow> ''unknown_error''
     | Some (Some code) \<Rightarrow> ''program_error_'' @ showInt code)"

definition thrownReason :: "web_env \<Rightarrow> string \<Rightarrow> string" where
  "thrownReason env s = failureReason (Some (extractCode env s))"

text \<open>The copy for a result that is not \<open>Landed\<close>, and the report sent with it.\<close>

fun decodeSendFailure :: "web_env \<Rightarrow> send_result \<Rightarrow> string \<times> (string \<times> string) list" where
  "decodeSendFailure env (SendFailed code message) =
    (decodeErrorCode env (case code of Some c \<Rightarrow> c | None \<Rightarrow> -1), [(failureReason (Some code), message)])"
| "decodeSendFailure env _ = (EXPIRED_TEXT, [])"

section \<open>The money flows\<close>

text \<open>What the screen ends up with: done with a signature, or a note the Player reads, the button live again.
  \<open>Still\<close> is a poll that never ends.\<close>

datatype flow_end = Done string | Note string | Still

definition afterAwait :: "web_env \<Rightarrow> web_chain \<Rightarrow> send_result res \<Rightarrow> (send_result \<Rightarrow> flow_end) \<Rightarrow> flow_end" where
  "afterAwait env w sent react =
    (case sent of
       Inl e \<Rightarrow> Note (decodePlayerError env e)
     | Inr r \<Rightarrow>
         (case awaitSendResult env w r of
            None \<Rightarrow> Still
          | Some (Inl e) \<Rightarrow> Note (decodePlayerError env e)
          | Some (Inr r') \<Rightarrow> react r'))"

definition runMoney :: "web_env \<Rightarrow> web_chain \<Rightarrow> send_result res \<Rightarrow> flow_end" where
  "runMoney env w sent =
    afterAwait env w sent (\<lambda>r. case r of Landed signature \<Rightarrow> Done signature | _ \<Rightarrow> Note (fst (decodeSendFailure env r)))"

definition NOTHING_PENDING_NOTE :: string where "NOTHING_PENDING_NOTE = ''Already paid out. Refreshing your balance.''"

definition payOutNow :: "web_env \<Rightarrow> web_chain \<Rightarrow> send_result res \<Rightarrow> flow_end" where
  "payOutNow env w sent =
    afterAwait env w sent (\<lambda>r. case r of
       Landed signature \<Rightarrow> Done signature
     | SendFailed code message \<Rightarrow>
         if code = Some NOTHING_PENDING_CODE then Done NOTHING_PENDING_NOTE else Note (fst (decodeSendFailure env r))
     | _ \<Rightarrow> Note (fst (decodeSendFailure env r)))"

end
