(* ===== verification/Web_Send_Laws.thy ===== *)
theory Web_Send_Laws
  imports Web_Send
begin

text \<open>
  Laws of the browser's sends: its instructions are the ones the Operator builds, a wallet is asked once
  and only for the pinned Pool at a bounded fee, the resolution of an unknown outcome ends and tells the
  truth about what it saw, and what it cannot tell.
\<close>

section \<open>The same instructions as the backend\<close>

text \<open>Both sides load the same libraries and the same IDL, and talk to the same program; the browser's BN
  encoder writes eight little-endian bytes.\<close>

definition sameLibraries :: "web_env \<Rightarrow> ix_env \<Rightarrow> bool" where
  "sameLibraries we ie =
    (we_hasMethod we = ie_hasMethod ie \<and> we_programId we = ie_programId ie \<and>
     we_findProgramAddress we = ie_findProgramAddress ie \<and> we_associatedToken we = ie_associatedToken ie \<and>
     we_systemProgram we = ie_systemProgram ie \<and> we_tokenProgram we = ie_tokenProgram ie \<and>
     (\<forall>v. 0 \<le> v \<and> v < 2 ^ 64 \<longrightarrow> we_le8 we v = Inr (leBytes 8 v)))"

lemmas web_addresses =
  wEpochAddress_def wRoundAddress_def wPlayerAddress_def wPositionAddress_def wPrincipalVault_def pda_def

lemma sameLibraries_addresses:
  assumes "sameLibraries we ie"
  shows "wPlayerAddress we p o1 = playerAddress ie p o1" "wPositionAddress we r o1 = positionAddress ie r o1"
    "wPrincipalVault we p = principalVaultAddress ie p" "wJackpotVault we p = jackpotVaultAddress ie p"
    "0 \<le> i \<Longrightarrow> i < 2 ^ 64 \<Longrightarrow> wRoundAddress we p i = roundAddress ie p i"
    "0 \<le> i \<Longrightarrow> i < 2 ^ 64 \<Longrightarrow> wEpochAddress we p i = epochAddress ie p i"
  using assms
  by (simp_all add: sameLibraries_def web_addresses playerAddress_def positionAddress_def principalVaultAddress_def
      wJackpotVault_def jackpotVaultAddress_def roundAddress_def epochAddress_def leU64_def)

text \<open>C26: Browser and backend speak the same language: for one Pool, a Player's own purchase, settlement,
  registration and payout are, account for account, the instructions the Operator and the Sparring
  player send.\<close>

theorem browser_builds_backend_instructions:
  assumes "sameLibraries we ie" "ie_hasMethod ie ''buyPosition''" "ie_hasMethod ie ''settlePosition''"
    "ie_hasMethod ie ''register''" "ie_hasMethod ie ''processWithdraw''"
    "po_address po = pl_address pl" "po_acceptedMint po = pl_acceptedMint pl" "0 \<le> i" "i < 2 ^ 64"
    "ie_parseKey ie ownerText = Inr o1" "ie_parseKey ie positionText = Inr pos"
    "\<And>rd. roundAddress ie (pl_address pl) i = Inr rd \<Longrightarrow> pos = positionAddress ie rd o1"
  shows "buyPositionIxs we po o1 i tiles stake = buyPosition ie pl i o1 tiles stake \<and>
    settlePositionIxs we po o1 i = settlePositions ie pl i [(positionText, ownerText)] \<and>
    registerIxs we po o1 i = register ie pl i [o1] \<and>
    rbind (processWithdrawIxs we po o1) (\<lambda>ixs. Inr (last ixs)) = rbind (withdrawPair ie pl ownerText) (\<lambda>ixs. Inr (last ixs))"
proof -
  note same = sameLibraries_addresses[OF assms(1)]
  have lib: "we_hasMethod we = ie_hasMethod ie" "we_systemProgram we = ie_systemProgram ie"
      "we_tokenProgram we = ie_tokenProgram ie" "we_associatedToken we = ie_associatedToken ie"
    using assms(1) by (simp_all add: sameLibraries_def)
  obtain rd where rd: "roundAddress ie (pl_address pl) i = Inr rd" using assms(8,9) by (simp add: roundAddress_def leU64_def)
  obtain ep where ep: "epochAddress ie (pl_address pl) i = Inr ep" using assms(8,9) by (simp add: epochAddress_def leU64_def)
  have buy: "buyPositionIxs we po o1 i tiles stake = buyPosition ie pl i o1 tiles stake"
    using assms(2,6,8,9) rd by (simp add: buyPositionIxs_def buyPosition_def same lib wmethod_def methodIx_def single_def)
  have settle: "settlePositionIxs we po o1 i = settlePositions ie pl i [(positionText, ownerText)]"
    using assms(3,6,8-12) rd by (simp add: settlePositionIxs_def settlePositions_def same lib wmethod_def methodIx_def)
  have reg: "registerIxs we po o1 i = register ie pl i [o1]"
    using assms(4,6,8,9) ep by (simp add: registerIxs_def register_def same lib wmethod_def methodIx_def)
  have pay: "rbind (processWithdrawIxs we po o1) (\<lambda>ixs. Inr (last ixs)) = rbind (withdrawPair ie pl ownerText) (\<lambda>ixs. Inr (last ixs))"
    using assms(5-7,10)
    by (simp add: processWithdrawIxs_def processWithdrawMethod_def withdrawPair_def same lib wmethod_def methodIx_def Let_def)
  from buy settle reg pay show ?thesis by blast
qed

section \<open>What a wallet is asked to sign\<close>

lemma safePriorityFee_bounds: "1000 \<le> safePriorityFee raw \<and> safePriorityFee raw \<le> 50000"
  by (simp add: safePriorityFee_def PRIORITY_FEE_FLOOR_MICROLAMPORTS_def PRIORITY_FEE_CEILING_MICROLAMPORTS_def Let_def)

lemma poolFromDto_pinned:
  "poolFromDto env dto fee expected = Inr (Inr pool) \<Longrightarrow>
    po_address pool = expected \<and> po_priorityFee pool = safePriorityFee fee \<and> we_parseKey env (pd_mint dto) = Inr (po_acceptedMint pool)"
  by (auto simp: poolFromDto_def js_simps split: if_splits)

lemma sendMany_asks:
  assumes "sendMany env w o1 instructions fee = (r, asked)"
  shows "length asked \<le> 1"
    and "tx \<in> set asked \<Longrightarrow> wt_feePayer tx = o1 \<and> wt_price tx = fee \<and> wt_instructions tx = instructions"
    and "r = Inr (Landed signature) \<Longrightarrow> length asked = 1 \<and> (\<exists>err. wc_confirm w signature = ConfirmValue err \<and> \<not> truthy err)"
  using assms
  by (auto simp: sendMany_def broadcastThrough_def confirmedResult_def js_simps
      split: sum.splits prod.splits compute_sizing.splits option.splits confirmation.splits if_splits)

text \<open>A method instruction of the app names the Pool and the owner's Player.\<close>

definition onPool :: "web_env \<Rightarrow> pubkey \<Rightarrow> pubkey \<Rightarrow> instruction \<Rightarrow> bool" where
  "onPool env pool o1 i =
    (case i of
       CreateAta payer ata owner m \<Rightarrow> payer = o1 \<and> owner = o1
     | Method name args accounts \<Rightarrow> map_of accounts ''pool'' = Some pool \<and> map_of accounts ''player'' = Some (wPlayerAddress env pool o1))"

datatype action =
    Deposit int | BuyTickets int | RequestWithdraw int | ProcessWithdraw | ShutdownWithdraw int int
  | BuyTiles int int int | Settle int | Register int

fun actionIxs :: "web_env \<Rightarrow> pool_like \<Rightarrow> pubkey \<Rightarrow> action \<Rightarrow> instruction list res" where
  "actionIxs env pool o1 (Deposit a) = depositIxs env pool o1 a"
| "actionIxs env pool o1 (BuyTickets a) = buyTicketsIxs env pool o1 a"
| "actionIxs env pool o1 (RequestWithdraw a) = requestWithdrawIxs env pool o1 a"
| "actionIxs env pool o1 ProcessWithdraw = processWithdrawIxs env pool o1"
| "actionIxs env pool o1 (ShutdownWithdraw a b) = shutdownWithdrawIxs env pool o1 a b"
| "actionIxs env pool o1 (BuyTiles r t s) = buyPositionIxs env pool o1 r t s"
| "actionIxs env pool o1 (Settle r) = settlePositionIxs env pool o1 r"
| "actionIxs env pool o1 (Register e) = registerIxs env pool o1 e"

lemmas web_builders =
  depositIxs_def buyTicketsIxs_def requestWithdrawIxs_def processWithdrawIxs_def shutdownWithdrawIxs_def
  buyPositionIxs_def settlePositionIxs_def registerIxs_def processWithdrawMethod_def ataIx_def

lemma actionIxs_onPool:
  "actionIxs env pool o1 a = Inr ixs \<Longrightarrow> i \<in> set ixs \<Longrightarrow> onPool env (po_address pool) o1 i"
  by (cases a) (auto simp: web_builders js_simps onPool_def split: shutdown_step.splits)

text \<open>C24: A wallet signs only for the Pool this build is pinned to: whatever the API answered, one action asks
  the wallet for at most one transaction, paid by the Player, at a price between 1,000 and 50,000
  microlamports, whose instructions are that action's and name the pinned Pool and the Player's own
  account; and it is reported landed only when the chain confirmed that signature without an error.\<close>

theorem wallet_signs_for_pinned_pool:
  assumes "poolFromDto env dto fee expected = Inr (Inr pool)"
    "sendIxs env w pool o1 (actionIxs env pool o1 a) = (r, asked)"
  shows "length asked \<le> 1 \<and>
    (\<forall>tx \<in> set asked. wt_feePayer tx = o1 \<and> 1000 \<le> wt_price tx \<and> wt_price tx \<le> 50000 \<and>
       actionIxs env pool o1 a = Inr (wt_instructions tx) \<and> (\<forall>i \<in> set (wt_instructions tx). onPool env expected o1 i)) \<and>
    (\<forall>signature. r = Inr (Landed signature) \<longrightarrow>
       length asked = 1 \<and> (\<exists>err. wc_confirm w signature = ConfirmValue err \<and> \<not> truthy err))"
proof (cases "actionIxs env pool o1 a")
  case (Inl e)
  then show ?thesis using assms(2) by (auto simp: sendIxs_def)
next
  case (Inr ixs)
  have pool: "po_address pool = expected" "po_priorityFee pool = safePriorityFee fee"
    using poolFromDto_pinned[OF assms(1)] by auto
  have send: "sendMany env w o1 ixs (po_priorityFee pool) = (r, asked)" using assms(2) Inr by (simp add: sendIxs_def)
  show ?thesis
    using sendMany_asks(1,2,3)[OF send] safePriorityFee_bounds[of fee] actionIxs_onPool[OF Inr] Inr pool by auto
qed

section \<open>Resolving an unknown outcome\<close>

definition final :: "json \<Rightarrow> string \<Rightarrow> bool" where
  "final err level = (truthy err \<or> level = ''confirmed'' \<or> level = ''finalized'')"

text \<open>What the poll's answer is worth: the \<open>j\<close>-th poll said so.\<close>

definition vouched :: "web_env \<Rightarrow> web_chain \<Rightarrow> string \<Rightarrow> int \<Rightarrow> send_result \<Rightarrow> nat \<Rightarrow> bool" where
  "vouched env w signature lastValid r j =
    (case r of
       Landed s \<Rightarrow> s = signature \<and> (\<exists>err level. wc_status w j = Inr (SigStatus err level) \<and> \<not> truthy err \<and> final err level)
     | SendFailed code message \<Rightarrow> (\<exists>err level. wc_status w j = Inr (SigStatus err level) \<and> truthy err \<and> code = customErrorCode err)
     | Expired \<Rightarrow> (\<exists>h. wc_height w j = Inr h \<and> h > lastValid) \<and>
         (\<forall>err level. wc_status w j = Inr (SigStatus err level) \<longrightarrow> \<not> final err level)
     | UnknownOutcome s h \<Rightarrow> False)"

lemma resolve_vouched':
  "resolveUnknownSend env w signature lastValid k = Some y \<Longrightarrow>
    \<forall>r. y = Inr r \<longrightarrow> (\<exists>j \<ge> k. vouched env w signature lastValid r j)"
proof (induction rule: resolveUnknownSend.raw_induct[rotated 1, consumes 1, case_names step])
  case (step resolve env w signature lastValid k y)
  have later: "\<forall>r. y = Inr r \<longrightarrow> (\<exists>j \<ge> k. vouched env w signature lastValid r j)"
    if "resolve env w signature lastValid (Suc k) = Some y"
    using step.IH[OF that] Suc_leD by blast
  have expired: "vouched env w signature lastValid Expired k"
    if "wc_height w k = Inr h" "h > lastValid" "\<forall>err level. wc_status w k = Inr (SigStatus err level) \<longrightarrow> \<not> final err level" for h
    using that by (auto simp: vouched_def)
  show ?case
  proof (cases "wc_status w k")
    case (Inl e)
    then show ?thesis using step.prems step.hyps by auto
  next
    case (Inr s)
    then show ?thesis
      using step.hyps later expired
      by (cases s; cases "wc_height w k")
        (auto simp: final_def vouched_def split: if_splits intro!: exI[of _ k])
  qed
qed

lemma resolve_vouched:
  "resolveUnknownSend env w signature lastValid k = Some (Inr r) \<Longrightarrow> \<exists>j \<ge> k. vouched env w signature lastValid r j"
  using resolve_vouched' by blast

lemma resolve_step:
  assumes "isOk (wc_status w k)" "wc_height w k = Inr x"
    "x > lastValid \<or> (\<exists>r. resolveUnknownSend env w signature lastValid (Suc k) = Some (Inr r))"
  shows "\<exists>r. resolveUnknownSend env w signature lastValid k = Some (Inr r)"
proof -
  obtain s where s: "wc_status w k = Inr s" using assms(1) by (auto simp: isOk_iff)
  define tail where "tail = (if x > lastValid then Some (Inr Expired) else resolveUnknownSend env w signature lastValid (Suc k))"
  have "\<exists>r. tail = Some (Inr r)" using assms(3) by (cases "x > lastValid") (simp_all add: tail_def)
  moreover have "resolveUnknownSend env w signature lastValid k \<in>
      insert tail (range (\<lambda>r. Some (Inr r)))"
    unfolding resolveUnknownSend.simps[of env w signature lastValid k] s assms(2) sum.case tail_def[symmetric]
    by (cases s) (simp_all only: sig_status.case split: if_split, simp_all)
  ultimately show ?thesis by blast
qed

lemma resolve_returns:
  assumes "\<And>j. isOk (wc_status w j)" "\<And>j. isOk (wc_height w j)" "wc_height w (k + n) = Inr h" "h > lastValid"
  shows "\<exists>r. resolveUnknownSend env w signature lastValid k = Some (Inr r)"
  using assms(3)
proof (induction n arbitrary: k)
  case 0
  then have "wc_height w k = Inr h" by simp
  from resolve_step[OF assms(1) this] assms(4) show ?case by blast
next
  case (Suc n)
  obtain x where x: "wc_height w k = Inr x" using assms(2)[of k] by (auto simp: isOk_iff)
  have "\<exists>r. resolveUnknownSend env w signature lastValid (Suc k) = Some (Inr r)" using Suc.IH[of "Suc k"] Suc.prems by simp
  from resolve_step[OF assms(1) x disjI2[OF this]] show ?case .
qed

text \<open>C25: An unknown outcome resolves: while the polls are answered, the wait ends as soon as the chain's height
  passes the blockhash's last valid one, and what it then reports is what one of its polls saw.\<close>

theorem unknown_outcome_resolves:
  assumes "\<And>j. isOk (wc_status w j)" "\<And>j. isOk (wc_height w j)" "wc_height w n = Inr h" "h > lastValid"
  shows "\<exists>r j. awaitSendResult env w (UnknownOutcome signature lastValid) = Some (Inr r) \<and>
    vouched env w signature lastValid r j"
proof -
  obtain r where "resolveUnknownSend env w signature lastValid 0 = Some (Inr r)"
    using resolve_returns[of w 0 n h lastValid env signature, OF assms(1,2)] assms(3,4) by auto
  then show ?thesis using resolve_vouched by (fastforce simp: awaitSendResult_def)
qed

text \<open>A rejected poll invites a second payment: when the confirmation is lost and the next status read is
  rejected with a text that names no program error, the deposit ends in the note that says to try
  again, the button live, even on a chain where every later read reports it landed.\<close>

theorem lost_poll_invites_retry:
  assumes "fst (sendMany env w o1 ixs fee) = Inr (UnknownOutcome signature lastValid)"
    "wc_status w 0 = Inl message" "extractCode env message = None"
    "\<And>k. 0 < k \<Longrightarrow> wc_status w k = Inr (SigStatus JNull ''finalized'')"
  shows "runMoney env w (fst (sendMany env w o1 ixs fee)) = Note GENERIC \<and>
    resolveUnknownSend env w signature lastValid 1 = Some (Inr (Landed signature))"
proof -
  have "resolveUnknownSend env w signature lastValid 0 = Some (Inl message)"
    using assms(2) unfolding resolveUnknownSend.simps[of env w signature lastValid 0] by simp
  moreover have "resolveUnknownSend env w signature lastValid 1 = Some (Inr (Landed signature))"
    using assms(4)[OF zero_less_one] unfolding resolveUnknownSend.simps[of env w signature lastValid 1] by simp
  ultimately show ?thesis using assms(1,3) by (simp add: runMoney_def afterAwait_def awaitSendResult_def decodePlayerError_def)
qed

text \<open>The status is read before the height: a transaction that lands in its last valid block between the two
  reads is reported as expired.\<close>

theorem landed_can_read_as_expired:
  assumes "wc_status w 0 = Inr NoStatus" "wc_height w 0 = Inr (lastValid + 1)"
    "wc_status w 1 = Inr (SigStatus JNull ''confirmed'')"
  shows "resolveUnknownSend env w signature lastValid 0 = Some (Inr Expired) \<and>
    resolveUnknownSend env w signature lastValid 1 = Some (Inr (Landed signature))"
  unfolding resolveUnknownSend.simps[of env w signature lastValid 0] resolveUnknownSend.simps[of env w signature lastValid 1]
  using assms by simp

section \<open>Witnesses\<close>

definition demoWeb :: web_env where
  "demoWeb = \<lparr>we_hasMethod = (\<lambda>_. True), we_programId = [1], we_findProgramAddress = (\<lambda>seeds p. concat seeds),
    we_le8 = (\<lambda>v. Inr (leBytes 8 v)), we_associatedToken = (\<lambda>m x. x), we_systemProgram = [3], we_tokenProgram = [4],
    we_parseKey = (\<lambda>s. Inr [9]), we_b58 = (\<lambda>_. ''P''), we_stringify = (\<lambda>_. ''e''), we_idlErrors = []\<rparr>"

definition demoWebIx :: ix_env where
  "demoWebIx = \<lparr>ie_hasMethod = (\<lambda>_. True), ie_programId = [1], ie_operator = [2], ie_testVrf = False,
    ie_findProgramAddress = (\<lambda>seeds p. concat seeds),
    ie_parseKey = (\<lambda>s. Inr (if s = ''o'' then [7] else asciiBytes ''position'' @ (asciiBytes ''round'' @ [1] @ leBytes 8 5) @ [7])),
    ie_associatedToken = (\<lambda>m x. x), ie_systemProgram = [3], ie_tokenProgram = [4], ie_oraoProgram = [5], ie_oraoTreasury = [6]\<rparr>"

definition demoWebPool :: pool_like where
  "demoWebPool = \<lparr>po_address = [1], po_acceptedMint = [4], po_closeBuffer = 5, po_minDeposit = 1, po_houseCutBps = 100, po_paused = False,
    po_epochSeconds = 60, po_baseRateBps = 1, po_ticketsPerUsdc = 10, po_priorityFee = 1000\<rparr>"

definition demoChainPool :: pool_state where
  "demoChainPool = \<lparr>pl_address = [1], pl_admin = [2], pl_operator = [3], pl_acceptedMint = [4], pl_treasury = [5],
      pl_buybackReserve = [6], pl_house = [7], pl_vrfNetworkState = [8], pl_epochSeconds = 3600,
      pl_roundSeconds = 60, pl_closeBuffer = 5, pl_vrfTimeout = 50, pl_registrationWindow = 100,
      pl_payoutTimeout = 200, pl_paused = False, pl_currentEpochId = 2, pl_nextRoundId = 10, pl_openRoundId = 9,
      pl_totalPrincipal = 1000, pl_shutdown = False, pl_gamePaused = False, pl_jackpotPaused = False\<rparr>"

theorem browser_builds_backend_instructions_witness:
  "buyPositionIxs demoWeb demoWebPool [7] 5 3 10 = buyPosition demoWebIx demoChainPool 5 [7] 3 10"
proof -
  have lib: "sameLibraries demoWeb demoWebIx" by (simp add: sameLibraries_def demoWeb_def demoWebIx_def)
  have m: "ie_hasMethod demoWebIx n" for n by (simp add: demoWebIx_def)
  have pool: "po_address demoWebPool = pl_address demoChainPool" "po_acceptedMint demoWebPool = pl_acceptedMint demoChainPool"
    by (simp_all add: demoWebPool_def demoChainPool_def)
  have keys: "ie_parseKey demoWebIx ''o'' = Inr [7]"
      "ie_parseKey demoWebIx ''p'' = Inr (asciiBytes ''position'' @ (asciiBytes ''round'' @ [1] @ leBytes 8 5) @ [7])"
    by (simp_all add: demoWebIx_def)
  have pos: "asciiBytes ''position'' @ (asciiBytes ''round'' @ [1] @ leBytes 8 5) @ [7] = positionAddress demoWebIx rd [7]"
    if "roundAddress demoWebIx (pl_address demoChainPool) 5 = Inr rd" for rd
    using that by (simp add: roundAddress_def leU64_def positionAddress_def demoWebIx_def demoChainPool_def del: leBytes.simps)
  have "(0::int) \<le> 5" "(5::int) < 2 ^ 64" by simp_all
  from browser_builds_backend_instructions[OF lib m m m m pool this keys pos]
  show ?thesis by blast
qed

definition demoDto :: pool_dto where
  "demoDto = \<lparr>pd_address = ''P'', pd_mint = ''M'', pd_closeBuffer = ''5'', pd_minDeposit = ''1'', pd_houseCutBps = 100, pd_paused = False,
    pd_epochSeconds = ''60'', pd_baseRateBps = 1, pd_ticketsPerUsdc = 10\<rparr>"

text \<open>A wallet that signs, a chain that confirms nothing and whose first poll is rejected; the transaction landed.\<close>

definition demoWebChain :: "confirmation \<Rightarrow> web_chain" where
  "demoWebChain c = \<lparr>wc_blockhash = Inr (''H'', 10), wc_simulate = (\<lambda>_. Probed JNull (Some 10) None), wc_sponsor = None,
    wc_wallet = Some (\<lambda>_. Inr [1]), wc_sendRaw = (\<lambda>_. Inr ''S''), wc_confirm = (\<lambda>_. c),
    wc_status = (\<lambda>k. if k = 0 then Inl ''fetch failed'' else Inr (SigStatus JNull ''finalized'')), wc_height = (\<lambda>k. Inr (int k))\<rparr>"

theorem wallet_signs_for_pinned_pool_witness:
  "\<exists>pool asked. poolFromDto demoWeb demoDto NaN [9] = Inr (Inr pool) \<and>
    sendIxs demoWeb (demoWebChain (ConfirmValue JNull)) pool [7] (actionIxs demoWeb pool [7] (Deposit 5)) = (Inr (Landed ''S''), asked) \<and>
    length asked = 1 \<and> (\<forall>tx \<in> set asked. wt_price tx \<le> 50000)"
proof -
  have "\<exists>pool. poolFromDto demoWeb demoDto NaN [9] = Inr (Inr pool)"
    by (simp add: poolFromDto_def demoWeb_def demoDto_def bigIntOf_def digitVal_def)
  then obtain pool where pool: "poolFromDto demoWeb demoDto NaN [9] = Inr (Inr pool)" by blast
  have "\<exists>asked. sendIxs demoWeb (demoWebChain (ConfirmValue JNull)) pool [7] (actionIxs demoWeb pool [7] (Deposit 5)) = (Inr (Landed ''S''), asked)"
    by (simp add: sendIxs_def sendMany_def depositIxs_def wmethod_def demoWebChain_def sizeCompute_def broadcastThrough_def
        confirmedResult_def) (simp add: demoWeb_def)
  then obtain asked where run: "sendIxs demoWeb (demoWebChain (ConfirmValue JNull)) pool [7] (actionIxs demoWeb pool [7] (Deposit 5)) = (Inr (Landed ''S''), asked)"
    by blast
  from wallet_signs_for_pinned_pool[OF pool run] pool run show ?thesis by blast
qed

definition demoPolls :: web_chain where
  "demoPolls = (demoWebChain (ConfirmThrows ''lost''))\<lparr>wc_status := (\<lambda>_. Inr NoStatus)\<rparr>"

theorem unknown_outcome_resolves_witness:
  "\<exists>r. awaitSendResult demoWeb demoPolls (UnknownOutcome ''S'' 10) = Some (Inr r)"
proof -
  have "isOk (wc_status demoPolls j)" "isOk (wc_height demoPolls j)" for j by (simp_all add: demoPolls_def demoWebChain_def)
  moreover have "wc_height demoPolls 11 = Inr 11" by (simp add: demoPolls_def demoWebChain_def)
  ultimately show ?thesis using unknown_outcome_resolves[of demoPolls 11 11 10 demoWeb "''S''"] by auto
qed

theorem lost_poll_invites_retry_witness:
  "runMoney demoWeb (demoWebChain (ConfirmThrows ''lost'')) (Inr (UnknownOutcome ''S'' 10)) = Note GENERIC \<and>
    resolveUnknownSend demoWeb (demoWebChain (ConfirmThrows ''lost'')) ''S'' 10 1 = Some (Inr (Landed ''S''))"
proof -
  let ?w = "demoWebChain (ConfirmThrows ''lost'')"
  have send: "fst (sendMany demoWeb ?w [7] [] 1000) = Inr (UnknownOutcome ''S'' 10)"
    by (simp add: sendMany_def demoWebChain_def sizeCompute_def broadcastThrough_def confirmedResult_def)
  have status: "wc_status ?w 0 = Inl ''fetch failed''" by (simp add: demoWebChain_def)
  have code: "extractCode demoWeb ''fetch failed'' = None"
    by (simp add: extractCode_def demoWeb_def lowerChar_def firstOccurrences_def isSpace_def nameAt_def)
  have later: "0 < k \<Longrightarrow> wc_status ?w k = Inr (SigStatus JNull ''finalized'')" for k by (simp add: demoWebChain_def)
  from lost_poll_invites_retry[OF send status code later] send show ?thesis by simp
qed

end
