(* ===== verification/Round_Engine.thy ===== *)
theory Round_Engine
  imports Board Money
begin

text \<open>
  The game screen's choreography (\<open>web/src/useRoundEngine.ts\<close>): which Round's reveal is played when, what
  each timer does, and which feed rows it holds back (\<open>isRowVisible\<close> of \<open>web/src/activityRows.ts\<close>).

  The state is the hook's React state and refs; an event is one effect run for the Round a render shows,
  or one timer going off. A timer carries what its closure captured. Sounds and the laser's geometry are
  left out; a tile index is a natural number.
\<close>

section \<open>State\<close>

definition BUILDUP_MS :: int where "BUILDUP_MS = 2000"

record reveal_state =
  rv_key :: string
  rv_winningTile :: nat
  rv_fired :: bool
  rv_boom :: bool
  rv_clearing :: bool

record take_over =
  to_amount :: string
  to_tileText :: string

text \<open>What a callback captured: whether a wallet is connected, and the position shown then.\<close>

type_synonym capture = "bool \<times> position_like option"

datatype timer =
    TFire string
  | TLand string nat
  | TTakeover take_over
  | TClear string capture
  | TGone string
  | TCoreOff

record engine =
  en_remembered :: "(string \<times> round_like) list"
  en_played :: "string list"
  en_seenAny :: bool
  en_busy :: bool
  en_reveal :: "reveal_state option"
  en_banner :: "string option"
  en_takeover :: "take_over option"
  en_lastWin :: "nat option"
  en_selected :: "nat list"
  en_coreEnter :: bool
  en_lastOpen :: "string option"
  en_timers :: "(int \<times> timer) list"

definition ENGINE_START :: engine where
  "ENGINE_START = \<lparr>en_remembered = [], en_played = [], en_seenAny = False, en_busy = False, en_reveal = None,
    en_banner = None, en_takeover = None, en_lastWin = None, en_selected = [], en_coreEnter = False,
    en_lastOpen = None, en_timers = []\<rparr>"

definition later :: "int \<Rightarrow> int \<Rightarrow> timer \<Rightarrow> engine \<Rightarrow> engine" where
  "later now ms t st = st\<lparr>en_timers := en_timers st @ [(now + ms, t)]\<rparr>"

section \<open>Reveals\<close>

definition wonBy :: "capture \<Rightarrow> nat \<Rightarrow> position_like option" where
  "wonBy cl tile =
    (case (if fst cl then snd cl else None) of
       Some p \<Rightarrow> if covers (wp_tiles p) tile then Some p else None
     | None \<Rightarrow> None)"

definition takeoverFor :: "round_like \<Rightarrow> position_like \<Rightarrow> take_over" where
  "takeoverFor r p =
    \<lparr>to_amount = ''+'' @ (case formatAtomic2 (expectedReward r p) 6 of Inr t \<Rightarrow> t | Inl e \<Rightarrow> e),
     to_tileText = ''Tile '' @ showNat (displayTile (wr_winningTile r))\<rparr>"

text \<open>\<open>runReveal\<close> for a tile on the board.\<close>

definition startReveal :: "int \<Rightarrow> capture \<Rightarrow> string \<Rightarrow> round_like \<Rightarrow> engine \<Rightarrow> engine" where
  "startReveal now cl key target st =
    (let tile = wr_winningTile target;
         st1 = st\<lparr>en_reveal := Some \<lparr>rv_key = key, rv_winningTile = tile, rv_fired = False, rv_boom = False, rv_clearing = False\<rparr>\<rparr>;
         st2 = later now (900 + BUILDUP_MS) (TLand key tile) (later now BUILDUP_MS (TFire key) st1);
         st3 = (case wonBy cl tile of None \<Rightarrow> st2 | Some p \<Rightarrow> later now (1550 + BUILDUP_MS) (TTakeover (takeoverFor target p)) st2)
     in later now (4600 + BUILDUP_MS) (TClear key cl) st3)"

text \<open>The oldest remembered Round not yet played: the scan keeps the first of the smallest id.\<close>

definition unplayed :: "engine \<Rightarrow> (string \<times> round_like) list" where
  "unplayed st = filter (\<lambda>(k, r). roundKey (wr_roundId r) \<notin> set (en_played st)) (en_remembered st)"

fun oldest :: "round_like option \<Rightarrow> (string \<times> round_like) list \<Rightarrow> round_like option" where
  "oldest best [] = best"
| "oldest None ((k, r) # rs) = oldest (Some r) rs"
| "oldest (Some b) ((k, r) # rs) = oldest (Some (if wr_roundId r < wr_roundId b then r else b)) rs"

lemma oldest_in: "oldest best rs = Some r \<Longrightarrow> best = Some r \<or> r \<in> snd ` set rs"
  by (induction best rs rule: oldest.induct) (auto split: if_splits)

lemma oldest_None: "oldest best rs = None \<longleftrightarrow> best = None \<and> rs = []"
  by (induction best rs rule: oldest.induct) auto

function pump :: "int \<Rightarrow> capture \<Rightarrow> engine \<Rightarrow> engine" where
  "pump now cl st =
    (if en_busy st then st
     else (case oldest None (unplayed st) of
             None \<Rightarrow> st
           | Some candidate \<Rightarrow>
               let key = roundKey (wr_roundId candidate)
               in if decideReveal (Some candidate) (set (en_played st)) \<noteq> Fire then st
                  else let st1 = st\<lparr>en_played := en_played st @ [key], en_busy := True\<rparr>
                       in if wr_winningTile candidate > 35 then pump now cl (st1\<lparr>en_busy := False\<rparr>)
                          else startReveal now cl key candidate st1))"
  by pat_completeness auto

lemma unplayed_decreases:
  assumes "oldest None (unplayed st) = Some r"
  shows "length (unplayed (st\<lparr>en_played := en_played st @ [roundKey (wr_roundId r)], en_busy := b\<rparr>)) < length (unplayed st)"
proof -
  obtain k where k: "(k, r) \<in> set (unplayed st)" using oldest_in[OF assms] by auto
  let ?new = "\<lambda>(k, r'). roundKey (wr_roundId r') \<notin> set (en_played st @ [roundKey (wr_roundId r)])"
  have "unplayed (st\<lparr>en_played := en_played st @ [roundKey (wr_roundId r)], en_busy := b\<rparr>) = filter ?new (unplayed st)"
    by (auto simp: unplayed_def intro!: filter_cong)
  moreover have "length (filter ?new (unplayed st)) < length (unplayed st)"
    using k by (intro length_filter_less[of "(k, r)"]) auto
  ultimately show ?thesis by simp
qed

termination pump
proof (relation "measure (\<lambda>(now, cl, st). length (unplayed st))", goal_cases)
  case (2 now cl st x key st1)
  then show ?case using unplayed_decreases[of st x False] by simp
qed simp

declare pump.simps [simp del]

section \<open>Effects and timers\<close>

text \<open>The effect that remembers a revealed Round.\<close>

definition rememberRound :: "int \<Rightarrow> capture \<Rightarrow> round_like \<Rightarrow> engine \<Rightarrow> engine" where
  "rememberRound now cl r st =
    (let firstRoundSeen = \<not> en_seenAny st; st1 = st\<lparr>en_seenAny := True\<rparr>; key = roundKey (wr_roundId r)
     in if \<not> isRevealed r then st1
        else if key \<in> fst ` set (en_remembered st1) then st1
        else let st2 = st1\<lparr>en_remembered := en_remembered st1 @ [(key, r)]\<rparr>
             in if firstRoundSeen then st2\<lparr>en_played := en_played st2 @ [key]\<rparr>
                else pump now cl st2)"

text \<open>The effect that clears the board when a fresh Round opens.\<close>

definition openBoard :: "int \<Rightarrow> round_like \<Rightarrow> engine \<Rightarrow> engine" where
  "openBoard now r st =
    (let key = roundKey (wr_roundId r)
     in if wr_status r \<noteq> W_OPEN \<or> en_lastOpen st = Some key then st
        else if en_lastOpen st = None then st\<lparr>en_lastOpen := Some key\<rparr>
        else later now 850 TCoreOff (st\<lparr>en_lastOpen := Some key, en_selected := [], en_coreEnter := True\<rparr>))"

definition onReveal :: "string \<Rightarrow> (reveal_state \<Rightarrow> reveal_state option) \<Rightarrow> engine \<Rightarrow> engine" where
  "onReveal key f st =
    (case en_reveal st of
       Some rv \<Rightarrow> if rv_key rv = key then st\<lparr>en_reveal := f rv\<rparr> else st
     | None \<Rightarrow> st)"

fun runTimer :: "int \<Rightarrow> timer \<Rightarrow> engine \<Rightarrow> engine" where
  "runTimer now (TFire key) st = onReveal key (\<lambda>rv. Some (rv\<lparr>rv_fired := True\<rparr>)) st"
| "runTimer now (TLand key tile) st =
    (onReveal key (\<lambda>rv. Some (rv\<lparr>rv_boom := True\<rparr>)) st)
      \<lparr>en_banner := Some (''TILE '' @ showNat (displayTile tile) @ '' WINS''), en_lastWin := Some (displayTile tile)\<rparr>"
| "runTimer now (TTakeover t) st = st\<lparr>en_takeover := Some t\<rparr>"
| "runTimer now (TClear key cl) st =
    later now 650 (TGone key)
      (pump now cl ((onReveal key (\<lambda>rv. Some (rv\<lparr>rv_clearing := True\<rparr>)) st)\<lparr>en_banner := None, en_busy := False\<rparr>))"
| "runTimer now (TGone key) st = onReveal key (\<lambda>_. None) st"
| "runTimer now TCoreOff st = st\<lparr>en_coreEnter := False\<rparr>"

text \<open>One step of the screen: a render whose effects run for the Round it shows, a pick of tiles, a dismissed
  takeover, or a timer that is due, removed and run.\<close>

inductive engine_step :: "engine \<Rightarrow> engine \<Rightarrow> bool" where
  render: "engine_step st (openBoard now r (rememberRound now cl r st))"
| pick: "engine_step st (st\<lparr>en_selected := ts\<rparr>)"
| dismiss: "engine_step st (st\<lparr>en_takeover := None\<rparr>)"
| timer: "en_timers st = before @ (due, t) # after \<Longrightarrow> due \<le> now \<Longrightarrow>
    engine_step st (runTimer now t (st\<lparr>en_timers := before @ after\<rparr>))"

inductive engineRun :: "engine \<Rightarrow> bool" where
  start: "engineRun ENGINE_START"
| step: "engineRun st \<Longrightarrow> engine_step st st' \<Longrightarrow> engineRun st'"

section \<open>The feed\<close>

datatype hold = HoldPending | HoldFiring | HoldLanded | HoldNone

definition isRowVisible :: "string option \<Rightarrow> hold \<Rightarrow> bool" where
  "isRowVisible rowRound h = (case rowRound of None \<Rightarrow> True | Some _ \<Rightarrow> h = HoldLanded \<or> h = HoldNone)"

definition revealHoldFor :: "engine \<Rightarrow> string option \<Rightarrow> hold" where
  "revealHoldFor st rowRound =
    (case rowRound of
       None \<Rightarrow> HoldNone
     | Some key \<Rightarrow>
         (case en_reveal st of
            Some rv \<Rightarrow>
              if rv_key rv = key then (if rv_boom rv then HoldLanded else HoldFiring)
              else if key \<in> fst ` set (en_remembered st) \<and> key \<notin> set (en_played st) then HoldPending else HoldNone
          | None \<Rightarrow> if key \<in> fst ` set (en_remembered st) \<and> key \<notin> set (en_played st) then HoldPending else HoldNone))"

definition visibleFeed :: "engine \<Rightarrow> ('a \<Rightarrow> string option) \<Rightarrow> 'a list \<Rightarrow> 'a list" where
  "visibleFeed st roundOf feed = filter (\<lambda>row. isRowVisible (roundOf row) (revealHoldFor st (roundOf row))) feed"

end
