(* ===== verification/Round_Engine_Laws.thy ===== *)
theory Round_Engine_Laws
  imports Round_Engine
begin

text \<open>
  Laws of the choreography over every run of it: each result is played at most once, one at a time, none
  is dropped, and the feed gives nothing away and holds nothing for good.
\<close>

section \<open>The invariant\<close>

definition clears :: "engine \<Rightarrow> (int \<times> timer) list" where
  "clears st = filter (\<lambda>(d, t). \<exists>key cl. t = TClear key cl) (en_timers st)"

text \<open>What holds between any two updates: keys are the ids' texts, a key is remembered and played once, and
  a reveal that has not landed has its landing timer set.\<close>

definition engineOk :: "engine \<Rightarrow> bool" where
  "engineOk st =
    ((\<forall>(k, r) \<in> set (en_remembered st). k = roundKey (wr_roundId r)) \<and>
     distinct (map fst (en_remembered st)) \<and> distinct (en_played st) \<and>
     set (en_played st) \<subseteq> fst ` set (en_remembered st) \<and>
     (\<forall>rv. en_reveal st = Some rv \<longrightarrow> rv_key rv \<in> set (en_played st) \<and>
        (\<not> rv_boom rv \<longrightarrow> (\<exists>d tile. (d, TLand (rv_key rv) tile) \<in> set (en_timers st)))))"

definition engineQueue :: "engine \<Rightarrow> bool" where
  "engineQueue st =
    (if en_busy st then length (clears st) = 1 else clears st = [] \<and> unplayed st = [])"

lemma clears_later [simp]:
  "clears (later now ms t st) = clears st @ (case t of TClear key cl \<Rightarrow> [(now + ms, t)] | _ \<Rightarrow> [])"
  by (auto simp: clears_def later_def split: timer.splits)

lemma later_simps [simp]:
  "en_remembered (later now ms t st) = en_remembered st" "en_played (later now ms t st) = en_played st"
  "en_busy (later now ms t st) = en_busy st" "en_reveal (later now ms t st) = en_reveal st"
  "en_timers (later now ms t st) = en_timers st @ [(now + ms, t)]"
  by (simp_all add: later_def)

lemma unplayed_cong:
  "en_remembered st = en_remembered st' \<Longrightarrow> en_played st = en_played st' \<Longrightarrow> unplayed st = unplayed st'"
  by (simp add: unplayed_def)

lemma unplayed_later [simp]: "unplayed (later now ms t st) = unplayed st"
  by (rule unplayed_cong) simp_all

lemma startReveal_fields:
  "en_remembered (startReveal now cl key r st) = en_remembered st" "en_played (startReveal now cl key r st) = en_played st"
  "en_busy (startReveal now cl key r st) = en_busy st"
  "en_reveal (startReveal now cl key r st) =
     Some \<lparr>rv_key = key, rv_winningTile = wr_winningTile r, rv_fired = False, rv_boom = False, rv_clearing = False\<rparr>"
  by (simp_all add: startReveal_def Let_def split: option.split)

lemma startReveal_clears: "clears (startReveal now cl key r st) = clears st @ [(now + (4600 + BUILDUP_MS), TClear key cl)]"
proof -
  have "clears (st\<lparr>en_reveal := x\<rparr>) = clears st" for x by (simp add: clears_def)
  then show ?thesis by (simp add: startReveal_def Let_def split: option.split)
qed

lemma startReveal_lands: "\<exists>d. (d, TLand key (wr_winningTile r)) \<in> set (en_timers (startReveal now cl key r st))"
  by (auto simp: startReveal_def Let_def split: option.split)

lemma startReveal_ok:
  "engineOk st \<Longrightarrow> key \<in> set (en_played st) \<Longrightarrow> engineOk (startReveal now cl key r st)"
  using startReveal_lands[of key r now cl st] by (auto simp: engineOk_def startReveal_fields)

text \<open>The next Round to play is remembered under its own key, and not played yet.\<close>

lemma oldest_unplayed:
  assumes "engineOk st" "oldest None (unplayed st) = Some r"
  shows "roundKey (wr_roundId r) \<in> fst ` set (en_remembered st)" "roundKey (wr_roundId r) \<notin> set (en_played st)"
proof -
  from oldest_in[OF assms(2)] obtain k where k: "(k, r) \<in> set (unplayed st)" by auto
  then have m: "(k, r) \<in> set (en_remembered st)" "roundKey (wr_roundId r) \<notin> set (en_played st)" by (auto simp: unplayed_def)
  then have "k = roundKey (wr_roundId r)" using assms(1) by (auto simp: engineOk_def)
  then show "roundKey (wr_roundId r) \<in> fst ` set (en_remembered st)" using m(1) by force
  show "roundKey (wr_roundId r) \<notin> set (en_played st)" by (rule m(2))
qed

lemma engineOk_play:
  assumes "engineOk st" "key \<in> fst ` set (en_remembered st)" "key \<notin> set (en_played st)"
  shows "engineOk (st\<lparr>en_played := en_played st @ [key], en_busy := b\<rparr>)"
  using assms unfolding engineOk_def by simp

lemma play_ok:
  assumes "engineOk st" "oldest None (unplayed st) = Some r"
  shows "engineOk (st\<lparr>en_played := en_played st @ [roundKey (wr_roundId r)], en_busy := b\<rparr>)"
  by (rule engineOk_play[OF assms(1) oldest_unplayed[OF assms]])

lemma pump_inv:
  "engineOk st \<Longrightarrow> (if en_busy st then length (clears st) = 1 else clears st = []) \<Longrightarrow>
    engineOk (pump now cl st) \<and> engineQueue (pump now cl st)"
proof (induction now cl st rule: pump.induct)
  case (1 now cl st)
  show ?case
  proof (cases "en_busy st")
    case True
    then show ?thesis using 1 by (simp add: pump.simps[of now cl st] engineQueue_def)
  next
    case idle: False
    show ?thesis
    proof (cases "oldest None (unplayed st)")
      case None
      then have "unplayed st = []" by (simp add: oldest_None)
      then show ?thesis using idle None 1 by (simp add: pump.simps[of now cl st] engineQueue_def)
    next
      case (Some r)
      let ?key = "roundKey (wr_roundId r)"
      define st1 where "st1 = st\<lparr>en_played := en_played st @ [?key], en_busy := True\<rparr>"
      have fire: "decideReveal (Some r) (set (en_played st)) = Fire"
        using oldest_unplayed[OF 1(2) Some] by (simp add: decideReveal_def)
      have ok: "engineOk (st\<lparr>en_played := en_played st @ [?key], en_busy := b\<rparr>)" for b by (rule play_ok[OF 1(2) Some])
      have c: "clears (st\<lparr>en_played := en_played st @ [?key], en_busy := b\<rparr>) = []" for b
        using 1(3) idle by (simp add: clears_def)
      show ?thesis
      proof (cases "wr_winningTile r > 35")
        case True
        have "pump now cl st = pump now cl (st1\<lparr>en_busy := False\<rparr>)"
          using idle Some fire True by (simp add: pump.simps[of now cl st] st1_def Let_def)
        moreover have "engineOk (st1\<lparr>en_busy := False\<rparr>)" "clears (st1\<lparr>en_busy := False\<rparr>) = []"
          using ok[of False] c[of False] by (simp_all add: st1_def)
        ultimately show ?thesis using 1(1)[OF idle Some refl _ refl True] fire by (simp add: st1_def)
      next
        case False
        have p: "pump now cl st = startReveal now cl ?key r st1"
          using idle Some fire False by (simp add: pump.simps[of now cl st] st1_def Let_def)
        have "engineOk st1" using ok[of True] by (simp add: st1_def)
        then have "engineOk (startReveal now cl ?key r st1)" by (rule startReveal_ok) (simp add: st1_def)
        moreover have "engineQueue (startReveal now cl ?key r st1)"
          using c[of True] by (simp add: engineQueue_def startReveal_fields startReveal_clears st1_def)
        ultimately show ?thesis using p by simp
      qed
    qed
  qed
qed

definition engineInv :: "engine \<Rightarrow> bool" where
  "engineInv st = (engineOk st \<and> engineQueue st)"

lemma engine_cong:
  assumes "en_remembered st' = en_remembered st" "en_played st' = en_played st" "en_busy st' = en_busy st"
    "en_reveal st' = en_reveal st" "en_timers st' = en_timers st"
  shows "engineOk st' = engineOk st" "engineQueue st' = engineQueue st" "engineInv st' = engineInv st" "clears st' = clears st"
proof -
  have u: "unplayed st' = unplayed st" by (rule unplayed_cong) (simp_all add: assms)
  have c: "clears st' = clears st" by (simp add: clears_def assms)
  show "engineOk st' = engineOk st" by (simp add: engineOk_def assms)
  moreover show "engineQueue st' = engineQueue st" by (simp add: engineQueue_def u c assms)
  ultimately show "engineInv st' = engineInv st" "clears st' = clears st" by (simp_all add: engineInv_def c)
qed

lemma start_inv: "engineInv ENGINE_START"
  by (simp add: engineInv_def engineOk_def engineQueue_def ENGINE_START_def clears_def unplayed_def)

lemma engineOk_remember:
  assumes "engineOk st" "key = roundKey (wr_roundId r)" "key \<notin> fst ` set (en_remembered st)"
  shows "engineOk (st\<lparr>en_remembered := en_remembered st @ [(key, r)]\<rparr>)"
  using assms unfolding engineOk_def by (simp add: subset_insertI2)

lemma remember_inv:
  assumes "engineInv st"
  shows "engineInv (rememberRound now cl r st)"
proof -
  define st1 where "st1 = st\<lparr>en_seenAny := True\<rparr>"
  define key where "key = roundKey (wr_roundId r)"
  define st2 where "st2 = st1\<lparr>en_remembered := en_remembered st1 @ [(key, r)]\<rparr>"
  have i1: "engineInv st1" using assms engine_cong(3)[of st1 st] by (simp add: st1_def)
  show ?thesis
  proof (cases "\<not> isRevealed r \<or> key \<in> fst ` set (en_remembered st1)")
    case True
    then have "rememberRound now cl r st = st1" by (auto simp: rememberRound_def Let_def st1_def key_def)
    then show ?thesis using i1 by simp
  next
    case False
    then have new: "key \<notin> fst ` set (en_remembered st1)" "key \<notin> set (en_played st1)"
      using i1 by (auto simp: engineInv_def engineOk_def)
    have ok2: "engineOk st2"
      unfolding st2_def using i1 new(1) by (intro engineOk_remember) (simp_all add: engineInv_def key_def)
    have c2: "clears st2 = clears st1" by (simp add: clears_def st2_def)
    have q1: "engineQueue st1" using i1 by (simp add: engineInv_def)
    show ?thesis
    proof (cases "en_seenAny st")
      case True
      have "rememberRound now cl r st = pump now cl st2"
        using False True by (auto simp: rememberRound_def Let_def st1_def st2_def key_def)
      moreover have "if en_busy st2 then length (clears st2) = 1 else clears st2 = []"
        using q1 c2 by (simp add: engineQueue_def st2_def split: if_splits)
      ultimately show ?thesis using pump_inv[OF ok2] by (simp add: engineInv_def)
    next
      case first: False
      define st3 where "st3 = st2\<lparr>en_played := en_played st2 @ [key]\<rparr>"
      have res: "rememberRound now cl r st = st3"
        using False first by (auto simp: rememberRound_def Let_def st1_def st2_def st3_def key_def)
      have "engineOk st3"
        using ok2 new by (auto simp: engineOk_def st3_def st2_def)
      have "unplayed st3 = filter (\<lambda>(k, r'). roundKey (wr_roundId r') \<noteq> key) (unplayed st1)"
        by (auto simp: unplayed_def st3_def st2_def key_def intro!: filter_cong)
      moreover have "clears st3 = clears st1" "en_busy st3 = en_busy st1" by (simp_all add: clears_def st3_def st2_def)
      ultimately have "engineQueue st3" using q1 by (simp add: engineQueue_def)
      with \<open>engineOk st3\<close> res show ?thesis by (simp add: engineInv_def)
    qed
  qed
qed

lemma openBoard_inv: "engineInv st \<Longrightarrow> engineInv (openBoard now r st)"
proof -
  assume inv: "engineInv st"
  have l: "engineInv (later now 850 TCoreOff st')" if "engineInv st'" for st'
    using that by (auto simp: engineInv_def engineOk_def engineQueue_def)
  show ?thesis
  proof -
    have "engineInv (st\<lparr>en_lastOpen := x\<rparr>)" "engineInv (st\<lparr>en_lastOpen := x, en_selected := [], en_coreEnter := True\<rparr>)" for x
      using inv by (subst engine_cong(3)[of _ st]; simp)+
    then show ?thesis using inv l by (simp add: openBoard_def Let_def)
  qed
qed

section \<open>Timers\<close>

lemma onReveal_fields [simp]:
  "en_remembered (onReveal key f st) = en_remembered st" "en_played (onReveal key f st) = en_played st"
  "en_busy (onReveal key f st) = en_busy st" "en_timers (onReveal key f st) = en_timers st"
  by (simp_all add: onReveal_def split: option.split)

lemma onReveal_queue [simp]: "engineQueue (onReveal key f st) = engineQueue st" "clears (onReveal key f st) = clears st"
proof -
  have "unplayed (onReveal key f st) = unplayed st" by (rule unplayed_cong) simp_all
  moreover show "clears (onReveal key f st) = clears st" by (simp add: clears_def)
  ultimately show "engineQueue (onReveal key f st) = engineQueue st" by (simp add: engineQueue_def)
qed

lemma onReveal_ok:
  assumes "engineOk st" "\<And>rv rv'. f rv = Some rv' \<Longrightarrow> rv_key rv' = rv_key rv \<and> (rv_boom rv \<longrightarrow> rv_boom rv')"
  shows "engineOk (onReveal key f st)"
proof (cases "en_reveal st")
  case None
  then show ?thesis using assms(1) by (simp add: onReveal_def)
next
  case (Some rv)
  note old = Some
  show ?thesis
  proof (cases "rv_key rv = key \<and> f rv \<noteq> None")
    case True
    then obtain rv' where f: "f rv = Some rv'" by auto
    from assms(2)[OF f] have "rv_key rv' = rv_key rv" "\<not> rv_boom rv' \<Longrightarrow> \<not> rv_boom rv" by auto
    then show ?thesis using assms(1) old True f unfolding engineOk_def by (simp add: onReveal_def)
  next
    case False
    then show ?thesis using assms(1) old by (cases "rv_key rv = key") (simp_all add: onReveal_def engineOk_def)
  qed
qed

text \<open>Taking a timer off the list keeps the invariant, but for the landing of the very reveal on screen and
  the clear that keeps the screen busy.\<close>

lemma removal:
  assumes "engineInv st" "en_timers st = before @ (due, t) # after" "st0 = st\<lparr>en_timers := before @ after\<rparr>"
  shows "(\<And>key tile. t \<noteq> TLand key tile) \<Longrightarrow> engineOk st0"
    and "(\<And>key cl. t \<noteq> TClear key cl) \<Longrightarrow> engineQueue st0"
    and "t = TClear key cl \<Longrightarrow> clears st0 = []"
    and "t = TLand key tile \<Longrightarrow> engineOk (onReveal key (\<lambda>rv. Some (rv\<lparr>rv_boom := True\<rparr>)) st0)"
proof -
  let ?P = "\<lambda>(d, t). \<exists>key cl. t = TClear key cl"
  have c: "clears st = filter ?P before @ filter ?P [(due, t)] @ filter ?P after" "clears st0 = filter ?P before @ filter ?P after"
    by (simp_all add: clears_def assms)
  have u: "unplayed st0 = unplayed st" by (rule unplayed_cong) (simp_all add: assms(3))
  have inv: "engineOk st" "engineQueue st" using assms(1) by (simp_all add: engineInv_def)
  show "(\<And>key tile. t \<noteq> TLand key tile) \<Longrightarrow> engineOk st0"
  proof -
    assume "\<And>key tile. t \<noteq> TLand key tile"
    then have "(d, TLand k x) \<in> set (en_timers st0) \<longleftrightarrow> (d, TLand k x) \<in> set (en_timers st)" for d k x
      by (auto simp: assms(2,3))
    then show "engineOk st0" using inv(1) by (simp add: engineOk_def assms(3))
  qed
  show "(\<And>key cl. t \<noteq> TClear key cl) \<Longrightarrow> engineQueue st0"
    using inv(2) c u by (auto simp: engineQueue_def assms(3) split: if_splits)
  show "t = TClear key cl \<Longrightarrow> clears st0 = []"
    using inv(2) c by (auto simp: engineQueue_def split: if_splits)
  show "t = TLand key tile \<Longrightarrow> engineOk (onReveal key (\<lambda>rv. Some (rv\<lparr>rv_boom := True\<rparr>)) st0)"
    using inv(1) assms(2)
    by (cases "en_reveal st") (auto simp: engineOk_def assms(3) onReveal_def)
qed

lemma runTimer_inv:
  assumes inv: "engineInv st" and ts: "en_timers st = before @ (due, t) # after"
  shows "engineInv (runTimer now t (st\<lparr>en_timers := before @ after\<rparr>))"
proof -
  define st0 where "st0 = st\<lparr>en_timers := before @ after\<rparr>"
  note rm = removal[OF inv ts st0_def]
  have "engineInv (runTimer now t st0)"
  proof (cases t)
    case (TFire key)
    then have "engineOk st0" "engineQueue st0" using rm(1,2) by simp_all
    then show ?thesis using TFire by (auto simp: engineInv_def intro: onReveal_ok)
  next
    case (TLand key tile)
    let ?s = "onReveal key (\<lambda>rv. Some (rv\<lparr>rv_boom := True\<rparr>)) st0"
    have "engineInv ?s" using rm(2,4) TLand by (simp add: engineInv_def)
    then show ?thesis using TLand engine_cong(3)[of "?s\<lparr>en_banner := _, en_lastWin := _\<rparr>" ?s] by simp
  next
    case (TTakeover x)
    then show ?thesis using rm(1,2) engine_cong(3)[of "st0\<lparr>en_takeover := Some x\<rparr>" st0] by (simp add: engineInv_def)
  next
    case (TClear key cl)
    let ?s = "onReveal key (\<lambda>rv. Some (rv\<lparr>rv_clearing := True\<rparr>)) st0"
    have "engineOk st0" using rm(1) TClear by simp
    then have "engineOk ?s" by (rule onReveal_ok) auto
    then have "engineOk (?s\<lparr>en_banner := None, en_busy := False\<rparr>)" by (simp add: engineOk_def)
    moreover have "clears (?s\<lparr>en_banner := None, en_busy := False\<rparr>) = []"
      using rm(3)[OF TClear] onReveal_queue(2)[of key _ st0] by (simp add: clears_def)
    ultimately have "engineInv (pump now cl (?s\<lparr>en_banner := None, en_busy := False\<rparr>))"
      using pump_inv by (simp add: engineInv_def)
    moreover have "engineInv (later now 650 (TGone key) s)" if "engineInv s" for s
      using that by (auto simp: engineInv_def engineOk_def engineQueue_def)
    ultimately show ?thesis using TClear by simp
  next
    case (TGone key)
    then have "engineOk st0" "engineQueue st0" using rm(1,2) by simp_all
    then show ?thesis using TGone by (auto simp: engineInv_def intro: onReveal_ok)
  next
    case TCoreOff
    then show ?thesis using rm(1,2) engine_cong(3)[of "st0\<lparr>en_coreEnter := False\<rparr>" st0] by (simp add: engineInv_def)
  qed
  then show ?thesis by (simp add: st0_def)
qed

lemma engineRun_inv: "engineRun st \<Longrightarrow> engineInv st"
proof (induction rule: engineRun.induct)
  case (step st st')
  from step.hyps(2) show ?case
  proof (cases rule: engine_step.cases)
    case (render now r cl)
    then show ?thesis using step.IH by (simp add: openBoard_inv remember_inv)
  next
    case (timer before due t after now)
    then show ?thesis using step.IH runTimer_inv by simp
  next
    case (pick ts)
    then show ?thesis using step.IH engine_cong(3)[of "st\<lparr>en_selected := ts\<rparr>" st] by simp
  next
    case dismiss
    then show ?thesis using step.IH engine_cong(3)[of "st\<lparr>en_takeover := None\<rparr>" st] by simp
  qed
qed (rule start_inv)

section \<open>Properties\<close>

lemma reveals_queue: "engineQueue st \<Longrightarrow> unplayed st \<noteq> [] \<longrightarrow> clears st \<noteq> []"
  by (auto simp: engineQueue_def split: if_splits)


text \<open>The feed neither spoils nor withholds: a row about a Round whose result waits to be played or whose
  beam has not landed is hidden, and a hidden row has, in every run, a timer set that brings it nearer:
  its landing, or the clearing of the reveal it waits behind.\<close>

theorem feed_hold_is_fair:
  assumes "engineRun st"
  shows "((\<exists>rv. en_reveal st = Some rv \<and> rv_key rv = key \<and> \<not> rv_boom rv) \<longrightarrow> \<not> isRowVisible (Some key) (revealHoldFor st (Some key))) \<and>
    (key \<in> fst ` set (unplayed st) \<longrightarrow> \<not> isRowVisible (Some key) (revealHoldFor st (Some key))) \<and>
    (\<not> isRowVisible (Some key) (revealHoldFor st (Some key)) \<longrightarrow>
       (\<exists>d tile. (d, TLand key tile) \<in> set (en_timers st)) \<or> clears st \<noteq> [])"
proof -
  have inv: "engineOk st" "engineQueue st" using engineRun_inv[OF assms] by (simp_all add: engineInv_def)
  have keys: "key \<in> fst ` set (unplayed st) \<longleftrightarrow> key \<in> fst ` set (en_remembered st) \<and> key \<notin> set (en_played st)"
  proof -
    have "k = roundKey (wr_roundId r)" if "(k, r) \<in> set (en_remembered st)" for k r
      using that inv(1) by (auto simp: engineOk_def)
    then show ?thesis by (force simp: unplayed_def)
  qed
  have wait: "key \<in> fst ` set (unplayed st) \<Longrightarrow> clears st \<noteq> []" using reveals_queue[OF inv(2)] by auto
  have land: "\<exists>d tile. (d, TLand (rv_key rv) tile) \<in> set (en_timers st)" if "en_reveal st = Some rv" "\<not> rv_boom rv" for rv
    using that inv(1) unfolding engineOk_def by blast
  have played: "rv_key rv \<in> set (en_played st)" if "en_reveal st = Some rv" for rv
    using that inv(1) unfolding engineOk_def by blast
  show ?thesis
  proof (cases "en_reveal st")
    case None
    then show ?thesis using keys wait by (auto simp: isRowVisible_def revealHoldFor_def)
  next
    case (Some rv)
    then show ?thesis using keys wait land[OF Some] played[OF Some]
      by (cases "rv_key rv = key") (auto simp: isRowVisible_def revealHoldFor_def)
  qed
qed

section \<open>Witnesses\<close>

definition demoShown :: round_like where
  "demoShown = \<lparr>wr_roundId = 4, wr_epochId = 1, wr_startsAt = 0, wr_endsAt = 60, wr_status = W_OPEN, wr_winningTile = 255,
    wr_pot = 0, wr_houseCut = 0, wr_tileTotals = []\<rparr>"

definition demoResult :: round_like where
  "demoResult = demoShown\<lparr>wr_status := W_SETTLED, wr_winningTile := 2\<rparr>"

text \<open>A Round is seen open, then settled: its reveal starts.\<close>

definition demoEngine :: engine where
  "demoEngine = openBoard 60000 demoResult (rememberRound 60000 (True, None) demoResult
    (openBoard 0 demoShown (rememberRound 0 (True, None) demoShown ENGINE_START)))"

lemma demoEngine_run: "engineRun demoEngine"
proof -
  from engineRun.step[OF engineRun.start engine_step.render[of _ 0 demoShown "(True, None)"]]
  show ?thesis unfolding demoEngine_def by (rule engineRun.step) (rule engine_step.render)
qed

lemma demoEngine_reveals:
  "\<exists>rv. en_reveal demoEngine = Some rv \<and> rv_key rv = ''4'' \<and> \<not> rv_boom rv" "en_busy demoEngine"
proof -
  have key: "roundKey (wr_roundId demoResult) = ''4''" "roundKey (wr_roundId demoShown) = ''4''"
    by (simp_all add: roundKey_def demoResult_def demoShown_def showInt_def showNat.simps digitChar_def)
  have st: "\<not> isRevealed demoShown" "isRevealed demoResult" "wr_status demoShown = W_OPEN" "wr_status demoResult \<noteq> W_OPEN"
      "wr_winningTile demoResult = 2"
    by (simp_all add: isRevealed_def demoResult_def demoShown_def W_OPEN_def W_SETTLED_def W_FORFEITED_def)
  define s where "s = openBoard 0 demoShown (rememberRound 0 (True, None) demoShown ENGINE_START)"
  have s: "en_remembered s = []" "en_played s = []" "en_seenAny s" "\<not> en_busy s" "en_reveal s = None"
    by (simp_all add: s_def openBoard_def rememberRound_def st ENGINE_START_def Let_def)
  define s2 where "s2 = s\<lparr>en_seenAny := True, en_remembered := [(''4'', demoResult)]\<rparr>"
  have u: "unplayed s2 = [(''4'', demoResult)]" by (simp add: unplayed_def s2_def s)
  have "pump 60000 (True, None) s2 = startReveal 60000 (True, None) ''4'' demoResult (s2\<lparr>en_played := [''4''], en_busy := True\<rparr>)"
    unfolding pump.simps[of 60000 "(True, None)" s2] u
    by (simp add: s2_def s decideReveal_def key st Let_def)
  moreover have "rememberRound 60000 (True, None) demoResult s = pump 60000 (True, None) s2"
    by (simp add: rememberRound_def s st key s2_def Let_def)
  moreover have "openBoard 60000 demoResult x = x" for x by (simp add: openBoard_def st Let_def)
  ultimately have "demoEngine = startReveal 60000 (True, None) ''4'' demoResult (s2\<lparr>en_played := [''4''], en_busy := True\<rparr>)"
    by (simp only: demoEngine_def s_def[symmetric])
  note e = this
  show "\<exists>rv. en_reveal demoEngine = Some rv \<and> rv_key rv = ''4'' \<and> \<not> rv_boom rv" unfolding e startReveal_fields by simp
  show "en_busy demoEngine" unfolding e startReveal_fields by simp
qed


theorem feed_hold_is_fair_witness:
  "\<not> isRowVisible (Some ''4'') (revealHoldFor demoEngine (Some ''4'')) \<and>
    ((\<exists>d tile. (d, TLand ''4'' tile) \<in> set (en_timers demoEngine)) \<or> clears demoEngine \<noteq> [])"
  using feed_hold_is_fair[OF demoEngine_run, of "''4''"] demoEngine_reveals(1) by blast

end
