(* ===== verification/Web_Hooks.thy ===== *)
theory Web_Hooks
  imports Access
begin

text \<open>
  The browser's side of the API: the result of a request (\<open>web/src/api.ts\<close>: \<open>get\<close>, \<open>redeemAccess\<close>,
  \<open>applyReferral\<close>, \<open>requestFaucet\<close>), the invite gate (\<open>web/src/access.ts\<close>, \<open>web/src/referrals.ts\<close> for the
  second message, \<open>web/src/useAccessGate.ts\<close>) and the state poll (\<open>web/src/useStatePoll.ts\<close>).

  A hook is a state with one operation per callback; an effect of a render is part of the render. Times
  are whole milliseconds. Storage is assumed not to be blocked.
\<close>

section \<open>Requests\<close>

text \<open>What a fetch comes to: a response with its status and its parsed body (or the parser's complaint), a
  rejection with the text of the \<open>Error\<close> thrown, if it is one, or the timeout.\<close>

datatype fetched = Response int "string + json" | Rejected "string option" | TimedOut

definition TIMEOUT_MESSAGE :: string where "TIMEOUT_MESSAGE = ''Request timed out. Try again.''"

definition responseOk :: "int \<Rightarrow> bool" where "responseOk status = (200 \<le> status \<and> status \<le> 299)"

definition httpReason :: "int \<Rightarrow> string" where "httpReason status = ''HTTP '' @ showInt status"

definition rejectedReason :: "string option \<Rightarrow> string" where
  "rejectedReason e = (case e of Some m \<Rightarrow> m | None \<Rightarrow> ''indexer offline'')"

definition apiGet :: "fetched \<Rightarrow> string + json" where
  "apiGet f =
    (case f of
       TimedOut \<Rightarrow> Inl TIMEOUT_MESSAGE
     | Rejected e \<Rightarrow> Inl (rejectedReason e)
     | Response status body \<Rightarrow> if \<not> responseOk status then Inl (httpReason status) else body)"

record access_dto =
  ad_allowed :: bool
  ad_reason :: string

datatype redeem_result = Redeemed access_dto | RedeemFailed "int option" string

text \<open>A field that is missing or null takes the default; a body that did not parse has no fields.\<close>

definition bodyField :: "(string + json) \<Rightarrow> string \<Rightarrow> json option" where
  "bodyField body key =
    (case body of Inl _ \<Rightarrow> None
     | Inr j \<Rightarrow> (case jsonField j key of Some JNull \<Rightarrow> None | x \<Rightarrow> x))"

definition redeemAccessResult :: "fetched \<Rightarrow> redeem_result" where
  "redeemAccessResult f =
    (case f of
       TimedOut \<Rightarrow> RedeemFailed None TIMEOUT_MESSAGE
     | Rejected e \<Rightarrow> RedeemFailed None (rejectedReason e)
     | Response status body \<Rightarrow>
         if \<not> responseOk status
         then RedeemFailed (Some status)
           (case bodyField body ''message'' of Some (JString m) \<Rightarrow> m | _ \<Rightarrow> httpReason status)
         else Redeemed
           \<lparr>ad_allowed = (case bodyField body ''allowed'' of Some (JBool b) \<Rightarrow> b | _ \<Rightarrow> True),
            ad_reason = (case bodyField body ''reason'' of Some (JString r) \<Rightarrow> r | _ \<Rightarrow> [])\<rparr>)"

datatype faucet_result = FaucetGranted json | FaucetWait int | FaucetFailed string

definition requestFaucetResult :: "fetched \<Rightarrow> faucet_result" where
  "requestFaucetResult f =
    (case f of
       TimedOut \<Rightarrow> FaucetFailed TIMEOUT_MESSAGE
     | Rejected e \<Rightarrow> FaucetFailed (rejectedReason e)
     | Response status body \<Rightarrow>
         if status = 429
         then FaucetWait (case bodyField body ''retryAfterSeconds'' of Some (JNumber n) \<Rightarrow> n | _ \<Rightarrow> 3600)
         else if \<not> responseOk status then FaucetFailed (httpReason status)
         else (case body of Inl m \<Rightarrow> FaucetFailed m | Inr j \<Rightarrow> FaucetGranted j))"

section \<open>The gate's messages and decisions\<close>

definition wNormalizeInviteCode :: "string \<Rightarrow> string" where
  "wNormalizeInviteCode raw = map upperChar (trimText raw)"

definition wAccessMessage :: "string \<Rightarrow> string \<Rightarrow> string option \<Rightarrow> string" where
  "wAccessMessage wallet code referralCode =
    (case referralCode of
       Some (c # r) \<Rightarrow> ''HEXO access: '' @ wallet @ '' '' @ code @ '' ref:'' @ c # r
     | _ \<Rightarrow> ''HEXO access: '' @ wallet @ '' '' @ code)"

definition wApplyReferralMessage :: "string \<Rightarrow> string \<Rightarrow> string" where
  "wApplyReferralMessage wallet code = ''HEXO apply referral: '' @ wallet @ '' '' @ code"

text \<open>The JSON body \<open>redeemAccess\<close> posts, and \<open>applyReferral\<close>'s.\<close>

definition redeemRequest :: "string \<Rightarrow> string \<Rightarrow> string \<Rightarrow> string option \<Rightarrow> json" where
  "redeemRequest wallet code signature referralCode =
    JObject ([(''wallet'', JString wallet), (''code'', JString code), (''signature'', JString signature)] @
      (case referralCode of Some (c # r) \<Rightarrow> [(''referralCode'', JString (c # r))] | _ \<Rightarrow> []))"

definition applyReferralRequest :: "string \<Rightarrow> string \<Rightarrow> string \<Rightarrow> json" where
  "applyReferralRequest wallet code signature =
    JObject [(''wallet'', JString wallet), (''code'', JString code), (''signature'', JString signature)]"

datatype gate_status = GateLoading | GateHidden | GateConnect | GateChecking | GateRedeem | GateRetry

definition gateDecision :: "bool \<Rightarrow> bool \<Rightarrow> string option \<Rightarrow> access_dto option \<Rightarrow> string \<Rightarrow> bool \<Rightarrow> gate_status" where
  "gateDecision ready connected owner access remembered fetchFailed =
    (if \<not> ready then GateLoading
     else if \<not> connected then GateConnect
     else (case access of
             None \<Rightarrow> if fetchFailed then GateRetry
                     else if owner \<noteq> None \<and> owner = Some remembered then GateLoading else GateChecking
           | Some a \<Rightarrow> if ad_allowed a then GateHidden else GateRedeem))"

datatype pending_step = PsWait | PsRedeem | PsDrop

definition pendingStep :: "gate_status \<Rightarrow> access_dto option \<Rightarrow> pending_step" where
  "pendingStep status access =
    (if status = GateLoading \<or> status = GateConnect \<or> access = None then PsWait
     else if status = GateRedeem then PsRedeem else PsDrop)"

definition gLowerChar :: "char \<Rightarrow> char" where
  "gLowerChar c = (let v = of_char c :: nat in if 65 \<le> v \<and> v \<le> 90 then char_of (v + 32) else c)"

definition classifyRedeemError :: "int option \<Rightarrow> string \<Rightarrow> string" where
  "classifyRedeemError status reason =
    (if status = Some 400 then ''Signature refused. Try again.''
     else if status = Some 404 then ''Invite code not found.''
     else if status = Some 409 then
       (if strIncludes (map gLowerChar reason) ''no uses left'' then ''This invite code has no uses left.''
        else ''This wallet already redeemed an invite code.'')
     else if reason \<noteq> [] then reason else ''Could not reach the server. Try again.'')"

section \<open>The gate hook\<close>

definition RETRY_CONTROL_AFTER_MS :: int where "RETRY_CONTROL_AFTER_MS = 10000"
definition RETRY_BACKOFF_BASE_MS :: int where "RETRY_BACKOFF_BASE_MS = 1000"
definition RETRY_BACKOFF_MAX_MS :: int where "RETRY_BACKOFF_MAX_MS = 10000"

text \<open>The access check for one owner: since when, how many answers failed, and the retry timer's delay.\<close>

record access_check =
  ak_owner :: string
  ak_startedAt :: int
  ak_attempt :: nat
  ak_timer :: "int option"

record gate =
  gt_owner :: "string option"
  gt_access :: "access_dto option"
  gt_remembered :: string
  gt_storedOwner :: string
  gt_fetchFailed :: bool
  gt_check :: "access_check option"
  gt_pending :: bool

text \<open>A render with its effects, in the order they are declared: the first remembers the wallet, the second
  restarts the check when the owner changed, the third acts on a waiting submit. What is shown is decided
  before them. The answer says whether the third one started a redeem.\<close>

definition rememberEffect :: "string option \<Rightarrow> gate \<Rightarrow> gate" where
  "rememberEffect owner g =
    (case (owner, gt_access g) of
       (Some w, Some a) \<Rightarrow>
         if w = [] \<or> \<not> ad_allowed a \<or> w = gt_remembered g then g
         else g\<lparr>gt_storedOwner := w, gt_remembered := w\<rparr>
     | _ \<Rightarrow> g)"

definition checkEffect :: "string option \<Rightarrow> int \<Rightarrow> bool \<Rightarrow> gate \<Rightarrow> gate" where
  "checkEffect owner nowMs retried g =
    (if owner = gt_owner g \<and> \<not> retried then g
     else g\<lparr>gt_owner := owner, gt_access := None, gt_fetchFailed := False,
       gt_check := (case owner of None \<Rightarrow> None
         | Some w \<Rightarrow> if w = [] then None
                    else Some \<lparr>ak_owner = w, ak_startedAt = nowMs, ak_attempt = 0, ak_timer = None\<rparr>)\<rparr>)"

definition gateShown :: "bool \<Rightarrow> bool \<Rightarrow> string option \<Rightarrow> gate \<Rightarrow> gate_status" where
  "gateShown ready connected owner g =
    gateDecision ready connected owner (gt_access g) (gt_remembered g) (gt_fetchFailed g)"

definition gateRender :: "bool \<Rightarrow> bool \<Rightarrow> string option \<Rightarrow> int \<Rightarrow> gate \<Rightarrow> gate \<times> bool" where
  "gateRender ready connected owner nowMs g =
    (let status = gateShown ready connected owner g;
         g' = checkEffect owner nowMs False (rememberEffect owner g);
         step = pendingStep status (gt_access g)
     in if \<not> gt_pending g \<or> step = PsWait then (g', False)
        else (g'\<lparr>gt_pending := False\<rparr>, step = PsRedeem))"

definition backoffDelay :: "nat \<Rightarrow> int" where
  "backoffDelay attempt = min (RETRY_BACKOFF_BASE_MS * 2 ^ attempt) RETRY_BACKOFF_MAX_MS"

definition checkAnswered :: "int \<Rightarrow> string + access_dto \<Rightarrow> gate \<Rightarrow> gate" where
  "checkAnswered nowMs result g =
    (case gt_check g of
       None \<Rightarrow> g
     | Some k \<Rightarrow>
         (case result of
            Inr a \<Rightarrow> g\<lparr>gt_access := Some a, gt_fetchFailed := False\<rparr>
          | Inl _ \<Rightarrow>
              g\<lparr>gt_fetchFailed := (gt_fetchFailed g \<or> nowMs - ak_startedAt k \<ge> RETRY_CONTROL_AFTER_MS),
                gt_check := Some (k\<lparr>ak_attempt := ak_attempt k + 1, ak_timer := Some (backoffDelay (ak_attempt k + 1))\<rparr>)\<rparr>))"

definition gateRetry :: "int \<Rightarrow> gate \<Rightarrow> gate" where
  "gateRetry nowMs g = checkEffect (gt_owner g) nowMs True g"

definition gateSubmit :: "string \<Rightarrow> bool \<Rightarrow> gate \<Rightarrow> gate \<times> bool" where
  "gateSubmit code connected g =
    (if wNormalizeInviteCode code = [] then (g, False)
     else if connected then (g, True)
     else (g\<lparr>gt_pending := True\<rparr>, False))"

section \<open>The state poll\<close>

definition NORMAL_MS :: int where "NORMAL_MS = 2000"
definition BURST_MS :: int where "BURST_MS = 500"
definition BURST_WINDOW_MS :: int where "BURST_WINDOW_MS = 15000"

record state_dto =
  sd_player :: "(string \<times> string \<times> string \<times> string) option"
  sd_position :: json
  sd_round :: json
  sd_openRound :: json
  sd_jackpot :: "string option"
  sd_totalPrincipal :: string

text \<open>\<open>snapshot\<close> is compared only with itself, so the tuple of the printed fields stands for their text.\<close>

type_synonym snapshot = "(string \<times> string \<times> string \<times> string) option \<times> json \<times> json \<times> json \<times> string option \<times> string"

definition snapshot :: "state_dto \<Rightarrow> snapshot" where
  "snapshot d = (sd_player d, sd_position d, sd_round d, sd_openRound d, sd_jackpot d, sd_totalPrincipal d)"

text \<open>Timers carry a number and a delay; \<open>current\<close> is the one the closure's variable holds.\<close>

record poll =
  sp_data :: "state_dto option"
  sp_error :: "string option"
  sp_pending :: bool
  sp_still :: bool
  sp_burstUntil :: int
  sp_baseline :: "snapshot option"
  sp_tracked :: "string option"
  sp_timers :: "(nat \<times> int) list"
  sp_current :: "nat option"
  sp_nextTimer :: nat
  sp_inFlight :: nat
  sp_hidden :: bool

definition clearCurrent :: "poll \<Rightarrow> poll" where
  "clearCurrent p =
    (case sp_current p of
       None \<Rightarrow> p
     | Some i \<Rightarrow> p\<lparr>sp_timers := filter (\<lambda>(j, _). j \<noteq> i) (sp_timers p), sp_current := None\<rparr>)"

definition pollRun :: "poll \<Rightarrow> poll" where
  "pollRun p = (let q = clearCurrent p in if sp_hidden q then q else q\<lparr>sp_inFlight := sp_inFlight q + 1\<rparr>)"

definition scheduleNext :: "int \<Rightarrow> poll \<Rightarrow> poll" where
  "scheduleNext nowMs p =
    p\<lparr>sp_timers := sp_timers p @ [(sp_nextTimer p, if nowMs < sp_burstUntil p then BURST_MS else NORMAL_MS)],
      sp_current := Some (sp_nextTimer p), sp_nextTimer := sp_nextTimer p + 1\<rparr>"

definition pollKick :: "int \<Rightarrow> poll \<Rightarrow> poll" where
  "pollKick nowMs p =
    pollRun (p\<lparr>sp_burstUntil := nowMs + BURST_WINDOW_MS, sp_baseline := map_option snapshot (sp_data p),
      sp_pending := True, sp_still := False\<rparr>)"

definition openRoundId :: "state_dto \<Rightarrow> string option" where
  "openRoundId d = stringField (sd_openRound d) ''id''"

definition watchAnswer :: "int \<Rightarrow> state_dto \<Rightarrow> poll \<Rightarrow> poll" where
  "watchAnswer nowMs d p =
    (case sp_baseline p of
       None \<Rightarrow> p
     | Some b \<Rightarrow>
         if snapshot d \<noteq> b then p\<lparr>sp_baseline := None, sp_pending := False, sp_still := False\<rparr>
         else if nowMs \<ge> sp_burstUntil p then p\<lparr>sp_still := True\<rparr> else p)"

definition pollAnswer :: "int \<Rightarrow> string + state_dto \<Rightarrow> poll \<Rightarrow> poll" where
  "pollAnswer nowMs result p =
    (let q = p\<lparr>sp_inFlight := sp_inFlight p - 1\<rparr>
     in scheduleNext nowMs
          (case result of
             Inl reason \<Rightarrow> q\<lparr>sp_error := Some reason\<rparr>
           | Inr d \<Rightarrow> watchAnswer nowMs d (q\<lparr>sp_data := Some d, sp_error := None,
               sp_tracked := orElse (openRoundId d) (sp_tracked q)\<rparr>)))"

definition pollVisibility :: "bool \<Rightarrow> poll \<Rightarrow> poll" where
  "pollVisibility hidden p =
    (if hidden then p\<lparr>sp_hidden := True\<rparr> else pollRun (clearCurrent (p\<lparr>sp_hidden := False\<rparr>)))"

definition POLL_START :: "bool \<Rightarrow> poll" where
  "POLL_START hidden = \<lparr>sp_data = None, sp_error = None, sp_pending = False, sp_still = False, sp_burstUntil = 0,
    sp_baseline = None, sp_tracked = None, sp_timers = [], sp_current = None, sp_nextTimer = 0, sp_inFlight = 0,
    sp_hidden = hidden\<rparr>"

text \<open>Steps of the page's own, and the kick after a transaction.\<close>

inductive quiet_step :: "poll \<Rightarrow> poll \<Rightarrow> bool" where
  answer: "0 < sp_inFlight p \<Longrightarrow> quiet_step p (pollAnswer nowMs result p)"
| fires: "sp_timers p = before @ (i, delay) # after \<Longrightarrow> quiet_step p (pollRun (p\<lparr>sp_timers := before @ after\<rparr>))"
| visibility: "quiet_step p (pollVisibility hidden p)"

inductive poll_step :: "poll \<Rightarrow> poll \<Rightarrow> bool" where
  kick: "poll_step p (pollKick nowMs p)"
| quiet: "quiet_step p q \<Longrightarrow> poll_step p q"

inductive_cases quiet_stepE: "quiet_step p q"

inductive pollReach :: "poll \<Rightarrow> bool" where
  mounted: "pollReach (pollRun (POLL_START hidden))"
| step: "pollReach p \<Longrightarrow> poll_step p q \<Longrightarrow> pollReach q"

end
