(* ===== verification/Web_Hooks_Laws.thy ===== *)
theory Web_Hooks_Laws
  imports Web_Hooks Access_Laws
begin

text \<open>
  Laws of the browser's side of the API: what it signs and posts is what the backend checks, what the gate
  remembers of a wallet, and the life of the state poll.
\<close>

section \<open>Redeeming\<close>

lemma upperChar_space: "isSpace (upperChar c) = isSpace c"
proof -
  define v where "v = (of_char c :: nat)"
  have "v < 256" by (simp add: v_def)
  show ?thesis
  proof (cases "97 \<le> v \<and> v \<le> 122")
    case True
    then have n: "65 \<le> v - 32" "v - 32 \<le> 90" by linarith+
    then have "of_char (char_of (v - 32) :: char) = v - 32" by simp
    with n True show ?thesis by (simp add: upperChar_def isSpace_def Let_def v_def[symmetric])
  next
    case False
    then have "upperChar c = c" by (simp only: upperChar_def Let_def v_def[symmetric] if_False)
    then show ?thesis by simp
  qed
qed

lemma upperChar_idem: "upperChar (upperChar c) = upperChar c"
proof -
  define v where "v = (of_char c :: nat)"
  show ?thesis
  proof (cases "97 \<le> v \<and> v \<le> 122")
    case True
    then have n: "65 \<le> v - 32" "v - 32 \<le> 90" by linarith+
    then have "of_char (char_of (v - 32) :: char) = v - 32" by simp
    with n True show ?thesis by (simp add: upperChar_def Let_def v_def[symmetric])
  next
    case False
    then have "upperChar c = c" by (simp only: upperChar_def Let_def v_def[symmetric] if_False)
    then show ?thesis by simp
  qed
qed

lemma dropWhile_map_space: "dropWhile isSpace (map upperChar s) = map upperChar (dropWhile isSpace s)"
  by (induction s) (auto simp: upperChar_space)

lemma trimText_map: "trimText (map upperChar s) = map upperChar (trimText s)"
  by (simp add: trimText_def dropWhile_map_space rev_map)

lemma dropWhile_idem: "dropWhile P (dropWhile P s) = dropWhile P s"
  by (induction s) auto

lemma trimText_trimText: "trimText (trimText s) = trimText s"
proof -
  define t where "t = dropWhile isSpace s"
  define u where "u = rev (dropWhile isSpace (rev t))"
  have u: "trimText s = u" by (simp add: trimText_def t_def u_def)
  have "dropWhile isSpace u = u"
  proof (cases u)
    case (Cons c u')
    have "t = u @ rev (takeWhile isSpace (rev t))"
      by (metis rev_append rev_rev_ident takeWhile_dropWhile_id u_def)
    then have "t = c # (u' @ rev (takeWhile isSpace (rev t)))" using Cons by simp
    then have "hd t = c" "t \<noteq> []" by (metis list.sel(1), metis list.distinct(1))
    then have "\<not> isSpace c" using hd_dropWhile[of isSpace s] by (simp add: t_def)
    then show ?thesis using Cons by simp
  qed simp
  moreover have "dropWhile isSpace (rev u) = rev u" by (simp add: u_def dropWhile_idem)
  ultimately show ?thesis unfolding u by (simp add: trimText_def)
qed

lemma normalize_idem: "normalizeInviteCode (normalizeInviteCode s) = normalizeInviteCode s"
  by (simp add: normalizeInviteCode_def trimText_map trimText_trimText upperChar_idem)

lemma normalize_trimmed: "trimText (normalizeInviteCode s) = normalizeInviteCode s"
  by (simp add: normalizeInviteCode_def trimText_map trimText_trimText)

lemma wNormalize_eq: "wNormalizeInviteCode = normalizeInviteCode"
  by (rule ext) (simp add: wNormalizeInviteCode_def normalizeInviteCode_def)

lemma wMessages_eq: "wAccessMessage = accessMessage" "wApplyReferralMessage = applyReferralMessage"
  by (intro ext; auto simp: wAccessMessage_def accessMessage_def wApplyReferralMessage_def applyReferralMessage_def split: option.splits list.splits)+

text \<open>The browser's redeem is understood: for a wallet's own address, a typed code and a referral code as
  the page stores it, the body it posts parses to that wallet, the normalised code and that referral
  code, and a signature that verifies over the text the browser signed passes the backend's check.\<close>

theorem browser_redeem_is_understood:
  assumes "ae_parseKey env wallet = Some key" "ae_toBase58 env key = wallet" "wallet \<noteq> []"
    "wNormalizeInviteCode typed \<noteq> []" "referral = None \<or> referral = Some (wNormalizeInviteCode stored) \<and> wNormalizeInviteCode stored \<noteq> []"
    "ae_decode58 env signature = Some bytes" "length bytes = 64" "ae_importKey env key"
    "ae_verifyEd25519 env (wAccessMessage wallet (wNormalizeInviteCode typed) referral) key bytes = Some True"
    "signature \<noteq> []"
  shows "\<exists>b. parseRedeemBody env (redeemRequest wallet (wNormalizeInviteCode typed) signature referral) = Inr b \<and>
    bo_wallet b = key \<and> bo_code b = wNormalizeInviteCode typed \<and> bo_referralCode b = referral \<and>
    verifyAccessSignature env (bo_wallet b) (bo_code b) (bo_signature b) (bo_referralCode b)"
proof -
  let ?code = "normalizeInviteCode typed" and ?body = "redeemRequest wallet (wNormalizeInviteCode typed) signature referral"
  have ref: "referral = None \<or> (\<exists>c r. referral = Some (c # r) \<and> normalizeInviteCode (c # r) = c # r \<and> trimText (c # r) = c # r)"
  proof (cases referral)
    case (Some r)
    then have "r = normalizeInviteCode stored" "r \<noteq> []" using assms(5) by (auto simp: wNormalize_eq)
    moreover obtain c r' where "r = c # r'" using calculation(2) by (cases r) auto
    ultimately have "normalizeInviteCode (c # r') = c # r'" "trimText (c # r') = c # r'"
      using normalize_idem[of stored] normalize_trimmed[of stored] by simp_all
    then show ?thesis using Some \<open>r = c # r'\<close> by blast
  qed simp
  have wallet: "parseWalletField env ?body = Inr key" if "stringField ?body ''wallet'' = Some wallet"
    using that assms(1,3) by (simp add: parseWalletField_def parseWallet_def)
  have fields: "stringField ?body ''wallet'' = Some wallet" "stringField ?body ''code'' = Some ?code"
      "stringField ?body ''signature'' = Some signature"
      "jsonField ?body ''referralCode'' = map_option JString referral"
    using ref by (auto simp: redeemRequest_def stringField_def jsonField_def wNormalize_eq)
  have code: "trimText ?code \<noteq> []" "normalizeInviteCode ?code = ?code"
    using assms(4) by (simp_all add: normalize_trimmed normalize_idem wNormalize_eq)
  have "parseCodeField m ?body = Inr ?code" for m using fields(2) code by (simp add: parseCodeField_def)
  moreover have "parseSignature env ?body = Inr bytes" using fields(3) assms(6,7,10) by (simp add: parseSignature_def)
  ultimately have "parseRedeemBody env ?body = Inr \<lparr>bo_wallet = key, bo_code = ?code, bo_signature = bytes, bo_referralCode = referral\<rparr>"
    using wallet[OF fields(1)] fields(4) ref by (auto simp: parseRedeemBody_def)
  then show ?thesis using assms(2,8,9) by (simp add: verifyAccessSignature_def verifySignedMessage_def wMessages_eq wNormalize_eq)
qed

definition demoAccessEnv :: access_env where
  "demoAccessEnv = \<lparr>ae_parseKey = (\<lambda>_. Some [9]), ae_toBase58 = (\<lambda>_. ''W''), ae_decode58 = (\<lambda>_. Some (replicate 64 0)),
    ae_importKey = (\<lambda>_. True), ae_verifyEd25519 = (\<lambda>m _ _. Some (m = ''HEXO access: W AB2 ref:CD'')), ae_sha256 = (\<lambda>_. []),
    ae_poolAddress = ''P'', ae_inviteAdminKey = None, ae_circulationCap = 5, ae_redeemGrantCount = 2\<rparr>"

theorem browser_redeem_is_understood_witness:
  "\<exists>b. parseRedeemBody demoAccessEnv (redeemRequest ''W'' (wNormalizeInviteCode '' ab2'') ''sig'' (Some ''CD'')) = Inr b \<and>
    bo_code b = wNormalizeInviteCode '' ab2'' \<and>
    verifyAccessSignature demoAccessEnv (bo_wallet b) (bo_code b) (bo_signature b) (bo_referralCode b)"
proof -
  have code: "wNormalizeInviteCode '' ab2'' = ''AB2''" "wNormalizeInviteCode ''cd'' = ''CD''" by code_simp+
  have "ae_parseKey demoAccessEnv ''W'' = Some [9]" "ae_toBase58 demoAccessEnv [9] = ''W''" "''W'' \<noteq> []"
    "wNormalizeInviteCode '' ab2'' \<noteq> []" "Some ''CD'' = None \<or> Some ''CD'' = Some (wNormalizeInviteCode ''cd'') \<and> wNormalizeInviteCode ''cd'' \<noteq> []"
    "ae_decode58 demoAccessEnv ''sig'' = Some (replicate 64 0)" "length (replicate 64 (0::byte)) = 64" "ae_importKey demoAccessEnv [9]"
    "ae_verifyEd25519 demoAccessEnv (wAccessMessage ''W'' (wNormalizeInviteCode '' ab2'') (Some ''CD'')) [9] (replicate 64 0) = Some True"
    "''sig'' \<noteq> []"
    by (simp_all add: demoAccessEnv_def code wAccessMessage_def)
  from browser_redeem_is_understood[OF this] show ?thesis by blast
qed

section \<open>The gate\<close>

text \<open>The gate's life: renders, answers to the running check, retries and submits.\<close>

inductive gateReach :: "gate \<Rightarrow> bool" where
  opened: "gateReach \<lparr>gt_owner = None, gt_access = None, gt_remembered = m, gt_storedOwner = m, gt_fetchFailed = False,
    gt_check = None, gt_pending = p\<rparr>"
| render: "gateReach g \<Longrightarrow> gateReach (fst (gateRender ready connected owner nowMs g))"
| answer: "gateReach g \<Longrightarrow> gateReach (checkAnswered nowMs result g)"
| retry: "gateReach g \<Longrightarrow> gateReach (gateRetry nowMs g)"
| submit: "gateReach g \<Longrightarrow> gateReach (fst (gateSubmit code connected g))"

definition gateOk :: "gate \<Rightarrow> bool" where
  "gateOk g =
    ((\<forall>k. gt_check g = Some k \<longrightarrow> gt_owner g = Some (ak_owner k) \<and> ak_owner k \<noteq> [] \<and>
        (\<forall>d. ak_timer k = Some d \<longrightarrow> 2000 \<le> d \<and> d \<le> 10000)) \<and>
     (gt_access g \<noteq> None \<longrightarrow> gt_check g \<noteq> None) \<and>
     (\<forall>w. gt_owner g = Some w \<and> w \<noteq> [] \<longrightarrow> gt_check g \<noteq> None))"

lemma backoff_bounds: "0 < n \<Longrightarrow> 2000 \<le> backoffDelay n \<and> backoffDelay n \<le> 10000"
proof -
  assume "0 < n"
  then have "(2::int) ^ 1 \<le> 2 ^ n" by (intro power_increasing) auto
  then show ?thesis by (simp add: backoffDelay_def RETRY_BACKOFF_BASE_MS_def RETRY_BACKOFF_MAX_MS_def)
qed

lemma rememberEffect_ok: "gateOk g \<Longrightarrow> gateOk (rememberEffect owner g)"
  by (auto simp: rememberEffect_def gateOk_def split: option.splits)

lemma checkEffect_ok: "gateOk g \<Longrightarrow> gateOk (checkEffect owner nowMs r g)"
  by (auto simp: checkEffect_def gateOk_def split: option.splits)

lemma gateReach_ok: "gateReach g \<Longrightarrow> gateOk g"
proof (induction rule: gateReach.induct)
  case (render g ready connected owner nowMs)
  then have "gateOk (checkEffect owner nowMs False (rememberEffect owner g))" by (intro checkEffect_ok rememberEffect_ok)
  then show ?case by (auto simp: gateRender_def Let_def gateOk_def)
next
  case (answer g nowMs result)
  then show ?case using backoff_bounds by (auto simp: checkAnswered_def gateOk_def split: option.splits sum.splits)
next
  case (retry g nowMs)
  then show ?case by (simp add: gateRetry_def checkEffect_ok)
next
  case (submit g code connected)
  then show ?case by (auto simp: gateSubmit_def gateOk_def)
qed (simp add: gateOk_def)

text \<open>The gate keeps asking, and opens on an answer only: while a wallet is connected its check is running,
  a failed answer is retried after two to ten seconds, the retry control shows no sooner than ten
  seconds in, and what is held of access is the running check's, the current wallet's own.\<close>

theorem gate_keeps_asking:
  assumes "gateReach g" "gt_owner g = Some w" "w \<noteq> []"
  shows "\<exists>k. gt_check g = Some k \<and> ak_owner k = w \<and>
    (\<forall>nowMs e. let g' = checkAnswered nowMs (Inl e) g in
       (\<exists>k' d. gt_check g' = Some k' \<and> ak_owner k' = w \<and> ak_timer k' = Some d \<and> 2000 \<le> d \<and> d \<le> 10000) \<and>
       (gt_fetchFailed g' \<and> \<not> gt_fetchFailed g \<longrightarrow> nowMs - ak_startedAt k \<ge> 10000)) \<and>
    (gateShown ready True (Some w) g = GateHidden \<longrightarrow> (\<exists>a. gt_access g = Some a \<and> ad_allowed a))"
proof -
  have ok: "gateOk g" by (rule gateReach_ok[OF assms(1)])
  then obtain k where k: "gt_check g = Some k" using assms(2,3) by (auto simp: gateOk_def)
  then have "ak_owner k = w" using ok assms(2) by (auto simp: gateOk_def)
  moreover have "gateShown ready True (Some w) g = GateHidden \<longrightarrow> (\<exists>a. gt_access g = Some a \<and> ad_allowed a)"
    by (auto simp: gateShown_def gateDecision_def split: option.splits if_splits)
  ultimately show ?thesis
    using k backoff_bounds[of "ak_attempt k + 1"]
    by (intro exI[of _ k]) (auto simp: checkAnswered_def RETRY_CONTROL_AFTER_MS_def Let_def)
qed

definition demoGate :: gate where
  "demoGate = fst (gateRender True True (Some ''A'') 0
    \<lparr>gt_owner = None, gt_access = None, gt_remembered = [], gt_storedOwner = [], gt_fetchFailed = False, gt_check = None, gt_pending = False\<rparr>)"

lemma demoGate_reach: "gateReach demoGate" "gt_owner demoGate = Some ''A''"
  unfolding demoGate_def
  by (rule gateReach.render, rule gateReach.opened)
    (simp add: gateRender_def gateShown_def gateDecision_def pendingStep_def rememberEffect_def checkEffect_def Let_def)

theorem gate_keeps_asking_witness: "\<exists>k. gt_check demoGate = Some k \<and> ak_owner k = ''A''"
  using gate_keeps_asking[OF demoGate_reach, of True] by auto

text \<open>A switched wallet is remembered unchecked: when a wallet that passed the gate is replaced by another,
  the render that first sees the new one still shows the app, and its effects store the new wallet as
  one that passed, before any answer about it exists.\<close>

theorem switched_wallet_is_remembered:
  assumes "gt_access g = Some a" "ad_allowed a" "gt_owner g = Some old" "new \<noteq> old" "new \<noteq> []"
  shows "gateShown True True (Some new) g = GateHidden \<and>
    gt_storedOwner (fst (gateRender True True (Some new) nowMs g)) = (if new = gt_remembered g then gt_storedOwner g else new) \<and>
    gt_remembered (fst (gateRender True True (Some new) nowMs g)) = new \<and>
    gt_access (fst (gateRender True True (Some new) nowMs g)) = None"
  using assms by (auto simp: gateShown_def gateDecision_def gateRender_def rememberEffect_def checkEffect_def Let_def)

theorem switched_wallet_is_remembered_witness:
  "gt_remembered (fst (gateRender True True (Some ''B'') 5 (demoGate\<lparr>gt_access := Some \<lparr>ad_allowed = True, ad_reason = []\<rparr>\<rparr>))) = ''B''"
proof -
  have "gt_owner (demoGate\<lparr>gt_access := Some \<lparr>ad_allowed = True, ad_reason = []\<rparr>\<rparr>) = Some ''A''"
    using demoGate_reach(2) by simp
  with switched_wallet_is_remembered[of "demoGate\<lparr>gt_access := Some \<lparr>ad_allowed = True, ad_reason = []\<rparr>\<rparr>"
      "\<lparr>ad_allowed = True, ad_reason = []\<rparr>" "''A''" "''B''" 5] show ?thesis by simp
qed

section \<open>The state poll\<close>

definition pollOk :: "poll \<Rightarrow> bool" where
  "pollOk p =
    ((\<not> sp_hidden p \<longrightarrow> 0 < sp_inFlight p \<or> sp_timers p \<noteq> []) \<and>
     (\<forall>(i, d) \<in> set (sp_timers p). d = NORMAL_MS \<or> d = BURST_MS))"

lemma clearCurrent_delays: "set (sp_timers (clearCurrent p)) \<subseteq> set (sp_timers p)" "sp_hidden (clearCurrent p) = sp_hidden p"
  by (auto simp: clearCurrent_def split: option.splits)

lemma pollRun_ok: "(\<forall>(i, d) \<in> set (sp_timers p). d = NORMAL_MS \<or> d = BURST_MS) \<Longrightarrow> pollOk (pollRun p)"
  using clearCurrent_delays[of p] by (auto simp: pollRun_def pollOk_def Let_def)

lemma watchAnswer_fields [simp]:
  "sp_timers (watchAnswer nowMs d p) = sp_timers p" "sp_hidden (watchAnswer nowMs d p) = sp_hidden p"
  by (simp_all add: watchAnswer_def split: option.split)

lemma pollAnswer_ok: "pollOk p \<Longrightarrow> pollOk (pollAnswer nowMs result p)"
  by (auto simp: pollAnswer_def scheduleNext_def pollOk_def Let_def split: sum.splits)

lemma pollReach_ok: "pollReach p \<Longrightarrow> pollOk p"
proof (induction rule: pollReach.induct)
  case (mounted hidden)
  show ?case by (rule pollRun_ok) (simp add: POLL_START_def)
next
  case (step p q)
  from step.hyps(2) show ?case
  proof (cases rule: poll_step.cases)
    case (kick nowMs)
    then show ?thesis using step.IH by (auto simp: pollKick_def pollOk_def intro!: pollRun_ok[unfolded pollOk_def])
  next
    case quiet
    then show ?thesis
    proof (cases rule: quiet_step.cases)
      case (answer nowMs result)
      then show ?thesis using step.IH pollAnswer_ok by simp
    next
      case (fires before i delay after)
      then show ?thesis using step.IH by (auto simp: pollOk_def intro!: pollRun_ok[unfolded pollOk_def])
    next
      case (visibility hidden)
      have "pollOk (pollRun (clearCurrent (p\<lparr>sp_hidden := False\<rparr>)))"
        using step.IH clearCurrent_delays[of "p\<lparr>sp_hidden := False\<rparr>"] by (intro pollRun_ok) (auto simp: pollOk_def)
      then show ?thesis using visibility step.IH by (auto simp: pollVisibility_def pollOk_def)
    qed
  qed
qed

text \<open>The poll never stops: in every run, a visible page has a request under way or a timer set, of two
  seconds or half a second, and any answer, good or bad, leaves one set.\<close>

theorem poll_never_stops:
  assumes "pollReach p"
  shows "(\<not> sp_hidden p \<longrightarrow> 0 < sp_inFlight p \<or> sp_timers p \<noteq> []) \<and>
    (\<forall>(i, d) \<in> set (sp_timers p). d = 2000 \<or> d = 500) \<and>
    (\<forall>nowMs result. sp_timers (pollAnswer nowMs result p) \<noteq> [])"
proof -
  have "pollOk p" by (rule pollReach_ok[OF assms])
  then show ?thesis by (auto simp: pollOk_def NORMAL_MS_def BURST_MS_def pollAnswer_def scheduleNext_def Let_def)
qed

theorem poll_never_stops_witness: "0 < sp_inFlight (pollRun (POLL_START False)) \<or> sp_timers (pollRun (POLL_START False)) \<noteq> []"
proof -
  have "\<not> sp_hidden (pollRun (POLL_START False))" by (simp add: pollRun_def clearCurrent_def POLL_START_def)
  then show ?thesis using poll_never_stops[OF pollReach.mounted[of False]] by blast
qed

text \<open>A kick before the first answer pends for good: it watches nothing, so whatever is answered, however
  long it takes, the page stays pending until another kick.\<close>

theorem early_kick_pends:
  assumes "sp_data p = None" "quiet_step\<^sup>*\<^sup>* (pollKick nowMs p) q"
  shows "sp_pending q"
proof -
  have fields: "sp_pending (pollRun x) = sp_pending x" "sp_baseline (pollRun x) = sp_baseline x"
      "sp_pending (clearCurrent x) = sp_pending x" "sp_baseline (clearCurrent x) = sp_baseline x" for x
    by (simp_all add: pollRun_def clearCurrent_def Let_def split: option.split)
  have "sp_pending q \<and> sp_baseline q = None"
    using assms(2)
  proof (induction rule: rtranclp_induct)
    case base
    show ?case using assms(1) by (simp add: pollKick_def fields)
  next
    case (step y z)
    from step.hyps(2) step.IH show ?case
      by (cases rule: quiet_stepE)
        (auto simp: pollAnswer_def scheduleNext_def watchAnswer_def pollVisibility_def fields Let_def split: sum.splits)
  qed
  then show ?thesis by blast
qed

theorem early_kick_pends_witness: "sp_pending (pollAnswer 99000 (Inr \<lparr>sd_player = None, sd_position = JNull, sd_round = JNull,
    sd_openRound = JNull, sd_jackpot = None, sd_totalPrincipal = []\<rparr>) (pollKick 0 (POLL_START False)))"
proof -
  have "sp_data (POLL_START False) = None" by (simp add: POLL_START_def)
  moreover have "0 < sp_inFlight (pollKick 0 (POLL_START False))"
    by (simp add: pollKick_def pollRun_def clearCurrent_def POLL_START_def)
  ultimately show ?thesis by (intro early_kick_pends) (auto intro: quiet_step.answer)
qed

end
