(* ===== verification/Config.thy ===== *)
theory Config
  imports Access Referral Js_Number
begin

text \<open>
  Command lines and the environment: Node's \<open>util.parseArgs\<close> as the scripts call it, the Pool parameters
  \<open>bootstrap\<close> passes to \<open>create_pool\<close> (\<open>bootstrap/params.ts\<close>) and the validation of the backend's
  environment (\<open>config/env.ts\<close>).

  The decoding of a base58 key and \<open>Date.parse\<close>, whose rules for free-form text every engine sets for
  itself, are parameters: \<open>pk\<close> and \<open>dateParse\<close> (milliseconds, \<open>None\<close> for no date). The process environment
  is a map from names to texts.
\<close>

section \<open>Argument lists\<close>

text \<open>\<open>parseArgs\<close> in strict mode, without positionals and without short options: \<open>None\<close> is a throw. The
  last of two equal flags wins.\<close>

datatype opt_type = StringOpt | BooleanOpt
datatype opt_value = TextValue string | FlagSet

type_synonym opt_values = "string \<rightharpoonup> opt_value"

definition optionLike :: "string \<Rightarrow> bool" where
  "optionLike v = (1 < length v \<and> prefix ''-'' v)"

definition isLongOption :: "string \<Rightarrow> bool" where
  "isLongOption a = (2 < length a \<and> prefix ''--'' a)"

definition hasInlineValue :: "string \<Rightarrow> bool" where
  "hasInlineValue a = (CHR ''='' \<in> set (drop 3 a))"

definition optionName :: "string \<Rightarrow> string" where
  "optionName a = (if hasInlineValue a then takeWhile (\<lambda>c. c \<noteq> CHR ''='') (drop 2 a) else drop 2 a)"

definition inlineValue :: "string \<Rightarrow> string" where
  "inlineValue a = drop 1 (dropWhile (\<lambda>c. c \<noteq> CHR ''='') (drop 2 a))"

fun parseArgs :: "(string \<rightharpoonup> opt_type) \<Rightarrow> string list \<Rightarrow> opt_values \<Rightarrow> opt_values option" where
  "parseArgs opts [] vs = Some vs"
| "parseArgs opts (a # rest) vs =
    (if a = ''--'' then (if rest = [] then Some vs else None)
     else if \<not> isLongOption a then None
     else (case opts (optionName a) of
             None \<Rightarrow> None
           | Some StringOpt \<Rightarrow>
               if hasInlineValue a then parseArgs opts rest (vs(optionName a \<mapsto> TextValue (inlineValue a)))
               else (case rest of
                       [] \<Rightarrow> None
                     | v # rest' \<Rightarrow>
                         if optionLike v then None else parseArgs opts rest' (vs(optionName a \<mapsto> TextValue v)))
           | Some BooleanOpt \<Rightarrow>
               if hasInlineValue a then None else parseArgs opts rest (vs(optionName a \<mapsto> FlagSet))))"

definition stringOptions :: "string list \<Rightarrow> string \<Rightarrow> opt_type option" where
  "stringOptions names = map_of (map (\<lambda>n. (n, StringOpt)) names)"

text \<open>\<open>...(values[flag] !== undefined && { key: parse(flag, values[flag]) })\<close>.\<close>

definition withFlag :: "opt_values \<Rightarrow> string \<Rightarrow> (string \<Rightarrow> string \<Rightarrow> 'v res) \<Rightarrow> ('v \<Rightarrow> 'p \<Rightarrow> 'p) \<Rightarrow> 'p \<Rightarrow> 'p res" where
  "withFlag vs flag parse put p =
    (case vs flag of Some (TextValue raw) \<Rightarrow> rbind (parse flag raw) (\<lambda>v. Inr (put v p)) | _ \<Rightarrow> Inr p)"

section \<open>Values\<close>

definition got :: "string \<Rightarrow> string" where
  "got raw = '', got '' @ [CHR 34] @ raw @ [CHR 34]"

definition safeIn :: "string \<Rightarrow> int \<Rightarrow> int option" where
  "safeIn raw lo = (case safeInteger (numberOf raw) of Some v \<Rightarrow> if v < lo then None else Some v | None \<Rightarrow> None)"

definition nextSundayAnchor :: "int \<Rightarrow> int" where
  "nextSundayAnchor nowMs =
    (let DAY = 86400000;
         today = nowMs div DAY * DAY + 16 * 3600000;
         weekday = (today div DAY + 4) mod 7;
         sunday = today + (7 - weekday) mod 7 * DAY;
         anchor = (if sunday < nowMs then sunday + 7 * DAY else sunday)
     in anchor div 1000)"

definition envInt :: "string \<Rightarrow> string option \<Rightarrow> int \<Rightarrow> int res" where
  "envInt label raw fallback =
    (case raw of None \<Rightarrow> Inr fallback
     | Some r \<Rightarrow> if trimText r = [] then Inr fallback
         else (case safeIn r 0 of Some v \<Rightarrow> Inr v
               | None \<Rightarrow> Inl (label @ '' must be a non-negative whole number'' @ got r)))"

section \<open>Pool parameters\<close>

record pool_params =
  pp_admin :: "pubkey option"
  pp_operator :: "pubkey option"
  pp_treasury :: "pubkey option"
  pp_buybackReserve :: "pubkey option"
  pp_epochSeconds :: int
  pp_epochAnchor :: int
  pp_roundSeconds :: int
  pp_closeBuffer :: int
  pp_vrfTimeout :: int
  pp_minDeposit :: int
  pp_houseCutBps :: int
  pp_minJackpot :: int
  pp_registrationWindow :: int
  pp_payoutTimeout :: int
  pp_baseRateBps :: int
  pp_ticketsPerUsdc :: int
  pp_bonusCapBps :: int
  pp_start :: bool

text \<open>\<open>DEFAULT_POOL_PARAMS\<close>, computed when the module loads.\<close>

definition defaultPoolParams :: "int \<Rightarrow> (string \<rightharpoonup> string) \<Rightarrow> pool_params res" where
  "defaultPoolParams nowMs env =
    rbind (envInt ''BASE_RATE_BPS'' (env ''BASE_RATE_BPS'') 488) (\<lambda>rate.
    rbind (envInt ''TICKETS_PER_USDC'' (env ''TICKETS_PER_USDC'') 10) (\<lambda>tickets.
    rbind (envInt ''BONUS_CAP_BPS'' (env ''BONUS_CAP_BPS'') 500) (\<lambda>cap.
      Inr \<lparr>pp_admin = None, pp_operator = None, pp_treasury = None, pp_buybackReserve = None,
        pp_epochSeconds = 86400, pp_epochAnchor = nextSundayAnchor nowMs, pp_roundSeconds = 90, pp_closeBuffer = 5,
        pp_vrfTimeout = 120, pp_minDeposit = 1000000, pp_houseCutBps = 600, pp_minJackpot = 1000000,
        pp_registrationWindow = 600, pp_payoutTimeout = 82800, pp_baseRateBps = rate,
        pp_ticketsPerUsdc = tickets, pp_bonusCapBps = cap, pp_start = False\<rparr>)))"

definition BOOTSTRAP_USAGE :: string where
  "BOOTSTRAP_USAGE = ''usage: bootstrap [--epoch-seconds N] [--round-seconds N] [--epoch-anchor ISO8601] [--house-cut-bps N] [--min-jackpot USDC] [--registration-window N] [--payout-timeout N] [--admin PUBKEY] [--operator PUBKEY] [--treasury PUBKEY] [--buyback-reserve PUBKEY] [--start]''"

definition MAINNET_GENESIS_HASH :: string where
  "MAINNET_GENESIS_HASH = ''5eykt4UsFv8P8NJdTREpY1vzqKqZKvdpKuc147dw2N9d''"

record mainnet_guard_input =
  mg_genesisHash :: string
  mg_admin :: "pubkey option"
  mg_operator :: pubkey
  mg_treasury :: "pubkey option"
  mg_buybackReserve :: "pubkey option"
  mg_acceptedMint :: "string option"

definition assertMainnetSafe :: "mainnet_guard_input \<Rightarrow> unit res" where
  "assertMainnetSafe i =
    (if mg_genesisHash i \<noteq> MAINNET_GENESIS_HASH then Inr ()
     else let missing = (if mg_admin i = None then [''--admin''] else [])
                @ (if mg_treasury i = None then [''--treasury''] else [])
                @ (if mg_buybackReserve i = None then [''--buyback-reserve''] else [])
                @ (if mg_acceptedMint i \<in> {None, Some []} then [''ACCEPTED_MINT''] else [])
          in if missing \<noteq> [] then
               Inl (''mainnet requires '' @ joinWith '', '' missing @ ''; refusing to bootstrap with a hot-key default'')
             else if mg_admin i = Some (mg_operator i) then
               Inl ''mainnet refuses an Admin equal to the Operator key''
             else Inr ())"

definition USDC_SCALE :: int where "USDC_SCALE = 1000000"

text \<open>\<open>/^\d+$/\<close>, and \<open>BigInt\<close> of such a text.\<close>

definition digitText :: "string \<Rightarrow> int option" where
  "digitText raw = (if raw \<noteq> [] \<and> list_all isDigit raw then map_option int (readDigits 0 raw) else None)"

definition flagMust :: "string \<Rightarrow> string \<Rightarrow> string \<Rightarrow> string" where
  "flagMust flag what raw = ''--'' @ flag @ '' must be '' @ what @ got raw"

definition wholeUsdc :: "string \<Rightarrow> string \<Rightarrow> int res" where
  "wholeUsdc flag raw =
    (case digitText raw of None \<Rightarrow> Inl (flagMust flag ''a whole number of USDC'' raw) | Some n \<Rightarrow> Inr (n * USDC_SCALE))"

definition pubkeyFlag :: "(string \<Rightarrow> pubkey option) \<Rightarrow> string \<Rightarrow> string \<Rightarrow> pubkey res" where
  "pubkeyFlag pk flag raw =
    (case pk raw of None \<Rightarrow> Inl (flagMust flag ''a base58 pubkey'' raw) | Some k \<Rightarrow> Inr k)"

definition secondsFlag :: "int \<Rightarrow> string \<Rightarrow> string \<Rightarrow> int res" where
  "secondsFlag lo flag raw =
    (case safeIn raw lo of Some v \<Rightarrow> Inr v
     | None \<Rightarrow> Inl (flagMust flag (''a '' @ (if lo = 0 then ''non-negative'' else ''positive'') @ '' whole number of seconds'') raw))"

definition houseCutBps :: "string \<Rightarrow> string \<Rightarrow> int res" where
  "houseCutBps flag raw =
    (case safeIn raw 0 of
       Some v \<Rightarrow> if v > 10000 then Inl (flagMust flag ''a whole number from 0 to 10000'' raw) else Inr v
     | None \<Rightarrow> Inl (flagMust flag ''a whole number from 0 to 10000'' raw))"

definition isoSeconds :: "(string \<Rightarrow> int option) \<Rightarrow> string \<Rightarrow> string \<Rightarrow> int res" where
  "isoSeconds dateParse flag raw =
    (case dateParse raw of
       Some ms \<Rightarrow> if ms \<le> 0 then Inl (flagMust flag ''an ISO 8601 timestamp after 1970'' raw) else Inr (ms div 1000)
     | None \<Rightarrow> Inl (flagMust flag ''an ISO 8601 timestamp after 1970'' raw))"

definition BOOTSTRAP_OPTIONS :: "string \<Rightarrow> opt_type option" where
  "BOOTSTRAP_OPTIONS =
    (stringOptions [''epoch-seconds'', ''round-seconds'', ''epoch-anchor'', ''house-cut-bps'', ''min-jackpot'',
      ''registration-window'', ''payout-timeout'', ''admin'', ''operator'', ''treasury'', ''buyback-reserve''])
      (''start'' \<mapsto> BooleanOpt)"

definition poolParamFlags ::
    "(string \<Rightarrow> pubkey option) \<Rightarrow> (string \<Rightarrow> int option) \<Rightarrow> opt_values \<Rightarrow> pool_params \<Rightarrow> pool_params res" where
  "poolParamFlags pk dateParse vs p0 =
    rbind (withFlag vs ''epoch-seconds'' (secondsFlag 1) (\<lambda>v. pp_epochSeconds_update (\<lambda>_. v)) p0) (\<lambda>p1.
    rbind (withFlag vs ''round-seconds'' (secondsFlag 1) (\<lambda>v. pp_roundSeconds_update (\<lambda>_. v)) p1) (\<lambda>p2.
    rbind (withFlag vs ''epoch-anchor'' (isoSeconds dateParse) (\<lambda>v. pp_epochAnchor_update (\<lambda>_. v)) p2) (\<lambda>p3.
    rbind (withFlag vs ''house-cut-bps'' houseCutBps (\<lambda>v. pp_houseCutBps_update (\<lambda>_. v)) p3) (\<lambda>p4.
    rbind (withFlag vs ''min-jackpot'' wholeUsdc (\<lambda>v. pp_minJackpot_update (\<lambda>_. v)) p4) (\<lambda>p5.
    rbind (withFlag vs ''registration-window'' (secondsFlag 0) (\<lambda>v. pp_registrationWindow_update (\<lambda>_. v)) p5) (\<lambda>p6.
    rbind (withFlag vs ''payout-timeout'' (secondsFlag 1) (\<lambda>v. pp_payoutTimeout_update (\<lambda>_. v)) p6) (\<lambda>p7.
    rbind (withFlag vs ''admin'' (pubkeyFlag pk) (\<lambda>v. pp_admin_update (\<lambda>_. Some v)) p7) (\<lambda>p8.
    rbind (withFlag vs ''operator'' (pubkeyFlag pk) (\<lambda>v. pp_operator_update (\<lambda>_. Some v)) p8) (\<lambda>p9.
    rbind (withFlag vs ''treasury'' (pubkeyFlag pk) (\<lambda>v. pp_treasury_update (\<lambda>_. Some v)) p9) (\<lambda>p10.
    rbind (withFlag vs ''buyback-reserve'' (pubkeyFlag pk) (\<lambda>v. pp_buybackReserve_update (\<lambda>_. Some v)) p10) (\<lambda>p11.
      Inr (if vs ''start'' = Some FlagSet then p11\<lparr>pp_start := True\<rparr> else p11))))))))))))"

definition checkPoolParams :: "pool_params \<Rightarrow> pool_params res" where
  "checkPoolParams p =
    (if pp_closeBuffer p \<ge> pp_roundSeconds p then
       Inl (''--round-seconds must be greater than the '' @ showInt (pp_closeBuffer p) @ ''s close buffer'')
     else if pp_treasury p \<noteq> None \<and> pp_treasury p = pp_buybackReserve p then
       Inl ''--treasury and --buyback-reserve must differ''
     else if pp_registrationWindow p \<ge> pp_epochSeconds p then
       Inl (''--epoch-seconds must be greater than the '' @ showInt (pp_registrationWindow p) @ ''s registration window'')
     else if pp_payoutTimeout p \<ge> pp_epochSeconds p then
       Inl (''--epoch-seconds must be greater than the '' @ showInt (pp_payoutTimeout p) @ ''s payout timeout'')
     else Inr p)"

definition parsePoolParams ::
    "(string \<Rightarrow> pubkey option) \<Rightarrow> (string \<Rightarrow> int option) \<Rightarrow> pool_params \<Rightarrow> string list \<Rightarrow> pool_params res" where
  "parsePoolParams pk dateParse defaults argv =
    (case parseArgs BOOTSTRAP_OPTIONS argv Map.empty of
       None \<Rightarrow> Inl BOOTSTRAP_USAGE
     | Some vs \<Rightarrow> rbind (poolParamFlags pk dateParse vs defaults) checkPoolParams)"

section \<open>The environment\<close>

definition REQUIRED_KEYS :: "string list" where
  "REQUIRED_KEYS = [''DATABASE_URL'', ''RPC_URL'', ''OPERATOR_KEYPAIR'', ''ACCEPTED_MINT'', ''CORS_ORIGIN'',
     ''PROGRAM_ID'', ''POOL_ID'', ''CLUSTER'']"

definition CLUSTERS :: "string list" where "CLUSTERS = [''devnet'', ''mainnet-beta'']"

definition DEFAULT_OPERATOR_SOL_WARN :: rat where "DEFAULT_OPERATOR_SOL_WARN = 1 / 2"
definition DEFAULT_PRIORITY_FEE_MAX_MICROLAMPORTS :: int where "DEFAULT_PRIORITY_FEE_MAX_MICROLAMPORTS = 50000"
definition DEFAULT_RPC_TIMEOUT_MS :: int where "DEFAULT_RPC_TIMEOUT_MS = 10000"
definition DEFAULT_ALERT_TICK_STALE_S :: int where "DEFAULT_ALERT_TICK_STALE_S = 300"
definition DEFAULT_ALERT_INDEXER_STALE_S :: int where "DEFAULT_ALERT_INDEXER_STALE_S = 600"
definition DEFAULT_REGISTRATION_INDEXER_FRESH_S :: int where "DEFAULT_REGISTRATION_INDEXER_FRESH_S = 60"

record hex_vault_env =
  ev_DATABASE_URL :: string
  ev_RPC_URL :: string
  ev_RPC_FALLBACK_URL :: "string option"
  ev_RPC_TIMEOUT_MS :: int
  ev_PROGRAM_ID :: string
  ev_POOL_ID :: string
  ev_CLUSTER :: string
  ev_OPERATOR_KEYPAIR :: string
  ev_ADMIN_ADDRESS :: "string option"
  ev_ACCEPTED_MINT :: string
  ev_OPERATOR_SOL_WARN :: rat
  ev_PRIORITY_FEE_MAX_MICROLAMPORTS :: int
  ev_FAUCET_AMOUNT :: string
  ev_FAUCET_INTERVAL_SECONDS :: string
  ev_REFERRAL_QUALIFY_SECONDS :: int
  ev_ALERT_TICK_STALE_S :: int
  ev_ALERT_INDEXER_STALE_S :: int
  ev_REGISTRATION_INDEXER_FRESH_S :: int
  ev_INVITE_CIRCULATION_CAP :: int
  ev_INVITE_REDEEM_GRANT_COUNT :: int
  ev_CORS_ORIGIN :: string
  ev_PORT :: string
  ev_SPARRING_KEYPAIR :: "string option"
  ev_INVITE_ADMIN_KEY :: "string option"
  ev_LAUNCH_AT :: "string option"

text \<open>\<open>raw === undefined || String(raw).trim() === ""\<close>, and the truth of a variable.\<close>

definition notConfigured :: "string option \<Rightarrow> bool" where
  "notConfigured raw = (case raw of None \<Rightarrow> True | Some r \<Rightarrow> trimText r = [])"

definition isSet :: "string option \<Rightarrow> bool" where
  "isSet raw = (raw \<noteq> None \<and> raw \<noteq> Some [])"

definition solWarn :: "string option \<Rightarrow> rat res" where
  "solWarn raw =
    (if notConfigured raw then Inr DEFAULT_OPERATOR_SOL_WARN
     else case numberOf (the raw) of
            Finite q \<Rightarrow> if q < 0 then Inl (''OPERATOR_SOL_WARN must be a non-negative number of SOL'' @ got (the raw)) else Inr q
          | _ \<Rightarrow> Inl (''OPERATOR_SOL_WARN must be a non-negative number of SOL'' @ got (the raw)))"

text \<open>The shape the remaining whole-number variables share.\<close>

definition wholeOr :: "int \<Rightarrow> string \<Rightarrow> string \<Rightarrow> int \<Rightarrow> string option \<Rightarrow> int res" where
  "wholeOr lo key what fallback raw =
    (if notConfigured raw then Inr fallback
     else case safeIn (the raw) lo of Some v \<Rightarrow> Inr v | None \<Rightarrow> Inl (key @ '' must be '' @ what @ got (the raw)))"

definition priorityFeeMax :: "string option \<Rightarrow> int res" where
  "priorityFeeMax = wholeOr 0 ''PRIORITY_FEE_MAX_MICROLAMPORTS'' ''a non-negative whole number of microlamports''
     DEFAULT_PRIORITY_FEE_MAX_MICROLAMPORTS"

definition rpcTimeoutMs :: "string option \<Rightarrow> int res" where
  "rpcTimeoutMs = wholeOr 1 ''RPC_TIMEOUT_MS'' ''a positive whole number of milliseconds'' DEFAULT_RPC_TIMEOUT_MS"

definition referralQualifySeconds :: "string option \<Rightarrow> int res" where
  "referralQualifySeconds = wholeOr 0 ''REFERRAL_QUALIFY_SECONDS'' ''a non-negative whole number of seconds''
     DEFAULT_REFERRAL_QUALIFY_SECONDS"

definition alertTickStaleSeconds :: "string option \<Rightarrow> int res" where
  "alertTickStaleSeconds = wholeOr 0 ''ALERT_TICK_STALE_S'' ''a non-negative whole number of seconds'' DEFAULT_ALERT_TICK_STALE_S"

definition alertIndexerStaleSeconds :: "string option \<Rightarrow> int res" where
  "alertIndexerStaleSeconds = wholeOr 0 ''ALERT_INDEXER_STALE_S'' ''a non-negative whole number of seconds''
     DEFAULT_ALERT_INDEXER_STALE_S"

definition registrationIndexerFreshSeconds :: "string option \<Rightarrow> int res" where
  "registrationIndexerFreshSeconds = wholeOr 0 ''REGISTRATION_INDEXER_FRESH_S'' ''a non-negative whole number of seconds''
     DEFAULT_REGISTRATION_INDEXER_FRESH_S"

definition wholeNumber :: "string \<Rightarrow> string option \<Rightarrow> int \<Rightarrow> int res" where
  "wholeNumber key raw fallback = wholeOr 0 key ''a non-negative whole number'' fallback raw"

definition launchAt :: "(string \<Rightarrow> int option) \<Rightarrow> string option \<Rightarrow> string option res" where
  "launchAt dateParse raw =
    (if notConfigured raw then Inr None
     else if dateParse (the raw) = None then Inl (''LAUNCH_AT must be an ISO timestamp'' @ got (the raw))
     else Inr raw)"

definition clusterOf :: "string option \<Rightarrow> string res" where
  "clusterOf raw =
    (case raw of
       Some c \<Rightarrow> if c \<in> set CLUSTERS then Inr c else Inl (''CLUSTER must be one of '' @ joinWith '', '' CLUSTERS @ got c)
     | None \<Rightarrow> Inl (''CLUSTER must be one of '' @ joinWith '', '' CLUSTERS @ got ''undefined''))"

definition optionalText :: "string option \<Rightarrow> string option" where
  "optionalText raw = (if isSet raw then raw else None)"

definition textOr :: "string \<Rightarrow> string option \<Rightarrow> string" where
  "textOr fallback raw = (case raw of None \<Rightarrow> fallback | Some r \<Rightarrow> r)"

definition acceptedMint :: "(string \<rightharpoonup> string) \<Rightarrow> string option" where
  "acceptedMint env = orElse (env ''ACCEPTED_MINT'') (env ''HEXUSDC_MINT'')"

definition missingKeys :: "(string \<rightharpoonup> string) \<Rightarrow> string list" where
  "missingKeys env =
    filter (\<lambda>k. if k = ''ACCEPTED_MINT'' then \<not> isSet (acceptedMint env) else \<not> isSet (env k)) REQUIRED_KEYS"

text \<open>The deprecation warning, as the flag whether it is logged.\<close>

definition warnsOldMintName :: "(string \<rightharpoonup> string) \<Rightarrow> bool" where
  "warnsOldMintName env = (\<not> isSet (env ''ACCEPTED_MINT'') \<and> isSet (env ''HEXUSDC_MINT''))"

definition validateEnv :: "(string \<Rightarrow> int option) \<Rightarrow> (string \<rightharpoonup> string) \<Rightarrow> hex_vault_env res" where
  "validateEnv dateParse env =
    (if missingKeys env \<noteq> [] then Inl (''missing required env vars: '' @ joinWith '', '' (missingKeys env))
     else if isSet (env ''INVITE_ADMIN_KEY'') \<and> length (the (env ''INVITE_ADMIN_KEY'')) < 32 then
       Inl ''INVITE_ADMIN_KEY must be at least 32 characters (try `openssl rand -hex 32`)''
     else
       rbind (launchAt dateParse (env ''LAUNCH_AT'')) (\<lambda>launch.
       rbind (rpcTimeoutMs (env ''RPC_TIMEOUT_MS'')) (\<lambda>timeout.
       rbind (clusterOf (env ''CLUSTER'')) (\<lambda>clus.
       rbind (solWarn (env ''OPERATOR_SOL_WARN'')) (\<lambda>sol.
       rbind (priorityFeeMax (env ''PRIORITY_FEE_MAX_MICROLAMPORTS'')) (\<lambda>fee.
       rbind (referralQualifySeconds (env ''REFERRAL_QUALIFY_SECONDS'')) (\<lambda>qualify.
       rbind (alertTickStaleSeconds (env ''ALERT_TICK_STALE_S'')) (\<lambda>tick.
       rbind (alertIndexerStaleSeconds (env ''ALERT_INDEXER_STALE_S'')) (\<lambda>idx.
       rbind (registrationIndexerFreshSeconds (env ''REGISTRATION_INDEXER_FRESH_S'')) (\<lambda>fresh.
       rbind (wholeNumber ''INVITE_CIRCULATION_CAP'' (env ''INVITE_CIRCULATION_CAP'') INVITE_CIRCULATION_CAP) (\<lambda>cap.
       rbind (wholeNumber ''INVITE_REDEEM_GRANT_COUNT'' (env ''INVITE_REDEEM_GRANT_COUNT'') INVITE_REDEEM_GRANT_COUNT) (\<lambda>grant.
         Inr \<lparr>ev_DATABASE_URL = the (env ''DATABASE_URL''), ev_RPC_URL = the (env ''RPC_URL''),
           ev_RPC_FALLBACK_URL = optionalText (env ''RPC_FALLBACK_URL''), ev_RPC_TIMEOUT_MS = timeout,
           ev_PROGRAM_ID = the (env ''PROGRAM_ID''), ev_POOL_ID = the (env ''POOL_ID''), ev_CLUSTER = clus,
           ev_OPERATOR_KEYPAIR = the (env ''OPERATOR_KEYPAIR''), ev_ADMIN_ADDRESS = optionalText (env ''ADMIN_ADDRESS''),
           ev_ACCEPTED_MINT = the (acceptedMint env), ev_OPERATOR_SOL_WARN = sol,
           ev_PRIORITY_FEE_MAX_MICROLAMPORTS = fee,
           ev_FAUCET_AMOUNT = textOr ''1000000000'' (env ''FAUCET_AMOUNT''),
           ev_FAUCET_INTERVAL_SECONDS = textOr ''3600'' (env ''FAUCET_INTERVAL_SECONDS''),
           ev_REFERRAL_QUALIFY_SECONDS = qualify, ev_ALERT_TICK_STALE_S = tick, ev_ALERT_INDEXER_STALE_S = idx,
           ev_REGISTRATION_INDEXER_FRESH_S = fresh, ev_INVITE_CIRCULATION_CAP = cap, ev_INVITE_REDEEM_GRANT_COUNT = grant,
           ev_CORS_ORIGIN = the (env ''CORS_ORIGIN''), ev_PORT = textOr ''8080'' (env ''PORT''),
           ev_SPARRING_KEYPAIR = optionalText (env ''SPARRING_KEYPAIR''),
           ev_INVITE_ADMIN_KEY = optionalText (env ''INVITE_ADMIN_KEY''), ev_LAUNCH_AT = launch\<rparr>))))))))))))"

end
