(* ===== verification/Config_Laws.thy ===== *)
theory Config_Laws
  imports Config
begin

text \<open>
  What holds of the configuration: every value the parsers let through is in its range, the Pool's
  parameters satisfy the relations \<open>create_pool\<close> and \<open>set_params\<close> check, a boot names every missing
  variable, and a list of flags is read back as what it spells.
\<close>

section \<open>Argument lists\<close>

definition flagArgs :: "(string \<times> string) list \<Rightarrow> string list" where
  "flagArgs fs = concat (map (\<lambda>(n, v). [''--'' @ n, v]) fs)"

definition plainFlag :: "(string \<Rightarrow> opt_type option) \<Rightarrow> string \<times> string \<Rightarrow> bool" where
  "plainFlag opts f = (opts (fst f) = Some StringOpt \<and> fst f \<noteq> [] \<and> CHR ''='' \<notin> set (fst f) \<and> \<not> optionLike (snd f))"

lemma longOption_names:
  assumes "n \<noteq> []" "CHR ''='' \<notin> set n"
  shows "isLongOption (''--'' @ n)" "optionName (''--'' @ n) = n" "\<not> hasInlineValue (''--'' @ n)" "''--'' @ n \<noteq> ''--''"
proof -
  show "\<not> hasInlineValue (''--'' @ n)" using assms(2) by (auto simp: hasInlineValue_def dest: in_set_dropD)
  then show "optionName (''--'' @ n) = n" by (simp add: optionName_def)
qed (use assms in \<open>simp_all add: isLongOption_def\<close>)

lemma longOption_inline:
  assumes "n \<noteq> []" "CHR ''='' \<notin> set n"
  shows "isLongOption (''--'' @ n @ ''='' @ v)" "optionName (''--'' @ n @ ''='' @ v) = n"
    "hasInlineValue (''--'' @ n @ ''='' @ v)" "inlineValue (''--'' @ n @ ''='' @ v) = v"
proof -
  have tw: "takeWhile (\<lambda>c. c \<noteq> CHR ''='') (n @ ''='' @ v) = n" "dropWhile (\<lambda>c. c \<noteq> CHR ''='') (n @ ''='' @ v) = ''='' @ v"
    using assms(2) by (auto simp: takeWhile_append dropWhile_append)
  have h: "hasInlineValue (''--'' @ n @ ''='' @ v)" using assms(1) by (cases n) (simp_all add: hasInlineValue_def)
  then show "hasInlineValue (''--'' @ n @ ''='' @ v)" .
  show "optionName (''--'' @ n @ ''='' @ v) = n" using h tw by (simp add: optionName_def)
  show "inlineValue (''--'' @ n @ ''='' @ v) = v" using tw by (simp add: inlineValue_def)
qed (use assms in \<open>simp add: isLongOption_def\<close>)

lemma parseArgs_flag:
  assumes "plainFlag opts (n, v)"
  shows "parseArgs opts ((''--'' @ n) # v # rest) vs = parseArgs opts rest (vs(n \<mapsto> TextValue v))"
proof -
  have n: "n \<noteq> []" "CHR ''='' \<notin> set n" "opts n = Some StringOpt" "\<not> optionLike v" using assms by (simp_all add: plainFlag_def)
  show ?thesis unfolding parseArgs.simps longOption_names(2)[OF n(1,2)] n(3)
    using longOption_names(1,3,4)[OF n(1,2)] n(4) by simp
qed

lemma parseArgs_flags:
  "list_all (plainFlag opts) fs \<Longrightarrow>
   parseArgs opts (flagArgs fs @ rest) vs = parseArgs opts rest (vs ++ map_of (rev (map (\<lambda>(n, v). (n, TextValue v)) fs)))"
proof (induction fs arbitrary: vs)
  case (Cons f fs)
  obtain n v where f: "f = (n, v)" by (cases f)
  have "parseArgs opts (flagArgs (f # fs) @ rest) vs = parseArgs opts (flagArgs fs @ rest) (vs(n \<mapsto> TextValue v))"
    using parseArgs_flag[of opts n v "flagArgs fs @ rest" vs] Cons.prems by (simp add: flagArgs_def f)
  also have "\<dots> = parseArgs opts rest (vs(n \<mapsto> TextValue v) ++ map_of (rev (map (\<lambda>(n, v). (n, TextValue v)) fs)))"
    using Cons by simp
  also have "vs(n \<mapsto> TextValue v) ++ map_of (rev (map (\<lambda>(n, v). (n, TextValue v)) fs))
      = vs ++ map_of (rev (map (\<lambda>(n, v). (n, TextValue v)) (f # fs)))"
    by (simp add: f map_add_def fun_eq_iff split: option.splits)
  finally show ?case .
qed (simp add: flagArgs_def)

text \<open>The two spellings of a flag mean the same.\<close>

lemma parseArgs_inline:
  assumes "opts n = Some StringOpt" "n \<noteq> []" "CHR ''='' \<notin> set n"
  shows "parseArgs opts ((''--'' @ n @ ''='' @ v) # rest) vs = parseArgs opts rest (vs(n \<mapsto> TextValue v))"
proof -
  have "''--'' @ n @ ''='' @ v \<noteq> ''--''" by simp
  then show ?thesis unfolding parseArgs.simps longOption_inline(2,4)[OF assms(2,3)] assms(1)
    using longOption_inline(1,3)[OF assms(2,3)] by simp
qed

text \<open>Only declared flags are stored, and with the type they were declared with.\<close>

lemma parseArgs_declared:
  "parseArgs opts args vs = Some ws \<Longrightarrow> ws n \<noteq> vs n \<Longrightarrow>
   (\<exists>v. ws n = Some (TextValue v) \<and> opts n = Some StringOpt) \<or> ws n = Some FlagSet \<and> opts n = Some BooleanOpt"
proof (induction opts args vs rule: parseArgs.induct)
  case (2 opts a rest vs)
  show ?case
  proof (cases "a = ''--'' \<or> \<not> isLongOption a")
    case True
    then show ?thesis using 2(4,5) by (auto split: if_splits)
  next
    case F: False
    show ?thesis
    proof (cases "opts (optionName a)")
      case (Some t)
      show ?thesis
      proof (cases t)
        case StringOpt
        show ?thesis
        proof (cases "hasInlineValue a")
          case True
          have step: "parseArgs opts rest (vs(optionName a \<mapsto> TextValue (inlineValue a))) = Some ws"
            using 2(4) F Some StringOpt True by simp
          show ?thesis
            using 2(1)[of StringOpt, OF _ _ Some[unfolded StringOpt] _ True step] F Some StringOpt 2(5)
            by (cases "ws n = (vs(optionName a \<mapsto> TextValue (inlineValue a))) n") (auto split: if_splits)
        next
          case I: False
          obtain v r where r: "rest = v # r" "\<not> optionLike v"
            using 2(4) F Some StringOpt I by (auto split: list.splits if_splits)
          have step: "parseArgs opts r (vs(optionName a \<mapsto> TextValue v)) = Some ws"
            using 2(4) F Some StringOpt I r by simp
          show ?thesis
            using 2(2)[of StringOpt v r, OF _ _ Some[unfolded StringOpt] _ I r(1) r(2) step] F Some StringOpt 2(5)
            by (cases "ws n = (vs(optionName a \<mapsto> TextValue v)) n") (auto split: if_splits)
        qed
      next
        case BooleanOpt
        have I: "\<not> hasInlineValue a" using 2(4) F Some BooleanOpt by (auto split: if_splits)
        have step: "parseArgs opts rest (vs(optionName a \<mapsto> FlagSet)) = Some ws"
          using 2(4) F Some BooleanOpt I by simp
        show ?thesis
          using 2(3)[of BooleanOpt, OF _ _ Some[unfolded BooleanOpt] _ I step] F Some BooleanOpt 2(5)
          by (cases "ws n = (vs(optionName a \<mapsto> FlagSet)) n") (auto split: if_splits)
      qed
    qed (use 2(4) F in simp)
  qed
qed simp

section \<open>Values in range\<close>

lemma safeIn_range: "safeIn raw lo = Some v \<Longrightarrow> lo \<le> v \<and> \<bar>v\<bar> \<le> MAX_SAFE_INTEGER"
  by (auto simp: safeIn_def safeInteger_Some split: option.splits if_splits)

lemma safeIn_showNat: "int n \<le> MAX_SAFE_INTEGER \<Longrightarrow> lo \<le> int n \<Longrightarrow> safeIn (showNat n) lo = Some (int n)"
  by (simp add: safeIn_def safeInteger_showNat)

lemma digitText_showNat [simp]: "digitText (showNat n) = Some (int n)"
  by (simp add: digitText_def showNat_digits)

lemma digitText_nonneg: "digitText raw = Some v \<Longrightarrow> 0 \<le> v"
  by (auto simp: digitText_def split: if_splits)

lemma envInt_range: "envInt l raw d = Inr v \<Longrightarrow> 0 \<le> d \<Longrightarrow> d \<le> MAX_SAFE_INTEGER \<Longrightarrow> 0 \<le> v \<and> v \<le> MAX_SAFE_INTEGER"
  using safeIn_range by (fastforce simp: envInt_def split: option.splits if_splits)

lemma wholeOr_range:
  "wholeOr lo key what d raw = Inr v \<Longrightarrow> lo \<le> d \<Longrightarrow> d \<le> MAX_SAFE_INTEGER \<Longrightarrow> lo \<le> v \<and> v \<le> MAX_SAFE_INTEGER"
  using safeIn_range by (fastforce simp: wholeOr_def split: option.splits if_splits)

lemma secondsFlag_range: "secondsFlag lo f raw = Inr v \<Longrightarrow> lo \<le> v \<and> v \<le> MAX_SAFE_INTEGER"
  using safeIn_range by (fastforce simp: secondsFlag_def split: option.splits)

lemma houseCutBps_range: "houseCutBps f raw = Inr v \<Longrightarrow> 0 \<le> v \<and> v \<le> 10000"
  using safeIn_range by (fastforce simp: houseCutBps_def split: option.splits if_splits)

lemma wholeUsdc_range: "wholeUsdc f raw = Inr v \<Longrightarrow> 0 \<le> v \<and> USDC_SCALE dvd v"
  using digitText_nonneg by (fastforce simp: wholeUsdc_def USDC_SCALE_def split: option.splits)

lemma isoSeconds_range: "isoSeconds dp f raw = Inr v \<Longrightarrow> 0 \<le> v"
  by (auto simp: isoSeconds_def split: option.splits if_splits)

section \<open>The Epoch grid's default anchor\<close>

definition isDrawHour :: "int \<Rightarrow> bool" where
  "isDrawHour s = (s mod 86400 = 16 * 3600 \<and> (s div 86400 + 4) mod 7 = 0)"

text \<open>The default anchor is the first Sunday 16:00 UTC that is not before now, whatever the time of day and
  the weekday: it is one, it is less than a week away, and no earlier one is still to come.\<close>

theorem anchor_is_next_sunday:
  "isDrawHour (nextSundayAnchor nowMs) \<and> nowMs \<le> nextSundayAnchor nowMs * 1000 \<and>
   nextSundayAnchor nowMs * 1000 < nowMs + 7 * 86400000 \<and>
   (\<forall>s. isDrawHour s \<and> nowMs \<le> s * 1000 \<longrightarrow> nextSundayAnchor nowMs \<le> s)"
proof -
  define d where "d = nowMs div 86400000"
  define r where "r = nowMs mod 86400000"
  have n: "nowMs = 86400000 * d + r" "0 \<le> r" "r < 86400000" by (simp_all add: d_def r_def)
  define k where "k = (7 - (d + 4) mod 7) mod 7"
  define k' where "k' = (if k = 0 \<and> r > 57600000 then 7 else k)"
  have k: "0 \<le> k" "k < 7" "(d + k + 4) mod 7 = 0" unfolding k_def by presburger+
  have t: "(d * 86400000 + 57600000) div 86400000 = d" by simp
  have anchor: "nextSundayAnchor nowMs = (d + k') * 86400 + 57600"
  proof -
    have "nextSundayAnchor nowMs =
        (if (d + k) * 86400000 + 57600000 < nowMs then (d + k) * 86400000 + 57600000 + 7 * 86400000 else (d + k) * 86400000 + 57600000) div 1000"
      unfolding nextSundayAnchor_def Let_def d_def[symmetric] by (simp add: t k_def algebra_simps)
    moreover have "(d + k) * 86400000 + 57600000 < nowMs \<longleftrightarrow> k = 0 \<and> r > 57600000" using n k by auto
    ultimately show ?thesis by (auto simp: k'_def)
  qed
  have k7: "(d + k' + 4) mod 7 = 0" "0 \<le> k'" "k' \<le> 7" using k by (auto simp: k'_def) presburger?
  have "(e * 86400 + 57600) mod 86400 = 57600" "(e * 86400 + 57600) div 86400 = e" for e :: int by simp_all
  note grid = this[of "d + k'"]
  have hour: "isDrawHour (nextSundayAnchor nowMs)"
    unfolding isDrawHour_def anchor grid using k7(1) by simp
  have soon: "nowMs \<le> nextSundayAnchor nowMs * 1000" "nextSundayAnchor nowMs * 1000 < nowMs + 7 * 86400000"
    unfolding anchor using n k by (auto simp: k'_def)
  have "nextSundayAnchor nowMs \<le> s" if s: "isDrawHour s" "nowMs \<le> s * 1000" for s
  proof (rule ccontr)
    assume lt: "\<not> ?thesis"
    define e where "e = s div 86400"
    have e: "s = e * 86400 + 57600" "(e + 4) mod 7 = 0" using s(1) by (auto simp: isDrawHour_def e_def) presburger
    have "e < d + k'" using lt anchor e by simp
    moreover have "(e + 4) mod 7 = (d + k' + 4) mod 7" using e k7 by simp
    ultimately have "e \<le> d + k' - 7" by presburger
    then have "s * 1000 \<le> nextSundayAnchor nowMs * 1000 - 7 * 86400000" using anchor e by simp
    then show False using soon s(2) by simp
  qed
  then show ?thesis using hour soon by blast
qed

section \<open>Pool parameters\<close>

text \<open>What a parameter set must satisfy before it reaches the chain: every field in its range, and the
  relations the program checks between them.\<close>

definition wfPoolFields :: "pool_params \<Rightarrow> bool" where
  "wfPoolFields p =
    (0 < pp_epochSeconds p \<and> pp_epochSeconds p \<le> MAX_SAFE_INTEGER \<and>
     0 < pp_roundSeconds p \<and> pp_roundSeconds p \<le> MAX_SAFE_INTEGER \<and>
     pp_closeBuffer p = 5 \<and> pp_vrfTimeout p = 120 \<and> pp_minDeposit p = 1000000 \<and>
     0 \<le> pp_houseCutBps p \<and> pp_houseCutBps p \<le> 10000 \<and>
     0 \<le> pp_minJackpot p \<and> USDC_SCALE dvd pp_minJackpot p \<and>
     0 \<le> pp_registrationWindow p \<and> 0 < pp_payoutTimeout p \<and>
     0 \<le> pp_baseRateBps p \<and> 0 \<le> pp_ticketsPerUsdc p \<and> 0 \<le> pp_bonusCapBps p)"

definition wfPoolParams :: "pool_params \<Rightarrow> bool" where
  "wfPoolParams p =
    (wfPoolFields p \<and> pp_closeBuffer p < pp_roundSeconds p \<and> pp_registrationWindow p < pp_epochSeconds p \<and>
     pp_payoutTimeout p < pp_epochSeconds p \<and>
     (pp_treasury p = pp_buybackReserve p \<longrightarrow> pp_treasury p = None))"

lemma withFlag_keeps:
  assumes "withFlag vs f parse put p = Inr q" "P p"
    and "\<And>raw v. parse f raw = Inr v \<Longrightarrow> P (put v p)"
  shows "P q"
  using assms by (auto simp: withFlag_def rbind_Inr_iff split: option.splits opt_value.splits)

lemma poolFlag_wf:
  assumes "wfPoolFields p"
  shows "withFlag vs f (secondsFlag 1) (\<lambda>v. pp_epochSeconds_update (\<lambda>_. v)) p = Inr q \<Longrightarrow> wfPoolFields q"
    "withFlag vs f (secondsFlag 1) (\<lambda>v. pp_roundSeconds_update (\<lambda>_. v)) p = Inr q \<Longrightarrow> wfPoolFields q"
    "withFlag vs f (isoSeconds dp) (\<lambda>v. pp_epochAnchor_update (\<lambda>_. v)) p = Inr q \<Longrightarrow> wfPoolFields q"
    "withFlag vs f houseCutBps (\<lambda>v. pp_houseCutBps_update (\<lambda>_. v)) p = Inr q \<Longrightarrow> wfPoolFields q"
    "withFlag vs f wholeUsdc (\<lambda>v. pp_minJackpot_update (\<lambda>_. v)) p = Inr q \<Longrightarrow> wfPoolFields q"
    "withFlag vs f (secondsFlag 0) (\<lambda>v. pp_registrationWindow_update (\<lambda>_. v)) p = Inr q \<Longrightarrow> wfPoolFields q"
    "withFlag vs f (secondsFlag 1) (\<lambda>v. pp_payoutTimeout_update (\<lambda>_. v)) p = Inr q \<Longrightarrow> wfPoolFields q"
    "withFlag vs f (pubkeyFlag pk) (\<lambda>v. pp_admin_update (\<lambda>_. Some v)) p = Inr q \<Longrightarrow> wfPoolFields q"
    "withFlag vs f (pubkeyFlag pk) (\<lambda>v. pp_operator_update (\<lambda>_. Some v)) p = Inr q \<Longrightarrow> wfPoolFields q"
    "withFlag vs f (pubkeyFlag pk) (\<lambda>v. pp_treasury_update (\<lambda>_. Some v)) p = Inr q \<Longrightarrow> wfPoolFields q"
    "withFlag vs f (pubkeyFlag pk) (\<lambda>v. pp_buybackReserve_update (\<lambda>_. Some v)) p = Inr q \<Longrightarrow> wfPoolFields q"
  by (rule withFlag_keeps[where P = wfPoolFields], assumption, rule assms,
      use assms in \<open>force simp: wfPoolFields_def dest: secondsFlag_range houseCutBps_range wholeUsdc_range\<close>)+

lemma poolParamFlags_wf: "poolParamFlags pk dp vs p = Inr q \<Longrightarrow> wfPoolFields p \<Longrightarrow> wfPoolFields q"
proof -
  assume "poolParamFlags pk dp vs p = Inr q" and p: "wfPoolFields p"
  then obtain p1 p2 p3 p4 p5 p6 p7 p8 p9 p10 p11 where s:
      "withFlag vs ''epoch-seconds'' (secondsFlag 1) (\<lambda>v. pp_epochSeconds_update (\<lambda>_. v)) p = Inr p1"
      "withFlag vs ''round-seconds'' (secondsFlag 1) (\<lambda>v. pp_roundSeconds_update (\<lambda>_. v)) p1 = Inr p2"
      "withFlag vs ''epoch-anchor'' (isoSeconds dp) (\<lambda>v. pp_epochAnchor_update (\<lambda>_. v)) p2 = Inr p3"
      "withFlag vs ''house-cut-bps'' houseCutBps (\<lambda>v. pp_houseCutBps_update (\<lambda>_. v)) p3 = Inr p4"
      "withFlag vs ''min-jackpot'' wholeUsdc (\<lambda>v. pp_minJackpot_update (\<lambda>_. v)) p4 = Inr p5"
      "withFlag vs ''registration-window'' (secondsFlag 0) (\<lambda>v. pp_registrationWindow_update (\<lambda>_. v)) p5 = Inr p6"
      "withFlag vs ''payout-timeout'' (secondsFlag 1) (\<lambda>v. pp_payoutTimeout_update (\<lambda>_. v)) p6 = Inr p7"
      "withFlag vs ''admin'' (pubkeyFlag pk) (\<lambda>v. pp_admin_update (\<lambda>_. Some v)) p7 = Inr p8"
      "withFlag vs ''operator'' (pubkeyFlag pk) (\<lambda>v. pp_operator_update (\<lambda>_. Some v)) p8 = Inr p9"
      "withFlag vs ''treasury'' (pubkeyFlag pk) (\<lambda>v. pp_treasury_update (\<lambda>_. Some v)) p9 = Inr p10"
      "withFlag vs ''buyback-reserve'' (pubkeyFlag pk) (\<lambda>v. pp_buybackReserve_update (\<lambda>_. Some v)) p10 = Inr p11"
      and q: "q = (if vs ''start'' = Some FlagSet then p11\<lparr>pp_start := True\<rparr> else p11)"
    unfolding poolParamFlags_def rbind_Inr_iff by (elim exE conjE) (rule that, assumption+, simp)
  have "wfPoolFields p7"
    using poolFlag_wf(7)[OF poolFlag_wf(6)[OF poolFlag_wf(5)[OF poolFlag_wf(4)[OF poolFlag_wf(3)[OF poolFlag_wf(2)[OF
      poolFlag_wf(1)[OF p s(1)] s(2)] s(3)] s(4)] s(5)] s(6)] s(7)] .
  then have "wfPoolFields p11"
    using poolFlag_wf(11)[OF poolFlag_wf(10)[OF poolFlag_wf(9)[OF poolFlag_wf(8)[OF _ s(8)] s(9)] s(10)] s(11)] by blast
  then show ?thesis by (simp add: q wfPoolFields_def)
qed

lemma checkPoolParams_wf: "checkPoolParams p = Inr q \<Longrightarrow> wfPoolFields p \<Longrightarrow> wfPoolParams q"
  by (auto simp: checkPoolParams_def wfPoolParams_def split: if_splits)

lemma defaultPoolParams_wf:
  assumes "defaultPoolParams nowMs env = Inr d"
  shows "wfPoolParams d"
proof -
  obtain rate tickets cap where "envInt ''BASE_RATE_BPS'' (env ''BASE_RATE_BPS'') 488 = Inr rate"
      "envInt ''TICKETS_PER_USDC'' (env ''TICKETS_PER_USDC'') 10 = Inr tickets"
      "envInt ''BONUS_CAP_BPS'' (env ''BONUS_CAP_BPS'') 500 = Inr cap"
      and d: "pp_epochSeconds d = 86400" "pp_roundSeconds d = 90" "pp_closeBuffer d = 5" "pp_vrfTimeout d = 120"
        "pp_minDeposit d = 1000000" "pp_houseCutBps d = 600" "pp_minJackpot d = 1000000" "pp_registrationWindow d = 600"
        "pp_payoutTimeout d = 82800" "pp_baseRateBps d = rate" "pp_ticketsPerUsdc d = tickets" "pp_bonusCapBps d = cap"
        "pp_treasury d = None" "pp_buybackReserve d = None"
    using assms by (auto simp: defaultPoolParams_def rbind_Inr_iff)
  then have "0 \<le> rate" "0 \<le> tickets" "0 \<le> cap"
    using envInt_range[of _ _ 488 rate] envInt_range[of _ _ 10 tickets] envInt_range[of _ _ 500 cap]
    by (simp_all add: MAX_SAFE_INTEGER_def)
  then show ?thesis by (simp add: wfPoolParams_def wfPoolFields_def d USDC_SCALE_def MAX_SAFE_INTEGER_def)
qed

text \<open>Whatever the command line and the environment, parameters that reach \<open>create_pool\<close> are well formed:
  each in its range, the buffer within the Round, the windows within the Epoch, and the Treasury told from
  the Buyback reserve.\<close>

theorem pool_params_well_formed:
  assumes "defaultPoolParams nowMs env = Inr d" "parsePoolParams pk dp d argv = Inr p"
  shows "wfPoolParams p"
proof -
  obtain vs where "rbind (poolParamFlags pk dp vs d) checkPoolParams = Inr p"
    using assms(2) by (auto simp: parsePoolParams_def split: option.splits)
  then obtain q where "poolParamFlags pk dp vs d = Inr q" "checkPoolParams q = Inr p" by (auto simp: rbind_Inr_iff)
  then show ?thesis
    using poolParamFlags_wf checkPoolParams_wf defaultPoolParams_wf[OF assms(1)] by (auto simp: wfPoolParams_def)
qed

definition demoDefaults :: pool_params where
  "demoDefaults = (case defaultPoolParams 0 Map.empty of Inr d \<Rightarrow> d)"

lemma demoDefaults: "defaultPoolParams 0 Map.empty = Inr demoDefaults"
  by (simp add: demoDefaults_def defaultPoolParams_def envInt_def)

lemma pool_params_well_formed_witness:
  "\<exists>p. parsePoolParams (\<lambda>_. None) (\<lambda>_. None) demoDefaults [''--round-seconds'', ''60'', ''--start''] = Inr p \<and>
     pp_roundSeconds p = 60 \<and> wfPoolParams p"
proof -
  have "case parsePoolParams (\<lambda>_. None) (\<lambda>_. None) demoDefaults [''--round-seconds'', ''60'', ''--start''] of
      Inr p \<Rightarrow> pp_roundSeconds p = 60 | Inl _ \<Rightarrow> False" by code_simp
  then obtain p where p: "parsePoolParams (\<lambda>_. None) (\<lambda>_. None) demoDefaults [''--round-seconds'', ''60'', ''--start''] = Inr p"
      "pp_roundSeconds p = 60" by (simp split: sum.splits)
  from p pool_params_well_formed[OF demoDefaults p(1)] show ?thesis by simp
qed

text \<open>On mainnet nothing defaults to the hot key: a guard that passes there saw every role spelled out and
  an Admin that is not the Operator; and one that fails says so without a chain call.\<close>

lemma mainnet_roles_explicit:
  "mg_genesisHash i = MAINNET_GENESIS_HASH \<Longrightarrow> assertMainnetSafe i = Inr () \<longleftrightarrow>
   mg_admin i \<noteq> None \<and> mg_treasury i \<noteq> None \<and> mg_buybackReserve i \<noteq> None \<and> isSet (mg_acceptedMint i) \<and>
   mg_admin i \<noteq> Some (mg_operator i)"
  by (auto simp: assertMainnetSafe_def isSet_def)

section \<open>The environment\<close>

definition wfEnv :: "hex_vault_env \<Rightarrow> bool" where
  "wfEnv e =
    (list_all (\<lambda>t. t \<noteq> []) [ev_DATABASE_URL e, ev_RPC_URL e, ev_OPERATOR_KEYPAIR e, ev_ACCEPTED_MINT e,
       ev_CORS_ORIGIN e, ev_PROGRAM_ID e, ev_POOL_ID e] \<and>
     ev_CLUSTER e \<in> {''devnet'', ''mainnet-beta''} \<and> 0 < ev_RPC_TIMEOUT_MS e \<and> 0 \<le> ev_OPERATOR_SOL_WARN e \<and>
     list_all (\<lambda>v. 0 \<le> v \<and> v \<le> MAX_SAFE_INTEGER) [ev_RPC_TIMEOUT_MS e, ev_PRIORITY_FEE_MAX_MICROLAMPORTS e,
       ev_REFERRAL_QUALIFY_SECONDS e, ev_ALERT_TICK_STALE_S e, ev_ALERT_INDEXER_STALE_S e,
       ev_REGISTRATION_INDEXER_FRESH_S e, ev_INVITE_CIRCULATION_CAP e, ev_INVITE_REDEEM_GRANT_COUNT e] \<and>
     ev_RPC_FALLBACK_URL e \<noteq> Some [] \<and> ev_ADMIN_ADDRESS e \<noteq> Some [] \<and> ev_SPARRING_KEYPAIR e \<noteq> Some [] \<and>
     (case ev_INVITE_ADMIN_KEY e of None \<Rightarrow> True | Some k \<Rightarrow> 32 \<le> length k) \<and>
     (case ev_LAUNCH_AT e of None \<Rightarrow> True | Some t \<Rightarrow> trimText t \<noteq> []))"

lemmas env_parsers = priorityFeeMax_def rpcTimeoutMs_def referralQualifySeconds_def alertTickStaleSeconds_def
  alertIndexerStaleSeconds_def registrationIndexerFreshSeconds_def wholeNumber_def

lemmas env_defaults = DEFAULT_PRIORITY_FEE_MAX_MICROLAMPORTS_def DEFAULT_RPC_TIMEOUT_MS_def
  DEFAULT_REFERRAL_QUALIFY_SECONDS_def DEFAULT_ALERT_TICK_STALE_S_def DEFAULT_ALERT_INDEXER_STALE_S_def
  DEFAULT_REGISTRATION_INDEXER_FRESH_S_def INVITE_CIRCULATION_CAP_def INVITE_REDEEM_GRANT_COUNT_def MAX_SAFE_INTEGER_def

lemma env_ranges:
  "rpcTimeoutMs r = Inr v \<Longrightarrow> 0 < v \<and> v \<le> MAX_SAFE_INTEGER"
  "priorityFeeMax r = Inr v \<Longrightarrow> 0 \<le> v \<and> v \<le> MAX_SAFE_INTEGER"
  "referralQualifySeconds r = Inr v \<Longrightarrow> 0 \<le> v \<and> v \<le> MAX_SAFE_INTEGER"
  "alertTickStaleSeconds r = Inr v \<Longrightarrow> 0 \<le> v \<and> v \<le> MAX_SAFE_INTEGER"
  "alertIndexerStaleSeconds r = Inr v \<Longrightarrow> 0 \<le> v \<and> v \<le> MAX_SAFE_INTEGER"
  "registrationIndexerFreshSeconds r = Inr v \<Longrightarrow> 0 \<le> v \<and> v \<le> MAX_SAFE_INTEGER"
  "wholeNumber k r INVITE_CIRCULATION_CAP = Inr v \<Longrightarrow> 0 \<le> v \<and> v \<le> MAX_SAFE_INTEGER"
  "wholeNumber k r INVITE_REDEEM_GRANT_COUNT = Inr v \<Longrightarrow> 0 \<le> v \<and> v \<le> MAX_SAFE_INTEGER"
  unfolding env_parsers by (drule wholeOr_range; simp add: env_defaults)+

lemma solWarn_range: "solWarn r = Inr v \<Longrightarrow> 0 \<le> v"
  by (auto simp: solWarn_def DEFAULT_OPERATOR_SOL_WARN_def split: js_number.splits if_splits)

lemma missingKeys_Nil:
  "missingKeys env = [] \<longleftrightarrow> (\<forall>k \<in> set REQUIRED_KEYS. isSet (if k = ''ACCEPTED_MINT'' then acceptedMint env else env k))"
  by (auto simp: missingKeys_def filter_empty_conv split: if_splits)

text \<open>A boot that gets past validation holds a well-formed environment: every required text is there, the
  cluster is one of the two, every threshold is a number in its range (never a \<open>NaN\<close>), every optional
  switch is either absent or set, and an admin key is long enough.\<close>

theorem validated_env_well_formed:
  assumes "validateEnv dp env = Inr e"
  shows "wfEnv e"
proof -
  have m: "missingKeys env = []" and k: "\<not> (isSet (env ''INVITE_ADMIN_KEY'') \<and> length (the (env ''INVITE_ADMIN_KEY'')) < 32)"
    using assms by (auto simp: validateEnv_def split: if_splits)
  have req: "isSet (env k)" if "k \<in> set REQUIRED_KEYS" "k \<noteq> ''ACCEPTED_MINT''" for k
    using m that by (auto simp: missingKeys_Nil split: if_splits)
  have full: "the (env k) \<noteq> []" if "k \<in> set REQUIRED_KEYS" "k \<noteq> ''ACCEPTED_MINT''" for k
    using req[OF that] by (cases "env k") (simp_all add: isSet_def)
  have texts: "list_all (\<lambda>k. the (env k) \<noteq> []) [''DATABASE_URL'', ''RPC_URL'', ''OPERATOR_KEYPAIR'', ''CORS_ORIGIN'', ''PROGRAM_ID'', ''POOL_ID'']"
    by (simp add: full REQUIRED_KEYS_def)
  have mint: "the (acceptedMint env) \<noteq> []"
  proof -
    have "''ACCEPTED_MINT'' \<in> set REQUIRED_KEYS" by (simp add: REQUIRED_KEYS_def)
    then have "isSet (acceptedMint env)" using m[unfolded missingKeys_Nil, rule_format, of "''ACCEPTED_MINT''"] by simp
    then show ?thesis by (cases "acceptedMint env") (simp_all add: isSet_def)
  qed
  have opt: "optionalText r \<noteq> Some []" for r by (auto simp: optionalText_def isSet_def)
  have adminKey: "case optionalText (env ''INVITE_ADMIN_KEY'') of None \<Rightarrow> True | Some k \<Rightarrow> 32 \<le> length k"
    using k by (auto simp: optionalText_def split: option.splits if_splits)
  have launch: "launchAt dp (env ''LAUNCH_AT'') = Inr l \<Longrightarrow> (case l of None \<Rightarrow> True | Some t \<Rightarrow> trimText t \<noteq> [])" for l
    by (auto simp: launchAt_def notConfigured_def split: option.splits if_splits)
  have clus: "clusterOf (env ''CLUSTER'') = Inr c \<Longrightarrow> c \<in> {''devnet'', ''mainnet-beta''}" for c
    by (auto simp: clusterOf_def CLUSTERS_def split: option.splits if_splits)
  have chain: "validateEnv dp env = Inr e \<Longrightarrow> \<exists>launch timeout clus sol fee qualify tick idx fresh cap grant.
      launchAt dp (env ''LAUNCH_AT'') = Inr launch \<and> rpcTimeoutMs (env ''RPC_TIMEOUT_MS'') = Inr timeout \<and>
      clusterOf (env ''CLUSTER'') = Inr clus \<and> solWarn (env ''OPERATOR_SOL_WARN'') = Inr sol \<and>
      priorityFeeMax (env ''PRIORITY_FEE_MAX_MICROLAMPORTS'') = Inr fee \<and>
      referralQualifySeconds (env ''REFERRAL_QUALIFY_SECONDS'') = Inr qualify \<and>
      alertTickStaleSeconds (env ''ALERT_TICK_STALE_S'') = Inr tick \<and>
      alertIndexerStaleSeconds (env ''ALERT_INDEXER_STALE_S'') = Inr idx \<and>
      registrationIndexerFreshSeconds (env ''REGISTRATION_INDEXER_FRESH_S'') = Inr fresh \<and>
      wholeNumber ''INVITE_CIRCULATION_CAP'' (env ''INVITE_CIRCULATION_CAP'') INVITE_CIRCULATION_CAP = Inr cap \<and>
      wholeNumber ''INVITE_REDEEM_GRANT_COUNT'' (env ''INVITE_REDEEM_GRANT_COUNT'') INVITE_REDEEM_GRANT_COUNT = Inr grant \<and>
      ev_DATABASE_URL e = the (env ''DATABASE_URL'') \<and> ev_RPC_URL e = the (env ''RPC_URL'') \<and>
      ev_OPERATOR_KEYPAIR e = the (env ''OPERATOR_KEYPAIR'') \<and> ev_ACCEPTED_MINT e = the (acceptedMint env) \<and>
      ev_CORS_ORIGIN e = the (env ''CORS_ORIGIN'') \<and> ev_PROGRAM_ID e = the (env ''PROGRAM_ID'') \<and>
      ev_POOL_ID e = the (env ''POOL_ID'') \<and> ev_CLUSTER e = clus \<and> ev_RPC_TIMEOUT_MS e = timeout \<and>
      ev_OPERATOR_SOL_WARN e = sol \<and> ev_PRIORITY_FEE_MAX_MICROLAMPORTS e = fee \<and>
      ev_REFERRAL_QUALIFY_SECONDS e = qualify \<and> ev_ALERT_TICK_STALE_S e = tick \<and> ev_ALERT_INDEXER_STALE_S e = idx \<and>
      ev_REGISTRATION_INDEXER_FRESH_S e = fresh \<and> ev_INVITE_CIRCULATION_CAP e = cap \<and>
      ev_INVITE_REDEEM_GRANT_COUNT e = grant \<and> ev_RPC_FALLBACK_URL e = optionalText (env ''RPC_FALLBACK_URL'') \<and>
      ev_ADMIN_ADDRESS e = optionalText (env ''ADMIN_ADDRESS'') \<and> ev_SPARRING_KEYPAIR e = optionalText (env ''SPARRING_KEYPAIR'') \<and>
      ev_INVITE_ADMIN_KEY e = optionalText (env ''INVITE_ADMIN_KEY'') \<and> ev_LAUNCH_AT e = launch"
    unfolding validateEnv_def using m k by (auto simp: rbind_Inr_iff split: if_splits)
  obtain launch timeout clus sol fee qualify tick idx fresh cap grant where
      v: "launchAt dp (env ''LAUNCH_AT'') = Inr launch" "rpcTimeoutMs (env ''RPC_TIMEOUT_MS'') = Inr timeout"
        "clusterOf (env ''CLUSTER'') = Inr clus" "solWarn (env ''OPERATOR_SOL_WARN'') = Inr sol"
        "priorityFeeMax (env ''PRIORITY_FEE_MAX_MICROLAMPORTS'') = Inr fee"
        "referralQualifySeconds (env ''REFERRAL_QUALIFY_SECONDS'') = Inr qualify"
        "alertTickStaleSeconds (env ''ALERT_TICK_STALE_S'') = Inr tick"
        "alertIndexerStaleSeconds (env ''ALERT_INDEXER_STALE_S'') = Inr idx"
        "registrationIndexerFreshSeconds (env ''REGISTRATION_INDEXER_FRESH_S'') = Inr fresh"
        "wholeNumber ''INVITE_CIRCULATION_CAP'' (env ''INVITE_CIRCULATION_CAP'') INVITE_CIRCULATION_CAP = Inr cap"
        "wholeNumber ''INVITE_REDEEM_GRANT_COUNT'' (env ''INVITE_REDEEM_GRANT_COUNT'') INVITE_REDEEM_GRANT_COUNT = Inr grant"
      and e: "ev_DATABASE_URL e = the (env ''DATABASE_URL'')" "ev_RPC_URL e = the (env ''RPC_URL'')"
        "ev_OPERATOR_KEYPAIR e = the (env ''OPERATOR_KEYPAIR'')" "ev_ACCEPTED_MINT e = the (acceptedMint env)"
        "ev_CORS_ORIGIN e = the (env ''CORS_ORIGIN'')" "ev_PROGRAM_ID e = the (env ''PROGRAM_ID'')"
        "ev_POOL_ID e = the (env ''POOL_ID'')" "ev_CLUSTER e = clus" "ev_RPC_TIMEOUT_MS e = timeout"
        "ev_OPERATOR_SOL_WARN e = sol" "ev_PRIORITY_FEE_MAX_MICROLAMPORTS e = fee"
        "ev_REFERRAL_QUALIFY_SECONDS e = qualify" "ev_ALERT_TICK_STALE_S e = tick" "ev_ALERT_INDEXER_STALE_S e = idx"
        "ev_REGISTRATION_INDEXER_FRESH_S e = fresh" "ev_INVITE_CIRCULATION_CAP e = cap"
        "ev_INVITE_REDEEM_GRANT_COUNT e = grant" "ev_RPC_FALLBACK_URL e = optionalText (env ''RPC_FALLBACK_URL'')"
        "ev_ADMIN_ADDRESS e = optionalText (env ''ADMIN_ADDRESS'')" "ev_SPARRING_KEYPAIR e = optionalText (env ''SPARRING_KEYPAIR'')"
        "ev_INVITE_ADMIN_KEY e = optionalText (env ''INVITE_ADMIN_KEY'')" "ev_LAUNCH_AT e = launch"
    using chain[OF assms] by (elim exE conjE) (rule that)
  have "0 < timeout" "timeout \<le> MAX_SAFE_INTEGER" using env_ranges(1)[OF v(2)] by simp_all
  moreover note env_ranges(2)[OF v(5)] env_ranges(3)[OF v(6)] env_ranges(4)[OF v(7)] env_ranges(5)[OF v(8)]
    env_ranges(6)[OF v(9)] env_ranges(7)[OF v(10)] env_ranges(8)[OF v(11)]
  moreover note clus[OF v(3)] solWarn_range[OF v(4)] launch[OF v(1)]
  ultimately show ?thesis unfolding wfEnv_def e using texts mint opt adminKey by simp
qed

definition demoBootEnv :: "string \<rightharpoonup> string" where
  "demoBootEnv = map_of [(''DATABASE_URL'', ''d''), (''RPC_URL'', ''r''), (''OPERATOR_KEYPAIR'', ''k''), (''ACCEPTED_MINT'', ''m''),
     (''CORS_ORIGIN'', ''c''), (''PROGRAM_ID'', ''p''), (''POOL_ID'', ''1''), (''CLUSTER'', ''devnet''), (''RPC_TIMEOUT_MS'', ''1e1'')]"

lemma validated_env_well_formed_witness:
  "\<exists>e. validateEnv (\<lambda>_. None) demoBootEnv = Inr e \<and> ev_RPC_TIMEOUT_MS e = 10 \<and> wfEnv e"
proof -
  have "(case validateEnv (\<lambda>_. None) demoBootEnv of Inr e \<Rightarrow> ev_RPC_TIMEOUT_MS e = 10 | Inl _ \<Rightarrow> False)" by code_simp
  then obtain e where e: "validateEnv (\<lambda>_. None) demoBootEnv = Inr e" "ev_RPC_TIMEOUT_MS e = 10" by (simp split: sum.splits)
  then show ?thesis using validated_env_well_formed[OF e(1)] by simp
qed

text \<open>The old name of the mint does not help a stack that spells the new one as empty: the boot logs that it
  is deprecated and then fails for the want of the new one.\<close>

lemma empty_mint_shadows_old_name:
  assumes "env ''ACCEPTED_MINT'' = Some []" "isSet (env ''HEXUSDC_MINT'')"
  shows "warnsOldMintName env \<and> ''ACCEPTED_MINT'' \<in> set (missingKeys env) \<and> \<not> isOk (validateEnv dp env)"
proof -
  have "acceptedMint env = Some []" by (simp add: acceptedMint_def assms(1))
  then have m: "''ACCEPTED_MINT'' \<in> set (missingKeys env)" by (simp add: missingKeys_def REQUIRED_KEYS_def isSet_def)
  then have "missingKeys env \<noteq> []" by force
  then show ?thesis using m assms by (simp add: validateEnv_def warnsOldMintName_def isSet_def)
qed

end
