(* ===== verification/Admin.thy ===== *)
theory Admin
  imports Config_Laws Money
begin

text \<open>
  The admin command line: its parser (\<open>admin/args.ts\<close>), the choice of the signing key
  (\<open>admin/squads.ts\<close>: \<open>adminMode\<close>) and the Ledger selector (\<open>admin/ledger.ts\<close>).

  As in \<open>Config\<close>, \<open>pk\<close> decodes a base58 key and \<open>dateParse\<close> is \<open>Date.parse\<close>; \<open>parseUrl\<close> is the platform's
  URL parser. What a command does to the chain is in \<open>Admin_Run\<close>.
\<close>

section \<open>Commands\<close>

record set_params_input =
  ap_epochSeconds :: "int option"
  ap_epochAnchor :: "int option"
  ap_roundSeconds :: "int option"
  ap_closeBuffer :: "int option"
  ap_vrfTimeout :: "int option"
  ap_minDeposit :: "int option"
  ap_houseCutBps :: "int option"
  ap_minJackpot :: "int option"
  ap_registrationWindow :: "int option"
  ap_payoutTimeout :: "int option"
  ap_baseRateBps :: "int option"
  ap_ticketsPerUsdc :: "int option"
  ap_bonusCapBps :: "int option"

definition NO_PARAMS :: set_params_input where
  "NO_PARAMS = \<lparr>ap_epochSeconds = None, ap_epochAnchor = None, ap_roundSeconds = None, ap_closeBuffer = None,
     ap_vrfTimeout = None, ap_minDeposit = None, ap_houseCutBps = None, ap_minJackpot = None,
     ap_registrationWindow = None, ap_payoutTimeout = None, ap_baseRateBps = None, ap_ticketsPerUsdc = None,
     ap_bonusCapBps = None\<rparr>"

datatype feature = Game | Jackpot

datatype admin_command =
    CmdPause | CmdUnpause | CmdPauseFeature feature | CmdStartFeature feature
  | CmdFundJackpot int | CmdFundYield int | CmdGrantTickets pubkey int
  | CmdSetParams set_params_input
  | CmdWithdrawPrincipal string
  | CmdSetOperator pubkey | CmdProposeAdmin pubkey | CmdAcceptAdmin
  | CmdCreateInvite (maxUses: int) (owner: "pubkey option") (count: int)
  | CmdPrincipalOut | CmdReturnPrincipal string
  | CmdShutdown int | CmdEmergencyCrank int | CmdSweepHouse
  | CmdVoidRound int | CmdRolloverEpoch int

definition DEFAULT_EMERGENCY_CRANK_BATCH :: int where "DEFAULT_EMERGENCY_CRANK_BATCH = 5"

definition ADMIN_USAGE :: string where
  "ADMIN_USAGE = joinWith [CHR 10] [''usage: admin <command> [flags]'',
    ''  set-params [--epoch-seconds N] [--epoch-anchor ISO8601] [--round-seconds N] [--close-buffer N] [--vrf-timeout N] [--min-deposit N] [--house-cut-bps N] [--min-jackpot USDC] [--registration-window N] [--payout-timeout N] [--base-rate-bps N] [--tickets-per-usdc N] [--bonus-cap-bps N]'',
    ''  pause'', ''  unpause'',
    ''  pause-game | pause-jackpot   (operator or admin)'',
    ''  start-game | start-jackpot   (admin only)'',
    ''  fund-jackpot --amount N   (N is raw atomic hexUSDC, 6 decimals)'',
    ''  fund-yield --amount N   (N is raw atomic hexUSDC, 6 decimals)'',
    ''  grant-tickets --owner PUBKEY --amount N   (admin path, uncapped; N is a whole number of tickets)'',
    ''  withdraw-principal --amount USDC   (whole USDC, up to 6 decimal places)'',
    ''  set-operator --key PUBKEY'', ''  propose-admin --key PUBKEY'', ''  accept-admin'',
    ''  create-invite [--max-uses N] [--owner PUBKEY] [--count K]   (max-uses defaults to '' @ showInt INVITE_CODE_MAX_USES @ '')'',
    ''  principal-out'',
    ''  return-principal --amount USDC   (whole USDC, up to 6 decimal places)'',
    ''  shutdown --confirm POOL_ID   (irreversible; POOL_ID must match the configured pool)'',
    ''  emergency-crank [--batch N]   (permissionless; N players per transaction, default '' @ showInt DEFAULT_EMERGENCY_CRANK_BATCH @ '')'',
    ''  sweep-house'',
    ''  void-round --round N   (permissionless; Open or Requested round past vrf_timeout)'',
    ''  rollover-epoch --epoch N   (permissionless; Registering, Drawing or Drawn epoch past its timeout)'']"

section \<open>Flag values\<close>

definition positiveInt :: "string \<Rightarrow> string \<Rightarrow> int res" where
  "positiveInt flag raw =
    (case safeIn raw 1 of Some v \<Rightarrow> Inr v | None \<Rightarrow> Inl (flagMust flag ''a positive whole number'' raw))"

definition nonNegativeInt :: "string \<Rightarrow> string \<Rightarrow> int res" where
  "nonNegativeInt flag raw =
    (case safeIn raw 0 of Some v \<Rightarrow> Inr v | None \<Rightarrow> Inl (flagMust flag ''a non-negative whole number'' raw))"

definition positiveBigInt :: "string \<Rightarrow> string \<Rightarrow> int res" where
  "positiveBigInt flag raw =
    (case digitText raw of
       Some v \<Rightarrow> if v \<le> 0 then Inl (flagMust flag ''a positive whole number'' raw) else Inr v
     | None \<Rightarrow> Inl (flagMust flag ''a positive whole number'' raw))"

definition nonNegativeBigInt :: "string \<Rightarrow> string \<Rightarrow> int res" where
  "nonNegativeBigInt flag raw =
    (case digitText raw of Some v \<Rightarrow> Inr v | None \<Rightarrow> Inl (flagMust flag ''a non-negative whole number'' raw))"

definition ticketsPerUsdc :: "string \<Rightarrow> string \<Rightarrow> int res" where
  "ticketsPerUsdc flag raw =
    (case safeIn raw 1 of
       Some v \<Rightarrow> if v > 65535 then Inl (flagMust flag ''a whole number from 1 to 65535'' raw) else Inr v
     | None \<Rightarrow> Inl (flagMust flag ''a whole number from 1 to 65535'' raw))"

text \<open>\<open>/^\d+(\.\d{1,6})?$/\<close>, and not zero.\<close>

definition isUsdcText :: "string \<Rightarrow> bool" where
  "isUsdcText raw =
    (let whole = takeWhile isDigit raw; rest = dropWhile isDigit raw
     in whole \<noteq> [] \<and> (rest = [] \<or> hd rest = CHR ''.'' \<and> tl rest \<noteq> [] \<and> length (tl rest) \<le> 6 \<and> list_all isDigit (tl rest)))"

definition usdcAmount :: "string \<Rightarrow> string \<Rightarrow> string res" where
  "usdcAmount flag raw =
    (if \<not> isUsdcText raw \<or> numberOf raw = Finite 0
     then Inl (flagMust flag ''a positive amount of USDC with up to 6 decimal places'' raw) else Inr raw)"

definition atomicUsdc :: "string \<Rightarrow> nat \<Rightarrow> int res" where
  "atomicUsdc amount decimals =
    (let parts = splitOn (CHR ''.'') amount;
         whole = (case parts of w # _ \<Rightarrow> w | [] \<Rightarrow> ''0'');
         fraction = (case parts of _ # f # _ \<Rightarrow> f | _ \<Rightarrow> [])
     in if length fraction > decimals
        then Inl (''--amount '' @ amount @ '' has more decimal places than the mint's '' @ showNat decimals)
        else bigIntOf (whole @ padEnd decimals fraction))"

definition checkRegistrationWindow :: "int \<Rightarrow> int \<Rightarrow> unit res" where
  "checkRegistrationWindow window epochSeconds =
    (if window \<ge> epochSeconds
     then Inl (''--registration-window must be under the '' @ showInt epochSeconds @ ''s epoch, got '' @ showInt window)
     else Inr ())"

definition rejectExtra :: "string list \<Rightarrow> 'a \<Rightarrow> 'a res" where
  "rejectExtra rest c =
    (case rest of [] \<Rightarrow> Inr c
     | a # _ \<Rightarrow> Inl (''unexpected argument '' @ [CHR 34] @ a @ [CHR 34, CHR 10] @ ADMIN_USAGE))"

definition needs :: "string \<Rightarrow> string \<Rightarrow> string" where
  "needs command flag = command @ '' needs --'' @ flag @ [CHR 10] @ ADMIN_USAGE"

definition strictArgs :: "string list \<Rightarrow> string list \<Rightarrow> opt_values res" where
  "strictArgs names rest =
    (case parseArgs (stringOptions names) rest Map.empty of None \<Rightarrow> Inl ADMIN_USAGE | Some vs \<Rightarrow> Inr vs)"

definition textFlag :: "string \<Rightarrow> opt_values \<Rightarrow> string \<Rightarrow> string res" where
  "textFlag command vs flag = (case vs flag of Some (TextValue v) \<Rightarrow> Inr v | _ \<Rightarrow> Inl (needs command flag))"

definition oneFlag :: "string \<Rightarrow> string \<Rightarrow> string list \<Rightarrow> string res" where
  "oneFlag command flag rest = rbind (strictArgs [flag] rest) (\<lambda>vs. textFlag command vs flag)"

text \<open>A flag with a value for when it is not given.\<close>

definition flagOr :: "opt_values \<Rightarrow> string \<Rightarrow> (string \<Rightarrow> string \<Rightarrow> 'v res) \<Rightarrow> 'v \<Rightarrow> 'v res" where
  "flagOr vs flag parse d = (case vs flag of Some (TextValue raw) \<Rightarrow> parse flag raw | _ \<Rightarrow> Inr d)"

section \<open>The parser\<close>

definition SET_PARAMS_FLAGS :: "string list" where
  "SET_PARAMS_FLAGS = [''epoch-seconds'', ''epoch-anchor'', ''round-seconds'', ''close-buffer'', ''vrf-timeout'',
     ''min-deposit'', ''house-cut-bps'', ''min-jackpot'', ''registration-window'', ''payout-timeout'',
     ''base-rate-bps'', ''tickets-per-usdc'', ''bonus-cap-bps'']"

definition setParamsFlags :: "(string \<Rightarrow> int option) \<Rightarrow> opt_values \<Rightarrow> set_params_input \<Rightarrow> set_params_input res" where
  "setParamsFlags dateParse vs p0 =
    rbind (withFlag vs ''epoch-seconds'' positiveInt (\<lambda>v. ap_epochSeconds_update (\<lambda>_. Some v)) p0) (\<lambda>p1.
    rbind (withFlag vs ''epoch-anchor'' (isoSeconds dateParse) (\<lambda>v. ap_epochAnchor_update (\<lambda>_. Some v)) p1) (\<lambda>p2.
    rbind (withFlag vs ''round-seconds'' positiveInt (\<lambda>v. ap_roundSeconds_update (\<lambda>_. Some v)) p2) (\<lambda>p3.
    rbind (withFlag vs ''close-buffer'' nonNegativeInt (\<lambda>v. ap_closeBuffer_update (\<lambda>_. Some v)) p3) (\<lambda>p4.
    rbind (withFlag vs ''vrf-timeout'' positiveInt (\<lambda>v. ap_vrfTimeout_update (\<lambda>_. Some v)) p4) (\<lambda>p5.
    rbind (withFlag vs ''min-deposit'' nonNegativeBigInt (\<lambda>v. ap_minDeposit_update (\<lambda>_. Some v)) p5) (\<lambda>p6.
    rbind (withFlag vs ''house-cut-bps'' houseCutBps (\<lambda>v. ap_houseCutBps_update (\<lambda>_. Some v)) p6) (\<lambda>p7.
    rbind (withFlag vs ''min-jackpot'' wholeUsdc (\<lambda>v. ap_minJackpot_update (\<lambda>_. Some v)) p7) (\<lambda>p8.
    rbind (withFlag vs ''registration-window'' nonNegativeInt (\<lambda>v. ap_registrationWindow_update (\<lambda>_. Some v)) p8) (\<lambda>p9.
    rbind (withFlag vs ''payout-timeout'' positiveInt (\<lambda>v. ap_payoutTimeout_update (\<lambda>_. Some v)) p9) (\<lambda>p10.
    rbind (withFlag vs ''base-rate-bps'' houseCutBps (\<lambda>v. ap_baseRateBps_update (\<lambda>_. Some v)) p10) (\<lambda>p11.
    rbind (withFlag vs ''tickets-per-usdc'' ticketsPerUsdc (\<lambda>v. ap_ticketsPerUsdc_update (\<lambda>_. Some v)) p11) (\<lambda>p12.
      withFlag vs ''bonus-cap-bps'' houseCutBps (\<lambda>v. ap_bonusCapBps_update (\<lambda>_. Some v)) p12))))))))))))"

definition parseSetParams :: "(string \<Rightarrow> int option) \<Rightarrow> string list \<Rightarrow> admin_command res" where
  "parseSetParams dateParse rest =
    rbind (strictArgs SET_PARAMS_FLAGS rest) (\<lambda>vs.
    rbind (setParamsFlags dateParse vs NO_PARAMS) (\<lambda>p.
      if p = NO_PARAMS then Inl (''set-params needs at least one flag'' @ [CHR 10] @ ADMIN_USAGE)
      else case (ap_registrationWindow p, ap_epochSeconds p) of
             (Some w, Some e) \<Rightarrow> rbind (checkRegistrationWindow w e) (\<lambda>_. Inr (CmdSetParams p))
           | _ \<Rightarrow> Inr (CmdSetParams p)))"

definition parseAdminCommand ::
    "(string \<Rightarrow> pubkey option) \<Rightarrow> (string \<Rightarrow> int option) \<Rightarrow> string list \<Rightarrow> admin_command res" where
  "parseAdminCommand pk dateParse argv =
    (case argv of [] \<Rightarrow> Inl ADMIN_USAGE | c # rest \<Rightarrow>
     if c = ''pause'' then rejectExtra rest CmdPause
     else if c = ''unpause'' then rejectExtra rest CmdUnpause
     else if c = ''pause-game'' then rejectExtra rest (CmdPauseFeature Game)
     else if c = ''pause-jackpot'' then rejectExtra rest (CmdPauseFeature Jackpot)
     else if c = ''start-game'' then rejectExtra rest (CmdStartFeature Game)
     else if c = ''start-jackpot'' then rejectExtra rest (CmdStartFeature Jackpot)
     else if c = ''fund-jackpot'' then
       rbind (oneFlag c ''amount'' rest) (\<lambda>raw. rbind (positiveBigInt ''amount'' raw) (\<lambda>n. Inr (CmdFundJackpot n)))
     else if c = ''fund-yield'' then
       rbind (oneFlag c ''amount'' rest) (\<lambda>raw. rbind (positiveBigInt ''amount'' raw) (\<lambda>n. Inr (CmdFundYield n)))
     else if c = ''grant-tickets'' then
       rbind (strictArgs [''owner'', ''amount''] rest) (\<lambda>vs.
       rbind (textFlag c vs ''owner'') (\<lambda>owner.
       rbind (textFlag c vs ''amount'') (\<lambda>amount.
       rbind (pubkeyFlag pk ''owner'' owner) (\<lambda>k.
       rbind (positiveBigInt ''amount'' amount) (\<lambda>n. Inr (CmdGrantTickets k n))))))
     else if c = ''withdraw-principal'' then
       rbind (oneFlag c ''amount'' rest) (\<lambda>raw. rbind (usdcAmount ''amount'' raw) (\<lambda>a. Inr (CmdWithdrawPrincipal a)))
     else if c = ''set-operator'' then
       rbind (oneFlag c ''key'' rest) (\<lambda>raw. rbind (pubkeyFlag pk ''key'' raw) (\<lambda>k. Inr (CmdSetOperator k)))
     else if c = ''propose-admin'' then
       rbind (oneFlag c ''key'' rest) (\<lambda>raw. rbind (pubkeyFlag pk ''key'' raw) (\<lambda>k. Inr (CmdProposeAdmin k)))
     else if c = ''accept-admin'' then rejectExtra rest CmdAcceptAdmin
     else if c = ''set-params'' then parseSetParams dateParse rest
     else if c = ''create-invite'' then
       rbind (strictArgs [''max-uses'', ''owner'', ''count''] rest) (\<lambda>vs.
       rbind (flagOr vs ''max-uses'' positiveInt INVITE_CODE_MAX_USES) (\<lambda>uses.
       rbind (flagOr vs ''count'' positiveInt 1) (\<lambda>count.
       rbind (flagOr vs ''owner'' (\<lambda>f raw. rbind (pubkeyFlag pk f raw) (\<lambda>k. Inr (Some k))) None) (\<lambda>own.
         Inr (CmdCreateInvite uses own count)))))
     else if c = ''principal-out'' then rejectExtra rest CmdPrincipalOut
     else if c = ''return-principal'' then
       rbind (oneFlag c ''amount'' rest) (\<lambda>raw. rbind (usdcAmount ''amount'' raw) (\<lambda>a. Inr (CmdReturnPrincipal a)))
     else if c = ''shutdown'' then
       rbind (oneFlag c ''confirm'' rest) (\<lambda>raw. rbind (nonNegativeBigInt ''confirm'' raw) (\<lambda>n. Inr (CmdShutdown n)))
     else if c = ''emergency-crank'' then
       rbind (strictArgs [''batch''] rest) (\<lambda>vs.
       rbind (flagOr vs ''batch'' positiveInt DEFAULT_EMERGENCY_CRANK_BATCH) (\<lambda>n. Inr (CmdEmergencyCrank n)))
     else if c = ''sweep-house'' then rejectExtra rest CmdSweepHouse
     else if c = ''void-round'' then
       rbind (oneFlag c ''round'' rest) (\<lambda>raw. rbind (nonNegativeBigInt ''round'' raw) (\<lambda>n. Inr (CmdVoidRound n)))
     else if c = ''rollover-epoch'' then
       rbind (oneFlag c ''epoch'' rest) (\<lambda>raw. rbind (nonNegativeBigInt ''epoch'' raw) (\<lambda>n. Inr (CmdRolloverEpoch n)))
     else Inl ADMIN_USAGE)"

section \<open>The signing key\<close>

record admin_mode =
  am_signer :: pubkey
  am_multisig :: bool

definition adminMode :: "(string \<Rightarrow> pubkey option) \<Rightarrow> string option \<Rightarrow> pubkey \<Rightarrow> admin_mode res" where
  "adminMode pk adminAddress localKey =
    (if \<not> isSet adminAddress then Inr \<lparr>am_signer = localKey, am_multisig = False\<rparr>
     else case pk (the adminAddress) of
            None \<Rightarrow> Inl (''ADMIN_ADDRESS must be a base58 pubkey'' @ got (the adminAddress))
          | Some signer \<Rightarrow> Inr \<lparr>am_signer = signer, am_multisig = signer \<noteq> localKey\<rparr>)"

record url =
  url_protocol :: string
  url_hostname :: string
  url_pathname :: string
  url_username :: string
  url_password :: string
  url_key :: "string option"

datatype keypair_selector = LocalKeypair | LedgerAccount js_number

definition parseAdminKeypair :: "(string \<Rightarrow> url option) \<Rightarrow> string option \<Rightarrow> keypair_selector res" where
  "parseAdminKeypair parseUrl raw =
    (case raw of None \<Rightarrow> Inr LocalKeypair
     | Some r \<Rightarrow>
       (case parseUrl r of None \<Rightarrow> Inr LocalKeypair
        | Some u \<Rightarrow>
          if url_protocol u \<noteq> ''usb:'' then Inr LocalKeypair
          else if map lowerChar (url_hostname u) \<noteq> ''ledger'' \<or> url_pathname u \<notin> {[], ''/''} \<or> url_username u \<noteq> []
                  \<or> url_password u \<noteq> []
          then Inl (''ADMIN_KEYPAIR '' @ [CHR 34] @ r @ [CHR 34] @ '' starts with usb:// but is not a valid usb://ledger[?key=N] URI; check for a typo'')
          else (case url_key u of
                  None \<Rightarrow> Inr (LedgerAccount (Finite 0))
                | Some k \<Rightarrow> if digitText k = None
                    then Inl (''ADMIN_KEYPAIR's ?key must be a non-negative whole number'' @ got k)
                    else Inr (LedgerAccount (numberOf k)))))"

definition ledgerDerivationPath :: "(js_number \<Rightarrow> string) \<Rightarrow> js_number \<Rightarrow> string" where
  "ledgerDerivationPath showNumber account = ''44'/501'/'' @ showNumber account @ [CHR 39]"

definition checkLedgerAddress :: "(pubkey \<Rightarrow> string) \<Rightarrow> pubkey \<Rightarrow> string option \<Rightarrow> unit res" where
  "checkLedgerAddress b58 key adminAddress =
    (if \<not> isSet adminAddress \<or> b58 key = the adminAddress then Inr ()
     else Inl (''Ledger key '' @ b58 key @ '' does not match ADMIN_ADDRESS '' @ the adminAddress
             @ ''; check the account (?key=N) or the device''))"

end
