(* ===== verification/Admin_Laws.thy ===== *)
theory Admin_Laws
  imports Admin
begin

text \<open>
  What holds of the admin command line: a command that parses is well formed, every well-formed command can
  be typed and is read back as itself, and an amount of USDC means on the command line what it means in
  the browser.
\<close>

section \<open>Commands that parse are well formed\<close>

definition inRange :: "int \<Rightarrow> int \<Rightarrow> int option \<Rightarrow> bool" where
  "inRange lo hi v = (case v of None \<Rightarrow> True | Some x \<Rightarrow> lo \<le> x \<and> x \<le> hi)"

definition noLess :: "int \<Rightarrow> int option \<Rightarrow> bool" where
  "noLess lo v = (case v of None \<Rightarrow> True | Some x \<Rightarrow> lo \<le> x)"

definition wfParamFields :: "set_params_input \<Rightarrow> bool" where
  "wfParamFields p =
    (inRange 1 MAX_SAFE_INTEGER (ap_epochSeconds p) \<and> noLess 0 (ap_epochAnchor p) \<and>
     inRange 1 MAX_SAFE_INTEGER (ap_roundSeconds p) \<and> inRange 0 MAX_SAFE_INTEGER (ap_closeBuffer p) \<and>
     inRange 1 MAX_SAFE_INTEGER (ap_vrfTimeout p) \<and> noLess 0 (ap_minDeposit p) \<and>
     inRange 0 10000 (ap_houseCutBps p) \<and> noLess 0 (ap_minJackpot p) \<and>
     (case ap_minJackpot p of None \<Rightarrow> True | Some x \<Rightarrow> USDC_SCALE dvd x) \<and>
     inRange 0 MAX_SAFE_INTEGER (ap_registrationWindow p) \<and> inRange 1 MAX_SAFE_INTEGER (ap_payoutTimeout p) \<and>
     inRange 0 10000 (ap_baseRateBps p) \<and> inRange 1 65535 (ap_ticketsPerUsdc p) \<and> inRange 0 10000 (ap_bonusCapBps p))"

definition windowFits :: "set_params_input \<Rightarrow> bool" where
  "windowFits p = (case (ap_registrationWindow p, ap_epochSeconds p) of (Some w, Some e) \<Rightarrow> w < e | _ \<Rightarrow> True)"

fun wfCommand :: "admin_command \<Rightarrow> bool" where
  "wfCommand (CmdFundJackpot n) = (0 < n)"
| "wfCommand (CmdFundYield n) = (0 < n)"
| "wfCommand (CmdGrantTickets k n) = (0 < n)"
| "wfCommand (CmdSetParams p) = (p \<noteq> NO_PARAMS \<and> wfParamFields p \<and> windowFits p)"
| "wfCommand (CmdWithdrawPrincipal a) = (isUsdcText a \<and> numberOf a \<noteq> Finite 0)"
| "wfCommand (CmdReturnPrincipal a) = (isUsdcText a \<and> numberOf a \<noteq> Finite 0)"
| "wfCommand (CmdCreateInvite u k n) = (1 \<le> u \<and> u \<le> MAX_SAFE_INTEGER \<and> 1 \<le> n \<and> n \<le> MAX_SAFE_INTEGER)"
| "wfCommand (CmdShutdown n) = (0 \<le> n)"
| "wfCommand (CmdEmergencyCrank n) = (1 \<le> n \<and> n \<le> MAX_SAFE_INTEGER)"
| "wfCommand (CmdVoidRound n) = (0 \<le> n)"
| "wfCommand (CmdRolloverEpoch n) = (0 \<le> n)"
| "wfCommand c = True"

lemma flag_ranges:
  "positiveInt f raw = Inr v \<Longrightarrow> 1 \<le> v \<and> v \<le> MAX_SAFE_INTEGER"
  "nonNegativeInt f raw = Inr v \<Longrightarrow> 0 \<le> v \<and> v \<le> MAX_SAFE_INTEGER"
  "ticketsPerUsdc f raw = Inr v \<Longrightarrow> 1 \<le> v \<and> v \<le> 65535"
  using safeIn_range
  by (fastforce simp: positiveInt_def nonNegativeInt_def ticketsPerUsdc_def split: option.splits if_splits)+

lemma big_ranges:
  "positiveBigInt f raw = Inr v \<Longrightarrow> 0 < v"
  "nonNegativeBigInt f raw = Inr v \<Longrightarrow> 0 \<le> v"
  using digitText_nonneg
  by (auto simp: positiveBigInt_def nonNegativeBigInt_def split: option.splits if_splits)

lemma paramFlag_wf:
  assumes "wfParamFields p"
  shows "withFlag vs f positiveInt (\<lambda>v. ap_epochSeconds_update (\<lambda>_. Some v)) p = Inr q \<Longrightarrow> wfParamFields q"
    "withFlag vs f (isoSeconds dp) (\<lambda>v. ap_epochAnchor_update (\<lambda>_. Some v)) p = Inr q \<Longrightarrow> wfParamFields q"
    "withFlag vs f positiveInt (\<lambda>v. ap_roundSeconds_update (\<lambda>_. Some v)) p = Inr q \<Longrightarrow> wfParamFields q"
    "withFlag vs f nonNegativeInt (\<lambda>v. ap_closeBuffer_update (\<lambda>_. Some v)) p = Inr q \<Longrightarrow> wfParamFields q"
    "withFlag vs f positiveInt (\<lambda>v. ap_vrfTimeout_update (\<lambda>_. Some v)) p = Inr q \<Longrightarrow> wfParamFields q"
    "withFlag vs f nonNegativeBigInt (\<lambda>v. ap_minDeposit_update (\<lambda>_. Some v)) p = Inr q \<Longrightarrow> wfParamFields q"
    "withFlag vs f houseCutBps (\<lambda>v. ap_houseCutBps_update (\<lambda>_. Some v)) p = Inr q \<Longrightarrow> wfParamFields q"
    "withFlag vs f wholeUsdc (\<lambda>v. ap_minJackpot_update (\<lambda>_. Some v)) p = Inr q \<Longrightarrow> wfParamFields q"
    "withFlag vs f nonNegativeInt (\<lambda>v. ap_registrationWindow_update (\<lambda>_. Some v)) p = Inr q \<Longrightarrow> wfParamFields q"
    "withFlag vs f positiveInt (\<lambda>v. ap_payoutTimeout_update (\<lambda>_. Some v)) p = Inr q \<Longrightarrow> wfParamFields q"
    "withFlag vs f houseCutBps (\<lambda>v. ap_baseRateBps_update (\<lambda>_. Some v)) p = Inr q \<Longrightarrow> wfParamFields q"
    "withFlag vs f ticketsPerUsdc (\<lambda>v. ap_ticketsPerUsdc_update (\<lambda>_. Some v)) p = Inr q \<Longrightarrow> wfParamFields q"
    "withFlag vs f houseCutBps (\<lambda>v. ap_bonusCapBps_update (\<lambda>_. Some v)) p = Inr q \<Longrightarrow> wfParamFields q"
  by (rule withFlag_keeps[where P = wfParamFields], assumption, rule assms,
      use assms in \<open>force simp: wfParamFields_def inRange_def noLess_def
        dest: flag_ranges big_ranges houseCutBps_range wholeUsdc_range isoSeconds_range\<close>)+

lemma setParamsFlags_wf:
  assumes "setParamsFlags dp vs p = Inr q" "wfParamFields p"
  shows "wfParamFields q"
proof -
  obtain p1 p2 p3 p4 p5 p6 p7 p8 p9 p10 p11 p12 where s:
      "withFlag vs ''epoch-seconds'' positiveInt (\<lambda>v. ap_epochSeconds_update (\<lambda>_. Some v)) p = Inr p1"
      "withFlag vs ''epoch-anchor'' (isoSeconds dp) (\<lambda>v. ap_epochAnchor_update (\<lambda>_. Some v)) p1 = Inr p2"
      "withFlag vs ''round-seconds'' positiveInt (\<lambda>v. ap_roundSeconds_update (\<lambda>_. Some v)) p2 = Inr p3"
      "withFlag vs ''close-buffer'' nonNegativeInt (\<lambda>v. ap_closeBuffer_update (\<lambda>_. Some v)) p3 = Inr p4"
      "withFlag vs ''vrf-timeout'' positiveInt (\<lambda>v. ap_vrfTimeout_update (\<lambda>_. Some v)) p4 = Inr p5"
      "withFlag vs ''min-deposit'' nonNegativeBigInt (\<lambda>v. ap_minDeposit_update (\<lambda>_. Some v)) p5 = Inr p6"
      "withFlag vs ''house-cut-bps'' houseCutBps (\<lambda>v. ap_houseCutBps_update (\<lambda>_. Some v)) p6 = Inr p7"
      "withFlag vs ''min-jackpot'' wholeUsdc (\<lambda>v. ap_minJackpot_update (\<lambda>_. Some v)) p7 = Inr p8"
      "withFlag vs ''registration-window'' nonNegativeInt (\<lambda>v. ap_registrationWindow_update (\<lambda>_. Some v)) p8 = Inr p9"
      "withFlag vs ''payout-timeout'' positiveInt (\<lambda>v. ap_payoutTimeout_update (\<lambda>_. Some v)) p9 = Inr p10"
      "withFlag vs ''base-rate-bps'' houseCutBps (\<lambda>v. ap_baseRateBps_update (\<lambda>_. Some v)) p10 = Inr p11"
      "withFlag vs ''tickets-per-usdc'' ticketsPerUsdc (\<lambda>v. ap_ticketsPerUsdc_update (\<lambda>_. Some v)) p11 = Inr p12"
      "withFlag vs ''bonus-cap-bps'' houseCutBps (\<lambda>v. ap_bonusCapBps_update (\<lambda>_. Some v)) p12 = Inr q"
    using assms(1) unfolding setParamsFlags_def rbind_Inr_iff by (elim exE conjE) (rule that)
  have "wfParamFields p7"
    using paramFlag_wf(7)[OF paramFlag_wf(6)[OF paramFlag_wf(5)[OF paramFlag_wf(4)[OF paramFlag_wf(3)[OF paramFlag_wf(2)[OF
      paramFlag_wf(1)[OF assms(2) s(1)] s(2)] s(3)] s(4)] s(5)] s(6)] s(7)] .
  from paramFlag_wf(13)[OF paramFlag_wf(12)[OF paramFlag_wf(11)[OF paramFlag_wf(10)[OF paramFlag_wf(9)[OF
      paramFlag_wf(8)[OF this s(8)] s(9)] s(10)] s(11)] s(12)] s(13)] show ?thesis .
qed

lemma parseSetParams_wf: "parseSetParams dp rest = Inr c \<Longrightarrow> wfCommand c"
proof -
  assume a: "parseSetParams dp rest = Inr c"
  then obtain vs p where p: "setParamsFlags dp vs NO_PARAMS = Inr p" "p \<noteq> NO_PARAMS" "c = CmdSetParams p" "windowFits p"
    by (auto simp: parseSetParams_def rbind_Inr_iff checkRegistrationWindow_def windowFits_def split: option.splits if_splits)
  moreover have "wfParamFields NO_PARAMS" by (simp add: wfParamFields_def NO_PARAMS_def inRange_def noLess_def)
  ultimately show ?thesis using setParamsFlags_wf by simp
qed

lemma rejectExtra_Inr: "rejectExtra rest c = Inr d \<longleftrightarrow> rest = [] \<and> d = c"
  by (auto simp: rejectExtra_def split: list.splits)

lemma usdcAmount_Inr: "usdcAmount f raw = Inr a \<longleftrightarrow> isUsdcText raw \<and> numberOf raw \<noteq> Finite 0 \<and> a = raw"
  by (auto simp: usdcAmount_def)

lemma usdcAmount_ok: "isUsdcText raw \<Longrightarrow> numberOf raw \<noteq> Finite 0 \<Longrightarrow> usdcAmount f raw = Inr raw"
  by (simp add: usdcAmount_def)

lemma flagOr_range:
  "flagOr vs f positiveInt d = Inr v \<Longrightarrow> 1 \<le> d \<Longrightarrow> d \<le> MAX_SAFE_INTEGER \<Longrightarrow> 1 \<le> v \<and> v \<le> MAX_SAFE_INTEGER"
  by (auto simp: flagOr_def split: option.splits opt_value.splits dest: flag_ranges)

lemma ifInrE:
  assumes "(if b then x else y) = Inr c"
  obtains "b" "x = Inr c" | "\<not> b" "y = Inr c"
  using assms by (auto split: if_splits)


section \<open>Every command can be typed\<close>

definition optFlag :: "string \<Rightarrow> ('v \<Rightarrow> string) \<Rightarrow> 'v option \<Rightarrow> (string \<times> string) list" where
  "optFlag n sh v = (case v of None \<Rightarrow> [] | Some x \<Rightarrow> [(n, sh x)])"

definition showUsdc :: "int \<Rightarrow> string" where "showUsdc n = showInt (n div USDC_SCALE)"

definition paramFlags :: "(int \<Rightarrow> string) \<Rightarrow> set_params_input \<Rightarrow> (string \<times> string) list" where
  "paramFlags stamp p =
    optFlag ''epoch-seconds'' showInt (ap_epochSeconds p) @ optFlag ''epoch-anchor'' stamp (ap_epochAnchor p) @
    optFlag ''round-seconds'' showInt (ap_roundSeconds p) @ optFlag ''close-buffer'' showInt (ap_closeBuffer p) @
    optFlag ''vrf-timeout'' showInt (ap_vrfTimeout p) @ optFlag ''min-deposit'' showInt (ap_minDeposit p) @
    optFlag ''house-cut-bps'' showInt (ap_houseCutBps p) @ optFlag ''min-jackpot'' showUsdc (ap_minJackpot p) @
    optFlag ''registration-window'' showInt (ap_registrationWindow p) @ optFlag ''payout-timeout'' showInt (ap_payoutTimeout p) @
    optFlag ''base-rate-bps'' showInt (ap_baseRateBps p) @ optFlag ''tickets-per-usdc'' showInt (ap_ticketsPerUsdc p) @
    optFlag ''bonus-cap-bps'' showInt (ap_bonusCapBps p)"

fun commandLine :: "(pubkey \<Rightarrow> string) \<Rightarrow> (int \<Rightarrow> string) \<Rightarrow> admin_command \<Rightarrow> string list" where
  "commandLine b58 stamp CmdPause = [''pause'']"
| "commandLine b58 stamp CmdUnpause = [''unpause'']"
| "commandLine b58 stamp (CmdPauseFeature Game) = [''pause-game'']"
| "commandLine b58 stamp (CmdPauseFeature Jackpot) = [''pause-jackpot'']"
| "commandLine b58 stamp (CmdStartFeature Game) = [''start-game'']"
| "commandLine b58 stamp (CmdStartFeature Jackpot) = [''start-jackpot'']"
| "commandLine b58 stamp (CmdFundJackpot n) = ''fund-jackpot'' # flagArgs [(''amount'', showInt n)]"
| "commandLine b58 stamp (CmdFundYield n) = ''fund-yield'' # flagArgs [(''amount'', showInt n)]"
| "commandLine b58 stamp (CmdGrantTickets k n) = ''grant-tickets'' # flagArgs [(''owner'', b58 k), (''amount'', showInt n)]"
| "commandLine b58 stamp (CmdSetParams p) = ''set-params'' # flagArgs (paramFlags stamp p)"
| "commandLine b58 stamp (CmdWithdrawPrincipal a) = ''withdraw-principal'' # flagArgs [(''amount'', a)]"
| "commandLine b58 stamp (CmdSetOperator k) = ''set-operator'' # flagArgs [(''key'', b58 k)]"
| "commandLine b58 stamp (CmdProposeAdmin k) = ''propose-admin'' # flagArgs [(''key'', b58 k)]"
| "commandLine b58 stamp CmdAcceptAdmin = [''accept-admin'']"
| "commandLine b58 stamp (CmdCreateInvite u k n) =
    ''create-invite'' # flagArgs ([(''max-uses'', showInt u), (''count'', showInt n)] @ optFlag ''owner'' b58 k)"
| "commandLine b58 stamp CmdPrincipalOut = [''principal-out'']"
| "commandLine b58 stamp (CmdReturnPrincipal a) = ''return-principal'' # flagArgs [(''amount'', a)]"
| "commandLine b58 stamp (CmdShutdown n) = ''shutdown'' # flagArgs [(''confirm'', showInt n)]"
| "commandLine b58 stamp (CmdEmergencyCrank n) = ''emergency-crank'' # flagArgs [(''batch'', showInt n)]"
| "commandLine b58 stamp CmdSweepHouse = [''sweep-house'']"
| "commandLine b58 stamp (CmdVoidRound n) = ''void-round'' # flagArgs [(''round'', showInt n)]"
| "commandLine b58 stamp (CmdRolloverEpoch n) = ''rollover-epoch'' # flagArgs [(''epoch'', showInt n)]"

lemma showInt_nonneg: "0 \<le> n \<Longrightarrow> showInt n = showNat (nat n)"
  by (simp add: showInt_def)

lemma digits_not_optionLike: "list_all isDigit s \<Longrightarrow> \<not> optionLike s"
  by (cases s) (auto simp: optionLike_def)

lemma showInt_plain [simp]: "0 \<le> n \<Longrightarrow> \<not> optionLike (showInt n)"
  by (simp add: showInt_nonneg digits_not_optionLike showNat_digits)

lemma readers_of_showInt [simp]:
  "0 \<le> n \<Longrightarrow> digitText (showInt n) = Some n"
  "0 \<le> n \<Longrightarrow> n \<le> MAX_SAFE_INTEGER \<Longrightarrow> lo \<le> n \<Longrightarrow> safeIn (showInt n) lo = Some n"
  using safeIn_showNat[of "nat n" lo] by (simp_all add: showInt_nonneg)

lemma flag_readers [simp]:
  "1 \<le> n \<Longrightarrow> n \<le> MAX_SAFE_INTEGER \<Longrightarrow> positiveInt f (showInt n) = Inr n"
  "0 \<le> n \<Longrightarrow> n \<le> MAX_SAFE_INTEGER \<Longrightarrow> nonNegativeInt f (showInt n) = Inr n"
  "0 < n \<Longrightarrow> positiveBigInt f (showInt n) = Inr n"
  "0 \<le> n \<Longrightarrow> nonNegativeBigInt f (showInt n) = Inr n"
  "1 \<le> n \<Longrightarrow> n \<le> 65535 \<Longrightarrow> ticketsPerUsdc f (showInt n) = Inr n"
  "0 \<le> n \<Longrightarrow> n \<le> 10000 \<Longrightarrow> houseCutBps f (showInt n) = Inr n"
  "0 \<le> n \<Longrightarrow> USDC_SCALE dvd n \<Longrightarrow> wholeUsdc f (showUsdc n) = Inr n"
proof -
  show "0 \<le> n \<Longrightarrow> USDC_SCALE dvd n \<Longrightarrow> wholeUsdc f (showUsdc n) = Inr n"
    by (simp add: wholeUsdc_def showUsdc_def USDC_SCALE_def pos_imp_zdiv_nonneg_iff)
qed (simp_all add: positiveInt_def nonNegativeInt_def positiveBigInt_def nonNegativeBigInt_def ticketsPerUsdc_def
      houseCutBps_def MAX_SAFE_INTEGER_def)

lemma usdcText_plain: "isUsdcText a \<Longrightarrow> \<not> optionLike a"
proof -
  assume "isUsdcText a"
  then have "takeWhile isDigit a \<noteq> []" unfolding isUsdcText_def Let_def by blast
  then show ?thesis by (cases a) (auto simp: optionLike_def split: if_splits)
qed

lemma strictArgs_flags:
  assumes "list_all (\<lambda>(n, v). n \<in> set names \<and> \<not> optionLike v) fs" "list_all (\<lambda>n. n \<noteq> [] \<and> CHR ''='' \<notin> set n) names"
  shows "strictArgs names (flagArgs fs) = Inr (map_option TextValue \<circ> map_of (rev fs))"
proof -
  have "stringOptions names n = Some StringOpt" if "n \<in> set names" for n
    using that by (induction names) (auto simp: stringOptions_def)
  then have "list_all (plainFlag (stringOptions names)) fs"
    using assms by (fastforce simp: list_all_iff plainFlag_def)
  from parseArgs_flags[OF this, of "[]" Map.empty] show ?thesis
    by (simp only: strictArgs_def rev_map map_of_map append_Nil2 empty_map_add option.case parseArgs.simps)
qed

lemma oneFlag_flag:
  "f \<noteq> [] \<Longrightarrow> CHR ''='' \<notin> set f \<Longrightarrow> \<not> optionLike v \<Longrightarrow> oneFlag c f (flagArgs [(f, v)]) = Inr v"
  by (simp add: oneFlag_def strictArgs_flags textFlag_def)

lemma map_of_optFlag:
  "map_of (optFlag n sh v @ rest) f = (if f = n \<and> v \<noteq> None then map_option sh v else map_of rest f)"
  "map_of (optFlag n sh v) f = (if f = n then map_option sh v else None)"
  "rev (optFlag n sh v) = optFlag n sh v"
  by (auto simp: optFlag_def split: option.splits)

lemma withFlag_shown:
  assumes "vs f = map_option (TextValue \<circ> sh) v" "\<And>x. v = Some x \<Longrightarrow> parse f (sh x) = Inr x"
    and "upd (\<lambda>_. None) q = q"
  shows "withFlag vs f parse (\<lambda>x. upd (\<lambda>_. Some x)) q = Inr (upd (\<lambda>_. v) q)"
  using assms by (cases v) (simp_all add: withFlag_def)

lemma paramFlags_lookup:
  fixes p stamp
  defines "m \<equiv> map_of (rev (paramFlags stamp p))"
  shows "m ''epoch-seconds'' = map_option showInt (ap_epochSeconds p)" "m ''epoch-anchor'' = map_option stamp (ap_epochAnchor p)"
    "m ''round-seconds'' = map_option showInt (ap_roundSeconds p)" "m ''close-buffer'' = map_option showInt (ap_closeBuffer p)"
    "m ''vrf-timeout'' = map_option showInt (ap_vrfTimeout p)" "m ''min-deposit'' = map_option showInt (ap_minDeposit p)"
    "m ''house-cut-bps'' = map_option showInt (ap_houseCutBps p)" "m ''min-jackpot'' = map_option showUsdc (ap_minJackpot p)"
    "m ''registration-window'' = map_option showInt (ap_registrationWindow p)"
    "m ''payout-timeout'' = map_option showInt (ap_payoutTimeout p)"
    "m ''base-rate-bps'' = map_option showInt (ap_baseRateBps p)" "m ''tickets-per-usdc'' = map_option showInt (ap_ticketsPerUsdc p)"
    "m ''bonus-cap-bps'' = map_option showInt (ap_bonusCapBps p)"
  unfolding m_def paramFlags_def by (simp_all add: map_of_optFlag del: map_of_append)

lemma optFlag_all: "list_all P (optFlag n sh v @ rest) \<longleftrightarrow> (\<forall>x. v = Some x \<longrightarrow> P (n, sh x)) \<and> list_all P rest"
  "list_all P (optFlag n sh v) \<longleftrightarrow> (\<forall>x. v = Some x \<longrightarrow> P (n, sh x))"
  by (auto simp: optFlag_def split: option.splits)

lemma paramBounds:
  assumes "wfParamFields p"
  shows "inRange 1 MAX_SAFE_INTEGER (ap_epochSeconds p)" "inRange 1 MAX_SAFE_INTEGER (ap_roundSeconds p)"
      "inRange 0 MAX_SAFE_INTEGER (ap_closeBuffer p)" "inRange 1 MAX_SAFE_INTEGER (ap_vrfTimeout p)"
      "inRange 0 10000 (ap_houseCutBps p)" "inRange 0 MAX_SAFE_INTEGER (ap_registrationWindow p)"
      "inRange 1 MAX_SAFE_INTEGER (ap_payoutTimeout p)" "inRange 0 10000 (ap_baseRateBps p)"
      "inRange 1 65535 (ap_ticketsPerUsdc p)" "inRange 0 10000 (ap_bonusCapBps p)"
      "noLess 0 (ap_minDeposit p)" "noLess 0 (ap_minJackpot p)"
  using assms unfolding wfParamFields_def by blast+

lemma paramFlags_plain:
  assumes "wfParamFields p" "\<And>s. \<not> optionLike (stamp s)"
  shows "list_all (\<lambda>(n, v). n \<in> set SET_PARAMS_FLAGS \<and> \<not> optionLike v) (paramFlags stamp p)"
proof -
  have plain: "\<forall>x. v = Some x \<longrightarrow> \<not> optionLike (showInt x)" if "inRange lo hi v" "0 \<le> lo" for lo hi v
    using that by (auto simp: inRange_def)
  have plain': "\<forall>x. v = Some x \<longrightarrow> \<not> optionLike (showInt x) \<and> \<not> optionLike (showUsdc x)" if "noLess 0 v" for v
    using that by (auto simp: noLess_def showUsdc_def USDC_SCALE_def pos_imp_zdiv_nonneg_iff)
  note bounds = paramBounds[OF assms(1)]
  show ?thesis unfolding paramFlags_def
    by (simp add: optFlag_all SET_PARAMS_FLAGS_def assms(2) bounds(1-10)[THEN plain] bounds(11,12)[THEN plain', rule_format])
qed

lemma setParamsFlags_shown:
  assumes wf: "wfParamFields p" and stamp: "\<And>s. 0 < s \<Longrightarrow> dp (stamp s) = Some (1000 * s)" and anchor: "ap_epochAnchor p \<noteq> Some 0"
  shows "setParamsFlags dp (map_option TextValue \<circ> map_of (rev (paramFlags stamp p))) NO_PARAMS = Inr p"
proof -
  define vs where "vs = map_option TextValue \<circ> map_of (rev (paramFlags stamp p))"
  have look: "vs f = map_option (TextValue \<circ> sh) v" if "map_of (rev (paramFlags stamp p)) f = map_option sh v" for f v and sh :: "int \<Rightarrow> string"
    using that by (simp add: vs_def option.map_comp)
  note L = paramFlags_lookup[THEN look]
  have iso: "isoSeconds dp f (stamp x) = Inr x" if "ap_epochAnchor p = Some x" for f x
  proof -
    have "0 < x" using wf anchor that by (auto simp: wfParamFields_def noLess_def)
    then show ?thesis by (simp add: isoSeconds_def stamp)
  qed
  have r: "P x" if "inRange lo hi v" "v = Some x" "lo \<le> x \<Longrightarrow> x \<le> hi \<Longrightarrow> P x" for lo hi v x P
    using that by (simp add: inRange_def)
  note bounds = paramBounds[OF wf]
  have deposit: "0 \<le> x" if "ap_minDeposit p = Some x" for x using wf that by (simp add: wfParamFields_def noLess_def)
  have jackpot: "0 \<le> x \<and> USDC_SCALE dvd x" if "ap_minJackpot p = Some x" for x using wf that by (simp add: wfParamFields_def noLess_def)
  have "setParamsFlags dp vs NO_PARAMS = Inr (NO_PARAMS
      \<lparr>ap_epochSeconds := ap_epochSeconds p, ap_epochAnchor := ap_epochAnchor p, ap_roundSeconds := ap_roundSeconds p,
       ap_closeBuffer := ap_closeBuffer p, ap_vrfTimeout := ap_vrfTimeout p, ap_minDeposit := ap_minDeposit p,
       ap_houseCutBps := ap_houseCutBps p, ap_minJackpot := ap_minJackpot p, ap_registrationWindow := ap_registrationWindow p,
       ap_payoutTimeout := ap_payoutTimeout p, ap_baseRateBps := ap_baseRateBps p, ap_ticketsPerUsdc := ap_ticketsPerUsdc p,
       ap_bonusCapBps := ap_bonusCapBps p\<rparr>)"
    unfolding setParamsFlags_def NO_PARAMS_def
    apply (subst withFlag_shown[where vs = vs and upd = ap_epochSeconds_update and sh = showInt, OF L(1)], erule r[OF bounds(1)], simp, simp, unfold rbind.simps)
    apply (subst withFlag_shown[where vs = vs and upd = ap_epochAnchor_update and sh = stamp, OF L(2)], rule iso, assumption, simp, unfold rbind.simps)
    apply (subst withFlag_shown[where vs = vs and upd = ap_roundSeconds_update and sh = showInt, OF L(3)], erule r[OF bounds(2)], simp, simp, unfold rbind.simps)
    apply (subst withFlag_shown[where vs = vs and upd = ap_closeBuffer_update and sh = showInt, OF L(4)], erule r[OF bounds(3)], simp, simp, unfold rbind.simps)
    apply (subst withFlag_shown[where vs = vs and upd = ap_vrfTimeout_update and sh = showInt, OF L(5)], erule r[OF bounds(4)], simp, simp, unfold rbind.simps)
    apply (subst withFlag_shown[where vs = vs and upd = ap_minDeposit_update and sh = showInt, OF L(6)], drule deposit, simp, simp, unfold rbind.simps)
    apply (subst withFlag_shown[where vs = vs and upd = ap_houseCutBps_update and sh = showInt, OF L(7)], erule r[OF bounds(5)], simp, simp, unfold rbind.simps)
    apply (subst withFlag_shown[where vs = vs and upd = ap_minJackpot_update and sh = showUsdc, OF L(8)], drule jackpot, simp, simp, unfold rbind.simps)
    apply (subst withFlag_shown[where vs = vs and upd = ap_registrationWindow_update and sh = showInt, OF L(9)], erule r[OF bounds(6)], simp, simp, unfold rbind.simps)
    apply (subst withFlag_shown[where vs = vs and upd = ap_payoutTimeout_update and sh = showInt, OF L(10)], erule r[OF bounds(7)], simp, simp, unfold rbind.simps)
    apply (subst withFlag_shown[where vs = vs and upd = ap_baseRateBps_update and sh = showInt, OF L(11)], erule r[OF bounds(8)], simp, simp, unfold rbind.simps)
    apply (subst withFlag_shown[where vs = vs and upd = ap_ticketsPerUsdc_update and sh = showInt, OF L(12)], erule r[OF bounds(9)], simp, simp, unfold rbind.simps)
    apply (subst withFlag_shown[where vs = vs and upd = ap_bonusCapBps_update and sh = showInt, OF L(13)], erule r[OF bounds(10)], simp, simp)
    apply simp
    done
  then show ?thesis by (simp add: vs_def NO_PARAMS_def)
qed


section \<open>Amounts of USDC\<close>

lemma isUsdcText_decimal:
  assumes "isUsdcText raw"
  obtains w f where "list_all isDigit w" "w \<noteq> []" "list_all isDigit f" "length f \<le> 6" "raw = decimalText w f"
proof -
  have "isDecimalText raw" using assms by (auto simp: isUsdcText_def isDecimalText_def Let_def)
  then obtain w f where d: "list_all isDigit w" "w \<noteq> []" "list_all isDigit f" "raw = decimalText w f"
    unfolding isDecimalText_iff by blast
  have "length f \<le> 6"
  proof (cases "f = []")
    case False
    have "dropWhile isDigit raw = CHR ''.'' # f"
      using d False by (simp add: decimalText_def dropWhile_append2 list_all_iff)
    then show ?thesis using assms by (simp add: isUsdcText_def Let_def)
  qed simp
  with d show ?thesis using that by blast
qed

lemma numberOf_zero:
  assumes "list_all isDigit w" "w \<noteq> []" "list_all isDigit f" "readDigits 0 w = Some 0" "readDigits 0 f = Some 0"
  shows "numberOf (decimalText w f) = Finite 0"
proof -
  obtain W F where v: "readDigits 0 w = Some W" "readDigits 0 f = Some F"
      "readDigits 0 (w @ f @ replicate 0 (CHR ''0'')) = Some ((W * 10 ^ length f + F) * 10 ^ 0)"
    using digits_value[OF assms(1,3), of 0] by metis
  then have z: "readDigits 0 (w @ f) = Some 0" using assms(4,5) by simp
  obtain c t where c: "w = c # t" "isDigit c" using assms by (cases w) auto
  have "radixOf (decimalText w f) = None"
    using assms(1) c by (cases t) (auto simp: radixOf_def decimalText_def nth_append)
  moreover have "decimalText w f \<noteq> ''Infinity''" "\<not> prefix ''-'' (decimalText w f)" "\<not> prefix ''+'' (decimalText w f)"
      "decimalText w f \<noteq> []"
    using c by (auto simp: prefix_def decimalText_def)
  moreover have "unsignedDecimal (decimalText w f) = Some 0"
  proof (cases "f = []")
    case True
    have tw: "takeWhile isDigit w = w" "dropWhile isDigit w = []" using assms(1) by (simp_all add: list_all_iff takeWhile_eq_all_conv)
    show ?thesis using True z assms(2) by (simp add: unsignedDecimal_def decimalText_def Let_def tw exponentOf_def del: takeWhile_eq_all_conv)
  next
    case False
    have tw: "takeWhile isDigit (w @ CHR ''.'' # f) = w" "dropWhile isDigit (w @ CHR ''.'' # f) = CHR ''.'' # f"
      using assms(1) by (simp_all add: list_all_iff takeWhile_append2 dropWhile_append2)
    have tf: "takeWhile isDigit f = f" "dropWhile isDigit f = []" using assms(3) by (simp_all add: list_all_iff takeWhile_eq_all_conv)
    show ?thesis using False z assms(2)
      by (simp add: unsignedDecimal_def decimalText_def Let_def tw tf exponentOf_def del: takeWhile_eq_all_conv)
  qed
  ultimately show ?thesis
    using decimalText_parts(3)[OF assms(1-3)] by (simp add: numberOf_def Let_def toDouble_def)
qed

lemma atomicUsdc_decimal:
  assumes "list_all isDigit w" "list_all isDigit f"
  shows "atomicUsdc (decimalText w f) d =
    (if length f > d then Inl (''--amount '' @ decimalText w f @ '' has more decimal places than the mint's '' @ showNat d)
     else bigIntOf (w @ padEnd d f))"
proof -
  have nd: "CHR ''.'' \<notin> set w" "CHR ''.'' \<notin> set f" using digits_no_dot assms by auto
  show ?thesis
  proof (cases "f = []")
    case True
    have "splitOn (CHR ''.'') w = [w]" using splitOn_join[of "[w]"] nd by simp
    then show ?thesis using True by (simp add: atomicUsdc_def decimalText_def)
  next
    case False
    have "splitOn (CHR ''.'') (joinWith ''.'' [w, f]) = [w, f]" by (rule splitOn_join) (use nd in auto)
    then have "splitOn (CHR ''.'') (w @ CHR ''.'' # f) = [w, f]" by simp
    then show ?thesis using False by (simp add: atomicUsdc_def decimalText_def)
  qed
qed

text \<open>An amount of USDC typed on the command line is what the same text is in the browser: at the mint's
  precision both read the same positive number of atomic units, and with more places than the mint has
  both refuse it.\<close>

theorem typed_usdc_is_exact:
  assumes "usdcAmount flag raw = Inr amount"
  shows "(\<exists>n > 0. atomicUsdc amount d = Inr n \<and> parseAtomic amount (int d) = Inr (Some n)) \<or>
    \<not> isOk (atomicUsdc amount d) \<and> parseAtomic amount (int d) = Inr None"
proof -
  have a: "isUsdcText raw" "numberOf raw \<noteq> Finite 0" "amount = raw" using assms by (simp_all add: usdcAmount_Inr)
  obtain w f where d: "list_all isDigit w" "w \<noteq> []" "list_all isDigit f" "raw = decimalText w f"
    using isUsdcText_decimal[OF a(1)] by metis
  obtain W F where v: "readDigits 0 w = Some W" "readDigits 0 f = Some F" using digits_value[OF d(1,3)] by metis
  show ?thesis
  proof (cases "length f \<le> d")
    case True
    let ?n = "(W * 10 ^ length f + F) * 10 ^ (d - length f)"
    note p = parseAtomic_decimal[OF d(1-3) True v]
    have dec: "isDecimalText (decimalText w f)" using d isDecimalText_iff by blast
    have "W \<noteq> 0 \<or> F \<noteq> 0" using numberOf_zero[OF d(1-3)] v a d by auto
    then have "0 < ?n" by simp
    then have "0 < int ?n" by (simp only: of_nat_0_less_iff)
    moreover have "bigIntOf (w @ padEnd d f) = Inr (int ?n)"
      using p True dec by (simp add: parseAtomic_def decimalText_parts[OF d(1-3)] rbind_Inr_iff)
    moreover have "atomicUsdc amount d = bigIntOf (w @ padEnd d f)" using True d(4) a(3) by (simp add: atomicUsdc_decimal[OF d(1,3)])
    ultimately show ?thesis using p d(4) a(3) by auto
  next
    case False
    then have "parseAtomic amount (int d) = Inr None"
      using decimalText_parts[OF d(1-3)] a(3) d(4) by (auto simp: parseAtomic_def Let_def)
    then show ?thesis using False d a atomicUsdc_decimal[OF d(1,3)] by simp
  qed
qed

section \<open>Witnesses\<close>

definition demoText :: "pubkey \<Rightarrow> string" where "demoText k = CHR ''k'' # map (\<lambda>b. char_of (unat b)) k"
definition demoKey :: "string \<Rightarrow> pubkey option" where
  "demoKey s = (case s of [] \<Rightarrow> None | c # t \<Rightarrow> Some (map (\<lambda>c. word_of_nat (of_char c)) t))"
definition demoStamp :: "int \<Rightarrow> string" where "demoStamp s = CHR ''T'' # showNat (nat s)"
definition demoDate :: "string \<Rightarrow> int option" where
  "demoDate t = (case t of [] \<Rightarrow> None | c # d \<Rightarrow> map_option (\<lambda>n. 1000 * int n) (readDigits 0 d))"

lemma demoText_inverse: "demoKey (demoText k) = Some k \<and> \<not> optionLike (demoText k)"
proof -
  have "(word_of_nat (of_char (char_of (unat b) :: char)) :: 8 word) = b" for b :: "8 word"
  proof -
    have "unat b < 256" using unsigned_less[of b] by simp
    then show ?thesis by (simp add: of_char_of)
  qed
  then show ?thesis by (simp add: demoText_def demoKey_def optionLike_def comp_def)
qed

lemma demoStamp_inverse: "0 < s \<Longrightarrow> demoDate (demoStamp s) = Some (1000 * s)" "\<not> optionLike (demoStamp s)"
  by (simp_all add: demoDate_def demoStamp_def optionLike_def)



lemma typed_usdc_is_exact_witness: "\<exists>n > 0. atomicUsdc ''12'' 0 = Inr n \<and> parseAtomic ''12'' (int 0) = Inr (Some n)"
proof -
  have "numberOf ''12'' = toDouble (of_int 12)" using numberOf_digits[of "''12''" 12] by (simp add: isDigit_def digitVal_def)
  then have "numberOf ''12'' \<noteq> Finite 0" using toDouble_int[of 12] by simp
  moreover have "isUsdcText ''12''" by code_simp
  ultimately have "usdcAmount ''amount'' ''12'' = Inr ''12''" by (simp add: usdcAmount_ok)
  note exact = typed_usdc_is_exact[OF this, of 0]
  have ok: "isOk (atomicUsdc ''12'' 0)" by (simp add: atomicUsdc_def padEnd_def bigIntOf_def digitVal_def eval_nat_numeral)
  from exact show ?thesis
  proof (elim disjE)
    assume "\<exists>n > 0. atomicUsdc ''12'' 0 = Inr n \<and> parseAtomic ''12'' (int 0) = Inr (Some n)"
    then show ?thesis .
  next
    assume "\<not> isOk (atomicUsdc ''12'' 0) \<and> parseAtomic ''12'' (int 0) = Inr None"
    from notE[OF conjunct1[OF this] ok] show ?thesis .
  qed
qed

end
