(* ===== verification/Admin_Run.thy ===== *)
theory Admin_Run
  imports Admin Api Instructions
begin

text \<open>
  What an admin command does (\<open>admin/index.ts\<close>): the transactions each command builds, which key signs
  them, the printed transaction of multisig mode, the emergency crank, the invite codes, and \<open>main\<close>.

  An \<open>admin_world\<close> holds what the chain, the device and the libraries answer; an answer that can change while
  the command runs is a function of the events so far. A run returns its result and its events: what was
  sent and how that ended, what the Ledger was asked to sign, what was written to standard output, and the
  lines of the log that carry figures. The remaining log lines are left out.
\<close>

section \<open>Transactions and the world\<close>

text \<open>A program method with its arguments and accounts; an idempotent token account creation (payer, account,
  owner, mint); a checked transfer (source, mint, destination, authority, amount, decimals).\<close>

datatype admin_arg = BoolArg bool | AmountArg int | FeatureArg feature | ParamsArg set_params_input | KeyArg pubkey

datatype admin_ix =
    AdminMethod string "admin_arg list" "(string \<times> pubkey) list"
  | AtaIx pubkey pubkey pubkey pubkey
  | TransferIx pubkey pubkey pubkey pubkey int nat

record admin_pool =
  ad_pool :: pool_state
  ad_pendingWithdrawals :: int
  ad_yieldBudget :: int

record crank_account =
  ck_owner :: pubkey
  ck_principal :: int
  ck_pendingWithdraw :: int
  ck_isHouse :: bool

datatype admin_event =
    HotSent "admin_ix list" "string res"
  | LedgerSent "admin_ix list" "string res"
  | Printed "admin_ix list" pubkey
  | CodePrinted string
  | OutReported int
  | CrankDone nat nat

record ledger_signer =
  lg_publicKey :: pubkey
  lg_sign :: "admin_ix list \<Rightarrow> unit res"

record admin_world =
  aw_env :: ix_env
  aw_b58 :: "pubkey \<Rightarrow> string"
  aw_hotKey :: pubkey
  aw_poolId :: int
  aw_poolAddress :: pubkey
  aw_poolAccount :: "admin_event list \<Rightarrow> admin_pool option res"
  aw_vault :: "admin_event list \<Rightarrow> int res"
  aw_decimals :: "nat res"
  aw_accountExists :: "pubkey \<Rightarrow> bool res"
  aw_ataOf :: "pubkey \<Rightarrow> pubkey \<Rightarrow> pubkey"
  aw_onCurve :: "pubkey \<Rightarrow> bool"
  aw_players :: "(pubkey \<times> crank_account option) list res"
  aw_round :: "pubkey \<Rightarrow> round_state option res"
  aw_epoch :: "pubkey \<Rightarrow> epoch_state option res"
  aw_blockhash :: "admin_event list \<Rightarrow> string res"
  aw_send :: "admin_event list \<Rightarrow> admin_ix list \<Rightarrow> string res"
  aw_land :: "admin_event list \<Rightarrow> admin_ix list \<Rightarrow> string res"

section \<open>Runs\<close>

type_synonym 'a run = "admin_event list \<Rightarrow> 'a res \<times> admin_event list"

definition rret :: "'a res \<Rightarrow> 'a run" where "rret r = (\<lambda>t. (r, t))"

definition runThen :: "'a run \<Rightarrow> ('a \<Rightarrow> 'b run) \<Rightarrow> 'b run" where
  "runThen m f = (\<lambda>t. case m t of (Inl e, t') \<Rightarrow> (Inl e, t') | (Inr x, t') \<Rightarrow> f x t')"

text \<open>\<open>try\<close>/\<open>catch\<close>: what follows a result, and what follows a throw.\<close>

definition runCatch :: "'a run \<Rightarrow> ('a \<Rightarrow> 'b run) \<Rightarrow> (string \<Rightarrow> 'b run) \<Rightarrow> 'b run" where
  "runCatch m f h = (\<lambda>t. case m t of (Inl e, t') \<Rightarrow> h e t' | (Inr x, t') \<Rightarrow> f x t')"

definition runEmit :: "admin_event \<Rightarrow> unit run" where "runEmit e = (\<lambda>t. (Inr (), t @ [e]))"

definition sendHot :: "admin_world \<Rightarrow> admin_ix list \<Rightarrow> string run" where
  "sendHot W ixs = (\<lambda>t. (aw_send W t ixs, t @ [HotSent ixs (aw_send W t ixs)]))"

definition adminMethod :: "admin_world \<Rightarrow> string \<Rightarrow> admin_arg list \<Rightarrow> (string \<times> pubkey) list \<Rightarrow> admin_ix res" where
  "adminMethod W name args accounts =
    (if ie_hasMethod (aw_env W) name then Inr (AdminMethod name args accounts)
     else Inl (''instruction '' @ name @ '' is missing from the IDL; run `pnpm --filter @hexvault/backend sync-idl`''))"

definition readPool :: "admin_world \<Rightarrow> admin_pool run" where
  "readPool W = (\<lambda>t.
    (rbind (aw_poolAccount W t) (\<lambda>p. case p of
        None \<Rightarrow> Inl (''pool '' @ aw_b58 W (aw_poolAddress W) @ '' not found on this cluster; has bootstrap run?'')
      | Some pool \<Rightarrow> Inr pool), t))"

definition logPrincipalOut :: "admin_world \<Rightarrow> admin_pool \<Rightarrow> int run" where
  "logPrincipalOut W pool = (\<lambda>t.
    case aw_vault W t of Inl e \<Rightarrow> (Inl e, t)
    | Inr amount \<Rightarrow>
        let out = principalOut (pl_totalPrincipal (ad_pool pool)) (ad_pendingWithdrawals pool) (ad_yieldBudget pool) amount
        in (Inr out, t @ [OutReported out]))"

definition sendWithLedger :: "admin_world \<Rightarrow> ledger_signer \<Rightarrow> admin_ix list \<Rightarrow> string run" where
  "sendWithLedger W ledger ixs = (\<lambda>t.
    case aw_blockhash W t of Inl e \<Rightarrow> (Inl e, t)
    | Inr _ \<Rightarrow>
        (case lg_sign ledger ixs of Inl _ \<Rightarrow> (Inl ''Ledger signing failed'', t)
         | Inr _ \<Rightarrow> (aw_land W t ixs, t @ [LedgerSent ixs (aw_land W t ixs)])))"

definition submit :: "admin_world \<Rightarrow> admin_mode \<Rightarrow> ledger_signer option \<Rightarrow> admin_ix list \<Rightarrow> unit run" where
  "submit W mode ledger ixs =
    (if \<not> am_multisig mode then
       runThen (case ledger of Some l \<Rightarrow> sendWithLedger W l ixs | None \<Rightarrow> sendHot W ixs) (\<lambda>_. rret (Inr ()))
     else (\<lambda>t. case aw_blockhash W t of Inl e \<Rightarrow> (Inl e, t) | Inr _ \<Rightarrow> (Inr (), t @ [Printed ixs (am_signer mode)])))"

section \<open>The commands\<close>

definition pauseCmd :: "admin_world \<Rightarrow> unit run" where
  "pauseCmd W =
    runThen (rret (adminMethod W ''setPause'' [BoolArg True] [(''signer'', aw_hotKey W), (''pool'', aw_poolAddress W)])) (\<lambda>ix.
    runThen (sendHot W [ix]) (\<lambda>_. rret (Inr ())))"

definition unpauseCmd :: "admin_world \<Rightarrow> admin_mode \<Rightarrow> ledger_signer option \<Rightarrow> unit run" where
  "unpauseCmd W mode ledger =
    runThen (rret (adminMethod W ''setPause'' [BoolArg False] [(''signer'', am_signer mode), (''pool'', aw_poolAddress W)])) (\<lambda>ix.
      submit W mode ledger [ix])"

definition pauseFeature :: "admin_world \<Rightarrow> feature \<Rightarrow> unit run" where
  "pauseFeature W f =
    runThen (rret (adminMethod W ''setFeaturePause'' [FeatureArg f, BoolArg True]
      [(''signer'', aw_hotKey W), (''pool'', aw_poolAddress W)])) (\<lambda>ix.
    runThen (sendHot W [ix]) (\<lambda>_. rret (Inr ())))"

definition featureName :: "feature \<Rightarrow> string" where
  "featureName f = (case f of Game \<Rightarrow> ''game'' | Jackpot \<Rightarrow> ''jackpot'')"

definition startFeature :: "admin_world \<Rightarrow> admin_mode \<Rightarrow> feature \<Rightarrow> ledger_signer option \<Rightarrow> unit run" where
  "startFeature W mode f ledger =
    runThen (readPool W) (\<lambda>p.
      let pool = ad_pool p
      in if am_signer mode \<noteq> pl_admin pool then
           rret (Inl (''start-'' @ featureName f @ '' is admin only: '' @ aw_b58 W (am_signer mode) @ '' is ''
             @ (if am_signer mode = pl_operator pool then ''the operator'' else ''not the admin'')
             @ '' of pool '' @ aw_b58 W (pl_address pool) @ ''; refusing before sending''))
         else runThen (rret (adminMethod W ''setFeaturePause'' [FeatureArg f, BoolArg False]
                [(''signer'', am_signer mode), (''pool'', aw_poolAddress W)])) (\<lambda>ix. submit W mode ledger [ix]))"

definition setParamsCmd :: "admin_world \<Rightarrow> admin_mode \<Rightarrow> set_params_input \<Rightarrow> ledger_signer option \<Rightarrow> unit run" where
  "setParamsCmd W mode params ledger =
    runThen
      (case (ap_registrationWindow params, ap_epochSeconds params) of
         (Some w, None) \<Rightarrow> runThen (readPool W) (\<lambda>p. rret (checkRegistrationWindow w (pl_epochSeconds (ad_pool p))))
       | _ \<Rightarrow> rret (Inr ()))
      (\<lambda>_. runThen (rret (adminMethod W ''setParams'' [ParamsArg params]
         [(''admin'', am_signer mode), (''pool'', aw_poolAddress W)])) (\<lambda>ix. submit W mode ledger [ix]))"

text \<open>\<open>fundJackpot\<close> and \<open>fundYield\<close>: a transfer from the loaded key's own token account.\<close>

definition fundCmd :: "admin_world \<Rightarrow> string \<Rightarrow> string \<Rightarrow> (ix_env \<Rightarrow> pubkey \<Rightarrow> pubkey) \<Rightarrow> int \<Rightarrow> unit run" where
  "fundCmd W name vaultName vaultOf amount =
    runThen (readPool W) (\<lambda>p.
      let pool = ad_pool p
      in runThen (rret (adminMethod W name [AmountArg amount]
           [(''sourceAuthority'', aw_hotKey W), (''pool'', pl_address pool), (''acceptedMint'', pl_acceptedMint pool),
            (''source'', aw_ataOf W (pl_acceptedMint pool) (aw_hotKey W)), (vaultName, vaultOf (aw_env W) (pl_address pool)),
            (''tokenProgram'', ie_tokenProgram (aw_env W))])) (\<lambda>ix.
         runThen (sendHot W [ix]) (\<lambda>_. rret (Inr ()))))"

definition fundJackpot :: "admin_world \<Rightarrow> int \<Rightarrow> unit run" where
  "fundJackpot W amount = fundCmd W ''fundJackpot'' ''jackpotVault'' jackpotVaultAddress amount"

definition fundYield :: "admin_world \<Rightarrow> int \<Rightarrow> unit run" where
  "fundYield W amount = fundCmd W ''fundYield'' ''principalVault'' principalVaultAddress amount"

definition grantTicketsCmd :: "admin_world \<Rightarrow> admin_mode \<Rightarrow> pubkey \<Rightarrow> int \<Rightarrow> ledger_signer option \<Rightarrow> unit run" where
  "grantTicketsCmd W mode own amount ledger =
    runThen (rret (adminMethod W ''grantTickets'' [AmountArg amount]
      [(''signer'', am_signer mode), (''pool'', aw_poolAddress W),
       (''player'', playerAddress (aw_env W) (aw_poolAddress W) own)])) (\<lambda>ix. submit W mode ledger [ix])"

definition withdrawPrincipal :: "admin_world \<Rightarrow> admin_mode \<Rightarrow> string \<Rightarrow> ledger_signer option \<Rightarrow> unit run" where
  "withdrawPrincipal W mode amount ledger =
    runThen (readPool W) (\<lambda>p.
    runThen (rret (aw_decimals W)) (\<lambda>decimals.
    runThen (rret (atomicUsdc amount decimals)) (\<lambda>atomic.
      let pool = ad_pool p; adminToken = aw_ataOf W (pl_acceptedMint pool) (am_signer mode)
      in runThen (rret (aw_accountExists W adminToken)) (\<lambda>have.
         runThen (rret (adminMethod W ''adminWithdraw'' [AmountArg atomic]
           [(''admin'', am_signer mode), (''pool'', pl_address pool), (''acceptedMint'', pl_acceptedMint pool),
            (''adminToken'', adminToken), (''principalVault'', principalVaultAddress (aw_env W) (pl_address pool)),
            (''tokenProgram'', ie_tokenProgram (aw_env W))])) (\<lambda>ix.
         submit W mode ledger
           ((if have then [] else [AtaIx (am_signer mode) adminToken (am_signer mode) (pl_acceptedMint pool)]) @ [ix]))))))"

definition setOperatorCmd :: "admin_world \<Rightarrow> admin_mode \<Rightarrow> pubkey \<Rightarrow> ledger_signer option \<Rightarrow> unit run" where
  "setOperatorCmd W mode key ledger =
    runThen (rret (adminMethod W ''setOperator'' [KeyArg key] [(''admin'', am_signer mode), (''pool'', aw_poolAddress W)]))
      (\<lambda>ix. submit W mode ledger [ix])"

definition proposeAdminCmd :: "admin_world \<Rightarrow> admin_mode \<Rightarrow> pubkey \<Rightarrow> ledger_signer option \<Rightarrow> unit run" where
  "proposeAdminCmd W mode key ledger =
    runThen (rret (adminMethod W ''proposeAdmin'' [KeyArg key] [(''admin'', am_signer mode), (''pool'', aw_poolAddress W)]))
      (\<lambda>ix. submit W mode ledger [ix])"

definition acceptAdminCmd :: "admin_world \<Rightarrow> admin_mode \<Rightarrow> ledger_signer option \<Rightarrow> unit run" where
  "acceptAdminCmd W mode ledger =
    runThen (rret (adminMethod W ''acceptAdmin'' [] [(''pendingAdmin'', am_signer mode), (''pool'', aw_poolAddress W)]))
      (\<lambda>ix. submit W mode ledger [ix])"

definition principalOutCommand :: "admin_world \<Rightarrow> unit run" where
  "principalOutCommand W = runThen (readPool W) (\<lambda>p. runThen (logPrincipalOut W p) (\<lambda>_. rret (Inr ())))"

definition returnPrincipal :: "admin_world \<Rightarrow> admin_mode \<Rightarrow> string \<Rightarrow> ledger_signer option \<Rightarrow> unit run" where
  "returnPrincipal W mode amount ledger =
    runThen (readPool W) (\<lambda>p.
    runThen (logPrincipalOut W p) (\<lambda>_.
    runThen (rret (aw_decimals W)) (\<lambda>decimals.
    runThen (rret (atomicUsdc amount decimals)) (\<lambda>atomic.
      let pool = ad_pool p
      in runThen (submit W mode ledger
           [TransferIx (aw_ataOf W (pl_acceptedMint pool) (am_signer mode)) (pl_acceptedMint pool)
              (principalVaultAddress (aw_env W) (pl_address pool)) (am_signer mode) atomic decimals]) (\<lambda>_.
         if am_multisig mode then rret (Inr ()) else runThen (logPrincipalOut W p) (\<lambda>_. rret (Inr ())))))))"

definition shutdownCommand :: "admin_world \<Rightarrow> admin_mode \<Rightarrow> int \<Rightarrow> ledger_signer option \<Rightarrow> unit run" where
  "shutdownCommand W mode confirm ledger =
    (if confirm \<noteq> aw_poolId W then
       rret (Inl (''--confirm '' @ showInt confirm @ '' does not match the configured pool '' @ showInt (aw_poolId W)
         @ ''; refusing an irreversible shutdown''))
     else runThen (rret (adminMethod W ''shutdown'' [] [(''admin'', am_signer mode), (''pool'', aw_poolAddress W)]))
            (\<lambda>ix. submit W mode ledger [ix]))"

definition owedBalance :: "admin_world \<Rightarrow> pubkey \<times> crank_account option \<Rightarrow> bool" where
  "owedBalance W a = (case snd a of None \<Rightarrow> False
     | Some raw \<Rightarrow> fst a = playerAddress (aw_env W) (aw_poolAddress W) (ck_owner raw) \<and> \<not> ck_isHouse raw \<and>
         0 < ck_principal raw + ck_pendingWithdraw raw)"

definition playersOwedABalance :: "admin_world \<Rightarrow> (pubkey \<times> crank_account) list res" where
  "playersOwedABalance W =
    rbind (aw_players W) (\<lambda>accounts. Inr (map (\<lambda>a. (fst a, the (snd a))) (filter (owedBalance W) accounts)))"

text \<open>\<open>getAssociatedTokenAddressSync\<close> throws for an owner that is not on the curve, unless told to allow it.\<close>

definition ownerAta :: "admin_world \<Rightarrow> pubkey \<Rightarrow> pubkey \<Rightarrow> pubkey res" where
  "ownerAta W mint own = (if aw_onCurve W own then Inr (aw_ataOf W mint own) else Inl ''TokenOwnerOffCurveError'')"

definition emergencyIxs :: "admin_world \<Rightarrow> pool_state \<Rightarrow> pubkey \<times> crank_account \<Rightarrow> admin_ix list res" where
  "emergencyIxs W pool p =
    (let own = ck_owner (snd p)
     in rbind (ownerAta W (pl_acceptedMint pool) own) (\<lambda>ownerToken.
        rbind (adminMethod W ''emergencyWithdraw'' []
          [(''pool'', pl_address pool), (''player'', fst p), (''owner'', own), (''acceptedMint'', pl_acceptedMint pool),
           (''ownerToken'', ownerToken), (''principalVault'', principalVaultAddress (aw_env W) (pl_address pool)),
           (''tokenProgram'', ie_tokenProgram (aw_env W))])
          (\<lambda>ix. Inr [AtaIx (aw_hotKey W) ownerToken own (pl_acceptedMint pool), ix])))"

text \<open>The crank's loop over the players still to pay, with the number paid so far. A batch of no player cannot
  come up, as \<open>--batch\<close> is positive.\<close>

function crankFrom :: "admin_world \<Rightarrow> admin_pool \<Rightarrow> nat \<Rightarrow> nat \<Rightarrow> (pubkey \<times> crank_account) list \<Rightarrow> unit run" where
  "crankFrom W p batchSize paid players =
    (if players = [] \<or> batchSize = 0 then runEmit (CrankDone paid 0)
     else let batch = take batchSize players; rest = drop batchSize players
          in runThen (rret (rbind (mapRes (emergencyIxs W (ad_pool p)) batch) (\<lambda>ixss. Inr (concat ixss)))) (\<lambda>ixs.
               runCatch (sendHot W ixs)
                 (\<lambda>_. crankFrom W p batchSize (paid + length batch) rest)
                 (\<lambda>e. if e \<noteq> ''InsufficientVault'' then rret (Inl e)
                   else runThen (logPrincipalOut W p) (\<lambda>_. runEmit (CrankDone paid (length players))))))"
  by pat_completeness auto
termination by (relation "measure (\<lambda>(W, p, b, paid, players). length players)") auto

definition emergencyCrank :: "admin_world \<Rightarrow> int \<Rightarrow> unit run" where
  "emergencyCrank W batchSize =
    runThen (readPool W) (\<lambda>p.
    runThen (rret (playersOwedABalance W)) (\<lambda>players.
      if players = [] then rret (Inr ()) else crankFrom W p (nat batchSize) 0 players))"

definition sweepHouse :: "admin_world \<Rightarrow> admin_mode \<Rightarrow> ledger_signer option \<Rightarrow> unit run" where
  "sweepHouse W mode ledger =
    runThen (readPool W) (\<lambda>p.
      let pool = ad_pool p
      in runThen (rret (adminMethod W ''sweepHouse'' []
           [(''admin'', am_signer mode), (''pool'', pl_address pool), (''acceptedMint'', pl_acceptedMint pool),
            (''jackpotVault'', jackpotVaultAddress (aw_env W) (pl_address pool)),
            (''principalVault'', principalVaultAddress (aw_env W) (pl_address pool)),
            (''treasury'', pl_treasury pool), (''tokenProgram'', ie_tokenProgram (aw_env W))])) (\<lambda>ix.
         submit W mode ledger [ix]))"

definition adminRandomness :: "admin_world \<Rightarrow> bytes \<Rightarrow> pubkey" where
  "adminRandomness W seed =
    randomnessAddress (ie_findProgramAddress (aw_env W)) (ie_oraoProgram (aw_env W)) (ie_programId (aw_env W)) seed
      (ie_hasMethod (aw_env W) ''testFulfill'')"

definition voidRoundCmd :: "admin_world \<Rightarrow> int \<Rightarrow> unit run" where
  "voidRoundCmd W roundId =
    runThen (readPool W) (\<lambda>p.
    runThen (rret (roundAddress (aw_env W) (pl_address (ad_pool p)) roundId)) (\<lambda>address.
    runThen (rret (aw_round W address)) (\<lambda>found.
      case found of None \<Rightarrow> rret (Inl (''round '' @ showInt roundId @ '' ('' @ aw_b58 W address @ '') not found''))
      | Some rnd \<Rightarrow>
          runThen (rret (adminMethod W ''voidRound'' []
            [(''caller'', aw_hotKey W), (''pool'', pl_address (ad_pool p)), (''round'', address),
             (''randomness'', adminRandomness W (rd_vrfSeed rnd))])) (\<lambda>ix.
          runThen (sendHot W [ix]) (\<lambda>_. rret (Inr ()))))))"

definition rolloverEpochCmd :: "admin_world \<Rightarrow> int \<Rightarrow> unit run" where
  "rolloverEpochCmd W epochId =
    runThen (readPool W) (\<lambda>p.
    runThen (rret (epochAddress (aw_env W) (pl_address (ad_pool p)) epochId)) (\<lambda>address.
    runThen (rret (aw_epoch W address)) (\<lambda>found.
      case found of None \<Rightarrow> rret (Inl (''epoch '' @ showInt epochId @ '' ('' @ aw_b58 W address @ '') not found''))
      | Some ep \<Rightarrow>
          runThen (rret (adminMethod W ''rolloverEpoch'' []
            [(''caller'', aw_hotKey W), (''pool'', pl_address (ad_pool p)), (''epoch'', address),
             (''randomness'', adminRandomness W (ep_vrfSeed ep))])) (\<lambda>ix.
          runThen (sendHot W [ix]) (\<lambda>_. rret (Inr ()))))))"

fun runCommand :: "admin_world \<Rightarrow> admin_mode \<Rightarrow> ledger_signer option \<Rightarrow> admin_command \<Rightarrow> unit run" where
  "runCommand W mode ledger CmdPause = pauseCmd W"
| "runCommand W mode ledger CmdUnpause = unpauseCmd W mode ledger"
| "runCommand W mode ledger (CmdPauseFeature f) = pauseFeature W f"
| "runCommand W mode ledger (CmdStartFeature f) = startFeature W mode f ledger"
| "runCommand W mode ledger (CmdSetParams p) = setParamsCmd W mode p ledger"
| "runCommand W mode ledger (CmdFundJackpot n) = fundJackpot W n"
| "runCommand W mode ledger (CmdFundYield n) = fundYield W n"
| "runCommand W mode ledger (CmdGrantTickets k n) = grantTicketsCmd W mode k n ledger"
| "runCommand W mode ledger (CmdWithdrawPrincipal a) = withdrawPrincipal W mode a ledger"
| "runCommand W mode ledger (CmdSetOperator k) = setOperatorCmd W mode k ledger"
| "runCommand W mode ledger (CmdProposeAdmin k) = proposeAdminCmd W mode k ledger"
| "runCommand W mode ledger CmdAcceptAdmin = acceptAdminCmd W mode ledger"
| "runCommand W mode ledger CmdPrincipalOut = principalOutCommand W"
| "runCommand W mode ledger (CmdReturnPrincipal a) = returnPrincipal W mode a ledger"
| "runCommand W mode ledger (CmdShutdown n) = shutdownCommand W mode n ledger"
| "runCommand W mode ledger (CmdEmergencyCrank n) = emergencyCrank W n"
| "runCommand W mode ledger CmdSweepHouse = sweepHouse W mode ledger"
| "runCommand W mode ledger (CmdVoidRound n) = voidRoundCmd W n"
| "runCommand W mode ledger (CmdRolloverEpoch n) = rolloverEpochCmd W n"
| "runCommand W mode ledger (CmdCreateInvite u k n) = rret (Inr ())"

section \<open>Invite codes\<close>

text \<open>The loop of \<open>createInvite\<close> over the rows still to write: each code is printed once its row is in.\<close>

fun createInvite :: "invite_row list \<Rightarrow> access_db \<Rightarrow> admin_event list \<Rightarrow> unit res \<times> admin_event list \<times> access_db" where
  "createInvite [] db t = (Inr (), t, db)"
| "createInvite (row # rows) db t =
    (case createInvites [row] db of
       None \<Rightarrow> (Inl ''Unique constraint failed on the fields: (`code`)'', t, db)
     | Some db' \<Rightarrow> createInvite rows db' (t @ [CodePrinted (ic_code row)]))"

section \<open>The entry point\<close>

record cli_platform =
  cp_pk :: "string \<Rightarrow> pubkey option"
  cp_dateParse :: "string \<Rightarrow> int option"
  cp_parseUrl :: "string \<Rightarrow> url option"
  cp_openLedger :: "js_number \<Rightarrow> ledger_signer res"
  cp_b58 :: "pubkey \<Rightarrow> string"
  cp_random :: "nat \<Rightarrow> nat"
  cp_now :: int
  cp_db :: access_db
  cp_connect :: "hex_vault_env \<Rightarrow> admin_world res"

definition loadLedgerSigner :: "cli_platform \<Rightarrow> string option \<Rightarrow> string option \<Rightarrow> ledger_signer option res" where
  "loadLedgerSigner P adminKeypair adminAddress =
    rbind (parseAdminKeypair (cp_parseUrl P) adminKeypair) (\<lambda>sel.
      case sel of LocalKeypair \<Rightarrow> Inr None
      | LedgerAccount n \<Rightarrow>
          rbind (cp_openLedger P n) (\<lambda>ledger.
          rbind (checkLedgerAddress (cp_b58 P) (lg_publicKey ledger) adminAddress) (\<lambda>_. Inr (Some ledger))))"

definition adminMain :: "cli_platform \<Rightarrow> (string \<rightharpoonup> string) \<Rightarrow> string list \<Rightarrow> unit res \<times> admin_event list" where
  "adminMain P processEnv argv =
    (case parseAdminCommand (cp_pk P) (cp_dateParse P) argv of Inl e \<Rightarrow> (Inl e, [])
     | Inr command \<Rightarrow>
       (case validateEnv (cp_dateParse P) processEnv of Inl e \<Rightarrow> (Inl e, [])
        | Inr env \<Rightarrow>
          (case command of
             CmdCreateInvite uses own n \<Rightarrow> (case createInvite (mintInvites (cp_random P) (map_option (cp_b58 P) own) uses (cp_now P) n) (cp_db P) [] of
                 (r, t, _) \<Rightarrow> (r, t))
           | _ \<Rightarrow>
             (case cp_connect P env of Inl e \<Rightarrow> (Inl e, [])
              | Inr W \<Rightarrow>
                (case loadLedgerSigner P (processEnv ''ADMIN_KEYPAIR'') (ev_ADMIN_ADDRESS env) of
                   Inl e \<Rightarrow> (Inl e, [])
                 | Inr ledger \<Rightarrow>
                   (case adminMode (cp_pk P) (ev_ADMIN_ADDRESS env)
                           (case ledger of Some l \<Rightarrow> lg_publicKey l | None \<Rightarrow> aw_hotKey W) of
                      Inl e \<Rightarrow> (Inl e, [])
                    | Inr mode \<Rightarrow> runCommand W mode ledger command []))))))"

end
