(* ===== verification/Admin_Run_Laws.thy ===== *)
theory Admin_Run_Laws
  imports Admin_Run Access_Laws
begin

text \<open>
  What holds of the admin commands: every transaction carries the signature it needs and no other key is
  asked, an irreversible or role-bound command is refused before anything is sent, the emergency crank pays
  nobody twice and accounts for everybody, and every printed invite code is in the database.
\<close>

section \<open>Signatures\<close>

definition SIGNER_ROLES :: "string set" where
  "SIGNER_ROLES = {''signer'', ''admin'', ''pendingAdmin'', ''caller'', ''sourceAuthority''}"

fun signersOf :: "admin_ix \<Rightarrow> pubkey set" where
  "signersOf (AdminMethod name args accounts) = {k. \<exists>role \<in> SIGNER_ROLES. (role, k) \<in> set accounts}"
| "signersOf (AtaIx p a o1 m) = {p}"
| "signersOf (TransferIx s m d a u p) = {a}"

definition needsOnly :: "pubkey \<Rightarrow> admin_ix list \<Rightarrow> bool" where
  "needsOnly k ixs = (\<forall>ix \<in> set ixs. signersOf ix \<subseteq> {k})"

fun properlySigned :: "pubkey \<Rightarrow> admin_mode \<Rightarrow> ledger_signer option \<Rightarrow> admin_event \<Rightarrow> bool" where
  "properlySigned hot mode ledger (HotSent ixs outcome) = needsOnly hot ixs"
| "properlySigned hot mode ledger (LedgerSent ixs outcome) =
    (\<not> am_multisig mode \<and> (\<exists>l. ledger = Some l \<and> needsOnly (lg_publicKey l) ixs))"
| "properlySigned hot mode ledger (Printed ixs k) = (am_multisig mode \<and> k = am_signer mode \<and> needsOnly k ixs)"
| "properlySigned hot mode ledger e = True"

text \<open>A run only appends events, all of one kind.\<close>

definition emits :: "(admin_event \<Rightarrow> bool) \<Rightarrow> 'a run \<Rightarrow> bool" where
  "emits P m = (\<forall>t. \<exists>new. snd (m t) = t @ new \<and> list_all P new)"

lemma emitsE:
  assumes "emits P m" "m t = (r, t')"
  obtains new where "t' = t @ new" "list_all P new"
  using assms by (auto simp: emits_def dest: spec[of _ t])

lemma emitsI: "(\<And>t r t'. m t = (r, t') \<Longrightarrow> \<exists>new. t' = t @ new \<and> list_all P new) \<Longrightarrow> emits P m"
  by (metis emits_def surjective_pairing)

lemma emits_rret [intro, simp]: "emits P (rret r)"
  by (simp add: emits_def rret_def)

lemma emits_runCatch:
  assumes "emits P m" "\<And>x. emits P (f x)" "\<And>e. emits P (h e)"
  shows "emits P (runCatch m f h)"
proof (rule emitsI)
  fix t r2 t2
  assume run: "runCatch m f h t = (r2, t2)"
  obtain r1 t1 where m: "m t = (r1, t1)" by fastforce
  obtain n1 where 1: "t1 = t @ n1" "list_all P n1" using assms(1) m by (rule emitsE)
  have "\<exists>k. emits P k \<and> k t1 = (r2, t2)"
    using run m assms(2,3) by (cases r1) (auto simp: runCatch_def)
  then obtain k where "emits P k" "k t1 = (r2, t2)" by blast
  then obtain n2 where "t2 = t1 @ n2" "list_all P n2" by (rule emitsE)
  then show "\<exists>new. t2 = t @ new \<and> list_all P new" using 1 by (intro exI[of _ "n1 @ n2"]) simp
qed

lemma runThen_runCatch: "runThen m f = runCatch m f (\<lambda>e. rret (Inl e))"
  by (auto simp: runThen_def runCatch_def rret_def fun_eq_iff split: prod.splits sum.splits)

lemma emits_runThen [intro]: "emits P m \<Longrightarrow> (\<And>x. emits P (f x)) \<Longrightarrow> emits P (runThen m f)"
  by (simp add: runThen_runCatch emits_runCatch)

lemma emits_rret_then: "(\<And>x. v = Inr x \<Longrightarrow> emits P (f x)) \<Longrightarrow> emits P (runThen (rret v) f)"
  by (cases v) (auto simp: emits_def runThen_def rret_def)

lemma emits_emit: "P e \<Longrightarrow> emits P (runEmit e)"
  by (simp add: emits_def runEmit_def)

lemma emits_send: "(\<And>r. P (HotSent ixs r)) \<Longrightarrow> emits P (sendHot W ixs)"
  by (simp add: emits_def sendHot_def)

lemma emits_read [intro, simp]: "emits P (readPool W)"
  by (simp add: emits_def readPool_def)

lemma emits_report: "(\<And>n. P (OutReported n)) \<Longrightarrow> emits P (logPrincipalOut W p)"
  by (auto simp: emits_def logPrincipalOut_def Let_def split: sum.splits)

lemma emits_case_option: "emits P a \<Longrightarrow> (\<And>x. emits P (f x)) \<Longrightarrow> emits P (case v of None \<Rightarrow> a | Some x \<Rightarrow> f x)"
  by (cases v) auto

lemma emits_after_ix:
  assumes "\<And>ix. ix = AdminMethod name args accounts \<Longrightarrow> emits P (f ix)"
  shows "emits P (runThen (rret (adminMethod W name args accounts)) f)"
  using assms by (auto simp: emits_def runThen_def rret_def adminMethod_def)

lemma emits_submit:
  assumes "adminMode pk addr (case ledger of Some l \<Rightarrow> lg_publicKey l | None \<Rightarrow> aw_hotKey W) = Inr mode"
    and "needsOnly (am_signer mode) ixs"
  shows "emits (properlySigned (aw_hotKey W) mode ledger) (submit W mode ledger ixs)"
proof (cases "am_multisig mode")
  case False
  then have "am_signer mode = (case ledger of Some l \<Rightarrow> lg_publicKey l | None \<Rightarrow> aw_hotKey W)"
    using assms(1) by (auto simp: adminMode_def split: if_splits option.splits)
  then show ?thesis using assms(2) False
    by (cases ledger) (auto simp: submit_def emits_def runThen_def rret_def sendWithLedger_def sendHot_def split: sum.splits prod.splits)
qed (use assms(2) in \<open>auto simp: submit_def emits_def split: sum.splits\<close>)

lemma emergencyIxs_signed: "emergencyIxs W pool p = Inr ixs \<Longrightarrow> needsOnly (aw_hotKey W) ixs"
  by (auto simp: emergencyIxs_def Let_def rbind_Inr_iff ownerAta_def adminMethod_def needsOnly_def SIGNER_ROLES_def split: if_splits)

lemma mapRes_needsOnly:
  assumes "mapRes f xs = Inr ixss" and one: "\<And>x ixs. f x = Inr ixs \<Longrightarrow> needsOnly k ixs"
  shows "needsOnly k (concat ixss)"
  using assms(1) unfolding mapRes_Inr_iff
proof (induction rule: list_all2_induct)
  case (Cons x xs y ys)
  have "needsOnly k y" using Cons(1) by (rule one)
  then show ?case using Cons(3) by (auto simp: needsOnly_def)
qed (simp add: needsOnly_def)

declare crankFrom.simps [simp del]

lemma emits_crank: "emits (properlySigned (aw_hotKey W) mode ledger) (crankFrom W p b paid players)"
proof (induction W p b paid players rule: crankFrom.induct)
  case (1 W p b paid players)
  show ?case
  proof (cases "players = [] \<or> b = 0")
    case True
    then show ?thesis by (subst crankFrom.simps) (simp add: emits_emit)
  next
    case False
    show ?thesis
      unfolding crankFrom.simps[of W p b paid players] if_not_P[OF False] Let_def
    proof (rule emits_rret_then)
      fix ixs
      assume "rbind (mapRes (emergencyIxs W (ad_pool p)) (take b players)) (\<lambda>ixss. Inr (concat ixss)) = Inr ixs"
      then have "needsOnly (aw_hotKey W) ixs"
        using mapRes_needsOnly[OF _ emergencyIxs_signed] by (auto simp: rbind_Inr_iff)
      then show "emits (properlySigned (aw_hotKey W) mode ledger) (runCatch (sendHot W ixs)
          (\<lambda>_. crankFrom W p b (paid + length (take b players)) (drop b players))
          (\<lambda>e. if e \<noteq> ''InsufficientVault'' then rret (Inl e)
            else runThen (logPrincipalOut W p) (\<lambda>_. runEmit (CrankDone paid (length players)))))"
        using 1[OF False refl refl]
        by (intro emits_runCatch emits_send) (auto intro!: emits_report emits_emit)
    qed
  qed
qed

lemma needsOnly_hot_simps [simp]:
  "needsOnly k []"
  "needsOnly k (ix # ixs) \<longleftrightarrow> signersOf ix \<subseteq> {k} \<and> needsOnly k ixs"
  by (simp_all add: needsOnly_def)

lemma emits_let: "emits P (f v) \<Longrightarrow> emits P (let x = v in f x)"
  by (simp add: Let_def)

lemma emits_if: "(c \<Longrightarrow> emits P a) \<Longrightarrow> (\<not> c \<Longrightarrow> emits P b) \<Longrightarrow> emits P (if c then a else b)"
  by simp

lemmas emits_rules = emits_after_ix emits_rret_then emits_report emits_let emits_if emits_case_option
  emits_runThen emits_rret emits_read emits_send

lemma emits_command:
  assumes mode: "adminMode pk addr (case ledger of Some l \<Rightarrow> lg_publicKey l | None \<Rightarrow> aw_hotKey W) = Inr mode"
  shows "emits (properlySigned (aw_hotKey W) mode ledger) (runCommand W mode ledger c)"
proof -
  note send = emits_submit[OF mode]
  let ?P = "properlySigned (aw_hotKey W) mode ledger"
  have roles: "''signer'' \<in> SIGNER_ROLES" "''admin'' \<in> SIGNER_ROLES" "''pendingAdmin'' \<in> SIGNER_ROLES"
    "''caller'' \<in> SIGNER_ROLES" "''sourceAuthority'' \<in> SIGNER_ROLES"
    "''pool'' \<notin> SIGNER_ROLES" "''player'' \<notin> SIGNER_ROLES" "''acceptedMint'' \<notin> SIGNER_ROLES" "''source'' \<notin> SIGNER_ROLES"
    "''jackpotVault'' \<notin> SIGNER_ROLES" "''principalVault'' \<notin> SIGNER_ROLES" "''tokenProgram'' \<notin> SIGNER_ROLES"
    "''adminToken'' \<notin> SIGNER_ROLES" "''treasury'' \<notin> SIGNER_ROLES" "''round'' \<notin> SIGNER_ROLES" "''epoch'' \<notin> SIGNER_ROLES"
    "''randomness'' \<notin> SIGNER_ROLES"
    by (simp_all add: SIGNER_ROLES_def)
  have fund: "vn \<notin> SIGNER_ROLES \<Longrightarrow> emits ?P (fundCmd W nm vn vo n)" for nm vn vo n
    unfolding fundCmd_def by (intro emits_rules) (auto simp: roles)
  show ?thesis
  proof (cases c)
    case (CmdFundJackpot n) then show ?thesis by (simp add: fundJackpot_def fund roles)
  next
    case (CmdFundYield n) then show ?thesis by (simp add: fundYield_def fund roles)
  next
    case (CmdEmergencyCrank n)
    show ?thesis unfolding CmdEmergencyCrank runCommand.simps emergencyCrank_def
      by (intro emits_rules emits_crank)
  next
    case CmdPause show ?thesis unfolding CmdPause runCommand.simps pauseCmd_def by (intro emits_rules) (auto simp: roles)
  next
    case CmdUnpause show ?thesis unfolding CmdUnpause runCommand.simps unpauseCmd_def by (intro emits_after_ix send) (auto simp: roles)
  next
    case (CmdPauseFeature f) show ?thesis unfolding CmdPauseFeature runCommand.simps pauseFeature_def by (intro emits_rules) (auto simp: roles)
  next
    case (CmdStartFeature f) show ?thesis unfolding CmdStartFeature runCommand.simps startFeature_def by (intro emits_rules send) (auto simp: roles)
  next
    case (CmdSetParams p)
    have "emits ?P (case (ap_registrationWindow p, ap_epochSeconds p) of
         (Some w, None) \<Rightarrow> runThen (readPool W) (\<lambda>q. rret (checkRegistrationWindow w (pl_epochSeconds (ad_pool q))))
       | _ \<Rightarrow> rret (Inr ()))" by (auto split: option.splits)
    then show ?thesis unfolding CmdSetParams runCommand.simps setParamsCmd_def
      by (intro emits_runThen emits_after_ix send) (auto simp: roles)
  next
    case (CmdGrantTickets k n) show ?thesis unfolding CmdGrantTickets runCommand.simps grantTicketsCmd_def by (intro emits_after_ix send) (auto simp: roles)
  next
    case (CmdWithdrawPrincipal a) show ?thesis unfolding CmdWithdrawPrincipal runCommand.simps withdrawPrincipal_def
      by (intro emits_rules send) (auto simp: roles)
  next
    case (CmdSetOperator k) show ?thesis unfolding CmdSetOperator runCommand.simps setOperatorCmd_def by (intro emits_after_ix send) (auto simp: roles)
  next
    case (CmdProposeAdmin k) show ?thesis unfolding CmdProposeAdmin runCommand.simps proposeAdminCmd_def by (intro emits_after_ix send) (auto simp: roles)
  next
    case CmdAcceptAdmin show ?thesis unfolding CmdAcceptAdmin runCommand.simps acceptAdminCmd_def by (intro emits_after_ix send) (auto simp: roles)
  next
    case CmdPrincipalOut show ?thesis unfolding CmdPrincipalOut runCommand.simps principalOutCommand_def by (intro emits_rules) auto
  next
    case (CmdReturnPrincipal a) show ?thesis unfolding CmdReturnPrincipal runCommand.simps returnPrincipal_def
      by (intro emits_rules send) auto
  next
    case (CmdShutdown n) show ?thesis unfolding CmdShutdown runCommand.simps shutdownCommand_def by (intro emits_rules send) (auto simp: roles)
  next
    case CmdSweepHouse show ?thesis unfolding CmdSweepHouse runCommand.simps sweepHouse_def by (intro emits_rules send) (auto simp: roles)
  next
    case (CmdVoidRound n) show ?thesis unfolding CmdVoidRound runCommand.simps voidRoundCmd_def by (intro emits_rules) (auto simp: roles)
  next
    case (CmdRolloverEpoch n) show ?thesis unfolding CmdRolloverEpoch runCommand.simps rolloverEpochCmd_def by (intro emits_rules) (auto simp: roles)
  next
    case (CmdCreateInvite u k n) show ?thesis unfolding CmdCreateInvite runCommand.simps by (rule emits_rret)
  qed
qed

section \<open>The emergency crank\<close>

fun paidPlayer :: "admin_ix \<Rightarrow> pubkey list" where
  "paidPlayer (AdminMethod name args accounts) = (case map_of accounts ''player'' of Some k \<Rightarrow> [k] | None \<Rightarrow> [])"
| "paidPlayer ix = []"

definition paidPlayers :: "admin_ix list \<Rightarrow> pubkey list" where
  "paidPlayers ixs = concat (map paidPlayer ixs)"

fun landedPays :: "admin_event \<Rightarrow> pubkey list" where
  "landedPays (HotSent ixs (Inr sig)) = paidPlayers ixs"
| "landedPays e = []"

fun isBatchOf :: "nat \<Rightarrow> admin_event \<Rightarrow> bool" where
  "isBatchOf b (HotSent ixs r) = (length ixs \<le> 2 * b)"
| "isBatchOf b e = True"

lemma emergencyIxs_pays: "emergencyIxs W pool q = Inr ixs \<Longrightarrow> paidPlayers ixs = [fst q] \<and> length ixs = 2"
  by (auto simp: emergencyIxs_def Let_def rbind_Inr_iff ownerAta_def adminMethod_def paidPlayers_def split: if_splits)

lemma emergency_batch:
  "mapRes (emergencyIxs W pool) qs = Inr ixss \<Longrightarrow>
    paidPlayers (concat ixss) = map fst qs \<and> length (concat ixss) = 2 * length qs"
  unfolding mapRes_Inr_iff
proof (induction rule: list_all2_induct)
  case (Cons q qs ixs ixss)
  then show ?case using emergencyIxs_pays[OF Cons(1)] by (simp add: paidPlayers_def)
qed (simp add: paidPlayers_def)

text \<open>What a crank leaves: the players paid are the first \<open>k\<close>, and a run that ends says so.\<close>

definition cranked :: "nat \<Rightarrow> nat \<Rightarrow> (pubkey \<times> crank_account) list \<Rightarrow> unit res \<Rightarrow> admin_event list \<Rightarrow> nat \<Rightarrow> bool" where
  "cranked b paid players r new k = (k \<le> length players \<and>
    concat (map landedPays new) = map fst (take k players) \<and> list_all (isBatchOf b) new \<and>
    (r = Inr () \<longrightarrow> new \<noteq> [] \<and> last new = CrankDone (paid + k) (length players - k)))"

lemma cranked_done: "cranked b paid [] (Inr ()) [CrankDone paid 0] 0"
  by (simp add: cranked_def)

lemma cranked_next:
  assumes "cranked b (paid + length (take b players)) (drop b players) r new k"
    and "paidPlayers ixs = map fst (take b players)" "length ixs = 2 * length (take b players)"
  shows "cranked b paid players r (HotSent ixs (Inr sig) # new) (length (take b players) + k)"
  using assms
  by (cases "length players \<le> b") (auto simp: cranked_def take_add min_def simp flip: map_append)

lemma crankFrom_laws:
  "crankFrom W p b paid players t = (r, t') \<Longrightarrow> 0 < b \<Longrightarrow> \<exists>new k. t' = t @ new \<and> cranked b paid players r new k"
proof (induction W p b paid players arbitrary: t rule: crankFrom.induct)
  case (1 W p b paid players)
  show ?case
  proof (cases "players = []")
    case True
    then show ?thesis using 1(2) cranked_done[of b paid]
      by (subst (asm) crankFrom.simps) (auto simp: runEmit_def)
  next
    case False
    let ?batch = "take b players" and ?rest = "drop b players"
    have step: "\<not> (players = [] \<or> b = 0)" using False 1(3) by simp
    note run = 1(2)[unfolded crankFrom.simps[of W p b paid players] if_not_P[OF step] Let_def]
    show ?thesis
    proof (cases "mapRes (emergencyIxs W (ad_pool p)) ?batch")
      case (Inl e)
      then show ?thesis using run
        by (intro exI[of _ "[]"] exI[of _ 0]) (auto simp: runThen_def rret_def cranked_def)
    next
      case (Inr ixss)
      let ?ixs = "concat ixss"
      have pays: "paidPlayers ?ixs = map fst ?batch" "length ?ixs = 2 * length ?batch"
        using emergency_batch[OF Inr] by auto
      have size: "length ?ixs \<le> 2 * b" unfolding pays(2) by simp
      show ?thesis
      proof (cases "aw_send W t ?ixs")
        case sent: (Inr sig)
        have "crankFrom W p b (paid + length ?batch) ?rest (t @ [HotSent ?ixs (Inr sig)]) = (r, t')"
          using run Inr sent by (simp add: runThen_def rret_def runCatch_def sendHot_def)
        from 1(1)[OF step refl refl this 1(3)] obtain new k
          where new: "t' = (t @ [HotSent ?ixs (Inr sig)]) @ new" "cranked b (paid + length ?batch) ?rest r new k" by blast
        from new(1) cranked_next[OF new(2) pays, of sig] show ?thesis
          by (metis append.assoc append_Cons append_Nil)
      next
        case failed: (Inl e)
        let ?t = "t @ [HotSent ?ixs (Inl e)]"
        show ?thesis
        proof (cases "e = ''InsufficientVault''")
          case False
          then have "r = Inl e" "t' = ?t"
            using run Inr failed by (auto simp: runThen_def rret_def runCatch_def sendHot_def)
          then show ?thesis using size
            by (intro exI[of _ "[HotSent ?ixs (Inl e)]"] exI[of _ 0]) (simp add: cranked_def)
        next
          case True
          then have "runThen (logPrincipalOut W p) (\<lambda>_. runEmit (CrankDone paid (length players))) ?t = (r, t')"
            using run Inr failed by (simp add: runThen_def rret_def runCatch_def sendHot_def)
          then have "(\<exists>x. r = Inl x \<and> t' = ?t) \<or> (\<exists>out. r = Inr () \<and> t' = ?t @ [OutReported out, CrankDone paid (length players)])"
            by (auto simp: runThen_def logPrincipalOut_def runEmit_def Let_def split: sum.splits)
          then show ?thesis
          proof (elim disjE exE conjE)
            fix x assume "r = Inl x" "t' = ?t"
            then show ?thesis using size
              by (intro exI[of _ "[HotSent ?ixs (Inl e)]"] exI[of _ 0]) (simp add: cranked_def)
          next
            fix out assume "r = Inr ()" "t' = ?t @ [OutReported out, CrankDone paid (length players)]"
            then show ?thesis using size
              by (intro exI[of _ "[HotSent ?ixs (Inl e), OutReported out, CrankDone paid (length players)]"] exI[of _ 0])
                (simp add: cranked_def)
          qed
        qed
      qed
    qed
  qed
qed

text \<open>One owner that is not on the curve, a program's account say, fails its whole batch before it is sent, and
  with it every later batch.\<close>

lemma off_curve_owner_blocks_the_crank:
  assumes "q \<in> set (take b players)" "\<not> aw_onCurve W (ck_owner (snd q))"
  shows "\<exists>e. crankFrom W p b paid players t = (Inl e, t)"
proof -
  have step: "\<not> (players = [] \<or> b = 0)" using assms(1) by (cases b) auto
  have "\<exists>e. mapRes (emergencyIxs W (ad_pool p)) (take b players) = Inl e"
  proof (cases "mapRes (emergencyIxs W (ad_pool p)) (take b players)")
    case (Inr ixss)
    then have all: "list_all2 (\<lambda>q ixs. emergencyIxs W (ad_pool p) q = Inr ixs) (take b players) ixss"
      by (simp only: mapRes_Inr_iff)
    from assms(1) obtain i where i: "i < length (take b players)" "take b players ! i = q" unfolding in_set_conv_nth by blast
    have "emergencyIxs W (ad_pool p) q = Inr (ixss ! i)" using list_all2_nthD[OF all i(1)] i(2) by simp
    then show ?thesis using assms(2) by (simp add: emergencyIxs_def ownerAta_def)
  qed simp
  then show ?thesis
    unfolding crankFrom.simps[of W p b paid players] if_not_P[OF step] Let_def by (auto simp: runThen_def rret_def)
qed

section \<open>Refusals\<close>

lemma startFeature_refused:
  assumes "readPool W t = (Inr p, t)" "am_signer mode \<noteq> pl_admin (ad_pool p)"
  shows "\<exists>e. startFeature W mode f ledger t = (Inl e, t)"
  using assms by (simp add: startFeature_def runThen_def rret_def Let_def)

lemma setParams_refused:
  assumes "readPool W t = (Inr p, t)" "ap_registrationWindow c = Some w" "ap_epochSeconds c = None"
    and "pl_epochSeconds (ad_pool p) < w"
  shows "\<exists>e. setParamsCmd W mode c ledger t = (Inl e, t)"
  using assms by (simp add: setParamsCmd_def runThen_def rret_def checkRegistrationWindow_def)

lemma shutdown_refused: "n \<noteq> aw_poolId W \<Longrightarrow> \<exists>e. shutdownCommand W mode n ledger t = (Inl e, t)"
  by (simp add: shutdownCommand_def rret_def)

lemma readPool_pure: "readPool W t = (Inr p, t') \<longleftrightarrow> t' = t \<and> aw_poolAccount W t = Inr (Some p)"
  by (auto simp: readPool_def rbind_Inr_iff split: option.splits)

section \<open>Invite codes\<close>

lemma createInvite_laws:
  "createInvite rows db t = (r, t', db') \<Longrightarrow> \<exists>k \<le> length rows.
     t' = t @ map (\<lambda>x. CodePrinted (ic_code x)) (take k rows) \<and>
     db' = db\<lparr>ab_invites := ab_invites db @ take k rows\<rparr> \<and> (r = Inr () \<longleftrightarrow> k = length rows) \<and>
     (distinct (map ic_code (ab_invites db)) \<longrightarrow> distinct (map ic_code (ab_invites db')))"
proof (induction rows arbitrary: db t)
  case (Cons row rows)
  show ?case
  proof (cases "createInvites [row] db")
    case None
    then show ?thesis using Cons.prems by (intro exI[of _ 0]) auto
  next
    case (Some d)
    note d = createInvites_Some[OF Some]
    from Cons.prems Some have "createInvite rows d (t @ [CodePrinted (ic_code row)]) = (r, t', db')" by simp
    from Cons.IH[OF this] obtain k where "k \<le> length rows"
        "t' = (t @ [CodePrinted (ic_code row)]) @ map (\<lambda>x. CodePrinted (ic_code x)) (take k rows)"
        "db' = d\<lparr>ab_invites := ab_invites d @ take k rows\<rparr>" "r = Inr () \<longleftrightarrow> k = length rows"
        "distinct (map ic_code (ab_invites d)) \<longrightarrow> distinct (map ic_code (ab_invites db'))" by blast
    then show ?thesis using d by (intro exI[of _ "Suc k"]) auto
  qed
qed simp

section \<open>Properties\<close>

text \<open>C27: The admin command line signs for its own key only: whatever the command, each transaction sent needs no
  signature but the loaded key's, one landed through the Ledger needs no signature but the Ledger's and only
  goes out when the Ledger is the admin, and one printed for the multisig needs no signature but the
  configured admin's and is not sent.\<close>

theorem admin_signs_for_its_own:
  assumes "adminMode pk addr (case ledger of Some l \<Rightarrow> lg_publicKey l | None \<Rightarrow> aw_hotKey W) = Inr mode"
    and "runCommand W mode ledger c t = (r, t')"
  shows "\<exists>new. t' = t @ new \<and> list_all (properlySigned (aw_hotKey W) mode ledger) new"
proof -
  obtain new where "t' = t @ new" "list_all (properlySigned (aw_hotKey W) mode ledger) new"
    by (rule emitsE[OF emits_command[OF assms(1)] assms(2)])
  then show ?thesis by blast
qed


text \<open>A code the command line prints is a code somebody can redeem, and the books of the gate stay straight: the
  codes printed are exactly the rows written, in order, and only a run that wrote them all ends well.\<close>

theorem printed_codes_are_issued:
  assumes "createInvite (mintInvites rnd own uses now n) db t = (r, t', db')" "accessOk db" "0 \<le> uses"
  shows "accessOk db' \<and> (\<exists>rows. t' = t @ map (\<lambda>x. CodePrinted (ic_code x)) rows \<and>
    ab_invites db' = ab_invites db @ rows \<and> length rows \<le> nat n \<and> (r = Inr () \<longleftrightarrow> length rows = nat n))"
proof -
  let ?rows = "mintInvites rnd own uses now n"
  have len: "length ?rows = nat n" by (simp add: mintInvites_def)
  obtain k where k: "k \<le> length ?rows" "t' = t @ map (\<lambda>x. CodePrinted (ic_code x)) (take k ?rows)"
    "db' = db\<lparr>ab_invites := ab_invites db @ take k ?rows\<rparr>" "r = Inr () \<longleftrightarrow> k = length ?rows"
    "distinct (map ic_code (ab_invites db)) \<longrightarrow> distinct (map ic_code (ab_invites db'))"
    using createInvite_laws[OF assms(1)] by blast
  have issued: "ic_uses x = 0 \<and> ic_maxUses x = uses" if "x \<in> set (take k ?rows)" for x
    using that mintInvites_mem by (metis in_set_takeD)
  have "distinct (map ic_code (ab_invites db @ take k ?rows))"
    using k(3,5) assms(2) by (simp add: accessOk_def uniqueBy_def)
  then have "usesCounted db'"
    unfolding k(3) using assms(2) issued by (intro usesCounted_issue) (simp_all add: accessOk_def)
  then have "accessOk db'" using assms(2,3) k(3,5) issued by (auto simp: accessOk_def uniqueBy_def)
  then show ?thesis using k len by (intro conjI exI[of _ "take k ?rows"]) auto
qed

section \<open>Witnesses\<close>

text \<open>A Pool with two players owed a balance, the house account and a vault that runs dry at the second
  transaction.\<close>

definition demoAdminPool :: admin_pool where
  "demoAdminPool = \<lparr>ad_pool = \<lparr>pl_address = [1], pl_admin = [2], pl_operator = [3], pl_acceptedMint = [4], pl_treasury = [5],
     pl_buybackReserve = [6], pl_house = [7], pl_vrfNetworkState = [8], pl_epochSeconds = 3600,
     pl_roundSeconds = 60, pl_closeBuffer = 5, pl_vrfTimeout = 50, pl_registrationWindow = 100,
     pl_payoutTimeout = 200, pl_paused = False, pl_currentEpochId = 2, pl_nextRoundId = 10, pl_openRoundId = 9,
     pl_totalPrincipal = 1000, pl_shutdown = False, pl_gamePaused = False, pl_jackpotPaused = False\<rparr>,
     ad_pendingWithdrawals = 10, ad_yieldBudget = 0\<rparr>"

definition demoAdminIx :: ix_env where
  "demoAdminIx = \<lparr>ie_hasMethod = (\<lambda>_. True), ie_programId = [7], ie_operator = [3], ie_testVrf = False,
     ie_findProgramAddress = (\<lambda>parts _. last parts), ie_parseKey = (\<lambda>s. Inr (asciiBytes s)),
     ie_associatedToken = (\<lambda>m o1. m @ o1), ie_systemProgram = [0], ie_tokenProgram = [1],
     ie_oraoProgram = [2], ie_oraoTreasury = [3]\<rparr>"

definition demoCrank :: "pubkey \<Rightarrow> int \<Rightarrow> bool \<Rightarrow> pubkey \<times> crank_account option" where
  "demoCrank k amount house = (k, Some \<lparr>ck_owner = k, ck_principal = amount, ck_pendingWithdraw = 1, ck_isHouse = house\<rparr>)"

definition demoAdminWorld :: admin_world where
  "demoAdminWorld = \<lparr>aw_env = demoAdminIx, aw_b58 = (\<lambda>_. ''key''), aw_hotKey = [3], aw_poolId = 1, aw_poolAddress = [1],
     aw_poolAccount = (\<lambda>_. Inr (Some demoAdminPool)), aw_vault = (\<lambda>_. Inr 5), aw_decimals = Inr 6,
     aw_accountExists = (\<lambda>_. Inr True), aw_ataOf = (\<lambda>m o1. m @ o1), aw_onCurve = (\<lambda>_. True),
     aw_players = Inr [demoCrank [21] 5 False, demoCrank [22] 7 True, demoCrank [23] 9 False],
     aw_round = (\<lambda>_. Inr None), aw_epoch = (\<lambda>_. Inr None), aw_blockhash = (\<lambda>_. Inr ''hash''),
     aw_send = (\<lambda>t _. if t = [] then Inr ''sig'' else Inl ''InsufficientVault''), aw_land = (\<lambda>_ _. Inr ''sig'')\<rparr>"

lemma admin_signs_for_its_own_witness:
  "\<exists>mode new. adminMode (\<lambda>_. Some [9]) (Some ''admin'') [3] = Inr mode \<and> am_multisig mode \<and>
     runCommand demoAdminWorld mode None CmdAcceptAdmin [] = (Inr (), new) \<and> length new = 1 \<and>
     list_all (properlySigned [3] mode None) new"
proof -
  let ?mode = "\<lparr>am_signer = [9], am_multisig = True\<rparr> :: admin_mode"
  have mode: "adminMode (\<lambda>_. Some [9]) (Some ''admin'') [3] = Inr ?mode" by (simp add: adminMode_def isSet_def)
  have run: "\<exists>e. runCommand demoAdminWorld ?mode None CmdAcceptAdmin [] = (Inr (), [e])"
    by (simp add: acceptAdminCmd_def runThen_def rret_def adminMethod_def demoAdminWorld_def demoAdminIx_def submit_def)
  then obtain e where e: "runCommand demoAdminWorld ?mode None CmdAcceptAdmin [] = (Inr (), [e])" by blast
  have hot: "aw_hotKey demoAdminWorld = [3]" by (simp add: demoAdminWorld_def)
  have "\<exists>new. [e] = [] @ new \<and> list_all (properlySigned [3] ?mode None) new"
    using admin_signs_for_its_own[OF _ e, of "\<lambda>_. Some [9]" "Some ''admin''"] mode hot by simp
  then show ?thesis using mode e by (intro exI[of _ ?mode] exI[of _ "[e]"]) simp
qed


lemma printed_codes_are_issued_witness:
  "\<exists>t db. createInvite (mintInvites demoDraws None 1 5 1) demoEmpty [] = (Inr (), t, db) \<and> accessOk db \<and> length t = 1"
proof -
  have ok: "accessOk demoEmpty" by (simp add: accessOk_def uniqueBy_def usesCounted_def demoEmpty_def demoGate_def)
  obtain r t db where run: "createInvite (mintInvites demoDraws None 1 5 1) demoEmpty [] = (r, t, db)" by (metis prod_cases3)
  have "r = Inr ()" using run by (simp add: mintInvites_def createInvites_def demoEmpty_def)
  then show ?thesis using printed_codes_are_issued[OF run ok] run by auto
qed

end
