(* ===== verification/Bootstrap.thy ===== *)
theory Bootstrap
  imports Config Instructions
begin

text \<open>
  The two scripts that bring an environment up: \<open>bootstrap.ts\<close> (mint, token accounts, Pool) and
  \<open>sparring-setup.ts\<close> (the Sparring player's wallet and its one deposit). Both check for a thing before
  creating it, so that a second run creates nothing.

  The cluster is a parameter: a record of what it answers in a state \<open>'s\<close> and of what a transaction does
  to that state. A script returns its result, its events in order (every transaction it attempts, the
  epoch boundaries it prints, what goes to standard output) and the state it leaves; a failure is the chain of
  messages that \<open>main().catch\<close> prints. The other log lines are left out.
\<close>

section \<open>The cluster\<close>

record mint_info =
  mi_decimals :: int
  mi_mintAuthority :: "pubkey option"

record boot_pool =
  bp_admin :: pubkey
  bp_operator :: pubkey
  bp_acceptedMint :: pubkey
  bp_treasury :: pubkey
  bp_buybackReserve :: pubkey
  bp_gamePaused :: bool
  bp_jackpotPaused :: bool

record create_pool_args =
  ca_payer :: pubkey
  ca_poolId :: int
  ca_admin :: pubkey
  ca_operator :: pubkey
  ca_vrfNetworkState :: pubkey
  ca_params :: pool_params
  ca_pool :: pubkey
  ca_acceptedMint :: pubkey
  ca_principalVault :: pubkey
  ca_jackpotVault :: pubkey
  ca_house :: pubkey
  ca_treasury :: pubkey
  ca_buybackReserve :: pubkey

text \<open>The mint authority and the decimals; the base key, the seed, the new account, its rent and its mint; the
  feature, its switch, the signer and the Pool; the mint and the owner; from, to and lamports; the mint, the
  destination and the amount; the amount and the accounts.\<close>

datatype boot_write =
    CreateMint pubkey int
  | CreateSeeded pubkey string pubkey int pubkey
  | CreatePool create_pool_args
  | SetFeaturePause string bool pubkey pubkey
  | EnsureAta pubkey pubkey
  | TransferSol pubkey pubkey int
  | MintTo pubkey pubkey int
  | Deposit int "(string \<times> pubkey) list"

text \<open>\<open>cl_ata\<close> is \<open>getOrCreateAssociatedTokenAccount\<close>: the account and its amount, and whether a transaction
  was sent to create it. The key a write answers is the one it made (\<open>createMint\<close>), if any.\<close>

record 's boot_cluster =
  cl_genesisHash :: "string res"
  cl_mint :: "'s \<Rightarrow> pubkey \<Rightarrow> mint_info res"
  cl_exists :: "'s \<Rightarrow> pubkey \<Rightarrow> bool res"
  cl_tokenMint :: "'s \<Rightarrow> pubkey \<Rightarrow> pubkey res"
  cl_pool :: "'s \<Rightarrow> pubkey \<Rightarrow> boot_pool option res"
  cl_balance :: "'s \<Rightarrow> pubkey \<Rightarrow> int res"
  cl_principal :: "'s \<Rightarrow> pubkey \<Rightarrow> int option res"
  cl_rent :: "'s \<Rightarrow> int res"
  cl_withSeed :: "pubkey \<Rightarrow> string \<Rightarrow> pubkey"
  cl_ata :: "'s \<Rightarrow> pubkey \<Rightarrow> pubkey \<Rightarrow> (pubkey \<times> int) res \<times> bool \<times> 's"
  cl_write :: "'s \<Rightarrow> boot_write \<Rightarrow> pubkey res \<times> 's"

datatype boot_event = Wrote boot_write | Anchor int | Boundary nat int | Out "string list"

section \<open>Scripts\<close>

type_synonym ('s, 'a) script = "'s \<Rightarrow> (string list + 'a) \<times> boot_event list \<times> 's"

definition give :: "'a \<Rightarrow> ('s, 'a) script" where "give x = (\<lambda>s. (Inr x, [], s))"

definition giveUp :: "string list \<Rightarrow> ('s, 'a) script" where "giveUp es = (\<lambda>s. (Inl es, [], s))"

definition ask :: "('s \<Rightarrow> 'a res) \<Rightarrow> ('s, 'a) script" where
  "ask q = (\<lambda>s. (case q s of Inl e \<Rightarrow> Inl [e] | Inr x \<Rightarrow> Inr x, [], s))"

definition say :: "boot_event \<Rightarrow> ('s, unit) script" where "say ev = (\<lambda>s. (Inr (), [ev], s))"

definition after :: "('s, 'a) script \<Rightarrow> ('a \<Rightarrow> ('s, 'b) script) \<Rightarrow> ('s, 'b) script" where
  "after m f = (\<lambda>s. case m s of
      (Inl e, ev, s1) \<Rightarrow> (Inl e, ev, s1)
    | (Inr x, ev, s1) \<Rightarrow> (case f x s1 of (r, ev2, s2) \<Rightarrow> (r, ev @ ev2, s2)))"

text \<open>Names the failed step.\<close>

definition step :: "string \<Rightarrow> string \<Rightarrow> ('s, 'a) script \<Rightarrow> ('s, 'a) script" where
  "step script what m = (\<lambda>s. case m s of
      (Inl es, ev, s1) \<Rightarrow> (Inl ((script @ '' failed while '' @ what) # es), ev, s1)
    | (Inr x, ev, s1) \<Rightarrow> (Inr x, ev, s1))"

definition bootStep :: "string \<Rightarrow> ('s, 'a) script \<Rightarrow> ('s, 'a) script" where "bootStep = step ''bootstrap''"
definition sparringStep :: "string \<Rightarrow> ('s, 'a) script \<Rightarrow> ('s, 'a) script" where "sparringStep = step ''sparring-setup''"

definition tx :: "'s boot_cluster \<Rightarrow> boot_write \<Rightarrow> ('s, pubkey) script" where
  "tx C w = (\<lambda>s. case cl_write C s w of (r, s1) \<Rightarrow> (case r of Inl e \<Rightarrow> Inl [e] | Inr x \<Rightarrow> Inr x, [Wrote w], s1))"

definition getOrCreateAta :: "'s boot_cluster \<Rightarrow> pubkey \<Rightarrow> pubkey \<Rightarrow> ('s, pubkey \<times> int) script" where
  "getOrCreateAta C m own = (\<lambda>s. case cl_ata C s m own of (r, sent, s1) \<Rightarrow>
      (case r of Inl e \<Rightarrow> Inl [e] | Inr x \<Rightarrow> Inr x, if sent then [Wrote (EnsureAta m own)] else [], s1))"

section \<open>Bootstrap\<close>

definition HEXUSDC_DECIMALS :: int where "HEXUSDC_DECIMALS = 6"

record 's script_platform =
  sp_env :: "string \<rightharpoonup> string"
  sp_argv :: "string list"
  sp_loadedMs :: int
  sp_createdMs :: int
  sp_dateParse :: "string \<Rightarrow> int option"
  sp_pk :: "string \<Rightarrow> pubkey option"
  sp_b58 :: "pubkey \<Rightarrow> string"
  sp_keypair :: "string \<Rightarrow> pubkey res"
  sp_bigInt :: "string \<Rightarrow> int res"
  sp_connect :: "string \<Rightarrow> 's boot_cluster res"
  sp_ix :: "pubkey \<Rightarrow> ix_env"
  sp_vrfNetworkState :: pubkey
  sp_generated :: "pubkey \<times> string"

definition requireEnv :: "'s script_platform \<Rightarrow> string \<Rightarrow> string res" where
  "requireEnv P key = (if isSet (sp_env P key) then Inr (the (sp_env P key)) else Inl (''missing required env var '' @ key))"

definition publicKey :: "'s script_platform \<Rightarrow> string \<Rightarrow> pubkey res" where
  "publicKey P text = (case sp_pk P text of None \<Rightarrow> Inl ''Invalid public key input'' | Some k \<Rightarrow> Inr k)"

definition ensureMint :: "'s script_platform \<Rightarrow> 's boot_cluster \<Rightarrow> pubkey \<Rightarrow> string option \<Rightarrow> ('s, pubkey) script" where
  "ensureMint P C hot envMint =
    (if \<not> isSet envMint then tx C (CreateMint hot HEXUSDC_DECIMALS)
     else after (ask (\<lambda>_. publicKey P (the envMint))) (\<lambda>mint s.
       case cl_mint C s mint of
         Inl cause \<Rightarrow> giveUp [''ACCEPTED_MINT '' @ the envMint @ '' is not a mint on this cluster; unset it to create a fresh one'', cause] s
       | Inr info \<Rightarrow>
           if mi_decimals info \<noteq> HEXUSDC_DECIMALS then
             giveUp [''ACCEPTED_MINT '' @ the envMint @ '' has '' @ showInt (mi_decimals info) @ '' decimals, expected ''
               @ showInt HEXUSDC_DECIMALS] s
           else give mint s))"

definition ensureSeededTokenAccount ::
    "'s script_platform \<Rightarrow> 's boot_cluster \<Rightarrow> pubkey \<Rightarrow> pubkey \<Rightarrow> string \<Rightarrow> pubkey \<Rightarrow> ('s, pubkey) script" where
  "ensureSeededTokenAccount P C hot mint label pool =
    (let seed = label @ ''-'' @ take 16 (sp_b58 P pool); address = cl_withSeed C hot seed
     in after (ask (\<lambda>s. cl_exists C s address)) (\<lambda>found.
          if found then give address
          else after (ask (cl_rent C)) (\<lambda>rent.
               after (tx C (CreateSeeded hot seed address rent mint)) (\<lambda>_. give address))))"

definition ensureExplicitTokenAccount ::
    "'s script_platform \<Rightarrow> 's boot_cluster \<Rightarrow> string \<Rightarrow> pubkey \<Rightarrow> pubkey \<Rightarrow> ('s, pubkey) script" where
  "ensureExplicitTokenAccount P C flag address mint = (\<lambda>s.
    case cl_tokenMint C s address of
      Inl cause \<Rightarrow> giveUp [''--'' @ flag @ '' '' @ sp_b58 P address @ '' is not a token account on this cluster'', cause] s
    | Inr held \<Rightarrow>
        if held \<noteq> mint then
          giveUp [''--'' @ flag @ '' '' @ sp_b58 P address @ '' holds mint '' @ sp_b58 P held @ '', expected '' @ sp_b58 P mint] s
        else give address s)"

text \<open>\<open>new Date(ms).toISOString()\<close> throws outside the range of a \<open>Date\<close>; \<open>stamp\<close> also formats the time eight
  hours later.\<close>

definition dateOk :: "int \<Rightarrow> bool" where "dateOk ms = (\<bar>ms\<bar> \<le> 8640000000000000)"

definition stamp :: "int \<Rightarrow> unit res" where
  "stamp unixSeconds =
    (if dateOk (unixSeconds * 1000) \<and> dateOk ((unixSeconds + 8 * 3600) * 1000) then Inr () else Inl ''Invalid time value'')"

definition nextBoundary :: "int \<Rightarrow> int \<Rightarrow> int \<Rightarrow> int" where
  "nextBoundary anchor period now = anchor + ((now - anchor) div period + 1) * period"

definition sayGrid :: "int \<Rightarrow> int \<Rightarrow> int \<Rightarrow> ('s, unit) script" where
  "sayGrid anchor period now =
    (let next = nextBoundary anchor period now
     in after (ask (\<lambda>_. stamp anchor)) (\<lambda>_. after (say (Anchor anchor)) (\<lambda>_.
        after (ask (\<lambda>_. stamp next)) (\<lambda>_. after (say (Boundary 1 next)) (\<lambda>_.
        after (ask (\<lambda>_. stamp (next + period))) (\<lambda>_. after (say (Boundary 2 (next + period))) (\<lambda>_.
        after (ask (\<lambda>_. stamp (next + 2 * period))) (\<lambda>_. say (Boundary 3 (next + 2 * period))))))))))"

definition createPool ::
    "'s script_platform \<Rightarrow> 's boot_cluster \<Rightarrow> ix_env \<Rightarrow> pubkey \<Rightarrow> pubkey \<Rightarrow> pubkey \<Rightarrow> int \<Rightarrow> pubkey \<Rightarrow> pubkey \<Rightarrow> pubkey \<Rightarrow> pubkey \<Rightarrow>
     pool_params \<Rightarrow> ('s, unit) script" where
  "createPool P C env hot admin operator poolId pool mint treasury buyback params =
    (if \<not> ie_hasMethod env ''createPool'' then
       giveUp [''the IDL has no create_pool instruction; run `pnpm --filter @hexvault/backend sync-idl`'']
     else after (tx C (CreatePool \<lparr>ca_payer = hot, ca_poolId = poolId, ca_admin = admin, ca_operator = operator,
         ca_vrfNetworkState = sp_vrfNetworkState P, ca_params = params, ca_pool = pool, ca_acceptedMint = mint,
         ca_principalVault = principalVaultAddress env pool, ca_jackpotVault = jackpotVaultAddress env pool,
         ca_house = playerAddress env pool operator, ca_treasury = treasury, ca_buybackReserve = buyback\<rparr>)) (\<lambda>_.
       sayGrid (pp_epochAnchor params) (pp_epochSeconds params) (sp_createdMs P div 1000)))"

definition startSwitch :: "'s boot_cluster \<Rightarrow> pubkey \<Rightarrow> pubkey \<Rightarrow> string \<Rightarrow> bool \<Rightarrow> ('s, unit) script" where
  "startSwitch C admin pool feature paused =
    (if \<not> paused then give () else after (tx C (SetFeaturePause feature False admin pool)) (\<lambda>_. give ()))"

definition startPool :: "'s script_platform \<Rightarrow> 's boot_cluster \<Rightarrow> ix_env \<Rightarrow> pubkey \<Rightarrow> pubkey \<Rightarrow> ('s, unit) script" where
  "startPool P C env admin pool =
    (if \<not> ie_hasMethod env ''setFeaturePause'' then
       giveUp [''the IDL has no set_feature_pause instruction; run `pnpm --filter @hexvault/backend sync-idl`'']
     else after (ask (\<lambda>s. cl_pool C s pool)) (\<lambda>found.
       case found of None \<Rightarrow> giveUp [''pool '' @ sp_b58 P pool @ '' not found after create_pool'']
       | Some st \<Rightarrow>
           after (startSwitch C admin pool ''jackpot'' (bp_jackpotPaused st)) (\<lambda>_.
             startSwitch C admin pool ''game'' (bp_gamePaused st))))"

definition poolBlock ::
    "'s script_platform \<Rightarrow> ix_env \<Rightarrow> pubkey \<Rightarrow> pubkey option \<Rightarrow> pubkey \<Rightarrow> int \<Rightarrow> pubkey \<Rightarrow> pubkey \<Rightarrow> pubkey \<Rightarrow> pubkey \<Rightarrow> string list" where
  "poolBlock P env mint authority programId poolId pool treasury buyback ata =
    [''ACCEPTED_MINT='' @ sp_b58 P mint,
     ''MINT_AUTHORITY='' @ (case authority of None \<Rightarrow> ''none'' | Some k \<Rightarrow> sp_b58 P k),
     ''PROGRAM_ID='' @ sp_b58 P programId,
     ''POOL_ID='' @ showInt poolId,
     ''POOL_ADDRESS='' @ sp_b58 P pool,
     ''PRINCIPAL_VAULT='' @ sp_b58 P (principalVaultAddress env pool),
     ''JACKPOT_VAULT='' @ sp_b58 P (jackpotVaultAddress env pool),
     ''TREASURY='' @ sp_b58 P treasury,
     ''BUYBACK_RESERVE='' @ sp_b58 P buyback,
     ''AUTHORITY_ATA='' @ sp_b58 P ata]"

text \<open>Everything from the resolved Pool address on; \<open>existing\<close> is the Pool account read there.\<close>

definition ensurePool ::
    "'s script_platform \<Rightarrow> 's boot_cluster \<Rightarrow> ix_env \<Rightarrow> pubkey \<Rightarrow> pubkey \<Rightarrow> pubkey \<Rightarrow> pubkey \<Rightarrow> int \<Rightarrow> pubkey \<Rightarrow> string option \<Rightarrow>
     pool_params \<Rightarrow> boot_pool option \<Rightarrow> ('s, unit) script" where
  "ensurePool P C env hot admin operator programId poolId pool envMint params existing =
    (after (case existing of Some e \<Rightarrow> give (bp_acceptedMint e)
          | None \<Rightarrow> bootStep ''resolving the accepted mint'' (ensureMint P C hot envMint)) (\<lambda>mint.
        after (bootStep ''creating the authority ATA'' (getOrCreateAta C mint hot)) (\<lambda>ata.
        after (case existing of Some e \<Rightarrow> give (bp_treasury e)
          | None \<Rightarrow> (case pp_treasury params of
              Some k \<Rightarrow> bootStep ''checking --treasury'' (ensureExplicitTokenAccount P C ''treasury'' k mint)
            | None \<Rightarrow> bootStep ''creating the treasury'' (ensureSeededTokenAccount P C hot mint ''treasury'' pool))) (\<lambda>treasury.
        after (case existing of Some e \<Rightarrow> give (bp_buybackReserve e)
          | None \<Rightarrow> (case pp_buybackReserve params of
              Some k \<Rightarrow> bootStep ''checking --buyback-reserve'' (ensureExplicitTokenAccount P C ''buyback-reserve'' k mint)
            | None \<Rightarrow> bootStep ''creating the buyback reserve'' (ensureSeededTokenAccount P C hot mint ''buyback'' pool))) (\<lambda>buyback.
        if treasury = buyback then giveUp [''treasury and buyback reserve must differ'']
        else
        after (case existing of Some e \<Rightarrow> give ()
          | None \<Rightarrow> bootStep ''calling create_pool'' (createPool P C env hot admin operator poolId pool mint treasury buyback params)) (\<lambda>_.
        after (if pp_start params then bootStep ''starting the jackpot and the game'' (startPool P C env hot pool) else give ()) (\<lambda>_.
        after (bootStep ''reading the mint authority'' (ask (\<lambda>s. cl_mint C s mint))) (\<lambda>info.
          say (Out (poolBlock P env mint (mi_mintAuthority info) programId poolId pool treasury buyback (fst ata)))))))))))"

definition bootRun ::
    "'s script_platform \<Rightarrow> 's boot_cluster \<Rightarrow> pubkey \<Rightarrow> pubkey option \<Rightarrow> pubkey \<Rightarrow> int \<Rightarrow> string option \<Rightarrow> pool_params \<Rightarrow> ('s, unit) script" where
  "bootRun P C hot explicitAdmin programId poolId envMint params =
    (let admin = (case explicitAdmin of Some a \<Rightarrow> a | None \<Rightarrow> hot);
         operator = (case pp_operator params of Some k \<Rightarrow> k | None \<Rightarrow> hot); env = sp_ix P programId
     in after (bootStep ''reading the genesis hash'' (ask (\<lambda>_. cl_genesisHash C))) (\<lambda>genesis.
        after (ask (\<lambda>_. assertMainnetSafe \<lparr>mg_genesisHash = genesis, mg_admin = explicitAdmin, mg_operator = operator,
             mg_treasury = pp_treasury params, mg_buybackReserve = pp_buybackReserve params, mg_acceptedMint = envMint\<rparr>)) (\<lambda>_.
        if pp_start params \<and> admin \<noteq> hot then
          giveUp [''--start needs the admin key, but the admin is '' @ sp_b58 P admin
            @ ''; start the pool with the admin CLI's start-jackpot and start-game instead'']
        else
        after (ask (\<lambda>_. poolAddress env poolId)) (\<lambda>pool.
        after (bootStep ''reading the pool account'' (ask (\<lambda>s. cl_pool C s pool))) (\<lambda>existing.
        after (case existing of
            Some e \<Rightarrow>
              if bp_operator e \<noteq> operator then
                giveUp [''pool '' @ sp_b58 P pool @ '' is cranked by '' @ sp_b58 P (bp_operator e) @ '', not by '' @ sp_b58 P operator]
              else if isSet envMint then
                after (ask (\<lambda>_. publicKey P (the envMint))) (\<lambda>m.
                  if bp_acceptedMint e \<noteq> m then
                    giveUp [''pool '' @ sp_b58 P pool @ '' accepts '' @ sp_b58 P (bp_acceptedMint e) @ '', but ACCEPTED_MINT is '' @ the envMint]
                  else give ())
              else give ()
          | None \<Rightarrow> give ()) (\<lambda>_.
          ensurePool P C env hot admin operator programId poolId pool envMint params existing))))))"

definition bootMain :: "'s script_platform \<Rightarrow> ('s, unit) script" where
  "bootMain P =
    after (ask (\<lambda>_. defaultPoolParams (sp_loadedMs P) (sp_env P))) (\<lambda>defaults.
    after (ask (\<lambda>_. parsePoolParams (sp_pk P) (sp_dateParse P) defaults (sp_argv P))) (\<lambda>params.
    after (ask (\<lambda>_. rbind (requireEnv P ''RPC_URL'') (sp_connect P))) (\<lambda>C.
    after (ask (\<lambda>_. rbind (requireEnv P ''OPERATOR_KEYPAIR'') (sp_keypair P))) (\<lambda>hot.
    after (case pp_admin params of Some a \<Rightarrow> give (Some a)
       | None \<Rightarrow> if isSet (sp_env P ''ADMIN_ADDRESS'')
           then after (ask (\<lambda>_. publicKey P (the (sp_env P ''ADMIN_ADDRESS'')))) (\<lambda>k. give (Some k))
           else give None) (\<lambda>explicitAdmin.
    after (ask (\<lambda>_. rbind (requireEnv P ''PROGRAM_ID'') (publicKey P))) (\<lambda>programId.
    after (ask (\<lambda>_. rbind (requireEnv P ''POOL_ID'') (sp_bigInt P))) (\<lambda>poolId.
      bootRun P C hot explicitAdmin programId poolId
        (case sp_env P ''ACCEPTED_MINT'' of Some m \<Rightarrow> Some m | None \<Rightarrow> sp_env P ''HEXUSDC_MINT'') params)))))))"

section \<open>The Sparring player\<close>

definition DEPOSIT :: int where "DEPOSIT = 1000000000"
definition TOP_UP_LAMPORTS :: int where "TOP_UP_LAMPORTS = 100000000"
definition MIN_LAMPORTS :: int where "MIN_LAMPORTS = 50000000"

definition topUp :: "'s boot_cluster \<Rightarrow> pubkey \<Rightarrow> pubkey \<Rightarrow> ('s, unit) script" where
  "topUp C authority sparring =
    after (ask (\<lambda>s. cl_balance C s sparring)) (\<lambda>lamports.
      if lamports \<ge> MIN_LAMPORTS then give ()
      else after (tx C (TransferSol authority sparring TOP_UP_LAMPORTS)) (\<lambda>_. give ()))"

definition fundWallet :: "'s script_platform \<Rightarrow> 's boot_cluster \<Rightarrow> pubkey \<Rightarrow> pubkey \<Rightarrow> pubkey \<Rightarrow> ('s, pubkey) script" where
  "fundWallet P C authority mint sparring =
    after (getOrCreateAta C mint sparring) (\<lambda>(address, amount).
      if amount \<ge> DEPOSIT then give address
      else after (ask (\<lambda>s. cl_mint C s mint)) (\<lambda>info.
        if mi_mintAuthority info \<noteq> Some authority then
          giveUp [''mint '' @ sp_b58 P mint @ '' is controlled by ''
            @ (case mi_mintAuthority info of None \<Rightarrow> ''nobody'' | Some k \<Rightarrow> sp_b58 P k)
            @ '', not by this key: send 1000 hexUSDC to '' @ sp_b58 P address @ '' and run this again'']
        else after (tx C (MintTo mint address DEPOSIT)) (\<lambda>_. give address)))"

definition depositOnce ::
    "'s boot_cluster \<Rightarrow> ix_env \<Rightarrow> pubkey \<Rightarrow> pubkey \<Rightarrow> pubkey \<Rightarrow> pubkey \<Rightarrow> pubkey \<Rightarrow> ('s, unit) script" where
  "depositOnce C env sparring pool player mint tokenAccount =
    (if \<not> ie_hasMethod env ''deposit'' then
       giveUp [''the IDL has no deposit instruction; run `pnpm --filter @hexvault/backend sync-idl`'']
     else after (tx C (Deposit DEPOSIT
       [(''owner'', sparring), (''pool'', pool), (''player'', player), (''acceptedMint'', mint), (''ownerToken'', tokenAccount),
        (''principalVault'', principalVaultAddress env pool), (''tokenProgram'', ie_tokenProgram env),
        (''systemProgram'', ie_systemProgram env)])) (\<lambda>_. give ()))"

definition sparringRun :: "'s script_platform \<Rightarrow> 's boot_cluster \<Rightarrow> ix_env \<Rightarrow> pubkey \<Rightarrow> pubkey \<Rightarrow> int \<Rightarrow> pubkey \<Rightarrow> ('s, unit) script" where
  "sparringRun P C env authority mint poolId sparring =
    (after (ask (\<lambda>_. poolAddress env poolId)) (\<lambda>pool.
        after (sparringStep ''reading the pool account'' (after (ask (\<lambda>s. cl_exists C s pool)) (\<lambda>found.
          if found then give () else giveUp [''pool '' @ sp_b58 P pool @ '' not found on this cluster; has bootstrap run?'']))) (\<lambda>_.
        after (sparringStep ''topping up the Sparring wallet's SOL'' (topUp C authority sparring)) (\<lambda>_.
        let player = playerAddress env pool sparring
        in after (sparringStep ''reading the Sparring Player'' (ask (\<lambda>s. cl_principal C s player))) (\<lambda>found.
           if (case found of None \<Rightarrow> 0 | Some n \<Rightarrow> n) \<ge> DEPOSIT then give ()
           else after (sparringStep ''funding the Sparring wallet'' (fundWallet P C authority mint sparring)) (\<lambda>tokenAccount.
                sparringStep ''depositing'' (depositOnce C env sparring pool player mint tokenAccount)))))))"

definition sparringMain :: "'s script_platform \<Rightarrow> ('s, unit) script" where
  "sparringMain P =
    after (ask (\<lambda>_. rbind (requireEnv P ''RPC_URL'') (sp_connect P))) (\<lambda>C.
    after (ask (\<lambda>_. rbind (requireEnv P ''OPERATOR_KEYPAIR'') (sp_keypair P))) (\<lambda>authority.
    after (ask (\<lambda>_. rbind (case sp_env P ''ACCEPTED_MINT'' of Some m \<Rightarrow> Inr m | None \<Rightarrow> requireEnv P ''HEXUSDC_MINT'') (publicKey P))) (\<lambda>mint.
    after (ask (\<lambda>_. rbind (requireEnv P ''PROGRAM_ID'') (publicKey P))) (\<lambda>programId.
    after (ask (\<lambda>_. rbind (requireEnv P ''POOL_ID'') (sp_bigInt P))) (\<lambda>poolId.
    after (if isSet (sp_env P ''SPARRING_KEYPAIR'') then ask (\<lambda>_. sp_keypair P (the (sp_env P ''SPARRING_KEYPAIR'')))
           else after (say (Out [''SPARRING_KEYPAIR='' @ snd (sp_generated P)])) (\<lambda>_. give (fst (sp_generated P)))) (\<lambda>sparring.
      sparringRun P C (sp_ix P programId) authority mint poolId sparring))))))"

end
