(* ===== verification/Bootstrap_Laws.thy ===== *)
theory Bootstrap_Laws
  imports Bootstrap Config_Laws
begin

text \<open>
  What the two set-up scripts guarantee: a second \<open>bootstrap\<close> creates nothing and prints the same block, nothing
  is written on mainnet behind a default of the hot key, the printed grid starts at the first boundary still
  to come, and the Sparring player is funded and deposits once.
\<close>

section \<open>Successful scripts\<close>

lemma after_Inr:
  "after m f s = (Inr y, ev, s') \<longleftrightarrow>
   (\<exists>x ev1 s1 ev2. m s = (Inr x, ev1, s1) \<and> f x s1 = (Inr y, ev2, s') \<and> ev = ev1 @ ev2)"
  by (auto simp: after_def split: prod.splits sum.splits)

lemma give_Inr [simp]: "give x s = (Inr y, ev, s') \<longleftrightarrow> y = x \<and> ev = [] \<and> s' = s"
  by (auto simp: give_def)

lemma giveUp_Inr [simp]: "giveUp es s = (Inr y, ev, s') \<longleftrightarrow> False"
  by (simp add: giveUp_def)

lemma ask_Inr [simp]: "ask q s = (Inr y, ev, s') \<longleftrightarrow> q s = Inr y \<and> ev = [] \<and> s' = s"
  by (auto simp: ask_def split: sum.splits)

lemma say_Inr [simp]: "say e s = (Inr y, ev, s') \<longleftrightarrow> ev = [e] \<and> s' = s"
  by (auto simp: say_def)

lemma step_Inr [simp]: "step sc w m s = (Inr y, ev, s') \<longleftrightarrow> m s = (Inr y, ev, s')"
  by (auto simp: step_def split: prod.splits sum.splits)

lemma bootStep_Inr [simp]: "bootStep w m s = (Inr y, ev, s') \<longleftrightarrow> m s = (Inr y, ev, s')"
  by (simp add: bootStep_def)

lemma sparringStep_Inr [simp]: "sparringStep w m s = (Inr y, ev, s') \<longleftrightarrow> m s = (Inr y, ev, s')"
  by (simp add: sparringStep_def)

lemma tx_Inr: "tx C w s = (Inr y, ev, s') \<longleftrightarrow> cl_write C s w = (Inr y, s') \<and> ev = [Wrote w]"
  by (auto simp: tx_def split: prod.splits sum.splits)

lemma getOrCreateAta_Inr:
  "getOrCreateAta C m own s = (Inr y, ev, s') \<longleftrightarrow>
   (\<exists>sent. cl_ata C s m own = (Inr y, sent, s') \<and> ev = (if sent then [Wrote (EnsureAta m own)] else []))"
  by (auto simp: getOrCreateAta_def split: prod.splits sum.splits)

lemmas script_Inr = after_Inr tx_Inr getOrCreateAta_Inr

lemma after_runs: "m s = (Inr x, ev1, s1) \<Longrightarrow> f x s1 = (r, ev2, s2) \<Longrightarrow> after m f s = (r, ev1 @ ev2, s2)"
  by (simp add: after_def)

section \<open>What the cluster keeps\<close>

definition setSwitch :: "string \<Rightarrow> bool \<Rightarrow> boot_pool \<Rightarrow> boot_pool" where
  "setSwitch f b p =
    (if f = ''game'' then p\<lparr>bp_gamePaused := b\<rparr> else if f = ''jackpot'' then p\<lparr>bp_jackpotPaused := b\<rparr> else p)"

text \<open>Token accounts are never closed and a created one keeps its address; \<open>create_pool\<close> records the roles and
  accounts it is given, creating a token account leaves the Pool alone, and \<open>set_feature_pause\<close> changes the one
  switch.\<close>

definition keepsAtas :: "'s boot_cluster \<Rightarrow> bool" where
  "keepsAtas C \<longleftrightarrow> (\<forall>s m own a n sent s'. cl_ata C s m own = (Inr (a, n), sent, s') \<longrightarrow>
     (\<exists>n'. cl_ata C s' m own = (Inr (a, n'), False, s')) \<and> (\<forall>k. cl_pool C s' k = cl_pool C s k))"

definition writesKeepAtas :: "'s boot_cluster \<Rightarrow> bool" where
  "writesKeepAtas C \<longleftrightarrow> (\<forall>s w r s' m own a n. cl_write C s w = (r, s') \<longrightarrow>
     cl_ata C s m own = (Inr (a, n), False, s) \<longrightarrow> (\<exists>n'. cl_ata C s' m own = (Inr (a, n'), False, s')))"

definition recordsPool :: "'s boot_cluster \<Rightarrow> bool" where
  "recordsPool C \<longleftrightarrow> (\<forall>s c k s'. cl_write C s (CreatePool c) = (Inr k, s') \<longrightarrow>
     (\<exists>p. cl_pool C s' (ca_pool c) = Inr (Some p) \<and> bp_operator p = ca_operator c \<and> bp_acceptedMint p = ca_acceptedMint c \<and>
        bp_treasury p = ca_treasury c \<and> bp_buybackReserve p = ca_buybackReserve c))"

definition turnsSwitches :: "'s boot_cluster \<Rightarrow> bool" where
  "turnsSwitches C \<longleftrightarrow> (\<forall>s f b key q k s' p. cl_write C s (SetFeaturePause f b key q) = (Inr k, s') \<longrightarrow>
     cl_pool C s q = Inr (Some p) \<longrightarrow> cl_pool C s' q = Inr (Some (setSwitch f b p)))"

definition lawfulCluster :: "'s boot_cluster \<Rightarrow> bool" where
  "lawfulCluster C \<longleftrightarrow> keepsAtas C \<and> writesKeepAtas C \<and> recordsPool C \<and> turnsSwitches C"

lemma lawful_ata:
  "lawfulCluster C \<Longrightarrow> cl_ata C s m own = (Inr (a, n), sent, s') \<Longrightarrow>
    (\<exists>n'. cl_ata C s' m own = (Inr (a, n'), False, s')) \<and> (\<forall>k. cl_pool C s' k = cl_pool C s k)"
  unfolding lawfulCluster_def keepsAtas_def by (drule conjunct1) simp

lemma lawful_kept:
  assumes "lawfulCluster C" "cl_write C s w = (r, s')" "cl_ata C s m own = (Inr (a, n), False, s)"
  shows "\<exists>n'. cl_ata C s' m own = (Inr (a, n'), False, s')"
proof -
  have "writesKeepAtas C" using assms(1) by (simp add: lawfulCluster_def)
  then show ?thesis using assms(2,3) unfolding writesKeepAtas_def by simp
qed

lemma lawful_create:
  assumes "lawfulCluster C" "cl_write C s (CreatePool c) = (Inr k, s')"
  shows "\<exists>p. cl_pool C s' (ca_pool c) = Inr (Some p) \<and> bp_operator p = ca_operator c \<and> bp_acceptedMint p = ca_acceptedMint c \<and>
      bp_treasury p = ca_treasury c \<and> bp_buybackReserve p = ca_buybackReserve c"
proof -
  have "recordsPool C" using assms(1) by (simp add: lawfulCluster_def)
  then show ?thesis using assms(2) unfolding recordsPool_def by simp
qed

lemma lawful_switch:
  assumes "lawfulCluster C" "cl_write C s (SetFeaturePause f b key q) = (Inr k, s')" "cl_pool C s q = Inr (Some p)"
  shows "cl_pool C s' q = Inr (Some (setSwitch f b p))"
proof -
  have "turnsSwitches C" using assms(1) by (simp add: lawfulCluster_def)
  then show ?thesis using assms(2,3) unfolding turnsSwitches_def by simp
qed

definition ataHeld :: "'s boot_cluster \<Rightarrow> pubkey \<Rightarrow> pubkey \<Rightarrow> pubkey \<Rightarrow> 's \<Rightarrow> bool" where
  "ataHeld C m own a s = (\<exists>n. cl_ata C s m own = (Inr (a, n), False, s))"

lemma ataHeld_kept: "lawfulCluster C \<Longrightarrow> cl_write C s w = (r, s') \<Longrightarrow> ataHeld C m own a s \<Longrightarrow> ataHeld C m own a s'"
  unfolding ataHeld_def by (elim exE) (rule lawful_kept)

lemma tx_ataHeld: "lawfulCluster C \<Longrightarrow> tx C w s = (r, ev, s') \<Longrightarrow> ataHeld C m own a s \<Longrightarrow> ataHeld C m own a s'"
  using ataHeld_kept by (fastforce simp: tx_def split: prod.splits)

text \<open>The parts of a Pool account that a run relies on.\<close>

definition poolIs :: "'s boot_cluster \<Rightarrow> pubkey \<Rightarrow> pubkey \<Rightarrow> pubkey \<Rightarrow> pubkey \<Rightarrow> pubkey \<Rightarrow> 's \<Rightarrow> bool" where
  "poolIs C pool operator m t b s = (\<exists>p. cl_pool C s pool = Inr (Some p) \<and> bp_operator p = operator \<and>
     bp_acceptedMint p = m \<and> bp_treasury p = t \<and> bp_buybackReserve p = b)"

definition startedAt :: "'s boot_cluster \<Rightarrow> pubkey \<Rightarrow> 's \<Rightarrow> bool" where
  "startedAt C pool s = (\<exists>p. cl_pool C s pool = Inr (Some p) \<and> \<not> bp_gamePaused p \<and> \<not> bp_jackpotPaused p)"

lemma startSwitch_laws:
  assumes "lawfulCluster C" "startSwitch C admin pool f b s = (Inr u, ev, s')" "cl_pool C s pool = Inr (Some p)"
  shows "cl_pool C s' pool = Inr (Some (if b then setSwitch f False p else p))"
    "ataHeld C m own a s \<Longrightarrow> ataHeld C m own a s'"
  using assms lawful_switch ataHeld_kept by (auto simp: startSwitch_def script_Inr split: if_splits)

lemma startPool_laws:
  assumes "lawfulCluster C" "startPool P C env admin pool s = (Inr u, ev, s')"
  shows "startedAt C pool s'" "poolIs C pool operator m t b s \<Longrightarrow> poolIs C pool operator m t b s'"
    "ataHeld C m' own a s \<Longrightarrow> ataHeld C m' own a s'"
proof -
  from assms(2) obtain p s1 ev1 ev2 u1 where p: "cl_pool C s pool = Inr (Some p)"
      "startSwitch C admin pool ''jackpot'' (bp_jackpotPaused p) s = (Inr u1, ev1, s1)"
      "startSwitch C admin pool ''game'' (bp_gamePaused p) s1 = (Inr u, ev2, s')"
    by (auto simp: startPool_def script_Inr split: if_splits option.splits)
  note jackpot = startSwitch_laws[OF assms(1) p(2,1)]
  note game = startSwitch_laws[OF assms(1) p(3) jackpot(1)]
  show "startedAt C pool s'" using game(1) by (auto simp: startedAt_def setSwitch_def)
  show "poolIs C pool operator m t b s \<Longrightarrow> poolIs C pool operator m t b s'"
    using game(1) p(1) by (auto simp: poolIs_def setSwitch_def)
  show "ataHeld C m' own a s \<Longrightarrow> ataHeld C m' own a s'" using jackpot(2) game(2) by blast
qed

lemma startPool_settled:
  assumes "startedAt C pool s" "ie_hasMethod env ''setFeaturePause''"
  shows "startPool P C env admin pool s = (Inr (), [], s)"
  using assms by (auto simp: startedAt_def startPool_def script_Inr startSwitch_def)

section \<open>A second run\<close>

lemma ensureMint_env:
  assumes "ensureMint P C hot envMint s = (Inr m, ev, s')" "isSet envMint"
  shows "publicKey P (the envMint) = Inr m"
proof -
  from assms obtain k where k: "publicKey P (the envMint) = Inr k" by (auto simp: ensureMint_def script_Inr)
  then show ?thesis using assms by (cases "cl_mint C s k") (auto simp: ensureMint_def script_Inr split: if_splits)
qed

lemma seeded_ataHeld:
  assumes "lawfulCluster C" "ensureSeededTokenAccount P C hot m l pool s = (Inr k, ev, s')"
  shows "ataHeld C m' own a s \<Longrightarrow> ataHeld C m' own a s'"
  using assms ataHeld_kept by (auto simp: ensureSeededTokenAccount_def Let_def script_Inr split: if_splits)

lemma explicit_pure: "ensureExplicitTokenAccount P C f k m s = (Inr k', ev, s') \<Longrightarrow> s' = s"
  by (auto simp: ensureExplicitTokenAccount_def split: sum.splits if_splits)

lemma sayGrid_pure: "sayGrid anchor period now s = (Inr u, ev, s') \<Longrightarrow> s' = s"
  by (auto simp: sayGrid_def Let_def after_Inr)

lemma createPool_laws:
  assumes "lawfulCluster C" "createPool P C env hot admin operator poolId pool m t b params s = (Inr u, ev, s')"
  shows "poolIs C pool operator m t b s'" "ataHeld C m' own a s \<Longrightarrow> ataHeld C m' own a s'"
proof -
  let ?c = "\<lparr>ca_payer = hot, ca_poolId = poolId, ca_admin = admin, ca_operator = operator,
      ca_vrfNetworkState = sp_vrfNetworkState P, ca_params = params, ca_pool = pool, ca_acceptedMint = m,
      ca_principalVault = principalVaultAddress env pool, ca_jackpotVault = jackpotVaultAddress env pool,
      ca_house = playerAddress env pool operator, ca_treasury = t, ca_buybackReserve = b\<rparr>"
  from assms(2) obtain k s1 where w: "cl_write C s (CreatePool ?c) = (Inr k, s1)" "s' = s1"
    by (auto simp: createPool_def script_Inr dest: sayGrid_pure split: if_splits)
  show "poolIs C pool operator m t b s'" using lawful_create[OF assms(1) w(1)] w(2) by (simp add: poolIs_def)
  show "ataHeld C m' own a s \<Longrightarrow> ataHeld C m' own a s'" using ataHeld_kept[OF assms(1) w(1)] w(2) by simp
qed


definition resolvedAccount ::
    "'s script_platform \<Rightarrow> 's boot_cluster \<Rightarrow> pubkey \<Rightarrow> pubkey \<Rightarrow> string \<Rightarrow> string \<Rightarrow> pubkey \<Rightarrow> pubkey option \<Rightarrow> pubkey option \<Rightarrow> ('s, pubkey) script" where
  "resolvedAccount P C hot m flag label pool existing explicit =
    (case existing of Some k \<Rightarrow> give k
     | None \<Rightarrow> (case explicit of Some k \<Rightarrow> ensureExplicitTokenAccount P C flag k m
       | None \<Rightarrow> ensureSeededTokenAccount P C hot m label pool))"

lemma resolvedAccount_laws:
  assumes "lawfulCluster C" "resolvedAccount P C hot m flag label pool existing explicit s = (Inr k, ev, s')"
  shows "ataHeld C m' own a s \<Longrightarrow> ataHeld C m' own a s'" "existing \<noteq> None \<Longrightarrow> Some k = existing \<and> s' = s"
  using assms seeded_ataHeld by (auto simp: resolvedAccount_def split: option.splits dest: explicit_pure)

text \<open>A successful \<open>ensurePool\<close> leaves the Pool it printed.\<close>

lemma ensurePool_laws:
  assumes law: "lawfulCluster C"
    and run: "ensurePool P C env hot admin operator programId poolId pool envMint params existing s = (Inr u, ev, s')"
    and read: "cl_pool C s pool = Inr existing" "\<forall>e. existing = Some e \<longrightarrow> bp_operator e = operator"
  shows "\<exists>m t b a info evs. poolIs C pool operator m t b s' \<and> t \<noteq> b \<and> ataHeld C m hot a s' \<and> cl_mint C s' m = Inr info \<and>
     (pp_start params \<longrightarrow> startedAt C pool s' \<and> ie_hasMethod env ''setFeaturePause'') \<and>
     (existing = None \<longrightarrow> isSet envMint \<longrightarrow> publicKey P (the envMint) = Inr m) \<and>
     (\<forall>e. existing = Some e \<longrightarrow> m = bp_acceptedMint e) \<and>
     ev = evs @ [Out (poolBlock P env m (mi_mintAuthority info) programId poolId pool t b a)]"
proof -
  from run obtain m t b a n info s0 s1 s2 s3 s4 ev0 ev1 ev2 ev3 ev4 ev5 where
      mint: "(case existing of Some e \<Rightarrow> give (bp_acceptedMint e) | None \<Rightarrow> ensureMint P C hot envMint) s = (Inr m, ev0, s0)"
    and ata: "getOrCreateAta C m hot s0 = (Inr (a, n), ev1, s1)"
    and treasury: "resolvedAccount P C hot m ''treasury'' ''treasury'' pool (map_option bp_treasury existing) (pp_treasury params) s1 = (Inr t, ev2, s2)"
    and buyback: "resolvedAccount P C hot m ''buyback-reserve'' ''buyback'' pool (map_option bp_buybackReserve existing) (pp_buybackReserve params) s2 = (Inr b, ev3, s3)"
    and differ: "t \<noteq> b"
    and create: "(case existing of Some e \<Rightarrow> give ()
        | None \<Rightarrow> createPool P C env hot admin operator poolId pool m t b params) s3 = (Inr (), ev4, s4)"
    and start: "(if pp_start params then startPool P C env hot pool else give ()) s4 = (Inr (), ev5, s')"
    and info: "cl_mint C s' m = Inr info"
    and out: "ev = (ev0 @ ev1 @ ev2 @ ev3 @ ev4 @ ev5) @ [Out (poolBlock P env m (mi_mintAuthority info) programId poolId pool t b a)]"
    by (cases existing; cases "pp_treasury params"; cases "pp_buybackReserve params"; cases "pp_start params")
      (auto simp: ensurePool_def after_Inr resolvedAccount_def split: if_split_asm)
  have held1: "ataHeld C m hot a s1" and pool1: "cl_pool C s1 k = cl_pool C s0 k" for k
    using ata lawful_ata[OF law] by (auto simp: getOrCreateAta_Inr ataHeld_def)
  have held3: "ataHeld C m hot a s3"
    by (rule resolvedAccount_laws(1)[OF law buyback resolvedAccount_laws(1)[OF law treasury held1]])
  have "poolIs C pool operator m t b s4 \<and> ataHeld C m hot a s4"
  proof (cases existing)
    case None
    then have made: "createPool P C env hot admin operator poolId pool m t b params s3 = (Inr (), ev4, s4)" using create by simp
    show ?thesis using createPool_laws(1)[OF law made] createPool_laws(2)[OF law made held3] by simp
  next
    case (Some e)
    then have "s0 = s" "m = bp_acceptedMint e" "s4 = s3" using mint create by auto
    moreover have "t = bp_treasury e" "s2 = s1" "b = bp_buybackReserve e" "s3 = s2"
      using resolvedAccount_laws(2)[OF law treasury] resolvedAccount_laws(2)[OF law buyback] Some by auto
    ultimately show ?thesis using held3 pool1 read Some by (simp add: poolIs_def)
  qed
  then have fin: "poolIs C pool operator m t b s' \<and> ataHeld C m hot a s'"
    using start startPool_laws(2,3)[OF law] by (auto split: if_split_asm)
  have started: "pp_start params \<longrightarrow> startedAt C pool s' \<and> ie_hasMethod env ''setFeaturePause''"
    using start startPool_laws(1)[OF law] by (auto simp: startPool_def split: if_split_asm)
  show ?thesis
    using fin differ info out started mint ensureMint_env by (intro exI[of _ m] exI[of _ t] exI[of _ b] exI[of _ a] exI[of _ info]) (auto split: option.splits)
qed

lemma ensurePool_settled:
  assumes "poolIs C pool operator m t b s" "cl_pool C s pool = Inr (Some e)" "t \<noteq> b" "ataHeld C m hot a s"
    and "cl_mint C s m = Inr info" "pp_start params \<Longrightarrow> startedAt C pool s \<and> ie_hasMethod env ''setFeaturePause''"
  shows "ensurePool P C env hot admin operator programId poolId pool envMint params (Some e) s =
    (Inr (), [Out (poolBlock P env m (mi_mintAuthority info) programId poolId pool t b a)], s)"
proof -
  have e: "bp_acceptedMint e = m" "bp_treasury e = t" "bp_buybackReserve e = b" using assms(1,2) by (auto simp: poolIs_def)
  obtain n where ata: "cl_ata C s m hot = (Inr (a, n), False, s)" using assms(4) by (auto simp: ataHeld_def)
  have "pp_start params \<Longrightarrow> startPool P C env hot pool s = (Inr (), [], s)"
    using assms(6) startPool_settled[of C pool s "env" P hot] by simp
  then show ?thesis using ata assms(3,5)
    by (cases "pp_start params")
      (simp_all add: ensurePool_def after_def give_def ask_def bootStep_def step_def getOrCreateAta_def say_def e)
qed

definition bootAdmin :: "pubkey \<Rightarrow> pubkey option \<Rightarrow> pubkey" where
  "bootAdmin hot explicitAdmin = (case explicitAdmin of Some a \<Rightarrow> a | None \<Rightarrow> hot)"

definition bootOperator :: "pubkey \<Rightarrow> pool_params \<Rightarrow> pubkey" where
  "bootOperator hot params = (case pp_operator params of Some k \<Rightarrow> k | None \<Rightarrow> hot)"

lemma bootOperator_eq: "bootOperator hot params = bootAdmin hot (pp_operator params)"
  by (simp add: bootOperator_def bootAdmin_def)

definition guardInput :: "'s boot_cluster \<Rightarrow> pubkey \<Rightarrow> pubkey option \<Rightarrow> string option \<Rightarrow> pool_params \<Rightarrow> string \<Rightarrow> mainnet_guard_input" where
  "guardInput C hot explicitAdmin envMint params genesis =
    \<lparr>mg_genesisHash = genesis, mg_admin = explicitAdmin, mg_operator = bootOperator hot params,
     mg_treasury = pp_treasury params, mg_buybackReserve = pp_buybackReserve params, mg_acceptedMint = envMint\<rparr>"

text \<open>The checks of an existing Pool.\<close>

definition poolFits :: "'s script_platform \<Rightarrow> pubkey \<Rightarrow> string option \<Rightarrow> boot_pool option \<Rightarrow> bool" where
  "poolFits P operator envMint existing = (\<forall>e. existing = Some e \<longrightarrow>
     bp_operator e = operator \<and> (isSet envMint \<longrightarrow> publicKey P (the envMint) = Inr (bp_acceptedMint e)))"

lemma bootRun_Inr:
  "bootRun P C hot explicitAdmin programId poolId envMint params s = (Inr u, ev, s') \<longleftrightarrow>
   (\<exists>genesis pool existing. cl_genesisHash C = Inr genesis \<and>
      assertMainnetSafe (guardInput C hot explicitAdmin envMint params genesis) = Inr () \<and>
      (pp_start params \<longrightarrow> bootAdmin hot explicitAdmin = hot) \<and> poolAddress (sp_ix P programId) poolId = Inr pool \<and>
      cl_pool C s pool = Inr existing \<and> poolFits P (bootOperator hot params) envMint existing \<and>
      ensurePool P C (sp_ix P programId) hot (bootAdmin hot explicitAdmin) (bootOperator hot params) programId poolId pool
        envMint params existing s = (Inr u, ev, s'))"
  (is "?run \<longleftrightarrow> (\<exists>genesis pool existing. ?R genesis pool existing)")
proof -
  have fit: "(case existing of Some e \<Rightarrow>
        if bp_operator e \<noteq> operator then giveUp (es e)
        else if isSet envMint then
          after (ask (\<lambda>_. publicKey P (the envMint))) (\<lambda>m. if bp_acceptedMint e \<noteq> m then giveUp (es' e) else give ())
        else give () | None \<Rightarrow> give ()) s0 = (Inr x, ev0, s1) \<longleftrightarrow>
      poolFits P operator envMint existing \<and> ev0 = [] \<and> s1 = s0" for existing operator es es' s0 x ev0 s1
    by (cases existing) (auto simp: poolFits_def script_Inr split: if_splits)
  show ?thesis
    unfolding bootRun_def Let_def after_Inr guardInput_def bootOperator_eq bootAdmin_def[symmetric]
    by (cases "pp_start params \<and> bootAdmin hot explicitAdmin \<noteq> hot") (simp_all add: after_Inr fit cong: conj_cong)
qed

section \<open>The grid\<close>

lemma nextBoundary_laws:
  assumes "0 < period"
  shows "now < nextBoundary anchor period now" "nextBoundary anchor period now \<le> now + period"
    "(nextBoundary anchor period now - anchor) mod period = 0"
proof -
  let ?d = "now - anchor"
  have parts: "?d div period * period + ?d mod period = ?d" by simp
  have m: "0 \<le> ?d mod period" "?d mod period < period" using assms by auto
  have n: "nextBoundary anchor period now = anchor + ?d div period * period + period"
    by (simp add: nextBoundary_def algebra_simps)
  show "now < nextBoundary anchor period now" "nextBoundary anchor period now \<le> now + period"
    using parts m unfolding n by linarith+
  show "(nextBoundary anchor period now - anchor) mod period = 0" by (simp add: nextBoundary_def)
qed

lemma poolBlock_clock [simp]: "poolBlock (P\<lparr>sp_createdMs := t\<rparr>) = poolBlock P"
  by (auto simp: poolBlock_def fun_eq_iff split: option.split)

section \<open>Properties\<close>

text \<open>C29: A second bootstrap creates nothing and prints the same block: once a run has ended well, the same command
  run again, at whatever later time and default anchor, attempts no transaction, changes nothing and writes to
  standard output exactly what the first wrote.\<close>

theorem second_bootstrap_creates_nothing:
  assumes "lawfulCluster C" "bootRun P C hot explicitAdmin programId poolId envMint params s = (Inr u, ev, s')"
  shows "\<exists>block. last ev = Out block \<and>
    bootRun (P\<lparr>sp_createdMs := later\<rparr>) C hot explicitAdmin programId poolId envMint (params\<lparr>pp_epochAnchor := anchor\<rparr>) s' =
      (Inr (), [Out block], s')"
proof -
  let ?op = "bootOperator hot params" and ?env = "sp_ix P programId" and ?P = "P\<lparr>sp_createdMs := later\<rparr>"
    and ?params = "params\<lparr>pp_epochAnchor := anchor\<rparr>"
  obtain genesis pool existing where first: "cl_genesisHash C = Inr genesis"
      "assertMainnetSafe (guardInput C hot explicitAdmin envMint params genesis) = Inr ()"
      "pp_start params \<longrightarrow> bootAdmin hot explicitAdmin = hot" "poolAddress ?env poolId = Inr pool"
    and read: "cl_pool C s pool = Inr existing" and fits: "poolFits P ?op envMint existing"
    and run: "ensurePool P C ?env hot (bootAdmin hot explicitAdmin) ?op programId poolId pool envMint params existing s = (Inr u, ev, s')"
    using assms(2) unfolding bootRun_Inr by blast
  have fit: "\<forall>e. existing = Some e \<longrightarrow> bp_operator e = ?op" using fits by (simp add: poolFits_def)
  obtain m t b a info evs where st: "poolIs C pool ?op m t b s'" "t \<noteq> b" "ataHeld C m hot a s'" "cl_mint C s' m = Inr info"
      "pp_start params \<longrightarrow> startedAt C pool s' \<and> ie_hasMethod ?env ''setFeaturePause''"
      "existing = None \<longrightarrow> isSet envMint \<longrightarrow> publicKey P (the envMint) = Inr m"
      "\<forall>e. existing = Some e \<longrightarrow> m = bp_acceptedMint e"
      "ev = evs @ [Out (poolBlock P ?env m (mi_mintAuthority info) programId poolId pool t b a)]"
    using ensurePool_laws[OF assms(1) run read fit] by (elim exE conjE) (rule that)
  let ?block = "poolBlock P ?env m (mi_mintAuthority info) programId poolId pool t b a"
  obtain e where e: "cl_pool C s' pool = Inr (Some e)" "bp_operator e = ?op" "bp_acceptedMint e = m" using st(1) by (auto simp: poolIs_def)
  have "isSet envMint \<longrightarrow> publicKey P (the envMint) = Inr m"
    using fits st(6,7) by (cases existing) (auto simp: poolFits_def)
  then have fits2: "poolFits ?P (bootOperator hot ?params) envMint (Some e)"
    using e by (simp add: poolFits_def bootOperator_def publicKey_def)
  have "ensurePool ?P C ?env hot (bootAdmin hot explicitAdmin) ?op programId poolId pool envMint ?params (Some e) s' =
      (Inr (), [Out (poolBlock ?P ?env m (mi_mintAuthority info) programId poolId pool t b a)], s')"
    using st(5) by (intro ensurePool_settled[OF st(1) e(1) st(2,3,4)]) simp
  then have "ensurePool ?P C (sp_ix ?P programId) hot (bootAdmin hot explicitAdmin) (bootOperator hot ?params) programId poolId pool
      envMint ?params (Some e) s' = (Inr (), [Out ?block], s')"
    by (simp add: bootOperator_def)
  moreover have "guardInput C hot explicitAdmin envMint ?params genesis = guardInput C hot explicitAdmin envMint params genesis"
    by (simp add: guardInput_def bootOperator_def)
  ultimately have "bootRun ?P C hot explicitAdmin programId poolId envMint ?params s' = (Inr (), [Out ?block], s')"
    using first e(1) fits2 unfolding bootRun_Inr by (intro exI[of _ genesis] exI[of _ pool] exI[of _ "Some e"]) simp
  then show ?thesis using st(8) by (intro exI[of _ ?block]) simp
qed

text \<open>C30: On mainnet nothing happens behind a default: a bootstrap that attempts anything there was given the Admin,
  the Treasury, the Buyback reserve and the mint explicitly, its Admin is not the Operator, and it starts the
  game only with the Admin's own key.\<close>

theorem mainnet_writes_need_explicit_roles:
  assumes "bootRun P C hot explicitAdmin programId poolId envMint params s = (r, ev, s')" "ev \<noteq> []"
    and "cl_genesisHash C = Inr MAINNET_GENESIS_HASH"
  shows "explicitAdmin \<noteq> None \<and> pp_treasury params \<noteq> None \<and> pp_buybackReserve params \<noteq> None \<and> isSet envMint \<and>
    explicitAdmin \<noteq> Some (bootOperator hot params) \<and> (pp_start params \<longrightarrow> explicitAdmin = Some hot)"
proof -
  let ?guard = "guardInput C hot explicitAdmin envMint params MAINNET_GENESIS_HASH"
  have refused: "ev = []" if "assertMainnetSafe ?guard = Inl e" for e
    using that assms(1,3) unfolding bootRun_def Let_def guardInput_def bootOperator_eq bootAdmin_def[symmetric]
    by (simp add: after_def ask_def bootStep_def step_def)
  have guard: "assertMainnetSafe ?guard = Inr ()"
  proof (cases "assertMainnetSafe ?guard")
    case (Inl e)
    then show ?thesis using refused assms(2) by simp
  qed simp
  have start: "bootAdmin hot explicitAdmin = hot" if "pp_start params"
  proof (rule ccontr)
    assume "bootAdmin hot explicitAdmin \<noteq> hot"
    then have "ev = []" using that guard assms(1,3)
      unfolding bootRun_def Let_def guardInput_def bootOperator_eq bootAdmin_def[symmetric]
      by (simp add: after_def ask_def bootStep_def step_def giveUp_def)
    then show False using assms(2) by simp
  qed
  from guard have roles: "explicitAdmin \<noteq> None" "pp_treasury params \<noteq> None" "pp_buybackReserve params \<noteq> None" "isSet envMint"
      "explicitAdmin \<noteq> Some (bootOperator hot params)"
    by (simp_all add: mainnet_roles_explicit guardInput_def)
  then show ?thesis using start by (auto simp: bootAdmin_def)
qed

section \<open>The Sparring player\<close>

text \<open>A deposit that lands is on the player's account, and topping up a wallet leaves every player's alone; neither
  removes an account.\<close>

definition principalAt :: "'s boot_cluster \<Rightarrow> 's \<Rightarrow> pubkey \<Rightarrow> int" where
  "principalAt C s player = (case cl_principal C s player of Inr (Some n) \<Rightarrow> n | _ \<Rightarrow> 0)"

definition creditsDeposits :: "'s boot_cluster \<Rightarrow> bool" where
  "creditsDeposits C \<longleftrightarrow> (\<forall>s n accounts k s' player. cl_write C s (Deposit n accounts) = (Inr k, s') \<longrightarrow>
     map_of accounts ''player'' = Some player \<longrightarrow> 0 \<le> principalAt C s player \<longrightarrow>
     (\<exists>m. cl_principal C s' player = Inr (Some m) \<and> n \<le> m))"

definition topUpsKeepPlayers :: "'s boot_cluster \<Rightarrow> bool" where
  "topUpsKeepPlayers C \<longleftrightarrow> (\<forall>s p q n r s' player. cl_write C s (TransferSol p q n) = (r, s') \<longrightarrow>
     cl_principal C s' player = cl_principal C s player)"

definition principalNat :: "'s boot_cluster \<Rightarrow> bool" where
  "principalNat C \<longleftrightarrow> (\<forall>s player n. cl_principal C s player = Inr (Some n) \<longrightarrow> 0 \<le> n)"

lemma topUp_cases:
  assumes "topUpsKeepPlayers C" "topUp C authority sparring s = (r, ev, s')"
  shows "set ev \<subseteq> {Wrote (TransferSol authority sparring TOP_UP_LAMPORTS)}" "cl_principal C s' player = cl_principal C s player"
proof -
  have "set ev \<subseteq> {Wrote (TransferSol authority sparring TOP_UP_LAMPORTS)} \<and> cl_principal C s' player = cl_principal C s player"
    using assms
    by (cases "cl_balance C s sparring"; cases "cl_write C s (TransferSol authority sparring TOP_UP_LAMPORTS)")
      (auto simp: topUp_def after_def ask_def tx_def give_def topUpsKeepPlayers_def split: if_split_asm sum.split_asm)
  then show "set ev \<subseteq> {Wrote (TransferSol authority sparring TOP_UP_LAMPORTS)}"
    "cl_principal C s' player = cl_principal C s player" by auto
qed

lemma depositOnce_credits:
  assumes "creditsDeposits C" "principalNat C" "depositOnce C env sparring pool player mint tokenAccount s = (Inr u, ev, s')"
  shows "\<exists>m. cl_principal C s' player = Inr (Some m) \<and> DEPOSIT \<le> m"
proof -
  from assms(3) obtain k where k: "cl_write C s (Deposit DEPOSIT
       [(''owner'', sparring), (''pool'', pool), (''player'', player), (''acceptedMint'', mint), (''ownerToken'', tokenAccount),
        (''principalVault'', principalVaultAddress env pool), (''tokenProgram'', ie_tokenProgram env),
        (''systemProgram'', ie_systemProgram env)]) = (Inr k, s')"
    by (auto simp: depositOnce_def script_Inr split: if_split_asm)
  have "0 \<le> principalAt C s player"
    using assms(2) by (auto simp: principalAt_def principalNat_def split: sum.split option.split)
  then show ?thesis using assms(1) k unfolding creditsDeposits_def by (elim allE impE) (assumption, simp_all)
qed

lemma sparringRun_credits:
  assumes "creditsDeposits C" "principalNat C" "sparringRun P C env authority mint poolId sparring s = (Inr u, ev, s')"
  shows "\<exists>pool m. poolAddress env poolId = Inr pool \<and> cl_principal C s' (playerAddress env pool sparring) = Inr (Some m) \<and> DEPOSIT \<le> m"
proof -
  from assms(3) obtain pool s1 found where pool: "poolAddress env poolId = Inr pool"
      and found: "cl_principal C s1 (playerAddress env pool sparring) = Inr found"
      and rest: "(case found of None \<Rightarrow> 0 | Some n \<Rightarrow> n) \<ge> DEPOSIT \<and> s' = s1 \<or>
        (\<exists>tokenAccount s2 ev2. depositOnce C env sparring pool (playerAddress env pool sparring) mint tokenAccount s2 = (Inr u, ev2, s'))"
    unfolding sparringRun_def Let_def after_Inr ask_Inr sparringStep_Inr
    by (fastforce simp: after_Inr split: if_split_asm)
  from rest show ?thesis
  proof (elim disjE exE conjE)
    assume "(case found of None \<Rightarrow> 0 | Some n \<Rightarrow> n) \<ge> DEPOSIT" "s' = s1"
    then show ?thesis using pool found by (cases found) (simp_all add: DEPOSIT_def)
  next
    fix tokenAccount s2 ev2
    assume "depositOnce C env sparring pool (playerAddress env pool sparring) mint tokenAccount s2 = (Inr u, ev2, s')"
    from depositOnce_credits[OF assms(1,2) this] show ?thesis using pool by blast
  qed
qed

text \<open>The Sparring player deposits once: after a run that ended well, running the script again for the same
  wallet attempts nothing but, when the wallet is low, the transfer of SOL; it mints nothing and deposits
  nothing.\<close>

theorem sparring_deposits_once:
  assumes "creditsDeposits C" "principalNat C" "topUpsKeepPlayers C"
    and "sparringRun P C env authority mint poolId sparring s = (Inr u, ev, s')"
    and "sparringRun P C env authority mint poolId sparring s' = (r2, ev2, s2)"
  shows "set ev2 \<subseteq> {Wrote (TransferSol authority sparring TOP_UP_LAMPORTS)}"
proof -
  obtain pool m where first: "poolAddress env poolId = Inr pool"
      "cl_principal C s' (playerAddress env pool sparring) = Inr (Some m)" "DEPOSIT \<le> m"
    using sparringRun_credits[OF assms(1,2,4)] by blast
  obtain r3 ev3 s3 where top: "topUp C authority sparring s' = (r3, ev3, s3)" by (metis prod_cases3)
  note up = topUp_cases[OF assms(3) top]
  have "cl_principal C s3 (playerAddress env pool sparring) = Inr (Some m)" using up(2) first(2) by simp
  then have "ev2 = [] \<or> ev2 = ev3"
    using assms(5) first top unfolding sparringRun_def Let_def
    by (cases "cl_exists C s' pool"; cases r3)
      (auto simp: after_def ask_def give_def giveUp_def sparringStep_def step_def split: if_split_asm)
  then show ?thesis using up(1) by auto
qed

section \<open>Witnesses\<close>

text \<open>A cluster with one mint, one Pool address and one token account, and a Sparring player.\<close>

record demo_cluster =
  dc_pool :: "boot_pool option"
  dc_ata :: bool
  dc_player :: int

fun demoWrite :: "demo_cluster \<Rightarrow> boot_write \<Rightarrow> pubkey res \<times> demo_cluster" where
  "demoWrite s (CreatePool c) = (Inr [], s\<lparr>dc_pool := Some \<lparr>bp_admin = ca_admin c, bp_operator = ca_operator c,
     bp_acceptedMint = ca_acceptedMint c, bp_treasury = ca_treasury c, bp_buybackReserve = ca_buybackReserve c,
     bp_gamePaused = True, bp_jackpotPaused = True\<rparr>\<rparr>)"
| "demoWrite s (SetFeaturePause f b k q) = (Inr [], s\<lparr>dc_pool := map_option (setSwitch f b) (dc_pool s)\<rparr>)"
| "demoWrite s (Deposit n accounts) = (Inr [], s\<lparr>dc_player := \<bar>dc_player s\<bar> + n\<rparr>)"
| "demoWrite s (CreateMint k d) = (Inr [4], s)"
| "demoWrite s w = (Inr [], s)"

definition demoCluster :: "demo_cluster boot_cluster" where
  "demoCluster = \<lparr>cl_genesisHash = Inr MAINNET_GENESIS_HASH, cl_mint = (\<lambda>_ _. Inr \<lparr>mi_decimals = 6, mi_mintAuthority = Some [3]\<rparr>),
     cl_exists = (\<lambda>_ _. Inr True), cl_tokenMint = (\<lambda>_ _. Inr [4]), cl_pool = (\<lambda>s _. Inr (dc_pool s)),
     cl_balance = (\<lambda>_ _. Inr 7), cl_principal = (\<lambda>s _. Inr (Some \<bar>dc_player s\<bar>)), cl_rent = (\<lambda>_. Inr 9),
     cl_withSeed = (\<lambda>k seed. asciiBytes seed), cl_ata = (\<lambda>s _ _. (Inr ([8], 0), \<not> dc_ata s, s\<lparr>dc_ata := True\<rparr>)),
     cl_write = demoWrite\<rparr>"

lemma demoWrite_ata: "demoWrite s w = (r, s') \<Longrightarrow> dc_ata s' = dc_ata s"
  by (cases w) auto

lemma demoCluster_lawful: "lawfulCluster demoCluster"
proof -
  have same: "s\<lparr>dc_ata := True\<rparr> = s \<longleftrightarrow> dc_ata s" for s :: demo_cluster by (cases s) auto
  have "keepsAtas demoCluster" by (auto simp: keepsAtas_def demoCluster_def)
  moreover have "writesKeepAtas demoCluster"
    using demoWrite_ata by (auto simp: writesKeepAtas_def demoCluster_def same)
  moreover have "recordsPool demoCluster" by (auto simp: recordsPool_def demoCluster_def)
  moreover have "turnsSwitches demoCluster" by (auto simp: turnsSwitches_def demoCluster_def)
  ultimately show ?thesis by (simp add: lawfulCluster_def)
qed

definition demoScript :: "demo_cluster script_platform" where
  "demoScript = \<lparr>sp_env = Map.empty, sp_argv = [], sp_loadedMs = 0, sp_createdMs = 5000, sp_dateParse = (\<lambda>_. None),
     sp_pk = (\<lambda>_. Some [4]), sp_b58 = (\<lambda>k. map (\<lambda>b. char_of (unat b)) k), sp_keypair = (\<lambda>_. Inr [3]), sp_bigInt = (\<lambda>_. Inr 1),
     sp_connect = (\<lambda>_. Inr demoCluster), sp_ix = (\<lambda>k. \<lparr>ie_hasMethod = (\<lambda>_. True), ie_programId = k, ie_operator = [5],
       ie_testVrf = False, ie_findProgramAddress = (\<lambda>parts _. concat parts), ie_parseKey = (\<lambda>s. Inr (asciiBytes s)),
       ie_associatedToken = (\<lambda>m own. m @ own), ie_systemProgram = [0], ie_tokenProgram = [1], ie_oraoProgram = [2],
       ie_oraoTreasury = [3]\<rparr>), sp_vrfNetworkState = [9], sp_generated = ([11], ''secret'')\<rparr>"

definition demoBootParams :: pool_params where
  "demoBootParams = demoDefaults\<lparr>pp_operator := Some [5], pp_treasury := Some [6], pp_buybackReserve := Some [7], pp_start := True\<rparr>"

definition demoFresh :: demo_cluster where "demoFresh = \<lparr>dc_pool = None, dc_ata = False, dc_player = 0\<rparr>"

lemma demoBootParams_simps [simp]:
  "pp_operator demoBootParams = Some [5]" "pp_treasury demoBootParams = Some [6]" "pp_buybackReserve demoBootParams = Some [7]"
  "pp_start demoBootParams" "pp_epochSeconds demoBootParams = 86400" "pp_epochAnchor demoBootParams = nextSundayAnchor 0"
  by (simp_all add: demoBootParams_def demoDefaults_def defaultPoolParams_def envInt_def)

lemma demoGrid: "sayGrid (nextSundayAnchor 0) 86400 5 s =
    (Inr (), [Anchor 316800, Boundary 1 57600, Boundary 2 144000, Boundary 3 230400], s)"
  by (simp add: nextSundayAnchor_def sayGrid_def nextBoundary_def after_def ask_def say_def stamp_def dateOk_def Let_def)

definition demoBootRun :: "(string list + unit) \<times> boot_event list \<times> demo_cluster" where
  "demoBootRun = bootRun demoScript demoCluster [3] (Some [3]) [1] 1 (Some ''mint'') demoBootParams demoFresh"

lemma demoPoolAddress: "isOk (poolAddress (sp_ix demoScript [1]) 1)"
  by (simp add: poolAddress_def demoScript_def leU64_def)

lemma demoBootRun_runs: "(case fst demoBootRun of Inr u \<Rightarrow> True | Inl es \<Rightarrow> False) \<and> length (fst (snd demoBootRun)) = 9"
  by code_simp

lemma second_bootstrap_creates_nothing_witness:
  "\<exists>s' block. fst (snd demoBootRun) \<noteq> [] \<and> bootRun (demoScript\<lparr>sp_createdMs := 9000000\<rparr>) demoCluster [3] (Some [3]) [1] 1 (Some ''mint'')
     (demoBootParams\<lparr>pp_epochAnchor := 7\<rparr>) s' = (Inr (), [Out block], s')"
proof -
  obtain r ev s' where run: "demoBootRun = (r, ev, s')" by (metis prod_cases3)
  have "(case r of Inr u \<Rightarrow> True | Inl es \<Rightarrow> False)" "ev \<noteq> []" using demoBootRun_runs unfolding run by auto
  then obtain u where "r = Inr u" by (cases r) auto
  with run have "bootRun demoScript demoCluster [3] (Some [3]) [1] 1 (Some ''mint'') demoBootParams demoFresh = (Inr u, ev, s')"
    by (simp add: demoBootRun_def)
  from second_bootstrap_creates_nothing[OF demoCluster_lawful this, of 9000000 7] \<open>ev \<noteq> []\<close>
  show ?thesis unfolding run by (intro exI[of _ s']) auto
qed

lemma mainnet_writes_need_explicit_roles_witness:
  "\<exists>ev. fst (snd demoBootRun) = ev \<and> ev \<noteq> [] \<and> pp_treasury demoBootParams \<noteq> None \<and> Some [3] \<noteq> Some (bootOperator [3] demoBootParams)"
proof -
  obtain r ev s' where run: "demoBootRun = (r, ev, s')" by (metis prod_cases3)
  have "ev \<noteq> []" using demoBootRun_runs unfolding run by auto
  moreover have "cl_genesisHash demoCluster = Inr MAINNET_GENESIS_HASH" by (simp add: demoCluster_def)
  ultimately show ?thesis
    using mainnet_writes_need_explicit_roles[of demoScript demoCluster "[3]" "Some [3]" "[1]" 1 "Some ''mint''" demoBootParams demoFresh r ev s'] run
    by (simp add: demoBootRun_def)
qed

definition demoSparring :: "demo_cluster \<Rightarrow> (string list + unit) \<times> boot_event list \<times> demo_cluster" where
  "demoSparring = sparringRun demoScript demoCluster (sp_ix demoScript [1]) [3] [4] 1 [11]"

lemma demoSparring_runs: "(case fst (demoSparring demoFresh) of Inr u \<Rightarrow> True | Inl es \<Rightarrow> False) \<and> length (fst (snd (demoSparring demoFresh))) = 4"
  by code_simp

lemma sparring_deposits_once_witness:
  "length (fst (snd (demoSparring demoFresh))) = 4 \<and>
   set (fst (snd (demoSparring (snd (snd (demoSparring demoFresh)))))) \<subseteq> {Wrote (TransferSol [3] [11] TOP_UP_LAMPORTS)}"
proof -
  have laws: "creditsDeposits demoCluster" "principalNat demoCluster" "topUpsKeepPlayers demoCluster"
    by (auto simp: creditsDeposits_def principalNat_def topUpsKeepPlayers_def demoCluster_def)
  obtain r ev s' where first: "demoSparring demoFresh = (r, ev, s')" by (metis prod_cases3)
  then obtain u where "r = Inr u" using demoSparring_runs by (cases r) auto
  obtain r2 ev2 s2 where second: "demoSparring s' = (r2, ev2, s2)" by (metis prod_cases3)
  from sparring_deposits_once[OF laws first[unfolded demoSparring_def \<open>r = Inr u\<close>] second[unfolded demoSparring_def]]
  show ?thesis using demoSparring_runs first second by simp
qed

text \<open>A period whose third boundary is past the range of a \<open>Date\<close> is accepted by the parser, and the script
  reports a failed \<open>create_pool\<close> after the Pool was created.\<close>

lemma late_boundary_fails_after_create:
  assumes "ie_hasMethod env ''createPool''" "cl_write C s (CreatePool c) = (Inr k, s1)" "\<not> dateOk (1000 * nextBoundary a p n)"
    and "createPool P C env hot admin operator poolId pool m t b params s = (r, ev, s')"
    and "a = pp_epochAnchor params" "p = pp_epochSeconds params" "n = sp_createdMs P div 1000"
    and "c = \<lparr>ca_payer = hot, ca_poolId = poolId, ca_admin = admin, ca_operator = operator,
         ca_vrfNetworkState = sp_vrfNetworkState P, ca_params = params, ca_pool = pool, ca_acceptedMint = m,
         ca_principalVault = principalVaultAddress env pool, ca_jackpotVault = jackpotVaultAddress env pool,
         ca_house = playerAddress env pool operator, ca_treasury = t, ca_buybackReserve = b\<rparr>"
  shows "r = Inl [''Invalid time value'']" "Wrote (CreatePool c) \<in> set ev" "s' = s1"
proof -
  have "r = Inl [''Invalid time value''] \<and> Wrote (CreatePool c) \<in> set ev \<and> s' = s1"
    using assms(1-4) unfolding assms(5-8)[symmetric]
    by (auto simp: createPool_def after_def tx_def sayGrid_def Let_def ask_def say_def stamp_def mult.commute
        simp flip: assms(5-8) split: if_split_asm)
  then show "r = Inl [''Invalid time value'']" "Wrote (CreatePool c) \<in> set ev" "s' = s1" by auto
qed

end
