(* ===== verification/Play.thy ===== *)
theory Play
  imports Web_Send Board
begin

text \<open>
  The play screen: what \<open>App.tsx\<close> derives for it and does on it (placing a board by hand or on auto-rounds,
  settling a Position), the inputs of \<open>panel/ControlPanel.tsx\<close> and the phone bar of \<open>panel/stakeBar.ts\<close>.

  A render's inputs are one record, the screen's own state another. A placement is two steps, the click or the
  effect that starts it and its outcome, so that renders and clicks may fall in between. Sounds, analytics,
  the theme and the markup are left out.
\<close>

section \<open>Render inputs\<close>

definition DECIMALS :: int where "DECIMALS = 6"
definition SETTLE_GRACE_SECONDS :: int where "SETTLE_GRACE_SECONDS = 30"

record play_inputs =
  pi_shutdown :: bool
  pi_gamePaused :: bool
  pi_pool :: "pool_like option"
  pi_refusal :: "string option"
  pi_round :: "round_like option"
  pi_now :: "int option"
  pi_entries :: int
  pi_position :: "position_like option"
  pi_signer :: "pubkey option"
  pi_connected :: bool
  pi_rentWarning :: "string option"
  pi_phase :: phase

definition stakeOf :: "string \<Rightarrow> int" where
  "stakeOf text = (case parseAtomic text DECIMALS of Inr (Some n) \<Rightarrow> n | _ \<Rightarrow> 0)"

definition playOpenRound :: "play_inputs \<Rightarrow> round_like option" where
  "playOpenRound i = (case pi_round i of Some r \<Rightarrow> if wr_status r = 0 then Some r else None | None \<Rightarrow> None)"

definition playLocked :: "play_inputs \<Rightarrow> bool" where
  "playLocked i = (pi_position i \<noteq> None \<and> playOpenRound i \<noteq> None)"

text \<open>\<open>tiles.toString(2).replace(/[^1]/g, "").length\<close>.\<close>

fun onesOf :: "nat \<Rightarrow> nat" where
  "onesOf n = (if n = 0 then 0 else n mod 2 + onesOf (n div 2))"

definition tileCountOf :: "int \<Rightarrow> nat" where "tileCountOf tiles = onesOf (nat \<bar>tiles\<bar>)"

definition deployedTotal :: "play_inputs \<Rightarrow> int" where
  "deployedTotal i = (case pi_position i of Some p \<Rightarrow> int (tileCountOf (wp_tiles p)) * wp_stakePerTile p | None \<Rightarrow> 0)"

definition nowOr0 :: "play_inputs \<Rightarrow> int" where "nowOr0 i = (case pi_now i of Some n \<Rightarrow> n | None \<Rightarrow> 0)"

definition playProblems :: "play_inputs \<Rightarrow> int \<Rightarrow> string list" where
  "playProblems i spend =
    (if pi_shutdown i then [SHUTDOWN_REASON] else []) @
    (if pi_pool i = None then [case pi_refusal i of Some r \<Rightarrow> r | None \<Rightarrow> ''no pool found yet''] else []) @
    (if spend > pi_entries i then [''not enough Tickets '' @ EM_DASH @ '' deposit to earn more''] else []) @
    (if pi_position i = None then (case pi_rentWarning i of Some w \<Rightarrow> [w] | None \<Rightarrow> []) else [])"

definition deployHint :: "play_inputs \<Rightarrow> string option" where
  "deployHint i =
    (if pi_shutdown i then Some SHUTDOWN_REASON
     else case playOpenRound i of
            None \<Rightarrow> Some (if pi_gamePaused i then ''the game is paused'' else ''no open round (the operator opens rounds)'')
          | Some r \<Rightarrow>
              if playLocked i then Some (''position already placed in round #'' @ showInt (wr_roundId r))
              else if phaseFor (Some r) (nowOr0 i) (case pi_pool i of Some p \<Rightarrow> po_closeBuffer p | None \<Rightarrow> 0) \<noteq> Mine
                   then Some ''positions are closed for this round'' else None)"

definition canPick :: "play_inputs \<Rightarrow> bool" where
  "canPick i = (case (pi_pool i, playOpenRound i) of
      (Some pool, Some r) \<Rightarrow>
        \<not> pi_shutdown i \<and> phaseFor (Some r) (nowOr0 i) (po_closeBuffer pool) = Mine \<and> \<not> playLocked i \<and> pi_connected i
    | _ \<Rightarrow> False)"

section \<open>The panel's inputs\<close>

definition toggleTile :: "nat \<Rightarrow> nat list \<Rightarrow> nat list" where
  "toggleTile n selected = (if n \<in> set selected then filter (\<lambda>t. t \<noteq> n) selected else selected @ [n])"

datatype preset = Odd | Even | AllTiles

definition presetTiles :: "preset \<Rightarrow> nat list" where
  "presetTiles k = (case k of AllTiles \<Rightarrow> map (\<lambda>j. j + 1) [0..<36] | Odd \<Rightarrow> map (\<lambda>j. j * 2 + 1) [0..<18] | Even \<Rightarrow> map (\<lambda>j. (j + 1) * 2) [0..<18])"

definition togglePreset :: "preset \<Rightarrow> nat list \<Rightarrow> nat list" where
  "togglePreset k selected =
    (let wanted = presetTiles k
     in if length selected = length wanted \<and> list_all (\<lambda>t. t \<in> set selected) wanted then [] else wanted)"

definition presetActive :: "preset \<Rightarrow> nat list \<Rightarrow> bool" where
  "presetActive k selected =
    (length selected = (case k of AllTiles \<Rightarrow> 36 | _ \<Rightarrow> 18) \<and>
     list_all (\<lambda>t. case k of AllTiles \<Rightarrow> True | Odd \<Rightarrow> t mod 2 = 1 | Even \<Rightarrow> t mod 2 = 0) selected)"

text \<open>\<open>pickAt\<close> is \<open>Math.floor(Math.random() * n)\<close>.\<close>

definition pickRandomTile :: "(nat \<Rightarrow> nat) \<Rightarrow> nat list \<Rightarrow> nat list" where
  "pickRandomTile pickAt selected =
    (let unpicked = filter (\<lambda>n. n \<notin> set selected) [1..<37]
     in if unpicked = [] then selected else selected @ [unpicked ! pickAt (length unpicked)])"

definition dropLastTile :: "nat list \<Rightarrow> nat list" where "dropLastTile selected = butlast selected"

definition typeStake :: "string \<Rightarrow> string" where "typeStake text = filter (\<lambda>c. isDigit c \<or> c = CHR ''.'') text"

definition addAmount :: "int \<Rightarrow> string \<Rightarrow> string res" where
  "addAmount delta stakeText = formatAtomic (stakeOf stakeText + delta * 10 ^ nat DECIMALS) DECIMALS"

definition setMax :: "int \<Rightarrow> nat list \<Rightarrow> string \<Rightarrow> string res" where
  "setMax entries selected stakeText =
    (if selected = [] then Inr stakeText else formatAtomic (bigDiv entries (int (length selected))) DECIMALS)"

definition perRound :: "string \<Rightarrow> nat list \<Rightarrow> int" where
  "perRound stakeText selected = stakeOf stakeText * int (length selected)"

definition ticketsIn :: "string \<Rightarrow> nat list \<Rightarrow> int \<Rightarrow> int" where
  "ticketsIn stakeText selected autoRounds = perRound stakeText selected * (autoRounds + 1)"

definition deployReady :: "play_inputs \<Rightarrow> string \<Rightarrow> nat list \<Rightarrow> bool \<Rightarrow> bool" where
  "deployReady i stakeText selected busy =
    (canPick i \<and> selected \<noteq> [] \<and> stakeOf stakeText > 0 \<and> \<not> playLocked i \<and> \<not> busy)"

definition deployLabel :: "play_inputs \<Rightarrow> string \<Rightarrow> nat list \<Rightarrow> bool \<Rightarrow> string" where
  "deployLabel i stakeText selected busy =
    (if busy then ''SIGNING'' @ ELLIPSIS
     else if playLocked i then ''DEPLOYED''
     else if deployReady i stakeText selected busy then ''DEPLOY''
     else if pi_phase i = Awaiting then ''AWAITING'' @ ELLIPSIS
     else if pi_phase i = Settling \<or> pi_phase i = Locked then ''DRAWING'' @ ELLIPSIS
     else if selected = [] then ''SELECT TILES''
     else ''DEPLOY'')"

section \<open>The phone bar\<close>

datatype bar_state = Editing | Placed | Closed

record stake_bar =
  sb_state :: bar_state
  sb_entriesPerTile :: "string res"
  sb_tilesSelected :: "string res"
  sb_entriesIn :: "string res"
  sb_label :: string

definition barNumbers :: "int \<Rightarrow> nat \<Rightarrow> bar_state \<Rightarrow> string \<Rightarrow> int \<Rightarrow> stake_bar" where
  "barNumbers stake tiles state label decimals =
    \<lparr>sb_state = state, sb_entriesPerTile = formatAtomic2 stake decimals, sb_tilesSelected = formatAtomic (int tiles) 0,
     sb_entriesIn = formatAtomic2 (stake * int tiles) decimals, sb_label = label\<rparr>"

definition CLOSED_LABEL :: "phase \<Rightarrow> string" where
  "CLOSED_LABEL p = (if p = Awaiting then ''AWAITING'' @ ELLIPSIS else ''DRAWING'' @ ELLIPSIS)"

definition stakeBarModel :: "string \<Rightarrow> nat list \<Rightarrow> position_like option \<Rightarrow> phase \<Rightarrow> stake_bar" where
  "stakeBarModel stakeText selected position p =
    (let numbers = (\<lambda>state label. case position of
           Some q \<Rightarrow> barNumbers (wp_stakePerTile q) (tileCountOf (wp_tiles q)) state label DECIMALS
         | None \<Rightarrow> barNumbers (stakeOf stakeText) (length selected) state label DECIMALS)
     in if p = Locked \<or> p = Settling \<or> p = Awaiting then numbers Closed (CLOSED_LABEL p)
        else if position \<noteq> None then numbers Placed ''TOP UP''
        else numbers Editing ''DEPLOY'')"

section \<open>Placing a board\<close>

text \<open>\<open>1n << BigInt(tile - 1)\<close>; a shift by a negative amount shifts right.\<close>

definition tileBit :: "nat \<Rightarrow> int" where "tileBit tile = (if tile = 0 then 0 else push_bit (tile - 1) 1)"

definition boardMask :: "nat list \<Rightarrow> int" where "boardMask tiles = foldl (\<lambda>acc tile. or acc (tileBit tile)) 0 tiles"

record placement =
  pm_pool :: pool_like
  pm_owner :: pubkey
  pm_roundId :: int
  pm_tiles :: "nat list"
  pm_stake :: int
  pm_auto :: bool

datatype placement_end = PlacedWith string | PlaceNote string

record play =
  ps_stakeText :: string
  ps_selected :: "nat list"
  ps_autoRounds :: int
  ps_busy :: bool
  ps_note :: "string option"
  ps_flight :: "placement option"
  ps_lastDeploy :: "remembered_board option"
  ps_autoKey :: "string option"
  ps_asked :: "placement list"
  ps_landed :: "placement list"
  ps_kicks :: nat

definition PLAY_START :: play where
  "PLAY_START = \<lparr>ps_stakeText = ''1'', ps_selected = [], ps_autoRounds = 0, ps_busy = False, ps_note = None, ps_flight = None,
     ps_lastDeploy = None, ps_autoKey = None, ps_asked = [], ps_landed = [], ps_kicks = 0\<rparr>"

text \<open>\<open>deploy\<close> up to the wallet, and what it does with the answer; the continuation of the auto-rounds effect runs
  before the next render. \<open>ps_asked\<close> and \<open>ps_landed\<close> record the placements the wallet was asked for and those
  that landed.\<close>

definition startDeploy :: "play_inputs \<Rightarrow> nat list \<Rightarrow> int \<Rightarrow> bool \<Rightarrow> play \<Rightarrow> play" where
  "startDeploy i tiles stakeAmount auto s =
    (case (pi_pool i, playOpenRound i, pi_signer i) of
       (Some pool, Some r, Some own) \<Rightarrow>
         if tiles = [] \<or> stakeAmount \<le> 0 then s
         else let f = \<lparr>pm_pool = pool, pm_owner = own, pm_roundId = wr_roundId r, pm_tiles = tiles, pm_stake = stakeAmount,
                       pm_auto = auto\<rparr>
              in s\<lparr>ps_busy := True, ps_note := None, ps_flight := Some f, ps_asked := ps_asked s @ [f]\<rparr>
     | _ \<Rightarrow> s)"

definition placementIxs :: "web_env \<Rightarrow> placement \<Rightarrow> instruction list res" where
  "placementIxs env f = buyPositionIxs env (pm_pool f) (pm_owner f) (pm_roundId f) (boardMask (pm_tiles f)) (pm_stake f)"

definition placementOutcome :: "web_env \<Rightarrow> web_chain \<Rightarrow> placement \<Rightarrow> flow_end" where
  "placementOutcome env w f = runMoney env w (fst (sendIxs env w (pm_pool f) (pm_owner f) (placementIxs env f)))"

definition afterAuto :: "placement \<Rightarrow> play \<Rightarrow> play" where
  "afterAuto f s =
    (if pm_auto f then s\<lparr>ps_autoKey := Some (showInt (pm_roundId f)), ps_autoRounds := ps_autoRounds s - 1,
        ps_stakeText := (case formatAtomic (pm_stake f) DECIMALS of Inr t \<Rightarrow> t | Inl e \<Rightarrow> ps_stakeText s), ps_selected := pm_tiles f\<rparr>
     else s)"

definition endDeploy :: "placement_end \<Rightarrow> play \<Rightarrow> play" where
  "endDeploy outcome s =
    (case ps_flight s of None \<Rightarrow> s
     | Some f \<Rightarrow>
         (case outcome of
            PlaceNote text \<Rightarrow> s\<lparr>ps_busy := False, ps_flight := None, ps_note := Some text\<rparr>
          | PlacedWith signature \<Rightarrow>
              afterAuto f (s\<lparr>ps_busy := False, ps_flight := None, ps_note := None,
                ps_lastDeploy := Some \<lparr>rb_tiles = pm_tiles f, rb_stake = pm_stake f\<rparr>, ps_kicks := ps_kicks s + 1,
                ps_landed := ps_landed s @ [f]\<rparr>)))"

definition clickDeploy :: "play_inputs \<Rightarrow> play \<Rightarrow> play" where
  "clickDeploy i s =
    (if deployReady i (ps_stakeText s) (ps_selected s) (ps_busy s)
     then startDeploy i (ps_selected s) (stakeOf (ps_stakeText s)) False s else s)"

definition autoDecision :: "play_inputs \<Rightarrow> play \<Rightarrow> auto_decision option" where
  "autoDecision i s =
    (case (pi_pool i, playOpenRound i) of
       (Some pool, Some r) \<Rightarrow>
         if ps_autoRounds s \<le> 0 \<or> ps_busy s \<or> ps_autoKey s = Some (showInt (wr_roundId r)) then None
         else Some (decideAutoRound (ps_lastDeploy s) (pi_entries i) (phaseFor (Some r) (nowOr0 i) (po_closeBuffer pool))
                (pi_position i \<noteq> None))
     | _ \<Rightarrow> None)"

definition autoEffect :: "play_inputs \<Rightarrow> play \<Rightarrow> play" where
  "autoEffect i s = (case autoDecision i s of Some (Place tiles stake) \<Rightarrow> startDeploy i tiles stake True s | _ \<Rightarrow> s)"

definition autoMinus :: "play \<Rightarrow> play" where "autoMinus s = s\<lparr>ps_autoRounds := max 0 (ps_autoRounds s - 1)\<rparr>"
definition autoPlus :: "play \<Rightarrow> play" where "autoPlus s = s\<lparr>ps_autoRounds := min 99 (ps_autoRounds s + 1)\<rparr>"

inductive play_step :: "play \<Rightarrow> play \<Rightarrow> bool" where
  clicked: "play_step s (clickDeploy i s)"
| effect: "play_step s (autoEffect i s)"
| ended: "play_step s (endDeploy outcome s)"
| minus: "play_step s (autoMinus s)"
| plus: "play_step s (autoPlus s)"
| typed: "play_step s (s\<lparr>ps_stakeText := t\<rparr>)"
| picked: "play_step s (s\<lparr>ps_selected := tiles\<rparr>)"

text \<open>Steps in which the Player leaves the counter alone.\<close>

inductive hands_off :: "play \<Rightarrow> play \<Rightarrow> bool" where
  clicked: "hands_off s (clickDeploy i s)"
| effect: "hands_off s (autoEffect i s)"
| ended: "hands_off s (endDeploy outcome s)"
| typed: "hands_off s (s\<lparr>ps_stakeText := t\<rparr>)"
| picked: "hands_off s (s\<lparr>ps_selected := tiles\<rparr>)"

section \<open>Settling by hand\<close>

record settle_offer =
  so_roundId :: int
  so_winningTile :: nat
  so_reward :: int

definition settleState :: "play_inputs \<Rightarrow> settle_offer option" where
  "settleState i =
    (case (pi_round i, pi_position i, pi_signer i) of
       (Some r, Some p, Some _) \<Rightarrow>
         if \<not> isRevealed r \<or> nowOr0 i < wr_endsAt r + SETTLE_GRACE_SECONDS then None
         else Some \<lparr>so_roundId = wr_roundId r, so_winningTile = wr_winningTile r,
                so_reward = (if covers (wp_tiles p) (wr_winningTile r) then expectedReward r p else 0)\<rparr>
     | _ \<Rightarrow> None)"

definition rewardHint :: "play_inputs \<Rightarrow> string res option" where
  "rewardHint i =
    (case settleState i of None \<Rightarrow> None
     | Some o1 \<Rightarrow> Some (if so_reward o1 > 0
         then rbind (formatAtomic2 (so_reward o1) DECIMALS) (\<lambda>t.
           Inr (''round #'' @ showInt (so_roundId o1) @ '': you covered tile '' @ showNat (displayTile (so_winningTile o1)) @ '' ''
             @ EM_DASH @ '' settle for +'' @ t @ '' Tickets''))
         else Inr (''round #'' @ showInt (so_roundId o1) @ '': settle to close your position and get its rent back'')))"

definition settleOutcome :: "web_env \<Rightarrow> web_chain \<Rightarrow> play_inputs \<Rightarrow> flow_end option" where
  "settleOutcome env w i =
    (case (settleState i, pi_pool i, pi_signer i) of
       (Some o1, Some pool, Some own) \<Rightarrow>
         Some (runMoney env w (fst (sendIxs env w pool own (settlePositionIxs env pool own (so_roundId o1)))))
     | _ \<Rightarrow> None)"

definition settleNote :: "settle_offer \<Rightarrow> string res" where
  "settleNote o1 =
    (if so_reward o1 > 0 then rbind (formatAtomic2 (so_reward o1) DECIMALS) (\<lambda>t. Inr (''round reward settled: +'' @ t @ '' Tickets''))
     else Inr ''position settled'')"

definition confirmingNote :: "bool \<Rightarrow> bool \<Rightarrow> string option" where
  "confirmingNote pending stillConfirming =
    (if pending then Some ((if stillConfirming then ''still confirming'' else ''confirming'') @ ELLIPSIS) else None)"

end
