(* ===== verification/Play_Laws.thy ===== *)
theory Play_Laws
  imports Play Board_Laws
begin

text \<open>
  What holds of the play screen: one placement at a time and only one the Player wants, an auto-rounds counter
  that counts the boards it placed, a mask that is the board, and inputs that never overspend.
\<close>

lemma printed_reads_back:
  assumes "0 \<le> v"
  shows "\<exists>s. formatAtomic v (int d) = Inr s \<and> parseAtomic s (int d) = Inr (Some v)"
  using atomic_round_trip[of v d] assms by auto

section \<open>Counting tiles\<close>

declare onesOf.simps [simp del]

lemma onesOf_card: "onesOf n = card {k. bit n k} \<and> finite {k. bit n k}"
proof (induction n rule: onesOf.induct)
  case (1 n)
  show ?case
  proof (cases "n = 0")
    case True
    then show ?thesis by (subst onesOf.simps) (simp add: bot_fun_def)
  next
    case False
    have split: "{k. bit n k} = (if odd n then {0} else {}) \<union> Suc ` {k. bit (n div 2) k}"
    proof (intro set_eqI iffI)
      fix k assume "k \<in> {k. bit n k}"
      then show "k \<in> (if odd n then {0} else {}) \<union> Suc ` {k. bit (n div 2) k}"
        by (cases k) (auto simp: bit_Suc bit_0)
    qed (auto simp: bit_Suc bit_0 split: if_splits)
    have fin: "finite {k. bit (n div 2) k}" and card: "onesOf (n div 2) = card {k. bit (n div 2) k}" using 1[OF False] by auto
    have "onesOf n = n mod 2 + onesOf (n div 2)" using False by (subst onesOf.simps) simp
    also have "\<dots> = (if odd n then 1 else 0) + card (Suc ` {k. bit (n div 2) k})"
      by (simp add: card card_image odd_iff_mod_2_eq_one)
    also have "\<dots> = card {k. bit n k}"
      unfolding split using fin by (auto simp: card_insert_if)
    finally show ?thesis using fin split by auto
  qed
qed

lemma tileCountOf_card: "0 \<le> m \<Longrightarrow> tileCountOf m = card {k. bit m k}"
  using onesOf_card[of "nat m"] by (simp add: tileCountOf_def bit_nat_iff)

definition isTile :: "nat \<Rightarrow> bool" where "isTile t = (1 \<le> t \<and> t \<le> 36)"

lemma bit_boardMask: "bit (boardMask ts) k \<longleftrightarrow> Suc k \<in> set ts"
proof -
  have one: "bit (tileBit t) k \<longleftrightarrow> t = Suc k" for t by (auto simp: tileBit_def bit_simps)
  have "bit (foldl (\<lambda>acc t. or acc (tileBit t)) a ts) k \<longleftrightarrow> bit a k \<or> Suc k \<in> set ts" for a
    by (induction ts arbitrary: a) (auto simp: bit_or_iff one)
  then show ?thesis by (simp add: boardMask_def)
qed

lemma boardMask_nonneg: "0 \<le> boardMask ts"
proof -
  have "0 \<le> a \<Longrightarrow> 0 \<le> foldl (\<lambda>acc t. or acc (tileBit t)) a ts" for a
    by (induction ts arbitrary: a) (simp_all add: tileBit_def push_bit_eq_mult)
  then show ?thesis by (simp add: boardMask_def)
qed

lemma tileCount_boardMask:
  assumes "distinct ts" "list_all isTile ts"
  shows "tileCountOf (boardMask ts) = length ts" "popcount (boardMask ts) = length ts"
proof -
  have img: "{k. Suc k \<in> set ts} = (\<lambda>t. t - 1) ` set ts"
    using assms(2) by (force simp: list_all_iff isTile_def image_iff)
  have "card {k. Suc k \<in> set ts} = card (set ts)"
    unfolding img
  proof (intro card_image inj_onI)
    fix x y assume "x \<in> set ts" "y \<in> set ts" "x - 1 = y - 1"
    moreover have "1 \<le> x" "1 \<le> y" using assms(2) \<open>x \<in> set ts\<close> \<open>y \<in> set ts\<close> by (simp_all add: list_all_iff isTile_def)
    ultimately show "x = y" by simp
  qed
  then have card: "card {k. Suc k \<in> set ts} = length ts" using assms(1) by (simp add: distinct_card)
  then show "tileCountOf (boardMask ts) = length ts" by (simp add: tileCountOf_card[OF boardMask_nonneg] bit_boardMask)
  have "{t. t < TILE_COUNT \<and> bit (boardMask ts) t} = {k. Suc k \<in> set ts}"
    using assms(2) by (auto simp: bit_boardMask list_all_iff isTile_def TILE_COUNT_def)
  then show "popcount (boardMask ts) = length ts" using card by (simp add: popcount_card)
qed

section \<open>The inputs\<close>

lemma printed_stake:
  assumes "0 \<le> v"
  obtains t where "formatAtomic v DECIMALS = Inr t" "stakeOf t = v"
proof -
  have d: "int 6 = DECIMALS" by (simp add: DECIMALS_def)
  obtain t where "formatAtomic v (int 6) = Inr t" "parseAtomic t (int 6) = Inr (Some v)" using printed_reads_back[OF assms] by blast
  then show ?thesis using that unfolding stakeOf_def d by simp
qed

lemma stakeOf_printed: "0 \<le> v \<Longrightarrow> formatAtomic v DECIMALS = Inr t \<Longrightarrow> stakeOf t = v"
  by (rule printed_stake[of v]) simp_all

lemma stakeOf_nonneg: "0 \<le> stakeOf t"
proof (cases "parseAtomic t DECIMALS")
  case (Inr r)
  show ?thesis
  proof (cases r)
    case (Some n)
    have "isDecimalText (trimText t)" and n: "bigIntOf (beforeDot (trimText t) @ padEnd 6 (afterDot (trimText t))) = Inr n"
      using Inr Some by (auto simp: parseAtomic_def DECIMALS_def Let_def rbind_Inr_iff split: if_splits)
    then obtain w f where wf: "trimText t = decimalText w f" "list_all isDigit w" "w \<noteq> []" "list_all isDigit f"
      using isDecimalText_iff by blast
    have digits: "list_all isDigit (w @ padEnd 6 f)" "w @ padEnd 6 f \<noteq> []" using wf by (auto simp: padEnd_def list_all_iff)
    obtain k where "readDigits 0 (w @ padEnd 6 f) = Some k" using readDigits_acc[OF digits(1)] by auto
    from bigIntOf_digits[OF digits this] have "n = int k"
      using n wf(1) decimalText_parts[OF wf(2-4)] by simp
    then show ?thesis by (simp add: stakeOf_def Inr Some)
  qed (simp add: stakeOf_def Inr)
qed (simp add: stakeOf_def)

text \<open>The three counts of a board agree: the mask that is signed has as many tiles as were picked, both for the
  screen's count of a Position and for the feed's, so that what the panel calls in this Round is what it
  called per Round.\<close>

theorem board_counts_agree:
  assumes "distinct ts" "list_all isTile ts"
    and "pi_position i = Some \<lparr>wp_tiles = boardMask ts, wp_stakePerTile = stakeOf text\<rparr>"
  shows "tileCountOf (boardMask ts) = length ts \<and> popcount (boardMask ts) = length ts \<and> deployedTotal i = perRound text ts"
  using tileCount_boardMask[OF assms(1,2)] assms(3) by (simp add: deployedTotal_def perRound_def)

text \<open>MAX never overspends: the stake it writes reads back, costs at most the Tickets there are on the picked
  tiles, and leaves less than one unit per tile.\<close>

theorem max_stake_fits:
  assumes "0 \<le> entries" "selected \<noteq> []"
  shows "\<exists>text. setMax entries selected old = Inr text \<and> perRound text selected \<le> entries \<and>
    entries < perRound text selected + int (length selected)"
proof -
  let ?n = "int (length selected)"
  have n: "0 < ?n" using assms(2) by simp
  have q: "bigDiv entries ?n = entries div ?n" using assms(1) n by (simp add: bigDiv_nonneg)
  obtain t where t: "formatAtomic (entries div ?n) DECIMALS = Inr t" "stakeOf t = entries div ?n"
    using printed_stake[of "entries div ?n"] assms(1) n by (auto simp: pos_imp_zdiv_nonneg_iff)
  have "entries div ?n * ?n + entries mod ?n = entries" "0 \<le> entries mod ?n" "entries mod ?n < ?n" using n by simp_all
  then have "entries div ?n * ?n \<le> entries" "entries < entries div ?n * ?n + ?n" by linarith+
  then show ?thesis using t assms(2) q by (simp add: setMax_def perRound_def)
qed

lemma addAmount_exact:
  assumes "0 \<le> delta"
  shows "\<exists>t. addAmount delta text = Inr t \<and> stakeOf t = stakeOf text + delta * 1000000"
proof -
  have "0 \<le> stakeOf text + delta * 10 ^ nat DECIMALS" using assms stakeOf_nonneg by (simp add: DECIMALS_def)
  from printed_stake[OF this] show ?thesis by (auto simp: addAmount_def DECIMALS_def)
qed

lemma toggleTile_ok:
  assumes "distinct ts" "list_all isTile ts" "isTile n"
  shows "distinct (toggleTile n ts)" "list_all isTile (toggleTile n ts)"
  using assms by (auto simp: toggleTile_def list_all_iff)

lemma pickRandomTile_ok:
  assumes "distinct ts" "list_all isTile ts" "\<And>n. 0 < n \<Longrightarrow> pickAt n < n"
  shows "distinct (pickRandomTile pickAt ts)" "list_all isTile (pickRandomTile pickAt ts)"
proof -
  let ?free = "filter (\<lambda>n. n \<notin> set ts) [1..<37]"
  have "?free \<noteq> [] \<Longrightarrow> ?free ! pickAt (length ?free) \<in> set ?free" using assms(3)[of "length ?free"] by (intro nth_mem) simp
  then show "distinct (pickRandomTile pickAt ts)" "list_all isTile (pickRandomTile pickAt ts)"
    using assms(1,2) by (auto simp: pickRandomTile_def Let_def list_all_iff isTile_def)
qed

text \<open>A preset lights up exactly when pressing it would clear the board: on distinct tiles of the board the two
  recipes of the panel, one by parity and one by membership, agree.\<close>

lemma presetTiles_set:
  "distinct (presetTiles k)" "set (presetTiles AllTiles) = {t. isTile t}" "set (presetTiles Odd) = {t. isTile t \<and> t mod 2 = 1}"
  "set (presetTiles Even) = {t. isTile t \<and> t mod 2 = 0}"
proof -
  have sets: "set (presetTiles Odd) = {t. \<exists>j<18. t = j * 2 + 1}"
      "set (presetTiles Even) = {t. \<exists>j<18. t = (j + 1) * 2}"
    by (auto simp: presetTiles_def image_iff)
  have "(\<exists>j<18. t = j * 2 + 1) \<longleftrightarrow> isTile t \<and> t mod 2 = 1" for t
    by (auto simp: isTile_def) presburger+
  moreover have "(\<exists>j<18. t = (j + 1) * 2) \<longleftrightarrow> isTile t \<and> t mod 2 = 0" for t
    by (auto simp: isTile_def) presburger+
  moreover have "set (presetTiles AllTiles) = {t. isTile t}" by (auto simp: presetTiles_def isTile_def)
  ultimately show "set (presetTiles AllTiles) = {t. isTile t}" "set (presetTiles Odd) = {t. isTile t \<and> t mod 2 = 1}"
    "set (presetTiles Even) = {t. isTile t \<and> t mod 2 = 0}"
    unfolding sets by (simp, simp only:, simp only:)
  show "distinct (presetTiles k)" by (cases k) (simp_all add: presetTiles_def distinct_map inj_on_def)
qed

lemma presetTiles_length: "length (presetTiles k) = (case k of AllTiles \<Rightarrow> 36 | _ \<Rightarrow> 18)"
  by (cases k) (simp_all add: presetTiles_def)

text \<open>A preset lights up exactly when pressing it would clear the board: on distinct tiles of the board the two
  recipes of the panel, one by parity and one by membership, agree.\<close>

lemma preset_lit_iff_clears:
  assumes "distinct ts" "list_all isTile ts"
  shows "presetActive k ts \<longleftrightarrow> togglePreset k ts = []"
proof -
  have subset: "list_all (\<lambda>t. case k of AllTiles \<Rightarrow> True | Odd \<Rightarrow> t mod 2 = 1 | Even \<Rightarrow> t mod 2 = 0) ts \<longleftrightarrow> set ts \<subseteq> set (presetTiles k)"
    using assms(2) by (cases k) (auto simp: presetTiles_set list_all_iff)
  have clears: "togglePreset k ts = [] \<longleftrightarrow> length ts = length (presetTiles k) \<and> set (presetTiles k) \<subseteq> set ts"
    using presetTiles_length[of k] by (cases k) (auto simp: togglePreset_def Let_def list_all_iff)
  have "length ts = length (presetTiles k) \<Longrightarrow> set ts \<subseteq> set (presetTiles k) \<longleftrightarrow> set (presetTiles k) \<subseteq> set ts"
    using assms(1) presetTiles_set(1)[of k] by (metis List.finite_set card_subset_eq distinct_card order_refl)
  then show ?thesis unfolding clears presetActive_def subset presetTiles_length by blast
qed

section \<open>Placements\<close>

lemma endDeploy_cases:
  obtains "ps_flight s = None" "endDeploy outcome s = s"
  | f t where "ps_flight s = Some f" "endDeploy outcome s = s\<lparr>ps_busy := False, ps_flight := None, ps_note := Some t\<rparr>"
  | f where "ps_flight s = Some f" "endDeploy outcome s = afterAuto f (s\<lparr>ps_busy := False, ps_flight := None, ps_note := None,
      ps_lastDeploy := Some \<lparr>rb_tiles = pm_tiles f, rb_stake = pm_stake f\<rparr>, ps_kicks := ps_kicks s + 1, ps_landed := ps_landed s @ [f]\<rparr>)"
proof (cases "ps_flight s")
  case (Some f)
  then show ?thesis using that by (cases outcome) (auto simp: endDeploy_def)
qed (use that in \<open>auto simp: endDeploy_def\<close>)

lemma startDeploy_cases:
  obtains "startDeploy i tiles stake auto s = s"
  | pool r own f where "pi_pool i = Some pool" "playOpenRound i = Some r" "pi_signer i = Some own" "tiles \<noteq> []" "0 < stake"
      "f = \<lparr>pm_pool = pool, pm_owner = own, pm_roundId = wr_roundId r, pm_tiles = tiles, pm_stake = stake, pm_auto = auto\<rparr>"
      "startDeploy i tiles stake auto s = s\<lparr>ps_busy := True, ps_note := None, ps_flight := Some f, ps_asked := ps_asked s @ [f]\<rparr>"
proof (cases "pi_pool i = None \<or> playOpenRound i = None \<or> pi_signer i = None \<or> tiles = [] \<or> stake \<le> 0")
  case True
  then have "startDeploy i tiles stake auto s = s" by (auto simp: startDeploy_def split: option.splits)
  then show ?thesis using that by blast
next
  case False
  then show ?thesis using that(2) by (auto simp: startDeploy_def Let_def)
qed

lemma afterAuto_frame [simp]:
  "ps_busy (afterAuto f s) = ps_busy s" "ps_flight (afterAuto f s) = ps_flight s" "ps_asked (afterAuto f s) = ps_asked s"
  "ps_landed (afterAuto f s) = ps_landed s" "ps_lastDeploy (afterAuto f s) = ps_lastDeploy s" "ps_note (afterAuto f s) = ps_note s"
  "ps_autoRounds (afterAuto f s) = (if pm_auto f then ps_autoRounds s - 1 else ps_autoRounds s)"
  "ps_autoKey (afterAuto f s) = (if pm_auto f then Some (showInt (pm_roundId f)) else ps_autoKey s)"
  by (simp_all add: afterAuto_def)

definition busyOk :: "play \<Rightarrow> bool" where "busyOk s = (ps_busy s \<longleftrightarrow> ps_flight s \<noteq> None)"

lemma clickDeploy_started:
  assumes "clickDeploy i s \<noteq> s"
  shows "deployReady i (ps_stakeText s) (ps_selected s) (ps_busy s)"
    "clickDeploy i s = startDeploy i (ps_selected s) (stakeOf (ps_stakeText s)) False s"
  using assms by (auto simp: clickDeploy_def split: if_splits)

lemma autoEffect_started:
  assumes "autoEffect i s \<noteq> s"
  obtains tiles stake where "autoDecision i s = Some (Place tiles stake)" "autoEffect i s = startDeploy i tiles stake True s"
  using assms by (auto simp: autoEffect_def split: option.splits auto_decision.splits)

lemma autoDecision_Place:
  assumes "autoDecision i s = Some (Place tiles stake)"
  shows "\<not> ps_busy s" "0 < ps_autoRounds s" "ps_lastDeploy s = Some \<lparr>rb_tiles = tiles, rb_stake = stake\<rparr>"
    "pi_position i = None" "stake * int (length tiles) \<le> pi_entries i"
    "\<And>pool r. pi_pool i = Some pool \<Longrightarrow> playOpenRound i = Some r \<Longrightarrow>
       phaseFor (Some r) (nowOr0 i) (po_closeBuffer pool) = Mine \<and> ps_autoKey s \<noteq> Some (showInt (wr_roundId r))"
  using assms by (auto simp: autoDecision_def decideAutoRound_def split: option.splits if_splits)

lemma deployReady_facts:
  assumes "deployReady i t selected busy"
  shows "\<not> busy" "selected \<noteq> []" "0 < stakeOf t" "\<not> pi_shutdown i" "pi_connected i" "playOpenRound i \<noteq> None" "pi_position i = None"
    "\<And>pool r. pi_pool i = Some pool \<Longrightarrow> playOpenRound i = Some r \<Longrightarrow> phaseFor (Some r) (nowOr0 i) (po_closeBuffer pool) = Mine"
  using assms by (auto simp: deployReady_def canPick_def playLocked_def split: option.splits)

inductive_cases play_stepE: "play_step s s'"
inductive_cases hands_offE: "hands_off s s'"

lemma step_busyOk: "play_step s s' \<Longrightarrow> busyOk s \<Longrightarrow> busyOk s'"
proof (erule play_stepE)
  fix i assume "s' = clickDeploy i s" "busyOk s"
  then show "busyOk s'"
    by (cases rule: startDeploy_cases[of i "ps_selected s" "stakeOf (ps_stakeText s)" False s]) (auto simp: clickDeploy_def busyOk_def)
next
  fix i assume s: "s' = autoEffect i s" "busyOk s"
  show "busyOk s'"
  proof (cases "autoEffect i s = s")
    case False
    then obtain tiles stake where "autoEffect i s = startDeploy i tiles stake True s" by (rule autoEffect_started)
    then show ?thesis using s by (cases rule: startDeploy_cases[of i tiles stake True s]) (auto simp: busyOk_def)
  qed (use s in simp)
next
  fix r assume "s' = endDeploy r s" "busyOk s"
  then show "busyOk s'" by (cases rule: endDeploy_cases[of s r]) (auto simp: busyOk_def)
qed (auto simp: busyOk_def autoMinus_def autoPlus_def)

lemma reachable_busyOk: "play_step\<^sup>*\<^sup>* PLAY_START s \<Longrightarrow> busyOk s"
  by (induction rule: rtranclp_induct) (auto simp: busyOk_def PLAY_START_def dest: step_busyOk)


section \<open>Auto-rounds\<close>

definition autosOf :: "play \<Rightarrow> placement list" where "autosOf s = filter pm_auto (ps_landed s)"

definition keyInv :: "play \<Rightarrow> bool" where
  "keyInv s \<longleftrightarrow> busyOk s \<and> distinct_adj (map pm_roundId (autosOf s)) \<and>
    (autosOf s \<noteq> [] \<longrightarrow> ps_autoKey s = Some (showInt (pm_roundId (last (autosOf s))))) \<and>
    (\<forall>f. ps_flight s = Some f \<longrightarrow> pm_auto f \<longrightarrow> ps_autoKey s \<noteq> Some (showInt (pm_roundId f)))"

lemma keyInv_landed:
  assumes "keyInv s" "ps_flight s = Some f"
  shows "keyInv (afterAuto f (s\<lparr>ps_busy := False, ps_flight := None, ps_note := None, ps_lastDeploy := l, ps_kicks := k,
    ps_landed := ps_landed s @ [f]\<rparr>))"
proof (cases "pm_auto f")
  case True
  then have "autosOf s \<noteq> [] \<Longrightarrow> pm_roundId (last (autosOf s)) \<noteq> pm_roundId f" using assms by (auto simp: keyInv_def)
  then show ?thesis using assms True
    by (auto simp: keyInv_def autosOf_def busyOk_def distinct_adj_append_iff last_map)
next
  case False
  then show ?thesis using assms by (simp add: keyInv_def autosOf_def busyOk_def)
qed

lemma step_keyInv: "play_step s s' \<Longrightarrow> keyInv s \<Longrightarrow> keyInv s'"
proof -
  assume st: "play_step s s'" and inv: "keyInv s"
  have busy: "busyOk s'" using st inv step_busyOk by (auto simp: keyInv_def)
  from st show "keyInv s'"
  proof (rule play_stepE)
    fix i assume "s' = clickDeploy i s"
    then show ?thesis using inv busy
      by (cases rule: startDeploy_cases[of i "ps_selected s" "stakeOf (ps_stakeText s)" False s])
        (auto simp: clickDeploy_def keyInv_def autosOf_def)
  next
    fix i assume s': "s' = autoEffect i s"
    show ?thesis
    proof (cases "autoEffect i s = s")
      case False
      then obtain tiles stake where d: "autoDecision i s = Some (Place tiles stake)" "autoEffect i s = startDeploy i tiles stake True s"
        by (rule autoEffect_started)
      show ?thesis using s' d(2) inv busy autoDecision_Place(6)[OF d(1)]
        by (cases rule: startDeploy_cases[of i tiles stake True s]) (auto simp: keyInv_def autosOf_def)
    qed (use s' inv in simp)
  next
    fix r assume s': "s' = endDeploy r s"
    show ?thesis
    proof (cases rule: endDeploy_cases[of s r])
      case (3 f)
      then show ?thesis using s' keyInv_landed[OF inv 3(1)] by simp
    qed (use s' inv busy in \<open>auto simp: keyInv_def autosOf_def\<close>)
  qed (use inv busy in \<open>auto simp: keyInv_def autosOf_def autoMinus_def autoPlus_def\<close>)
qed

lemma reachable_keyInv: "play_step\<^sup>*\<^sup>* PLAY_START s \<Longrightarrow> keyInv s"
  by (induction rule: rtranclp_induct) (auto simp: keyInv_def busyOk_def autosOf_def PLAY_START_def dest: step_keyInv)

lemma hands_off_step: "hands_off s s' \<Longrightarrow> play_step s s'"
  by (cases rule: hands_off.cases) (auto intro: play_step.intros)

definition countInv :: "placement list \<Rightarrow> int \<Rightarrow> play \<Rightarrow> bool" where
  "countInv before n s \<longleftrightarrow> busyOk s \<and> (\<exists>autos. autosOf s = before @ autos \<and> int (length autos) + ps_autoRounds s = n) \<and>
    (case ps_flight s of Some f \<Rightarrow> if pm_auto f then 1 else 0 | None \<Rightarrow> 0) \<le> ps_autoRounds s"

lemma step_countInv:
  assumes "hands_off s s'" "countInv before n s"
  shows "countInv before n s'"
proof -
  have busy: "busyOk s'" using assms hands_off_step step_busyOk by (auto simp: countInv_def)
  have idle: "ps_flight s = None" if "\<not> ps_busy s" using that assms(2) by (auto simp: countInv_def busyOk_def)
  from assms(1) show ?thesis
  proof (rule hands_offE)
    fix i assume s': "s' = clickDeploy i s"
    show ?thesis
    proof (cases "clickDeploy i s = s")
      case False
      note started = clickDeploy_started[OF False]
      show ?thesis using s' started(2) assms(2) busy idle deployReady_facts(1)[OF started(1)]
        by (cases rule: startDeploy_cases[of i "ps_selected s" "stakeOf (ps_stakeText s)" False s]) (auto simp: countInv_def autosOf_def)
    qed (use s' assms(2) in simp)
  next
    fix i assume s': "s' = autoEffect i s"
    show ?thesis
    proof (cases "autoEffect i s = s")
      case False
      then obtain tiles stake where d: "autoDecision i s = Some (Place tiles stake)" "autoEffect i s = startDeploy i tiles stake True s"
        by (rule autoEffect_started)
      show ?thesis using s' d(2) assms(2) busy autoDecision_Place(2)[OF d(1)]
        by (cases rule: startDeploy_cases[of i tiles stake True s]) (auto simp: countInv_def autosOf_def)
    qed (use s' assms(2) in simp)
  next
    fix r assume s': "s' = endDeploy r s"
    show ?thesis
    proof (cases rule: endDeploy_cases[of s r])
      case (3 f)
      obtain autos where "autosOf s = before @ autos" "int (length autos) + ps_autoRounds s = n" using assms(2) by (auto simp: countInv_def)
      then show ?thesis using s' 3 assms(2) busy
        by (cases "pm_auto f") (auto simp: countInv_def autosOf_def intro!: exI[of _ "autos @ [f]"])
    qed (use s' assms(2) busy in \<open>auto simp: countInv_def autosOf_def split: option.splits if_splits\<close>)
  qed (use assms(2) busy in \<open>auto simp: countInv_def autosOf_def\<close>)
qed

text \<open>C34: Auto-rounds counts what it places: with the Player's hands off the counter, it goes down by exactly one for
  each automatic placement that landed, never below zero, so that no more than the chosen number land; and
  no two in a row are in the same Round.\<close>

theorem auto_rounds_count_down:
  assumes "play_step\<^sup>*\<^sup>* PLAY_START s" "ps_flight s = None" "0 \<le> ps_autoRounds s" "hands_off\<^sup>*\<^sup>* s s'"
  shows "\<exists>autos. autosOf s' = autosOf s @ autos \<and> int (length autos) + ps_autoRounds s' = ps_autoRounds s \<and>
    0 \<le> ps_autoRounds s' \<and> distinct_adj (map pm_roundId (autosOf s'))"
proof -
  have "countInv (autosOf s) (ps_autoRounds s) s" using reachable_busyOk[OF assms(1)] assms(2,3) by (simp add: countInv_def)
  with assms(4) have "countInv (autosOf s) (ps_autoRounds s) s'"
    by (induction rule: rtranclp_induct) (auto intro: step_countInv)
  moreover have "play_step\<^sup>*\<^sup>* s s'" using assms(4) by (induction rule: rtranclp_induct) (auto dest: hands_off_step)
  then have "keyInv s'" using assms(1) reachable_keyInv by (meson rtranclp_trans)
  ultimately show ?thesis by (auto simp: countInv_def keyInv_def split: option.splits if_splits)
qed

text \<open>A failed automatic placement is asked for again at once, in the same Round: after any number of refusals the
  next render asks the wallet once more.\<close>

lemma failed_auto_round_asks_again:
  assumes "autoDecision i s = Some (Place tiles stake)" "pi_signer i = Some own" "tiles \<noteq> []" "0 < stake"
  shows "ps_asked (((\<lambda>s. endDeploy (PlaceNote t) (autoEffect i s)) ^^ n) s) =
      ps_asked s @ replicate n \<lparr>pm_pool = the (pi_pool i), pm_owner = own, pm_roundId = wr_roundId (the (playOpenRound i)),
        pm_tiles = tiles, pm_stake = stake, pm_auto = True\<rparr> \<and>
    autoDecision i (((\<lambda>s. endDeploy (PlaceNote t) (autoEffect i s)) ^^ n) s) = Some (Place tiles stake)"
proof (induction n)
  case (Suc n)
  let ?g = "\<lambda>s. endDeploy (PlaceNote t) (autoEffect i s)"
  let ?f = "\<lparr>pm_pool = the (pi_pool i), pm_owner = own, pm_roundId = wr_roundId (the (playOpenRound i)),
        pm_tiles = tiles, pm_stake = stake, pm_auto = True\<rparr>"
  have once: "ps_asked (?g u) = ps_asked u @ [?f] \<and> autoDecision i (?g u) = Some (Place tiles stake)"
    if d: "autoDecision i u = Some (Place tiles stake)" for u
  proof -
    obtain pool r where "pi_pool i = Some pool" "playOpenRound i = Some r"
      using d[unfolded autoDecision_def] by (cases "pi_pool i"; cases "playOpenRound i") auto
    then show ?thesis using d assms(2-4)
      by (auto simp: autoEffect_def startDeploy_def endDeploy_def autoDecision_def Let_def split: if_splits)
  qed
  from once[OF conjunct2[OF Suc.IH]] Suc.IH show ?case by (simp add: replicate_append_same)
qed (use assms in simp)

section \<open>The phone bar and the settle button\<close>

text \<open>The phone bar shows what the panel shows: while a Position is in, what it put in this Round, otherwise what a
  Round would cost.\<close>

lemma bar_agrees_with_panel:
  assumes "pi_position i = position"
  shows "sb_entriesIn (stakeBarModel stakeText selected position p) =
    formatAtomic2 (if position = None then perRound stakeText selected else deployedTotal i) DECIMALS"
  using assms by (auto simp: stakeBarModel_def Let_def barNumbers_def deployedTotal_def perRound_def mult.commute split: option.splits)

text \<open>The settle button comes only after the result and the grace period, and announces what the Round owes the
  Position; the extra test for the winning tile changes nothing.\<close>

lemma settle_offer_is_due:
  assumes "settleState i = Some o1"
  shows "\<exists>r p. pi_round i = Some r \<and> pi_position i = Some p \<and> isRevealed r \<and> wr_endsAt r + SETTLE_GRACE_SECONDS \<le> nowOr0 i \<and>
    so_roundId o1 = wr_roundId r \<and> so_reward o1 = expectedReward r p"
proof -
  have same: "(if covers (wp_tiles p) (wr_winningTile r) then expectedReward r p else 0) = expectedReward r p" for r p
    by (simp add: expectedReward_def)
  show ?thesis using assms unfolding settleState_def same by (simp split: option.splits if_splits) auto
qed

section \<open>Witnesses\<close>

definition demoPlayPool :: pool_like where
  "demoPlayPool = \<lparr>po_address = [1], po_acceptedMint = [2], po_closeBuffer = 5, po_minDeposit = 1, po_houseCutBps = 600,
     po_paused = False, po_epochSeconds = 3600, po_baseRateBps = 488, po_ticketsPerUsdc = 10, po_priorityFee = 1000\<rparr>"

definition demoPlayRound :: "int \<Rightarrow> round_like" where
  "demoPlayRound n = \<lparr>wr_roundId = n, wr_epochId = 1, wr_startsAt = 0, wr_endsAt = 90, wr_status = 0, wr_winningTile = 0, wr_pot = 0,
     wr_houseCut = 0, wr_tileTotals = []\<rparr>"

definition demoPlayInputs :: "int \<Rightarrow> play_inputs" where
  "demoPlayInputs n = \<lparr>pi_shutdown = False, pi_gamePaused = False, pi_pool = Some demoPlayPool, pi_refusal = None,
     pi_round = Some (demoPlayRound n), pi_now = Some 10, pi_entries = 9000000, pi_position = None, pi_signer = Some [9],
     pi_connected = True, pi_rentWarning = None, pi_phase = Mine\<rparr>"

lemma demoPlay_open [simp]: "playOpenRound (demoPlayInputs n) = Some (demoPlayRound n)"
  by (simp add: playOpenRound_def demoPlayInputs_def demoPlayRound_def)

lemma demoPlay_mine [simp]: "phaseFor (Some (demoPlayRound n)) (nowOr0 (demoPlayInputs n)) (po_closeBuffer demoPlayPool) = Mine"
  by (simp add: phaseFor_def nowOr0_def demoPlayInputs_def demoPlayRound_def demoPlayPool_def buyClosesAt_def)

lemma demoPlay_fields [simp]:
  "pi_pool (demoPlayInputs n) = Some demoPlayPool" "pi_signer (demoPlayInputs n) = Some [9]" "pi_position (demoPlayInputs n) = None"
  "pi_entries (demoPlayInputs n) = 9000000" "\<not> pi_shutdown (demoPlayInputs n)" "pi_connected (demoPlayInputs n)"
  "wr_roundId (demoPlayRound n) = n"
  by (simp_all add: demoPlayInputs_def demoPlayRound_def)

definition demoPicked :: play where "demoPicked = PLAY_START\<lparr>ps_selected := [7, 8]\<rparr>"

lemma demoStake: "stakeOf ''1'' = 1000000"
  using parseAtomic_decimal[of "''1''" "[]" 6 1 0] by (simp add: stakeOf_def DECIMALS_def decimalText_def isDigit_def digitVal_def)

lemma demoPicked_reach: "play_step\<^sup>*\<^sup>* PLAY_START demoPicked"
  unfolding demoPicked_def by (rule r_into_rtranclp) (rule play_step.picked)

lemma demoPicked_ready: "deployReady (demoPlayInputs n) ''1'' [7, 8] False"
  by (simp add: deployReady_def canPick_def playLocked_def demoStake)

definition demoPlacement :: placement where
  "demoPlacement = \<lparr>pm_pool = demoPlayPool, pm_owner = [9], pm_roundId = 4, pm_tiles = [7, 8], pm_stake = 1000000, pm_auto = False\<rparr>"

lemma demoClicked: "clickDeploy (demoPlayInputs 4) demoPicked =
    demoPicked\<lparr>ps_busy := True, ps_note := None, ps_flight := Some demoPlacement, ps_asked := [demoPlacement]\<rparr>"
  using demoPicked_ready[of 4]
  by (simp add: clickDeploy_def startDeploy_def demoPicked_def PLAY_START_def demoStake demoPlacement_def Let_def)


text \<open>A first Round by hand, one automatic Round chosen, and the second Round placed automatically.\<close>

definition demoChosen :: play where
  "demoChosen = autoPlus (endDeploy (PlacedWith ''sig'') (clickDeploy (demoPlayInputs 4) demoPicked))"

definition demoAutoDone :: play where
  "demoAutoDone = endDeploy (PlacedWith ''sig2'') (autoEffect (demoPlayInputs 5) demoChosen)"

lemma demoChosen_fields [simp]:
  "ps_flight demoChosen = None" "ps_autoRounds demoChosen = 1" "\<not> ps_busy demoChosen" "ps_autoKey demoChosen = None"
  "ps_lastDeploy demoChosen = Some \<lparr>rb_tiles = [7, 8], rb_stake = 1000000\<rparr>" "ps_landed demoChosen = [demoPlacement]"
  unfolding demoChosen_def demoClicked
  by (simp_all add: endDeploy_def afterAuto_def demoPlacement_def autoPlus_def demoPicked_def PLAY_START_def)

lemma demoChosen_reach: "play_step\<^sup>*\<^sup>* PLAY_START demoChosen"
  unfolding demoChosen_def
  by (rule rtranclp.rtrancl_into_rtrancl[OF rtranclp.rtrancl_into_rtrancl[OF rtranclp.rtrancl_into_rtrancl[OF demoPicked_reach
      play_step.clicked] play_step.ended] play_step.plus])

lemma demoAuto_decides: "autoDecision (demoPlayInputs 5) demoChosen = Some (Place [7, 8] 1000000)"
  by (simp add: autoDecision_def decideAutoRound_def)

lemma demoAuto_flight: "ps_flight (autoEffect (demoPlayInputs 5) demoChosen) =
    Some \<lparr>pm_pool = demoPlayPool, pm_owner = [9], pm_roundId = 5, pm_tiles = [7, 8], pm_stake = 1000000, pm_auto = True\<rparr>"
  by (simp add: autoEffect_def demoAuto_decides startDeploy_def Let_def)

lemma auto_rounds_count_down_witness:
  "\<exists>autos. autosOf demoAutoDone = autosOf demoChosen @ autos \<and> length autos = 1 \<and> ps_autoRounds demoAutoDone = 0"
proof -
  have run: "hands_off\<^sup>*\<^sup>* demoChosen demoAutoDone"
    unfolding demoAutoDone_def
    by (rule rtranclp.rtrancl_into_rtrancl, rule r_into_rtranclp, rule hands_off.effect, rule hands_off.ended)
  obtain autos where a: "autosOf demoAutoDone = autosOf demoChosen @ autos" "int (length autos) + ps_autoRounds demoAutoDone = 1"
    using auto_rounds_count_down[OF demoChosen_reach _ _ run] by auto
  have "ps_autoRounds (autoEffect (demoPlayInputs 5) demoChosen) = 1"
    by (simp add: autoEffect_def demoAuto_decides startDeploy_def Let_def)
  then have "ps_autoRounds demoAutoDone = 0" unfolding demoAutoDone_def endDeploy_def demoAuto_flight by simp
  then show ?thesis using a by auto
qed

lemma max_stake_fits_witness: "\<exists>t. setMax 1000000 [3, 4, 5] ''1'' = Inr t \<and> perRound t [3, 4, 5] \<le> 1000000"
  using max_stake_fits[of 1000000 "[3, 4, 5]" "''1''"] by auto

lemma board_counts_agree_witness:
  "popcount (boardMask [1, 36]) = 2 \<and> deployedTotal ((demoPlayInputs 4)\<lparr>pi_position := Some \<lparr>wp_tiles = boardMask [1, 36],
     wp_stakePerTile = stakeOf ''1''\<rparr>\<rparr>) = perRound ''1'' [1, 36]"
  using board_counts_agree[of "[1, 36]" "(demoPlayInputs 4)\<lparr>pi_position := Some \<lparr>wp_tiles = boardMask [1, 36],
     wp_stakePerTile = stakeOf ''1''\<rparr>\<rparr>" "''1''"] by (simp add: isTile_def)

text \<open>The minus button pressed while the last automatic placement is in flight takes the counter below zero.\<close>

lemma counter_goes_below_zero: "\<exists>s. play_step\<^sup>*\<^sup>* PLAY_START s \<and> ps_autoRounds s = -1"
proof -
  let ?s = "endDeploy (PlacedWith ''sig2'') (autoMinus (autoEffect (demoPlayInputs 5) demoChosen))"
  have "play_step\<^sup>*\<^sup>* PLAY_START ?s"
    by (rule rtranclp.rtrancl_into_rtrancl[OF rtranclp.rtrancl_into_rtrancl[OF rtranclp.rtrancl_into_rtrancl[OF demoChosen_reach
        play_step.effect] play_step.minus] play_step.ended])
  moreover have "ps_autoRounds ?s = -1"
    using demoAuto_flight by (simp add: autoMinus_def endDeploy_def autoEffect_def demoAuto_decides startDeploy_def Let_def)
  ultimately show ?thesis by blast
qed

end
