(* ===== verification/Views.thy ===== *)
theory Views
  imports Play Http_Routes Web_Hooks
begin

text \<open>
  What the read-only screens show: the activity feed (\<open>web/src/activityRows.ts\<close>), the account history, clock and
  winners of \<open>screens/Dashboard.tsx\<close>, the draw page (\<open>screens/WeeklyDraw.tsx\<close>), the operator pill
  (\<open>status.ts\<close>), the referral cards (\<open>referrals.ts\<close>), the rest of \<open>read.ts\<close>, the poll hook they share
  (\<open>useApiPoll.ts\<close>), and what \<open>App.tsx\<close> makes of one answer of the state route.

  An answer of the API is the value the route computed: dates and amounts travel as text and are read back.
  The browser's clipboard, date names and React's rendering are left out or are arguments.
\<close>

section \<open>Printing a number\<close>

text \<open>\<open>String(x)\<close>: the fewest digits that read back as \<open>x\<close>, and of those the nearest. Integers up to \<open>2 ^ 53\<close>
  print as they are, which is what the rule gives for them.\<close>

definition powTen :: "int \<Rightarrow> rat" where
  "powTen k = (if 0 \<le> k then 10 ^ nat k else 1 / 10 ^ nat (- k))"

definition pointAfter :: "rat \<Rightarrow> int" where
  "pointAfter q =
    (let (a, b) = quotient_of q; e = int (length (showInt a)) - int (length (showInt b))
     in if powTen e \<le> q then e + 1 else e)"

definition shortestDigits :: "rat \<Rightarrow> nat \<times> int" where
  "shortestDigits q =
    (let n = pointAfter q;
         near = (\<lambda>k. let x = q * powTen (int k - n); f = \<lfloor>x\<rfloor> in if x - of_int f \<le> 1 / 2 then [f, f + 1] else [f + 1, f])
     in case find (\<lambda>(k, s). 10 ^ (k - 1) \<le> s \<and> s < 10 ^ k \<and> toDouble (of_int s * powTen (n - int k)) = Finite q)
               (concat (map (\<lambda>k. map (Pair k) (near k)) [1..<18])) of
          Some r \<Rightarrow> r
        | None \<Rightarrow> (17, \<lfloor>q * powTen (17 - n)\<rfloor>))"

definition showPositive :: "rat \<Rightarrow> string" where
  "showPositive q =
    (let (k, s) = shortestDigits q; n = pointAfter q; ds = showInt s
     in if int k \<le> n \<and> n \<le> 21 then ds @ replicate (nat n - k) CHR ''0''
        else if 0 < n \<and> n \<le> 21 then take (nat n) ds @ ''.'' @ drop (nat n) ds
        else if - 6 < n \<and> n \<le> 0 then ''0.'' @ replicate (nat (- n)) CHR ''0'' @ ds
        else (if k = 1 then ds else take 1 ds @ ''.'' @ drop 1 ds) @ ''e'' @ (if n - 1 < 0 then ''-'' else ''+'')
               @ showInt \<bar>n - 1\<bar>)"

definition showNumber :: "js_number \<Rightarrow> string" where
  "showNumber x =
    (case x of
       NaN \<Rightarrow> ''NaN''
     | Infinite neg \<Rightarrow> (if neg then ''-Infinity'' else ''Infinity'')
     | Finite q \<Rightarrow>
         if q = of_int \<lfloor>q\<rfloor> \<and> \<bar>\<lfloor>q\<rfloor>\<bar> \<le> 2 ^ 53 then showInt \<lfloor>q\<rfloor>
         else if q < 0 then ''-'' @ showPositive (- q) else showPositive q)"

text \<open>\<open>a + 1\<close> and \<open>a / b\<close> on doubles.\<close>

definition addOne :: "js_number \<Rightarrow> js_number" where
  "addOne x = (case x of Finite q \<Rightarrow> toDouble (q + 1) | _ \<Rightarrow> x)"

definition divInts :: "int \<Rightarrow> int \<Rightarrow> js_number" where
  "divInts a b =
    (if b = 0 then (if a = 0 then NaN else Infinite (a < 0)) else toDouble (of_int a / of_int b))"

section \<open>The activity feed\<close>

record feed_row =
  fr_key :: string
  fr_who :: string
  fr_action :: string
  fr_tileLabel :: string
  fr_roundId :: "string option"

definition MINUS_SIGN :: string where "MINUS_SIGN = [CHR 0xE2, CHR 0x88, CHR 0x92]"

definition wEventKey :: "string \<Rightarrow> string" where
  "wEventKey name = (case name of [] \<Rightarrow> [] | c # rest \<Rightarrow> lowerChar c # rest)"

definition atomicShort :: "string \<Rightarrow> string res" where
  "atomicShort t =
    (let clean = filter isDigit t
     in rbind (bigIntOf (if clean = [] then ''0'' else clean)) (\<lambda>n. formatAtomic2 n 6))"

text \<open>\<open>String(value)\<close>; inside an array \<open>null\<close> prints as nothing.\<close>

fun jsString :: "json \<Rightarrow> string" where
  "jsString (JString s) = s"
| "jsString (JNumber n) = showNumber (toDouble (of_int n))"
| "jsString (JBool b) = (if b then ''true'' else ''false'')"
| "jsString JNull = ''null''"
| "jsString (JArray xs) = joinWith '','' (map (\<lambda>x. if x = JNull then [] else jsString x) xs)"
| "jsString (JObject fs) = ''[object Object]''"

fun fieldText :: "json \<Rightarrow> string list \<Rightarrow> string" where
  "fieldText data [] = ''0''"
| "fieldText data (name # names) =
    (case jsonField data name of
       Some v \<Rightarrow> if v = JNull then fieldText data names else jsString v
     | None \<Rightarrow> fieldText data names)"

definition whoOf :: "json option \<Rightarrow> string option \<Rightarrow> string" where
  "whoOf v owner =
    (case v of
       Some (JString key) \<Rightarrow> if key = [] then ''pool'' else if Some key = owner then ''You'' else formatAddress key
     | _ \<Rightarrow> ''pool'')"

definition rowKeyOf :: "event_row \<Rightarrow> string" where
  "rowKeyOf e = showInt (vr_slot e) @ ''-'' @ vr_signature e @ ''-'' @ showInt (vr_index e)"

definition amountAction :: "string \<Rightarrow> string \<Rightarrow> string \<Rightarrow> string res" where
  "amountAction before amount after = rbind (atomicShort amount) (\<lambda>t. Inr (before @ t @ after))"

definition toRow :: "string \<Rightarrow> string \<Rightarrow> json \<Rightarrow> string option \<Rightarrow> feed_row option res" where
  "toRow key name data owner =
    (let who = whoOf (jsonField data ''owner'') owner;
         kind = wEventKey name;
         row = (\<lambda>w label r a. Inr (Some \<lparr>fr_key = key, fr_who = w, fr_action = a, fr_tileLabel = label, fr_roundId = r\<rparr>));
         roundId = fieldText data [''roundId'', ''round_id'']
     in if kind = ''deposited'' then rbind (amountAction ''+'' (fieldText data [''amount'']) '' USDC'') (row who ''deposit'' None)
        else if kind = ''withdrawn'' then rbind (amountAction MINUS_SIGN (fieldText data [''amount'']) '' USDC'') (row who ''withdraw'' None)
        else if kind = ''positionBought'' then
          rbind (bigIntOf (fieldText data [''tiles''])) (\<lambda>tiles.
          rbind (amountAction MINUS_SIGN (fieldText data [''total'']) '' Tickets'')
            (row who (showNat (popcount tiles) @ '' tiles'') None))
        else if kind = ''positionSettled'' then
          (let reward = fieldText data [''reward'']
           in if reward = ''0'' then Inr None
              else rbind (amountAction ''+'' reward '' Tickets'') (row who ''round reward'' (Some roundId)))
        else if kind = ''roundSettled'' then
          row ''pool'' (if fieldText data [''forfeited''] = ''true'' then ''no winner'' else ''settled'') (Some roundId)
            (''tile '' @ showNumber (addOne (numberOf (fieldText data [''winningTile'', ''winning_tile'']))))
        else if kind = ''registered'' then row who ''daily draw'' None ''registered''
        else if kind = ''jackpotPaid'' then
          rbind (amountAction ''+'' (fieldText data [''amount'']) '' USDC'')
            (row (whoOf (jsonField data ''winner'') owner) ''prize'' None)
        else if kind = ''epochRolledOver'' then
          rbind (amountAction [] (fieldText data [''jackpotAmount'', ''jackpot_amount'']) '' USDC stays in the jackpot'')
            (row ''pool'' ''rollover'' None)
        else Inr None)"

definition eventsToRows :: "event_row list \<Rightarrow> string option \<Rightarrow> feed_row list res" where
  "eventsToRows rows owner =
    rbind (mapRes (\<lambda>e. toRow (rowKeyOf e) (vr_name e) (vr_data e) owner) rows) (\<lambda>out. Inr (List.map_filter id out))"

section \<open>The dashboard\<close>

definition dollars :: "string \<Rightarrow> string res" where
  "dollars atomic =
    (let clean = filter isDigit atomic
     in rbind (bigIntOf (if clean = [] then ''0'' else clean)) (\<lambda>n. rbind (formatMoney2 n DECIMALS) (\<lambda>t. Inr (''$'' @ t))))"

text \<open>\<open>toLocaleDateString\<close> knows the browser's time zone and is an argument, of the milliseconds.\<close>

definition shortDate :: "(int \<Rightarrow> string) \<Rightarrow> int option \<Rightarrow> string" where
  "shortDate dateName unixSeconds =
    (case unixSeconds of None \<Rightarrow> EM_DASH | Some s \<Rightarrow> if s * 1000 \<le> 0 then EM_DASH else dateName (s * 1000))"

record history_row =
  hr_key :: string
  hr_label :: string
  hr_signature :: string
  hr_amount :: string
  hr_blockTime :: "int option"
  hr_prize :: bool

definition toHistoryRow :: "event_row \<Rightarrow> history_row option res" where
  "toHistoryRow e =
    rbind (dollars (fieldText (vr_data e) [''amount''])) (\<lambda>amount.
      let row = (\<lambda>label text prize. Some \<lparr>hr_key = rowKeyOf e, hr_label = label, hr_signature = vr_signature e, hr_amount = text,
                    hr_blockTime = vr_blockTime e, hr_prize = prize\<rparr>);
          kind = wEventKey (vr_name e)
      in Inr (if kind = ''deposited'' then row ''Deposit'' (''+ '' @ amount) False
              else if kind = ''withdrawn'' then row ''Withdraw'' (''- '' @ amount) False
              else if kind = ''jackpotPaid'' then row ''Prize Win'' amount True
              else None))"

definition HISTORY_ROWS :: nat where "HISTORY_ROWS = 5"
definition HISTORY_ROWS_EXPANDED :: nat where "HISTORY_ROWS_EXPANDED = 50"
definition EPOCH_LOOKBACK :: nat where "EPOCH_LOOKBACK = 20"
definition WINNERS_SHOWN :: nat where "WINNERS_SHOWN = 5"

definition historyLimit :: "bool \<Rightarrow> nat" where
  "historyLimit expanded = (if expanded then HISTORY_ROWS_EXPANDED else HISTORY_ROWS)"

definition historyRows :: "bool \<Rightarrow> event_row list \<Rightarrow> history_row list res" where
  "historyRows expanded rows =
    rbind (mapRes toHistoryRow rows) (\<lambda>out. Inr (take (historyLimit expanded) (List.map_filter id out)))"

text \<open>What the screen asks the feed for, and what it shows of the answer.\<close>

definition accountHistory :: "api_config \<Rightarrow> string \<Rightarrow> bool \<Rightarrow> read_model \<Rightarrow> history_row list res http" where
  "accountHistory cfg owner expanded m =
    hbind (feedRoute cfg (Some (showNat (historyLimit expanded * 4))) (Some owner) m) (\<lambda>rows. Inr (historyRows expanded rows))"

definition winnersOf :: "epoch_row list \<Rightarrow> epoch_row list" where
  "winnersOf epochs = take WINNERS_SHOWN (filter (\<lambda>e. er_winner e \<noteq> None) epochs)"

definition playedChip :: "nat \<Rightarrow> string option" where
  "playedChip n = (if n > 0 then Some (''Played '' @ showNat n @ '' '' @ (if n = 1 then ''round'' else ''rounds'')) else None)"

datatype dash_clock = ClockLaunch string | ClockPaused | ClockDrawing | ClockParts "string list option"

definition dashClock :: "bool \<Rightarrow> (epoch_row \<times> drawing_progress option) option \<Rightarrow> int option \<Rightarrow> bool \<Rightarrow> int option \<Rightarrow> dash_clock" where
  "dashClock jackpotGated epoch launchAtMs jackpotPaused now =
    (let remaining = (case (epoch, now) of (Some (e, _), Some n) \<Rightarrow> Some (er_endsAt e - n) | _ \<Rightarrow> None);
         isDrawn = (case epoch of Some (_, Some _) \<Rightarrow> True | _ \<Rightarrow> False);
         parts = (case remaining of Some r \<Rightarrow> Some (dhmsParts r) | None \<Rightarrow> if epoch = None then Some (dhmsParts 0) else None)
     in case prizeCardState jackpotGated (epoch \<noteq> None) jackpotPaused (launchAtMs \<noteq> None) of
          CardLaunch \<Rightarrow> ClockLaunch (launchCountdownLabel (launchCountdown (if jackpotGated then None else launchAtMs) now))
        | CardPaused \<Rightarrow> ClockPaused
        | CardLive \<Rightarrow>
            if isDrawn \<or> (case remaining of Some r \<Rightarrow> r \<le> 0 | None \<Rightarrow> False) then ClockDrawing else ClockParts parts)"

section \<open>The draw page\<close>

definition drawClock :: "epoch_row option \<Rightarrow> int option \<Rightarrow> bool \<Rightarrow> string" where
  "drawClock epoch now jackpotPaused =
    (if jackpotPaused then ''draw paused''
     else ''draw in '' @ (case (epoch, now) of (Some e, Some n) \<Rightarrow> hmText (er_endsAt e - n) | _ \<Rightarrow> ''--:--''))"

definition registerOutcome :: "web_env \<Rightarrow> web_chain \<Rightarrow> pool_like \<Rightarrow> pubkey \<Rightarrow> drawing_progress \<Rightarrow> flow_end" where
  "registerOutcome env w pool own progress =
    runMoney env w (fst (sendIxs env w pool own (registerIxs env pool own (dp_epoch progress))))"

definition winnerLine :: "string option \<Rightarrow> epoch_row \<Rightarrow> (string \<times> string \<times> string) res" where
  "winnerLine owner e =
    rbind (atomicShort (showInt (er_jackpotAmount e))) (\<lambda>t.
      Inr (''day #'' @ showInt (er_id e),
           (case er_winner e of
              Some w \<Rightarrow> if Some w = owner then ''You, added to your Principal'' else formatAddress w
            | None \<Rightarrow> []),
           t @ '' USDC''))"

section \<open>The operator pill\<close>

datatype tone = ToneOk | ToneWarn

record status_summary =
  ss_tone :: tone
  ss_label :: string
  ss_detail :: string
  ss_stale :: bool

definition FRESH_SECONDS :: int where "FRESH_SECONDS = 10"
definition CURSOR_FRESH_SECONDS :: int where "CURSOR_FRESH_SECONDS = 90"
definition WAKE_MARGIN_SECONDS :: int where "WAKE_MARGIN_SECONDS = 10"

definition warnPill :: "string \<Rightarrow> string \<Rightarrow> status_summary" where
  "warnPill label detail = \<lparr>ss_tone = ToneWarn, ss_label = label, ss_detail = detail, ss_stale = True\<rparr>"

text \<open>\<open>Math.round\<close> of milliseconds over 1000.\<close>

definition roundSeconds :: "int \<Rightarrow> int" where "roundSeconds ms = (ms + 500) div 1000"

definition summarizeStatus :: "api_status option \<Rightarrow> int \<Rightarrow> status_summary" where
  "summarizeStatus status nowMs =
    (case status of
       None \<Rightarrow> warnPill ''OFFLINE'' ''backend unreachable''
     | Some st \<Rightarrow>
         (let err = (case st_operator st of Some r \<Rightarrow> os_lastError r \<noteq> None \<and> os_lastError r \<noteq> Some [] | None \<Rightarrow> False)
          in case (case st_operator st of Some r \<Rightarrow> os_lastTickAt r | None \<Rightarrow> None) of
               None \<Rightarrow> if err then warnPill ''ERROR'' ''operator reported an error'' else warnPill ''STARTING'' ''operator has not ticked yet''
             | Some tickAt \<Rightarrow>
                 (let tickAge = nowMs - tickAt;
                      sleeping = (case (case st_operator st of Some r \<Rightarrow> os_nextWakeAt r | None \<Rightarrow> None) of
                          Some wake \<Rightarrow> wake - nowMs > - WAKE_MARGIN_SECONDS * 1000 | None \<Rightarrow> False);
                      tickFresh = (sleeping \<or> tickAge \<ge> 0 \<and> tickAge < FRESH_SECONDS * 1000);
                      cursorFresh = (case st_ageSeconds st of Some age \<Rightarrow> age < CURSOR_FRESH_SECONDS | None \<Rightarrow> False)
                  in if tickFresh \<and> cursorFresh \<and> \<not> err
                     then \<lparr>ss_tone = ToneOk, ss_label = ''LIVE'', ss_detail = ''tick '' @ showInt (roundSeconds tickAge) @ ''s ago'', ss_stale = False\<rparr>
                     else if err then warnPill ''ERROR'' ''operator reported an error''
                     else if \<not> tickFresh then warnPill ''STALLED'' (''operator stalled (last tick '' @ showInt (roundSeconds tickAge) @ ''s ago)'')
                     else warnPill ''SYNCING'' (case st_ageSeconds st of None \<Rightarrow> ''indexer has not synced yet''
                                                | Some age \<Rightarrow> ''indexer lag '' @ showInt age @ ''s''))))"

section \<open>The referral cards\<close>

datatype referral_hero = HeroDisconnected | HeroNoCode | HeroCode string

definition referralHeroState :: "string option \<Rightarrow> referrals_response option \<Rightarrow> referral_hero" where
  "referralHeroState owner data =
    (if owner = None \<or> owner = Some [] then HeroDisconnected
     else case (case data of Some d \<Rightarrow> rp_referralCode d | None \<Rightarrow> None) of
            Some (c # cs) \<Rightarrow> HeroCode (c # cs) | _ \<Rightarrow> HeroNoCode)"

definition shareLink :: "string \<Rightarrow> string \<Rightarrow> string" where
  "shareLink origin code = origin @ ''/?ref='' @ code"

definition ZERO_BAND :: referral_band where
  "ZERO_BAND = \<lparr>bd_tier = 0, bd_rateBps = 0, bd_minCount = 0, bd_maxCount = Some 0\<rparr>"

definition FIRST_BAND :: referral_band where
  "FIRST_BAND = \<lparr>bd_tier = 1, bd_rateBps = 200, bd_minCount = 1, bd_maxCount = Some 2\<rparr>"

record bonus_rate_view =
  br_ratePercent :: string
  br_tierLabel :: "string option"
  br_progress :: js_number
  br_copy :: string

definition MIDDLE_DOT :: string where "MIDDLE_DOT = [CHR 0xC2, CHR 0xB7]"

definition ratePercent :: "int \<Rightarrow> string" where
  "ratePercent rateBps = showNumber (divInts rateBps 100) @ ''%''"

definition tierLabelOf :: "referral_band \<Rightarrow> string" where
  "tierLabelOf b = ''TIER '' @ showInt (bd_tier b) @ '' ('' @ showInt (bd_minCount b) @
    (case bd_maxCount b of None \<Rightarrow> ''+'' | Some m \<Rightarrow> ''-'' @ showInt m) @ '' QUALIFIED REFERRALS)''"

text \<open>\<open>null\<close> in a template prints as such. \<open>None\<close> is the disconnected card.\<close>

definition bonusRateView :: "string option \<Rightarrow> referrals_response option \<Rightarrow> bonus_rate_view option" where
  "bonusRateView owner data =
    (if owner = None \<or> owner = Some [] then None
     else let (count, b, after) = (case data of Some d \<Rightarrow> (rp_qualifiedCount d, rp_band d, rp_nextBand d)
                                   | None \<Rightarrow> (0, ZERO_BAND, Some FIRST_BAND))
          in case after of
               None \<Rightarrow> Some \<lparr>br_ratePercent = ratePercent (bd_rateBps b), br_tierLabel = Some (tierLabelOf b), br_progress = Finite 1,
                 br_copy = showInt count @ '' qualified referrals '' @ MIDDLE_DOT @ '' Max tier''\<rparr>
             | Some nb \<Rightarrow> Some \<lparr>br_ratePercent = ratePercent (bd_rateBps b),
                 br_tierLabel = (if bd_tier b = 0 then None else Some (tierLabelOf b)),
                 br_progress = divInts count (bd_minCount nb),
                 br_copy = (if bd_tier b = 0
                   then showInt (bd_minCount nb) @ ''-'' @ (case bd_maxCount nb of None \<Rightarrow> ''null'' | Some m \<Rightarrow> showInt m)
                     @ '' qualified referrals unlock '' @ ratePercent (bd_rateBps nb)
                   else showInt count @ '' qualified referrals '' @ MIDDLE_DOT @ '' '' @ showInt (bd_minCount nb - count)
                     @ '' more to unlock '' @ ratePercent (bd_rateBps nb))\<rparr>)"

definition TICKET_DECIMALS :: int where "TICKET_DECIMALS = 1000000"

text \<open>Whole Tickets of a 64-bit amount are below \<open>2 ^ 53\<close>, where \<open>Number\<close> changes nothing.\<close>

definition wholeTickets :: "int \<Rightarrow> int" where "wholeTickets atomic = bigDiv atomic TICKET_DECIMALS"

datatype bonus_card = BonusDisconnected | NotCapped int | Capped int int int

definition referralBonusCardState :: "string option \<Rightarrow> referrals_response option \<Rightarrow> bonus_card" where
  "referralBonusCardState owner data =
    (if owner = None \<or> owner = Some [] then BonusDisconnected
     else let (a, u) = (case data of Some d \<Rightarrow> rp_bonusToday d | None \<Rightarrow> (0, 0));
              amount = wholeTickets a; uncapped = wholeTickets u
          in if uncapped \<le> amount then NotCapped amount else Capped amount uncapped (uncapped - amount))"

definition teamStatusLabel :: "referral_item \<Rightarrow> string" where
  "teamStatusLabel item =
    (case it_status item of
       Qualified \<Rightarrow> ''Active''
     | Below \<Rightarrow> ''Under $50''
     | Holding \<Rightarrow> (let days = (case it_daysLeft item of Some d \<Rightarrow> d | None \<Rightarrow> 0)
                   in showInt days @ '' day'' @ (if days = 1 then [] else ''s'') @ '' left''))"

record team_row =
  tr_wallet :: string
  tr_status :: referral_status
  tr_statusLabel :: string
  tr_bonus :: int
  tr_joined :: string

definition teamRowView :: "(int \<Rightarrow> string) \<Rightarrow> referral_item \<Rightarrow> team_row" where
  "teamRowView dateName item =
    \<lparr>tr_wallet = it_wallet item, tr_status = it_status item, tr_statusLabel = teamStatusLabel item,
     tr_bonus = wholeTickets (it_bonusToday item), tr_joined = shortDate dateName (Some (it_joinedAt item))\<rparr>"

section \<open>The shared poll\<close>

text \<open>\<open>useApiPoll\<close>: a changed fetcher cancels what is in flight and keeps the data; \<open>'k\<close> names the fetcher, here
  by the wallet it asks about.\<close>

record ('k, 'a) api_poll =
  ap_load :: 'k
  ap_data :: "'a option"
  ap_error :: "string option"
  ap_flight :: nat
  ap_answered :: bool

definition pollMount :: "'k \<Rightarrow> ('k, 'a) api_poll" where
  "pollMount k = \<lparr>ap_load = k, ap_data = None, ap_error = None, ap_flight = 1, ap_answered = False\<rparr>"

definition pollReload :: "'k \<Rightarrow> ('k, 'a) api_poll \<Rightarrow> ('k, 'a) api_poll" where
  "pollReload k s = s\<lparr>ap_load := k, ap_flight := 1, ap_answered := False\<rparr>"

definition pollTick :: "bool \<Rightarrow> ('k, 'a) api_poll \<Rightarrow> ('k, 'a) api_poll" where
  "pollTick hidden s = (if hidden then s else s\<lparr>ap_flight := ap_flight s + 1\<rparr>)"

definition pollRefresh :: "('k, 'a) api_poll \<Rightarrow> ('k, 'a) api_poll" where
  "pollRefresh s = s\<lparr>ap_flight := ap_flight s + 1\<rparr>"

definition pollAnswer :: "'a res \<Rightarrow> ('k, 'a) api_poll \<Rightarrow> ('k, 'a) api_poll" where
  "pollAnswer answer s =
    (case answer of
       Inr d \<Rightarrow> s\<lparr>ap_flight := ap_flight s - 1, ap_data := Some d, ap_error := None, ap_answered := True\<rparr>
     | Inl reason \<Rightarrow> s\<lparr>ap_flight := ap_flight s - 1, ap_error := Some reason\<rparr>)"

text \<open>The server answers each call for the fetcher that made it.\<close>

inductive poll_step :: "('k \<Rightarrow> 'a \<Rightarrow> bool) \<Rightarrow> ('k, 'a) api_poll \<Rightarrow> ('k, 'a) api_poll \<Rightarrow> bool" for serves where
  reload: "poll_step serves s (pollReload k s)"
| tick: "poll_step serves s (pollTick hidden s)"
| refresh: "poll_step serves s (pollRefresh s)"
| fetched: "ap_flight s > 0 \<Longrightarrow> serves (ap_load s) d \<Longrightarrow> poll_step serves s (pollAnswer (Inr d) s)"
| failed: "ap_flight s > 0 \<Longrightarrow> poll_step serves s (pollAnswer (Inl reason) s)"

section \<open>What the App makes of an answer\<close>

text \<open>\<open>toFixed(3)\<close> of a number below \<open>10 ^ 21\<close>: the nearest thousandth, the larger of two.\<close>

definition toFixed3 :: "rat \<Rightarrow> string" where
  "toFixed3 x =
    (let n = \<lfloor>x * 1000 + 1 / 2\<rfloor> in showInt (n div 1000) @ ''.'' @ padStart 3 (showInt (n mod 1000)))"

definition solRentWarning :: "int option \<Rightarrow> bool \<Rightarrow> string option" where
  "solRentWarning lamports sponsored =
    (case lamports of
       None \<Rightarrow> None
     | Some l \<Rightarrow>
         if sponsored \<or> l \<ge> MIN_SOL_LAMPORTS then None
         else Some (''You need about '' @
           (case toDouble (of_int (MIN_SOL_LAMPORTS - l) / 1000000000) of Finite q \<Rightarrow> toFixed3 q | x \<Rightarrow> showNumber x) @
           '' more SOL in your wallet to cover network fees before this will go through.''))"

definition GENESIS_HASH :: "bool \<Rightarrow> string" where
  "GENESIS_HASH mainnet =
    (if mainnet then ''5eykt4UsFv8P8NJdTREpY1vzqKqZKvdpKuc147dw2N9d'' else ''EtWTRABZaYq6iMfeYKouRu166VU2xqa1wcaWoxPkrZBG'')"

definition genesisMatchesCluster :: "string \<Rightarrow> bool \<Rightarrow> bool" where
  "genesisMatchesCluster hash mainnet = (GENESIS_HASH mainnet = hash)"

definition genesisCheck :: "bool \<Rightarrow> string res \<Rightarrow> string option" where
  "genesisCheck mainnet answer =
    (case answer of
       Inl _ \<Rightarrow> None
     | Inr hash \<Rightarrow>
         if genesisMatchesCluster hash mainnet then None
         else Some (''RPC genesis hash does not match VITE_CLUSTER='' @ (if mainnet then ''mainnet-beta'' else ''devnet'') @
           ''; refusing to sign against the wrong network.''))"

text \<open>The Pool as the route serves it, amounts as text.\<close>

definition servedPool :: "pool_row \<Rightarrow> pool_dto" where
  "servedPool p =
    \<lparr>pd_address = pr_address p, pd_mint = pr_mint p, pd_closeBuffer = showInt (pr_closeBuffer p),
     pd_minDeposit = showInt (pr_minDeposit p), pd_houseCutBps = pr_houseCutBps p, pd_paused = pr_paused p,
     pd_epochSeconds = showInt (pr_epochSeconds p), pd_baseRateBps = pr_baseRateBps p, pd_ticketsPerUsdc = pr_ticketsPerUsdc p\<rparr>"

record app_env =
  ae_state :: "api_state option"
  ae_genesis :: "string option"
  ae_round :: "round_like option"
  ae_clock :: "int option"
  ae_position :: "position_like option"
  ae_phase :: phase
  ae_signer :: "pubkey option"
  ae_connected :: bool
  ae_sponsored :: bool
  ae_sol :: "int option"

text \<open>An unreadable key rejects the render.\<close>

definition playInputs :: "web_env \<Rightarrow> pubkey \<Rightarrow> app_env \<Rightarrow> play_inputs res" where
  "playInputs env expected a =
    rbind (case ae_state a of
             None \<Rightarrow> Inr None
           | Some st \<Rightarrow> rbind (poolFromDto env (servedPool (sa_pool st)) (toDouble (of_int (sa_priorityFee st))) expected) (\<lambda>r. Inr (Some r)))
      (\<lambda>pool. Inr
        \<lparr>pi_shutdown = (case ae_state a of Some st \<Rightarrow> st_shutdown (sa_status st) | None \<Rightarrow> False),
         pi_gamePaused = (case ae_state a of Some st \<Rightarrow> pr_gamePaused (sa_pool st) | None \<Rightarrow> False),
         pi_pool = (case pool of Some (Inr p) \<Rightarrow> if ae_genesis a = None then Some p else None | _ \<Rightarrow> None),
         pi_refusal = (case ae_genesis a of Some r \<Rightarrow> Some r | None \<Rightarrow> (case pool of Some (Inl reason) \<Rightarrow> Some reason | _ \<Rightarrow> None)),
         pi_round = ae_round a, pi_now = ae_clock a,
         pi_entries = (case ae_state a of Some st \<Rightarrow> (case sa_player st of Some p \<Rightarrow> py_entries p | None \<Rightarrow> 0) | None \<Rightarrow> 0),
         pi_position = ae_position a, pi_signer = ae_signer a, pi_connected = ae_connected a,
         pi_rentWarning = solRentWarning (ae_sol a) (ae_sponsored a), pi_phase = ae_phase a\<rparr>)"

end
