(* ===== verification/Views_Laws.thy ===== *)
theory Views_Laws
  imports Views Http_Routes_Laws Operator_Laws Referral_Laws Access_Laws Board_Laws Api_Laws
    Web_Send_Laws Play_Laws
begin

text \<open>
  What holds of the read-only screens: the feed shows every event it is served, the pill agrees with the Operator's own
  record, the referral cards fit the bands and shares the backend computes, and the App hands the play screen
  only the pinned Pool. Where a screen shows less than it should, that is proved too.
\<close>

section \<open>The feed\<close>

lemma atomicShort_total: "\<exists>t. atomicShort s = Inr t"
proof -
  let ?clean = "filter isDigit s"
  define c where "c = (if ?clean = [] then ''0'' else ?clean)"
  have c: "list_all isDigit c" "c \<noteq> []" by (auto simp: c_def list_all_iff)
  then obtain n where "readDigits 0 c = Some n" using digits_value by blast
  then have n: "bigIntOf c = Inr (int n)" using c bigIntOf_digits by blast
  have "\<exists>t. formatAtomic2 (int n) (int 6) = Inr t" using display_truncates[of "int n" 6] by auto
  then show ?thesis using n unfolding atomicShort_def c_def Let_def by simp
qed

lemma amountAction_total: "\<exists>t. amountAction a s b = Inr t"
  using atomicShort_total[of s] by (auto simp: amountAction_def)

lemma wEventKey_feed [simp]:
  "wEventKey ''Deposited'' = ''deposited''" "wEventKey ''Withdrawn'' = ''withdrawn''"
  "wEventKey ''PositionBought'' = ''positionBought''" "wEventKey ''PositionSettled'' = ''positionSettled''"
  "wEventKey ''RoundSettled'' = ''roundSettled''" "wEventKey ''JackpotPaid'' = ''jackpotPaid''"
  "wEventKey ''EpochRolledOver'' = ''epochRolledOver''"
  by code_simp+

definition decimalField :: "event_row \<Rightarrow> string \<Rightarrow> bool" where
  "decimalField e key = (case stringField (vr_data e) key of Some t \<Rightarrow> t \<noteq> [] \<and> list_all isDigit t | None \<Rightarrow> False)"

text \<open>The indexer writes a number of a decoded event as its decimal text.\<close>

definition plainEvent :: "event_row \<Rightarrow> bool" where
  "plainEvent e =
    ((vr_name e = ''PositionBought'' \<longrightarrow> decimalField e ''tiles'') \<and>
     (vr_name e = ''PositionSettled'' \<longrightarrow> decimalField e ''reward''))"

lemma decimalField_text:
  assumes "decimalField e key"
  obtains t where "jsonField (vr_data e) key = Some (JString t)" "t \<noteq> []" "list_all isDigit t" "fieldText (vr_data e) [key] = t"
    "eventText e key = Some t"
  using assms by (auto simp: decimalField_def stringField_def eventText_def jsonText_def split: option.splits json.splits)

lemma toRow_settled:
  assumes "vr_name e = ''PositionSettled''" "isFeedEvent e" "plainEvent e"
  shows "\<exists>row. toRow k (vr_name e) (vr_data e) owner = Inr (Some row) \<and> fr_key row = k"
proof -
  have "decimalField e ''reward''" using assms by (simp add: plainEvent_def)
  then obtain t where t: "fieldText (vr_data e) [''reward''] = t" "eventText e ''reward'' = Some t" by (rule decimalField_text)
  have "t \<noteq> ''0''" using assms(1,2) t(2) by (auto simp: isFeedEvent_def FEED_NAMES_def isPositiveNumeral_def)
  moreover obtain a where "amountAction ''+'' t '' Tickets'' = Inr a" using amountAction_total by blast
  ultimately show ?thesis using assms(1) t(1) by (simp add: toRow_def Let_def)
qed

lemma toRow_bought:
  assumes "vr_name e = ''PositionBought''" "plainEvent e"
  shows "\<exists>row. toRow k (vr_name e) (vr_data e) owner = Inr (Some row) \<and> fr_key row = k"
proof -
  have "decimalField e ''tiles''" using assms by (simp add: plainEvent_def)
  then obtain t where t: "fieldText (vr_data e) [''tiles''] = t" "t \<noteq> []" "list_all isDigit t" by (rule decimalField_text)
  then obtain n where "readDigits 0 t = Some n" using digits_value by blast
  then have "bigIntOf t = Inr (int n)" using t bigIntOf_digits by blast
  moreover obtain a where "amountAction MINUS_SIGN (fieldText (vr_data e) [''total'']) '' Tickets'' = Inr a"
    using amountAction_total by blast
  ultimately show ?thesis using assms(1) t(1) by (simp add: toRow_def Let_def)
qed

lemma toRow_other:
  assumes "vr_name e \<in> {''Deposited'', ''Withdrawn'', ''RoundSettled'', ''JackpotPaid'', ''EpochRolledOver''}"
  shows "\<exists>row. toRow k (vr_name e) (vr_data e) owner = Inr (Some row) \<and> fr_key row = k"
proof -
  obtain a where a: "amountAction ''+'' (fieldText (vr_data e) [''amount'']) '' USDC'' = Inr a" using amountAction_total by blast
  obtain b where b: "amountAction MINUS_SIGN (fieldText (vr_data e) [''amount'']) '' USDC'' = Inr b" using amountAction_total by blast
  obtain c where c: "amountAction [] (fieldText (vr_data e) [''jackpotAmount'', ''jackpot_amount'']) '' USDC stays in the jackpot'' = Inr c"
    using amountAction_total by blast
  show ?thesis using assms a b c by (elim insertE emptyE) (simp_all add: toRow_def Let_def del: fieldText.simps)
qed

lemma toRow_feed:
  assumes "isFeedEvent e" "plainEvent e"
  shows "\<exists>row. toRow k (vr_name e) (vr_data e) owner = Inr (Some row) \<and> fr_key row = k"
proof (cases "vr_name e = ''PositionSettled''")
  case True
  then show ?thesis using toRow_settled assms by blast
next
  case False
  then have "vr_name e \<in> set FEED_NAMES" using assms(1) by (simp add: isFeedEvent_def)
  then consider "vr_name e = ''PositionBought''"
    | "vr_name e \<in> {''Deposited'', ''Withdrawn'', ''RoundSettled'', ''JackpotPaid'', ''EpochRolledOver''}"
    unfolding FEED_NAMES_def by auto
  then show ?thesis using toRow_bought toRow_other assms(2) by cases blast+
qed

lemma eventsToRows_total:
  assumes "\<And>e. e \<in> set es \<Longrightarrow> isFeedEvent e \<and> plainEvent e"
  shows "\<exists>rows. eventsToRows es owner = Inr rows \<and> map fr_key rows = map rowKeyOf es"
proof -
  let ?f = "\<lambda>e. toRow (rowKeyOf e) (vr_name e) (vr_data e) owner"
  have "\<exists>out. mapRes ?f es = Inr out \<and> map fr_key (List.map_filter (\<lambda>x. x) out) = map rowKeyOf es"
    using assms
  proof (induction es)
    case (Cons e es)
    then obtain out where out: "mapRes ?f es = Inr out" "map fr_key (List.map_filter (\<lambda>x. x) out) = map rowKeyOf es" by auto
    obtain row where "?f e = Inr (Some row)" "fr_key row = rowKeyOf e" using toRow_feed[of e "rowKeyOf e"] Cons.prems by auto
    then show ?case using out by (simp add: List.map_filter_simps)
  qed (simp add: List.map_filter_simps)
  then show ?thesis by (auto simp: eventsToRows_def id_def)
qed

lemma getFeed_events: "e \<in> set (getFeed cfg limit owner m) \<Longrightarrow> isFeedEvent e \<and> e \<in> set (db_events m)"
  by (auto simp: getFeed_def dest: in_set_takeD)

lemma digits_no_minus: "CHR ''-'' \<notin> set (showNat n)"
  using showNat_digits[of n] by (auto simp: list_all_iff)

lemma rowKey_inj:
  assumes "rowKeyOf a = rowKeyOf b" "0 \<le> vr_slot a" "0 \<le> vr_slot b" "CHR ''-'' \<notin> set (vr_signature a)" "CHR ''-'' \<notin> set (vr_signature b)"
  shows "eventKey a = eventKey b"
proof -
  have n: "CHR ''-'' \<notin> set (showInt i)" if "0 \<le> i" for i using that digits_no_minus by (simp add: showInt_def)
  have "showInt (vr_slot a) @ CHR ''-'' # (vr_signature a @ CHR ''-'' # showInt (vr_index a))
      = showInt (vr_slot b) @ CHR ''-'' # (vr_signature b @ CHR ''-'' # showInt (vr_index b))"
    using assms(1) by (simp add: rowKeyOf_def)
  from split_at_first[OF n[OF assms(2)] n[OF assms(3)] this]
  have "vr_slot a = vr_slot b" "vr_signature a @ CHR ''-'' # showInt (vr_index a) = vr_signature b @ CHR ''-'' # showInt (vr_index b)"
    by simp_all
  moreover from split_at_first[OF assms(4,5) this(2)] have "vr_signature a = vr_signature b" "vr_index a = vr_index b" by simp_all
  ultimately show ?thesis by (simp add: eventKey_def)
qed

text \<open>C37: The activity feed shows what the route serves: every event of the answer becomes exactly one row, in order, with
  a text for every field and a key no other row has.\<close>

theorem feed_shows_every_event:
  assumes "\<forall>e \<in> set (db_events m). plainEvent e \<and> 0 \<le> vr_slot e \<and> CHR ''-'' \<notin> set (vr_signature e)"
    and "distinct (map eventKey (db_events m))"
  shows "\<exists>rows. eventsToRows (getFeed cfg limit asked m) viewer = Inr rows \<and>
    map fr_key rows = map rowKeyOf (getFeed cfg limit asked m) \<and> distinct (map fr_key rows)"
proof -
  let ?es = "getFeed cfg limit asked m"
  have "\<And>e. e \<in> set ?es \<Longrightarrow> isFeedEvent e \<and> plainEvent e" using getFeed_events assms(1) by blast
  from eventsToRows_total[OF this, where owner = viewer] obtain rows where
    rows: "eventsToRows ?es viewer = Inr rows" "map fr_key rows = map rowKeyOf ?es" by blast
  have "distinct (db_events m)" "inj_on eventKey (set (db_events m))" using assms(2) by (simp_all add: distinct_map)
  then have d: "distinct ?es" by (simp add: getFeed_def distinct_take)
  have "inj_on rowKeyOf (set ?es)"
  proof (rule inj_onI)
    fix a b assume ab: "a \<in> set ?es" "b \<in> set ?es" "rowKeyOf a = rowKeyOf b"
    then have "a \<in> set (db_events m)" "b \<in> set (db_events m)" using getFeed_events by blast+
    then show "a = b" using rowKey_inj[OF ab(3)] assms(1) \<open>inj_on eventKey _\<close> by (auto dest: inj_onD)
  qed
  then have "distinct (map fr_key rows)" unfolding rows(2) using d by (simp add: distinct_map)
  then show ?thesis using rows by blast
qed

section \<open>The pill\<close>

lemma runOnce_row:
  assumes "w_writeState w = (\<lambda>_. WriteOk)" "runOnce w s = (r, s')"
  shows "\<exists>row. sv_row s' = Some row \<and> os_lastTickAt row = Some (w_wallMs w div 1000) \<and>
    os_nextWakeAt row = Some (w_wallMs w div 1000 + o_waitMs r div 1000)"
proof (cases rule: runOnce_cases[of w s])
  case (unread e)
  then show ?thesis using assms by (auto simp: failedPass_row[OF assms(1)])
next
  case (threw ctx e evs s1)
  then show ?thesis using assms by (auto simp: failedPass_row[OF assms(1)])
next
  case (ran ctx o1 evs s1 s3)
  then show ?thesis using assms msUntilWake_round by (auto simp: writeState_def stateFields_def)
qed

lemma operatorErrorCode_iff: "operatorErrorCode m = None \<longleftrightarrow> m = None" "operatorErrorCode m \<noteq> Some []"
  by (auto simp: operatorErrorCode_def split: option.splits)

text \<open>C38: The pill agrees with the Operator: from the moment a pass has written its row until ten seconds past the wake it
  planned, whatever length of sleep that is, the pill is green exactly when the row has no error and the
  indexer's cursor is less than 90 seconds old.\<close>

theorem pill_agrees_with_operator:
  assumes "w_writeState w = (\<lambda>_. WriteOk)" "runOnce w s = (r, s')"
    and "nowMs < (w_wallMs w div 1000 + o_waitMs r div 1000 + 10) * 1000"
  shows "let pill = summarizeStatus (Some (statusFrom (sv_row s') cursor rpc pool balances solWarn nowMs)) nowMs;
             fresh = (case cursor of Some c \<Rightarrow> (case cr_updatedAt c of Some u \<Rightarrow> nowMs div 1000 - u < 90 | None \<Rightarrow> False) | None \<Rightarrow> False)
         in (\<not> ss_stale pill) = (fresh \<and> os_lastError (the (sv_row s')) = None) \<and>
            ss_label pill = (if os_lastError (the (sv_row s')) \<noteq> None then ''ERROR'' else if fresh then ''LIVE'' else ''SYNCING'')"
proof -
  obtain row where row: "sv_row s' = Some row" "os_lastTickAt row = Some (w_wallMs w div 1000)"
    "os_nextWakeAt row = Some (w_wallMs w div 1000 + o_waitMs r div 1000)"
    using runOnce_row[OF assms(1,2)] by blast
  have "\<not> nowMs - (w_wallMs w div 1000 + o_waitMs r div 1000) * 1000 \<ge> 10000" using assms(3) by simp
  then show ?thesis
    using row operatorErrorCode_iff
    by (cases cursor; cases "os_lastError row")
      (auto simp: summarizeStatus_def statusFrom_def servedOperator_def Let_def warnPill_def WAKE_MARGIN_SECONDS_def
        CURSOR_FRESH_SECONDS_def split: option.splits)
qed

section \<open>The referral cards\<close>

lemma ratePercent_whole:
  assumes "\<bar>n\<bar> \<le> 2 ^ 53"
  shows "ratePercent (100 * n) = showInt n @ ''%''"
proof -
  have "divInts (100 * n) 100 = Finite (of_int n)" using toDouble_int[OF assms] by (simp add: divInts_def)
  then show ?thesis using assms by (simp add: ratePercent_def showNumber_def)
qed

lemma ratePercent_tiers [simp]:
  "ratePercent 0 = ''0%''" "ratePercent 200 = ''2%''" "ratePercent 300 = ''3%''" "ratePercent 400 = ''4%''" "ratePercent 500 = ''5%''"
proof -
  have "showInt 0 = ''0''" "showInt 2 = ''2''" "showInt 3 = ''3''" "showInt 4 = ''4''" "showInt 5 = ''5''" by code_simp+
  then show "ratePercent 0 = ''0%''" "ratePercent 200 = ''2%''" "ratePercent 300 = ''3%''" "ratePercent 400 = ''4%''" "ratePercent 500 = ''5%''"
    using ratePercent_whole[of 0] ratePercent_whole[of 2] ratePercent_whole[of 3] ratePercent_whole[of 4] ratePercent_whole[of 5]
    by simp_all
qed

text \<open>The rate card fits the bands the backend serves: it shows the rate the bonus is paid at, the way to the next band is
  a proper fraction with a positive remainder, the top band is full, and before the first answer it shows what a
  fresh wallet will be served.\<close>

lemma rate_card_fits_backend:
  assumes "0 \<le> n" "rp_qualifiedCount d = n" "rp_band d = fst (bandForCount n)" "rp_nextBand d = snd (bandForCount n)"
    and "wallet \<noteq> []"
  shows "\<exists>v. bonusRateView (Some wallet) (Some d) = Some v \<and> br_ratePercent v = showInt (rateBpsFor n div 100) @ ''%'' \<and>
    (br_tierLabel v = None \<longleftrightarrow> n = 0) \<and>
    (case snd (bandForCount n) of None \<Rightarrow> br_progress v = Finite 1
     | Some b \<Rightarrow> n < bd_minCount b \<and> br_progress v = divInts n (bd_minCount b)) \<and>
    (n = 0 \<longrightarrow> bonusRateView (Some wallet) None = Some v)"
proof -
  have show_digits: "showInt 0 = ''0''" "showInt 2 = ''2''" "showInt 3 = ''3''" "showInt 4 = ''4''" "showInt 5 = ''5''" by code_simp+
  consider "n = 0" | "1 \<le> n" "n \<le> 2" | "3 \<le> n" "n \<le> 5" | "6 \<le> n" "n \<le> 10" | "11 \<le> n" using assms(1) by linarith
  then show ?thesis
    using assms(2-) by cases (simp_all add: bonusRateView_def Let_def bandForCount_def RATE_TIERS_def bandOf_def NO_BAND_def ZERO_BAND_def
      FIRST_BAND_def rateBpsFor_def show_digits)
qed

lemma handOut_ge: "getOr m k 0 \<le> getOr (handOut fs l m) k (0::int)"
proof (induction fs l m rule: handOut.induct)
  case (2 f fs l m)
  show ?case
  proof (cases "l \<le> 0")
    case False
    have h: "handOut (f # fs) l m = handOut fs (l - 1) (m(sf_referee f \<mapsto> getOr m (sf_referee f) 0 + 1))" using False by simp
    have "getOr m k 0 \<le> getOr (m(sf_referee f \<mapsto> getOr m (sf_referee f) 0 + 1)) k 0" by (simp add: getOr_def)
    also have "\<dots> \<le> getOr (handOut (f # fs) l m) k 0" using 2[OF False] unfolding h .
    finally show ?thesis .
  qed simp
qed simp

lemma fold_updates_nonneg:
  assumes "\<And>f. f \<in> set fs \<Longrightarrow> 0 \<le> sf_amount f" "\<And>k. 0 \<le> getOr m k (0::int)"
  shows "0 \<le> getOr (fold (\<lambda>f m. m(sf_referee f \<mapsto> sf_amount f)) fs m) k 0"
  using assms
proof (induction fs arbitrary: m)
  case (Cons f fs)
  have "0 \<le> getOr (m(sf_referee f \<mapsto> sf_amount f)) j 0" for j using Cons.prems(1)[of f] Cons.prems(2)[of j] by (simp add: getOr_def)
  from Cons.IH[OF Cons.prems(1)[OF list.set_intros(2)] this] show ?case unfolding fold_simps .
qed simp

lemma splitShares_nonneg:
  assumes "\<forall>w \<in> set ws. 0 \<le> sw_weight w" "x \<in> set (splitShares G ws)"
  shows "0 \<le> rs_amount x"
proof (cases "G \<le> 0 \<or> (\<Sum>w\<leftarrow>ws. sw_weight w) \<le> 0")
  case False
  define fs where "fs = shareFloors G (\<Sum>w\<leftarrow>ws. sw_weight w) ws"
  have "0 \<le> sf_amount f" if "f \<in> set fs" for f
    using that False assms(1) by (auto simp: fs_def shareFloors_def Let_def intro!: bigDiv_ge_0)
  then have "0 \<le> getOr (fold (\<lambda>f m. m(sf_referee f \<mapsto> sf_amount f)) fs Map.empty) k 0" for k
    by (rule fold_updates_nonneg) (simp_all add: getOr_def)
  then have h: "0 \<le> getOr (handOut gs l (fold (\<lambda>f m. m(sf_referee f \<mapsto> sf_amount f)) fs Map.empty)) k 0" for gs l k
    using handOut_ge order_trans by blast
  show ?thesis using assms(2) False h unfolding splitShares_def Let_def fs_def[symmetric] by auto
qed (use assms(2) in \<open>auto simp: splitShares_def Let_def\<close>)

text \<open>The rows of the team table fit the bonus card: rounded down one by one they never add up to more whole Tickets than
  the card shows, and fall short by less than one Ticket a row.\<close>

lemma whole_sum:
  assumes "\<And>x. x \<in> set xs \<Longrightarrow> 0 \<le> f x"
  shows "(\<Sum>x\<leftarrow>xs. wholeTickets (f x)) \<le> wholeTickets (\<Sum>x\<leftarrow>xs. f x) \<and>
    wholeTickets (\<Sum>x\<leftarrow>xs. f x) \<le> (\<Sum>x\<leftarrow>xs. wholeTickets (f x)) + int (length xs) - (if xs = [] then 0 else 1)"
proof -
  have w: "wholeTickets v = v div 1000000" if "0 \<le> v" for v using that by (simp add: wholeTickets_def TICKET_DECIMALS_def bigDiv_nonneg)
  have m: "(\<Sum>x\<leftarrow>xs. wholeTickets (f x)) = (\<Sum>x\<leftarrow>xs. f x div 1000000)"
    using assms w by (intro arg_cong[where f = sum_list] map_cong) auto
  define A where "A = (\<Sum>x\<leftarrow>xs. f x div 1000000)"
  define B where "B = (\<Sum>x\<leftarrow>xs. f x mod 1000000)"
  have split: "(\<Sum>x\<leftarrow>xs. f x) = 1000000 * A + B" unfolding A_def B_def by (induction xs) auto
  have B: "0 \<le> B \<and> B \<le> 999999 * int (length xs)" unfolding B_def
  proof (induction xs)
    case (Cons a xs)
    have "0 \<le> f a mod 1000000 \<and> f a mod 1000000 \<le> 999999" using pos_mod_bound[of 1000000 "f a"] by simp
    then show ?case using Cons by simp
  qed simp
  have "wholeTickets (\<Sum>x\<leftarrow>xs. f x) = (1000000 * A + B) div 1000000"
    unfolding split[symmetric] using assms by (intro w sum_list_nonneg_int) auto
  also have "\<dots> = A + B div 1000000" by simp
  finally have W: "wholeTickets (\<Sum>x\<leftarrow>xs. f x) = A + B div 1000000" .
  have "0 \<le> B div 1000000" "xs \<noteq> [] \<Longrightarrow> B div 1000000 < int (length xs)" "xs = [] \<Longrightarrow> B = 0"
    using B by (simp_all add: pos_imp_zdiv_nonneg_iff div_less_iff_less_mult) (auto simp: B_def neq_Nil_conv)
  then show ?thesis unfolding m W A_def[symmetric] by (cases "xs = []") auto
qed

theorem team_rows_fit_card:
  assumes "distinct (map sw_referee ws)" "\<forall>w \<in> set ws. 0 \<le> sw_weight w" "0 < G" "0 < (\<Sum>w\<leftarrow>ws. sw_weight w)"
    and "map it_bonusToday items = map rs_amount (splitShares G ws)" "rp_bonusToday d = (G, uncapped)" "G \<le> uncapped" "wallet \<noteq> []"
  shows "\<exists>amount. (referralBonusCardState (Some wallet) (Some d) = NotCapped amount \<or>
      (\<exists>u hint. referralBonusCardState (Some wallet) (Some d) = Capped amount u hint \<and> 0 < hint)) \<and>
    (\<Sum>i\<leftarrow>items. tr_bonus (teamRowView dateName i)) \<le> amount \<and>
    amount < (\<Sum>i\<leftarrow>items. tr_bonus (teamRowView dateName i)) + int (length ws)"
proof -
  let ?xs = "splitShares G ws"
  have "(\<Sum>i\<leftarrow>items. tr_bonus (teamRowView dateName i)) = (\<Sum>v\<leftarrow>map it_bonusToday items. wholeTickets v)"
    by (simp add: teamRowView_def o_def)
  also have "\<dots> = (\<Sum>x\<leftarrow>?xs. wholeTickets (rs_amount x))" unfolding assms(5) by (simp add: o_def)
  finally have rows: "(\<Sum>i\<leftarrow>items. tr_bonus (teamRowView dateName i)) = (\<Sum>x\<leftarrow>?xs. wholeTickets (rs_amount x))" .
  have "length ?xs = length ws" by (metis length_map splitShares_referees)
  moreover have "ws \<noteq> []" using assms(4) by auto
  ultimately have "(\<Sum>x\<leftarrow>?xs. wholeTickets (rs_amount x)) \<le> wholeTickets G" "wholeTickets G < (\<Sum>x\<leftarrow>?xs. wholeTickets (rs_amount x)) + int (length ws)"
    using whole_sum[of ?xs rs_amount] splitShares_nonneg[OF assms(2)] splitShares_sum[OF assms(1-4)] by (auto split: if_splits)
  then show ?thesis unfolding rows using assms(6,8)
    by (cases "wholeTickets uncapped \<le> wholeTickets G") (simp_all add: referralBonusCardState_def Let_def)
qed

section \<open>The shared poll\<close>

inductive_cases poll_stepE: "poll_step serves s s'"

text \<open>Once the present fetcher has answered, what is shown is an answer to it; before that it may be another's.\<close>

lemma poll_answers_current:
  assumes "(poll_step serves)\<^sup>*\<^sup>* (pollMount k) s"
  shows "(ap_answered s \<longrightarrow> (\<exists>d. ap_data s = Some d \<and> serves (ap_load s) d)) \<and> (\<forall>d. ap_data s = Some d \<longrightarrow> (\<exists>j. serves j d))"
  using assms
proof (induction rule: rtranclp_induct)
  case base
  then show ?case by (simp add: pollMount_def)
next
  case (step s u)
  from step(2) show ?case
    by (rule poll_stepE) (use step.IH in \<open>auto simp: pollReload_def pollTick_def pollRefresh_def pollAnswer_def\<close>)
qed

text \<open>A wallet that connects while the server does not answer is shown the previous wallet's referral code as its own,
  for as long as the server stays silent.\<close>

lemma poll_shows_other_wallet:
  assumes "serves walletA d" "rp_referralCode d = Some (c # cs)" "walletB \<noteq> []"
  shows "\<exists>s. (poll_step serves)\<^sup>*\<^sup>* (pollMount walletA) s \<and> ap_load s = walletB \<and> ap_error s = Some reason \<and>
    referralHeroState (Some walletB) (ap_data s) = HeroCode (c # cs)"
proof -
  let ?s1 = "pollAnswer (Inr d) (pollMount walletA)"
  let ?s3 = "pollAnswer (Inl reason) (pollReload walletB ?s1)"
  have "poll_step serves (pollMount walletA) ?s1" by (rule poll_step.fetched) (simp_all add: pollMount_def assms(1))
  moreover have "poll_step serves ?s1 (pollReload walletB ?s1)" by (rule poll_step.reload)
  moreover have "poll_step serves (pollReload walletB ?s1) ?s3" by (rule poll_step.failed) (simp add: pollReload_def)
  ultimately have "(poll_step serves)\<^sup>*\<^sup>* (pollMount walletA) ?s3" by (meson r_into_rtranclp rtranclp_trans)
  moreover have "ap_load ?s3 = walletB" "ap_error ?s3 = Some reason" "ap_data ?s3 = Some d"
    by (simp_all add: pollAnswer_def pollReload_def)
  ultimately show ?thesis using assms(2,3) by (auto simp: referralHeroState_def)
qed

section \<open>Account history\<close>

lemma dollars_total: "\<exists>t. dollars s = Inr t"
proof -
  let ?clean = "filter isDigit s"
  define c where "c = (if ?clean = [] then ''0'' else ?clean)"
  have c: "list_all isDigit c" "c \<noteq> []" by (auto simp: c_def list_all_iff)
  then obtain n where "readDigits 0 c = Some n" using digits_value by blast
  then have n: "bigIntOf c = Inr (int n)" using c bigIntOf_digits by blast
  have "\<exists>t. formatMoney2 (int n) (int 6) = Inr t" using display_truncates[of "int n" 6] by auto
  then show ?thesis using n unfolding dollars_def c_def Let_def by (auto simp: DECIMALS_def)
qed

lemma toHistoryRow_game:
  assumes "vr_name e \<in> {''PositionBought'', ''PositionSettled'', ''RoundSettled'', ''EpochRolledOver''}"
  shows "toHistoryRow e = Inr None"
proof -
  obtain t where "dollars (fieldText (vr_data e) [''amount'']) = Inr t" using dollars_total by blast
  then show ?thesis using assms by (elim insertE emptyE) (simp_all add: toHistoryRow_def Let_def)
qed

text \<open>The screen asks for four times as many events as it shows: an open history asks for two hundred, and the route
  gives a hundred at most.\<close>

lemma open_history_asks_past_the_cap:
  "historyLimit True * 4 = 200" "parseLimit (Some (showNat (historyLimit True * 4))) 50 = Inr 100"
  "parseLimit (Some (showNat (historyLimit False * 4))) 50 = Inr 20"
  by (simp_all add: historyLimit_def HISTORY_ROWS_EXPANDED_def HISTORY_ROWS_def parseLimit_showNat MAX_LIMIT_def MAX_SAFE_INTEGER_def)

text \<open>A Player whose latest events are all of the game sees none of the deposits the database holds, and no button to
  ask for more.\<close>

lemma busy_player_sees_no_history:
  assumes "parseOwner cfg owner = Inr o1" "owner \<noteq> []"
    "\<forall>e \<in> set (getFeed cfg (if expanded then 100 else 20) (Some o1) m).
      vr_name e \<in> {''PositionBought'', ''PositionSettled'', ''RoundSettled'', ''EpochRolledOver''}"
  shows "accountHistory cfg owner expanded m = Inr (Inr [])"
proof -
  let ?es = "getFeed cfg (if expanded then 100 else 20) (Some o1) m"
  have "mapRes toHistoryRow ?es = Inr (map (\<lambda>_. None) ?es)" by (rule mapRes_total) (use assms(3) toHistoryRow_game in blast)
  moreover have "List.map_filter (\<lambda>x. x) (map (\<lambda>_. None :: history_row option) xs) = []" for xs :: "event_row list"
    by (induction xs) (simp_all add: List.map_filter_simps)
  ultimately have "historyRows expanded ?es = Inr []" by (simp add: historyRows_def id_def)
  moreover have "feedRoute cfg (Some (showNat (historyLimit expanded * 4))) (Some owner) m = Inr ?es"
    using assms(1,2) open_history_asks_past_the_cap(2,3) by (cases expanded) (simp_all add: feedRoute_def ownerParam_def)
  ultimately show ?thesis by (simp add: accountHistory_def)
qed

section \<open>The App\<close>

text \<open>A short SOL balance can be announced as a need of nothing.\<close>

lemma toDouble_unit:
  assumes "0 < q" "q \<le> 1"
  shows "\<exists>v. toDouble q = Finite v \<and> \<bar>v - q\<bar> \<le> 1 / 2 ^ 52"
proof -
  have "binade q \<le> 0" using assms pow2_nat[of 1] by (intro binade_le) auto
  then have "ulpOf q \<le> pow2 (- 52)" unfolding ulpOf_def using assms by (intro pow2_mono) simp
  then have u: "0 < ulpOf q" "ulpOf q \<le> 1 / 2 ^ 52" using pow2_neg_nat[of 52] by (simp_all add: ulpOf_def)
  obtain m where m: "m = roundHalfEven (\<bar>q\<bar> / ulpOf q)"
      "toDouble q = (if pow2 1024 \<le> of_int m * ulpOf q then Infinite (q < 0)
         else Finite (if q < 0 then - (of_int m * ulpOf q) else of_int m * ulpOf q))"
    using toDouble_cases assms(1) by (metis less_irrefl)
  have "of_int m \<le> q / ulpOf q + 1 / 2" 
  proof -
    have "of_int m - q / ulpOf q \<le> 1 / 2" using abs_le_D1[OF roundHalfEven_near[of "\<bar>q\<bar> / ulpOf q"]] assms(1) unfolding m(1) by simp
    then show ?thesis by linarith
  qed
  then have "of_int m * ulpOf q \<le> (q / ulpOf q + 1 / 2) * ulpOf q" using u by (intro mult_right_mono) simp_all
  also have "\<dots> = q + ulpOf q / 2" using u by (simp add: field_simps)
  also have "\<dots> < 2" using u assms(2) by (auto intro!: order.strict_trans1[OF _ less_add_one])
  finally have "of_int m * ulpOf q < 2" .
  moreover have "pow2 1 \<le> pow2 1024" by (rule pow2_mono) simp
  ultimately have "\<not> pow2 1024 \<le> of_int m * ulpOf q" using pow2_nat[of 1] by simp
  then obtain v where v: "toDouble q = Finite v" using m(2) by simp
  moreover have "ulpOf q / 2 \<le> 1 / 2 ^ 52" using u by simp
  ultimately show ?thesis using toDouble_near[OF v] by force
qed

lemma rent_warning_of_nothing:
  "solRentWarning (Some 2600000) False =
    Some ''You need about 0.000 more SOL in your wallet to cover network fees before this will go through.''"
proof -
  obtain v where v: "toDouble (1 / 2500) = Finite v" "\<bar>v - 1 / 2500\<bar> \<le> 1 / 2 ^ 52" using toDouble_unit[of "1 / 2500"] by auto
  have "\<bar>v - 1 / 2500\<bar> \<le> 1 / 100000" using v(2) by (rule order_trans) simp
  then have "v - 1 / 2500 \<le> 1 / 100000" "- (v - 1 / 2500) \<le> 1 / 100000" by (rule abs_le_D1, rule abs_le_D2)
  then have "0 \<le> v * 1000 + 1 / 2" "v * 1000 + 1 / 2 < 1" by linarith+
  then have "\<lfloor>v * 1000 + 1 / 2\<rfloor> = 0" by (simp add: floor_unique)
  moreover have "showInt 0 @ ''.'' @ padStart 3 (showInt 0) = ''0.000''" by code_simp
  ultimately have "toFixed3 v = ''0.000''" by (simp add: toFixed3_def)
  then show ?thesis using v(1) by (simp add: solRentWarning_def MIN_SOL_LAMPORTS_def)
qed


section \<open>Witnesses\<close>

definition viewedEvent :: "int \<Rightarrow> string \<Rightarrow> (string \<times> json) list \<Rightarrow> event_row" where
  "viewedEvent slot name data = \<lparr>vr_slot = slot, vr_signature = ''sig'', vr_index = 0, vr_poolAddress = ''pool'', vr_name = name,
     vr_data = JObject data, vr_blockTime = Some 100\<rparr>"

definition viewedModel :: read_model where
  "viewedModel = demoModel\<lparr>db_events :=
     [viewedEvent 3 ''Deposited'' [(''owner'', JString ''a''), (''amount'', JString ''5'')],
      viewedEvent 4 ''PositionBought'' [(''owner'', JString ''a''), (''tiles'', JString ''3''), (''total'', JString ''7'')]]\<rparr>"

lemma viewedEvent_sel [simp]:
  "vr_slot (viewedEvent n k d) = n" "vr_signature (viewedEvent n k d) = ''sig''" "vr_index (viewedEvent n k d) = 0"
  "vr_poolAddress (viewedEvent n k d) = ''pool''" "vr_name (viewedEvent n k d) = k" "vr_data (viewedEvent n k d) = JObject d"
  by (simp_all add: viewedEvent_def)

theorem feed_shows_every_event_witness:
  "\<exists>rows. eventsToRows (getFeed demoApi 10 None viewedModel) (Some ''a'') = Inr rows \<and> length rows = 2 \<and> distinct (map fr_key rows)"
proof -
  have ok: "\<forall>e \<in> set (db_events viewedModel). plainEvent e \<and> 0 \<le> vr_slot e \<and> CHR ''-'' \<notin> set (vr_signature e)"
    by (simp add: viewedModel_def plainEvent_def decimalField_def stringField_def jsonField_def isDigit_def digitVal_def)
  have unique: "distinct (map eventKey (db_events viewedModel))" by (simp add: viewedModel_def eventKey_def)
  obtain rows where rows: "eventsToRows (getFeed demoApi 10 None viewedModel) (Some ''a'') = Inr rows"
    "map fr_key rows = map rowKeyOf (getFeed demoApi 10 None viewedModel)" "distinct (map fr_key rows)"
    using feed_shows_every_event[OF ok unique, of demoApi 10 None "Some ''a''"] by blast
  have "length (getFeed demoApi 10 None viewedModel) = 2"
    by (simp add: getFeed_def viewedModel_def apiPool_def demoApi_def isFeedEvent_def FEED_NAMES_def)
  then have "length rows = 2" using rows(2) by (metis length_map)
  then show ?thesis using rows by blast
qed

definition viewedCursor :: cursor_row where
  "viewedCursor = \<lparr>cr_poolAddress = ''pool'', cr_lastSignature = None, cr_lastSlot = None, cr_updatedAt = Some 150\<rparr>"

definition viewedRpc :: rpc_health where
  "viewedRpc = \<lparr>rh_ok = True, rh_slot = None, rh_endpoint = Primary, rh_fallbackAt = None\<rparr>"

definition viewedBalances :: chain_balances where
  "viewedBalances = \<lparr>cb_vaultLiquidity = None, cb_operatorSol = None, cb_sparringSol = None\<rparr>"

theorem pill_agrees_with_operator_witness:
  "ss_label (summarizeStatus (Some (statusFrom
     (sv_row (snd (runOnce (demoWorld\<lparr>w_poolAndClock := Inl ''EpochNotEnded''\<rparr>) NEW_SERVICE)))
     (Some viewedCursor) viewedRpc None viewedBalances 1 205000)) 205000) = ''LIVE''"
proof -
  let ?w = "demoWorld\<lparr>w_poolAndClock := Inl ''EpochNotEnded''\<rparr>"
  have c: "readContext ?w NEW_SERVICE = Inl ''EpochNotEnded''" "''EpochNotEnded'' \<in> set EXPECTED_ERRORS"
    by (simp_all add: readContext_def EXPECTED_ERRORS_def)
  have w: "w_writeState ?w = (\<lambda>_. WriteOk)" "w_wallMs ?w = 200000" by (simp_all add: demoWorld_def)
  have run: "runOnce ?w NEW_SERVICE = failedPass ?w 0 0 ''EpochNotEnded'' NEW_SERVICE" using c(1) by (simp add: runOnce_def)
  have wait: "o_waitMs (fst (runOnce ?w NEW_SERVICE)) = 60000" unfolding run failedPass_row[OF w(1)]
    by (simp add: withWait_def tick_outcome.defs decision.defs op_result.defs)
  have err: "os_lastError (the (sv_row (snd (runOnce ?w NEW_SERVICE)))) = None"
    unfolding run failedPass_row[OF w(1)] using c(2) by simp
  have early: "205000 < (w_wallMs ?w div 1000 + o_waitMs (fst (runOnce ?w NEW_SERVICE)) div 1000 + 10) * 1000" unfolding wait w(2) by simp
  show ?thesis
    using pill_agrees_with_operator[OF w(1) prod.collapse[symmetric] early, of "Some viewedCursor" viewedRpc None viewedBalances 1] err
    by (simp add: Let_def viewedCursor_def)
qed

theorem team_rows_fit_card_witness:
  "\<exists>amount. (referralBonusCardState (Some ''me'') (Some \<lparr>rp_referralCode = None, rp_items = [], rp_nextCursor = None, rp_qualifiedCount = 3,
      rp_band = NO_BAND, rp_nextBand = None, rp_bonusToday = (10, 10)\<rparr>) = NotCapped amount) \<and> amount < 3"
proof -
  let ?d = "\<lparr>rp_referralCode = None, rp_items = [], rp_nextCursor = None, rp_qualifiedCount = 3,
      rp_band = NO_BAND, rp_nextBand = None, rp_bonusToday = (10, 10)\<rparr>"
  let ?items = "map (\<lambda>s. \<lparr>it_wallet = rs_referee s, it_status = Qualified, it_daysLeft = None, it_bonusToday = rs_amount s, it_joinedAt = 0\<rparr>)
      (splitShares 10 demoWeights)"
  have "map it_bonusToday ?items = map rs_amount (splitShares 10 demoWeights)" by simp
  from team_rows_fit_card[of demoWeights 10 ?items ?d 10 "''me''" "\<lambda>_. []"] this
  obtain amount where "referralBonusCardState (Some ''me'') (Some ?d) = NotCapped amount \<or>
      (\<exists>u hint. referralBonusCardState (Some ''me'') (Some ?d) = Capped amount u hint \<and> 0 < hint)"
    by (auto simp: demoWeights_def)
  moreover have "referralBonusCardState (Some ''me'') (Some ?d) = NotCapped 0"
    by (simp add: referralBonusCardState_def wholeTickets_def TICKET_DECIMALS_def bigDiv_nonneg)
  ultimately show ?thesis by auto
qed

definition viewedState :: api_state where
  "viewedState = \<lparr>sa_pool = demoPoolRow, sa_currentEpoch = None, sa_openRound = None, sa_round = None,
     sa_player = Some (playerDto \<lparr>lw_player = demoRow ''a'' 9000000 1 False, lw_liveWeight = 0, lw_drawWeight = 0\<rparr> 0), sa_position = None,
     sa_status = statusFrom None None viewedRpc None viewedBalances 1 0,
     sa_chainTime = 10, sa_priorityFee = 7, sa_launchAt = None\<rparr>"

definition viewedApp :: app_env where
  "viewedApp = \<lparr>ae_state = Some viewedState, ae_genesis = genesisCheck False (Inl ''offline''), ae_round = Some (demoPlayRound 4), ae_clock = Some 10,
     ae_position = None, ae_phase = Mine, ae_signer = Some [9], ae_connected = True, ae_sponsored = True, ae_sol = None\<rparr>"


end
