(* ===== verification/Vault.thy ===== *)
theory Vault
  imports Play
begin

text \<open>
  The deposit and withdraw widget, \<open>web/src/screens/Vault.tsx\<close>: what its form allows, what each button asks the
  wallet for, and what it makes of the outcome.

  The props of a render are one record, the hooks of the component another. A money action is two steps, the
  click and its end, so that typing, tab changes and renders may fall in between; the outcome is the one
  \<open>awaitSendResult\<close> came back with. Analytics and the markup are left out.
\<close>

section \<open>Props and hooks\<close>

record vault_props =
  vp_program :: bool
  vp_owner :: "pubkey option"
  vp_pool :: "pool_like option"
  vp_principal :: int
  vp_entries :: int
  vp_walletBalance :: "int option"
  vp_sol :: "int option"
  vp_paused :: bool
  vp_shutdown :: bool
  vp_currentEpoch :: "int option"
  vp_pendingWithdraw :: int
  vp_pendingEpoch :: int

datatype vault_mode = ModeDeposit | ModeWithdraw

datatype vault_ask =
    AskDeposit pool_like pubkey int
  | AskWithdraw pool_like pubkey int
  | AskShutdownWithdraw pool_like pubkey int int
  | AskPayout pool_like pubkey

record vault =
  vt_mode :: vault_mode
  vt_amountText :: string
  vt_busy :: bool
  vt_note :: "(bool \<times> string) option"
  vt_confirmed :: "int option"
  vt_payoutSent :: "int option"
  vt_flight :: "vault_ask option"
  vt_asked :: "vault_ask list"
  vt_landed :: "vault_ask list"
  vt_kicks :: nat

definition VAULT_DECIMALS :: nat where "VAULT_DECIMALS = 6"
definition INPUT_DECIMALS :: nat where "INPUT_DECIMALS = 2"
definition VAULT_ONE :: int where "VAULT_ONE = 10 ^ VAULT_DECIMALS"
definition QUICK_ADDS :: "int list" where "QUICK_ADDS = [50, 100, 500]"

definition openVault :: "vault_mode option \<Rightarrow> vault" where
  "openVault initialMode = \<lparr>vt_mode = (case initialMode of Some m \<Rightarrow> m | None \<Rightarrow> ModeDeposit), vt_amountText = [], vt_busy = False,
     vt_note = None, vt_confirmed = None, vt_payoutSent = None, vt_flight = None, vt_asked = [], vt_landed = [], vt_kicks = 0\<rparr>"

section \<open>The form\<close>

definition vaultConnected :: "vault_props \<Rightarrow> bool" where
  "vaultConnected p = (vp_owner p \<noteq> None \<and> vp_program p \<and> vp_pool p \<noteq> None)"

definition vaultAmount :: "vault \<Rightarrow> int option" where
  "vaultAmount s = (case parseAtomic (vt_amountText s) (int VAULT_DECIMALS) of Inr (Some n) \<Rightarrow> Some n | _ \<Rightarrow> None)"

definition vaultCap :: "vault_props \<Rightarrow> vault \<Rightarrow> int option" where
  "vaultCap p s = (if vt_mode s = ModeDeposit then vp_walletBalance p else Some (vp_principal p))"

definition balanceUnavailable :: "vault_props \<Rightarrow> vault \<Rightarrow> bool" where
  "balanceUnavailable p s = (vt_mode s = ModeDeposit \<and> vp_walletBalance p = None)"

definition overCap :: "vault_props \<Rightarrow> vault \<Rightarrow> bool" where
  "overCap p s =
    (vaultConnected p \<and> (case (vaultAmount s, vaultCap p s) of (Some a, Some c) \<Rightarrow> a > c | _ \<Rightarrow> False))"

definition underMin :: "vault_props \<Rightarrow> vault \<Rightarrow> bool" where
  "underMin p s =
    (vt_mode s = ModeDeposit \<and> (case (vp_pool p, vaultAmount s) of (Some pool, Some a) \<Rightarrow> a < po_minDeposit pool | _ \<Rightarrow> False))"

definition canSubmit :: "vault_props \<Rightarrow> vault \<Rightarrow> bool" where
  "canSubmit p s =
    (vaultConnected p \<and> \<not> vt_busy s \<and> (case vaultAmount s of Some a \<Rightarrow> a > 0 | None \<Rightarrow> False) \<and>
     \<not> overCap p s \<and> \<not> underMin p s \<and> \<not> (vt_mode s = ModeDeposit \<and> vp_paused p))"

definition ctaText :: "vault_props \<Rightarrow> vault \<Rightarrow> string" where
  "ctaText p s =
    (if \<not> vaultConnected p then ''CONNECT WALLET''
     else if vt_busy s then ''SIGNING'' @ ELLIPSIS
     else if vt_mode s = ModeDeposit \<and> vp_shutdown p then ''POOL CLOSED''
     else if vt_mode s = ModeDeposit \<and> vp_paused p then ''POOL PAUSED''
     else (case vt_mode s of ModeDeposit \<Rightarrow> ''DEPOSIT'' | ModeWithdraw \<Rightarrow> ''WITHDRAW''))"

definition withdrawPreview :: "vault_props \<Rightarrow> vault \<Rightarrow> int option" where
  "withdrawPreview p s = (if vt_mode s = ModeWithdraw then map_option (previewWithdraw (vp_entries p)) (vaultAmount s) else None)"

definition vaultPending :: "vault_props \<Rightarrow> vault \<Rightarrow> pending_withdrawal" where
  "vaultPending p s =
    pendingWithdrawal (vp_pendingWithdraw p) (vp_pendingEpoch p) (vp_currentEpoch p)
      (vt_payoutSent s \<noteq> None \<and> vt_payoutSent s = Some (vp_pendingWithdraw p)) (vp_shutdown p)"

definition availableText :: "vault_props \<Rightarrow> vault \<Rightarrow> string res" where
  "availableText p s =
    (case vt_mode s of
       ModeDeposit \<Rightarrow> (case vp_walletBalance p of
           None \<Rightarrow> Inr ''Balance unavailable''
         | Some b \<Rightarrow> rbind (formatAtomic2 b (int VAULT_DECIMALS)) (\<lambda>t. Inr (''Available '' @ t @ '' USDC'')))
     | ModeWithdraw \<Rightarrow> rbind (formatAtomic2 (vp_principal p) (int VAULT_DECIMALS)) (\<lambda>t.
         Inr (''Withdrawable at day end '' @ t @ '' USDC'')))"

definition vaultWarnings :: "vault_props \<Rightarrow> vault \<Rightarrow> string list" where
  "vaultWarnings p s =
    (if vt_mode s = ModeDeposit \<and> \<not> vp_shutdown p \<and> vp_paused p
       then [''Pool is paused: deposits are blocked; withdrawals stay live.''] else []) @
    (if vt_mode s = ModeWithdraw
       then [if vp_shutdown p
             then ''Principal and Tickets leave your account now. The pool is closed, so the payout lands in this same transaction.''
             else ''Principal and Tickets leave your account now. The USDC pays out once today's draw is over.''] else []) @
    (if overCap p s
       then [if vt_mode s = ModeDeposit then ''Amount is more than your wallet balance.'' else ''Amount is more than your Principal.''] else []) @
    (if balanceUnavailable p s then [''Balance unavailable right now. Try again in a moment.''] else [])"

section \<open>Typing\<close>

definition typeAmount :: "string \<Rightarrow> vault \<Rightarrow> vault" where
  "typeAmount t s = s\<lparr>vt_amountText := clampDecimals t INPUT_DECIMALS\<rparr>"

definition switchMode :: "vault_mode \<Rightarrow> vault \<Rightarrow> vault" where
  "switchMode m s = (if m = vt_mode s then s else s\<lparr>vt_mode := m, vt_amountText := [], vt_note := None\<rparr>)"

text \<open>A printer that throws leaves the text as it is.\<close>

definition setAmount :: "int \<Rightarrow> vault \<Rightarrow> vault" where
  "setAmount v s = (case formatAtomic2 v (int VAULT_DECIMALS) of Inr t \<Rightarrow> s\<lparr>vt_amountText := t\<rparr> | Inl _ \<Rightarrow> s)"

definition addQuick :: "vault_props \<Rightarrow> int \<Rightarrow> vault \<Rightarrow> vault" where
  "addQuick p units s =
    setAmount (addCapped (case vaultAmount s of Some a \<Rightarrow> a | None \<Rightarrow> 0) (units * VAULT_ONE)
      (if vaultConnected p then vaultCap p s else None)) s"

definition clickMax :: "vault_props \<Rightarrow> vault \<Rightarrow> vault" where
  "clickMax p s = (case vaultCap p s of Some c \<Rightarrow> setAmount c s | None \<Rightarrow> s)"

section \<open>Money actions\<close>

definition startAsk :: "vault_ask \<Rightarrow> vault \<Rightarrow> vault" where
  "startAsk a s = s\<lparr>vt_busy := True, vt_note := None, vt_flight := Some a, vt_asked := vt_asked s @ [a]\<rparr>"

text \<open>\<open>submit\<close>; the button is disabled while connected and not submittable.\<close>

definition clickSubmit :: "vault_props \<Rightarrow> vault \<Rightarrow> vault" where
  "clickSubmit p s =
    (case (vp_owner p, vp_pool p, vaultAmount s) of
       (Some own, Some pool, Some amount) \<Rightarrow>
         if \<not> canSubmit p s \<or> amount = 0 then s
         else startAsk (case vt_mode s of
             ModeDeposit \<Rightarrow> AskDeposit pool own amount
           | ModeWithdraw \<Rightarrow>
               if vp_shutdown p then AskShutdownWithdraw pool own amount (vp_pendingWithdraw p) else AskWithdraw pool own amount) s
     | _ \<Rightarrow> s)"

text \<open>The button is there while a payout is due, disabled while busy.\<close>

definition clickPayOut :: "vault_props \<Rightarrow> vault \<Rightarrow> vault" where
  "clickPayOut p s =
    (case (vp_owner p, vp_pool p, vaultPending p s) of
       (Some own, Some pool, Withdrawal PkDue amount epoch) \<Rightarrow>
         if \<not> vp_program p \<or> vt_busy s then s else (startAsk (AskPayout pool own) s)\<lparr>vt_payoutSent := Some (vp_pendingWithdraw p)\<rparr>
     | _ \<Rightarrow> s)"

definition askIxs :: "web_env \<Rightarrow> vault_ask \<Rightarrow> instruction list res" where
  "askIxs env a =
    (case a of
       AskDeposit pool own amount \<Rightarrow> depositIxs env pool own amount
     | AskWithdraw pool own amount \<Rightarrow> requestWithdrawIxs env pool own amount
     | AskShutdownWithdraw pool own amount pending \<Rightarrow> shutdownWithdrawIxs env pool own amount pending
     | AskPayout pool own \<Rightarrow> processWithdrawIxs env pool own)"

definition askLabel :: "vault_ask \<Rightarrow> string" where
  "askLabel a =
    (case a of AskDeposit _ _ _ \<Rightarrow> ''Deposit'' | AskShutdownWithdraw _ _ _ _ \<Rightarrow> ''Withdraw'' | _ \<Rightarrow> ''Withdraw requested'')"

definition checkingNote :: "vault \<Rightarrow> vault" where
  "checkingNote s = (if vt_flight s = None then s else s\<lparr>vt_note := Some (True, ''Checking your transaction'' @ ELLIPSIS)\<rparr>)"

definition failAsk :: "string \<Rightarrow> vault \<Rightarrow> vault" where
  "failAsk t s = s\<lparr>vt_busy := False, vt_flight := None, vt_note := Some (False, t)\<rparr>"

definition landAsk :: "vault_ask \<Rightarrow> vault \<Rightarrow> vault" where
  "landAsk a s = s\<lparr>vt_busy := False, vt_flight := None, vt_kicks := vt_kicks s + 1, vt_landed := vt_landed s @ [a]\<rparr>"

text \<open>The end of \<open>run\<close>.\<close>

definition endRun :: "web_env \<Rightarrow> vault_ask \<Rightarrow> send_result res \<Rightarrow> vault \<Rightarrow> vault" where
  "endRun env a outcome s =
    (case outcome of
       Inl e \<Rightarrow> failAsk (decodePlayerError env e) s
     | Inr (Landed signature) \<Rightarrow>
         (case a of
            AskDeposit _ _ amount \<Rightarrow> (landAsk a s)\<lparr>vt_confirmed := Some amount, vt_amountText := []\<rparr>
          | _ \<Rightarrow> (landAsk a s)\<lparr>vt_note := Some (True, askLabel a @ '': '' @ take 16 signature @ ELLIPSIS), vt_amountText := []\<rparr>)
     | Inr r \<Rightarrow> failAsk (fst (decodeSendFailure env r)) s)"

text \<open>The end of \<open>payOutNow\<close>: a payout somebody else has made counts as landed.\<close>

definition endPayOut :: "web_env \<Rightarrow> vault_ask \<Rightarrow> send_result res \<Rightarrow> vault \<Rightarrow> vault" where
  "endPayOut env a outcome s =
    (case outcome of
       Inl e \<Rightarrow> (failAsk (decodePlayerError env e) s)\<lparr>vt_payoutSent := None\<rparr>
     | Inr (Landed signature) \<Rightarrow> (landAsk a s)\<lparr>vt_note := Some (True, ''Payout sent.'')\<rparr>
     | Inr (SendFailed code message) \<Rightarrow>
         if code = Some NOTHING_PENDING_CODE then (landAsk a s)\<lparr>vt_note := Some (True, NOTHING_PENDING_NOTE)\<rparr>
         else (failAsk (fst (decodeSendFailure env (SendFailed code message))) s)\<lparr>vt_payoutSent := None\<rparr>
     | Inr r \<Rightarrow> (failAsk (fst (decodeSendFailure env r)) s)\<lparr>vt_payoutSent := None\<rparr>)"

definition endAsk :: "web_env \<Rightarrow> send_result res \<Rightarrow> vault \<Rightarrow> vault" where
  "endAsk env outcome s =
    (case vt_flight s of
       None \<Rightarrow> s
     | Some a \<Rightarrow> (case a of AskPayout _ _ \<Rightarrow> endPayOut env a outcome s | _ \<Rightarrow> endRun env a outcome s))"

text \<open>The effect that follows the pending amount.\<close>

definition pendingEffect :: "vault_props \<Rightarrow> vault \<Rightarrow> vault" where
  "pendingEffect p s = (if vp_pendingWithdraw p = 0 then s\<lparr>vt_payoutSent := None\<rparr> else s)"

definition closeModal :: "vault \<Rightarrow> vault" where "closeModal s = s\<lparr>vt_confirmed := None\<rparr>"

text \<open>Each step happens under the props of the last render.\<close>

inductive vault_step :: "web_env \<Rightarrow> vault_props \<Rightarrow> vault \<Rightarrow> vault \<Rightarrow> bool" for env p where
  typed: "vault_step env p s (typeAmount t s)"
| quick: "units \<in> set QUICK_ADDS \<Longrightarrow> vault_step env p s (addQuick p units s)"
| maxed: "vault_step env p s (clickMax p s)"
| tabbed: "vault_step env p s (switchMode m s)"
| submitted: "vault_step env p s (clickSubmit p s)"
| paid: "vault_step env p s (clickPayOut p s)"
| waiting: "vault_step env p s (checkingNote s)"
| ended: "vault_step env p s (endAsk env outcome s)"
| followed: "vault_step env p s (pendingEffect p s)"
| closed: "vault_step env p s (closeModal s)"

inductive vault_reach :: "web_env \<Rightarrow> vault \<Rightarrow> bool" for env where
  mounted: "vault_reach env (openVault m)"
| step: "vault_reach env s \<Longrightarrow> vault_step env p s s' \<Longrightarrow> vault_reach env s'"

end
