(* ===== verification/Vault_Laws.thy ===== *)
theory Vault_Laws
  imports Vault Play_Laws Web_Send_Laws
begin

text \<open>
  What holds of the widget: it asks the wallet for one thing at a time and only for what its form shows and the limits
  allow, its pills stay within the balance, a payout is not asked for twice, and the modal confirms a deposit that landed.
\<close>

section \<open>One action at a time\<close>

inductive_cases vault_stepE: "vault_step env p s s'"

lemmas vault_ops = typeAmount_def addQuick_def clickMax_def setAmount_def switchMode_def checkingNote_def pendingEffect_def closeModal_def

lemma startAsk_sel [simp]:
  "vt_flight (startAsk a s) = Some a" "vt_busy (startAsk a s)" "vt_asked (startAsk a s) = vt_asked s @ [a]"
  "vt_landed (startAsk a s) = vt_landed s" "vt_confirmed (startAsk a s) = vt_confirmed s" "vt_payoutSent (startAsk a s) = vt_payoutSent s"
  by (simp_all add: startAsk_def)

lemma endRun_sel [simp]:
  "vt_flight (endRun env a r s) = None" "\<not> vt_busy (endRun env a r s)" "vt_asked (endRun env a r s) = vt_asked s"
  "vt_payoutSent (endRun env a r s) = vt_payoutSent s"
  by (simp_all add: endRun_def failAsk_def landAsk_def split: sum.splits send_result.splits vault_ask.splits)

lemma endPayOut_sel [simp]:
  "vt_flight (endPayOut env a r s) = None" "\<not> vt_busy (endPayOut env a r s)" "vt_asked (endPayOut env a r s) = vt_asked s"
  "vt_confirmed (endPayOut env a r s) = vt_confirmed s"
  by (simp_all add: endPayOut_def failAsk_def landAsk_def split: sum.splits send_result.splits)

lemma endAsk_sel [simp]:
  "vt_flight (endAsk env r s) = None" "vt_asked (endAsk env r s) = vt_asked s"
  "vt_busy (endAsk env r s) = (vt_flight s = None \<and> vt_busy s)"
  by (cases "vt_flight s"; simp add: endAsk_def split: vault_ask.splits)+

lemma typing_sel [simp]:
  "vt_flight (typeAmount t s) = vt_flight s" "vt_flight (addQuick p u s) = vt_flight s" "vt_flight (clickMax p s) = vt_flight s"
  "vt_flight (switchMode m s) = vt_flight s" "vt_flight (checkingNote s) = vt_flight s" "vt_flight (pendingEffect p s) = vt_flight s"
  "vt_flight (closeModal s) = vt_flight s"
  "vt_busy (typeAmount t s) = vt_busy s" "vt_busy (addQuick p u s) = vt_busy s" "vt_busy (clickMax p s) = vt_busy s"
  "vt_busy (switchMode m s) = vt_busy s" "vt_busy (checkingNote s) = vt_busy s" "vt_busy (pendingEffect p s) = vt_busy s"
  "vt_busy (closeModal s) = vt_busy s"
  "vt_asked (typeAmount t s) = vt_asked s" "vt_asked (addQuick p u s) = vt_asked s" "vt_asked (clickMax p s) = vt_asked s"
  "vt_asked (switchMode m s) = vt_asked s" "vt_asked (checkingNote s) = vt_asked s" "vt_asked (pendingEffect p s) = vt_asked s"
  "vt_asked (closeModal s) = vt_asked s"
  by (simp_all add: vault_ops split: option.splits sum.splits)

lemma typing_keeps [simp]:
  "vt_payoutSent (typeAmount t s) = vt_payoutSent s" "vt_payoutSent (addQuick p u s) = vt_payoutSent s"
  "vt_payoutSent (clickMax p s) = vt_payoutSent s" "vt_payoutSent (switchMode m s) = vt_payoutSent s"
  "vt_payoutSent (checkingNote s) = vt_payoutSent s" "vt_payoutSent (closeModal s) = vt_payoutSent s"
  "vt_payoutSent (pendingEffect p s) = (if vp_pendingWithdraw p = 0 then None else vt_payoutSent s)"
  "vt_confirmed (typeAmount t s) = vt_confirmed s" "vt_confirmed (addQuick p u s) = vt_confirmed s"
  "vt_confirmed (clickMax p s) = vt_confirmed s" "vt_confirmed (switchMode m s) = vt_confirmed s"
  "vt_confirmed (checkingNote s) = vt_confirmed s" "vt_confirmed (pendingEffect p s) = vt_confirmed s"
  "vt_confirmed (closeModal s) = None"
  "vt_landed (typeAmount t s) = vt_landed s" "vt_landed (addQuick p u s) = vt_landed s" "vt_landed (clickMax p s) = vt_landed s"
  "vt_landed (switchMode m s) = vt_landed s" "vt_landed (checkingNote s) = vt_landed s" "vt_landed (pendingEffect p s) = vt_landed s"
  "vt_landed (closeModal s) = vt_landed s"
  by (simp_all add: vault_ops split: option.splits sum.splits)

lemma clickSubmit_cases:
  obtains (idle) "clickSubmit p s = s"
  | (ask) own pool amount a where "clickSubmit p s = startAsk a s" "vp_owner p = Some own" "vp_pool p = Some pool"
      "vaultAmount s = Some amount" "canSubmit p s"
      "a = (case vt_mode s of ModeDeposit \<Rightarrow> AskDeposit pool own amount
         | ModeWithdraw \<Rightarrow> if vp_shutdown p then AskShutdownWithdraw pool own amount (vp_pendingWithdraw p) else AskWithdraw pool own amount)"
proof (cases "vp_owner p"; cases "vp_pool p"; cases "vaultAmount s")
  fix own pool amount
  assume "vp_owner p = Some own" "vp_pool p = Some pool" "vaultAmount s = Some amount"
  then show thesis using idle ask[OF _ _ _ _ _ refl] by (cases "canSubmit p s \<and> amount \<noteq> 0") (simp_all add: clickSubmit_def)
qed (use idle in \<open>simp_all add: clickSubmit_def\<close>)

lemma clickPayOut_cases:
  obtains (idle) "clickPayOut p s = s"
  | (ask) own pool epoch amount where "clickPayOut p s = (startAsk (AskPayout pool own) s)\<lparr>vt_payoutSent := Some (vp_pendingWithdraw p)\<rparr>"
      "vp_owner p = Some own" "vp_pool p = Some pool" "vaultPending p s = Withdrawal PkDue amount epoch" "\<not> vt_busy s"
proof -
  have "clickPayOut p s = s" if "\<nexists>own pool amount epoch. vp_owner p = Some own \<and> vp_pool p = Some pool \<and>
      vaultPending p s = Withdrawal PkDue amount epoch \<and> \<not> vt_busy s \<and> vp_program p"
    using that by (auto simp: clickPayOut_def split: option.split pending_withdrawal.split pending_kind.split)
  moreover have "clickPayOut p s = (startAsk (AskPayout pool own) s)\<lparr>vt_payoutSent := Some (vp_pendingWithdraw p)\<rparr>"
    if "vp_owner p = Some own" "vp_pool p = Some pool" "vaultPending p s = Withdrawal PkDue amount epoch" "\<not> vt_busy s" "vp_program p"
    for own pool amount epoch using that by (simp add: clickPayOut_def)
  ultimately show thesis using idle ask by blast
qed

definition busyFlight :: "vault \<Rightarrow> bool" where "busyFlight s = (vt_busy s = (vt_flight s \<noteq> None))"

lemma step_busyFlight:
  assumes "busyFlight s" "vault_step env p s s'"
  shows "busyFlight s'"
  using assms(2)
proof (rule vault_stepE)
  assume "s' = clickSubmit p s"
  then show ?thesis using assms(1) by (cases rule: clickSubmit_cases[of p s]) (simp_all add: busyFlight_def)
next
  assume "s' = clickPayOut p s"
  then show ?thesis using assms(1) by (cases rule: clickPayOut_cases[of p s]) (simp_all add: busyFlight_def)
next
  fix outcome assume "s' = endAsk env outcome s"
  then show ?thesis using assms(1) by (auto simp: busyFlight_def)
qed (use assms(1) in \<open>simp_all add: busyFlight_def\<close>)

lemma openVault_busyFlight: "busyFlight (openVault m)"
  by (simp add: busyFlight_def openVault_def)

lemma reach_busyFlight: "vault_reach env s \<Longrightarrow> busyFlight s"
  by (induction rule: vault_reach.induct) (blast intro: openVault_busyFlight step_busyFlight)+

lemma pending_due:
  assumes "vaultPending p s = Withdrawal PkDue amount epoch"
  shows "0 < vp_pendingWithdraw p" "vt_payoutSent s \<noteq> Some (vp_pendingWithdraw p)"
    "vp_shutdown p \<or> (\<exists>e. vp_currentEpoch p = Some e \<and> vp_pendingEpoch p < e)"
  using assms by (auto simp: vaultPending_def pendingWithdrawal_def Let_def split: if_splits option.splits)


section \<open>Payouts\<close>

definition isPayout :: "vault_ask \<Rightarrow> bool" where "isPayout a = (case a of AskPayout _ _ \<Rightarrow> True | _ \<Rightarrow> False)"

definition payoutsAsked :: "vault \<Rightarrow> vault_ask list" where "payoutsAsked s = filter isPayout (vt_asked s)"

definition payoutOut :: "int \<Rightarrow> vault \<Rightarrow> bool" where
  "payoutOut v s = (vt_payoutSent s = Some v \<and> (\<forall>a. vt_flight s = Some a \<longrightarrow> \<not> isPayout a))"

lemma step_payoutOut:
  assumes "payoutOut v s" "vault_step env p s s'" "vp_pendingWithdraw p = v" "v \<noteq> 0"
  shows "payoutOut v s' \<and> payoutsAsked s' = payoutsAsked s"
  using assms(2)
proof (rule vault_stepE)
  assume "s' = clickSubmit p s"
  then show ?thesis using assms(1)
    by (cases rule: clickSubmit_cases[of p s]; cases "vt_mode s") (auto simp: payoutOut_def payoutsAsked_def isPayout_def)
next
  assume "s' = clickPayOut p s"
  then show ?thesis using assms(1,3)
    by (cases rule: clickPayOut_cases[of p s]) (auto simp: payoutOut_def dest: pending_due)
next
  fix outcome assume "s' = endAsk env outcome s"
  then show ?thesis using assms(1)
    by (cases "vt_flight s") (auto simp: payoutOut_def payoutsAsked_def isPayout_def endAsk_def split: vault_ask.splits)
qed (use assms(1,3,4) in \<open>simp_all add: payoutOut_def payoutsAsked_def\<close>)

text \<open>A payout that was sent is not asked for again while the read model still shows the amount it pays: whatever the
  Player clicks, until the pending amount changes.\<close>

theorem payout_asked_once:
  assumes "vt_payoutSent s = Some v" "vt_flight s = None" "v \<noteq> 0"
    and "(\<lambda>s s'. \<exists>p. vp_pendingWithdraw p = v \<and> vault_step env p s s')\<^sup>*\<^sup>* s s'"
  shows "payoutsAsked s' = payoutsAsked s \<and> vt_payoutSent s' = Some v"
proof -
  have "payoutOut v s' \<and> payoutsAsked s' = payoutsAsked s"
    using assms(4)
  proof (induction rule: rtranclp_induct)
    case base
    then show ?case using assms(1,2) by (simp add: payoutOut_def)
  next
    case (step u w)
    then obtain p where "vp_pendingWithdraw p = v" "vault_step env p u w" by blast
    from step_payoutOut[OF conjunct1[OF step.IH] this(2,1) assms(3)] step.IH show ?case by simp
  qed
  then show ?thesis by (simp add: payoutOut_def)
qed

section \<open>The confirmed deposit\<close>

definition confirmedLanded :: "vault \<Rightarrow> bool" where
  "confirmedLanded s = (\<forall>amount. vt_confirmed s = Some amount \<longrightarrow> (\<exists>pool own. AskDeposit pool own amount \<in> set (vt_landed s)))"

lemma confirmedLanded_grows:
  "confirmedLanded s \<Longrightarrow> vt_confirmed u = vt_confirmed s \<Longrightarrow> set (vt_landed s) \<subseteq> set (vt_landed u) \<Longrightarrow> confirmedLanded u"
  unfolding confirmedLanded_def by (metis subsetD)

lemma confirmedLanded_fresh:
  "vt_confirmed u = Some amount \<Longrightarrow> AskDeposit pool own amount \<in> set (vt_landed u) \<Longrightarrow> confirmedLanded u"
  unfolding confirmedLanded_def by auto

lemma endRun_confirmed:
  "vt_confirmed (endRun env a r s) = vt_confirmed s \<and> set (vt_landed s) \<subseteq> set (vt_landed (endRun env a r s)) \<or>
   (\<exists>pool own amount. vt_confirmed (endRun env a r s) = Some amount \<and> AskDeposit pool own amount \<in> set (vt_landed (endRun env a r s)))"
proof (cases "\<exists>signature. r = Inr (Landed signature)")
  case True
  then show ?thesis
  proof (cases a)
    case (AskDeposit pool own amount)
    with True have "vt_confirmed (endRun env a r s) = Some amount \<and> AskDeposit pool own amount \<in> set (vt_landed (endRun env a r s))"
      by (auto simp: endRun_def landAsk_def)
    then show ?thesis by blast
  qed (auto simp: endRun_def landAsk_def)
next
  case False
  then show ?thesis by (auto simp: endRun_def failAsk_def split: sum.split send_result.split)
qed

lemma endPayOut_landed: "set (vt_landed s) \<subseteq> set (vt_landed (endPayOut env a r s))"
  by (auto simp: endPayOut_def failAsk_def landAsk_def split: sum.split send_result.split)

lemma endAsk_confirmed:
  assumes "confirmedLanded s"
  shows "confirmedLanded (endAsk env r s)"
proof (cases "vt_flight s")
  case (Some a)
  then have "endAsk env r s = (if isPayout a then endPayOut env a r s else endRun env a r s)"
    by (cases a) (simp_all add: endAsk_def isPayout_def)
  moreover have "confirmedLanded (endPayOut env a r s)" by (rule confirmedLanded_grows[OF assms]) (simp_all add: endPayOut_landed)
  moreover have "confirmedLanded (endRun env a r s)"
    using endRun_confirmed[of env a r s] confirmedLanded_grows[OF assms] confirmedLanded_fresh by blast
  ultimately show ?thesis by simp
qed (use assms in \<open>simp add: endAsk_def\<close>)

lemma step_confirmed:
  assumes "confirmedLanded s" "vault_step env p s s'"
  shows "confirmedLanded s'"
  using assms(2)
proof (rule vault_stepE)
  assume "s' = clickSubmit p s"
  then show ?thesis using assms(1) by (cases rule: clickSubmit_cases[of p s]) (simp_all add: confirmedLanded_def)
next
  assume "s' = clickPayOut p s"
  then show ?thesis using assms(1) by (cases rule: clickPayOut_cases[of p s]) (simp_all add: confirmedLanded_def)
next
  fix outcome assume "s' = endAsk env outcome s"
  then show ?thesis using endAsk_confirmed[OF assms(1)] by simp
qed (use assms(1) in \<open>simp_all add: confirmedLanded_def\<close>)

lemma openVault_confirmed: "confirmedLanded (openVault m)"
  by (simp add: confirmedLanded_def openVault_def)

lemma modal_confirms_a_landed_deposit:
  assumes "vault_reach env s" "vt_confirmed s = Some amount"
  shows "\<exists>pool own. AskDeposit pool own amount \<in> set (vt_landed s)"
proof -
  have "confirmedLanded s" using assms(1)
    by (induction rule: vault_reach.induct) (blast intro: openVault_confirmed step_confirmed)+
  then show ?thesis using assms(2) by (simp add: confirmedLanded_def)
qed

section \<open>Pills\<close>

lemma setAmount_reads:
  assumes "0 \<le> v"
  shows "vaultAmount (setAmount v s) = Some (v div 10000 * 10000)"
proof -
  obtain w g where s: "formatAtomic2 v (int 6) = Inr (decimalText w g)" and wf: "list_all isDigit w" "w \<noteq> []"
    and g: "list_all isDigit g" "length g = 2" and W: "readDigits 0 w = Some (nat v div 10 ^ 6)"
    and G: "readDigits 0 g = Some (nat v mod 10 ^ 6 * 100 div 10 ^ 6)" by (rule formatAtomic2_decimal[OF assms])
  have "parseAtomic (decimalText w g) (int 6) = Inr (Some (int ((nat v div 10 ^ 6 * 10 ^ length g + nat v mod 10 ^ 6 * 100 div 10 ^ 6) * 10 ^ (6 - length g))))"
    by (rule parseAtomic_decimal[OF wf g(1) _ W G]) (simp add: g(2))
  also have "nat v div 10 ^ 6 * 10 ^ length g + nat v mod 10 ^ 6 * 100 div 10 ^ 6 = nat v * 100 div 10 ^ 6"
    unfolding g(2) using hundredths[of "nat v" 6] by simp
  also have "nat v * 100 div 10 ^ 6 = nat v div 10000" by simp
  also have "int (nat v div 10000 * 10 ^ (6 - length g)) = v div 10000 * 10000" using assms g(2) by (simp add: zdiv_int)
  finally have "parseAtomic (decimalText w g) (int 6) = Inr (Some (v div 10000 * 10000))" .
  then show ?thesis using s by (simp add: setAmount_def vaultAmount_def VAULT_DECIMALS_def)
qed

text \<open>A pill or MAX writes an amount that is within the cap, to the cent below: what the row shows is what is signed, and
  the over-balance warning stays away.\<close>

theorem pills_fit_cap:
  assumes "vaultConnected p" "vaultCap p s = Some cap" "0 \<le> cap" "units \<in> set QUICK_ADDS"
  shows "\<exists>a m. vaultAmount (addQuick p units s) = Some a \<and> vaultAmount (clickMax p s) = Some m \<and> m = cap div 10000 * 10000 \<and>
    a = min ((case vaultAmount s of Some n \<Rightarrow> n | None \<Rightarrow> 0) + units * 1000000) cap div 10000 * 10000 \<and> 0 \<le> a \<and> a \<le> m \<and> m \<le> cap \<and>
    \<not> overCap p (addQuick p units s) \<and> \<not> overCap p (clickMax p s)"
proof -
  have now: "0 \<le> (case vaultAmount s of Some n \<Rightarrow> n | None \<Rightarrow> 0)"
  proof (cases "vaultAmount s")
    case (Some n)
    then have "parseAtomic (vt_amountText s) (int 6) = Inr (Some n)"
      by (auto simp: vaultAmount_def VAULT_DECIMALS_def split: sum.splits option.splits)
    then show ?thesis using parse_is_exact[of "vt_amountText s" 6 n] Some by auto
  qed simp
  let ?v = "min ((case vaultAmount s of Some n \<Rightarrow> n | None \<Rightarrow> 0) + units * 1000000) cap"
  have "0 \<le> units" using assms(4) by (auto simp: QUICK_ADDS_def)
  then have v: "0 \<le> ?v" using now assms(3) by simp
  have cap: "vaultCap p (setAmount n s) = Some cap" for n using assms(2) by (cases "formatAtomic2 n (int VAULT_DECIMALS)") (simp_all add: vaultCap_def setAmount_def)
  have quick: "addQuick p units s = setAmount ?v s"
    using assms(1,2) by (simp add: addQuick_def addCapped_def Let_def VAULT_ONE_def VAULT_DECIMALS_def min_def not_less)
  have max: "clickMax p s = setAmount cap s" using assms(2) by (simp add: clickMax_def)
  have below: "n div 10000 * 10000 \<le> n" for n :: int using mult_div_mod_eq[of 10000 n] pos_mod_sign[of 10000 n] by linarith
  have "?v div 10000 * 10000 \<le> cap div 10000 * 10000" by (intro mult_right_mono zdiv_mono1) simp_all
  moreover have "0 \<le> ?v div 10000 * 10000" using v by (simp add: pos_imp_zdiv_nonneg_iff)
  ultimately show ?thesis
    unfolding quick max using below[of ?v] below[of cap] cap
    by (simp add: setAmount_reads v assms(3) overCap_def del: min_less_iff_conj)
qed

section \<open>Witnesses\<close>

definition demoVaultProps :: vault_props where
  "demoVaultProps = \<lparr>vp_program = True, vp_owner = Some [9], vp_pool = Some demoPlayPool, vp_principal = 8000000, vp_entries = 0,
     vp_walletBalance = Some 60000000, vp_sol = None, vp_paused = False, vp_shutdown = False, vp_currentEpoch = Some 4,
     vp_pendingWithdraw = 3000000, vp_pendingEpoch = 3\<rparr>"

definition demoTyped :: vault where "demoTyped = typeAmount ''5'' (openVault None)"

lemma demoTyped_sel: "vt_amountText demoTyped = ''5''" "vt_mode demoTyped = ModeDeposit" "\<not> vt_busy demoTyped" "vt_asked demoTyped = []"
  "vt_payoutSent demoTyped = None" "vt_flight demoTyped = None"
  by (simp_all add: demoTyped_def typeAmount_def clampDecimals_def isDigit_def digitVal_def openVault_def)

lemma demoTyped_amount: "vaultAmount demoTyped = Some 5000000"
  using parseAtomic_decimal[of "''5''" "[]" 6 5 0]
  by (simp add: vaultAmount_def demoTyped_sel VAULT_DECIMALS_def decimalText_def isDigit_def digitVal_def)

lemma demoTyped_submits: "clickSubmit demoVaultProps demoTyped = startAsk (AskDeposit demoPlayPool [9] 5000000) demoTyped"
  by (simp add: clickSubmit_def canSubmit_def overCap_def underMin_def vaultConnected_def vaultCap_def demoTyped_amount demoTyped_sel
      demoVaultProps_def demoPlayPool_def)


definition demoPaid :: vault where
  "demoPaid = endAsk demoWeb (Inr (Landed ''sig'')) (clickPayOut demoVaultProps demoTyped)"

lemma demoPaid_sel: "vt_payoutSent demoPaid = Some 3000000" "vt_flight demoPaid = None" "payoutsAsked demoPaid = [AskPayout demoPlayPool [9]]"
proof -
  have due: "vaultPending demoVaultProps demoTyped = Withdrawal PkDue 3000000 3"
    by (simp add: vaultPending_def pendingWithdrawal_def demoVaultProps_def demoTyped_sel)
  have "clickPayOut demoVaultProps demoTyped = (startAsk (AskPayout demoPlayPool [9]) demoTyped)\<lparr>vt_payoutSent := Some 3000000\<rparr>"
    unfolding clickPayOut_def due by (simp add: demoVaultProps_def demoTyped_sel)
  then show "vt_payoutSent demoPaid = Some 3000000" "vt_flight demoPaid = None" "payoutsAsked demoPaid = [AskPayout demoPlayPool [9]]"
    unfolding demoPaid_def
    by (simp_all add: endAsk_def endPayOut_def landAsk_def payoutsAsked_def isPayout_def demoTyped_sel)
qed

theorem payout_asked_once_witness:
  "payoutsAsked (clickPayOut demoVaultProps (closeModal demoPaid)) = [AskPayout demoPlayPool [9]]"
proof -
  let ?R = "\<lambda>s s'. \<exists>p. vp_pendingWithdraw p = 3000000 \<and> vault_step demoWeb p s s'"
  have v: "vp_pendingWithdraw demoVaultProps = 3000000" by (simp add: demoVaultProps_def)
  have "?R demoPaid (closeModal demoPaid)" "?R (closeModal demoPaid) (clickPayOut demoVaultProps (closeModal demoPaid))"
    using v vault_step.closed vault_step.paid by blast+
  then have "?R\<^sup>*\<^sup>* demoPaid (clickPayOut demoVaultProps (closeModal demoPaid))"
    by (rule rtranclp.rtrancl_into_rtrancl[OF r_into_rtranclp])
  from payout_asked_once[OF demoPaid_sel(1,2) _ this] demoPaid_sel(3) show ?thesis by simp
qed

theorem pills_fit_cap_witness:
  "\<exists>a. vaultAmount (addQuick demoVaultProps 100 demoTyped) = Some a \<and> a \<le> 60000000"
proof -
  have "vaultConnected demoVaultProps" "vaultCap demoVaultProps demoTyped = Some 60000000" "(100::int) \<in> set QUICK_ADDS"
    by (simp_all add: vaultConnected_def vaultCap_def demoVaultProps_def demoTyped_sel QUICK_ADDS_def)
  from pills_fit_cap[OF this(1,2) _ this(3)] show ?thesis by auto
qed

end
