(* ===== verification/Gate_Redeem.thy ===== *)
theory Gate_Redeem
  imports Web_Hooks
begin

text \<open>
  Redeeming at the gate (the callbacks and the last effect of \<open>web/src/useAccessGate.ts\<close>), and the two requests it
  makes as the backend serves them.

  \<open>gk_gate\<close> is the hook of \<open>Web_Hooks\<close>; the two stored texts are the browser's storage, assumed not to be blocked.
  A signature request and the request that follows it are one flight, which ends with the wallet's refusal or with
  what the fetch came to. \<open>gk_asked\<close> records whom the wallet was asked for, and what to sign; nothing reads it.
\<close>

section \<open>State\<close>

record redeem_flight =
  rf_wallet :: string
  rf_code :: string
  rf_ref :: "string option"

record apply_flight =
  af_wallet :: string
  af_code :: string

record gatekeeper =
  gk_gate :: gate
  gk_code :: string
  gk_refCode :: string
  gk_storedRef :: string
  gk_storedCode :: string
  gk_busy :: bool
  gk_error :: "string option"
  gk_redeems :: "redeem_flight list"
  gk_applies :: "apply_flight list"
  gk_applying :: bool
  gk_asked :: "(string \<times> string) list"

text \<open>What the link's \<open>ref\<close> leaves in the state and in the storage; a link without one reads the storage.\<close>

definition captureRefCode :: "string \<Rightarrow> string \<Rightarrow> string \<times> string" where
  "captureRefCode fromUrl stored =
    (if fromUrl = [] then (stored, stored) else (wNormalizeInviteCode fromUrl, wNormalizeInviteCode fromUrl))"

definition mountKeeper :: "string \<Rightarrow> string \<Rightarrow> string \<Rightarrow> string \<Rightarrow> string \<Rightarrow> gatekeeper" where
  "mountKeeper storedOwner storedCode storedRef inviteFromUrl refFromUrl =
    (let (refCode, kept) = captureRefCode refFromUrl storedRef in
     \<lparr>gk_gate = \<lparr>gt_owner = None, gt_access = None, gt_remembered = storedOwner, gt_storedOwner = storedOwner, gt_fetchFailed = False,
        gt_check = None, gt_pending = storedCode \<noteq> []\<rparr>,
      gk_code = (if storedCode \<noteq> [] then storedCode else inviteFromUrl), gk_refCode = refCode, gk_storedRef = kept,
      gk_storedCode = storedCode, gk_busy = False, gk_error = None, gk_redeems = [], gk_applies = [], gk_applying = False,
      gk_asked = []\<rparr>)"

section \<open>Redeeming\<close>

definition startRedeem :: "string option \<Rightarrow> bool \<Rightarrow> gatekeeper \<Rightarrow> gatekeeper" where
  "startRedeem owner signer k =
    (let trimmed = wNormalizeInviteCode (gk_code k) in
     case owner of
       None \<Rightarrow> k
     | Some wallet \<Rightarrow>
         if wallet = [] \<or> \<not> signer \<or> trimmed = [] then k
         else let ref = (if gk_refCode k = [] then None else Some (gk_refCode k)) in
           k\<lparr>gk_busy := True, gk_error := None,
             gk_redeems := gk_redeems k @ [\<lparr>rf_wallet = wallet, rf_code = trimmed, rf_ref = ref\<rparr>],
             gk_asked := gk_asked k @ [(wallet, wAccessMessage wallet trimmed ref)]\<rparr>)"

text \<open>The flight ends: the wallet or the fetch threw a message, or the request came to a result.\<close>

definition endRedeem :: "redeem_flight \<Rightarrow> string + redeem_result \<Rightarrow> gatekeeper \<Rightarrow> gatekeeper" where
  "endRedeem f outcome k =
    (case outcome of
       Inl message \<Rightarrow> k\<lparr>gk_error := Some message\<rparr>
     | Inr (Redeemed a) \<Rightarrow>
         (let k1 = k\<lparr>gk_gate := (gk_gate k)\<lparr>gt_access := Some a\<rparr>\<rparr> in
          if rf_ref f = None then k1 else k1\<lparr>gk_storedRef := [], gk_refCode := []\<rparr>)
     | Inr (RedeemFailed status reason) \<Rightarrow> k\<lparr>gk_error := Some (classifyRedeemError status reason)\<rparr>)
      \<lparr>gk_busy := False, gk_redeems := remove1 f (gk_redeems k)\<rparr>"

section \<open>Applying a referral code\<close>

definition startApply :: "string option \<Rightarrow> access_dto option \<Rightarrow> bool \<Rightarrow> gatekeeper \<Rightarrow> gatekeeper" where
  "startApply owner access signer k =
    (case (owner, access) of
       (Some wallet, Some a) \<Rightarrow>
         if \<not> ad_allowed a \<or> wallet = [] \<or> \<not> signer \<or> gk_refCode k = [] \<or> gk_applying k then k
         else k\<lparr>gk_applying := True, gk_applies := gk_applies k @ [\<lparr>af_wallet = wallet, af_code = gk_refCode k\<rparr>],
                gk_asked := gk_asked k @ [(wallet, wApplyReferralMessage wallet (gk_refCode k))]\<rparr>
     | _ \<Rightarrow> k)"

text \<open>An answer, whether it applied the code or not, forgets the code; anything thrown or refused keeps it.\<close>

definition endApply :: "apply_flight \<Rightarrow> bool \<Rightarrow> gatekeeper \<Rightarrow> gatekeeper" where
  "endApply f answered k =
    (if answered then k\<lparr>gk_storedRef := [], gk_refCode := []\<rparr> else k)
      \<lparr>gk_applying := False, gk_applies := remove1 f (gk_applies k)\<rparr>"

section \<open>Renders and the form\<close>

text \<open>A render with its effects. \<open>applyRuns\<close> tells whether something the last effect depends on has changed, so that
  React runs it; it sees the values of the render.\<close>

definition keeperRender :: "bool \<Rightarrow> bool \<Rightarrow> string option \<Rightarrow> bool \<Rightarrow> bool \<Rightarrow> int \<Rightarrow> gatekeeper \<Rightarrow> gatekeeper" where
  "keeperRender ready connected owner signer applyRuns nowMs k =
    (let (g, redeems) = gateRender ready connected owner nowMs (gk_gate k);
         k1 = k\<lparr>gk_gate := g, gk_storedCode := (if gt_pending (gk_gate k) \<and> \<not> gt_pending g then [] else gk_storedCode k)\<rparr>;
         k2 = (if redeems then startRedeem owner signer k1 else k1)
     in if applyRuns then startApply owner (gt_access (gk_gate k)) signer k2 else k2)"

definition submitCode :: "string option \<Rightarrow> bool \<Rightarrow> bool \<Rightarrow> gatekeeper \<Rightarrow> gatekeeper" where
  "submitCode owner connected signer k =
    (let (g, redeems) = gateSubmit (gk_code k) connected (gk_gate k) in
     if redeems then startRedeem owner signer k
     else if wNormalizeInviteCode (gk_code k) = [] then k
     else k\<lparr>gk_error := None, gk_gate := g, gk_storedCode := gk_code k\<rparr>)"

definition typeCode :: "string \<Rightarrow> gatekeeper \<Rightarrow> gatekeeper" where
  "typeCode text k = k\<lparr>gk_code := text\<rparr>"

inductive keeper_step :: "gatekeeper \<Rightarrow> gatekeeper \<Rightarrow> bool" where
  rendered: "keeper_step k (keeperRender ready connected owner signer applyRuns nowMs k)"
| checked: "keeper_step k (k\<lparr>gk_gate := checkAnswered nowMs result (gk_gate k)\<rparr>)"
| retried: "keeper_step k (k\<lparr>gk_gate := gateRetry nowMs (gk_gate k)\<rparr>)"
| typed: "keeper_step k (typeCode text k)"
| submitted: "keeper_step k (submitCode owner connected signer k)"
| redeemed: "f \<in> set (gk_redeems k) \<Longrightarrow> keeper_step k (endRedeem f outcome k)"
| applied: "f \<in> set (gk_applies k) \<Longrightarrow> keeper_step k (endApply f answered k)"

inductive keeper_reach :: "gatekeeper \<Rightarrow> bool" where
  mounted: "keeper_reach (mountKeeper storedOwner storedCode storedRef inviteFromUrl refFromUrl)"
| step: "keeper_reach k \<Longrightarrow> keeper_step k k' \<Longrightarrow> keeper_reach k'"

inductive_cases keeper_stepE: "keeper_step k k'"

section \<open>The backend's answers\<close>

text \<open>What the framework makes of a thrown HTTP error and of a returned value.\<close>

fun errorStatus :: "http_error \<Rightarrow> int \<times> string" where
  "errorStatus (BadRequest m) = (400, m)"
| "errorStatus (Unauthorized m) = (401, m)"
| "errorStatus (NotFound m) = (404, m)"
| "errorStatus (Conflict m) = (409, m)"

definition errorAnswer :: "http_error \<Rightarrow> fetched" where
  "errorAnswer e = (let (status, m) = errorStatus e in
     Response status (Inr (JObject [(''message'', JString m), (''statusCode'', JNumber status)])))"

definition accessBody :: "bool \<Rightarrow> string \<Rightarrow> json" where
  "accessBody allowed reason = JObject [(''allowed'', JBool allowed), (''reason'', JString reason)]"

definition serveRedeem :: "access_env \<Rightarrow> (nat \<Rightarrow> nat) \<Rightarrow> int \<Rightarrow> json \<Rightarrow> access_db \<Rightarrow> fetched \<times> access_db" where
  "serveRedeem env randomInt now body db =
    (case redeem env randomInt now body db of
       Inl e \<Rightarrow> (errorAnswer e, db)
     | Inr db' \<Rightarrow> (Response 201 (Inr (accessBody True ''invite code redeemed'')), db'))"

definition serveAccess :: "access_env \<Rightarrow> string \<Rightarrow> access_db \<Rightarrow> fetched" where
  "serveAccess env wallet db =
    (case getAccess env wallet db of
       Inl e \<Rightarrow> errorAnswer e
     | Inr (allowed, reason) \<Rightarrow> Response 200 (Inr (accessBody allowed reason)))"

end
