(* ===== verification/Gate_Redeem_Laws.thy ===== *)
theory Gate_Redeem_Laws
  imports Gate_Redeem Access_Laws Web_Hooks_Laws
begin

text \<open>
  The gate from the typed code to the database and back: what a redeem changes, what the gate says of a failure,
  whom the wallet is asked for, and how an answer that comes late admits another wallet.
\<close>

section \<open>Whom the wallet is asked for\<close>

text \<open>Flights and the wallet's requests belong together: every request is for a wallet's own address, and one referral
  is applied at a time.\<close>

definition ownText :: "string \<times> string \<Rightarrow> bool" where
  "ownText p \<longleftrightarrow> (\<exists>code. (\<exists>ref. snd p = wAccessMessage (fst p) code ref) \<or> snd p = wApplyReferralMessage (fst p) code)"

lemma ownText_simps [simp]: "ownText (w, wAccessMessage w code ref)" "ownText (w, wApplyReferralMessage w code)"
  by (auto simp: ownText_def)

definition keeperOk :: "gatekeeper \<Rightarrow> bool" where
  "keeperOk k \<longleftrightarrow>
    (\<forall>p \<in> set (gk_asked k). ownText p) \<and>
    (\<forall>f \<in> set (gk_redeems k). (rf_wallet f, wAccessMessage (rf_wallet f) (rf_code f) (rf_ref f)) \<in> set (gk_asked k) \<and>
       rf_wallet f \<noteq> [] \<and> rf_code f \<noteq> [] \<and> wNormalizeInviteCode (rf_code f) = rf_code f) \<and>
    (\<forall>f \<in> set (gk_applies k). (af_wallet f, wApplyReferralMessage (af_wallet f) (af_code f)) \<in> set (gk_asked k)) \<and>
    length (gk_applies k) = (if gk_applying k then 1 else 0)"

lemma startRedeem_ok: "keeperOk k \<Longrightarrow> keeperOk (startRedeem owner signer k)"
proof (cases owner)
  case (Some w)
  let ?t = "wNormalizeInviteCode (gk_code k)"
  assume ok: "keeperOk k"
  have "wNormalizeInviteCode ?t = ?t" by (simp add: wNormalize_eq normalize_idem)
  with ok Some show ?thesis
    by (auto simp: startRedeem_def keeperOk_def Let_def split: if_splits)
qed (simp add: startRedeem_def)

lemma startApply_ok: "keeperOk k \<Longrightarrow> keeperOk (startApply owner access signer k)"
  by (cases owner; cases access) (auto simp: startApply_def keeperOk_def split: if_splits)

lemma keeperOk_frame [simp]:
  "keeperOk (k\<lparr>gk_gate := g\<rparr>) = keeperOk k" "keeperOk (k\<lparr>gk_code := t\<rparr>) = keeperOk k" "keeperOk (k\<lparr>gk_refCode := t\<rparr>) = keeperOk k"
  "keeperOk (k\<lparr>gk_storedRef := t\<rparr>) = keeperOk k" "keeperOk (k\<lparr>gk_storedCode := t\<rparr>) = keeperOk k"
  "keeperOk (k\<lparr>gk_busy := b\<rparr>) = keeperOk k" "keeperOk (k\<lparr>gk_error := e\<rparr>) = keeperOk k"
  by (simp_all add: keeperOk_def)

lemma endRedeem_ok: "keeperOk k \<Longrightarrow> keeperOk (endRedeem f outcome k)"
proof -
  assume "keeperOk k"
  then have r: "keeperOk (k\<lparr>gk_redeems := remove1 f (gk_redeems k)\<rparr>)"
    unfolding keeperOk_def using set_remove1_subset[of f "gk_redeems k"] by auto
  show ?thesis
  proof (cases outcome)
    case (Inr res)
    then show ?thesis using r by (cases res) (auto simp: endRedeem_def keeperOk_def Let_def)
  qed (use r in \<open>auto simp: endRedeem_def keeperOk_def\<close>)
qed

lemma endApply_ok: "keeperOk k \<Longrightarrow> f \<in> set (gk_applies k) \<Longrightarrow> keeperOk (endApply f answered k)"
  using set_remove1_subset[of f "gk_applies k"]
  by (auto simp: endApply_def keeperOk_def length_remove1 split: if_splits)

lemma keeper_reach_ok: "keeper_reach k \<Longrightarrow> keeperOk k"
proof (induction rule: keeper_reach.induct)
  case (step k k')
  show ?case using step.hyps(2)
  proof cases
    case (rendered ready connected owner signer applyRuns nowMs)
    then show ?thesis using step.IH startRedeem_ok startApply_ok
      by (auto simp: keeperRender_def Let_def split: prod.split)
  next
    case (submitted owner connected signer)
    then show ?thesis using step.IH startRedeem_ok by (auto simp: submitCode_def Let_def split: prod.split)
  qed (use step.IH endRedeem_ok endApply_ok in \<open>auto simp: typeCode_def\<close>)
qed (simp add: mountKeeper_def keeperOk_def captureRefCode_def Let_def split: prod.split)

text \<open>A redeem that carried the referral code leaves none to apply: the effect that follows asks for no second
  signature.\<close>

lemma redeem_settles_referral:
  assumes "rf_ref f \<noteq> None"
  shows "startApply owner access signer (endRedeem f (Inr (Redeemed a)) k) = endRedeem f (Inr (Redeemed a)) k"
  using assms by (auto simp: startApply_def endRedeem_def Let_def split: option.splits)

section \<open>An answer that comes late\<close>

text \<open>A wallet is switched while its redeem is in flight: the answer opens the gate for the wallet connected now, which
  redeemed nothing, whatever its own check has answered.\<close>

lemma late_redeem_admits_other_wallet:
  assumes "ad_allowed a"
  shows "gateShown True True (Some other) (gk_gate (endRedeem f (Inr (Redeemed a)) k)) = GateHidden"
  using assms by (simp add: endRedeem_def gateShown_def gateDecision_def Let_def)

section \<open>From the typed code to the database and back\<close>

lemma served_error: "redeemAccessResult (errorAnswer e) = RedeemFailed (Some (fst (errorStatus e))) (snd (errorStatus e))"
  by (cases e) (simp_all add: errorAnswer_def redeemAccessResult_def responseOk_def bodyField_def jsonField_def)

lemma served_access: "redeemAccessResult (Response 201 (Inr (accessBody b r))) = Redeemed \<lparr>ad_allowed = b, ad_reason = r\<rparr>"
  by (simp add: redeemAccessResult_def responseOk_def accessBody_def bodyField_def jsonField_def)

lemma error_texts:
  "classifyRedeemError (Some 404) r = ''Invite code not found.''"
  "classifyRedeemError (Some 409) ''That invite code has no uses left.'' = ''This invite code has no uses left.''"
  "classifyRedeemError (Some 409) ALREADY_REDEEMED = ''This wallet already redeemed an invite code.''"
  by (simp add: classifyRedeemError_def, code_simp, code_simp)

lemma spent_iff:
  assumes "accessOk db" "findUnique ic_code code (ab_invites db) = Some invite"
  shows "filter (\<lambda>r. ic_code r = code \<and> ic_uses r < ic_maxUses invite) (ab_invites db) = [] \<longleftrightarrow> ic_maxUses invite \<le> ic_uses invite"
proof -
  have i: "invite \<in> set (ab_invites db)" "ic_code invite = code"
    using assms(2) by (auto simp: findUnique_def find_Some_iff)
  have only: "r = invite" if "r \<in> set (ab_invites db)" "ic_code r = code" for r
    using findUnique_row[of ic_code "ab_invites db" r] that assms by (simp add: accessOk_def)
  show ?thesis
  proof
    assume "filter (\<lambda>r. ic_code r = code \<and> ic_uses r < ic_maxUses invite) (ab_invites db) = []"
    then show "ic_maxUses invite \<le> ic_uses invite" using i by (auto simp: filter_empty_conv)
  next
    assume le: "ic_maxUses invite \<le> ic_uses invite"
    have "\<not> (ic_code r = code \<and> ic_uses r < ic_maxUses invite)" if "r \<in> set (ab_invites db)" for r
      using only[OF that] le by (metis not_less)
    then show "filter (\<lambda>r. ic_code r = code \<and> ic_uses r < ic_maxUses invite) (ab_invites db) = []"
      unfolding filter_empty_conv by blast
  qed
qed

lemma two_ends:
  "(case x of None \<Rightarrow> Inl c | Some d \<Rightarrow> if P d then (case y d of None \<Rightarrow> Inl c | Some d' \<Rightarrow> Inr d') else Inr d) = Inl e \<Longrightarrow> e = c"
  by (auto split: option.splits if_splits)

definition boundDb ::
    "access_env \<Rightarrow> int \<Rightarrow> string \<Rightarrow> string \<Rightarrow> string option \<Rightarrow> invite_row \<Rightarrow> access_db \<Rightarrow> access_db option" where
  "boundDb env now address code ref invite db =
    (let d = spendCode address code now invite db in
     case (if findUnique rl_referee address (db_referrals (ab_model d)) \<noteq> None then None else chooseReferrer address ref invite d) of
       None \<Rightarrow> Some d
     | Some (referrer, c) \<Rightarrow> bindReferral (ae_poolAddress env) now address referrer c d)"

lemma redeemTx_goes_on:
  assumes "findUnique id_wallet address (ab_redemptions db) = None" "findUnique ic_code code (ab_invites db) = Some invite"
    "filter (\<lambda>r. ic_code r = code \<and> ic_uses r < ic_maxUses invite) (ab_invites db) \<noteq> []"
  shows "redeemTx env rnd now address code ref db =
    (case boundDb env now address code ref invite db of
       None \<Rightarrow> Inl (Conflict ALREADY_REDEEMED)
     | Some d \<Rightarrow>
         if 0 < inviteGrantCount (circulationOf d) (ae_circulationCap env) (ae_redeemGrantCount env)
         then (case createInvites (mintInvites rnd (Some address) INVITE_CODE_MAX_USES now
                  (inviteGrantCount (circulationOf d) (ae_circulationCap env) (ae_redeemGrantCount env))) d of
                 None \<Rightarrow> Inl (Conflict ALREADY_REDEEMED)
               | Some d' \<Rightarrow> Inr d')
         else Inr d)"
  using assms unfolding redeemTx_def boundDb_def spendCode_def Let_def by (simp del: filter_empty_conv)

lemma redeemTx_error:
  assumes "redeemTx env rnd now address code ref db = Inl e"
  shows "e = Conflict ALREADY_REDEEMED \<or>
    findUnique id_wallet address (ab_redemptions db) = None \<and>
      (findUnique ic_code code (ab_invites db) = None \<and> e = NotFound ''That invite code does not exist.'' \<or>
       (\<exists>invite. findUnique ic_code code (ab_invites db) = Some invite \<and>
          filter (\<lambda>r. ic_code r = code \<and> ic_uses r < ic_maxUses invite) (ab_invites db) = [] \<and>
          e = Conflict ''That invite code has no uses left.''))"
proof (cases "findUnique id_wallet address (ab_redemptions db) = None")
  case new: True
  show ?thesis
  proof (cases "findUnique ic_code code (ab_invites db)")
    case None
    then show ?thesis using assms new by (simp add: redeemTx_def)
  next
    case found: (Some invite)
    let ?left = "filter (\<lambda>r. ic_code r = code \<and> ic_uses r < ic_maxUses invite) (ab_invites db)"
    show ?thesis
    proof (cases "?left = []")
      case True
      then show ?thesis using assms new found by (simp add: redeemTx_def del: filter_empty_conv)
    next
      case False
      have "e = Conflict ALREADY_REDEEMED"
        by (rule two_ends[OF assms[unfolded redeemTx_goes_on[OF new found False]]])
      then show ?thesis ..
    qed
  qed
qed (use assms in \<open>simp add: redeemTx_def\<close>)

lemma redeemTx_refusals:
  "findUnique id_wallet address (ab_redemptions db) = None \<Longrightarrow> findUnique ic_code code (ab_invites db) = None \<Longrightarrow>
     redeemTx env rnd now address code ref db = Inl (NotFound ''That invite code does not exist.'')"
  "findUnique id_wallet address (ab_redemptions db) = None \<Longrightarrow> findUnique ic_code code (ab_invites db) = Some invite \<Longrightarrow>
     filter (\<lambda>r. ic_code r = code \<and> ic_uses r < ic_maxUses invite) (ab_invites db) = [] \<Longrightarrow>
     redeemTx env rnd now address code ref db = Inl (Conflict ''That invite code has no uses left.'')"
  by (simp_all add: redeemTx_def del: filter_empty_conv)

lemma redeemTx_records:
  assumes "redeemTx env rnd now address code ref db = Inr db'"
  shows "findUnique id_wallet address (ab_redemptions db) = None \<and>
    ab_redemptions db' = ab_redemptions db @ [\<lparr>id_wallet = address, id_code = code, id_redeemedAt = now\<rparr>]"
  using assms
proof (rule redeemTx_cases)
  fix invite d
  assume f: "findUnique id_wallet address (ab_redemptions db) = None"
    and d: "bindsStep env now address code ref invite db d" and q: "quotaStep env rnd now address d db'"
  have "ab_redemptions d = ab_redemptions (spendCode address code now invite db)"
    using d bindReferral_Some(2) unfolding bindsStep_def by blast
  moreover have "ab_redemptions db' = ab_redemptions d" using q createInvites_Some by (fastforce simp: quotaStep_def)
  ultimately show ?thesis using f by (simp add: spendCode_def)
qed

text \<open>C40: From the typed code to the database and back: when the browser posts what its wallet signed, an opened gate means
  one recorded redemption of that code by that wallet, which the next check of access reads back; a failure changes
  nothing, and the gate blames the code exactly when the code is unknown or spent.\<close>

theorem redeem_opens_the_gate:
  assumes db: "accessOk db"
    and wallet: "ae_parseKey env wallet = Some key" "ae_toBase58 env key = wallet" "wallet \<noteq> []"
    and typed: "wNormalizeInviteCode typed \<noteq> []"
      "referral = None \<or> referral = Some (wNormalizeInviteCode stored) \<and> wNormalizeInviteCode stored \<noteq> []"
    and signed: "ae_decode58 env signature = Some bytes" "length bytes = 64" "ae_importKey env key"
      "ae_verifyEd25519 env (wAccessMessage wallet (wNormalizeInviteCode typed) referral) key bytes = Some True" "signature \<noteq> []"
    and flight: "f = \<lparr>rf_wallet = wallet, rf_code = wNormalizeInviteCode typed, rf_ref = referral\<rparr>"
    and served: "serveRedeem env rnd now (redeemRequest wallet (rf_code f) signature (rf_ref f)) db = (answer, db')"
  shows "case redeemAccessResult answer of
      Redeemed a \<Rightarrow>
        gateShown True True (Some wallet) (gk_gate (endRedeem f (Inr (Redeemed a)) k)) = GateHidden \<and>
        ab_redemptions db' = ab_redemptions db @ [\<lparr>id_wallet = wallet, id_code = rf_code f, id_redeemedAt = now\<rparr>] \<and>
        serveAccess env wallet db' = Response 200 (Inr (accessBody True ''invite code redeemed''))
    | RedeemFailed status reason \<Rightarrow>
        db' = db \<and>
        (gk_error (endRedeem f (Inr (RedeemFailed status reason)) k) = Some ''Invite code not found.'' \<longleftrightarrow>
           findUnique id_wallet wallet (ab_redemptions db) = None \<and> findUnique ic_code (rf_code f) (ab_invites db) = None) \<and>
        (gk_error (endRedeem f (Inr (RedeemFailed status reason)) k) = Some ''This invite code has no uses left.'' \<longleftrightarrow>
           findUnique id_wallet wallet (ab_redemptions db) = None \<and>
           (\<exists>invite. findUnique ic_code (rf_code f) (ab_invites db) = Some invite \<and> ic_uses invite = ic_maxUses invite))"
proof -
  let ?body = "redeemRequest wallet (rf_code f) signature (rf_ref f)" and ?code = "wNormalizeInviteCode typed"
  have f: "rf_wallet f = wallet" "rf_code f = ?code" "rf_ref f = referral" using flight by simp_all
  obtain b where b: "parseRedeemBody env ?body = Inr b" "bo_wallet b = key" "bo_code b = ?code" "bo_referralCode b = referral"
      "verifyAccessSignature env (bo_wallet b) (bo_code b) (bo_signature b) (bo_referralCode b)"
    using browser_redeem_is_understood[OF wallet typed signed] unfolding f by blast
  have tx: "redeem env rnd now ?body db = redeemTx env rnd now wallet ?code referral db"
    using b wallet(2) by (simp add: redeem_def Let_def)
  show ?thesis
  proof (cases "redeemTx env rnd now wallet ?code referral db")
    case (Inr d)
    then have s: "answer = Response 201 (Inr (accessBody True ''invite code redeemed''))" "db' = d"
      using served tx by (simp_all add: serveRedeem_def)
    have rows: "ab_redemptions d = ab_redemptions db @ [\<lparr>id_wallet = wallet, id_code = ?code, id_redeemedAt = now\<rparr>]"
      using redeemTx_records[OF Inr] by blast
    then have "findUnique id_wallet wallet (ab_redemptions d) \<noteq> None" by (auto simp: findUnique_def find_None_iff)
    then have "serveAccess env wallet d = Response 200 (Inr (accessBody True ''invite code redeemed''))"
      using wallet(1,2) by (simp add: serveAccess_def getAccess_def parseWallet_def Let_def)
    moreover have "gateShown True True (Some wallet) (gk_gate (endRedeem f (Inr (Redeemed a)) k)) = GateHidden" if "ad_allowed a" for a
      using late_redeem_admits_other_wallet[OF that] .
    ultimately show ?thesis using rows unfolding s served_access f by simp
  next
    case (Inl e)
    then have s: "answer = errorAnswer e" "db' = db" using served tx by (simp_all add: serveRedeem_def)
    have shown: "gk_error (endRedeem f (Inr (RedeemFailed st r)) k) = Some (classifyRedeemError st r)" for st r
      by (simp add: endRedeem_def)
    let ?new = "findUnique id_wallet wallet (ab_redemptions db) = None"
    let ?found = "findUnique ic_code ?code (ab_invites db)"
    have uses: "ic_uses invite \<le> ic_maxUses invite" if "?found = Some invite" for invite
      using db that by (auto simp: accessOk_def findUnique_def find_Some_iff)
    have spent: "filter (\<lambda>r. ic_code r = ?code \<and> ic_uses r < ic_maxUses invite) (ab_invites db) = [] \<longleftrightarrow> ic_uses invite = ic_maxUses invite"
      if "?found = Some invite" for invite
      using spent_iff[OF db that] uses[OF that] by linarith
    have unknown: "e = NotFound ''That invite code does not exist.''" if "?new" "?found = None"
      using redeemTx_refusals(1)[OF that, of env rnd now referral] Inl by simp
    have used_up: "e = Conflict ''That invite code has no uses left.''" if "?new" "?found = Some i" "ic_uses i = ic_maxUses i" for i
      using redeemTx_refusals(2)[OF that(1,2), of env rnd now referral] spent[OF that(2)] that(3) Inl by simp
    consider (already) "e = Conflict ALREADY_REDEEMED" | (missing) "?new" "?found = None" "e = NotFound ''That invite code does not exist.''"
      | (gone) invite where "?new" "?found = Some invite" "ic_uses invite = ic_maxUses invite" "e = Conflict ''That invite code has no uses left.''"
      using redeemTx_error[OF Inl] by (auto simp: spent simp del: filter_empty_conv)
    then show ?thesis
    proof cases
      case already
      have "\<not> (?new \<and> ?found = None)" using unknown already by auto
      moreover have "\<not> (?new \<and> (\<exists>i. ?found = Some i \<and> ic_uses i = ic_maxUses i))" using used_up already by (auto simp: ALREADY_REDEEMED_def)
      ultimately show ?thesis unfolding s served_error shown f using already by (simp add: error_texts)
    next
      case missing
      then show ?thesis unfolding s served_error shown f by (simp add: error_texts)
    next
      case gone
      then show ?thesis unfolding s served_error shown f by (simp add: error_texts)
    qed
  qed
qed

definition demoKeeperDb :: access_db where
  "demoKeeperDb = \<lparr>ab_invites = [\<lparr>ic_code = ''AB2'', ic_ownerWallet = None, ic_maxUses = 1, ic_uses = 0, ic_createdAt = 0\<rparr>],
     ab_redemptions = [], ab_codes = [],
     ab_model = \<lparr>db_pools = [], db_epochs = [], db_rounds = [], db_players = [], db_positions = [], db_events = [],
       db_cursors = [], db_referrals = [], db_grants = [], db_shares = []\<rparr>\<rparr>"

definition demoKeeper :: gatekeeper where
  "demoKeeper = mountKeeper [] [] [] [] []"

theorem redeem_opens_the_gate_witness:
  "\<exists>answer db'. serveRedeem demoAccessEnv demoDraws 5 (redeemRequest ''W'' ''AB2'' ''sig'' (Some ''CD'')) demoKeeperDb = (answer, db') \<and>
     ab_redemptions db' = [\<lparr>id_wallet = ''W'', id_code = ''AB2'', id_redeemedAt = 5\<rparr>] \<and>
     serveAccess demoAccessEnv ''W'' db' = Response 200 (Inr (accessBody True ''invite code redeemed''))"
proof -
  let ?f = "\<lparr>rf_wallet = ''W'', rf_code = wNormalizeInviteCode '' ab2'', rf_ref = Some ''CD''\<rparr>"
  have code: "wNormalizeInviteCode '' ab2'' = ''AB2''" "wNormalizeInviteCode ''cd'' = ''CD''" by code_simp+
  have ok: "accessOk demoKeeperDb" by code_simp
  have h: "ae_parseKey demoAccessEnv ''W'' = Some [9]" "ae_toBase58 demoAccessEnv [9] = ''W''" "''W'' \<noteq> []"
    "wNormalizeInviteCode '' ab2'' \<noteq> []" "Some ''CD'' = None \<or> Some ''CD'' = Some (wNormalizeInviteCode ''cd'') \<and> wNormalizeInviteCode ''cd'' \<noteq> []"
    "ae_decode58 demoAccessEnv ''sig'' = Some (replicate 64 0)" "length (replicate 64 (0::byte)) = 64" "ae_importKey demoAccessEnv [9]"
    "ae_verifyEd25519 demoAccessEnv (wAccessMessage ''W'' (wNormalizeInviteCode '' ab2'') (Some ''CD'')) [9] (replicate 64 0) = Some True"
    "''sig'' \<noteq> []"
    by (simp_all add: demoAccessEnv_def code wAccessMessage_def)
  obtain answer db' where served: "serveRedeem demoAccessEnv demoDraws 5 (redeemRequest ''W'' (rf_code ?f) ''sig'' (rf_ref ?f)) demoKeeperDb = (answer, db')"
    by (metis surj_pair)
  have "case redeemAccessResult (fst (serveRedeem demoAccessEnv demoDraws 5 (redeemRequest ''W'' ''AB2'' ''sig'' (Some ''CD'')) demoKeeperDb)) of
      Redeemed a \<Rightarrow> True | RedeemFailed s r \<Rightarrow> False" by code_simp
  then obtain a where a: "redeemAccessResult answer = Redeemed a" using served by (auto simp: code split: redeem_result.splits)
  have "ab_redemptions demoKeeperDb = []" by (simp add: demoKeeperDb_def)
  with redeem_opens_the_gate[OF ok h refl served, of demoKeeper] a served show ?thesis by (simp add: code)
qed

section \<open>The wallet\<close>

text \<open>In every run of the gate, a signature is asked for the connected wallet's own text only, one referral is applied at a
  time, and what is in flight was signed for.\<close>

theorem keeper_asks_for_its_own:
  assumes "keeper_reach k"
  shows "(\<forall>p \<in> set (gk_asked k). ownText p) \<and> length (gk_applies k) \<le> 1 \<and>
    (\<forall>f \<in> set (gk_redeems k). (rf_wallet f, wAccessMessage (rf_wallet f) (rf_code f) (rf_ref f)) \<in> set (gk_asked k))"
  using keeper_reach_ok[OF assms] by (auto simp: keeperOk_def)

theorem keeper_asks_for_its_own_witness: "length (gk_applies demoKeeper) \<le> 1"
  using keeper_asks_for_its_own[of demoKeeper] keeper_reach.mounted unfolding demoKeeper_def by blast

end
