(* ===== verification/Web_Build.thy ===== *)
theory Web_Build
  imports Views Web_Hooks_Laws
begin

text \<open>
  What a browser bundle is built for: the checks of the build (\<open>web/vite.config.ts\<close>, \<open>web/src/env.ts\<close>), the cluster
  (\<open>web/src/cluster.ts\<close>), what the page reads of its environment when it loads (\<open>web/src/chain.ts\<close>), the choice
  of the wallet layer (\<open>web/src/wallets.tsx\<close>) and the gate of the development wallet (\<open>web/src/dev-burner.ts\<close>); and
  the identity the analytics follow (\<open>wallets.tsx\<close>).

  The environment is a map from names to texts; the bundler puts the same one into the page that the build checked.
  Key and URL parsing, and the public endpoint of a cluster, are arguments.
\<close>

type_synonym vite_env = "string \<rightharpoonup> string"

section \<open>The environment\<close>

definition envText :: "vite_env \<Rightarrow> string \<Rightarrow> string option" where
  "envText env key = (case env key of None \<Rightarrow> None | Some v \<Rightarrow> if trimText v = [] then None else Some (trimText v))"

definition REQUIRED_IN_PRODUCTION :: "string list" where
  "REQUIRED_IN_PRODUCTION = [''VITE_CLUSTER'', ''VITE_API_URL'', ''VITE_PRIVY_APP_ID'', ''VITE_PROGRAM_ID'', ''VITE_POOL_ID'']"

definition validateProdEnv :: "vite_env \<Rightarrow> unit res" where
  "validateProdEnv env =
    (let missing = filter (\<lambda>key. envText env key = None) REQUIRED_IN_PRODUCTION
     in if missing \<noteq> [] then Inl (''Missing required production environment value(s): '' @ joinWith '', '' missing) else Inr ())"

section \<open>The cluster\<close>

datatype solana_cluster = Devnet | MainnetBeta

definition clusterFrom :: "vite_env \<Rightarrow> solana_cluster res" where
  "clusterFrom env =
    (let raw = (case envText env ''VITE_CLUSTER'' of None \<Rightarrow> ''devnet'' | Some v \<Rightarrow> v)
     in if raw = ''devnet'' then Inr Devnet
        else if raw = ''mainnet-beta'' then Inr MainnetBeta
        else Inl (''VITE_CLUSTER must be \"devnet\" or \"mainnet-beta\", got \"'' @ raw @ ''\"''))"

definition faucetEnabled :: "solana_cluster \<Rightarrow> bool" where "faucetEnabled c = (c = Devnet)"
definition gameGated :: "string option \<Rightarrow> bool" where "gameGated raw = (raw = Some ''off'')"
definition jackpotGated :: "string option \<Rightarrow> bool" where "jackpotGated raw = (raw = Some ''off'')"

definition signingChain :: "solana_cluster \<Rightarrow> string" where
  "signingChain c = (if c = Devnet then ''solana:devnet'' else ''solana:mainnet'')"

text \<open>The build: the cluster always, the rest in production mode.\<close>

definition validateCluster :: "string \<Rightarrow> vite_env \<Rightarrow> unit res" where
  "validateCluster mode env =
    rbind (clusterFrom env) (\<lambda>_. if mode = ''production'' then validateProdEnv env else Inr ())"

section \<open>The page's constants\<close>

definition programIdFrom :: "(string \<Rightarrow> pubkey res) \<Rightarrow> string option \<Rightarrow> string \<Rightarrow> bool \<Rightarrow> pubkey res" where
  "programIdFrom parseKey raw idlAddress isProd =
    (case raw of
       Some s \<Rightarrow> parseKey s
     | None \<Rightarrow>
         if isProd then Inl (''VITE_PROGRAM_ID is required in a production build; refusing to fall back to the IDL'' @ [CHR 0x27] @ ''s dev address.'')
         else parseKey idlAddress)"

text \<open>\<open>BigInt(text)\<close> of a text without surrounding blanks: decimal with a sign, or another radix without one.\<close>

definition bigIntLiteral :: "string \<Rightarrow> int res" where
  "bigIntLiteral s =
    (case radixOf s of
       Some b \<Rightarrow> (case (if drop 2 s = [] then None else readRadix b 0 (drop 2 s)) of
                   None \<Rightarrow> Inl (''Cannot convert '' @ s @ '' to a BigInt'') | Some n \<Rightarrow> Inr (int n))
     | None \<Rightarrow> bigIntOf (if prefix ''+'' s \<and> list_all isDigit (drop 1 s) \<and> drop 1 s \<noteq> [] then drop 1 s else s))"

record web_constants =
  wc_cluster :: solana_cluster
  wc_gameGated :: bool
  wc_jackpotGated :: bool
  wc_signingChain :: string
  wc_programId :: pubkey
  wc_poolId :: int
  wc_rpcUrl :: string
  wc_apiUrl :: string

definition loadConstants ::
    "(string \<Rightarrow> pubkey res) \<Rightarrow> (solana_cluster \<Rightarrow> string) \<Rightarrow> string \<Rightarrow> bool \<Rightarrow> vite_env \<Rightarrow> web_constants res" where
  "loadConstants parseKey clusterApiUrl idlAddress isProd env =
    rbind (clusterFrom env) (\<lambda>c.
    rbind (programIdFrom parseKey (envText env ''VITE_PROGRAM_ID'') idlAddress isProd) (\<lambda>program.
    rbind (bigIntLiteral (case envText env ''VITE_POOL_ID'' of None \<Rightarrow> ''1'' | Some v \<Rightarrow> v)) (\<lambda>pool.
      Inr \<lparr>wc_cluster = c, wc_gameGated = gameGated (env ''VITE_GATE_GAME''), wc_jackpotGated = jackpotGated (env ''VITE_GATE_JACKPOT''),
           wc_signingChain = signingChain c, wc_programId = program, wc_poolId = pool,
           wc_rpcUrl = (case envText env ''VITE_PUBLIC_RPC_URL'' of None \<Rightarrow> clusterApiUrl c | Some u \<Rightarrow> u),
           wc_apiUrl = (case envText env ''VITE_API_URL'' of None \<Rightarrow> ''http://127.0.0.1:8080'' | Some u \<Rightarrow> u)\<rparr>)))"

section \<open>The wallet layer\<close>

definition PRIVY_APP_ID_FALLBACK :: string where "PRIVY_APP_ID_FALLBACK = ''cmtlbhuh402u30cjv957bvump''"

text \<open>\<open>None\<close> is no Privy at all.\<close>

definition privyAppIdFrom :: "vite_env \<Rightarrow> bool \<Rightarrow> string option res" where
  "privyAppIdFrom env isProd =
    (case map_option trimText (env ''VITE_PRIVY_APP_ID'') of
       Some raw \<Rightarrow> if raw = [] \<or> map lowerChar raw = ''off'' then Inr None else Inr (Some raw)
     | None \<Rightarrow>
         if isProd
         then Inl ''VITE_PRIVY_APP_ID is required in a production build; set a real app id, or \"off\" to use standard wallets.''
         else Inr (Some PRIVY_APP_ID_FALLBACK))"

datatype wallet_mode = Privy | Standard

definition walletModeFor :: "vite_env \<Rightarrow> bool \<Rightarrow> wallet_mode res" where
  "walletModeFor env isProd = rbind (privyAppIdFrom env isProd) (\<lambda>a. Inr (if a = None then Standard else Privy))"

text \<open>The development wallet: its key's seed is in the source, so it is meant for a local validator only.\<close>

definition isLocalRpc :: "(string \<Rightarrow> string option) \<Rightarrow> string option \<Rightarrow> bool" where
  "isLocalRpc hostOf url =
    (case hostOf (case url of None \<Rightarrow> [] | Some u \<Rightarrow> u) of
       Some host \<Rightarrow> host = ''localhost'' \<or> host = ''127.0.0.1''
     | None \<Rightarrow> (case url of None \<Rightarrow> True | Some u \<Rightarrow> trimText u = []))"

definition burnerEnabled :: "(string \<Rightarrow> string option) \<Rightarrow> vite_env \<Rightarrow> bool" where
  "burnerEnabled hostOf env =
    (map_option trimText (env ''VITE_BURNER_WALLET'') = Some ''1'' \<and> isLocalRpc hostOf (env ''VITE_PUBLIC_RPC_URL''))"

text \<open>\<open>main.tsx\<close> reads the variables of the wallets and takes the endpoint from the constants.\<close>

definition mainEnv :: "web_constants \<Rightarrow> vite_env \<Rightarrow> vite_env" where
  "mainEnv c env = (\<lambda>key.
    if key = ''VITE_PUBLIC_RPC_URL'' then Some (wc_rpcUrl c)
    else if key \<in> {''VITE_PRIVY_APP_ID'', ''VITE_PRIVY_CLIENT_ID'', ''VITE_BURNER_WALLET''} then env key else None)"

section \<open>The identity the analytics follow\<close>

datatype identity_call = Disconnected | ResetIdentity | Identify string wallet_mode | Connected wallet_mode

definition walletIdentity :: "wallet_mode \<Rightarrow> string option \<Rightarrow> string option \<Rightarrow> identity_call list \<times> string option" where
  "walletIdentity mode pubkey previous =
    (if pubkey = previous then ([], previous)
     else ((if previous \<noteq> None then [Disconnected, ResetIdentity] else []) @
           (case pubkey of None \<Rightarrow> [] | Some k \<Rightarrow> [Identify k mode, Connected mode]), pubkey))"

fun identityRuns :: "string option \<Rightarrow> (wallet_mode \<times> string option) list \<Rightarrow> identity_call list" where
  "identityRuns previous [] = []"
| "identityRuns previous ((mode, pubkey) # rs) =
    (case walletIdentity mode pubkey previous of (calls, p) \<Rightarrow> calls @ identityRuns p rs)"

section \<open>Laws\<close>

lemma loadConstants_Inr:
  assumes "loadConstants parseKey clusterApiUrl idl isProd env = Inr c"
  shows "clusterFrom env = Inr (wc_cluster c)" "wc_signingChain c = signingChain (wc_cluster c)"
    "programIdFrom parseKey (envText env ''VITE_PROGRAM_ID'') idl isProd = Inr (wc_programId c)"
    "bigIntLiteral (case envText env ''VITE_POOL_ID'' of None \<Rightarrow> ''1'' | Some v \<Rightarrow> v) = Inr (wc_poolId c)"
    "wc_rpcUrl c = (case envText env ''VITE_PUBLIC_RPC_URL'' of None \<Rightarrow> clusterApiUrl (wc_cluster c) | Some u \<Rightarrow> u)"
    "wc_apiUrl c = (case envText env ''VITE_API_URL'' of None \<Rightarrow> ''http://127.0.0.1:8080'' | Some u \<Rightarrow> u)"
proof -
  obtain k where k: "clusterFrom env = Inr k" using assms by (cases "clusterFrom env") (auto simp: loadConstants_def)
  obtain p where p: "programIdFrom parseKey (envText env ''VITE_PROGRAM_ID'') idl isProd = Inr p"
    using assms k by (cases "programIdFrom parseKey (envText env ''VITE_PROGRAM_ID'') idl isProd") (auto simp: loadConstants_def)
  let ?n = "bigIntLiteral (case envText env ''VITE_POOL_ID'' of None \<Rightarrow> ''1'' | Some v \<Rightarrow> v)"
  obtain i where i: "?n = Inr i" using assms k p by (cases ?n) (auto simp: loadConstants_def)
  from assms k p i show "clusterFrom env = Inr (wc_cluster c)" "wc_signingChain c = signingChain (wc_cluster c)"
    "programIdFrom parseKey (envText env ''VITE_PROGRAM_ID'') idl isProd = Inr (wc_programId c)" "?n = Inr (wc_poolId c)"
    "wc_rpcUrl c = (case envText env ''VITE_PUBLIC_RPC_URL'' of None \<Rightarrow> clusterApiUrl (wc_cluster c) | Some u \<Rightarrow> u)"
    "wc_apiUrl c = (case envText env ''VITE_API_URL'' of None \<Rightarrow> ''http://127.0.0.1:8080'' | Some u \<Rightarrow> u)"
    by (auto simp: loadConstants_def split: option.split)
qed

text \<open>A production bundle runs on what it was given: once the build has passed and the page has loaded, no default stands
  for the cluster, the program, the Pool, the API or the wallet layer, and the chain the wallet signs on is the one whose
  genesis block the page will check.\<close>

theorem production_bundle_has_no_defaults:
  assumes "validateCluster ''production'' env = Inr ()"
    and "loadConstants parseKey clusterApiUrl idl isProd env = Inr c"
  shows "\<exists>cl p n a privy. envText env ''VITE_CLUSTER'' = Some cl \<and> cl = (if wc_cluster c = Devnet then ''devnet'' else ''mainnet-beta'') \<and>
    envText env ''VITE_PROGRAM_ID'' = Some p \<and> parseKey p = Inr (wc_programId c) \<and>
    envText env ''VITE_POOL_ID'' = Some n \<and> bigIntLiteral n = Inr (wc_poolId c) \<and>
    envText env ''VITE_API_URL'' = Some a \<and> a = wc_apiUrl c \<and>
    envText env ''VITE_PRIVY_APP_ID'' = Some privy \<and>
    privyAppIdFrom env isProd = Inr (if map lowerChar privy = ''off'' then None else Some privy) \<and>
    (wc_signingChain c = ''solana:mainnet'' \<longleftrightarrow> wc_cluster c = MainnetBeta)"
proof -
  have "validateProdEnv env = Inr ()" using assms(1) by (cases "clusterFrom env") (simp_all add: validateCluster_def)
  then have "filter (\<lambda>key. envText env key = None) REQUIRED_IN_PRODUCTION = []"
    by (simp add: validateProdEnv_def Let_def del: filter_empty_conv split: if_splits)
  then have given: "envText env key \<noteq> None" if "key \<in> set REQUIRED_IN_PRODUCTION" for key
    using that unfolding filter_empty_conv by blast
  have names: "{''VITE_CLUSTER'', ''VITE_PROGRAM_ID'', ''VITE_POOL_ID'', ''VITE_API_URL'', ''VITE_PRIVY_APP_ID''} \<subseteq> set REQUIRED_IN_PRODUCTION"
    by (simp add: REQUIRED_IN_PRODUCTION_def)
  obtain cl where cl: "envText env ''VITE_CLUSTER'' = Some cl" using given[of "''VITE_CLUSTER''"] names by auto
  obtain p where p: "envText env ''VITE_PROGRAM_ID'' = Some p" using given[of "''VITE_PROGRAM_ID''"] names by auto
  obtain n where n: "envText env ''VITE_POOL_ID'' = Some n" using given[of "''VITE_POOL_ID''"] names by auto
  obtain a where a: "envText env ''VITE_API_URL'' = Some a" using given[of "''VITE_API_URL''"] names by auto
  obtain privy where privy: "envText env ''VITE_PRIVY_APP_ID'' = Some privy" using given[of "''VITE_PRIVY_APP_ID''"] names by auto
  note c = loadConstants_Inr[OF assms(2)]
  have "cl = (if wc_cluster c = Devnet then ''devnet'' else ''mainnet-beta'')"
    using c(1) cl by (auto simp: clusterFrom_def Let_def split: if_splits)
  moreover have "privyAppIdFrom env isProd = Inr (if map lowerChar privy = ''off'' then None else Some privy)"
    using privy by (auto simp: privyAppIdFrom_def envText_def split: option.splits if_splits)
  moreover have "wc_signingChain c = ''solana:mainnet'' \<longleftrightarrow> wc_cluster c = MainnetBeta"
    unfolding c(2) by (cases "wc_cluster c") (simp_all add: signingChain_def)
  moreover have "parseKey p = Inr (wc_programId c)" "bigIntLiteral n = Inr (wc_poolId c)" "a = wc_apiUrl c"
    using c(3,4,6) p n a by (simp_all add: programIdFrom_def)
  ultimately show ?thesis using cl p n a privy by blast
qed

definition demoVite :: vite_env where
  "demoVite = [''VITE_CLUSTER'' \<mapsto> ''mainnet-beta'', ''VITE_API_URL'' \<mapsto> ''https://api'', ''VITE_PRIVY_APP_ID'' \<mapsto> ''off'',
     ''VITE_PROGRAM_ID'' \<mapsto> ''P'', ''VITE_POOL_ID'' \<mapsto> ''7'', ''VITE_BURNER_WALLET'' \<mapsto> ''1'']"

definition demoEndpoint :: "solana_cluster \<Rightarrow> string" where
  "demoEndpoint c = (if c = Devnet then ''https://api.devnet.solana.com'' else ''https://api.mainnet-beta.solana.com'')"

definition demoConstants :: web_constants where
  "demoConstants = \<lparr>wc_cluster = MainnetBeta, wc_gameGated = False, wc_jackpotGated = False, wc_signingChain = ''solana:mainnet'',
     wc_programId = [1], wc_poolId = 7, wc_rpcUrl = ''https://api.mainnet-beta.solana.com'', wc_apiUrl = ''https://api''\<rparr>"

lemma demoVite_loads:
  "validateCluster ''production'' demoVite = Inr ()"
  "loadConstants (\<lambda>_. Inr [1]) demoEndpoint ''IDL'' True demoVite = Inr demoConstants"
  by code_simp+

theorem production_bundle_has_no_defaults_witness:
  "\<exists>n. envText demoVite ''VITE_POOL_ID'' = Some n \<and> bigIntLiteral n = Inr 7"
  using production_bundle_has_no_defaults[OF demoVite_loads] by (auto simp: demoConstants_def)

text \<open>The development wallet, whose key anybody can derive, is on offer only where the page itself talks to a local
  validator: \<open>main.tsx\<close> hands on the endpoint the page resolved, not the variable it may not have.\<close>

theorem burner_only_on_a_local_endpoint:
  assumes "loadConstants parseKey clusterApiUrl idl isProd env = Inr c" "\<And>k. trimText (clusterApiUrl k) \<noteq> []"
    "burnerEnabled hostOf (mainEnv c env)"
  shows "hostOf (wc_rpcUrl c) \<in> {Some ''localhost'', Some ''127.0.0.1''} \<and> map_option trimText (env ''VITE_BURNER_WALLET'') = Some ''1''"
proof -
  have "trimText (wc_rpcUrl c) \<noteq> []"
    unfolding loadConstants_Inr(5)[OF assms(1)] using assms(2) trimText_trimText
    by (auto simp: envText_def split: option.splits if_splits)
  then show ?thesis using assms(3) by (auto simp: burnerEnabled_def mainEnv_def isLocalRpc_def split: option.splits)
qed

theorem burner_only_on_a_local_endpoint_witness:
  "\<not> burnerEnabled (\<lambda>u. if u = [] then None else Some ''host'') (mainEnv demoConstants demoVite)"
proof
  assume b: "burnerEnabled (\<lambda>u. if u = [] then None else Some ''host'') (mainEnv demoConstants demoVite)"
  have url: "trimText (demoEndpoint k) \<noteq> []" for k by (cases k) (simp_all add: demoEndpoint_def, code_simp+)
  from burner_only_on_a_local_endpoint[OF demoVite_loads(2) url, unfolded demoConstants_def[symmetric], OF b] show False
    by (auto split: if_splits)
qed

text \<open>On its own the gate trusts a missing variable: it takes an unset endpoint for the local validator, while the page
  falls back to the public one.\<close>

lemma burner_gate_trusts_a_missing_endpoint:
  "burnerEnabled (\<lambda>u. if u = [] then None else Some ''host'') demoVite \<and> wc_rpcUrl demoConstants = demoEndpoint MainnetBeta"
  by (simp add: burnerEnabled_def isLocalRpc_def demoVite_def demoConstants_def demoEndpoint_def) code_simp

text \<open>The analytics follow the wallet: whatever renders come, every identification but the first is preceded by a reset
  of the one before, so no event of one wallet is filed under another.\<close>

fun wellBracketed :: "string option \<Rightarrow> identity_call list \<Rightarrow> bool" where
  "wellBracketed w [] = True"
| "wellBracketed w (Identify k m # cs) = (w = None \<and> wellBracketed (Some k) cs)"
| "wellBracketed w (ResetIdentity # cs) = (w \<noteq> None \<and> wellBracketed None cs)"
| "wellBracketed w (c # cs) = wellBracketed w cs"

lemma wellBracketed_run:
  "walletIdentity mode pubkey previous = (calls, p) \<Longrightarrow> wellBracketed p rest \<Longrightarrow> wellBracketed previous (calls @ rest)"
  by (cases previous; cases pubkey) (auto simp: walletIdentity_def split: if_splits)

theorem identity_follows_the_wallet: "wellBracketed previous (identityRuns previous rs)"
proof (induction rs arbitrary: previous)
  case (Cons r rs)
  obtain mode pubkey where r: "r = (mode, pubkey)" by fastforce
  obtain calls p where w: "walletIdentity mode pubkey previous = (calls, p)" by fastforce
  show ?case using wellBracketed_run[OF w Cons.IH] by (simp add: r w)
qed simp

end
