(* ===== verification/Account_Views.thy ===== *)
theory Account_Views
  imports Decode
begin

text \<open>
  The Operator's readers of the program's accounts (\<open>operator/chain-state.ts\<close>). Anchor's coder, which knows the
  account layouts, is an argument: it gives the account's fields or throws. An account is what the Indexer decodes
  (\<open>Decode\<close>) extended by the fields only the Operator reads, so that both look at the same value.
\<close>

record chain_pool = decoded_pool +
  cp_treasury :: pubkey
  cp_buybackReserve :: pubkey
  cp_house :: pubkey
  cp_vrfNetworkState :: pubkey
  cp_vrfTimeout :: int
  cp_registrationWindow :: int
  cp_payoutTimeout :: int
  cp_nextRoundId :: int
  cp_openRoundId :: int

record chain_epoch = decoded_epoch +
  ce_vrfSeed :: bytes
  ce_requestedAt :: int
  ce_drawnAt :: int
  ce_registrationOpenedAt :: int

record chain_round = decoded_round +
  cr_vrfSeed :: bytes
  cr_requestedAt :: int

definition decodePool :: "(bytes \<Rightarrow> chain_pool res) \<Rightarrow> pubkey \<Rightarrow> bytes \<Rightarrow> pool_state res" where
  "decodePool coder address data =
    rbind (coder data) (\<lambda>raw. Inr
      \<lparr>pl_address = address, pl_admin = dp_admin raw, pl_operator = dp_operator raw, pl_acceptedMint = dp_acceptedMint raw,
       pl_treasury = cp_treasury raw, pl_buybackReserve = cp_buybackReserve raw, pl_house = cp_house raw,
       pl_vrfNetworkState = cp_vrfNetworkState raw, pl_epochSeconds = dp_epochSeconds raw, pl_roundSeconds = dp_roundSeconds raw,
       pl_closeBuffer = dp_closeBuffer raw, pl_vrfTimeout = cp_vrfTimeout raw, pl_registrationWindow = cp_registrationWindow raw,
       pl_payoutTimeout = cp_payoutTimeout raw, pl_paused = dp_paused raw, pl_currentEpochId = dp_currentEpochId raw,
       pl_nextRoundId = cp_nextRoundId raw, pl_openRoundId = cp_openRoundId raw, pl_totalPrincipal = dp_totalPrincipal raw,
       pl_shutdown = dp_shutdown raw, pl_gamePaused = dp_gamePaused raw, pl_jackpotPaused = dp_jackpotPaused raw\<rparr>)"

definition decodeEpoch :: "(bytes \<Rightarrow> chain_epoch res) \<Rightarrow> bytes \<Rightarrow> epoch_state res" where
  "decodeEpoch coder data =
    rbind (coder data) (\<lambda>raw. Inr
      \<lparr>ep_epochId = de_epochId raw, ep_startsAt = de_startsAt raw, ep_endsAt = de_endsAt raw, ep_status = de_status raw,
       ep_registeredCount = de_registeredCount raw, ep_jackpotAmount = de_jackpotAmount raw, ep_vrfSeed = ce_vrfSeed raw,
       ep_requestedAt = ce_requestedAt raw, ep_target = de_target raw, ep_drawnAt = ce_drawnAt raw,
       ep_registrationOpenedAt = ce_registrationOpenedAt raw\<rparr>)"

definition decodeRound :: "(bytes \<Rightarrow> chain_round res) \<Rightarrow> bytes \<Rightarrow> round_state res" where
  "decodeRound coder data =
    rbind (coder data) (\<lambda>raw. Inr
      \<lparr>rd_roundId = dr_roundId raw, rd_endsAt = dr_endsAt raw, rd_status = dr_status raw, rd_vrfSeed = cr_vrfSeed raw,
       rd_requestedAt = cr_requestedAt raw\<rparr>)"

definition decodePlayer :: "(bytes \<Rightarrow> decoded_player res) \<Rightarrow> bytes \<Rightarrow> player_state res" where
  "decodePlayer coder data = rbind (coder data) (\<lambda>raw. Inr \<lparr>ps_entries = dy_entries raw\<rparr>)"

text \<open>The Operator and the Indexer read one account alike: what both keep of a Pool, an Epoch and a Round is the same, so
  a decision the Operator takes on the chain and a query it makes of the mirror speak of the same state.\<close>

theorem pool_readers_agree:
  assumes "coder data = Inr raw" "decodePool coder address data = Inr p"
  shows "let row = poolRow b58 address (decoded_pool.truncate raw) slot in
    pr_address row = b58 (pl_address p) \<and> pr_admin row = b58 (pl_admin p) \<and> pr_operator row = b58 (pl_operator p) \<and>
    pr_mint row = b58 (pl_acceptedMint p) \<and> pr_epochSeconds row = pl_epochSeconds p \<and> pr_roundSeconds row = pl_roundSeconds p \<and>
    pr_closeBuffer row = pl_closeBuffer p \<and> pr_paused row = pl_paused p \<and> pr_currentEpochId row = pl_currentEpochId p \<and>
    pr_totalPrincipal row = pl_totalPrincipal p \<and> pr_shutdown row = pl_shutdown p \<and> pr_gamePaused row = pl_gamePaused p \<and>
    pr_jackpotPaused row = pl_jackpotPaused p"
  using assms by (auto simp: decodePool_def poolRow_def decoded_pool.truncate_def)

theorem epoch_readers_agree:
  assumes "coder data = Inr raw" "decodeEpoch coder data = Inr e"
  shows "let row = epochRow b58 (decoded_epoch.truncate raw) pool in
    er_id row = ep_epochId e \<and> er_startsAt row = ep_startsAt e \<and> er_endsAt row = ep_endsAt e \<and> er_status row = ep_status e \<and>
    er_registeredCount row = ep_registeredCount e \<and> er_jackpotAmount row = ep_jackpotAmount e \<and> er_target row = ep_target e"
  using assms by (auto simp: decodeEpoch_def epochRow_def decoded_epoch.truncate_def)

theorem round_readers_agree:
  assumes "coder data = Inr raw" "decodeRound coder data = Inr r"
  shows "let row = roundRow (decoded_round.truncate raw) pool in
    rr_id row = rd_roundId r \<and> rr_endsAt row = rd_endsAt r \<and> rr_status row = rd_status r"
  using assms by (auto simp: decodeRound_def roundRow_def decoded_round.truncate_def)

end
