(* ===== verification/Buy_Form.thy ===== *)
theory Buy_Form
  imports Money Web_Send
begin

text \<open>
  The purchase form as it lives (\<open>web/src/useBuyTickets.ts\<close>): typing, the click, and the end of the purchase, over the
  view of one render that \<open>Money\<close> computes. \<open>bf_flight\<close> is the purchase the wallet was asked for; the outcome is
  what \<open>awaitSendResult\<close> came back with. \<open>bf_asked\<close> and \<open>bf_failed\<close> record the run.
\<close>

record buy_form =
  bf_amountText :: string
  bf_busy :: bool
  bf_error :: "string option"
  bf_flight :: "int option"
  bf_asked :: "int list"
  bf_done :: nat
  bf_failed :: nat

definition FRESH_FORM :: buy_form where
  "FRESH_FORM = \<lparr>bf_amountText = [], bf_busy = False, bf_error = None, bf_flight = None, bf_asked = [], bf_done = 0, bf_failed = 0\<rparr>"

definition submitBuy :: "buy_options \<Rightarrow> buy_form \<Rightarrow> buy_form" where
  "submitBuy opt s =
    (case buyView opt (bf_amountText s) (bf_busy s) of
       Inl e \<Rightarrow> s
     | Inr v \<Rightarrow>
         (case bv_amount v of
            None \<Rightarrow> s
          | Some amount \<Rightarrow>
              if \<not> bv_canSubmit v then s
              else s\<lparr>bf_busy := True, bf_error := None, bf_flight := Some amount, bf_asked := bf_asked s @ [amount]\<rparr>))"

text \<open>\<open>onDone\<close> is called, and the field emptied, only when the purchase landed.\<close>

definition endBuy :: "web_env \<Rightarrow> send_result res \<Rightarrow> buy_form \<Rightarrow> buy_form" where
  "endBuy env outcome s =
    (case outcome of
       Inr (Landed signature) \<Rightarrow> s\<lparr>bf_amountText := [], bf_done := bf_done s + 1\<rparr>
     | Inr r \<Rightarrow> s\<lparr>bf_error := Some (fst (decodeSendFailure env r)), bf_failed := bf_failed s + 1\<rparr>
     | Inl e \<Rightarrow> s\<lparr>bf_error := Some (decodePlayerError env e), bf_failed := bf_failed s + 1\<rparr>)
      \<lparr>bf_busy := False, bf_flight := None\<rparr>"

inductive buy_step :: "web_env \<Rightarrow> buy_form \<Rightarrow> buy_form \<Rightarrow> bool" for env where
  typed: "buy_step env s (s\<lparr>bf_amountText := t\<rparr>)"
| clicked: "buy_step env s (submitBuy opt s)"
| ended: "bf_flight s \<noteq> None \<Longrightarrow> buy_step env s (endBuy env outcome s)"

inductive buy_reach :: "web_env \<Rightarrow> buy_form \<Rightarrow> bool" for env where
  fresh: "buy_reach env FRESH_FORM"
| step: "buy_reach env s \<Longrightarrow> buy_step env s s' \<Longrightarrow> buy_reach env s'"

inductive_cases buy_stepE: "buy_step env s s'"

section \<open>Laws\<close>

text \<open>A click that asks, asks for what is typed, within the allowance shown, of a Player who may buy.\<close>

lemma submitBuy_cases:
  obtains "submitBuy opt s = s"
  | amount left where "\<not> bf_busy s" "parseAtomic (bf_amountText s) 6 = Inr (Some amount)" "0 < amount"
      "bu_allowanceLeft opt = Some left" "amount \<le> left" "widgetDisabledReason opt = None" "bu_owner opt"
      "submitBuy opt s = s\<lparr>bf_busy := True, bf_error := None, bf_flight := Some amount, bf_asked := bf_asked s @ [amount]\<rparr>"
proof (cases "parseAtomic (bf_amountText s) 6")
  case (Inl e)
  then show thesis using that(1) by (simp add: submitBuy_def buyView_def)
next
  case (Inr a)
  show thesis
  proof (cases a)
    case None
    then show thesis using that(1) Inr by (simp add: submitBuy_def buyView_def Let_def)
  next
    case (Some amount)
    show thesis
    proof (cases "bu_allowanceLeft opt")
      case None
      then show thesis using that(1) Inr Some by (simp add: submitBuy_def buyView_def Let_def)
    next
      case (Some left)
      show thesis
      proof (cases "submitBuy opt s = s")
        case False
        then show thesis using that(2) Inr \<open>a = Some amount\<close> Some
          by (auto simp: submitBuy_def buyView_def Let_def split: if_splits)
      qed (rule that(1))
    qed
  qed
qed

definition buyOk :: "buy_form \<Rightarrow> bool" where
  "buyOk s \<longleftrightarrow> (bf_busy s \<longleftrightarrow> bf_flight s \<noteq> None) \<and> (\<forall>a \<in> set (bf_asked s). 0 < a) \<and>
    length (bf_asked s) = bf_done s + bf_failed s + (if bf_busy s then 1 else 0)"

lemma buy_step_ok:
  assumes "buyOk s" "buy_step env s s'"
  shows "buyOk s'"
  using assms(2)
proof cases
  case (typed t)
  then show ?thesis using assms(1) by (simp add: buyOk_def)
next
  case (clicked opt)
  show ?thesis unfolding clicked(1)
    by (rule submitBuy_cases[of opt s]) (use assms(1) in \<open>auto simp: buyOk_def\<close>)
next
  case (ended outcome)
  have b: "bf_busy s" using assms(1) ended(2) by (simp add: buyOk_def)
  show ?thesis
  proof (cases outcome)
    case (Inr r)
    then show ?thesis using assms(1) b unfolding ended(1) by (cases r) (simp_all add: endBuy_def buyOk_def)
  next
    case (Inl e)
    then show ?thesis using assms(1) b unfolding ended(1) by (simp add: endBuy_def buyOk_def)
  qed
qed

text \<open>Whatever is typed, clicked and answered: one purchase at a time, each of a positive amount, and the screen refreshes
  once for each that landed; the rest were told apart as failed, and nothing is lost.\<close>

theorem purchases_are_accounted_for:
  assumes "buy_reach env s"
  shows "length (bf_asked s) = bf_done s + bf_failed s + (if bf_flight s = None then 0 else 1) \<and>
    (\<forall>a \<in> set (bf_asked s). 0 < a) \<and>
    (bf_flight s \<noteq> None \<longrightarrow> submitBuy opt s = s)"
proof -
  have ok: "buyOk s" using assms
  proof (induction rule: buy_reach.induct)
    case fresh
    show ?case by (simp add: FRESH_FORM_def buyOk_def)
  next
    case (step s s')
    then show ?case using buy_step_ok by blast
  qed
  have "submitBuy opt s = s" if "bf_flight s \<noteq> None"
    by (rule submitBuy_cases[of opt s]) (use ok that in \<open>auto simp: buyOk_def\<close>)
  then show ?thesis using ok by (auto simp: buyOk_def)
qed

theorem purchases_are_accounted_for_witness:
  "length (bf_asked FRESH_FORM) = bf_done FRESH_FORM + bf_failed FRESH_FORM"
  using purchases_are_accounted_for[OF buy_reach.fresh] by (simp add: FRESH_FORM_def)

end
