(* ===== verification/Spec2Isabelle.thy ===== *)
theory Spec2Isabelle
  imports Vrf Tick_Progress Operator_Laws Indexer_Sync_Laws Indexer_Jobs Http_Routes_Laws Chain_Service Alerts Services
    Board_Laws Web_Send_Laws Round_Engine_Laws Web_Hooks_Laws
    Config_Laws Admin_Laws Admin_Run_Laws Bootstrap_Laws
    Play_Laws Views_Laws Vault_Laws Gate_Redeem_Laws Web_Build Account_Views Buy_Form
begin

text \<open>
  HEXO: a verification development for the off-chain part of a Solana prize-savings game.

  \<^bold>\<open>The program.\<close> Players deposit stablecoins into a Pool, keep their principal, and spend the tickets
  it accrues on the tiles of hourly Rounds and on a daily draw (an Epoch). The on-chain program moves
  the money. The code verified here is everything around it: the Operator, which advances the chain's
  state machine one transaction at a time; the Indexer, which mirrors the chain into a database; the
  HTTP API that reads the mirror, gates the beta and pays referral bonuses; and the browser client, which
  reads the API, builds transactions and shows what they did. They meet in three places: the database
  (Indexer and access routes write it, the Operator's queries and the API read it), the instruction
  builders (backend and browser must agree), and the JSON the API serves. Paths below are relative to
  \<open>src/apps/backend/src\<close>, and to \<open>src/apps/web/src\<close> where they begin with \<open>web/\<close>.

  \<^bold>\<open>Prelude.\<close> \<open>Hexo_Prelude\<close> holds the result type of fallible code (\<open>Inl\<close> an error text, \<open>Inr\<close> a value)
  with its bind, bounded integer writers, JavaScript's text functions, decimal printing and reading, and
  the lemmas every component shares.

  \<^bold>\<open>Operator.\<close>
  \<^item> \<open>Chain_State\<close>, \<open>Account_Views\<close> (\<open>operator/chain-state.ts\<close>): the accounts of the program as records, and their
    readers, which agree with the Indexer's.
  \<^item> \<open>Vrf\<close> (\<open>operator/vrf.ts\<close>): Keccak-256 on unbounded integers as the code has it, proved equal to the
    sponge of FIPS 202 on 64-bit words; randomness addresses, the preimage and its injectivity.
  \<^item> \<open>Instructions\<close> (\<open>operator/instructions.ts\<close>, \<open>chain/pda.ts\<close>): each instruction with its accounts.
  \<^item> \<open>Tick\<close> (\<open>operator/tick.ts\<close>): one pass of \<open>decide\<close> as a chain of step functions over an accumulated
    state; \<open>Tick_Safety\<close> shows every sent instruction satisfies the on-chain guard as far as the snapshot
    tells, \<open>Tick_Progress\<close> what a tick achieves when the chain refuses.
  \<^item> \<open>Operator_Service\<close>, \<open>Operator_Laws\<close> (\<open>operator/operator.service.ts\<close>): reading the context, the
    memory of what was settled or registered, the state row, and the scheduler as a step relation. The
    locale \<open>tick_world\<close> states what a tick relies on, \<open>operator_env\<close> what the service gets from the
    chain; the second provides the first, and is interpreted on a concrete world.

  \<^bold>\<open>Mirror and API.\<close>
  \<^item> \<open>Tables\<close>: database tables as row lists with a unique key; the locale \<open>keyed_store\<close> states the laws of
    upsert and lookup, interpreted for them.
  \<^item> \<open>Decode\<close> (\<open>indexer/decode.ts\<close>), \<open>Indexer\<close>, \<open>Indexer_Sync\<close> and their \<open>_Laws\<close>
    (\<open>indexer/indexer.service.ts\<close>): decoding, the transaction that writes one batch of events, the catch-up
    walk, the account walk and sweep. Shown: replays change nothing, the catch-up finds exactly the unseen
    signatures and stores every event, the cursor is monotone, a sweep never undoes a newer row.
  \<^item> \<open>Indexer_Jobs\<close> (the same file): when that work runs, as a step relation over ticks, walks, queued tasks and log
    lines. One writer, in order, nothing lost; the indexer comes to rest once the logs stop.
  \<^item> \<open>Referral\<close>, \<open>Read_Model\<close> (\<open>api/referral.ts\<close>, \<open>api/referral-bonus.ts\<close>, \<open>api/referral-summary.ts\<close>
    and the queries of the Operator): the qualification tracker, bonus caps, shares, recorded grants.
  \<^item> \<open>Access\<close> (\<open>api/access.controller.ts\<close>, \<open>api/invite-code.ts\<close>, \<open>api/referral-code.ts\<close>): the routes as
    atomic transactions on two tables, with an invariant over every history of requests.
  \<^item> \<open>Api\<close>, \<open>Api_Routes\<close>, \<open>Api_Laws\<close> (\<open>api/api.service.ts\<close>, \<open>api/api.controller.ts\<close>): caches, the served
    clock, weights and odds, and every route. \<open>Alerts\<close> (\<open>api/alerts.controller.ts\<close>).
  \<^item> \<open>Http_Routes\<close>, \<open>Http_Routes_Laws\<close> (\<open>api/api.controller.ts\<close>, \<open>api/referrals.controller.ts\<close>, the list of
    \<open>api/access.controller.ts\<close>, \<open>api/error-report.controller.ts\<close>): the routes from their query texts on; bounded
    answers, pages that list every referral once, a list of invites that agrees with the gate's books.
  \<^item> \<open>Rpc_Fallback\<close>, \<open>Chain_Service\<close> (\<open>chain/rpc-fallback.ts\<close>, \<open>chain/chain.service.ts\<close>,
    \<open>chain/priority-fee.ts\<close>): endpoint fallback and redaction, sending and confirming a transaction.
  \<^item> \<open>Services\<close> (\<open>operator/sparring.ts\<close>, \<open>api/faucet.controller.ts\<close>, \<open>boot-guard.ts\<close>, \<open>health\<close>).

  \<^bold>\<open>Operations.\<close>
  \<^item> \<open>Js_Number\<close>: \<open>Number(text)\<close> with its rounding to a double, and when it is exact.
  \<^item> \<open>Config\<close>, \<open>Config_Laws\<close> (\<open>bootstrap/params.ts\<close>, \<open>config/env.ts\<close>): flags, the parameters of a Pool and the
    environment; what passes is well formed.
  \<^item> \<open>Bootstrap\<close>, \<open>Bootstrap_Laws\<close> (\<open>bootstrap.ts\<close>, \<open>sparring-setup.ts\<close>): the two set-up scripts as runs over a
    cluster; a second run creates nothing, and on mainnet nothing happens behind a default.
  \<^item> \<open>Admin\<close>, \<open>Admin_Run\<close> and their \<open>_Laws\<close> (\<open>admin/args.ts\<close>, \<open>admin/index.ts\<close>, \<open>admin/ledger.ts\<close>,
    \<open>admin/squads.ts\<close>): the parser, whose inverse is written down and proved, and each command as a run that
    sends or prints transactions; every one is signed by the key it needs, the emergency crank pays nobody
    twice, every printed invite code is redeemable.

  \<^bold>\<open>Browser.\<close>
  \<^item> \<open>Money\<close>, \<open>Buy_Form\<close> (\<open>web/lib/money.ts\<close>, \<open>web/useBuyTickets.ts\<close>): amounts as text, exactly, and the
    purchase form as a step relation.
  \<^item> \<open>Board\<close>, \<open>Board_Laws\<close> (\<open>web/lib/protocol.ts\<close>, \<open>web/engine.ts\<close>, \<open>web/clock.ts\<close>, \<open>web/launch.ts\<close>,
    \<open>web/tabs.ts\<close>): tiles and masks, phases of a Round, rewards, clocks.
  \<^item> \<open>Web_Send\<close>, \<open>Web_Send_Laws\<close> (\<open>web/read.ts\<close>, \<open>web/chain.ts\<close>, \<open>web/actions.ts\<close>): the browser builds the
    backend's instructions, asks the wallet once, and resolves an unknown outcome.
  \<^item> \<open>Round_Engine\<close>, \<open>Web_Hooks\<close> and their \<open>_Laws\<close> (\<open>web/useRoundEngine.ts\<close>, \<open>web/useAccessGate.ts\<close>,
    \<open>web/useStatePoll.ts\<close>): React hooks as step relations, one step per effect, timer or answer.
  \<^item> \<open>Gate_Redeem\<close>, \<open>Gate_Redeem_Laws\<close> (\<open>web/useAccessGate.ts\<close> again): redeeming and applying a referral, composed
    with the backend's routes: from the typed code to the row in the database and back to an opened gate, or to the
    right complaint.
  \<^item> \<open>Play\<close>, \<open>Play_Laws\<close> (\<open>web/App.tsx\<close>, \<open>web/panel/ControlPanel.tsx\<close>, \<open>web/panel/stakeBar.ts\<close>): the play
    screen; what it derives from its inputs, and placing a board by hand or on auto-rounds as a step relation. The
    wallet is asked for one placement at a time, the auto-rounds counter counts what landed.
  \<^item> \<open>Vault\<close>, \<open>Vault_Laws\<close> (\<open>web/screens/Vault.tsx\<close>): the deposit and withdraw widget as a step relation; it asks for
    what its form shows and its limits allow, its pills fit the balance, and a payout is asked for once.
  \<^item> \<open>Views\<close>, \<open>Views_Laws\<close> (\<open>web/activityRows.ts\<close>, \<open>web/screens/Dashboard.tsx\<close>, \<open>web/screens/WeeklyDraw.tsx\<close>,
    \<open>web/status.ts\<close>, \<open>web/referrals.ts\<close>, \<open>web/useApiPoll.ts\<close>, \<open>web/cluster.ts\<close>): what the read-only screens make of
    the API's answers, composed with the model of the API and of the Operator: every served event has its row,
    the pill agrees with the Operator's row, a placed board is on the pinned Pool.
  \<^item> \<open>Web_Build\<close> (\<open>web/env.ts\<close>, \<open>web/cluster.ts\<close>, \<open>web/chain.ts\<close>, parts of \<open>web/wallets.tsx\<close>, \<open>web/dev-burner.ts\<close>,
    \<open>web/main.tsx\<close>): what a bundle is built for; in production no default stands for anything, and the development
    wallet is on offer on a local endpoint only.

  \<^bold>\<open>How the code is read.\<close> Amounts and times are the code's \<open>bigint\<close> and are \<open>int\<close>; integer division is
  written so that it truncates as the source's does, and widths appear where bytes are written. A promise
  that rejects is \<open>Inl\<close>. A loop that need not end is a \<open>partial_function\<close> or a step relation, and \<open>None\<close>
  means that it did not return; the theorems about such loops prove that they do, under the stated
  behaviour of the chain. No definition takes fuel. A database transaction is one step. Between two steps
  of a scheduler or a hook any other step may come; within one, code runs to its end as JavaScript's does
  between two awaits, except where the text of a theory says that several awaits were taken together.

  \<^bold>\<open>Parameters.\<close> What is not in the repository is an argument: RPC answers, the wallet, the database's
  answers where the query is the library's, address derivation, signature checks, randomness of generated
  codes, the wall clock. Hypotheses on them say what the documentation of those libraries promises, and
  each property that has one comes with a concrete instance.

  \<^bold>\<open>Not modelled.\<close> The markup and drawing of the screens, sound, analytics, the third-party wallet objects, the yield
  estimate of the deposit widget (a floating-point power), Nest and Prisma wiring, the text of most log lines, the sockets themselves, the generated
  interface description, the on-chain program (another language), the end-to-end tests and the landing page.
\<close>

end
